(* ===== verification/Jhi_Prelude.thy ===== *)
theory Jhi_Prelude
  imports Main "HOL-Library.Word" "HOL-Library.State_Monad" "HOL-Library.List_Lexorder"
    "HOL-Library.Char_ord"
begin

text \<open>
  The shared vocabulary of the development: bytes and machine words, the state monad in which
  the service's stateful code is written, a small Hoare logic for it, and list lemmas.

  A C++ function that changes the service is a value of \<open>('s, 'a) state\<close>; a
  \<^verbatim>\<open>do { ... break; ... } while (0)\<close> body is a \<open>do\<close> block whose early exits are the
  branches of an \<open>if\<close>. \<open>spec P m Q\<close> is total correctness (every program of the monad
  terminates); \<open>preserves I m\<close> is its special case for invariants. The rules are collected
  in \<open>spec_intros\<close> and \<open>pres_intros\<close>, so a handler's proof is one application per step.
\<close>

named_theorems spec_intros
named_theorems pres_intros
named_theorems run_simps

type_synonym byte = "8 word"
type_synonym uint8 = "8 word"
type_synonym uint16 = "16 word"
type_synonym uint32 = "32 word"
type_synonym uint64 = "64 word"

section \<open>The state monad\<close>

abbreviation ret :: "'a \<Rightarrow> ('s, 'a) state" where
  "ret \<equiv> State_Monad.return"

definition gets :: "('s \<Rightarrow> 'a) \<Rightarrow> ('s, 'a) state" where
  "gets f = State (\<lambda>s. (f s, s))"

definition modify :: "('s \<Rightarrow> 's) \<Rightarrow> ('s, unit) state" where
  "modify f = State (\<lambda>s. ((), f s))"

definition action :: "('s \<Rightarrow> 'a \<times> 's) \<Rightarrow> ('s, 'a) state" where
  "action f = State f"

text \<open>
  A program of one component run inside a larger state: \<open>get\<close> reads the component's part,
  \<open>put\<close> stores it back.
\<close>

definition zoom :: "('s \<Rightarrow> 't) \<Rightarrow> ('t \<Rightarrow> 's \<Rightarrow> 's) \<Rightarrow> ('t, 'a) state \<Rightarrow> ('s, 'a) state" where
  "zoom get put m = State (\<lambda>s. let (a, t) = run_state m (get s) in (a, put t s))"

text \<open>A loop over a list that runs the body on every element.\<close>

fun for_each :: "('a \<Rightarrow> ('s, unit) state) \<Rightarrow> 'a list \<Rightarrow> ('s, unit) state" where
  "for_each body [] = ret ()"
| "for_each body (x # xs) = do { body x; for_each body xs }"

text \<open>
  A loop that carries a status and breaks: the body returns the new status and whether to
  leave the loop.
\<close>

fun for_until :: "('b \<Rightarrow> 'a \<Rightarrow> ('s, 'b \<times> bool) state) \<Rightarrow> 'b \<Rightarrow> 'a list \<Rightarrow> ('s, 'b) state" where
  "for_until body b [] = ret b"
| "for_until body b (x # xs) =
     do { r \<leftarrow> body b x; if snd r then ret (fst r) else for_until body (fst r) xs }"

lemma run_gets [simp, run_simps]: "run_state (gets f) s = (f s, s)"
  by (simp add: gets_def)

lemma run_modify [simp, run_simps]: "run_state (modify f) s = ((), f s)"
  by (simp add: modify_def)

lemma run_action [simp, run_simps]: "run_state (action f) s = f s"
  by (simp add: action_def)

lemma run_zoom [simp, run_simps]:
  "run_state (zoom get put m) s = (case run_state m (get s) of (a, t) \<Rightarrow> (a, put t s))"
  by (simp add: zoom_def)

lemma run_if [simp, run_simps]:
  "run_state (if b then m else n) s = (if b then run_state m s else run_state n s)"
  by simp

section \<open>Total correctness of monadic programs\<close>

definition spec :: "('s \<Rightarrow> bool) \<Rightarrow> ('s, 'a) state \<Rightarrow> ('a \<Rightarrow> 's \<Rightarrow> bool) \<Rightarrow> bool" where
  "spec P m Q \<longleftrightarrow> (\<forall>s. P s \<longrightarrow> Q (fst (run_state m s)) (snd (run_state m s)))"

definition preserves :: "('s \<Rightarrow> bool) \<Rightarrow> ('s, 'a) state \<Rightarrow> bool" where
  "preserves I m \<longleftrightarrow> (\<forall>s. I s \<longrightarrow> I (snd (run_state m s)))"

lemma specI: "(\<And>s a s'. P s \<Longrightarrow> run_state m s = (a, s') \<Longrightarrow> Q a s') \<Longrightarrow> spec P m Q"
  by (simp add: spec_def)

lemma specD: "spec P m Q \<Longrightarrow> P s \<Longrightarrow> run_state m s = (a, s') \<Longrightarrow> Q a s'"
  by (auto simp: spec_def)

lemma spec_weaken:
  "spec P m Q \<Longrightarrow> (\<And>s. P' s \<Longrightarrow> P s) \<Longrightarrow> (\<And>a s. Q a s \<Longrightarrow> Q' a s) \<Longrightarrow> spec P' m Q'"
  by (simp add: spec_def)

lemma spec_ret [spec_intros]: "(\<And>s. P s \<Longrightarrow> Q a s) \<Longrightarrow> spec P (ret a) Q"
  by (simp add: spec_def)

lemma spec_gets [spec_intros]: "(\<And>s. P s \<Longrightarrow> Q (f s) s) \<Longrightarrow> spec P (gets f) Q"
  by (simp add: spec_def)

lemma spec_modify [spec_intros]: "(\<And>s. P s \<Longrightarrow> Q () (f s)) \<Longrightarrow> spec P (modify f) Q"
  by (simp add: spec_def)

lemma spec_bind [spec_intros]:
  "spec P m R \<Longrightarrow> (\<And>a. spec (R a) (f a) Q) \<Longrightarrow> spec P (m \<bind> f) Q"
  by (auto simp: spec_def split: prod.splits)

lemma spec_if [spec_intros]:
  "(b \<Longrightarrow> spec P m Q) \<Longrightarrow> (\<not> b \<Longrightarrow> spec P n Q) \<Longrightarrow> spec P (if b then m else n) Q"
  by simp

lemma spec_known: "(\<And>s. P s \<Longrightarrow> f s = c) \<Longrightarrow> spec P (g c) Q \<Longrightarrow> spec P (gets f \<bind> g) Q"
  by (simp add: spec_def)

lemma spec_pre: "(\<And>s. P s \<Longrightarrow> spec (\<lambda>t. t = s) m Q) \<Longrightarrow> spec P m Q"
  by (simp add: spec_def)

lemma spec_conj: "spec P m Q \<Longrightarrow> spec P' m Q' \<Longrightarrow> spec (\<lambda>s. P s \<and> P' s) m (\<lambda>a s. Q a s \<and> Q' a s)"
  by (simp add: spec_def)

lemma spec_preserves: "preserves I m \<longleftrightarrow> spec I m (\<lambda>_. I)"
  by (simp add: spec_def preserves_def)

lemma spec_frame: "spec P m Q \<Longrightarrow> preserves I m \<Longrightarrow> spec (\<lambda>s. P s \<and> I s) m (\<lambda>a s. Q a s \<and> I s)"
  by (simp add: spec_def preserves_def)

section \<open>Preservation of invariants\<close>

lemma preservesI: "(\<And>s a s'. I s \<Longrightarrow> run_state m s = (a, s') \<Longrightarrow> I s') \<Longrightarrow> preserves I m"
  by (simp add: preserves_def) (metis prod.collapse)

lemma preservesD: "preserves I m \<Longrightarrow> I s \<Longrightarrow> run_state m s = (a, s') \<Longrightarrow> I s'"
  by (auto simp: preserves_def)

lemma preserves_ret [pres_intros]: "preserves I (ret a)"
  by (simp add: preserves_def)

lemma preserves_gets [pres_intros]: "preserves I (gets f)"
  by (simp add: preserves_def)

lemma preserves_modify: "(\<And>s. I s \<Longrightarrow> I (f s)) \<Longrightarrow> preserves I (modify f)"
  by (simp add: preserves_def)

lemma preserves_action: "(\<And>s. I s \<Longrightarrow> I (snd (f s))) \<Longrightarrow> preserves I (action f)"
  by (simp add: preserves_def)

lemma preserves_zoom:
  "(\<And>s. I s \<Longrightarrow> I (put (snd (run_state m (get s))) s)) \<Longrightarrow> preserves I (zoom get put m)"
  by (simp add: preserves_def split_beta)

lemma preserves_bind [pres_intros]:
  "preserves I m \<Longrightarrow> (\<And>a. preserves I (f a)) \<Longrightarrow> preserves I (m \<bind> f)"
  by (auto simp: preserves_def split: prod.splits)

lemma preserves_if [pres_intros]:
  "(b \<Longrightarrow> preserves I m) \<Longrightarrow> (\<not> b \<Longrightarrow> preserves I n) \<Longrightarrow> preserves I (if b then m else n)"
  by simp

lemma preserves_let [pres_intros]: "preserves I (f x) \<Longrightarrow> preserves I (let y = x in f y)"
  by simp

lemma preserves_case_option [pres_intros]:
  "(x = None \<Longrightarrow> preserves I m) \<Longrightarrow> (\<And>y. x = Some y \<Longrightarrow> preserves I (f y)) \<Longrightarrow>
   preserves I (case x of None \<Rightarrow> m | Some y \<Rightarrow> f y)"
  by (cases x) auto

lemma preserves_case_prod [pres_intros]:
  "(\<And>a b. x = (a, b) \<Longrightarrow> preserves I (f a b)) \<Longrightarrow> preserves I (case x of (a, b) \<Rightarrow> f a b)"
  by (cases x) auto

lemma preserves_for_each [pres_intros]:
  "(\<And>x. x \<in> set xs \<Longrightarrow> preserves I (body x)) \<Longrightarrow> preserves I (for_each body xs)"
  by (induction xs) (auto intro!: pres_intros)

lemma preserves_for_until [pres_intros]:
  "(\<And>b x. x \<in> set xs \<Longrightarrow> preserves I (body b x)) \<Longrightarrow> preserves I (for_until body b xs)"
  by (induction xs arbitrary: b) (auto intro!: pres_intros)

text \<open>What was read is remembered.\<close>

lemma preserves_gets_bind:
  "(\<And>v. spec (\<lambda>s. I s \<and> f s = v) (g v) (\<lambda>_. I)) \<Longrightarrow> preserves I (gets f \<bind> g)"
  by (simp add: preserves_def spec_def)

text \<open>What the invariant determines need not be remembered.\<close>

lemma preserves_known:
  "(\<And>s. I s \<Longrightarrow> f s = c) \<Longrightarrow> preserves I (g c) \<Longrightarrow> preserves I (gets f \<bind> g)"
  by (simp add: preserves_def)

lemma preserves_spec: "preserves I m \<Longrightarrow> (\<And>s. P s \<Longrightarrow> I s) \<Longrightarrow> spec P m (\<lambda>_. I)"
  by (simp add: preserves_def spec_def)

lemma preserves_conj:
  "preserves I m \<Longrightarrow> preserves J m \<Longrightarrow> preserves (\<lambda>s. I s \<and> J s) m"
  by (simp add: preserves_def)

lemma preserves_all: "(\<And>x. preserves (I x) m) \<Longrightarrow> preserves (\<lambda>s. \<forall>x. I x s) m"
  by (simp add: preserves_def)

text \<open>A field that a program never changes, as an invariant for every value of it.\<close>

definition frames :: "('s \<Rightarrow> 'b) \<Rightarrow> ('s, 'a) state \<Rightarrow> bool" where
  "frames f m \<longleftrightarrow> (\<forall>s. f (snd (run_state m s)) = f s)"

lemma framesD: "frames f m \<Longrightarrow> run_state m s = (a, s') \<Longrightarrow> f s' = f s"
  by (metis frames_def snd_conv)

lemma frames_preserves: "frames f m \<longleftrightarrow> (\<forall>v. preserves (\<lambda>s. f s = v) m)"
  by (auto simp: frames_def preserves_def)

section \<open>Lists\<close>

lemma filter_length_less_iff: "length (filter P xs) < length xs \<longleftrightarrow> (\<exists>x \<in> set xs. \<not> P x)"
proof
  assume "length (filter P xs) < length xs"
  then have "filter P xs \<noteq> xs" by auto
  then show "\<exists>x \<in> set xs. \<not> P x" by (auto simp: filter_id_conv)
next
  assume "\<exists>x \<in> set xs. \<not> P x"
  then show "length (filter P xs) < length xs"
    by (auto simp: length_filter_less)
qed

lemma find_Some_iff2: "find P xs = Some x \<Longrightarrow> x \<in> set xs \<and> P x"
  by (auto simp: find_Some_iff)

text \<open>\<^verbatim>\<open>std::string::rfind(c)\<close>: the index of the last occurrence.\<close>

fun rfind :: "'a \<Rightarrow> 'a list \<Rightarrow> nat option" where
  "rfind c [] = None"
| "rfind c (x # xs) =
     (case rfind c xs of Some i \<Rightarrow> Some (Suc i) | None \<Rightarrow> if x = c then Some 0 else None)"

lemma rfind_None: "rfind c xs = None \<longleftrightarrow> c \<notin> set xs"
  by (induction xs) (auto split: option.splits)

lemma rfind_Some:
  "rfind c xs = Some i \<Longrightarrow> i < length xs \<and> xs ! i = c \<and> c \<notin> set (drop (Suc i) xs)"
proof (induction xs arbitrary: i)
  case Nil
  then show ?case by simp
next
  case (Cons x xs)
  show ?case
  proof (cases "rfind c xs")
    case None
    with Cons.prems have "i = 0" "x = c" by (auto split: if_splits)
    with None show ?thesis by (simp add: rfind_None)
  next
    case (Some j)
    with Cons.prems have "i = Suc j" by simp
    with Cons.IH [OF Some] show ?thesis by simp
  qed
qed

end
