(* ===== verification/Std_Map.thy ===== *)
theory Std_Map
  imports Jhi_Prelude
begin

text \<open>
  \<^verbatim>\<open>std::map<K, V>\<close>, which holds both tables of the service: the session table of
  \<^verbatim>\<open>SessionsManager\<close> and the applet table of \<^verbatim>\<open>AppletsManager\<close>. A map is the list of its
  entries in key order, so that iterating over it is iterating over the list, as
  \<^verbatim>\<open>begin() .. end()\<close> does. The locale \<open>ordered_table\<close> states what the managers rely on
  (what a lookup gives after an insertion, an assignment or an erasure, and that each keeps
  the representation invariant); it is interpreted on the list implementation below, and the
  managers' proofs use the interpretation's facts \<open>tab.\<dots>\<close>.
\<close>

type_synonym ('k, 'v) smap = "('k \<times> 'v) list"

section \<open>The list implementation\<close>

text \<open>\<^verbatim>\<open>m.find(k)\<close>\<close>

definition smap_find :: "('k, 'v) smap \<Rightarrow> 'k \<Rightarrow> 'v option" where
  "smap_find m k = map_of m k"

text \<open>\<^verbatim>\<open>m[k] = v\<close>\<close>

fun smap_put :: "'k::linorder \<Rightarrow> 'v \<Rightarrow> ('k, 'v) smap \<Rightarrow> ('k, 'v) smap" where
  "smap_put k v [] = [(k, v)]"
| "smap_put k v (e # m) =
     (if fst e < k then e # smap_put k v m
      else if fst e = k then (k, v) # m
      else (k, v) # e # m)"

text \<open>\<^verbatim>\<open>m.insert(pair(k, v))\<close>: no effect when the key is present.\<close>

definition smap_insert :: "'k::linorder \<Rightarrow> 'v \<Rightarrow> ('k, 'v) smap \<Rightarrow> ('k, 'v) smap" where
  "smap_insert k v m = (if smap_find m k = None then smap_put k v m else m)"

text \<open>\<^verbatim>\<open>m.erase(k)\<close>\<close>

definition smap_erase :: "'k \<Rightarrow> ('k, 'v) smap \<Rightarrow> ('k, 'v) smap" where
  "smap_erase k m = filter (\<lambda>e. fst e \<noteq> k) m"

definition smap_inv :: "('k::linorder, 'v) smap \<Rightarrow> bool" where
  "smap_inv m \<longleftrightarrow> sorted_wrt (<) (map fst m)"

section \<open>The interface\<close>

locale ordered_table =
  fixes find :: "'m \<Rightarrow> 'k \<Rightarrow> 'v option"
    and put :: "'k \<Rightarrow> 'v \<Rightarrow> 'm \<Rightarrow> 'm"
    and insert_new :: "'k \<Rightarrow> 'v \<Rightarrow> 'm \<Rightarrow> 'm"
    and erase :: "'k \<Rightarrow> 'm \<Rightarrow> 'm"
    and entries :: "'m \<Rightarrow> ('k \<times> 'v) set"
    and inv :: "'m \<Rightarrow> bool"
  assumes find_put: "find (put k v m) k' = (if k' = k then Some v else find m k')"
    and find_insert: "find (insert_new k v m) k' =
          (if k' = k \<and> find m k = None then Some v else find m k')"
    and find_erase: "find (erase k m) k' = (if k' = k then None else find m k')"
    and inv_put: "inv m \<Longrightarrow> inv (put k v m)"
    and inv_insert: "inv m \<Longrightarrow> inv (insert_new k v m)"
    and inv_erase: "inv m \<Longrightarrow> inv (erase k m)"
    and entries_find: "inv m \<Longrightarrow> (k, v) \<in> entries m \<longleftrightarrow> find m k = Some v"
begin

text \<open>What the tables' clients use: an entry's fate under each operation.\<close>

lemma entries_put:
  "inv m \<Longrightarrow> entries (put k v m) = {(k', v') \<in> entries m. k' \<noteq> k} \<union> {(k, v)}"
  by (auto simp: entries_find inv_put find_put split: if_splits)

lemma entries_insert:
  "inv m \<Longrightarrow> find m k = None \<Longrightarrow> entries (insert_new k v m) = entries m \<union> {(k, v)}"
  by (auto simp: entries_find inv_insert find_insert split: if_splits)

lemma entries_erase: "inv m \<Longrightarrow> entries (erase k m) = {(k', v') \<in> entries m. k' \<noteq> k}"
  by (auto simp: entries_find inv_erase find_erase split: if_splits)

lemma insert_present: "find m k = Some v' \<Longrightarrow> find (insert_new k v m) = find m"
  by (auto simp: find_insert)

lemma erase_absent: "find m k = None \<Longrightarrow> find (erase k m) = find m"
  by (auto simp: find_erase)

lemma find_erase_insert:
  "find m k = None \<Longrightarrow> find (erase k (insert_new k v m)) = find m"
  by (auto simp: find_erase find_insert)

lemma all_entries_put:
  "inv m \<Longrightarrow> \<forall>(k', v') \<in> entries m. P k' v' \<Longrightarrow> P k v \<Longrightarrow>
   \<forall>(k', v') \<in> entries (put k v m). P k' v'"
  by (auto simp: entries_put)

lemma all_entries_erase:
  "inv m \<Longrightarrow> \<forall>(k', v') \<in> entries m. P k' v' \<Longrightarrow> \<forall>(k', v') \<in> entries (erase k m). P k' v'"
  by (auto simp: entries_erase)

end

section \<open>The implementation satisfies the interface\<close>

lemma fst_smap_put: "fst ` set (smap_put k v m) = insert k (fst ` set m)"
  by (induction m) (auto simp: image_iff)

lemma map_of_smap_put:
  "map_of (smap_put k v m) k' = (if k' = k then Some v else map_of m k')"
  by (induction m) auto

lemma sorted_smap_put:
  "sorted_wrt (<) (map fst m) \<Longrightarrow> sorted_wrt (<) (map fst (smap_put k v m))"
proof (induction m)
  case Nil
  then show ?case by simp
next
  case (Cons e m)
  have keys: "set (map fst (smap_put k v m)) = insert k (set (map fst m))"
    using fst_smap_put [of k v m] by simp
  show ?case
  proof (cases "fst e < k")
    case True
    with Cons keys show ?thesis by (auto simp: ball_Un simp del: set_map)
  next
    case False
    with Cons.prems show ?thesis by (fastforce simp: not_less)
  qed
qed

lemma sorted_filter_fst:
  "sorted_wrt (<) (map fst m) \<Longrightarrow> sorted_wrt (<) (map fst (filter P m))"
  by (induction m) auto

lemma sorted_distinct_keys: "sorted_wrt (<) (xs :: 'a::linorder list) \<Longrightarrow> distinct xs"
  by (simp add: strict_sorted_iff)

lemma smap_inv_distinct: "smap_inv m \<Longrightarrow> distinct (map fst m)"
  by (simp add: smap_inv_def sorted_distinct_keys)

interpretation tab: ordered_table smap_find smap_put smap_insert smap_erase set
  "smap_inv :: ('k::linorder, 'v) smap \<Rightarrow> bool"
proof unfold_locales
  fix m :: "('k, 'v) smap" and k k' v
  show find_put: "smap_find (smap_put k v m) k' = (if k' = k then Some v else smap_find m k')"
    for k k' :: 'k and v :: 'v and m :: "('k, 'v) smap"
    by (simp add: smap_find_def map_of_smap_put)
  show "smap_find (smap_insert k v m) k' =
          (if k' = k \<and> smap_find m k = None then Some v else smap_find m k')"
    by (auto simp: smap_insert_def find_put)
  show "smap_find (smap_erase k m) k' = (if k' = k then None else smap_find m k')"
    by (induction m) (auto simp: smap_find_def smap_erase_def)
  show inv_put: "smap_inv m \<Longrightarrow> smap_inv (smap_put k v m)"
    by (simp add: smap_inv_def sorted_smap_put)
  then show "smap_inv m \<Longrightarrow> smap_inv (smap_insert k v m)"
    by (simp add: smap_insert_def)
  show "smap_inv m \<Longrightarrow> smap_inv (smap_erase k m)"
    by (simp add: smap_inv_def smap_erase_def sorted_filter_fst)
  show "smap_inv m \<Longrightarrow> (k, v) \<in> set m \<longleftrightarrow> smap_find m k = Some v"
    by (simp add: smap_find_def smap_inv_distinct)
qed

section \<open>Facts of the list implementation\<close>

lemma smap_find_Nil [simp]: "smap_find [] k = None"
  by (simp add: smap_find_def)

lemma smap_find_entry: "smap_find m k = Some v \<Longrightarrow> (k, v) \<in> set m"
  by (simp add: smap_find_def map_of_SomeD)

lemma smap_find_None: "smap_find m k = None \<longleftrightarrow> k \<notin> fst ` set m"
  by (simp add: smap_find_def map_of_eq_None_iff)

lemma smap_inv_Nil [simp]: "smap_inv []"
  by (simp add: smap_inv_def)

lemma smap_erase_keys: "fst ` set (smap_erase k m) = fst ` set m - {k}"
  by (auto simp: smap_erase_def image_iff)

lemma smap_put_keys: "fst ` set (smap_put k v m) = insert k (fst ` set m)"
  by (rule fst_smap_put)

lemma length_smap_put_present:
  "smap_inv m \<Longrightarrow> smap_find m k \<noteq> None \<Longrightarrow> map fst (smap_put k v m) = map fst m"
proof (induction m)
  case Nil
  then show ?case by simp
next
  case (Cons e m)
  show ?case
  proof (cases "fst e = k")
    case True
    then show ?thesis by simp
  next
    case False
    with Cons.prems(2) have "smap_find m k \<noteq> None" by (cases e) (simp add: smap_find_def)
    moreover from this have "fst e < k"
      using Cons.prems(1) by (auto simp: smap_inv_def smap_find_None)
    ultimately show ?thesis using Cons by (simp add: smap_inv_def)
  qed
qed

lemma smap_ext:
  assumes "smap_inv m" "smap_inv n" "\<And>k. smap_find m k = smap_find n k"
  shows "m = n"
proof -
  have "set m = set n"
    using assms by (metis tab.entries_find prod.exhaust subrelI subset_antisym)
  moreover have "sorted_wrt (\<lambda>a b. fst a < fst b) m" "sorted_wrt (\<lambda>a b. fst a < fst b) n"
    using assms(1,2) by (simp_all add: smap_inv_def sorted_wrt_map)
  ultimately show ?thesis
  proof (induction m arbitrary: n)
    case Nil
    then show ?case by simp
  next
    case (Cons a m)
    from Cons.prems(1) obtain b n' where n: "n = b # n'" by (cases n) auto
    have ab: "a = b"
    proof (rule ccontr)
      assume "a \<noteq> b"
      with Cons.prems n have "a \<in> set n'" "b \<in> set m" by auto
      with Cons.prems(2,3) n have "fst b < fst a" "fst a < fst b" by fastforce+
      then show False by simp
    qed
    with Cons.prems n have "a \<notin> set m" "a \<notin> set n'" by auto
    with Cons.prems(1) n ab have "set m = set n'" by auto
    with Cons n ab show ?case by simp
  qed
qed

end
