(* ===== verification/Jhi_Types.thy ===== *)
theory Jhi_Types
  imports Std_Map
begin

unbundle bit_operations_syntax

text \<open>
  The data the service's components exchange: return codes (\<^verbatim>\<open>common/include/jhi.h\<close>,
  \<^verbatim>\<open>teemanagement.h\<close>), session identifiers, process information, session flags, the enums and
  the structs of \<^verbatim>\<open>jhi.h\<close>, \<^verbatim>\<open>jhi_i.h\<close>, \<^verbatim>\<open>SessionsManager.h\<close>, \<^verbatim>\<open>AppletsManager.h\<close> and
  \<^verbatim>\<open>GlobalsManager.h\<close>. The build modelled is the Linux service without
  \<^verbatim>\<open>SCHANNEL_OVER_SOCKET\<close>. Return codes keep their width and their values, because the code
  compares them numerically and plugins may return any 32-bit value.
\<close>

section \<open>Return codes\<close>

type_synonym JHI_RET = uint32
type_synonym TEE_STATUS = uint32

abbreviation JHI_SUCCESS :: JHI_RET where "JHI_SUCCESS \<equiv> 0"
abbreviation JHI_FILE_NOT_FOUND :: JHI_RET where "JHI_FILE_NOT_FOUND \<equiv> 0x101"
abbreviation JHI_FILE_ERROR_AUTH :: JHI_RET where "JHI_FILE_ERROR_AUTH \<equiv> 0x102"
abbreviation JHI_FILE_ERROR_COPY :: JHI_RET where "JHI_FILE_ERROR_COPY \<equiv> 0x103"
abbreviation JHI_DELETE_FROM_REPOSITORY_FAILURE :: JHI_RET where
  "JHI_DELETE_FROM_REPOSITORY_FAILURE \<equiv> 0x104"
abbreviation JHI_FILE_ERROR_OPEN :: JHI_RET where "JHI_FILE_ERROR_OPEN \<equiv> 0x106"
abbreviation JHI_FILE_IDENTICAL :: JHI_RET where "JHI_FILE_IDENTICAL \<equiv> 0x108"
abbreviation JHI_INSUFFICIENT_BUFFER :: JHI_RET where "JHI_INSUFFICIENT_BUFFER \<equiv> 0x200"
abbreviation JHI_INVALID_PARAMS :: JHI_RET where "JHI_INVALID_PARAMS \<equiv> 0x203"
abbreviation JHI_INVALID_APPLET_GUID :: JHI_RET where "JHI_INVALID_APPLET_GUID \<equiv> 0x204"
abbreviation JHI_NO_CONNECTION_TO_FIRMWARE :: JHI_RET where
  "JHI_NO_CONNECTION_TO_FIRMWARE \<equiv> 0x300"
abbreviation JHI_SERVICE_UNAVAILABLE :: JHI_RET where "JHI_SERVICE_UNAVAILABLE \<equiv> 0x301"
abbreviation JHI_APPLET_FATAL :: JHI_RET where "JHI_APPLET_FATAL \<equiv> 0x400"
abbreviation JHI_APPLET_TIMEOUT :: JHI_RET where "JHI_APPLET_TIMEOUT \<equiv> 0x401"
abbreviation JHI_APPLET_NOT_INSTALLED :: JHI_RET where "JHI_APPLET_NOT_INSTALLED \<equiv> 0x402"
abbreviation JHI_MAX_INSTALLED_APPLETS_REACHED :: JHI_RET where
  "JHI_MAX_INSTALLED_APPLETS_REACHED \<equiv> 0x404"
abbreviation JHI_APPLET_BAD_STATE :: JHI_RET where "JHI_APPLET_BAD_STATE \<equiv> 0x407"
abbreviation JHI_ERROR_REGISTRY :: JHI_RET where "JHI_ERROR_REGISTRY \<equiv> 0x501"
abbreviation JHI_UNKNOWN_ERROR :: JHI_RET where "JHI_UNKNOWN_ERROR \<equiv> 0x600"
abbreviation JHI_INTERNAL_ERROR :: JHI_RET where "JHI_INTERNAL_ERROR \<equiv> 0x601"
abbreviation JHI_ERROR_REPOSITORY_NOT_FOUND :: JHI_RET where
  "JHI_ERROR_REPOSITORY_NOT_FOUND \<equiv> 0x1000"
abbreviation JHI_INVALID_BUFFER_SIZE :: JHI_RET where "JHI_INVALID_BUFFER_SIZE \<equiv> 0x1001"
abbreviation JHI_READ_FROM_FILE_FAILED :: JHI_RET where "JHI_READ_FROM_FILE_FAILED \<equiv> 0x1004"
abbreviation JHI_INVALID_PACKAGE_FORMAT :: JHI_RET where "JHI_INVALID_PACKAGE_FORMAT \<equiv> 0x1005"
abbreviation JHI_INVALID_FILE_EXTENSION :: JHI_RET where "JHI_INVALID_FILE_EXTENSION \<equiv> 0x1007"
abbreviation JHI_INSTALL_FAILURE_SESSIONS_EXISTS :: JHI_RET where
  "JHI_INSTALL_FAILURE_SESSIONS_EXISTS \<equiv> 0x1008"
abbreviation JHI_INSTALL_FAILED :: JHI_RET where "JHI_INSTALL_FAILED \<equiv> 0x1009"
abbreviation JHI_UNINSTALL_FAILURE_SESSIONS_EXISTS :: JHI_RET where
  "JHI_UNINSTALL_FAILURE_SESSIONS_EXISTS \<equiv> 0x100A"
abbreviation JHI_MAX_SESSIONS_REACHED :: JHI_RET where "JHI_MAX_SESSIONS_REACHED \<equiv> 0x100C"
abbreviation JHI_SHARED_SESSION_NOT_SUPPORTED :: JHI_RET where
  "JHI_SHARED_SESSION_NOT_SUPPORTED \<equiv> 0x100D"
abbreviation JHI_MAX_SHARED_SESSION_REACHED :: JHI_RET where
  "JHI_MAX_SHARED_SESSION_REACHED \<equiv> 0x100E"
abbreviation JHI_INVALID_SESSION_HANDLE :: JHI_RET where "JHI_INVALID_SESSION_HANDLE \<equiv> 0x100F"
abbreviation JHI_EVENTS_NOT_SUPPORTED :: JHI_RET where "JHI_EVENTS_NOT_SUPPORTED \<equiv> 0x1012"
abbreviation JHI_APPLET_PROPERTY_NOT_SUPPORTED :: JHI_RET where
  "JHI_APPLET_PROPERTY_NOT_SUPPORTED \<equiv> 0x1013"
abbreviation JHI_SPOOLER_NOT_FOUND :: JHI_RET where "JHI_SPOOLER_NOT_FOUND \<equiv> 0x1014"
abbreviation JHI_INVALID_SPOOLER :: JHI_RET where "JHI_INVALID_SPOOLER \<equiv> 0x1015"
abbreviation JHI_VM_DLL_FILE_NOT_FOUND :: JHI_RET where "JHI_VM_DLL_FILE_NOT_FOUND \<equiv> 0x1016"
abbreviation JHI_VM_DLL_VERIFY_FAILED :: JHI_RET where "JHI_VM_DLL_VERIFY_FAILED \<equiv> 0x1017"
abbreviation JHI_MISSING_ACCESS_CONTROL :: JHI_RET where "JHI_MISSING_ACCESS_CONTROL \<equiv> 0x1030"
abbreviation JHI_SVL_CHECK_FAIL :: JHI_RET where "JHI_SVL_CHECK_FAIL \<equiv> 0x1040"
abbreviation JHI_ILLEGAL_PLATFORM_ID :: JHI_RET where "JHI_ILLEGAL_PLATFORM_ID \<equiv> 0x1041"
abbreviation JHI_GET_EVENT_FAIL_NO_EVENTS :: JHI_RET where
  "JHI_GET_EVENT_FAIL_NO_EVENTS \<equiv> 0x2000"

abbreviation TEE_STATUS_SUCCESS :: TEE_STATUS where "TEE_STATUS_SUCCESS \<equiv> 0"
abbreviation TEE_STATUS_INTERNAL_ERROR :: TEE_STATUS where "TEE_STATUS_INTERNAL_ERROR \<equiv> 0x2001"
abbreviation TEE_STATUS_INVALID_PARAMS :: TEE_STATUS where "TEE_STATUS_INVALID_PARAMS \<equiv> 0x2002"
abbreviation TEE_STATUS_INVALID_UUID :: TEE_STATUS where "TEE_STATUS_INVALID_UUID \<equiv> 0x2004"
abbreviation TEE_STATUS_NO_FW_CONNECTION :: TEE_STATUS where
  "TEE_STATUS_NO_FW_CONNECTION \<equiv> 0x2005"
abbreviation TEE_STATUS_UNSUPPORTED_PLATFORM :: TEE_STATUS where
  "TEE_STATUS_UNSUPPORTED_PLATFORM \<equiv> 0x2006"
abbreviation TEE_STATUS_SERVICE_UNAVAILABLE :: TEE_STATUS where
  "TEE_STATUS_SERVICE_UNAVAILABLE \<equiv> 0x2100"
abbreviation TEE_STATUS_REGISTRY_ERROR :: TEE_STATUS where "TEE_STATUS_REGISTRY_ERROR \<equiv> 0x2101"
abbreviation TEE_STATUS_REPOSITORY_ERROR :: TEE_STATUS where
  "TEE_STATUS_REPOSITORY_ERROR \<equiv> 0x2102"
abbreviation TEE_STATUS_SPOOLER_MISSING :: TEE_STATUS where
  "TEE_STATUS_SPOOLER_MISSING \<equiv> 0x2103"
abbreviation TEE_STATUS_SPOOLER_INVALID :: TEE_STATUS where
  "TEE_STATUS_SPOOLER_INVALID \<equiv> 0x2104"
abbreviation TEE_STATUS_PLUGIN_MISSING :: TEE_STATUS where "TEE_STATUS_PLUGIN_MISSING \<equiv> 0x2105"
abbreviation TEE_STATUS_PLUGIN_VERIFY_FAILED :: TEE_STATUS where
  "TEE_STATUS_PLUGIN_VERIFY_FAILED \<equiv> 0x2106"
abbreviation TEE_STATUS_INVALID_PACKAGE :: TEE_STATUS where
  "TEE_STATUS_INVALID_PACKAGE \<equiv> 0x2200"
abbreviation TEE_STATUS_INVALID_SIGNATURE :: TEE_STATUS where
  "TEE_STATUS_INVALID_SIGNATURE \<equiv> 0x2201"
abbreviation TEE_STATUS_CMD_FAILURE_SESSIONS_EXISTS :: TEE_STATUS where
  "TEE_STATUS_CMD_FAILURE_SESSIONS_EXISTS \<equiv> 0x2300"
abbreviation TEE_STATUS_CMD_FAILURE :: TEE_STATUS where "TEE_STATUS_CMD_FAILURE \<equiv> 0x2301"
abbreviation TEE_STATUS_MAX_TAS_REACHED :: TEE_STATUS where
  "TEE_STATUS_MAX_TAS_REACHED \<equiv> 0x2302"
abbreviation TEE_STATUS_MISSING_ACCESS_CONTROL :: TEE_STATUS where
  "TEE_STATUS_MISSING_ACCESS_CONTROL \<equiv> 0x2303"
abbreviation TEE_STATUS_TA_DOES_NOT_EXIST :: TEE_STATUS where
  "TEE_STATUS_TA_DOES_NOT_EXIST \<equiv> 0x2304"
abbreviation TEE_STATUS_INVALID_TA_SVN :: TEE_STATUS where "TEE_STATUS_INVALID_TA_SVN \<equiv> 0x2305"
abbreviation TEE_STATUS_IDENTICAL_PACKAGE :: TEE_STATUS where
  "TEE_STATUS_IDENTICAL_PACKAGE \<equiv> 0x2306"
abbreviation TEE_STATUS_ILLEGAL_PLATFORM_ID :: TEE_STATUS where
  "TEE_STATUS_ILLEGAL_PLATFORM_ID \<equiv> 0x2307"

section \<open>Limits\<close>

text \<open>\<^verbatim>\<open>LEN_APP_ID\<close>, \<^verbatim>\<open>MAX_SESSION_OWNERS\<close>, \<^verbatim>\<open>MAX_EVENTS_DATA_IN_QUEUE\<close>, \<^verbatim>\<open>MAX_APPLET_BLOB_SIZE\<close>\<close>

abbreviation LEN_APP_ID :: nat where "LEN_APP_ID \<equiv> 32"
abbreviation MAX_SESSION_OWNERS :: nat where "MAX_SESSION_OWNERS \<equiv> 20"
abbreviation MAX_EVENTS_DATA_IN_QUEUE :: nat where "MAX_EVENTS_DATA_IN_QUEUE \<equiv> 100"
abbreviation MAX_APPLET_BLOB_SIZE :: nat where "MAX_APPLET_BLOB_SIZE \<equiv> 2097152"

definition SPOOLER_APPLET_UUID :: string where
  "SPOOLER_APPLET_UUID = ''BA8D164350B649CC861D2C01BED14BE8''"

section \<open>Session identifiers\<close>

text \<open>
  A session identifier is a UUID of sixteen bytes. The session table is ordered by
  \<^verbatim>\<open>memcmp\<close> (\<^verbatim>\<open>lt_sessionId\<close>), which is the lexicographic order of the bytes.
\<close>

datatype JHI_SESSION_ID = UUID (uuid_bytes: "byte list")

instantiation JHI_SESSION_ID :: linorder
begin

definition less_eq_JHI_SESSION_ID :: "JHI_SESSION_ID \<Rightarrow> JHI_SESSION_ID \<Rightarrow> bool" where
  "less_eq_JHI_SESSION_ID a b \<longleftrightarrow> uuid_bytes a \<le> uuid_bytes b"

definition less_JHI_SESSION_ID :: "JHI_SESSION_ID \<Rightarrow> JHI_SESSION_ID \<Rightarrow> bool" where
  "less_JHI_SESSION_ID a b \<longleftrightarrow> uuid_bytes a < uuid_bytes b"

instance
  by standard
    (auto simp: less_eq_JHI_SESSION_ID_def less_JHI_SESSION_ID_def intro: JHI_SESSION_ID.expand)

end

text \<open>\<^verbatim>\<open>lt_sessionId\<close>: the comparison of the session table, \<^verbatim>\<open>memcmp(&sid1, &sid2, 16) < 0\<close>.\<close>

fun memcmp_less :: "byte list \<Rightarrow> byte list \<Rightarrow> bool" where
  "memcmp_less (x # xs) (y # ys) = (x < y \<or> (x = y \<and> memcmp_less xs ys))"
| "memcmp_less _ _ = False"

definition lt_sessionId :: "JHI_SESSION_ID \<Rightarrow> JHI_SESSION_ID \<Rightarrow> bool" where
  "lt_sessionId a b = memcmp_less (uuid_bytes a) (uuid_bytes b)"

section \<open>Processes, flags and enums\<close>

text \<open>\<^verbatim>\<open>FILETIME\<close> and \<^verbatim>\<open>JHI_PROCESS_INFO\<close>\<close>

record FILETIME =
  dwHighDateTime :: uint32
  dwLowDateTime :: uint32

record JHI_PROCESS_INFO =
  pid :: uint32
  creationTime :: FILETIME

text \<open>
  \<^verbatim>\<open>JHI_SESSION_FLAGS\<close>: a 32-bit word whose lowest bit is \<^verbatim>\<open>bits.sharedSession\<close>.
\<close>

type_synonym JHI_SESSION_FLAGS = uint32

definition sharedSession :: "JHI_SESSION_FLAGS \<Rightarrow> bool" where
  "sharedSession flags = bit flags 0"

datatype JHI_SESSION_STATE = JHI_SESSION_STATE_ACTIVE | JHI_SESSION_STATE_NOT_EXISTS

record JHI_SESSION_INFO =
  info_state :: JHI_SESSION_STATE
  info_flags :: JHI_SESSION_FLAGS

type_synonym VM_SESSION_HANDLE = uint64

datatype JHI_EVENT_DATA_TYPE = JHI_DATA_FROM_APPLET | JHI_DATA_FROM_SERVICE

text \<open>\<^verbatim>\<open>JHI_EVENT_DATA\<close>: the data pointer may be \<^verbatim>\<open>NULL\<close>.\<close>

record JHI_EVENT_DATA =
  datalen :: uint32
  ev_data :: "byte list option"
  dataType :: JHI_EVENT_DATA_TYPE

definition event_wf :: "JHI_EVENT_DATA \<Rightarrow> bool" where
  "event_wf e = (case ev_data e of None \<Rightarrow> True | Some d \<Rightarrow> length d = unat (datalen e))"

text \<open>
  \<^verbatim>\<open>JhiEvent\<close> (\<^verbatim>\<open>common/include/jhi_event.h\<close>): a descriptor is whether it is open; \<^verbatim>\<open>_created\<close> is
  \<open>is_created\<close>.
\<close>

record JhiEvent =
  event_name :: "string option"
  isClient :: bool
  clFd :: bool
  event_fd :: bool
  is_created :: bool
  rx_cnt :: int
  tx_cnt :: int

definition JhiEvent_init :: JhiEvent where
  "JhiEvent_init = \<lparr> event_name = None, isClient = False, clFd = False, event_fd = False,
     is_created = False, rx_cnt = 0, tx_cnt = 0 \<rparr>"

datatype JHI_APPLET_STATUS = NOT_INSTALLED | PENDING_INSTALL | INSTALLED | MAX_APP_STATES

fun applet_status_val :: "JHI_APPLET_STATUS \<Rightarrow> int" where
  "applet_status_val NOT_INSTALLED = 0"
| "applet_status_val PENDING_INSTALL = 1"
| "applet_status_val INSTALLED = 2"
| "applet_status_val MAX_APP_STATES = 3"

record AppletRecord =
  status :: JHI_APPLET_STATUS
  sharedSessionSupport :: bool
  sharedSessionSupportRetrievedFromFW :: bool

datatype JHI_VM_TYPE =
  JHI_VM_TYPE_INVALID | JHI_VM_TYPE_TL | JHI_VM_TYPE_BEIHAI_V1 | JHI_VM_TYPE_BEIHAI_V2
  | JHI_VM_TYPE_MAX

fun vm_type_val :: "JHI_VM_TYPE \<Rightarrow> int" where
  "vm_type_val JHI_VM_TYPE_INVALID = -1"
| "vm_type_val JHI_VM_TYPE_TL = 0"
| "vm_type_val JHI_VM_TYPE_BEIHAI_V1 = 1"
| "vm_type_val JHI_VM_TYPE_BEIHAI_V2 = 2"
| "vm_type_val JHI_VM_TYPE_MAX = 3"

datatype JHI_PLATFROM_ID = ME | SEC | CSE | INVALID_PLATFORM_ID

datatype TEE_TRANSPORT_TYPE =
  TEE_TRANSPORT_TYPE_INVALID | TEE_TRANSPORT_TYPE_SOCKET | TEE_TRANSPORT_TYPE_TEE_LIB
  | TEE_TRANSPORT_TYPE_DAL_DEVICE | TEE_TRANSPORT_TYPE_AUTO

datatype jhi_states = JHI_INITIALIZED | JHI_STOPPING | JHI_STOPPED

record VERSION =
  Major :: uint16
  Minor :: uint16
  Hotfix :: uint16
  Build :: uint16

section \<open>Order facts\<close>

lemma memcmp_less_lexord:
  "length xs = length ys \<Longrightarrow> memcmp_less xs ys \<longleftrightarrow> xs < ys"
  by (induction xs ys rule: memcmp_less.induct) auto

text \<open>On identifiers of the same size the class order is the table's comparison.\<close>

lemma lt_sessionId_less:
  "length (uuid_bytes a) = length (uuid_bytes b) \<Longrightarrow> lt_sessionId a b \<longleftrightarrow> a < b"
  by (simp add: lt_sessionId_def less_JHI_SESSION_ID_def memcmp_less_lexord)

lemma sharedSession_simps [simp]:
  "\<not> sharedSession 0" "sharedSession 1"
  by (simp_all add: sharedSession_def)

end
