(* ===== verification/Misc_Util.thy ===== *)
theory Misc_Util
  imports Jhi_Types
begin

text \<open>
  The string and status helpers of \<^verbatim>\<open>common/misc.cpp\<close>: upper-casing, the UUID validators,
  \<^verbatim>\<open>TrimString\<close>, the translation of JHI codes to TEE codes, and the test whether a process is
  still alive, which reads \<^verbatim>\<open>/proc/<pid>/stat\<close> with \<^verbatim>\<open>fscanf\<close>.

  A C string argument is the memory from the pointer on, as a list of characters; a function
  that reads past the end of that memory returns \<open>None\<close>. The character classes are those of
  the C locale, the one a process starts in.
\<close>

abbreviation NUL :: char where "NUL \<equiv> CHR 0x00"

abbreviation chr_val :: "char \<Rightarrow> nat" where "chr_val \<equiv> of_char"

section \<open>Character classes and upper case\<close>

definition toupper_c :: "char \<Rightarrow> char" where
  "toupper_c c = (if 97 \<le> chr_val c \<and> chr_val c \<le> 122 then char_of (chr_val c - 32) else c)"

definition isdigit_c :: "char \<Rightarrow> bool" where
  "isdigit_c c = (48 \<le> chr_val c \<and> chr_val c \<le> 57)"

definition isalpha_c :: "char \<Rightarrow> bool" where
  "isalpha_c c = ((65 \<le> chr_val c \<and> chr_val c \<le> 90) \<or> (97 \<le> chr_val c \<and> chr_val c \<le> 122))"

text \<open>\<^verbatim>\<open>strToUppercase\<close>\<close>

definition strToUppercase :: "string \<Rightarrow> string" where
  "strToUppercase str = map toupper_c str"

definition upper :: "string \<Rightarrow> bool" where
  "upper s = list_all (\<lambda>c. \<not> (97 \<le> chr_val c \<and> chr_val c \<le> 122)) s"

section \<open>UUID validation\<close>

text \<open>\<^verbatim>\<open>strlen\<close>: \<open>None\<close> when there is no terminator in the memory.\<close>

fun strlen :: "string \<Rightarrow> nat option" where
  "strlen [] = None"
| "strlen (c # cs) = (if c = NUL then Some 0 else map_option Suc (strlen cs))"

text \<open>The loop of \<^verbatim>\<open>JhiUtilUUID_Validate\<close>: the characters written to \<^verbatim>\<open>ucAppId\<close> so far.\<close>

fun uuid_validate_loop :: "string \<Rightarrow> JHI_RET \<times> string" where
  "uuid_validate_loop [] = (JHI_SUCCESS, [])"
| "uuid_validate_loop (c # cs) =
     (if isdigit_c c \<or> (isalpha_c c \<and> 65 \<le> chr_val (toupper_c c) \<and> chr_val (toupper_c c) \<le> 70)
      then let (r, out) = uuid_validate_loop cs in (r, toupper_c c # out)
      else (JHI_INVALID_APPLET_GUID, []))"

definition JhiUtilUUID_Validate :: "string option \<Rightarrow> (JHI_RET \<times> string) option" where
  "JhiUtilUUID_Validate AppId =
     (case AppId of
        None \<Rightarrow> Some (JHI_INVALID_APPLET_GUID, [])
      | Some mem \<Rightarrow>
          if length mem \<le> LEN_APP_ID then None
          else if mem ! LEN_APP_ID \<noteq> NUL then Some (JHI_INVALID_APPLET_GUID, [])
          else case strlen mem of
              None \<Rightarrow> None
            | Some len \<Rightarrow>
                if LEN_APP_ID \<noteq> len then Some (JHI_INVALID_APPLET_GUID, [])
                else Some (uuid_validate_loop (take len mem)))"

definition uuid_char :: "char \<Rightarrow> bool" where
  "uuid_char c = ((48 \<le> chr_val c \<and> chr_val c \<le> 57) \<or> (97 \<le> chr_val c \<and> chr_val c \<le> 102)
                  \<or> (65 \<le> chr_val c \<and> chr_val c \<le> 70))"

definition validateUuidChar :: "string \<Rightarrow> bool option" where
  "validateUuidChar index =
     (if length index \<le> LEN_APP_ID then None
      else if index ! LEN_APP_ID \<noteq> NUL then Some False
      else Some (list_all uuid_char (take LEN_APP_ID index)))"

definition validateUuidString :: "string \<Rightarrow> bool" where
  "validateUuidString str =
     (if length str \<noteq> LEN_APP_ID then False
      else validateUuidChar (str @ [NUL]) = Some True)"

text \<open>\<^verbatim>\<open>UUID_LIST\<close>: a count and the memory of the entries, \<^verbatim>\<open>UUID_LEN\<close> bytes each.\<close>

record UUID_LIST =
  uuidCount :: byte
  uuids :: "string option"

fun validate_uuid_entries :: "nat \<Rightarrow> string \<Rightarrow> bool option" where
  "validate_uuid_entries 0 index = Some True"
| "validate_uuid_entries (Suc n) index =
     (case validateUuidChar index of
        None \<Rightarrow> None
      | Some False \<Rightarrow> Some False
      | Some True \<Rightarrow> validate_uuid_entries n (drop 33 index))"

definition validateUuidList :: "UUID_LIST option \<Rightarrow> bool option" where
  "validateUuidList uuidList =
     (case uuidList of
        None \<Rightarrow> Some False
      | Some l \<Rightarrow>
          if uuidCount l \<noteq> 0 \<and> uuids l = None then Some False
          else validate_uuid_entries (unat (uuidCount l)) (case uuids l of None \<Rightarrow> [] | Some m \<Rightarrow> m))"

section \<open>TrimString\<close>

definition blank_char :: "char \<Rightarrow> bool" where
  "blank_char c = (c \<in> {CHR '' '', CHR 0x09, CHR 0x0D, CHR 0x0A})"

fun find_first_not_of :: "string \<Rightarrow> nat option" where
  "find_first_not_of [] = None"
| "find_first_not_of (c # cs) = (if blank_char c then map_option Suc (find_first_not_of cs) else Some 0)"

definition find_last_not_of :: "string \<Rightarrow> nat option" where
  "find_last_not_of str = map_option (\<lambda>i. length str - 1 - i) (find_first_not_of (rev str))"

definition substr :: "string \<Rightarrow> nat \<Rightarrow> nat \<Rightarrow> string" where
  "substr str pos n = take n (drop pos str)"

definition TrimString :: "string \<Rightarrow> string" where
  "TrimString str =
     (case (find_first_not_of str, find_last_not_of str) of
        (Some startStr, Some endStr) \<Rightarrow> substr str startStr (endStr + 1 - startStr)
      | _ \<Rightarrow> [])"

section \<open>Status translation\<close>

definition isJhiError :: "uint32 \<Rightarrow> bool" where
  "isJhiError error = (error < 0x2000)"

definition jhiErrorToTeeError :: "JHI_RET \<Rightarrow> TEE_STATUS" where
  "jhiErrorToTeeError jhiError =
     (if \<not> isJhiError jhiError then jhiError
      else if jhiError = JHI_SUCCESS then TEE_STATUS_SUCCESS
      else if jhiError = JHI_INTERNAL_ERROR then TEE_STATUS_INTERNAL_ERROR
      else if jhiError = JHI_INVALID_PARAMS then TEE_STATUS_INVALID_PARAMS
      else if jhiError = JHI_INVALID_APPLET_GUID then TEE_STATUS_INVALID_UUID
      else if jhiError = JHI_NO_CONNECTION_TO_FIRMWARE then TEE_STATUS_NO_FW_CONNECTION
      else if jhiError = JHI_SERVICE_UNAVAILABLE then TEE_STATUS_SERVICE_UNAVAILABLE
      else if jhiError = JHI_ERROR_REGISTRY then TEE_STATUS_REGISTRY_ERROR
      else if jhiError = JHI_ERROR_REPOSITORY_NOT_FOUND
        \<or> jhiError = JHI_DELETE_FROM_REPOSITORY_FAILURE
        \<or> jhiError = JHI_FILE_ERROR_COPY then TEE_STATUS_REPOSITORY_ERROR
      else if jhiError = JHI_SPOOLER_NOT_FOUND then TEE_STATUS_SPOOLER_MISSING
      else if jhiError = JHI_INVALID_SPOOLER then TEE_STATUS_SPOOLER_INVALID
      else if jhiError = JHI_VM_DLL_FILE_NOT_FOUND then TEE_STATUS_PLUGIN_MISSING
      else if jhiError = JHI_VM_DLL_VERIFY_FAILED then TEE_STATUS_PLUGIN_VERIFY_FAILED
      else if jhiError = JHI_INVALID_PACKAGE_FORMAT then TEE_STATUS_INVALID_PACKAGE
      else if jhiError = JHI_FILE_ERROR_AUTH then TEE_STATUS_INVALID_SIGNATURE
      else if jhiError = JHI_MISSING_ACCESS_CONTROL then TEE_STATUS_MISSING_ACCESS_CONTROL
      else if jhiError = JHI_MAX_INSTALLED_APPLETS_REACHED then TEE_STATUS_MAX_TAS_REACHED
      else if jhiError = JHI_INSTALL_FAILURE_SESSIONS_EXISTS
        \<or> jhiError = JHI_UNINSTALL_FAILURE_SESSIONS_EXISTS
        then TEE_STATUS_CMD_FAILURE_SESSIONS_EXISTS
      else if jhiError = JHI_SVL_CHECK_FAIL then TEE_STATUS_INVALID_TA_SVN
      else if jhiError = JHI_APPLET_NOT_INSTALLED then TEE_STATUS_TA_DOES_NOT_EXIST
      else if jhiError = JHI_FILE_IDENTICAL then TEE_STATUS_IDENTICAL_PACKAGE
      else if jhiError = JHI_INSTALL_FAILED then TEE_STATUS_CMD_FAILURE
      else if jhiError = JHI_ILLEGAL_PLATFORM_ID then TEE_STATUS_ILLEGAL_PLATFORM_ID
      else TEE_STATUS_INTERNAL_ERROR)"

section \<open>Process liveness\<close>

text \<open>
  \<^verbatim>\<open>fscanf\<close> with the conversions \<^verbatim>\<open>getProcStartTime\<close> uses. A conversion skips white space,
  consumes its longest match and fails when there is none.
\<close>

definition isspace_c :: "char \<Rightarrow> bool" where
  "isspace_c c = ((9 \<le> chr_val c \<and> chr_val c \<le> 13) \<or> chr_val c = 32)"

datatype conversion = Conv_int | Conv_str | Conv_chr

definition skip_space :: "string \<Rightarrow> string" where
  "skip_space s = dropWhile isspace_c s"

definition drop_sign :: "string \<Rightarrow> string" where
  "drop_sign s = (case s of c # cs \<Rightarrow> if c = CHR ''-'' \<or> c = CHR ''+'' then cs else s | [] \<Rightarrow> [])"

fun scan :: "conversion \<Rightarrow> string \<Rightarrow> string option" where
  "scan Conv_int s =
     (let t = drop_sign (skip_space s) in
      if takeWhile isdigit_c t = [] then None else Some (dropWhile isdigit_c t))"
| "scan Conv_str s =
     (let t = skip_space s in if t = [] then None else Some (dropWhile (\<lambda>c. \<not> isspace_c c) t))"
| "scan Conv_chr s =
     (case skip_space s of [] \<Rightarrow> None | c # cs \<Rightarrow> Some cs)"

fun scan_all :: "conversion list \<Rightarrow> string \<Rightarrow> string option" where
  "scan_all [] s = Some s"
| "scan_all (c # cs) s = (case scan c s of None \<Rightarrow> None | Some t \<Rightarrow> scan_all cs t)"

definition digits_val :: "string \<Rightarrow> nat" where
  "digits_val ds = foldl (\<lambda>n d. 10 * n + (chr_val d - 48)) 0 ds"

text \<open>\<^verbatim>\<open>%llu\<close>: the value saturates at \<^verbatim>\<open>ULLONG_MAX\<close>; a minus sign negates it.\<close>

definition scan_llu :: "string \<Rightarrow> uint64 option" where
  "scan_llu s =
     (let t = skip_space s; ds = takeWhile isdigit_c (drop_sign t); v = digits_val ds in
      if ds = [] then None
      else if v \<ge> 2 ^ 64 then Some (- 1)
      else if take 1 t = ''-'' then Some (- of_nat v) else Some (of_nat v))"

definition stat_format :: "conversion list" where
  "stat_format = [Conv_int, Conv_str, Conv_chr] @ replicate 18 Conv_int"

text \<open>
  \<^verbatim>\<open>getProcStartTime\<close>: \<open>stat_file\<close> is the content of \<^verbatim>\<open>/proc/<pid>/stat\<close>, \<open>None\<close> when it
  cannot be opened. \<^verbatim>\<open>memcpy\<close> puts the low half of the number in the first field of the
  structure, which \<^verbatim>\<open>typedefs_i.h\<close> names \<^verbatim>\<open>dwHighDateTime\<close>.
\<close>

definition getProcStartTime :: "string option \<Rightarrow> FILETIME \<Rightarrow> JHI_RET \<times> FILETIME" where
  "getProcStartTime stat_file filetime =
     (case stat_file of
        None \<Rightarrow> (JHI_INTERNAL_ERROR, filetime)
      | Some s \<Rightarrow>
          case Option.bind (scan_all stat_format s) scan_llu of
            None \<Rightarrow> (JHI_INTERNAL_ERROR, filetime)
          | Some d \<Rightarrow> (JHI_SUCCESS, \<lparr> dwHighDateTime = ucast d, dwLowDateTime = ucast (drop_bit 32 d) \<rparr>))"

text \<open>
  \<^verbatim>\<open>isProcessDead\<close>: \<open>proc_dir\<close> is whether \<^verbatim>\<open>/proc/<pid>\<close> exists, and the start time is read
  only when it does.
\<close>

definition isProcessDead :: "bool \<Rightarrow> string option \<Rightarrow> FILETIME \<Rightarrow> bool" where
  "isProcessDead proc_dir stat_file savedTime =
     (if \<not> proc_dir then True
      else let (r, creationTime) = getProcStartTime stat_file savedTime in
        if r \<noteq> JHI_SUCCESS then False
        else (dwHighDateTime savedTime \<noteq> 0 \<or> dwLowDateTime savedTime \<noteq> 0)
          \<and> (dwHighDateTime creationTime \<noteq> dwHighDateTime savedTime
             \<or> dwLowDateTime creationTime \<noteq> dwLowDateTime savedTime))"

section \<open>Upper case\<close>

lemma chr_val_bound: "chr_val c < 256"
  by (rule nat_of_char_less_256)

lemma chr_val_toupper:
  "chr_val (toupper_c c) = (if 97 \<le> chr_val c \<and> chr_val c \<le> 122 then chr_val c - 32 else chr_val c)"
proof (cases "97 \<le> chr_val c \<and> chr_val c \<le> 122")
  case True
  then have "chr_val c - 32 < 256" by linarith
  with True show ?thesis by (simp add: toupper_c_def mod_less)
next
  case False
  then show ?thesis by (simp only: toupper_c_def if_False)
qed

lemma toupper_c_id: "\<not> (97 \<le> chr_val c \<and> chr_val c \<le> 122) \<Longrightarrow> toupper_c c = c"
  by (simp only: toupper_c_def if_False)

lemma upper_strToUppercase [simp]: "upper (strToUppercase s)"
  by (auto simp: upper_def strToUppercase_def list_all_iff chr_val_toupper split: if_splits)

lemma strToUppercase_upper [simp]: "upper s \<Longrightarrow> strToUppercase s = s"
  unfolding upper_def strToUppercase_def list_all_iff
  by (rule map_idI) (auto intro!: toupper_c_id)

lemma strToUppercase_idem [simp]: "strToUppercase (strToUppercase s) = strToUppercase s"
  by simp

lemma length_strToUppercase [simp]: "length (strToUppercase s) = length s"
  by (simp add: strToUppercase_def)

lemma upper_iff: "upper s \<longleftrightarrow> strToUppercase s = s"
  by (metis upper_strToUppercase strToUppercase_upper)

lemma strToUppercase_append: "strToUppercase (s @ t) = strToUppercase s @ strToUppercase t"
  by (simp add: strToUppercase_def)

lemma upper_append: "upper (s @ t) \<longleftrightarrow> upper s \<and> upper t"
  by (simp add: upper_def)

section \<open>UUIDs\<close>

lemma strlen_append: "NUL \<notin> set s \<Longrightarrow> strlen (s @ NUL # junk) = Some (length s)"
  by (induction s) auto

lemma uuid_loop_char:
  "(isdigit_c c \<or> (isalpha_c c \<and> 65 \<le> chr_val (toupper_c c) \<and> chr_val (toupper_c c) \<le> 70))
   \<longleftrightarrow> uuid_char c"
  by (auto simp: isdigit_c_def isalpha_c_def uuid_char_def chr_val_toupper split: if_splits)

lemma uuid_validate_loop_ok:
  "list_all uuid_char s \<Longrightarrow> uuid_validate_loop s = (JHI_SUCCESS, strToUppercase s)"
  by (induction s) (auto simp: uuid_loop_char strToUppercase_def)

lemma uuid_validate_loop_bad:
  "\<not> list_all uuid_char s \<Longrightarrow> fst (uuid_validate_loop s) = JHI_INVALID_APPLET_GUID"
  by (induction s) (auto simp: uuid_loop_char split: prod.splits)

lemma JhiUtilUUID_Validate_string:
  assumes "NUL \<notin> set s" "length s + length junk \<ge> 32"
  shows "JhiUtilUUID_Validate (Some (s @ NUL # junk)) =
         (if length s = LEN_APP_ID then Some (uuid_validate_loop s)
          else Some (JHI_INVALID_APPLET_GUID, []))"
proof -
  have "strlen (s @ NUL # junk) = Some (length s)" by (rule strlen_append [OF assms(1)])
  moreover have "(s @ NUL # junk) ! LEN_APP_ID = NUL" if "length s = LEN_APP_ID"
    using that by (simp add: nth_append)
  ultimately show ?thesis using assms(2) by (auto simp: JhiUtilUUID_Validate_def)
qed

definition UUID_wf :: "string \<Rightarrow> bool" where
  "UUID_wf s = (length s = LEN_APP_ID \<and> list_all uuid_char s)"

lemma JhiUtilUUID_Validate_fst:
  assumes "NUL \<notin> set s" "length s + length junk \<ge> 32"
  shows "\<exists>out. JhiUtilUUID_Validate (Some (s @ NUL # junk)) =
           Some (if UUID_wf s then (JHI_SUCCESS, strToUppercase s) else (JHI_INVALID_APPLET_GUID, out))"
  unfolding JhiUtilUUID_Validate_string [OF assms] UUID_wf_def
  using uuid_validate_loop_bad [of s]
  by (cases "uuid_validate_loop s") (auto simp: uuid_validate_loop_ok)

lemma NUL_not_uuid_char: "\<not> uuid_char NUL"
  by (simp add: uuid_char_def)

lemma UUID_wf_no_NUL: "UUID_wf s \<Longrightarrow> NUL \<notin> set s"
  using NUL_not_uuid_char by (auto simp: UUID_wf_def list_all_iff)

lemma validateUuidString_wf: "validateUuidString s \<longleftrightarrow> UUID_wf s"
  by (auto simp: validateUuidString_def validateUuidChar_def UUID_wf_def nth_append)

lemma uuid_char_toupper: "uuid_char c \<Longrightarrow> uuid_char (toupper_c c)"
  by (auto simp: uuid_char_def chr_val_toupper split: if_splits)

lemma UUID_wf_upper: "UUID_wf s \<Longrightarrow> UUID_wf (strToUppercase s)"
  by (auto simp: UUID_wf_def list_all_iff strToUppercase_def uuid_char_toupper)

section \<open>Trimming\<close>

lemma find_first_append:
  "list_all blank_char p \<Longrightarrow> \<not> blank_char c \<Longrightarrow> find_first_not_of (p @ c # r) = Some (length p)"
  by (induction p) auto

lemma find_first_blank: "list_all blank_char p \<Longrightarrow> find_first_not_of p = None"
  by (induction p) auto

lemma find_last_append:
  assumes "list_all blank_char q" "\<not> blank_char c"
  shows "find_last_not_of (l @ c # q) = Some (length l)"
proof -
  have "list_all blank_char (rev q)" using assms(1) by simp
  from find_first_append [OF this assms(2), of "rev l"] show ?thesis
    by (simp add: find_last_not_of_def)
qed

definition trimmed :: "string \<Rightarrow> bool" where
  "trimmed t = (t = [] \<or> (\<not> blank_char (hd t) \<and> \<not> blank_char (last t)))"

lemma TrimString_blank: "list_all blank_char p \<Longrightarrow> TrimString p = []"
  by (simp add: TrimString_def find_first_blank)

lemma TrimString_core:
  assumes "list_all blank_char p" "list_all blank_char q" "t \<noteq> []" "trimmed t"
  shows "TrimString (p @ t @ q) = t"
proof -
  obtain c r where hd: "t = c # r" using assms(3) by (cases t) auto
  obtain l d where tl: "t = l @ [d]" using assms(3) by (metis append_butlast_last_id)
  have nb: "\<not> blank_char c" "\<not> blank_char d"
    using assms(3,4) hd tl by (metis list.sel(1) trimmed_def, metis last_snoc trimmed_def)
  have first: "find_first_not_of (p @ t @ q) = Some (length p)"
    using find_first_append [OF assms(1) nb(1), of "r @ q"] hd by simp
  have last: "find_last_not_of (p @ t @ q) = Some (length (p @ l))"
    using find_last_append [OF assms(2) nb(2), of "p @ l"] tl by simp
  show ?thesis using first last tl by (simp add: TrimString_def substr_def)
qed

lemma trim_split:
  obtains p t q where "s = p @ t @ q" "list_all blank_char p" "list_all blank_char q" "trimmed t"
proof -
  define p where "p = takeWhile blank_char s"
  define u where "u = dropWhile blank_char s"
  define t where "t = rev (dropWhile blank_char (rev u))"
  define q where "q = rev (takeWhile blank_char (rev u))"
  have u: "u = t @ q" by (simp add: t_def q_def flip: rev_append)
  have "s = p @ t @ q" by (simp add: p_def u_def flip: u)
  moreover have "list_all blank_char p" "list_all blank_char q"
    by (auto simp: p_def q_def list_all_iff dest: set_takeWhileD)
  moreover have "trimmed t"
  proof (cases "t = []")
    case False
    then have "hd t = hd u" by (simp add: u)
    moreover have "\<not> blank_char (hd u)" using False u
      by (metis append_is_Nil_conv hd_dropWhile u_def)
    moreover have "\<not> blank_char (last t)"
      using False by (metis hd_dropWhile last_rev rev_is_Nil_conv t_def)
    ultimately show ?thesis by (simp add: trimmed_def)
  qed (simp add: trimmed_def)
  ultimately show thesis by (rule that)
qed

section \<open>Reading a stat line\<close>

text \<open>
  A line of white-space separated tokens, each of the shape its conversion reads. A blank stands
  before every token.
\<close>

fun token_ok :: "conversion \<Rightarrow> string \<Rightarrow> bool" where
  "token_ok Conv_int t = (drop_sign t \<noteq> [] \<and> list_all isdigit_c (drop_sign t))"
| "token_ok Conv_str t = (t \<noteq> [] \<and> list_all (\<lambda>c. \<not> isspace_c c) t)"
| "token_ok Conv_chr t = (length t = 1 \<and> list_all (\<lambda>c. \<not> isspace_c c) t)"

definition stat_line :: "string list \<Rightarrow> string" where
  "stat_line ts = concat (map (\<lambda>t. CHR '' '' # t) ts)"

definition ends_token :: "string \<Rightarrow> bool" where
  "ends_token rest = (case rest of [] \<Rightarrow> True | c # _ \<Rightarrow> isspace_c c)"

lemma space_facts: "isspace_c (CHR '' '')" "isdigit_c c \<Longrightarrow> \<not> isspace_c c"
  "\<not> isspace_c (CHR ''-'')" "\<not> isspace_c (CHR ''+'')"
  by (auto simp: isspace_c_def isdigit_c_def)

lemma token_not_blank: "token_ok c t \<Longrightarrow> t \<noteq> [] \<and> \<not> isspace_c (hd t)"
proof (cases c)
  case Conv_int
  assume "token_ok c t"
  with Conv_int show ?thesis
    by (cases t) (auto simp: drop_sign_def space_facts split: if_splits)
qed (cases t; auto)+

lemma skip_before_token: "token_ok c t \<Longrightarrow> skip_space (CHR '' '' # t @ rest) = t @ rest"
  using token_not_blank [of c t] by (cases t) (auto simp: skip_space_def space_facts)

lemma ends_token_not_digit: "ends_token rest \<Longrightarrow> takeWhile isdigit_c rest = [] \<and> dropWhile isdigit_c rest = rest"
  using space_facts(2) by (cases rest) (auto simp: ends_token_def)

lemma drop_sign_append: "t \<noteq> [] \<Longrightarrow> drop_sign (t @ rest) = drop_sign t @ rest"
  by (cases t) (auto simp: drop_sign_def)

lemma scan_token:
  assumes "token_ok c t" "ends_token rest"
  shows "scan c (CHR '' '' # t @ rest) = Some rest"
proof (cases c)
  case Conv_int
  with assms have d: "drop_sign t \<noteq> []" "\<forall>x \<in> set (drop_sign t). isdigit_c x"
    by (auto simp: list_all_iff)
  then have "t \<noteq> []" by (auto simp: drop_sign_def)
  then show ?thesis
    using d Conv_int ends_token_not_digit [OF assms(2)]
    by (simp add: skip_before_token [OF assms(1)] drop_sign_append takeWhile_append dropWhile_append
        Let_def)
next
  case Conv_str
  have "dropWhile (\<lambda>c. \<not> isspace_c c) rest = rest"
    using assms(2) by (cases rest) (auto simp: ends_token_def)
  with assms Conv_str show ?thesis
    by (simp add: skip_before_token [OF assms(1)] list_all_iff dropWhile_append Let_def)
next
  case Conv_chr
  with assms(1) obtain x where "t = [x]" by (cases t) auto
  with Conv_chr skip_before_token [OF assms(1), of rest] show ?thesis by simp
qed

lemma ends_stat_line: "ends_token (stat_line ts)"
  by (cases ts) (auto simp: ends_token_def stat_line_def space_facts)

lemma scan_all_tokens:
  "list_all2 token_ok cs ts \<Longrightarrow> scan_all cs (stat_line (ts @ us)) = Some (stat_line us)"
proof (induction cs arbitrary: ts)
  case Nil
  then show ?case by simp
next
  case (Cons c cs)
  then obtain t ts' where ts: "ts = t # ts'" "token_ok c t" "list_all2 token_ok cs ts'"
    by (cases ts) auto
  have line: "stat_line (ts @ us) = CHR '' '' # t @ stat_line (ts' @ us)"
    by (simp add: ts(1) stat_line_def)
  show ?case
    unfolding line scan_all.simps scan_token [OF ts(2) ends_stat_line] option.case
    by (rule Cons.IH [OF ts(3)])
qed

lemma scan_llu_token:
  assumes "t \<noteq> []" "list_all isdigit_c t" "ends_token rest" "digits_val t < 2 ^ 64"
  shows "scan_llu (CHR '' '' # t @ rest) = Some (of_nat (digits_val t))"
proof -
  obtain d ds where t: "t = d # ds" using assms(1) by (cases t) auto
  have sg: "d \<noteq> CHR ''-''" "d \<noteq> CHR ''+''"
    using assms(2) t by (auto simp: isdigit_c_def)
  then have "drop_sign t = t" by (simp add: t drop_sign_def)
  then have tok: "token_ok Conv_int t" using assms(1,2) by simp
  have "takeWhile isdigit_c (drop_sign (t @ rest)) = t"
    using assms(2) ends_token_not_digit [OF assms(3)] \<open>drop_sign t = t\<close> assms(1)
    by (simp add: drop_sign_append takeWhile_append list_all_iff)
  moreover have "take 1 (t @ rest) \<noteq> ''-''" using sg(1) by (simp add: t)
  ultimately show ?thesis
    using assms(1,4) by (simp add: scan_llu_def Let_def skip_before_token [OF tok] not_le)
qed

section \<open>Properties\<close>

text \<open>
  C31: \<^verbatim>\<open>JhiUtilUUID_Validate\<close> on a C string \<open>s\<close> (followed in memory by anything, as long as 33 bytes
  can be read) accepts exactly the strings \<^verbatim>\<open>validateUuidString\<close> accepts, writes the upper-case form of
  \<open>s\<close>, which is itself valid, and otherwise returns \<^verbatim>\<open>JHI_INVALID_APPLET_GUID\<close>.
\<close>

theorem UUID_Validate_correct:
  assumes "NUL \<notin> set s" "length s + length junk \<ge> 32"
  shows "\<exists>code out. JhiUtilUUID_Validate (Some (s @ NUL # junk)) = Some (code, out)
    \<and> (code = JHI_SUCCESS \<longleftrightarrow> validateUuidString s)
    \<and> (code = JHI_SUCCESS \<longrightarrow> out = strToUppercase s \<and> upper out \<and> validateUuidString out)
    \<and> (code \<noteq> JHI_SUCCESS \<longrightarrow> code = JHI_INVALID_APPLET_GUID)"
proof -
  obtain out where "JhiUtilUUID_Validate (Some (s @ NUL # junk)) =
      Some (if UUID_wf s then (JHI_SUCCESS, strToUppercase s) else (JHI_INVALID_APPLET_GUID, out))"
    using JhiUtilUUID_Validate_fst [OF assms] by blast
  then show ?thesis
    by (cases "UUID_wf s") (auto simp: validateUuidString_wf UUID_wf_upper)
qed

theorem UUID_Validate_correct_witness:
  "\<exists>code out. JhiUtilUUID_Validate (Some (''0123456789abcdef0123456789ABCDEF'' @ [NUL])) = Some (code, out)
    \<and> code = JHI_SUCCESS \<and> out = ''0123456789ABCDEF0123456789ABCDEF''"
proof -
  have "validateUuidString ''0123456789abcdef0123456789ABCDEF''" by code_simp
  moreover have "strToUppercase ''0123456789abcdef0123456789ABCDEF'' = ''0123456789ABCDEF0123456789ABCDEF''"
    by code_simp
  ultimately show ?thesis
    using UUID_Validate_correct [of "''0123456789abcdef0123456789ABCDEF''" "[]"] by auto
qed

text \<open>
  \<^verbatim>\<open>JhiUtilUUID_Validate\<close> looks at \<^verbatim>\<open>AppId[32]\<close> before it knows the length: it reads past the end
  of the memory exactly when fewer than 33 bytes are there, whatever string they hold.
\<close>

theorem UUID_Validate_overread:
  "JhiUtilUUID_Validate (Some mem) = None \<longleftrightarrow> length mem \<le> LEN_APP_ID"
proof -
  have "strlen m \<noteq> None" if "NUL \<in> set m" for m
    using that by (induction m) auto
  moreover have "length mem > LEN_APP_ID \<Longrightarrow> mem ! LEN_APP_ID = NUL \<Longrightarrow> NUL \<in> set mem"
    by (metis nth_mem)
  ultimately have "strlen mem \<noteq> None" if "length mem > LEN_APP_ID" "mem ! LEN_APP_ID = NUL"
    using that by blast
  then show ?thesis
    by (cases "length mem \<le> LEN_APP_ID") (auto simp: JhiUtilUUID_Validate_def not_le)
qed

text \<open>
  \<^verbatim>\<open>TrimString\<close> removes exactly the leading and trailing blanks, tabs, carriage returns and
  newlines: the string is a blank prefix, the result, and a blank suffix, and the result neither
  begins nor ends with such a character.
\<close>

theorem TrimString_correct:
  "\<exists>p q. s = p @ TrimString s @ q \<and> list_all blank_char p \<and> list_all blank_char q
     \<and> trimmed (TrimString s)"
proof -
  obtain p t q where s: "s = p @ t @ q" "list_all blank_char p" "list_all blank_char q" "trimmed t"
    by (rule trim_split)
  have "TrimString s = t"
  proof (cases "t = []")
    case True
    with s have "list_all blank_char s" by simp
    with True show ?thesis by (simp add: TrimString_blank)
  next
    case False
    with s show ?thesis by (simp add: TrimString_core)
  qed
  with s show ?thesis by (intro exI [of _ p] exI [of _ q]) simp
qed

text \<open>
  \<^verbatim>\<open>jhiErrorToTeeError\<close> maps success, and only success, to success; every other result is a code
  of the TEE range (0x2000 and above); codes already in that range are kept.
\<close>

theorem jhiErrorToTeeError_range:
  "(jhiErrorToTeeError c = TEE_STATUS_SUCCESS \<longleftrightarrow> c = JHI_SUCCESS)
   \<and> (jhiErrorToTeeError c = TEE_STATUS_SUCCESS \<or> 0x2000 \<le> jhiErrorToTeeError c)
   \<and> jhiErrorToTeeError (jhiErrorToTeeError c) = jhiErrorToTeeError c"
proof -
  have big: "jhiErrorToTeeError d = d" if "d = 0 \<or> 0x2000 \<le> d" for d
    using that by (auto simp: jhiErrorToTeeError_def isJhiError_def)
  have range: "jhiErrorToTeeError c = TEE_STATUS_SUCCESS \<or> 0x2000 \<le> jhiErrorToTeeError c"
    by (simp add: jhiErrorToTeeError_def isJhiError_def not_less)
  moreover have "jhiErrorToTeeError c = TEE_STATUS_SUCCESS \<longleftrightarrow> c = JHI_SUCCESS"
    by (auto simp: jhiErrorToTeeError_def isJhiError_def)
  ultimately show ?thesis using big [OF range] by simp
qed

text \<open>
  \<^verbatim>\<open>getProcStartTime\<close> reads the twenty-second field of a stat line, the start time, when the
  fields have the shape documented for \<^verbatim>\<open>/proc\<close> and the command name has no white space; it returns the
  64-bit number split over the two halves of the \<^verbatim>\<open>FILETIME\<close>.
\<close>

theorem getProcStartTime_field:
  assumes "list_all2 token_ok stat_format ts" "t \<noteq> []" "list_all isdigit_c t"
    "digits_val t < 2 ^ 64"
  shows "getProcStartTime (Some (stat_line (ts @ t # us))) f =
    (JHI_SUCCESS, \<lparr> dwHighDateTime = ucast (of_nat (digits_val t) :: uint64),
                    dwLowDateTime = ucast (drop_bit 32 (of_nat (digits_val t) :: uint64)) \<rparr>)"
proof -
  have "scan_llu (stat_line (t # us)) = Some (of_nat (digits_val t))"
    using scan_llu_token [OF assms(2,3) ends_stat_line assms(4)] by (simp add: stat_line_def)
  then show ?thesis
    by (simp add: getProcStartTime_def scan_all_tokens [OF assms(1)])
qed

theorem getProcStartTime_field_witness:
  "getProcStartTime (Some (stat_line ([''12'', ''(bash)'', ''S''] @ replicate 18 ''-1'' @ ''4242'' # [''0''])))
      \<lparr> dwHighDateTime = 0, dwLowDateTime = 0 \<rparr> =
    (JHI_SUCCESS, \<lparr> dwHighDateTime = 4242, dwLowDateTime = 0 \<rparr>)"
proof -
  have "list_all2 token_ok stat_format ([''12'', ''(bash)'', ''S''] @ replicate 18 ''-1'')"
    by code_simp
  moreover have "digits_val ''4242'' = 4242" "list_all isdigit_c ''4242''"
    by code_simp+
  moreover have "ucast (4242 :: uint64) = (4242 :: uint32)" "ucast (drop_bit 32 (4242 :: uint64)) = (0 :: uint32)"
    by code_simp+
  ultimately show ?thesis
    using getProcStartTime_field [of "[''12'', ''(bash)'', ''S''] @ replicate 18 ''-1''" "''4242''" "[''0'']"
      "\<lparr> dwHighDateTime = 0, dwLowDateTime = 0 \<rparr>"]
    by simp
qed

text \<open>
  When the command name has a blank in it, as a name such as \<^verbatim>\<open>tmux: server\<close> has, the conversions
  lose step with the fields and the start time is not read: \<^verbatim>\<open>getProcStartTime\<close> fails, and
  \<^verbatim>\<open>isProcessDead\<close> then takes any process with that number for the one that was saved.
\<close>

theorem getProcStartTime_blank_in_name:
  "getProcStartTime (Some (stat_line ([''12'', ''(tmux:'', ''server)'', ''S''] @ ts))) f = (JHI_INTERNAL_ERROR, f)
   \<and> \<not> isProcessDead True (Some (stat_line ([''12'', ''(tmux:'', ''server)'', ''S''] @ ts))) f"
proof -
  have "stat_line ([''12'', ''(tmux:'', ''server)'', ''S''] @ ts) =
      '' 12 (tmux: server) S'' @ stat_line ts"
    by (simp add: stat_line_def)
  moreover have "scan_all stat_format ('' 12 (tmux: server) S'' @ rest) = None" for rest
    by (simp add: stat_format_def numeral_eq_Suc skip_space_def drop_sign_def isspace_c_def isdigit_c_def Let_def)
  ultimately have "getProcStartTime (Some (stat_line ([''12'', ''(tmux:'', ''server)'', ''S''] @ ts))) f =
      (JHI_INTERNAL_ERROR, f)"
    by (simp add: getProcStartTime_def)
  then show ?thesis by (simp add: isProcessDead_def)
qed

end
