(* ===== verification/Sessions_Manager.thy ===== *)
theory Sessions_Manager
  imports Misc_Util
begin

text \<open>
  The session table of the service, \<^verbatim>\<open>service/SessionsManager.cpp\<close>. The state is the map from
  session identifiers to records and the counter behind the last-use stamps of shared sessions.
  Every method that only reads or writes the table is a function on that state, in the order of
  the source; the methods that also close sessions in the VM (\<^verbatim>\<open>closeSessionsInVM\<close>,
  \<^verbatim>\<open>ClearAppletSharedSession\<close>, \<^verbatim>\<open>ClearAbandonedNonSharedSessions\<close>,
  \<^verbatim>\<open>TryRemoveUnusedSharedSession\<close>) are in the theory of the close operation, which they call.

  The class mutex \<^verbatim>\<open>_locker\<close> makes each method one atomic step. A session's own lock is the
  recursive mutex of \<^verbatim>\<open>Locker\<close>; its field is the depth to which it is held, and unlocking a
  free lock has no effect (\<^verbatim>\<open>pthread_mutex_unlock\<close> reports an error that is ignored). Reading the
  clock of a last use truncates the 64-bit counter to the 32-bit field, as the assignment does.
  The last part states the table's invariant, the effect of each operation on it, and the
  interface through which the handlers use it.
\<close>

record SessionRecord =
  sessionId :: JHI_SESSION_ID
  vmSessionHandle :: VM_SESSION_HANDLE
  appId :: string
  sessionFlags :: JHI_SESSION_FLAGS
  state :: JHI_SESSION_STATE
  ownersList :: "JHI_PROCESS_INFO list"
  eventsDataQueue :: "JHI_EVENT_DATA list"
  sessionLock :: nat
  lastUsedTime :: uint32
  eventHandle :: "JhiEvent option"

record SessionsManager =
  sessionList :: "(JHI_SESSION_ID, SessionRecord) smap"
  sharedSessionLRUCounter :: uint64

definition SessionsManager_init :: SessionsManager where
  "SessionsManager_init = \<lparr> sessionList = [], sharedSessionLRUCounter = 1 \<rparr>"

section \<open>The table\<close>

text \<open>\<^verbatim>\<open>isSessionPresent\<close>, the record of a session, and its update in place.\<close>

definition session :: "JHI_SESSION_ID \<Rightarrow> SessionsManager \<Rightarrow> SessionRecord option" where
  "session sid m = smap_find (sessionList m) sid"

definition isSessionPresent :: "JHI_SESSION_ID \<Rightarrow> SessionsManager \<Rightarrow> bool" where
  "isSessionPresent sid m = (smap_find (sessionList m) sid \<noteq> None)"

definition put_session :: "JHI_SESSION_ID \<Rightarrow> SessionRecord \<Rightarrow> SessionsManager \<Rightarrow> SessionsManager" where
  "put_session sid r m = m\<lparr>sessionList := smap_put sid r (sessionList m)\<rparr>"

definition toUpperCase :: "string \<Rightarrow> string" where
  "toUpperCase str = map toupper_c str"

definition add :: "string \<Rightarrow> VM_SESSION_HANDLE \<Rightarrow> JHI_SESSION_ID \<Rightarrow> JHI_SESSION_FLAGS \<Rightarrow>
    JHI_PROCESS_INFO option \<Rightarrow> SessionsManager \<Rightarrow> bool \<times> SessionsManager" where
  "add app handle sid flags processInfo m =
     (if isSessionPresent sid m then (False, m)
      else case processInfo of
          None \<Rightarrow> (False, m)
        | Some info \<Rightarrow>
            let newRecord = \<lparr> sessionId = sid, vmSessionHandle = handle, appId = toUpperCase app,
                  sessionFlags = flags, state = JHI_SESSION_STATE_ACTIVE, ownersList = [info],
                  eventsDataQueue = [], sessionLock = 0, lastUsedTime = 0, eventHandle = None \<rparr> in
            (True, m\<lparr>sessionList := smap_insert sid newRecord (sessionList m)\<rparr>))"

text \<open>
  \<^verbatim>\<open>remove\<close>: clears the queue, erases the record, unlocks and frees its lock and event handle;
  freed objects are no longer part of the state. Freeing the handle of a registered event closes
  its socket and deletes the socket's name, which is not one of the regular files of the model.
\<close>

definition remove :: "JHI_SESSION_ID \<Rightarrow> SessionsManager \<Rightarrow> bool \<times> SessionsManager" where
  "remove sid m =
     (if \<not> isSessionPresent sid m then (False, m)
      else (True, m\<lparr>sessionList := smap_erase sid (sessionList m)\<rparr>))"

definition getVMSessionHandle :: "JHI_SESSION_ID \<Rightarrow> SessionsManager \<Rightarrow> VM_SESSION_HANDLE option" where
  "getVMSessionHandle sid m = map_option vmSessionHandle (session sid m)"

definition getVMSessionHandles :: "string \<Rightarrow> SessionsManager \<Rightarrow> VM_SESSION_HANDLE list" where
  "getVMSessionHandles app m =
     [vmSessionHandle r. (k, r) \<leftarrow> sessionList m, toUpperCase app = appId r]"

definition getJHISessionHandles :: "string \<Rightarrow> SessionsManager \<Rightarrow> JHI_SESSION_ID list" where
  "getJHISessionHandles app m = [k. (k, r) \<leftarrow> sessionList m, toUpperCase app = appId r]"

definition hasLiveSessions :: "string \<Rightarrow> SessionsManager \<Rightarrow> bool" where
  "hasLiveSessions app m = list_ex (\<lambda>(k, r). toUpperCase app = appId r) (sessionList m)"

definition resetSessionManager :: "SessionsManager \<Rightarrow> SessionsManager" where
  "resetSessionManager m = m\<lparr>sessionList := []\<rparr>"

definition getSessionInfo :: "JHI_SESSION_ID \<Rightarrow> SessionsManager \<Rightarrow> JHI_SESSION_INFO" where
  "getSessionInfo sid m =
     (case session sid m of
        None \<Rightarrow> \<lparr> info_state = JHI_SESSION_STATE_NOT_EXISTS, info_flags = 0 \<rparr>
      | Some r \<Rightarrow> \<lparr> info_state = state r, info_flags = sessionFlags r \<rparr>)"

section \<open>Events\<close>

text \<open>\<^verbatim>\<open>clearEventsQueue\<close>: pops and frees every event.\<close>

fun clearEventsQueue :: "JHI_EVENT_DATA list \<Rightarrow> JHI_EVENT_DATA list" where
  "clearEventsQueue [] = []"
| "clearEventsQueue (e # q) = clearEventsQueue q"

definition registered :: "JhiEvent option \<Rightarrow> bool" where
  "registered h = (case h of None \<Rightarrow> False | Some e \<Rightarrow> is_created e)"

definition setEventHandle :: "JHI_SESSION_ID \<Rightarrow> JhiEvent option \<Rightarrow> SessionsManager \<Rightarrow>
    bool \<times> SessionsManager" where
  "setEventHandle sid handle m =
     (case session sid m of
        None \<Rightarrow> (False, m)
      | Some r \<Rightarrow>
          let r1 = r\<lparr>eventHandle := handle\<rparr>;
              r2 = (if \<not> registered handle
                    then r1\<lparr>eventsDataQueue := clearEventsQueue (eventsDataQueue r1)\<rparr> else r1) in
          (True, put_session sid r2 m))"

text \<open>\<^verbatim>\<open>getEventHandle\<close>: the status and the handle stored through the out parameter.\<close>

definition getEventHandle :: "JHI_SESSION_ID \<Rightarrow> SessionsManager \<Rightarrow> bool \<times> JhiEvent option" where
  "getEventHandle sid m =
     (case session sid m of
        None \<Rightarrow> (False, None)
      | Some r \<Rightarrow> (registered (eventHandle r), eventHandle r))"

definition enqueueEventData :: "JHI_SESSION_ID \<Rightarrow> JHI_EVENT_DATA \<Rightarrow> SessionsManager \<Rightarrow>
    bool \<times> SessionsManager" where
  "enqueueEventData sid pEventData m =
     (case session sid m of
        None \<Rightarrow> (False, m)
      | Some r \<Rightarrow>
          if length (eventsDataQueue r) \<ge> MAX_EVENTS_DATA_IN_QUEUE then (False, m)
          else (True, put_session sid (r\<lparr>eventsDataQueue := eventsDataQueue r @ [pEventData]\<rparr>) m))"

text \<open>
  \<^verbatim>\<open>getSessionEventData\<close>: \<open>alloc\<close> is whether the copy of the data can be allocated. The event
  leaves the queue before the allocation. What the caller's structure then holds is the
  second component; without an allocation it has the length and type, and no data.
\<close>

definition getSessionEventData :: "bool \<Rightarrow> JHI_SESSION_ID \<Rightarrow> SessionsManager \<Rightarrow>
    (JHI_RET \<times> JHI_EVENT_DATA option) \<times> SessionsManager" where
  "getSessionEventData alloc sid m =
     (case session sid m of
        None \<Rightarrow> ((JHI_INVALID_SESSION_HANDLE, None), m)
      | Some r \<Rightarrow>
          if \<not> registered (eventHandle r) then ((JHI_INTERNAL_ERROR, None), m)
          else case eventsDataQueue r of
              [] \<Rightarrow> ((JHI_GET_EVENT_FAIL_NO_EVENTS, None), m)
            | e # q \<Rightarrow>
                let m' = put_session sid (r\<lparr>eventsDataQueue := q\<rparr>) m in
                if ev_data e \<noteq> None \<and> \<not> alloc
                then ((JHI_INTERNAL_ERROR, Some (e\<lparr>ev_data := None\<rparr>)), m')
                else ((JHI_SUCCESS, Some e), m'))"

section \<open>Session locks\<close>

text \<open>
  \<^verbatim>\<open>GetSessionLock\<close> without interference: the lock is free or held by the calling thread, so
  \<^verbatim>\<open>Lock()\<close> returns and the session is still present.
\<close>

definition GetSessionLock :: "JHI_SESSION_ID \<Rightarrow> SessionsManager \<Rightarrow> bool \<times> SessionsManager" where
  "GetSessionLock sid m =
     (case session sid m of
        None \<Rightarrow> (False, m)
      | Some r \<Rightarrow> (True, put_session sid (r\<lparr>sessionLock := sessionLock r + 1\<rparr>) m))"

definition ReleaseSessionLock :: "JHI_SESSION_ID \<Rightarrow> SessionsManager \<Rightarrow> SessionsManager" where
  "ReleaseSessionLock sid m =
     (case session sid m of
        None \<Rightarrow> m
      | Some r \<Rightarrow> put_session sid (r\<lparr>sessionLock := sessionLock r - 1\<rparr>) m)"

section \<open>Owners\<close>

text \<open>
  \<^verbatim>\<open>updateSessionLastUsage\<close> on a record of the table: the record and the counter afterwards.
\<close>

definition updateSessionLastUsage :: "SessionRecord \<Rightarrow> uint64 \<Rightarrow> SessionRecord \<times> uint64" where
  "updateSessionLastUsage r c =
     (if ownersList r = [] \<and> sharedSession (sessionFlags r)
      then (r\<lparr>lastUsedTime := ucast c\<rparr>, c + 1) else (r, c))"

definition touch_session :: "JHI_SESSION_ID \<Rightarrow> SessionRecord \<Rightarrow> SessionsManager \<Rightarrow> SessionsManager" where
  "touch_session sid r m =
     (let (r', c') = updateSessionLastUsage r (sharedSessionLRUCounter m) in
      put_session sid r' (m\<lparr>sharedSessionLRUCounter := c'\<rparr>))"

definition ClearSessionDeadOwners :: "(JHI_PROCESS_INFO \<Rightarrow> bool) \<Rightarrow> JHI_SESSION_ID \<Rightarrow>
    SessionsManager \<Rightarrow> bool \<times> SessionsManager" where
  "ClearSessionDeadOwners processIsDead sid m =
     (case session sid m of
        None \<Rightarrow> (False, m)
      | Some r \<Rightarrow>
          if ownersList r = [] then (False, m)
          else
            let alive = filter (\<lambda>p. \<not> processIsDead p) (ownersList r);
                r' = r\<lparr>ownersList := alive\<rparr> in
            if length alive < length (ownersList r) then (True, touch_session sid r' m)
            else (False, put_session sid r' m))"

fun clear_dead_owners_of :: "(JHI_PROCESS_INFO \<Rightarrow> bool) \<Rightarrow> SessionRecord list \<Rightarrow>
    SessionsManager \<Rightarrow> bool \<times> SessionsManager" where
  "clear_dead_owners_of dead [] m = (False, m)"
| "clear_dead_owners_of dead (r # rs) m =
     (let (b, m1) = ClearSessionDeadOwners dead (sessionId r) m;
          (b', m2) = clear_dead_owners_of dead rs m1 in (b \<or> b', m2))"

definition ClearSessionsDeadOwners :: "(JHI_PROCESS_INFO \<Rightarrow> bool) \<Rightarrow> SessionsManager \<Rightarrow>
    bool \<times> SessionsManager" where
  "ClearSessionsDeadOwners processIsDead m =
     clear_dead_owners_of processIsDead (map snd (sessionList m)) m"

definition AppletHasNonSharedSessions :: "string \<Rightarrow> SessionsManager \<Rightarrow> bool" where
  "AppletHasNonSharedSessions app m =
     list_ex (\<lambda>(k, r). toUpperCase app = appId r \<and> \<not> sharedSession (sessionFlags r)) (sessionList m)"

definition addSessionOwner :: "JHI_SESSION_ID \<Rightarrow> JHI_PROCESS_INFO \<Rightarrow> SessionsManager \<Rightarrow>
    bool \<times> SessionsManager" where
  "addSessionOwner sid info m =
     (case session sid m of
        None \<Rightarrow> (False, m)
      | Some r \<Rightarrow>
          if length (ownersList r) \<ge> MAX_SESSION_OWNERS then (False, m)
          else (True, put_session sid (r\<lparr>ownersList := ownersList r @ [info]\<rparr>) m))"

definition same_process :: "JHI_PROCESS_INFO \<Rightarrow> JHI_PROCESS_INFO \<Rightarrow> bool" where
  "same_process p info =
     (pid p = pid info
      \<and> dwHighDateTime (creationTime p) = dwHighDateTime (creationTime info)
      \<and> dwLowDateTime (creationTime p) = dwLowDateTime (creationTime info))"

text \<open>The loop of \<^verbatim>\<open>removeSessionOwner\<close>: erases the first owner that is the process.\<close>

fun erase_owner :: "JHI_PROCESS_INFO \<Rightarrow> JHI_PROCESS_INFO list \<Rightarrow> JHI_PROCESS_INFO list option" where
  "erase_owner info [] = None"
| "erase_owner info (p # ps) =
     (if same_process p info then Some ps else map_option ((#) p) (erase_owner info ps))"

definition removeSessionOwner :: "JHI_SESSION_ID \<Rightarrow> JHI_PROCESS_INFO \<Rightarrow> SessionsManager \<Rightarrow>
    bool \<times> SessionsManager" where
  "removeSessionOwner sid info m =
     (case session sid m of
        None \<Rightarrow> (False, m)
      | Some r \<Rightarrow>
          case erase_owner info (ownersList r) of
            None \<Rightarrow> (False, m)
          | Some owners \<Rightarrow> (True, touch_session sid (r\<lparr>ownersList := owners\<rparr>) m))"

definition isSessionOwnerValid :: "JHI_SESSION_ID \<Rightarrow> JHI_PROCESS_INFO \<Rightarrow> SessionsManager \<Rightarrow> bool" where
  "isSessionOwnerValid sid info m =
     (case session sid m of
        None \<Rightarrow> False
      | Some r \<Rightarrow> list_ex (\<lambda>p. same_process p info) (ownersList r))"

definition getOwnersCount :: "JHI_SESSION_ID \<Rightarrow> SessionsManager \<Rightarrow> int" where
  "getOwnersCount sid m =
     (case session sid m of None \<Rightarrow> -1 | Some r \<Rightarrow> int (length (ownersList r)))"

text \<open>\<^verbatim>\<open>getSharedSessionID\<close>: the name is compared as it is given, without upper-casing.\<close>

definition getSharedSessionID :: "string \<Rightarrow> SessionsManager \<Rightarrow> JHI_SESSION_ID option" where
  "getSharedSessionID app m =
     map_option fst (find (\<lambda>(k, r). appId r = app \<and> sharedSession (sessionFlags r)) (sessionList m))"

text \<open>
  The selections of the three clean-up methods: the non-shared sessions without owners, the first
  shared session of an applet without owners, and the least recently used shared session without
  owners, scanning from the first candidate and replacing it by a strictly older one.
\<close>

definition abandonedNonShared :: "SessionsManager \<Rightarrow> JHI_SESSION_ID list" where
  "abandonedNonShared m =
     [k. (k, r) \<leftarrow> sessionList m, ownersList r = [] \<and> \<not> sharedSession (sessionFlags r)]"

definition abandonedAppletShared :: "string \<Rightarrow> SessionsManager \<Rightarrow> JHI_SESSION_ID option" where
  "abandonedAppletShared app m =
     map_option (sessionId \<circ> snd)
       (find (\<lambda>(k, r). toUpperCase app = appId r \<and> sharedSession (sessionFlags r) \<and> ownersList r = [])
         (sessionList m))"

definition unusedShared :: "bool \<Rightarrow> SessionsManager \<Rightarrow> JHI_SESSION_ID list" where
  "unusedShared allowNonSharedSessions m =
     [k. (k, r) \<leftarrow> sessionList m,
         ownersList r = [] \<and> sharedSession (sessionFlags r)
         \<and> (allowNonSharedSessions \<or> \<not> AppletHasNonSharedSessions (appId r) m)]"

definition last_used :: "SessionsManager \<Rightarrow> JHI_SESSION_ID \<Rightarrow> uint32" where
  "last_used m sid = (case session sid m of None \<Rightarrow> 0 | Some r \<Rightarrow> lastUsedTime r)"

fun oldest_from :: "(JHI_SESSION_ID \<Rightarrow> uint32) \<Rightarrow> JHI_SESSION_ID \<Rightarrow> JHI_SESSION_ID list \<Rightarrow>
    JHI_SESSION_ID" where
  "oldest_from t best [] = best"
| "oldest_from t best (x # xs) = (if t x < t best then oldest_from t x xs else oldest_from t best xs)"

definition leastRecentlyUsed :: "bool \<Rightarrow> SessionsManager \<Rightarrow> JHI_SESSION_ID option" where
  "leastRecentlyUsed allowNonSharedSessions m =
     (case unusedShared allowNonSharedSessions m of
        [] \<Rightarrow> None
      | x # xs \<Rightarrow> Some (oldest_from (last_used m) x (x # xs)))"

section \<open>The invariant of the table\<close>

definition record_ok :: "JHI_SESSION_ID \<Rightarrow> SessionRecord \<Rightarrow> bool" where
  "record_ok sid r \<longleftrightarrow>
     sessionId r = sid \<and> upper (appId r) \<and> state r = JHI_SESSION_STATE_ACTIVE
     \<and> length (ownersList r) \<le> MAX_SESSION_OWNERS
     \<and> length (eventsDataQueue r) \<le> MAX_EVENTS_DATA_IN_QUEUE
     \<and> list_all event_wf (eventsDataQueue r)"

definition sm_inv :: "SessionsManager \<Rightarrow> bool" where
  "sm_inv m \<longleftrightarrow> smap_inv (sessionList m) \<and> (\<forall>(k, r) \<in> set (sessionList m). record_ok k r)"

text \<open>What never changes in a session's life.\<close>

definition static_part :: "SessionsManager \<Rightarrow>
    (JHI_SESSION_ID, string \<times> JHI_SESSION_FLAGS \<times> VM_SESSION_HANDLE) smap" where
  "static_part m = map (\<lambda>(k, r). (k, appId r, sessionFlags r, vmSessionHandle r)) (sessionList m)"

text \<open>An applet has at most one shared session.\<close>

definition shared_unique :: "SessionsManager \<Rightarrow> bool" where
  "shared_unique m \<longleftrightarrow>
     (\<forall>(k, a, f, h) \<in> set (static_part m). \<forall>(k', a', f', h') \<in> set (static_part m).
        sharedSession f \<and> sharedSession f' \<and> a = a' \<longrightarrow> k = k')"

lemma toUpperCase_eq: "toUpperCase = strToUppercase"
  by (simp add: fun_eq_iff toUpperCase_def strToUppercase_def)

lemma upper_toUpperCase [simp]: "upper (toUpperCase s)"
  by (simp add: toUpperCase_eq)

lemma toUpperCase_upper [simp]: "upper s \<Longrightarrow> toUpperCase s = s"
  by (simp add: toUpperCase_eq)

lemma sm_invI:
  "smap_inv (sessionList m) \<Longrightarrow> (\<And>k r. session k m = Some r \<Longrightarrow> record_ok k r) \<Longrightarrow> sm_inv m"
  by (auto simp: sm_inv_def session_def tab.entries_find)

lemma sm_inv_table: "sm_inv m \<Longrightarrow> smap_inv (sessionList m)"
  by (simp add: sm_inv_def)

lemma sm_inv_record: "sm_inv m \<Longrightarrow> session k m = Some r \<Longrightarrow> record_ok k r"
  by (auto simp: sm_inv_def session_def dest: smap_find_entry)

lemma sm_inv_init [simp]: "sm_inv SessionsManager_init"
  by (simp add: sm_inv_def SessionsManager_init_def)

lemma isSessionPresent_iff: "isSessionPresent sid m \<longleftrightarrow> (\<exists>r. session sid m = Some r)"
  by (simp add: isSessionPresent_def session_def)

lemma session_put_session [simp]:
  "session k (put_session sid r m) = (if k = sid then Some r else session k m)"
  by (simp add: session_def put_session_def tab.find_put)

lemma session_counter [simp]: "session k (m\<lparr>sharedSessionLRUCounter := c\<rparr>) = session k m"
  by (simp add: session_def)

lemma table_put_session: "smap_inv (sessionList m) \<Longrightarrow> smap_inv (sessionList (put_session sid r m))"
  by (simp add: put_session_def tab.inv_put)

lemma session_touch [simp]:
  "session k (touch_session sid r m) =
     (if k = sid then Some (fst (updateSessionLastUsage r (sharedSessionLRUCounter m)))
      else session k m)"
  by (simp add: touch_session_def split: prod.split)

lemma table_touch: "smap_inv (sessionList m) \<Longrightarrow> smap_inv (sessionList (touch_session sid r m))"
  by (simp add: touch_session_def table_put_session split: prod.split)

lemma touched_fields [simp]:
  "sessionId (fst (updateSessionLastUsage r c)) = sessionId r"
  "appId (fst (updateSessionLastUsage r c)) = appId r"
  "sessionFlags (fst (updateSessionLastUsage r c)) = sessionFlags r"
  "vmSessionHandle (fst (updateSessionLastUsage r c)) = vmSessionHandle r"
  "state (fst (updateSessionLastUsage r c)) = state r"
  "ownersList (fst (updateSessionLastUsage r c)) = ownersList r"
  "eventsDataQueue (fst (updateSessionLastUsage r c)) = eventsDataQueue r"
  "eventHandle (fst (updateSessionLastUsage r c)) = eventHandle r"
  "sessionLock (fst (updateSessionLastUsage r c)) = sessionLock r"
  by (simp_all add: updateSessionLastUsage_def)

lemma find_static:
  "smap_find (static_part m) k =
     map_option (\<lambda>r. (appId r, sessionFlags r, vmSessionHandle r)) (session k m)"
proof -
  have "map_of (map (\<lambda>(k, r). (k, g r)) xs) k = map_option g (map_of xs k)"
    for g :: "SessionRecord \<Rightarrow> 'z" and xs
    by (induction xs) auto
  then show ?thesis by (simp add: static_part_def session_def smap_find_def)
qed

lemma inv_static: "smap_inv (sessionList m) \<Longrightarrow> smap_inv (static_part m)"
  by (simp add: static_part_def smap_inv_def split_beta comp_def)

lemma static_entry:
  "smap_inv (sessionList m) \<Longrightarrow> (k, a, f, h) \<in> set (static_part m) \<longleftrightarrow>
   (\<exists>r. session k m = Some r \<and> appId r = a \<and> sessionFlags r = f \<and> vmSessionHandle r = h)"
  by (auto simp: inv_static tab.entries_find find_static)

lemma shared_unique_iff:
  "smap_inv (sessionList m) \<Longrightarrow> shared_unique m \<longleftrightarrow>
   (\<forall>k k' r r'. session k m = Some r \<longrightarrow> session k' m = Some r' \<longrightarrow>
      sharedSession (sessionFlags r) \<longrightarrow> sharedSession (sessionFlags r') \<longrightarrow> appId r = appId r' \<longrightarrow>
      k = k')"
  unfolding shared_unique_def Ball_def split_paired_All prod.case static_entry
  by blast

lemma list_ex_session:
  "smap_inv (sessionList m) \<Longrightarrow>
   list_ex (\<lambda>(k, r). P k r) (sessionList m) \<longleftrightarrow> (\<exists>k r. session k m = Some r \<and> P k r)"
  by (simp add: list_ex_iff Bex_def split_paired_Ex session_def tab.entries_find)

lemma hasLiveSessions_static:
  "hasLiveSessions app m = list_ex (\<lambda>(k, a, f, h). toUpperCase app = a) (static_part m)"
  by (simp add: hasLiveSessions_def static_part_def list_ex_iff split_beta)

lemma hasLiveSessions_iff:
  "smap_inv (sessionList m) \<Longrightarrow>
   hasLiveSessions app m \<longleftrightarrow> (\<exists>k r. session k m = Some r \<and> toUpperCase app = appId r)"
  by (simp add: hasLiveSessions_def list_ex_session)

lemma AppletHasNonShared_iff:
  "smap_inv (sessionList m) \<Longrightarrow> AppletHasNonSharedSessions app m \<longleftrightarrow>
   (\<exists>k r. session k m = Some r \<and> toUpperCase app = appId r \<and> \<not> sharedSession (sessionFlags r))"
  by (simp add: AppletHasNonSharedSessions_def list_ex_session)

lemma getSharedSessionID_Some:
  assumes "smap_inv (sessionList m)" "getSharedSessionID app m = Some k"
  shows "\<exists>r. session k m = Some r \<and> appId r = app \<and> sharedSession (sessionFlags r)"
  using assms by (auto simp: getSharedSessionID_def session_def tab.entries_find dest!: find_Some_iff2)

lemma getSharedSessionID_None:
  assumes "smap_inv (sessionList m)" "getSharedSessionID app m = None" "session k m = Some r"
    "sharedSession (sessionFlags r)"
  shows "appId r \<noteq> app"
  using assms by (auto simp: getSharedSessionID_def find_None_iff session_def dest: smap_find_entry)

lemma abandonedNonShared_iff:
  "smap_inv (sessionList m) \<Longrightarrow> k \<in> set (abandonedNonShared m) \<longleftrightarrow>
   (\<exists>r. session k m = Some r \<and> ownersList r = [] \<and> \<not> sharedSession (sessionFlags r))"
  by (auto simp: abandonedNonShared_def session_def tab.entries_find)

lemma unusedShared_iff:
  "smap_inv (sessionList m) \<Longrightarrow> k \<in> set (unusedShared allow m) \<longleftrightarrow>
   (\<exists>r. session k m = Some r \<and> ownersList r = [] \<and> sharedSession (sessionFlags r)
      \<and> (allow \<or> \<not> AppletHasNonSharedSessions (appId r) m))"
  by (auto simp: unusedShared_def session_def tab.entries_find)

text \<open>No shared session of an applet: what the handler has checked when it creates one.\<close>

definition no_shared :: "string \<Rightarrow> SessionsManager \<Rightarrow> bool" where
  "no_shared app m \<longleftrightarrow>
     (\<forall>k r. session k m = Some r \<longrightarrow> sharedSession (sessionFlags r) \<longrightarrow> appId r \<noteq> app)"

lemma no_shared_find: "smap_inv (sessionList m) \<Longrightarrow> getSharedSessionID app m = None \<Longrightarrow> no_shared app m"
  unfolding no_shared_def by (blast dest: getSharedSessionID_None)

section \<open>Operations on one record\<close>

text \<open>
  The contract shared by every operation that changes the record of one session in place: the
  other records stay, and the record's identity, applet, flags and VM handle stay. The operations
  differ in \<open>upd\<close>, the change to the record (given the table before).
\<close>

locale record_op =
  fixes op :: "SessionsManager \<Rightarrow> SessionsManager"
    and sid :: JHI_SESSION_ID
    and upd :: "SessionsManager \<Rightarrow> SessionRecord \<Rightarrow> SessionRecord"
  assumes op_session: "session k (op m) =
      (if k = sid then map_option (upd m) (session sid m) else session k m)"
    and op_table: "smap_inv (sessionList m) \<Longrightarrow> smap_inv (sessionList (op m))"
    and upd_static: "sessionId (upd m r) = sessionId r" "appId (upd m r) = appId r"
      "sessionFlags (upd m r) = sessionFlags r" "vmSessionHandle (upd m r) = vmSessionHandle r"
      "state (upd m r) = state r"
begin

lemma op_present: "isSessionPresent k (op m) = isSessionPresent k m"
  by (simp add: isSessionPresent_iff op_session)

lemma op_static: "smap_inv (sessionList m) \<Longrightarrow> static_part (op m) = static_part m"
  by (rule smap_ext)
    (auto simp: inv_static op_table find_static op_session option.map_comp comp_def upd_static)

lemma op_shared_unique: "smap_inv (sessionList m) \<Longrightarrow> shared_unique m \<Longrightarrow> shared_unique (op m)"
  by (simp add: shared_unique_def op_static)

lemma op_no_shared:
  assumes "no_shared app m"
  shows "no_shared app (op m)"
  unfolding no_shared_def
proof (intro allI impI)
  fix k r
  assume k: "session k (op m) = Some r" and sh: "sharedSession (sessionFlags r)"
  then obtain r' where "session k m = Some r'" "sessionFlags r' = sessionFlags r" "appId r' = appId r"
    by (auto simp: op_session upd_static split: if_splits)
  with assms sh show "appId r \<noteq> app" unfolding no_shared_def by metis
qed

lemma op_inv:
  assumes "sm_inv m"
    and "\<And>r. session sid m = Some r \<Longrightarrow>
      length (ownersList (upd m r)) \<le> MAX_SESSION_OWNERS
      \<and> length (eventsDataQueue (upd m r)) \<le> MAX_EVENTS_DATA_IN_QUEUE
      \<and> list_all event_wf (eventsDataQueue (upd m r))"
  shows "sm_inv (op m)"
proof (rule sm_invI)
  show "smap_inv (sessionList (op m))" using assms(1) by (simp add: op_table sm_inv_table)
  fix k r
  assume "session k (op m) = Some r"
  then show "record_ok k r"
    using sm_inv_record [OF assms(1)] assms(2)
    by (auto simp: op_session record_ok_def upd_static split: if_splits)
qed

lemma op_live: "smap_inv (sessionList m) \<Longrightarrow> hasLiveSessions app (op m) = hasLiveSessions app m"
  by (simp add: hasLiveSessions_static op_static)

end

lemma clearEventsQueue_Nil [simp]: "clearEventsQueue q = []"
  by (induction q) simp_all

interpretation set_event: record_op "\<lambda>m. snd (setEventHandle sid h m)" sid
  "\<lambda>m r. if registered h then r\<lparr>eventHandle := h\<rparr> else r\<lparr>eventHandle := h, eventsDataQueue := []\<rparr>"
  for sid h
  by unfold_locales (auto simp: setEventHandle_def Let_def table_put_session split: option.splits)

interpretation enq: record_op "\<lambda>m. snd (enqueueEventData sid e m)" sid
  "\<lambda>m r. if length (eventsDataQueue r) \<ge> MAX_EVENTS_DATA_IN_QUEUE then r
         else r\<lparr>eventsDataQueue := eventsDataQueue r @ [e]\<rparr>"
  for sid e
  by unfold_locales (auto simp: enqueueEventData_def table_put_session split: option.splits)

interpretation deq: record_op "\<lambda>m. snd (getSessionEventData alloc sid m)" sid
  "\<lambda>m r. if registered (eventHandle r) then r\<lparr>eventsDataQueue := tl (eventsDataQueue r)\<rparr> else r"
  for alloc sid
  by unfold_locales
    (auto simp: getSessionEventData_def Let_def table_put_session split: option.splits list.splits)

interpretation lock: record_op "\<lambda>m. snd (GetSessionLock sid m)" sid
  "\<lambda>m r. r\<lparr>sessionLock := sessionLock r + 1\<rparr>"
  for sid
  by unfold_locales (auto simp: GetSessionLock_def table_put_session split: option.splits)

interpretation unlock: record_op "\<lambda>m. ReleaseSessionLock sid m" sid
  "\<lambda>m r. r\<lparr>sessionLock := sessionLock r - 1\<rparr>"
  for sid
  by unfold_locales (auto simp: ReleaseSessionLock_def table_put_session split: option.splits)

interpretation own: record_op "\<lambda>m. snd (addSessionOwner sid info m)" sid
  "\<lambda>m r. if length (ownersList r) \<ge> MAX_SESSION_OWNERS then r
         else r\<lparr>ownersList := ownersList r @ [info]\<rparr>"
  for sid info
  by unfold_locales (auto simp: addSessionOwner_def table_put_session split: option.splits)

interpretation disown: record_op "\<lambda>m. snd (removeSessionOwner sid info m)" sid
  "\<lambda>m r. case erase_owner info (ownersList r) of
           None \<Rightarrow> r
         | Some owners \<Rightarrow>
             fst (updateSessionLastUsage (r\<lparr>ownersList := owners\<rparr>) (sharedSessionLRUCounter m))"
  for sid info
  by unfold_locales (auto simp: removeSessionOwner_def table_touch split: option.splits)

lemma filter_not_shorter:
  "\<not> length (filter P xs) < length xs \<Longrightarrow> filter P xs = xs"
  by (simp add: filter_length_less_iff filter_id_conv)

interpretation reap: record_op "\<lambda>m. snd (ClearSessionDeadOwners dead sid m)" sid
  "\<lambda>m r. if list_ex dead (ownersList r)
         then fst (updateSessionLastUsage (r\<lparr>ownersList := filter (\<lambda>p. \<not> dead p) (ownersList r)\<rparr>)
                    (sharedSessionLRUCounter m))
         else r"
  for dead sid
  by unfold_locales
    (auto simp: ClearSessionDeadOwners_def Let_def table_touch table_put_session list_ex_iff
       filter_length_less_iff filter_id_conv split: option.splits)

text \<open>The facts the handlers use of the operations on one record.\<close>

lemmas session_ops [simp] =
  set_event.op_session enq.op_session deq.op_session lock.op_session unlock.op_session
  own.op_session disown.op_session reap.op_session

lemmas present_ops [simp] =
  set_event.op_present enq.op_present deq.op_present lock.op_present unlock.op_present
  own.op_present disown.op_present reap.op_present

lemmas table_ops =
  set_event.op_table enq.op_table deq.op_table lock.op_table unlock.op_table own.op_table
  disown.op_table reap.op_table

lemmas static_ops =
  set_event.op_static enq.op_static deq.op_static lock.op_static unlock.op_static own.op_static
  disown.op_static reap.op_static

lemmas record_bounds = sm_inv_record [unfolded record_ok_def]

lemma inv_setEventHandle: "sm_inv m \<Longrightarrow> sm_inv (snd (setEventHandle sid h m))"
  by (rule set_event.op_inv) (auto dest: record_bounds)

lemma inv_enqueue: "sm_inv m \<Longrightarrow> event_wf e \<Longrightarrow> sm_inv (snd (enqueueEventData sid e m))"
  by (rule enq.op_inv) (auto dest: record_bounds)

lemma list_all_tl: "list_all P xs \<Longrightarrow> list_all P (tl xs)"
  by (cases xs) simp_all

lemma inv_dequeue: "sm_inv m \<Longrightarrow> sm_inv (snd (getSessionEventData alloc sid m))"
  by (rule deq.op_inv) (auto dest!: record_bounds simp: list_all_tl)

lemma inv_lock: "sm_inv m \<Longrightarrow> sm_inv (snd (GetSessionLock sid m))"
  by (rule lock.op_inv) (auto dest: record_bounds)

lemma inv_unlock: "sm_inv m \<Longrightarrow> sm_inv (ReleaseSessionLock sid m)"
  by (rule unlock.op_inv) (auto dest: record_bounds)

lemma inv_addOwner: "sm_inv m \<Longrightarrow> sm_inv (snd (addSessionOwner sid info m))"
  by (rule own.op_inv) (auto dest: record_bounds)

lemma length_erase_owner: "erase_owner info ps = Some qs \<Longrightarrow> length ps = Suc (length qs)"
  by (induction ps arbitrary: qs) (auto split: if_splits)

lemma erase_owner_member:
  "erase_owner info ps = Some qs \<Longrightarrow> list_ex (\<lambda>p. same_process p info) ps"
  by (induction ps arbitrary: qs) (auto split: if_splits)

lemma inv_removeOwner: "sm_inv m \<Longrightarrow> sm_inv (snd (removeSessionOwner sid info m))"
  by (rule disown.op_inv) (auto dest!: record_bounds length_erase_owner split: option.splits)

lemma inv_reap: "sm_inv m \<Longrightarrow> sm_inv (snd (ClearSessionDeadOwners dead sid m))"
  by (rule reap.op_inv) (auto dest!: record_bounds intro: order.trans [OF length_filter_le])

section \<open>Adding and removing sessions\<close>

lemma session_add:
  "session k (snd (add app h sid flags info m)) =
     (if k = sid \<and> \<not> isSessionPresent sid m \<and> info \<noteq> None
      then Some \<lparr> sessionId = sid, vmSessionHandle = h, appId = toUpperCase app,
                  sessionFlags = flags, state = JHI_SESSION_STATE_ACTIVE, ownersList = [the info],
                  eventsDataQueue = [], sessionLock = 0, lastUsedTime = 0, eventHandle = None \<rparr>
      else session k m)"
  by (auto simp: add_def session_def isSessionPresent_def tab.find_insert split: option.splits)

lemma add_status: "fst (add app h sid flags info m) \<longleftrightarrow> \<not> isSessionPresent sid m \<and> info \<noteq> None"
  by (simp add: add_def split: option.splits)

lemma table_add: "smap_inv (sessionList m) \<Longrightarrow> smap_inv (sessionList (snd (add app h sid flags info m)))"
  by (simp add: add_def tab.inv_insert split: option.splits)

lemma inv_add: "sm_inv m \<Longrightarrow> sm_inv (snd (add app h sid flags info m))"
  by (rule sm_invI)
    (auto simp: session_add table_add sm_inv_table record_ok_def split: if_splits dest: record_bounds)

lemma session_remove [simp]:
  "session k (snd (remove sid m)) = (if k = sid then None else session k m)"
  by (simp add: remove_def session_def isSessionPresent_def tab.find_erase)

lemma table_remove: "smap_inv (sessionList m) \<Longrightarrow> smap_inv (sessionList (snd (remove sid m)))"
  by (simp add: remove_def tab.inv_erase)

lemma inv_remove: "sm_inv m \<Longrightarrow> sm_inv (snd (remove sid m))"
  by (rule sm_invI) (auto simp: table_remove sm_inv_table split: if_splits dest: sm_inv_record)

lemma inv_reset: "sm_inv m \<Longrightarrow> sm_inv (resetSessionManager m)"
  by (simp add: sm_inv_def resetSessionManager_def)

lemma session_reset [simp]: "session k (resetSessionManager m) = None"
  by (simp add: session_def resetSessionManager_def)

lemma shared_unique_remove:
  "smap_inv (sessionList m) \<Longrightarrow> shared_unique m \<Longrightarrow> shared_unique (snd (remove sid m))"
  by (simp add: shared_unique_iff table_remove)

lemma no_shared_remove: "no_shared app m \<Longrightarrow> no_shared app (snd (remove sid m))"
  by (simp add: no_shared_def)

lemma shared_unique_add:
  assumes "smap_inv (sessionList m)" "shared_unique m"
    and "sharedSession flags \<Longrightarrow> no_shared (toUpperCase app) m"
  shows "shared_unique (snd (add app h sid flags info m))"
proof -
  have "appId r \<noteq> toUpperCase app"
    if "sharedSession flags" "session k m = Some r" "sharedSession (sessionFlags r)" for k r
    using assms(3) that unfolding no_shared_def by blast
  with assms(1,2) show ?thesis
    by (simp add: shared_unique_iff table_add session_add) metis
qed

section \<open>The clean-up of dead owners\<close>

text \<open>
  The fold of \<^verbatim>\<open>ClearSessionsDeadOwners\<close> as a relation on each session: dead owners go, everything
  else of the record but the last-use stamp stays.
\<close>

definition reaped :: "(JHI_PROCESS_INFO \<Rightarrow> bool) \<Rightarrow> SessionRecord \<Rightarrow> SessionRecord \<Rightarrow> bool" where
  "reaped dead r r' \<longleftrightarrow>
     r' = r\<lparr>ownersList := filter (\<lambda>p. \<not> dead p) (ownersList r), lastUsedTime := lastUsedTime r'\<rparr>"

lemma reaped_once:
  "session k m = Some r \<Longrightarrow>
   \<exists>r'. session k (snd (ClearSessionDeadOwners dead k m)) = Some r' \<and> reaped dead r r'"
  by (auto simp: reaped_def updateSessionLastUsage_def list_ex_iff intro!: filter_True [symmetric])

lemma reaped_owners: "reaped dead r r' \<Longrightarrow> ownersList r' = filter (\<lambda>p. \<not> dead p) (ownersList r)"
proof -
  assume "reaped dead r r'"
  from arg_cong [OF this [unfolded reaped_def], of ownersList] show ?thesis by simp
qed

lemma reaped_trans: "reaped dead r r' \<Longrightarrow> reaped dead r' r'' \<Longrightarrow> reaped dead r r''"
proof -
  assume "reaped dead r r'" "reaped dead r' r''"
  then show ?thesis
    unfolding reaped_def by (cases r, cases r', cases r'') simp
qed

lemma reap_status:
  "fst (ClearSessionDeadOwners dead sid m) \<longleftrightarrow>
   (\<exists>r. session sid m = Some r \<and> list_ex dead (ownersList r))"
  by (auto simp: ClearSessionDeadOwners_def Let_def list_ex_iff filter_length_less_iff
      split: option.splits)

lemma clear_dead_absent:
  "session k m = None \<Longrightarrow> session k (snd (clear_dead_owners_of dead rs m)) = None"
proof (induction rs arbitrary: m)
  case (Cons a rs)
  have "session k (snd (ClearSessionDeadOwners dead (sessionId a) m)) = None"
    using Cons.prems by auto
  with Cons.IH show ?case by (simp add: Let_def split_beta)
qed simp

lemma clear_dead_other:
  "k \<notin> sessionId ` set rs \<Longrightarrow> session k (snd (clear_dead_owners_of dead rs m)) = session k m"
  by (induction rs arbitrary: m) (auto simp: Let_def split_beta)

lemma clear_dead_session:
  "session k m = Some r \<Longrightarrow> k \<in> sessionId ` set rs \<Longrightarrow>
   \<exists>r'. session k (snd (clear_dead_owners_of dead rs m)) = Some r' \<and> reaped dead r r'"
proof (induction rs arbitrary: m r)
  case Nil
  then show ?case by simp
next
  case (Cons a rs)
  define m1 where "m1 = snd (ClearSessionDeadOwners dead (sessionId a) m)"
  have step: "snd (clear_dead_owners_of dead (a # rs) m) = snd (clear_dead_owners_of dead rs m1)"
    by (simp add: m1_def Let_def split_beta)
  show ?case
  proof (cases "k = sessionId a")
    case True
    with Cons.prems(1) reaped_once obtain r1 where r1: "session k m1 = Some r1" "reaped dead r r1"
      unfolding m1_def by blast
    show ?thesis
    proof (cases "k \<in> sessionId ` set rs")
      case True
      with Cons.IH r1 show ?thesis unfolding step by (blast intro: reaped_trans)
    next
      case False
      with r1 show ?thesis unfolding step by (simp add: clear_dead_other)
    qed
  next
    case False
    then have "session k m1 = Some r" using Cons.prems(1) by (simp add: m1_def)
    with Cons False show ?thesis unfolding step by simp
  qed
qed

lemma clear_dead_status:
  "fst (clear_dead_owners_of dead rs m) \<longleftrightarrow>
   (\<exists>k \<in> sessionId ` set rs. \<exists>r. session k m = Some r \<and> list_ex dead (ownersList r))"
proof (induction rs arbitrary: m)
  case Nil
  then show ?case by simp
next
  case (Cons a rs)
  define m1 where "m1 = snd (ClearSessionDeadOwners dead (sessionId a) m)"
  have *: "fst (clear_dead_owners_of dead (a # rs) m) \<longleftrightarrow>
      fst (ClearSessionDeadOwners dead (sessionId a) m) \<or> fst (clear_dead_owners_of dead rs m1)"
    by (simp add: m1_def Let_def split_beta)
  show ?case
  proof (cases "fst (ClearSessionDeadOwners dead (sessionId a) m)")
    case True
    then show ?thesis unfolding * by (auto simp: reap_status)
  next
    case False
    then have "session k m1 = session k m" for k
      by (cases "session (sessionId a) m") (auto simp: m1_def reap_status)
    with False show ?thesis unfolding * by (auto simp: Cons.IH reap_status)
  qed
qed

lemma sm_inv_ids: "sm_inv m \<Longrightarrow> session k m = Some r \<Longrightarrow> k \<in> sessionId ` set (map snd (sessionList m))"
  using record_bounds [of m k r] smap_find_entry [of "sessionList m" k r]
  by (force simp: session_def)

lemma ClearSessionsDeadOwners_session:
  assumes "sm_inv m" "session k m = Some r"
  shows "\<exists>r'. session k (snd (ClearSessionsDeadOwners dead m)) = Some r' \<and> reaped dead r r'"
  unfolding ClearSessionsDeadOwners_def
  by (rule clear_dead_session [OF assms(2) sm_inv_ids [OF assms]])

lemma ClearSessionsDeadOwners_absent:
  "session k m = None \<Longrightarrow> session k (snd (ClearSessionsDeadOwners dead m)) = None"
  by (simp add: ClearSessionsDeadOwners_def clear_dead_absent)

lemma ClearSessionsDeadOwners_status:
  assumes "sm_inv m"
  shows "fst (ClearSessionsDeadOwners dead m) \<longleftrightarrow>
    (\<exists>k r. session k m = Some r \<and> list_ex dead (ownersList r))"
  unfolding ClearSessionsDeadOwners_def clear_dead_status using sm_inv_ids [OF assms] by blast

lemma preserve_clear_dead:
  assumes "\<And>sid m. I m \<Longrightarrow> I (snd (ClearSessionDeadOwners dead sid m))"
  shows "I m \<Longrightarrow> I (snd (clear_dead_owners_of dead rs m))"
  by (induction rs arbitrary: m) (auto simp: Let_def split_beta assms)

lemma inv_ClearSessionsDeadOwners: "sm_inv m \<Longrightarrow> sm_inv (snd (ClearSessionsDeadOwners dead m))"
  unfolding ClearSessionsDeadOwners_def by (rule preserve_clear_dead [where I = sm_inv]) (rule inv_reap)

lemma static_ClearSessionsDeadOwners:
  assumes "smap_inv (sessionList m)"
  shows "static_part (snd (ClearSessionsDeadOwners dead m)) = static_part m"
proof -
  define I where "I m' \<longleftrightarrow> smap_inv (sessionList m') \<and> static_part m' = static_part m" for m'
  have "I (snd (ClearSessionsDeadOwners dead m))"
    unfolding ClearSessionsDeadOwners_def
    by (rule preserve_clear_dead) (use assms in \<open>auto simp: I_def reap.op_table reap.op_static\<close>)
  then show ?thesis by (simp add: I_def)
qed

lemma ClearSessionDeadOwners_lock:
  "map_option sessionLock (session k (snd (ClearSessionDeadOwners dead sid m))) =
   map_option sessionLock (session k m)"
  by (cases "session sid m") (auto split: option.splits)

lemma ClearSessionsDeadOwners_lock:
  "map_option sessionLock (session k (snd (ClearSessionsDeadOwners dead m))) =
   map_option sessionLock (session k m)"
  unfolding ClearSessionsDeadOwners_def
  by (rule preserve_clear_dead
      [where I = "\<lambda>m'. map_option sessionLock (session k m') = map_option sessionLock (session k m)"])
    (simp_all only: ClearSessionDeadOwners_lock)

section \<open>The least recently used shared session\<close>

lemma oldest_from_in: "oldest_from t b xs \<in> insert b (set xs)"
  by (induction xs arbitrary: b) auto

lemma oldest_from_le: "x \<in> insert b (set xs) \<Longrightarrow> t (oldest_from t b xs) \<le> t x"
proof (induction xs arbitrary: b x)
  case Nil
  then show ?case by simp
next
  case (Cons y ys)
  have first: "t (oldest_from t c ys) \<le> t c" for c
    by (rule Cons.IH) simp
  show ?case
  proof (cases "t y < t b")
    case True
    with first [of y] have "t (oldest_from t y ys) \<le> t b" by order
    with True Cons.prems first [of y] Cons.IH [of x y] show ?thesis by auto
  next
    case False
    with first [of b] have "t (oldest_from t b ys) \<le> t y" by order
    with False Cons.prems first [of b] Cons.IH [of x b] show ?thesis by auto
  qed
qed

lemma leastRecentlyUsed_Some:
  assumes "smap_inv (sessionList m)" "leastRecentlyUsed allow m = Some k"
  shows "k \<in> set (unusedShared allow m)" "\<forall>j \<in> set (unusedShared allow m). last_used m k \<le> last_used m j"
proof -
  obtain x xs where xs: "unusedShared allow m = x # xs"
    "k = oldest_from (last_used m) x (x # xs)"
    using assms(2) by (auto simp: leastRecentlyUsed_def split: list.splits)
  show "k \<in> set (unusedShared allow m)"
    using oldest_from_in [of "last_used m" x "x # xs"] xs by auto
  show "\<forall>j \<in> set (unusedShared allow m). last_used m k \<le> last_used m j"
    unfolding xs by (intro ballI oldest_from_le) auto
qed

lemma leastRecentlyUsed_None: "leastRecentlyUsed allow m = None \<longleftrightarrow> unusedShared allow m = []"
  by (simp add: leastRecentlyUsed_def split: list.splits)

text \<open>
  Stamps lie below the counter as long as the counter has not outgrown the 32-bit field, so that
  a session released now is newer than every other.
\<close>

definition lru_inv :: "SessionsManager \<Rightarrow> bool" where
  "lru_inv m \<longleftrightarrow> (\<forall>k r. session k m = Some r \<longrightarrow> unat (lastUsedTime r) < unat (sharedSessionLRUCounter m))"

lemma unat_ucast_small:
  fixes c :: uint64
  shows "unat c < 2 ^ 32 \<Longrightarrow> unat (ucast c :: uint32) = unat c"
  by (simp add: unsigned_ucast_eq take_bit_eq_mod unsigned_take_bit_eq)

lemma unat_Suc_counter:
  fixes c :: uint64
  shows "unat c < 2 ^ 32 \<Longrightarrow> unat (c + 1) = Suc (unat c)"
  by (simp add: unat_word_ariths)

lemma lru_inv_init [simp]: "lru_inv SessionsManager_init"
  by (simp add: lru_inv_def session_def SessionsManager_init_def)

section \<open>The event queue as a bounded queue\<close>

text \<open>
  The contract of a bounded first-in first-out queue, and what a client gets from it: the elements
  pushed into an empty queue come out in the order they went in, and a full queue refuses.
\<close>

fun push_all :: "('e \<Rightarrow> 'm \<Rightarrow> bool \<times> 'm) \<Rightarrow> 'e list \<Rightarrow> 'm \<Rightarrow> 'm" where
  "push_all push [] m = m"
| "push_all push (e # es) m = push_all push es (snd (push e m))"

fun pop_n :: "('m \<Rightarrow> 'e option \<times> 'm) \<Rightarrow> nat \<Rightarrow> 'm \<Rightarrow> 'e option list \<times> 'm" where
  "pop_n pop 0 m = ([], m)"
| "pop_n pop (Suc n) m =
     (let (e, m1) = pop m; (es, m2) = pop_n pop n m1 in (e # es, m2))"

locale bounded_fifo =
  fixes push :: "'e \<Rightarrow> 'm \<Rightarrow> bool \<times> 'm"
    and pop :: "'m \<Rightarrow> 'e option \<times> 'm"
    and contents :: "'m \<Rightarrow> 'e list option"
    and cap :: nat
  assumes push_ok: "contents m = Some q \<Longrightarrow> length q < cap \<Longrightarrow>
      fst (push e m) \<and> contents (snd (push e m)) = Some (q @ [e])"
    and push_full: "contents m = Some q \<Longrightarrow> cap \<le> length q \<Longrightarrow> push e m = (False, m)"
    and pop_some: "contents m = Some (e # q) \<Longrightarrow> fst (pop m) = Some e \<and> contents (snd (pop m)) = Some q"
    and pop_none: "contents m = Some [] \<Longrightarrow> pop m = (None, m)"
begin

lemma push_all_contents:
  "contents m = Some q \<Longrightarrow> length q + length es \<le> cap \<Longrightarrow>
   contents (push_all push es m) = Some (q @ es)"
  by (induction es arbitrary: m q) (auto simp: push_ok)

lemma push_all_overflow:
  "contents m = Some q \<Longrightarrow> length q \<le> cap \<Longrightarrow>
   contents (push_all push es m) = Some (take cap (q @ es))"
proof (induction es arbitrary: m q)
  case Nil
  then show ?case by simp
next
  case (Cons e es)
  show ?case
  proof (cases "length q < cap")
    case True
    with Cons show ?thesis by (simp add: push_ok take_Cons')
  next
    case False
    with Cons show ?thesis by (simp add: push_full)
  qed
qed

lemma pop_n_contents:
  "contents m = Some (es @ q) \<Longrightarrow>
   fst (pop_n pop (length es) m) = map Some es \<and> contents (snd (pop_n pop (length es) m)) = Some q"
  by (induction es arbitrary: m) (auto simp: Let_def split_beta pop_some)

lemma fifo:
  assumes "contents m = Some []"
  shows "fst (pop_n pop (length es) (push_all push es m)) =
    map Some (take cap es) @ replicate (length es - cap) None"
proof -
  let ?m = "push_all push es m"
  have c: "contents ?m = Some (take cap es @ [])"
    using push_all_overflow [OF assms] by simp
  have empty: "contents m' = Some [] \<Longrightarrow> fst (pop_n pop n m') = replicate n None" for n m'
    by (induction n) (simp_all add: pop_none Let_def split_beta)
  have split: "pop_n pop (a + b) m' =
      (fst (pop_n pop a m') @ fst (pop_n pop b (snd (pop_n pop a m'))),
       snd (pop_n pop b (snd (pop_n pop a m'))))" for a b m'
    by (induction a arbitrary: m') (simp_all add: Let_def split_beta)
  have "length es = length (take cap es) + (length es - cap)" by simp
  then have "fst (pop_n pop (length es) ?m) =
      fst (pop_n pop (length (take cap es)) ?m)
      @ fst (pop_n pop (length es - cap) (snd (pop_n pop (length (take cap es)) ?m)))"
    using split [of "length (take cap es)" "length es - cap" ?m] by (metis fst_conv)
  with pop_n_contents [OF c] empty show ?thesis by simp
qed

end

text \<open>A session registered for events is such a queue; an event is taken with its data copied.\<close>

definition take_event :: "JHI_SESSION_ID \<Rightarrow> SessionsManager \<Rightarrow> JHI_EVENT_DATA option \<times> SessionsManager" where
  "take_event sid m =
     (case getSessionEventData True sid m of ((r, e), m') \<Rightarrow> (if r = JHI_SUCCESS then e else None, m'))"

definition event_queue :: "JHI_SESSION_ID \<Rightarrow> SessionsManager \<Rightarrow> JHI_EVENT_DATA list option" where
  "event_queue sid m =
     (case session sid m of
        None \<Rightarrow> None
      | Some r \<Rightarrow> if registered (eventHandle r) then Some (eventsDataQueue r) else None)"

interpretation fifo: bounded_fifo "enqueueEventData sid" "take_event sid" "event_queue sid"
  MAX_EVENTS_DATA_IN_QUEUE for sid
  by unfold_locales
    (auto simp: event_queue_def enqueueEventData_def take_event_def getSessionEventData_def Let_def
      split: option.splits if_splits)

section \<open>Reachable tables\<close>

text \<open>The table as other components drive it: any sequence of the class's operations.\<close>

inductive sm_step :: "SessionsManager \<Rightarrow> SessionsManager \<Rightarrow> bool" where
  step_add: "sm_step m (snd (add app h sid flags info m))"
| step_remove: "sm_step m (snd (remove sid m))"
| step_reset: "sm_step m (resetSessionManager m)"
| step_set_event: "sm_step m (snd (setEventHandle sid handle m))"
| step_enqueue: "event_wf e \<Longrightarrow> sm_step m (snd (enqueueEventData sid e m))"
| step_dequeue: "sm_step m (snd (getSessionEventData ok sid m))"
| step_lock: "sm_step m (snd (GetSessionLock sid m))"
| step_unlock: "sm_step m (ReleaseSessionLock sid m)"
| step_own: "sm_step m (snd (addSessionOwner sid p m))"
| step_disown: "sm_step m (snd (removeSessionOwner sid p m))"
| step_reap: "sm_step m (snd (ClearSessionsDeadOwners dead m))"

inductive sm_reachable :: "SessionsManager \<Rightarrow> bool" where
  reach_init: "sm_reachable SessionsManager_init"
| reach_step: "sm_reachable m \<Longrightarrow> sm_step m m' \<Longrightarrow> sm_reachable m'"

inductive_cases sm_stepE: "sm_step m m'"

lemma sm_step_inv: "sm_step m m' \<Longrightarrow> sm_inv m \<Longrightarrow> sm_inv m'"
  by (erule sm_stepE)
    (auto simp: inv_add inv_remove inv_reset inv_setEventHandle inv_enqueue inv_dequeue inv_lock
      inv_unlock inv_addOwner inv_removeOwner inv_ClearSessionsDeadOwners)

section \<open>Properties\<close>

text \<open>
  C23: every session table the class's operations can build from the empty one is well formed: its
  keys are in strict order, each record carries its key as identifier, an upper-case applet name and
  the active state, has at most 20 owners and at most 100 queued events, and every queued event's
  data has the length the event states.
\<close>

theorem sessions_table_invariant: "sm_reachable m \<Longrightarrow> sm_inv m"
  by (induction rule: sm_reachable.induct) (auto intro: sm_step_inv)

theorem sessions_table_invariant_witness:
  "sm_inv (snd (add ''abc'' 5 (UUID [1]) 0 (Some \<lparr> pid = 1, creationTime = \<lparr> dwHighDateTime = 0, dwLowDateTime = 0 \<rparr> \<rparr>)
     SessionsManager_init))"
  by (intro sessions_table_invariant reach_step [OF reach_init] step_add)

text \<open>
  C26: the event queue of a session registered for events refines a bounded first-in first-out queue:
  of the events enqueued to an empty queue, the first hundred are delivered in the order they
  were raised, and the later ones are refused and never delivered.
\<close>

theorem event_queue_refines_fifo:
  assumes "session sid m = Some r" "registered (eventHandle r)" "eventsDataQueue r = []"
  shows "fst (pop_n (take_event sid) (length es) (push_all (enqueueEventData sid) es m)) =
    map Some (take MAX_EVENTS_DATA_IN_QUEUE es) @ replicate (length es - MAX_EVENTS_DATA_IN_QUEUE) None"
  by (rule fifo.fifo) (simp add: event_queue_def assms)

definition sample_event :: "nat \<Rightarrow> JHI_EVENT_DATA" where
  "sample_event n = \<lparr> datalen = 1, ev_data = Some [of_nat n], dataType = JHI_DATA_FROM_APPLET \<rparr>"

definition sample_registered :: SessionsManager where
  "sample_registered =
     snd (setEventHandle (UUID [1]) (Some (JhiEvent_init\<lparr>event_name := Some ''e'', is_created := True\<rparr>))
       (snd (add ''abc'' 5 (UUID [1]) 0
         (Some \<lparr> pid = 1, creationTime = \<lparr> dwHighDateTime = 0, dwLowDateTime = 0 \<rparr> \<rparr>) SessionsManager_init)))"

theorem event_queue_refines_fifo_witness:
  "fst (pop_n (take_event (UUID [1])) 2
     (push_all (enqueueEventData (UUID [1])) [sample_event 3, sample_event 4] sample_registered)) =
   [Some (sample_event 3), Some (sample_event 4)]"
proof -
  obtain r where "session (UUID [1]) sample_registered = Some r" "registered (eventHandle r)"
    "eventsDataQueue r = []"
    by (simp add: sample_registered_def session_add isSessionPresent_def SessionsManager_init_def
        registered_def)
  from event_queue_refines_fifo [OF this, of "[sample_event 3, sample_event 4]"] show ?thesis
    by (simp add: numeral_2_eq_2)
qed

text \<open>
  An event taken when its data cannot be copied is lost: \<^verbatim>\<open>getSessionEventData\<close> reports
  \<^verbatim>\<open>JHI_INTERNAL_ERROR\<close>, and the event has already left the queue.
\<close>

theorem event_lost_without_memory:
  assumes "session sid m = Some r" "registered (eventHandle r)" "eventsDataQueue r = e # q"
    "ev_data e \<noteq> None"
  shows "fst (fst (getSessionEventData False sid m)) = JHI_INTERNAL_ERROR
    \<and> event_queue sid (snd (getSessionEventData False sid m)) = Some q"
  using assms by (simp add: getSessionEventData_def event_queue_def)

theorem event_lost_without_memory_witness:
  "event_queue (UUID [1]) (snd (getSessionEventData False (UUID [1])
     (snd (enqueueEventData (UUID [1]) (sample_event 3) sample_registered)))) = Some []"
proof -
  obtain r where "session (UUID [1]) (snd (enqueueEventData (UUID [1]) (sample_event 3) sample_registered)) = Some r"
    "registered (eventHandle r)" "eventsDataQueue r = [sample_event 3]"
    by (simp add: sample_registered_def session_add isSessionPresent_def SessionsManager_init_def
        registered_def)
  from event_lost_without_memory [OF this] show ?thesis by (simp add: sample_event_def)
qed

text \<open>
  \<^verbatim>\<open>ClearSessionsDeadOwners\<close> removes exactly the dead owners: every session keeps its record but
  for the owners that are dead (and, when the last owner of a shared session goes, its last-use
  stamp), no session appears or disappears, and it reports whether it removed anyone.
\<close>

theorem ClearSessionsDeadOwners_exact:
  assumes "sm_inv m"
  shows "(session k m = None \<longleftrightarrow> session k (snd (ClearSessionsDeadOwners dead m)) = None)
    \<and> (\<forall>r. session k m = Some r \<longrightarrow>
         (\<exists>r'. session k (snd (ClearSessionsDeadOwners dead m)) = Some r' \<and> reaped dead r r'))
    \<and> (fst (ClearSessionsDeadOwners dead m) \<longleftrightarrow>
         (\<exists>k r. session k m = Some r \<and> list_ex dead (ownersList r)))"
proof -
  have some: "\<exists>r'. session k (snd (ClearSessionsDeadOwners dead m)) = Some r' \<and> reaped dead r r'"
    if "session k m = Some r" for r
    by (rule ClearSessionsDeadOwners_session [OF assms that])
  moreover have "session k m = None \<longleftrightarrow> session k (snd (ClearSessionsDeadOwners dead m)) = None"
    using some ClearSessionsDeadOwners_absent by (cases "session k m") fastforce+
  ultimately show ?thesis using ClearSessionsDeadOwners_status [OF assms] by blast
qed

theorem ClearSessionsDeadOwners_exact_witness:
  "fst (ClearSessionsDeadOwners (\<lambda>p. pid p = 1) sample_registered)
   \<and> (\<exists>r'. session (UUID [1]) (snd (ClearSessionsDeadOwners (\<lambda>p. pid p = 1) sample_registered)) = Some r'
         \<and> ownersList r' = [])"
proof -
  have inv: "sm_inv sample_registered"
    unfolding sample_registered_def
    by (intro inv_setEventHandle inv_add sm_inv_init)
  obtain r where r: "session (UUID [1]) sample_registered = Some r"
    "map pid (ownersList r) = [1]"
    by (simp add: sample_registered_def session_add isSessionPresent_def SessionsManager_init_def
        registered_def)
  note all = ClearSessionsDeadOwners_exact [OF inv, of "UUID [1]" "\<lambda>p. pid p = 1"]
  obtain r' where r': "session (UUID [1]) (snd (ClearSessionsDeadOwners (\<lambda>p. pid p = 1) sample_registered)) = Some r'"
    "reaped (\<lambda>p. pid p = 1) r r'"
    using all r(1) by blast
  have "ownersList r' = []"
    using reaped_owners [OF r'(2)] r(2) by (auto simp: filter_empty_conv)
  moreover have "list_ex (\<lambda>p. pid p = 1) (ownersList r)"
    using r(2) by auto
  then have "fst (ClearSessionsDeadOwners (\<lambda>p. pid p = 1) sample_registered)"
    using all r(1) by blast
  ultimately show ?thesis using r'(1) by blast
qed

text \<open>
  While the counter fits the 32-bit stamp, a shared session whose last owner leaves becomes the
  most recently used: its stamp is larger than that of every other session, so the eviction
  order is the order of release.
\<close>

theorem released_session_is_newest:
  assumes "lru_inv m" "unat (sharedSessionLRUCounter m) < 2 ^ 32"
    "session sid m = Some r" "sharedSession (sessionFlags r)" "ownersList r = [p]"
  shows "lru_inv (snd (removeSessionOwner sid p m))
    \<and> (\<forall>k r'. k \<noteq> sid \<longrightarrow> session k (snd (removeSessionOwner sid p m)) = Some r' \<longrightarrow>
           lastUsedTime r' < last_used (snd (removeSessionOwner sid p m)) sid)"
proof -
  let ?c = "sharedSessionLRUCounter m"
  let ?m = "snd (removeSessionOwner sid p m)"
  have er: "erase_owner p (ownersList r) = Some []"
    by (simp add: assms(5) same_process_def)
  have m: "?m = put_session sid (r\<lparr>ownersList := [], lastUsedTime := ucast ?c\<rparr>)
      (m\<lparr>sharedSessionLRUCounter := ?c + 1\<rparr>)"
    using er assms(3,4) by (simp add: removeSessionOwner_def touch_session_def updateSessionLastUsage_def)
  have cnt: "sharedSessionLRUCounter ?m = ?c + 1" by (simp add: m put_session_def)
  have old: "unat (lastUsedTime r') < unat ?c" if "session k m = Some r'" for k r'
    using assms(1) that unfolding lru_inv_def by blast
  have newest: "lru_inv ?m"
    unfolding lru_inv_def cnt unat_Suc_counter [OF assms(2)]
    using old by (auto simp: m unat_ucast_small [OF assms(2)] less_Suc_eq split: if_splits)
  have stamp: "last_used ?m sid = ucast ?c" by (simp add: m last_used_def)
  have "\<forall>k r'. k \<noteq> sid \<longrightarrow> session k ?m = Some r' \<longrightarrow> lastUsedTime r' < last_used ?m sid"
  proof (intro allI impI)
    fix k r'
    assume "k \<noteq> sid" "session k ?m = Some r'"
    then have "session k m = Some r'" by (simp add: m)
    with old have "unat (lastUsedTime r') < unat (ucast ?c :: uint32)"
      by (simp add: unat_ucast_small [OF assms(2)])
    then show "lastUsedTime r' < last_used ?m sid" by (simp add: stamp word_less_nat_alt)
  qed
  with newest show ?thesis ..
qed

definition sample_owner :: JHI_PROCESS_INFO where
  "sample_owner = \<lparr> pid = 1, creationTime = \<lparr> dwHighDateTime = 0, dwLowDateTime = 0 \<rparr> \<rparr>"

definition sample_shared :: "JHI_SESSION_ID \<Rightarrow> SessionRecord" where
  "sample_shared sid = \<lparr> sessionId = sid, vmSessionHandle = 5, appId = ''A'', sessionFlags = 1,
     state = JHI_SESSION_STATE_ACTIVE, ownersList = [sample_owner], eventsDataQueue = [], sessionLock = 0,
     lastUsedTime = 0, eventHandle = None \<rparr>"

definition sample_two_shared :: SessionsManager where
  "sample_two_shared = \<lparr> sessionList = [(UUID [1], sample_shared (UUID [1])), (UUID [2], sample_shared (UUID [2]))],
     sharedSessionLRUCounter = 1 \<rparr>"

lemma sample_shared_facts:
  "session (UUID [1]) sample_two_shared = Some (sample_shared (UUID [1]))"
  "sharedSession (sessionFlags (sample_shared sid))" "ownersList (sample_shared sid) = [sample_owner]"
  "lru_inv sample_two_shared"
  by (auto simp: sample_two_shared_def session_def smap_find_def sample_shared_def lru_inv_def
      split: if_splits)

theorem released_session_is_newest_witness:
  "lru_inv (snd (removeSessionOwner (UUID [1]) sample_owner sample_two_shared))
   \<and> 0 < last_used (snd (removeSessionOwner (UUID [1]) sample_owner sample_two_shared)) (UUID [1])"
proof -
  have other: "session (UUID [2]) (snd (removeSessionOwner (UUID [1]) sample_owner sample_two_shared)) =
      Some (sample_shared (UUID [2]))"
    by code_simp
  have "unat (sharedSessionLRUCounter sample_two_shared) < 2 ^ 32"
    by (simp add: sample_two_shared_def)
  note all = released_session_is_newest [OF sample_shared_facts(4) this sample_shared_facts(1-3)]
  have "lastUsedTime (sample_shared (UUID [2])) <
      last_used (snd (removeSessionOwner (UUID [1]) sample_owner sample_two_shared)) (UUID [1])"
    using conjunct2 [OF all, rule_format, OF _ other] by simp
  with conjunct1 [OF all] show ?thesis by (simp add: sample_shared_def)
qed

text \<open>
  The stamp is the counter cut to 32 bits, so once the counter has reached 2 to the 32 a session
  released then is stamped 0 and taken for the least recently used of all.
\<close>

theorem lru_stamp_wraps:
  assumes "session sid m = Some r" "sharedSession (sessionFlags r)" "ownersList r = [p]"
    "sharedSessionLRUCounter m = 2 ^ 32"
  shows "last_used (snd (removeSessionOwner sid p m)) sid = 0
    \<and> last_used (snd (removeSessionOwner sid p m)) sid \<le> last_used (snd (removeSessionOwner sid p m)) k"
proof -
  have "last_used (snd (removeSessionOwner sid p m)) sid = 0"
    using assms by (simp add: last_used_def same_process_def updateSessionLastUsage_def)
  then show ?thesis by simp
qed

theorem lru_stamp_wraps_witness:
  "last_used (snd (removeSessionOwner (UUID [1]) sample_owner
      (sample_two_shared\<lparr>sharedSessionLRUCounter := 2 ^ 32\<rparr>))) (UUID [1]) = 0"
proof -
  have "session (UUID [1]) (sample_two_shared\<lparr>sharedSessionLRUCounter := 2 ^ 32\<rparr>) =
      Some (sample_shared (UUID [1]))"
    by (simp add: sample_shared_facts)
  from lru_stamp_wraps [OF this sample_shared_facts(2,3)] show ?thesis by simp
qed

end
