(* ===== verification/File_System.thy ===== *)
theory File_System
  imports Misc_Util
begin

text \<open>
  The files the service reads and writes, and the file helpers of \<^verbatim>\<open>common/misc.cpp\<close>
  (\<^verbatim>\<open>JhiUtilCopyFile\<close>, \<^verbatim>\<open>JhiUtilCreateFile_fromBuff\<close>, \<^verbatim>\<open>JhiUtilSyncFile\<close>). A file system is a
  table from paths to contents, the directories that exist, and the outcome of each system
  call still to be made: the list \<open>io\<close> is consumed one entry per fallible call, and calls
  after its end succeed. \<open>Io_fail k\<close> makes a call fail; a read or write then moves only \<open>k\<close>
  bytes. \<open>stream_fault\<close> records an \<^verbatim>\<open>fclose\<close> of a stream that is already closed, which C leaves
  undefined.
\<close>

datatype io = Io_ok | Io_fail nat

record file_system =
  files :: "(string, byte list) smap"
  folders :: "string list"
  io :: "io list"
  stream_fault :: bool

type_synonym 'a fs = "(file_system, 'a) state"

section \<open>System calls\<close>

text \<open>The outcome of the next fallible call.\<close>

definition next_io :: "io fs" where
  "next_io = action (\<lambda>f. case io f of [] \<Rightarrow> (Io_ok, f) | r # rs \<Rightarrow> (r, f\<lparr>io := rs\<rparr>))"

text \<open>\<^verbatim>\<open>fopen(path, "wb")\<close>: creates or truncates the file; whether it succeeded.\<close>

definition fopen_wb :: "string \<Rightarrow> bool fs" where
  "fopen_wb path = do {
     r \<leftarrow> next_io;
     if r \<noteq> Io_ok then ret False
     else do { modify (\<lambda>f. f\<lparr>files := smap_put path [] (files f)\<rparr>); ret True } }"

text \<open>\<^verbatim>\<open>fopen(path, "rb")\<close>: the content to be read.\<close>

definition fopen_rb :: "string \<Rightarrow> byte list option fs" where
  "fopen_rb path = do {
     r \<leftarrow> next_io;
     if r \<noteq> Io_ok then ret None else gets (\<lambda>f. smap_find (files f) path) }"

text \<open>\<^verbatim>\<open>fwrite\<close> at the end of an open file: the number of bytes written.\<close>

definition fwrite :: "string \<Rightarrow> byte list \<Rightarrow> nat fs" where
  "fwrite path buf = do {
     r \<leftarrow> next_io;
     let n = (case r of Io_ok \<Rightarrow> length buf | Io_fail k \<Rightarrow> min k (length buf - 1));
     old \<leftarrow> gets (\<lambda>f. case smap_find (files f) path of None \<Rightarrow> [] | Some c \<Rightarrow> c);
     modify (\<lambda>f. f\<lparr>files := smap_put path (old @ take n buf) (files f)\<rparr>);
     ret n }"

text \<open>\<^verbatim>\<open>fread\<close> of at most \<open>n\<close> bytes from what is left of the stream.\<close>

definition fread :: "nat \<Rightarrow> byte list \<Rightarrow> byte list fs" where
  "fread n stream = do {
     r \<leftarrow> next_io;
     ret (case r of Io_ok \<Rightarrow> take n stream | Io_fail k \<Rightarrow> take (min k n) stream) }"

text \<open>\<^verbatim>\<open>access(path, F_OK) == 0\<close>, \<^verbatim>\<open>remove(path) == 0\<close> and \<^verbatim>\<open>rename(a, b) == 0\<close>.\<close>

definition path_exists :: "string \<Rightarrow> file_system \<Rightarrow> bool" where
  "path_exists path f = (smap_find (files f) path \<noteq> None \<or> path \<in> set (folders f))"

definition access_ok :: "string \<Rightarrow> bool fs" where
  "access_ok path = do { r \<leftarrow> next_io; gets (\<lambda>f. r = Io_ok \<and> path_exists path f) }"

definition remove_ok :: "string \<Rightarrow> bool fs" where
  "remove_ok path = do {
     r \<leftarrow> next_io;
     present \<leftarrow> gets (\<lambda>f. smap_find (files f) path \<noteq> None);
     if r \<noteq> Io_ok \<or> \<not> present then ret False
     else do { modify (\<lambda>f. f\<lparr>files := smap_erase path (files f)\<rparr>); ret True } }"

definition rename_ok :: "string \<Rightarrow> string \<Rightarrow> bool fs" where
  "rename_ok oldname newname = do {
     r \<leftarrow> next_io;
     content \<leftarrow> gets (\<lambda>f. smap_find (files f) oldname);
     case content of
       None \<Rightarrow> ret False
     | Some c \<Rightarrow>
         if r \<noteq> Io_ok then ret False
         else do {
           modify (\<lambda>f. f\<lparr>files := smap_put newname c (smap_erase oldname (files f))\<rparr>);
           ret True } }"

section \<open>The helpers of misc.cpp\<close>

abbreviation LEN_MAX_BUFFER :: nat where "LEN_MAX_BUFFER \<equiv> 4096"

text \<open>The copy loop of \<^verbatim>\<open>JhiUtilCopyFile\<close> over what is left of the source stream.\<close>

function copy_loop :: "string \<Rightarrow> byte list \<Rightarrow> JHI_RET fs" where
  "copy_loop pDstFile stream = do {
     buf1 \<leftarrow> fread LEN_MAX_BUFFER stream;
     if buf1 = [] \<or> stream = [] then ret JHI_SUCCESS
     else do {
       n \<leftarrow> fwrite pDstFile buf1;
       if n \<noteq> length buf1 then ret JHI_FILE_ERROR_COPY
       else copy_loop pDstFile (drop (length buf1) stream) } }"
  by pat_completeness auto

termination copy_loop
  by (relation "measure (length \<circ> snd)") auto

declare copy_loop.simps [simp del]

definition JhiUtilCopyFile :: "string option \<Rightarrow> string option \<Rightarrow> JHI_RET fs" where
  "JhiUtilCopyFile pDstFile pSrcFile =
     (case (pDstFile, pSrcFile) of
        (Some dst, Some src) \<Rightarrow> do {
          fpDst \<leftarrow> fopen_wb dst;
          if \<not> fpDst then ret JHI_FILE_ERROR_OPEN
          else do {
            fpSrc \<leftarrow> fopen_rb src;
            case fpSrc of
              None \<Rightarrow> do { modify (\<lambda>f. f\<lparr>stream_fault := True\<rparr>); ret JHI_FILE_ERROR_OPEN }
            | Some content \<Rightarrow> copy_loop dst content } }
      | _ \<Rightarrow> ret JHI_INVALID_PARAMS)"

definition JhiUtilCreateFile_fromBuff :: "string option \<Rightarrow> byte list option \<Rightarrow> JHI_RET fs" where
  "JhiUtilCreateFile_fromBuff pDstFile blobBuf =
     (case (pDstFile, blobBuf) of
        (Some dst, Some blob) \<Rightarrow> do {
          fpDst \<leftarrow> fopen_wb dst;
          if \<not> fpDst then ret JHI_FILE_ERROR_OPEN
          else do {
            n \<leftarrow> fwrite dst blob;
            if n \<noteq> length blob then ret JHI_FILE_ERROR_COPY else ret JHI_SUCCESS } }
      | _ \<Rightarrow> ret JHI_INVALID_PARAMS)"

text \<open>\<^verbatim>\<open>JhiUtilSyncFile\<close>: \<^verbatim>\<open>open\<close>, \<^verbatim>\<open>fsync\<close> and \<^verbatim>\<open>close\<close>, each of which may fail.\<close>

definition JhiUtilSyncFile :: "string \<Rightarrow> bool fs" where
  "JhiUtilSyncFile path = do {
     fd \<leftarrow> access_ok path;
     if \<not> fd then ret False
     else do {
       s \<leftarrow> next_io;
       if s \<noteq> Io_ok then do { next_io; ret False }
       else do {
         c \<leftarrow> next_io;
         if c \<noteq> Io_ok then do { next_io; ret False } else ret True } } }"

section \<open>What the calls leave alone\<close>

text \<open>
  A predicate of the file table and the directories alone: neither the outcomes to come nor the
  stream record matter to it.
\<close>

definition files_only :: "(file_system \<Rightarrow> bool) \<Rightarrow> bool" where
  "files_only I \<longleftrightarrow> (\<forall>f g. files f = files g \<longrightarrow> folders f = folders g \<longrightarrow> I f \<longrightarrow> I g)"

lemma files_onlyD: "files_only I \<Longrightarrow> I f \<Longrightarrow> files f = files g \<Longrightarrow> folders f = folders g \<Longrightarrow> I g"
  unfolding files_only_def by blast

lemma preserves_next_io [pres_intros]:
  assumes "files_only I"
  shows "preserves I next_io"
  unfolding next_io_def
proof (rule preserves_action)
  fix f
  assume "I f"
  have "I (f\<lparr>io := r\<rparr>)" for r
    by (rule files_onlyD [OF assms \<open>I f\<close>]) simp_all
  with \<open>I f\<close> show "I (snd (case io f of [] \<Rightarrow> (Io_ok, f) | r # rs \<Rightarrow> (r, f\<lparr>io := rs\<rparr>)))"
    by (cases "io f") simp_all
qed

lemma files_only_find [simp]: "files_only (\<lambda>f. P (smap_find (files f) k))"
  by (simp add: files_only_def)

lemma files_only_inv [simp]: "files_only (\<lambda>f. smap_inv (files f))"
  by (simp add: files_only_def)

lemma files_only_folders [simp]: "files_only (\<lambda>f. P (folders f))"
  by (simp add: files_only_def)

text \<open>A call that may only write \<open>path\<close> preserves what does not depend on that file.\<close>

definition off_path :: "string \<Rightarrow> (file_system \<Rightarrow> bool) \<Rightarrow> bool" where
  "off_path path I \<longleftrightarrow> files_only I \<and>
     (\<forall>f c. I f \<longrightarrow> I (f\<lparr>files := smap_put path c (files f)\<rparr>)) \<and>
     (\<forall>f. I f \<longrightarrow> I (f\<lparr>files := smap_erase path (files f)\<rparr>))"

lemma off_path_files_only: "off_path path I \<Longrightarrow> files_only I"
  by (simp add: off_path_def)

lemma off_path_put: "off_path path I \<Longrightarrow> I f \<Longrightarrow> I (f\<lparr>files := smap_put path c (files f)\<rparr>)"
  by (simp add: off_path_def)

lemma off_path_erase: "off_path path I \<Longrightarrow> I f \<Longrightarrow> I (f\<lparr>files := smap_erase path (files f)\<rparr>)"
  by (simp add: off_path_def)

lemma off_path_find [simp]: "k \<noteq> path \<Longrightarrow> off_path path (\<lambda>f. P (smap_find (files f) k))"
  by (simp add: off_path_def tab.find_put tab.find_erase)

lemma off_path_inv [simp]: "off_path path (\<lambda>f. smap_inv (files f))"
  by (simp add: off_path_def tab.inv_put tab.inv_erase)

lemma off_path_folders [simp]: "off_path path (\<lambda>f. P (folders f))"
  by (simp add: off_path_def)

lemma preserves_fopen_wb [pres_intros]:
  assumes "off_path path I"
  shows "preserves I (fopen_wb path)"
  unfolding fopen_wb_def
  by (intro pres_intros preserves_modify off_path_put [OF assms] off_path_files_only [OF assms])

lemma preserves_fopen_rb [pres_intros]: "files_only I \<Longrightarrow> preserves I (fopen_rb path)"
  unfolding fopen_rb_def by (auto intro!: pres_intros)

lemma preserves_fread [pres_intros]: "files_only I \<Longrightarrow> preserves I (fread n stream)"
  unfolding fread_def by (auto intro!: pres_intros)

lemma preserves_fwrite [pres_intros]:
  assumes "off_path path I"
  shows "preserves I (fwrite path buf)"
  unfolding fwrite_def
  by (intro pres_intros preserves_modify off_path_put [OF assms] off_path_files_only [OF assms])

lemma preserves_access_ok [pres_intros]: "files_only I \<Longrightarrow> preserves I (access_ok path)"
  unfolding access_ok_def by (auto intro!: pres_intros)

lemma preserves_remove_ok [pres_intros]:
  assumes "off_path path I"
  shows "preserves I (remove_ok path)"
  unfolding remove_ok_def
  by (intro pres_intros preserves_modify off_path_erase [OF assms] off_path_files_only [OF assms])

lemma preserves_rename_ok [pres_intros]:
  assumes "off_path oldname I" "off_path newname I"
  shows "preserves I (rename_ok oldname newname)"
proof -
  have upd: "I (f\<lparr>files := smap_put newname c (smap_erase oldname (files f))\<rparr>)" if "I f" for f c
    using off_path_put [OF assms(2) off_path_erase [OF assms(1) that], of c] by simp
  show ?thesis
    unfolding rename_ok_def
    by (intro pres_intros preserves_modify upd off_path_files_only [OF assms(1)])
qed

lemma preserves_copy_loop [pres_intros]: "off_path path I \<Longrightarrow> preserves I (copy_loop path stream)"
proof (induction path stream rule: copy_loop.induct)
  case (1 path stream)
  show ?case
    by (subst copy_loop.simps)
      (intro pres_intros "1.IH" "1.prems" off_path_files_only [OF "1.prems"]; simp)
qed

lemma preserves_copy_file [pres_intros]:
  assumes "off_path dst I"
  shows "preserves I (JhiUtilCopyFile (Some dst) (Some src))"
proof -
  have upd: "I (f\<lparr>stream_fault := True\<rparr>)" if "I f" for f
    by (rule files_onlyD [OF off_path_files_only [OF assms] that]) simp_all
  show ?thesis
    unfolding JhiUtilCopyFile_def prod.case option.case
    by (intro pres_intros preserves_modify upd assms off_path_files_only [OF assms])
qed

lemma preserves_create_file [pres_intros]:
  assumes "off_path dst I"
  shows "preserves I (JhiUtilCreateFile_fromBuff (Some dst) blob)"
  unfolding JhiUtilCreateFile_fromBuff_def prod.case option.case
  by (intro pres_intros assms)

lemma preserves_sync_file [pres_intros]: "files_only I \<Longrightarrow> preserves I (JhiUtilSyncFile path)"
  unfolding JhiUtilSyncFile_def by (auto intro!: pres_intros)

section \<open>What the calls do when nothing fails\<close>

text \<open>With no failure to come, the calls are functions of the file table.\<close>

lemma run_next_io [run_simps]: "io f = [] \<Longrightarrow> run_state next_io f = (Io_ok, f)"
  by (simp add: next_io_def)

lemma run_fopen_wb [run_simps]:
  "io f = [] \<Longrightarrow> run_state (fopen_wb path) f = (True, f\<lparr>files := smap_put path [] (files f)\<rparr>)"
  by (simp add: fopen_wb_def run_next_io)

lemma run_fopen_rb [run_simps]:
  "io f = [] \<Longrightarrow> run_state (fopen_rb path) f = (smap_find (files f) path, f)"
  by (simp add: fopen_rb_def run_next_io)

lemma run_fread [run_simps]: "io f = [] \<Longrightarrow> run_state (fread n stream) f = (take n stream, f)"
  by (simp add: fread_def run_next_io)

lemma run_fwrite [run_simps]:
  "io f = [] \<Longrightarrow> smap_find (files f) path = Some old \<Longrightarrow>
   run_state (fwrite path buf) f = (length buf, f\<lparr>files := smap_put path (old @ buf) (files f)\<rparr>)"
  by (simp add: fwrite_def run_next_io)

lemma run_access_ok [run_simps]:
  "io f = [] \<Longrightarrow> run_state (access_ok path) f = (path_exists path f, f)"
  by (simp add: access_ok_def run_next_io)

lemma run_remove_ok [run_simps]:
  "io f = [] \<Longrightarrow> run_state (remove_ok path) f =
     (if smap_find (files f) path = None then (False, f)
      else (True, f\<lparr>files := smap_erase path (files f)\<rparr>))"
  by (simp add: remove_ok_def run_next_io)

lemma run_rename_ok [run_simps]:
  "io f = [] \<Longrightarrow> run_state (rename_ok a b) f =
     (case smap_find (files f) a of
        None \<Rightarrow> (False, f)
      | Some c \<Rightarrow> (True, f\<lparr>files := smap_put b c (smap_erase a (files f))\<rparr>))"
  by (simp add: rename_ok_def run_next_io split: option.splits)

lemma run_sync_file [run_simps]:
  "io f = [] \<Longrightarrow> run_state (JhiUtilSyncFile path) f = (path_exists path f, f)"
  by (simp add: JhiUtilSyncFile_def run_access_ok run_next_io)

lemma smap_put_put: "smap_inv m \<Longrightarrow> smap_put k v' (smap_put k v m) = smap_put k v' m"
  by (rule smap_ext) (auto simp: tab.inv_put tab.find_put)

lemma run_copy_loop:
  "io f = [] \<Longrightarrow> smap_inv (files f) \<Longrightarrow> smap_find (files f) path = Some old \<Longrightarrow>
   run_state (copy_loop path stream) f =
     (JHI_SUCCESS, f\<lparr>files := smap_put path (old @ stream) (files f)\<rparr>)"
proof (induction path stream arbitrary: f old rule: copy_loop.induct)
  case (1 path stream)
  show ?case
  proof (cases "stream = []")
    case True
    have "smap_put path old (files f) = files f"
      using "1.prems" by (intro smap_ext) (auto simp: tab.inv_put tab.find_put)
    with True "1.prems" show ?thesis
      by (subst copy_loop.simps) (simp add: run_fread)
  next
    case False
    define b where "b = take LEN_MAX_BUFFER stream"
    define g where "g = f\<lparr>files := smap_put path (old @ b) (files f)\<rparr>"
    have b: "b \<noteq> []" "stream = b @ drop (length b) stream"
      using False by (simp_all add: b_def min_def)
    have "run_state (copy_loop path stream) f = run_state (copy_loop path (drop (length b) stream)) g"
      using False b(1) "1.prems"
      by (subst copy_loop.simps) (simp add: run_fread run_fwrite b_def g_def)
    also have "\<dots> = (JHI_SUCCESS, g\<lparr>files := smap_put path ((old @ b) @ drop (length b) stream) (files g)\<rparr>)"
      using False b(1) "1.prems"
      by (intro "1.IH") (auto simp: g_def tab.inv_put tab.find_put)
    also have "\<dots> = (JHI_SUCCESS, f\<lparr>files := smap_put path (old @ stream) (files f)\<rparr>)"
      using "1.prems"(2) b(2) by (simp add: g_def smap_put_put)
    finally show ?thesis .
  qed
qed

lemma run_copy_file:
  assumes "io f = []" "smap_inv (files f)" "smap_find (files f) src = Some c" "dst \<noteq> src"
  shows "run_state (JhiUtilCopyFile (Some dst) (Some src)) f =
           (JHI_SUCCESS, f\<lparr>files := smap_put dst c (files f)\<rparr>)"
  using assms
  by (simp add: JhiUtilCopyFile_def run_fopen_wb run_fopen_rb run_copy_loop tab.find_put
        tab.inv_put smap_put_put)

lemma run_create_file:
  "io f = [] \<Longrightarrow> smap_inv (files f) \<Longrightarrow>
   run_state (JhiUtilCreateFile_fromBuff (Some dst) (Some blob)) f =
     (JHI_SUCCESS, f\<lparr>files := smap_put dst blob (files f)\<rparr>)"
  by (simp add: JhiUtilCreateFile_fromBuff_def run_fopen_wb run_fwrite tab.find_put smap_put_put)

end
