(* ===== verification/Globals_Manager.thy ===== *)
theory Globals_Manager
  imports File_System
begin

text \<open>
  The service-wide settings, \<^verbatim>\<open>service/GlobalsManager.cpp\<close>: folders, the life-cycle state, the
  registered plugin, the VM type and firmware version, and the reset notification; and the
  plugin loader, \<^verbatim>\<open>service/jhi_plugin_loader.cpp\<close>. The pointer \<^verbatim>\<open>plugin_table\<close> is whether it is
  not \<^verbatim>\<open>NULL\<close>; what the loaded library does is the plugin interface of the service state. The
  dynamic loader's answers (\<^verbatim>\<open>DLL_Loader::LoadDll\<close>, \<^verbatim>\<open>dlsym\<close>, the library's own registration
  function and type) are the parameter \<open>plugin_library\<close>.
\<close>

record GlobalsManager =
  jhi_state :: jhi_states
  service_folder :: string
  applets_folder :: string
  plugin_folder :: string
  spooler_folder :: string
  plugin_registered :: bool
  transport_registered :: bool
  plugin_table :: bool
  transportType :: TEE_TRANSPORT_TYPE
  vmType :: JHI_VM_TYPE
  fwVersion :: VERSION
  reset_complete :: bool
  pluginLoaded :: bool

definition GlobalsManager_init :: GlobalsManager where
  "GlobalsManager_init = \<lparr> jhi_state = JHI_STOPPED, service_folder = [], applets_folder = [],
     plugin_folder = [], spooler_folder = [], plugin_registered = False,
     transport_registered = False, plugin_table = False,
     transportType = TEE_TRANSPORT_TYPE_INVALID, vmType = JHI_VM_TYPE_INVALID,
     fwVersion = \<lparr> Major = 0, Minor = 0, Hotfix = 0, Build = 0 \<rparr>, reset_complete = False,
     pluginLoaded = False \<rparr>"

section \<open>Folders\<close>

definition setServiceFolder :: "string \<Rightarrow> GlobalsManager \<Rightarrow> bool \<times> GlobalsManager" where
  "setServiceFolder folder g = (if folder = [] then (False, g) else (True, g\<lparr>service_folder := folder\<rparr>))"

definition setAppletsFolder :: "string \<Rightarrow> GlobalsManager \<Rightarrow> bool \<times> GlobalsManager" where
  "setAppletsFolder folder g = (if folder = [] then (False, g) else (True, g\<lparr>applets_folder := folder\<rparr>))"

definition setPluginFolder :: "string \<Rightarrow> GlobalsManager \<Rightarrow> bool \<times> GlobalsManager" where
  "setPluginFolder folder g = (if folder = [] then (False, g) else (True, g\<lparr>plugin_folder := folder\<rparr>))"

definition setSpoolerFolder :: "string \<Rightarrow> GlobalsManager \<Rightarrow> bool \<times> GlobalsManager" where
  "setSpoolerFolder folder g = (if folder = [] then (False, g) else (True, g\<lparr>spooler_folder := folder\<rparr>))"

section \<open>The plugin\<close>

text \<open>\<^verbatim>\<open>getPluginTable\<close>: the status, and whether the pointer handed out is not \<^verbatim>\<open>NULL\<close>.\<close>

definition getPluginTable :: "GlobalsManager \<Rightarrow> bool \<times> bool" where
  "getPluginTable g = (plugin_registered g, plugin_table g)"

datatype JHI_PLUGIN_TYPE =
  JHI_PLUGIN_TYPE_INVALID | JHI_PLUGIN_TYPE_TL | JHI_PLUGIN_TYPE_BEIHAI_V1 | JHI_PLUGIN_TYPE_BEIHAI_V2

text \<open>What the dynamic loader and the library answer.\<close>

record plugin_library =
  load_dll :: "string \<Rightarrow> string \<Rightarrow> JHI_RET"
  has_register_symbol :: bool
  register_result :: "JHI_RET \<times> bool"
  reported_type :: JHI_PLUGIN_TYPE

definition JhiPlugin_Unregister :: "GlobalsManager \<Rightarrow> GlobalsManager" where
  "JhiPlugin_Unregister g =
     (let g1 = g\<lparr>plugin_table := False\<rparr> in
      if pluginLoaded g1 then g1\<lparr>pluginLoaded := False\<rparr> else g1)"

fun plugin_to_load :: "JHI_VM_TYPE \<Rightarrow> (JHI_PLUGIN_TYPE \<times> string) option" where
  "plugin_to_load JHI_VM_TYPE_TL = Some (JHI_PLUGIN_TYPE_TL, ''teePlugin.so'')"
| "plugin_to_load JHI_VM_TYPE_BEIHAI_V1 = Some (JHI_PLUGIN_TYPE_BEIHAI_V1, ''libbhplugin1.so'')"
| "plugin_to_load JHI_VM_TYPE_BEIHAI_V2 = Some (JHI_PLUGIN_TYPE_BEIHAI_V2, ''libbhplugin2.so'')"
| "plugin_to_load _ = None"

definition JhiPlugin_Register :: "plugin_library \<Rightarrow> GlobalsManager \<Rightarrow> JHI_RET \<times> GlobalsManager" where
  "JhiPlugin_Register lib g0 =
     (let g = JhiPlugin_Unregister g0 in
      case plugin_to_load (vmType g) of
        None \<Rightarrow> (JHI_INTERNAL_ERROR, JhiPlugin_Unregister g)
      | Some (pluginTypeToLoad, dllName) \<Rightarrow>
          let retCode = load_dll lib (plugin_folder g) dllName in
          if retCode \<noteq> JHI_SUCCESS then (retCode, JhiPlugin_Unregister g)
          else
            let g1 = g\<lparr>pluginLoaded := True\<rparr> in
            if \<not> has_register_symbol lib then (JHI_VM_DLL_VERIFY_FAILED, JhiPlugin_Unregister g1)
            else
              let g2 = g1\<lparr>plugin_table := snd (register_result lib)\<rparr> in
              if fst (register_result lib) \<noteq> JHI_SUCCESS \<or> \<not> plugin_table g2
              then (JHI_VM_DLL_VERIFY_FAILED, JhiPlugin_Unregister g2)
              else if reported_type lib \<noteq> pluginTypeToLoad
              then (JHI_VM_DLL_VERIFY_FAILED, JhiPlugin_Unregister g2)
              else (JHI_SUCCESS, g2))"

definition PluginRegister :: "plugin_library \<Rightarrow> GlobalsManager \<Rightarrow> JHI_RET \<times> GlobalsManager" where
  "PluginRegister lib g =
     (let (ulRetCode, g1) = JhiPlugin_Register lib g in
      (ulRetCode, if ulRetCode = JHI_SUCCESS then g1\<lparr>plugin_registered := True\<rparr> else g1))"

definition PluginUnregister :: "GlobalsManager \<Rightarrow> GlobalsManager" where
  "PluginUnregister g =
     (if plugin_registered g then JhiPlugin_Unregister (g\<lparr>plugin_registered := False\<rparr>) else g)"

section \<open>State, transport, VM type and version\<close>

definition setJhiState :: "jhi_states \<Rightarrow> GlobalsManager \<Rightarrow> GlobalsManager" where
  "setJhiState newState g = g\<lparr>jhi_state := newState\<rparr>"

definition setTransportType :: "TEE_TRANSPORT_TYPE \<Rightarrow> GlobalsManager \<Rightarrow> GlobalsManager" where
  "setTransportType t g = g\<lparr>transportType := t\<rparr>"

definition setVmType :: "JHI_VM_TYPE \<Rightarrow> GlobalsManager \<Rightarrow> bool \<times> GlobalsManager" where
  "setVmType newVmType g =
     (if vm_type_val newVmType > vm_type_val JHI_VM_TYPE_INVALID
         \<and> vm_type_val newVmType < vm_type_val JHI_VM_TYPE_MAX
      then (True, g\<lparr>vmType := newVmType\<rparr>) else (False, g))"

definition setFwVersion :: "VERSION \<Rightarrow> GlobalsManager \<Rightarrow> GlobalsManager" where
  "setFwVersion v g = g\<lparr>fwVersion := v\<rparr>"

text \<open>\<^verbatim>\<open>%d\<close> of a number that is not negative.\<close>

fun decimal :: "nat \<Rightarrow> string" where
  "decimal n = (if n < 10 then [char_of (48 + n)] else decimal (n div 10) @ [char_of (48 + n mod 10)])"

declare decimal.simps [simp del]

text \<open>
  \<^verbatim>\<open>getFwVersionString\<close>: the text, and the result. \<^verbatim>\<open>sprintf_s\<close> is \<^verbatim>\<open>vsnprintf\<close>, which returns the
  number of characters.
\<close>

definition getFwVersionString :: "GlobalsManager \<Rightarrow> bool \<times> string" where
  "getFwVersionString g =
     (let v = fwVersion g;
          text = decimal (unat (Major v)) @ ''.'' @ decimal (unat (Minor v)) @ ''.''
                 @ decimal (unat (Hotfix v)) @ ''.'' @ decimal (unat (Build v)) in
      (length text = 4, text))"

definition getPlatformId :: "GlobalsManager \<Rightarrow> JHI_PLATFROM_ID" where
  "getPlatformId g =
     (let ver_major = Major (fwVersion g) in
      if ver_major = 1 \<or> ver_major = 2 then SEC
      else if ver_major \<ge> 7 \<and> ver_major \<le> 10 then ME
      else CSE)"

section \<open>Reset notification\<close>

definition sendResetCompleteEvent :: "GlobalsManager \<Rightarrow> GlobalsManager" where
  "sendResetCompleteEvent g = g\<lparr>reset_complete := True\<rparr>"

text \<open>\<^verbatim>\<open>waitForResetComplete\<close>: \<open>None\<close> while the caller waits.\<close>

definition waitForResetComplete :: "GlobalsManager \<Rightarrow> GlobalsManager option" where
  "waitForResetComplete g = (if reset_complete g then Some (g\<lparr>reset_complete := False\<rparr>) else None)"

section \<open>Facts\<close>

text \<open>The plugin is registered exactly when there is a table and its library is loaded.\<close>

definition globals_inv :: "GlobalsManager \<Rightarrow> bool" where
  "globals_inv g \<longleftrightarrow> plugin_table g = plugin_registered g \<and> pluginLoaded g = plugin_registered g"

lemma globals_inv_init: "globals_inv GlobalsManager_init"
  by (simp add: globals_inv_def GlobalsManager_init_def)

lemma decimal_nonempty: "decimal n \<noteq> []"
  by (subst decimal.simps) simp

lemma decimal_length_pos: "0 < length (decimal n)"
  using decimal_nonempty by simp

lemma PluginUnregister_inv: "globals_inv g \<Longrightarrow> globals_inv (PluginUnregister g)"
  by (simp add: globals_inv_def PluginUnregister_def JhiPlugin_Unregister_def Let_def)

lemma Unregister_fields [simp]:
  "plugin_registered (JhiPlugin_Unregister g) = plugin_registered g"
  "\<not> plugin_table (JhiPlugin_Unregister g)"
  "\<not> pluginLoaded (JhiPlugin_Unregister g)"
  "jhi_state (JhiPlugin_Unregister g) = jhi_state g"
  "vmType (JhiPlugin_Unregister g) = vmType g"
  "applets_folder (JhiPlugin_Unregister g) = applets_folder g"
  by (simp_all add: JhiPlugin_Unregister_def Let_def)

lemma JhiPlugin_Register_cases:
  "fst (JhiPlugin_Register lib g) = JHI_SUCCESS \<and> plugin_table (snd (JhiPlugin_Register lib g))
     \<and> pluginLoaded (snd (JhiPlugin_Register lib g))
   \<or> fst (JhiPlugin_Register lib g) \<noteq> JHI_SUCCESS \<and> \<not> plugin_table (snd (JhiPlugin_Register lib g))
     \<and> \<not> pluginLoaded (snd (JhiPlugin_Register lib g))"
  by (auto simp: JhiPlugin_Register_def Let_def split: option.splits)

end
