(* ===== verification/Package_Reader.thy ===== *)
theory Package_Reader
  imports Globals_Manager "HOL-Library.Multiset"
begin

text \<open>
  \<^verbatim>\<open>service/AppletsPackageReader.cpp\<close>: selecting and ordering the applet blobs of a DALP package
  for the firmware of the platform. The XML reader (\<^verbatim>\<open>IXmlReader\<close>, libxml2 behind it) is the
  record of its answers to XPath queries; the queries are the strings the source builds. Numbers
  are read from versions with the stream extraction of C++ (white space skipped, an optional
  sign, digits; failure when there are no digits or the number does not fit the type).
\<close>

text \<open>\<^verbatim>\<open>IXmlReader\<close> on a loaded document; \<open>xml_valid\<close> is \<^verbatim>\<open>LoadXml(...) && Validate()\<close>.\<close>

record IXmlReader =
  xml_valid :: bool
  GetNodeText :: "string \<Rightarrow> string option"
  GetNodeTextAsBase64 :: "string \<Rightarrow> byte list option"
  GetNodeCount :: "string \<Rightarrow> int"

record APPLET_VERSION =
  majorVersion :: int
  minorVersion :: int

record APPLET_DETAILS =
  appVersion :: APPLET_VERSION
  fwVer :: VERSION
  indexInDalp :: nat

section \<open>Stream extraction\<close>

text \<open>A decimal number with an optional sign at the start of a string.\<close>

definition read_number :: "string \<Rightarrow> (int \<times> string) option" where
  "read_number s =
     (let t = drop_sign s; ds = takeWhile isdigit_c t in
      if ds = [] then None
      else Some (if take 1 s = ''-'' then - int (digits_val ds) else int (digits_val ds),
                 dropWhile isdigit_c t))"

definition extract_int :: "string \<Rightarrow> (int \<times> string) option" where
  "extract_int s =
     (case read_number (skip_space s) of
        None \<Rightarrow> None
      | Some (v, t) \<Rightarrow> if - (2 ^ 31) \<le> v \<and> v < 2 ^ 31 then Some (v, t) else None)"

text \<open>Extraction into an unsigned 16-bit field: a negative number wraps.\<close>

definition extract_u16 :: "string \<Rightarrow> (uint16 \<times> string) option" where
  "extract_u16 s =
     (case read_number (skip_space s) of
        None \<Rightarrow> None
      | Some (v, t) \<Rightarrow> if \<bar>v\<bar> < 2 ^ 16 then Some (word_of_int v, t) else None)"

definition extract_char :: "string \<Rightarrow> string option" where
  "extract_char s = (case skip_space s of [] \<Rightarrow> None | c # cs \<Rightarrow> Some cs)"

text \<open>\<^verbatim>\<open>>> a >> c1 >> b >> c2 >> c\<close>\<close>

definition extract_version :: "string \<Rightarrow> (int \<times> int \<times> int) option" where
  "extract_version s = do {
     (a, s1) \<leftarrow> extract_int s; s2 \<leftarrow> extract_char s1;
     (b, s3) \<leftarrow> extract_int s2; s4 \<leftarrow> extract_char s3;
     (c, s5) \<leftarrow> extract_int s4;
     Some (a, b, c) }"

section \<open>Comparisons\<close>

text \<open>
  \<^verbatim>\<open>compareFWVersions\<close>: \<open>None\<close> for a malformed version, otherwise the new value of
  \<^verbatim>\<open>*currentMajorVersion\<close>.
\<close>

definition compareFWVersions :: "string \<Rightarrow> int \<Rightarrow> string \<Rightarrow> int option" where
  "compareFWVersions fwVersionStr currentMajorVersion newVersion =
     (if newVersion = [] \<or> fwVersionStr = [] then None
      else case extract_version fwVersionStr of
          None \<Rightarrow> None
        | Some (fwVer1, fwVer2, fwVer3) \<Rightarrow>
            case extract_version newVersion of
              None \<Rightarrow> None
            | Some (newVer1, newVer2, newVer3) \<Rightarrow>
                if fwVer1 < newVer1 \<or> (fwVer1 = newVer1 \<and> fwVer2 < newVer2)
                   \<or> (fwVer1 = newVer1 \<and> fwVer2 = newVer2 \<and> fwVer3 < newVer3)
                then Some currentMajorVersion
                else if newVer1 > currentMajorVersion then Some newVer1
                else Some currentMajorVersion)"

definition compareAppletVersions :: "APPLET_DETAILS \<Rightarrow> APPLET_DETAILS \<Rightarrow> bool" where
  "compareAppletVersions a b \<longleftrightarrow>
     (Major (fwVer a) > Major (fwVer b)
      \<or> (Major (fwVer a) = Major (fwVer b) \<and> Minor (fwVer a) > Minor (fwVer b))
      \<or> (Major (fwVer a) = Major (fwVer b) \<and> Minor (fwVer a) = Minor (fwVer b)
         \<and> Hotfix (fwVer a) > Hotfix (fwVer b))
      \<or> (Major (fwVer a) = Major (fwVer b) \<and> Minor (fwVer a) = Minor (fwVer b)
         \<and> Hotfix (fwVer a) = Hotfix (fwVer b)
         \<and> majorVersion (appVersion a) > majorVersion (appVersion b))
      \<or> (Major (fwVer a) = Major (fwVer b) \<and> Minor (fwVer a) = Minor (fwVer b)
         \<and> Hotfix (fwVer a) = Hotfix (fwVer b)
         \<and> majorVersion (appVersion a) = majorVersion (appVersion b)
         \<and> minorVersion (appVersion a) > minorVersion (appVersion b)))"

definition compareAppletVersionsSignOnce :: "APPLET_DETAILS \<Rightarrow> APPLET_DETAILS \<Rightarrow> bool" where
  "compareAppletVersionsSignOnce versionA versionB \<longleftrightarrow>
     (let A = appVersion versionA; B = appVersion versionB in
      majorVersion A > majorVersion B
      \<or> (majorVersion A = majorVersion B \<and> minorVersion A \<ge> minorVersion B))"

text \<open>
  \<^verbatim>\<open>std::list::sort(cmp)\<close>: an element goes before the first one it precedes under \<open>cmp\<close>. For a
  strict weak order this is the stable sort the standard asks for; for the reflexive comparison
  of the sign-once procedure it is what the merging of libstdc++ does, a later element of equal
  version moving before an earlier one.
\<close>

fun insert_before :: "('a \<Rightarrow> 'a \<Rightarrow> bool) \<Rightarrow> 'a \<Rightarrow> 'a list \<Rightarrow> 'a list" where
  "insert_before cmp x [] = [x]"
| "insert_before cmp x (y # ys) = (if cmp x y then x # y # ys else y # insert_before cmp x ys)"

definition list_sort :: "('a \<Rightarrow> 'a \<Rightarrow> bool) \<Rightarrow> 'a list \<Rightarrow> 'a list" where
  "list_sort cmp xs = foldl (\<lambda>acc x. insert_before cmp x acc) [] xs"

section \<open>The reader\<close>

definition getPlatformName :: "GlobalsManager \<Rightarrow> string option" where
  "getPlatformName g =
     (case getPlatformId g of
        ME \<Rightarrow> Some ''ME'' | SEC \<Rightarrow> Some ''SEC'' | CSE \<Rightarrow> Some ''CSE'' | INVALID_PLATFORM_ID \<Rightarrow> None)"

definition quote_char :: string where "quote_char = [CHR 0x22]"

definition platform_xpath :: "string \<Rightarrow> string" where
  "platform_xpath platformName =
     ''//applets/applet[normalize-space(platform) = '' @ quote_char @ platformName @ quote_char @ '']''"

definition versions_xpath :: "string \<Rightarrow> nat \<Rightarrow> string" where
  "versions_xpath platformName majorFwVersion =
     ''//applets/applet[normalize-space(platform) = '' @ quote_char @ platformName @ quote_char
     @ '' and starts-with(normalize-space(fwVersion),'' @ quote_char @ decimal majorFwVersion @ ''.''
     @ quote_char @ '')]''"

definition indexed :: "string \<Rightarrow> nat \<Rightarrow> string" where
  "indexed xpath i = xpath @ ''['' @ decimal i @ '']''"

text \<open>\<^verbatim>\<open>isSignOnce\<close>: \<open>None\<close> when the firmware version cannot be read.\<close>

definition isSignOnce :: "string \<Rightarrow> bool option" where
  "isSignOnce fwVersionStr =
     (if fwVersionStr = [] then None
      else case read_number (skip_space (TrimString fwVersionStr)) of
          Some (major, CHR ''.'' # s) \<Rightarrow>
            (case read_number (skip_space s) of
               Some (minor, CHR ''.'' # t) \<Rightarrow>
                 (case read_number (skip_space t) of
                    Some (hotfix, _) \<Rightarrow> Some (major \<notin> {1, 2, 7, 8, 9, 10})
                  | None \<Rightarrow> None)
             | _ \<Rightarrow> None)
        | _ \<Rightarrow> None)"

definition getAppletAndFwVersionAsStruct :: "string \<Rightarrow> string \<Rightarrow> (APPLET_VERSION \<times> VERSION) option" where
  "getAppletAndFwVersionAsStruct appletVersionString fwVersionString = do {
     (a, s1) \<leftarrow> extract_int appletVersionString; s2 \<leftarrow> extract_char s1; (b, s3) \<leftarrow> extract_int s2;
     (x, t1) \<leftarrow> extract_u16 fwVersionString; t2 \<leftarrow> extract_char t1;
     (y, t3) \<leftarrow> extract_u16 t2; t4 \<leftarrow> extract_char t3;
     (z, t5) \<leftarrow> extract_u16 t4;
     Some (\<lparr> majorVersion = a, minorVersion = b \<rparr>,
           \<lparr> Major = x, Minor = y, Hotfix = z, Build = 0 \<rparr>) }"

text \<open>The loop of \<^verbatim>\<open>getMatchingAppletsToMajorFwVersion\<close> over the record indices.\<close>

fun matching_records :: "IXmlReader \<Rightarrow> string \<Rightarrow> nat list \<Rightarrow> APPLET_DETAILS list option" where
  "matching_records xml xpath [] = Some []"
| "matching_records xml xpath (i # is) =
     (case GetNodeText xml (indexed xpath i @ ''/appletVersion'') of
        None \<Rightarrow> None
      | Some appletVersion \<Rightarrow>
          case GetNodeText xml (indexed xpath i @ ''/fwVersion'') of
            None \<Rightarrow> None
          | Some fwVersionStr \<Rightarrow>
              case getAppletAndFwVersionAsStruct appletVersion fwVersionStr of
                None \<Rightarrow> None
              | Some (av, fv) \<Rightarrow>
                  map_option ((#) \<lparr> appVersion = av, fwVer = fv, indexInDalp = i \<rparr>)
                    (matching_records xml xpath is))"

definition getMatchingAppletsToMajorFwVersion :: "GlobalsManager \<Rightarrow> IXmlReader \<Rightarrow> nat \<Rightarrow>
    APPLET_DETAILS list option" where
  "getMatchingAppletsToMajorFwVersion g xml majorFwVersion =
     (case getPlatformName g of
        None \<Rightarrow> None
      | Some platformName \<Rightarrow>
          let xpath = versions_xpath platformName majorFwVersion in
          matching_records xml xpath [1 ..< nat (GetNodeCount xml xpath) + 1])"

definition removeHigherApiLevelApplets :: "int \<Rightarrow> APPLET_DETAILS list \<Rightarrow> APPLET_DETAILS list option" where
  "removeHigherApiLevelApplets supportedApiLevel appletsList =
     (if supportedApiLevel = -1 then None
      else Some (filter (\<lambda>d. \<not> uint (Minor (fwVer d)) > supportedApiLevel) appletsList))"

text \<open>
  The loop of \<^verbatim>\<open>copyBlobsFromList\<close>: the status of the last read, which is \<^verbatim>\<open>false\<close> when there was
  none, and the blobs read before a failure.
\<close>

fun copy_blobs :: "IXmlReader \<Rightarrow> string \<Rightarrow> bool \<Rightarrow> APPLET_DETAILS list \<Rightarrow> bool \<times> byte list list" where
  "copy_blobs xml xpath st [] = (st, [])"
| "copy_blobs xml xpath st (d # ds) =
     (case GetNodeTextAsBase64 xml (indexed xpath (indexInDalp d) @ ''/appletBlob'') of
        None \<Rightarrow> (False, [])
      | Some blob \<Rightarrow> let (s, blobs) = copy_blobs xml xpath True ds in (s, blob # blobs))"

definition copyBlobsFromList :: "GlobalsManager \<Rightarrow> IXmlReader \<Rightarrow> nat \<Rightarrow> APPLET_DETAILS list \<Rightarrow>
    bool \<times> byte list list" where
  "copyBlobsFromList g xml fwMajorVersion sortedAppletsList =
     (case getPlatformName g of
        None \<Rightarrow> (False, [])
      | Some platformName \<Rightarrow>
          copy_blobs xml (versions_xpath platformName fwMajorVersion) False sortedAppletsList)"

text \<open>The first loop of \<^verbatim>\<open>getNonSignOnceAppletBlobs\<close>: the selected major version.\<close>

fun select_major :: "IXmlReader \<Rightarrow> string \<Rightarrow> string \<Rightarrow> int \<Rightarrow> nat list \<Rightarrow> int option" where
  "select_major xml platformName fwVersionStr selected [] = Some selected"
| "select_major xml platformName fwVersionStr selected (i # is) =
     (case GetNodeText xml (indexed (platform_xpath platformName) i @ ''/fwVersion'') of
        None \<Rightarrow> None
      | Some appFWVersion \<Rightarrow>
          case compareFWVersions fwVersionStr selected appFWVersion of
            None \<Rightarrow> None
          | Some selected' \<Rightarrow> select_major xml platformName fwVersionStr selected' is)"

definition getNonSignOnceAppletBlobs :: "GlobalsManager \<Rightarrow> IXmlReader \<Rightarrow> nat \<Rightarrow> string \<Rightarrow> string \<Rightarrow>
    bool \<times> byte list list" where
  "getNonSignOnceAppletBlobs g xml numAppletRecords platformName fwVersionStr =
     (case select_major xml platformName fwVersionStr 0 [1 ..< numAppletRecords + 1] of
        None \<Rightarrow> (False, [])
      | Some selectedMajorVersion \<Rightarrow>
          if selectedMajorVersion = 0 then (True, [])
          else case getMatchingAppletsToMajorFwVersion g xml (nat selectedMajorVersion) of
              None \<Rightarrow> (False, [])
            | Some versionsList \<Rightarrow>
                copyBlobsFromList g xml (nat selectedMajorVersion)
                  (list_sort compareAppletVersions versionsList))"

abbreviation SIGN_ONCE_FW_MAJOR_VERSION :: nat where "SIGN_ONCE_FW_MAJOR_VERSION \<equiv> 11"

text \<open>
  \<^verbatim>\<open>getSignOnceAppletBlobs\<close>: the API level of the platform is asked from the plugin, so the
  procedure is a program over the state of the caller.
\<close>

definition getSignOnceAppletBlobs :: "('s, int) state \<Rightarrow> GlobalsManager \<Rightarrow> IXmlReader \<Rightarrow>
    ('s, bool \<times> byte list list) state" where
  "getSignOnceAppletBlobs getPlatformApiLevel g xml =
     (case getMatchingAppletsToMajorFwVersion g xml SIGN_ONCE_FW_MAJOR_VERSION of
        None \<Rightarrow> ret (False, [])
      | Some versionsList \<Rightarrow> do {
          supportedApiLevel \<leftarrow> getPlatformApiLevel;
          case removeHigherApiLevelApplets supportedApiLevel versionsList of
            None \<Rightarrow> ret (False, [])
          | Some versionsList' \<Rightarrow>
              ret (copyBlobsFromList g xml SIGN_ONCE_FW_MAJOR_VERSION
                     (list_sort compareAppletVersionsSignOnce versionsList')) })"

definition reader_getAppletBlobs :: "('s, int) state \<Rightarrow> GlobalsManager \<Rightarrow> IXmlReader \<Rightarrow> string \<Rightarrow>
    ('s, bool \<times> byte list list) state" where
  "reader_getAppletBlobs getPlatformApiLevel g xml fwVersionStr =
     (case getPlatformName g of
        None \<Rightarrow> ret (False, [])
      | Some platformName \<Rightarrow>
          if \<not> xml_valid xml then ret (False, [])
          else
            let numAppletRecords = GetNodeCount xml (platform_xpath platformName) in
            if numAppletRecords < 1 then ret (False, [])
            else case isSignOnce fwVersionStr of
                None \<Rightarrow> ret (False, [])
              | Some True \<Rightarrow> getSignOnceAppletBlobs getPlatformApiLevel g xml
              | Some False \<Rightarrow>
                  ret (getNonSignOnceAppletBlobs g xml (nat numAppletRecords) platformName fwVersionStr))"

section \<open>Sorting\<close>

text \<open>
  What the two comparisons have in common: \<open>le\<close> is the order a sorted list is in, and \<open>cmp\<close>
  decides it, in one way or the other when the elements are equivalent.
\<close>

locale sort_order =
  fixes cmp :: "'a \<Rightarrow> 'a \<Rightarrow> bool"
    and le :: "'a \<Rightarrow> 'a \<Rightarrow> bool"
  assumes le_trans: "le x y \<Longrightarrow> le y z \<Longrightarrow> le x z"
    and cmp_le: "cmp x y \<Longrightarrow> le x y"
    and not_cmp_le: "\<not> cmp x y \<Longrightarrow> le y x"
begin

lemma set_insert_before: "set (insert_before cmp x ys) = insert x (set ys)"
  by (induction ys) auto

lemma sorted_insert_before: "sorted_wrt le ys \<Longrightarrow> sorted_wrt le (insert_before cmp x ys)"
  by (induction ys) (auto simp: set_insert_before intro: cmp_le not_cmp_le dest: le_trans [OF cmp_le])

lemma mset_insert_before: "mset (insert_before cmp x ys) = add_mset x (mset ys)"
  by (induction ys) auto

lemma fold_sorted:
  "sorted_wrt le acc \<Longrightarrow> sorted_wrt le (foldl (\<lambda>acc x. insert_before cmp x acc) acc xs)"
  by (induction xs arbitrary: acc) (auto simp: sorted_insert_before)

lemma fold_mset: "mset (foldl (\<lambda>acc x. insert_before cmp x acc) acc xs) = mset acc + mset xs"
  by (induction xs arbitrary: acc) (auto simp: mset_insert_before)

lemma sort_sorted: "sorted_wrt le (list_sort cmp xs)"
  by (simp add: list_sort_def fold_sorted)

lemma sort_mset: "mset (list_sort cmp xs) = mset xs"
  by (simp add: list_sort_def fold_mset)

lemma sort_set: "set (list_sort cmp xs) = set xs"
  by (rule mset_eq_setD) (rule sort_mset)

end

text \<open>A version as a tuple, compared lexicographically.\<close>

definition version_key :: "APPLET_DETAILS \<Rightarrow> int list" where
  "version_key d = [uint (Major (fwVer d)), uint (Minor (fwVer d)), uint (Hotfix (fwVer d)),
     majorVersion (appVersion d), minorVersion (appVersion d)]"

definition app_key :: "APPLET_DETAILS \<Rightarrow> int list" where
  "app_key d = [majorVersion (appVersion d), minorVersion (appVersion d)]"

lemma lex_five:
  fixes a a' b b' c c' d d' e e' :: int
  shows "(a' < a \<or> (a = a' \<and> b' < b) \<or> (a = a' \<and> b = b' \<and> c' < c)
      \<or> (a = a' \<and> b = b' \<and> c = c' \<and> d' < d) \<or> (a = a' \<and> b = b' \<and> c = c' \<and> d = d' \<and> e' < e))
    \<longleftrightarrow> [a', b', c', d', e'] < [a, b, c, d, e]"
  by (simp add: Cons_less_Cons eq_commute) blast

lemma compareAppletVersions_key: "compareAppletVersions a b \<longleftrightarrow> version_key a > version_key b"
  unfolding compareAppletVersions_def version_key_def lex_five [symmetric] word_less_def
    word_uint_eq_iff ..

lemma compareSignOnce_key: "compareAppletVersionsSignOnce a b \<longleftrightarrow> app_key a \<ge> app_key b"
  by (auto simp: compareAppletVersionsSignOnce_def app_key_def Let_def less_eq_list_code)

interpretation by_version: sort_order compareAppletVersions "\<lambda>a b. version_key a \<ge> version_key b"
  by unfold_locales (auto simp: compareAppletVersions_key)

interpretation by_app: sort_order compareAppletVersionsSignOnce "\<lambda>a b. app_key a \<ge> app_key b"
  by unfold_locales (auto simp: compareSignOnce_key)

section \<open>Selecting\<close>

lemma select_major_lower: "select_major xml p fw s is = Some m \<Longrightarrow> s \<le> m"
proof (induction "is" arbitrary: s)
  case Nil
  then show ?case by simp
next
  case (Cons i "is")
  from Cons.prems obtain v s' where v: "compareFWVersions fw s v = Some s'"
    "select_major xml p fw s' is = Some m"
    by (auto split: option.splits)
  have "s \<le> s'" using v(1) by (auto simp: compareFWVersions_def split: if_splits option.splits)
  with Cons.IH [OF v(2)] show ?case by simp
qed

lemma copy_blobs_ok:
  "copy_blobs xml xpath st ds = (True, blobs) \<Longrightarrow>
   map (\<lambda>d. GetNodeTextAsBase64 xml (indexed xpath (indexInDalp d) @ ''/appletBlob'')) ds = map Some blobs"
proof (induction ds arbitrary: st blobs)
  case Nil
  then show ?case by simp
next
  case (Cons d ds)
  then show ?case by (auto split: option.splits prod.splits)
qed

lemma copy_blobs_status: "fst (copy_blobs xml xpath False ds) \<Longrightarrow> ds \<noteq> []"
  by auto

lemma matching_records_index:
  "matching_records xml xpath is = Some ds \<Longrightarrow> map indexInDalp ds = is"
  by (induction "is" arbitrary: ds) (auto split: option.splits prod.splits)

end
