(* ===== verification/Byte_Layout.thy ===== *)
theory Byte_Layout
  imports Misc_Util
begin

text \<open>
  The layout of the packed structures that client and service exchange
  (\<^verbatim>\<open>common/include/CSTypedefs.h\<close>): integers of the machine as bytes, lowest byte first, and reads
  of a buffer at an offset. A read that leaves the buffer is \<open>None\<close>, so that a program that makes
  one is told from a program that refuses its input.
\<close>

section \<open>Integers\<close>

fun le_bytes :: "nat \<Rightarrow> nat \<Rightarrow> byte list" where
  "le_bytes 0 v = []"
| "le_bytes (Suc n) v = of_nat v # le_bytes n (v div 256)"

fun le_nat :: "byte list \<Rightarrow> nat" where
  "le_nat [] = 0"
| "le_nat (b # bs) = unat b + 256 * le_nat bs"

definition put16 :: "uint16 \<Rightarrow> byte list" where "put16 w = le_bytes 2 (unat w)"
definition put32 :: "uint32 \<Rightarrow> byte list" where "put32 w = le_bytes 4 (unat w)"
definition put64 :: "uint64 \<Rightarrow> byte list" where "put64 w = le_bytes 8 (unat w)"
definition get16 :: "byte list \<Rightarrow> uint16" where "get16 bs = of_nat (le_nat bs)"
definition get32 :: "byte list \<Rightarrow> uint32" where "get32 bs = of_nat (le_nat bs)"
definition get64 :: "byte list \<Rightarrow> uint64" where "get64 bs = of_nat (le_nat bs)"

lemma unat_less: "unat (w :: 'a::len word) < 2 ^ LENGTH('a)"
  by (rule unsigned_less)

lemma length_le_bytes [simp]: "length (le_bytes n v) = n"
  by (induction n arbitrary: v) auto

lemma length_put [simp]: "length (put16 v) = 2" "length (put32 w) = 4" "length (put64 x) = 8"
  by (simp_all add: put16_def put32_def put64_def)

lemma le_nat_bytes: "le_nat (le_bytes n v) = v mod 256 ^ n"
proof (induction n arbitrary: v)
  case 0
  then show ?case by simp
next
  case (Suc n)
  have "le_nat (le_bytes (Suc n) v) = v mod 256 + 256 * (v div 256 mod 256 ^ n)"
    by (simp add: Suc unat_of_nat)
  also have "\<dots> = v mod (256 * 256 ^ n)" by (simp add: mod_mult2_eq)
  finally show ?case by simp
qed

lemma le_nat_less: "le_nat bs < 256 ^ length bs"
proof (induction bs)
  case Nil
  then show ?case by simp
next
  case (Cons b bs)
  have "unat b < 256" using unat_less [of b] by simp
  moreover have "256 * le_nat bs + 256 \<le> 256 * 256 ^ length bs"
    using Cons by (metis Suc_leI mult_Suc_right mult_le_mono2 add.commute)
  ultimately show ?case by simp
qed

lemma le_bytes_nat: "le_bytes (length bs) (le_nat bs) = bs"
proof (induction bs)
  case Nil
  then show ?case by simp
next
  case (Cons b bs)
  have "unat b < 256" using unat_less [of b] by simp
  moreover have "256 * of_nat n = (0 :: byte)" for n
  proof -
    have "(256 :: byte) = 0" by simp
    then show ?thesis by (metis mult_zero_left)
  qed
  ultimately show ?case using Cons by simp
qed

lemma get_put [simp]: "get16 (put16 v) = v" "get32 (put32 w) = w" "get64 (put64 x) = x"
  using unat_less [of v] unat_less [of w] unat_less [of x]
  by (simp_all add: get16_def put16_def get32_def put32_def get64_def put64_def le_nat_bytes)

lemma put_get: "length bs = 4 \<Longrightarrow> put32 (get32 bs) = bs"
  using le_bytes_nat [of bs] le_nat_less [of bs]
  by (simp add: put32_def get32_def unat_of_nat)

lemma put32_eq_iff [simp]: "put32 v = put32 w \<longleftrightarrow> v = w"
  by (metis get_put(2))

section \<open>Reads of a buffer\<close>

definition read_at :: "nat \<Rightarrow> nat \<Rightarrow> byte list \<Rightarrow> byte list option" where
  "read_at off n buf = (if off + n \<le> length buf then Some (take n (drop off buf)) else None)"

definition u32_at :: "nat \<Rightarrow> byte list \<Rightarrow> uint32 option" where
  "u32_at off buf = map_option get32 (read_at off 4 buf)"

definition u64_at :: "nat \<Rightarrow> byte list \<Rightarrow> uint64 option" where
  "u64_at off buf = map_option get64 (read_at off 8 buf)"

lemma read_at_None [simp]: "read_at off n buf = None \<longleftrightarrow> length buf < off + n"
  by (simp add: read_at_def)

lemma u32_at_None [simp]: "u32_at off buf = None \<longleftrightarrow> length buf < off + 4"
  by (simp add: u32_at_def)

lemma u64_at_None [simp]: "u64_at off buf = None \<longleftrightarrow> length buf < off + 8"
  by (simp add: u64_at_def)

lemma read_at_length: "read_at off n buf = Some bs \<Longrightarrow> length bs = n"
  by (auto simp: read_at_def split: if_splits)

text \<open>A buffer is the concatenation of its fields: the reads by their position.\<close>

lemma read_at_app1: "off + n \<le> length xs \<Longrightarrow> read_at off n (xs @ ys) = read_at off n xs"
  by (simp add: read_at_def)

lemma read_at_skip: "length xs \<le> off \<Longrightarrow> read_at off n (xs @ ys) = read_at (off - length xs) n ys"
  by (auto simp: read_at_def)

lemma read_at_first: "length xs = n \<Longrightarrow> read_at 0 n (xs @ ys) = Some xs"
  by (simp add: read_at_def)

lemma read_at_all: "length xs = n \<Longrightarrow> read_at 0 n xs = Some xs"
  by (simp add: read_at_def)

lemmas layout_simps [simp] = read_at_skip read_at_first read_at_all

lemma u32_at_field [simp]:
  "length xs \<le> off \<Longrightarrow> u32_at off (xs @ ys) = u32_at (off - length xs) ys"
  "u32_at 0 (put32 v @ ys) = Some v"
  by (simp_all add: u32_at_def)

lemma u64_at_field [simp]:
  "length xs \<le> off \<Longrightarrow> u64_at off (xs @ ys) = u64_at (off - length xs) ys"
  "u64_at 0 (put64 x @ ys) = Some x" "u64_at 0 (put64 x) = Some x"
  by (simp_all add: u64_at_def)

section \<open>Characters\<close>

definition char_of_byte :: "byte \<Rightarrow> char" where
  "char_of_byte b = char_of (unat b)"

definition byte_of_char :: "char \<Rightarrow> byte" where
  "byte_of_char c = of_nat (of_char c)"

abbreviation chars :: "byte list \<Rightarrow> string" where "chars \<equiv> map char_of_byte"
abbreviation bytes_of :: "string \<Rightarrow> byte list" where "bytes_of \<equiv> map byte_of_char"

lemma char_of_byte_of_char [simp]: "char_of_byte (byte_of_char c) = c"
  by (simp add: char_of_byte_def byte_of_char_def unat_of_nat)

lemma byte_of_char_of_byte [simp]: "byte_of_char (char_of_byte b) = b"
  using unat_less [of b] by (simp add: char_of_byte_def byte_of_char_def)

lemma chars_bytes_of [simp]: "chars (bytes_of s) = s" "bytes_of (chars b) = b"
  by (simp_all add: comp_def)

lemma comp_bytes [simp]: "char_of_byte \<circ> byte_of_char = (\<lambda>c. c)" "byte_of_char \<circ> char_of_byte = (\<lambda>b. b)"
  by (simp_all add: comp_def)

lemma NUL_byte [simp]: "char_of_byte 0 = NUL" "byte_of_char NUL = 0"
  by (simp_all add: char_of_byte_def byte_of_char_def char_of_def)

lemma char_of_byte_NUL [simp]: "char_of_byte b = NUL \<longleftrightarrow> b = 0"
  by (auto dest: arg_cong [where f = byte_of_char])

lemma byte_of_char_0 [simp]: "byte_of_char c = 0 \<longleftrightarrow> c = NUL"
  by (auto dest: arg_cong [where f = char_of_byte])

text \<open>A C string in a buffer: the characters before the first terminator.\<close>

definition c_string :: "string \<Rightarrow> string" where
  "c_string mem = takeWhile (\<lambda>c. c \<noteq> NUL) mem"

text \<open>\<^verbatim>\<open>strncpy\<close>: the source up to its terminator, filled with terminators.\<close>

definition strncpy_bytes :: "nat \<Rightarrow> string \<Rightarrow> string" where
  "strncpy_bytes n src = take n (src @ replicate n NUL)"

lemma length_strncpy_bytes [simp]: "length (strncpy_bytes n src) = n"
  by (simp add: strncpy_bytes_def)

lemma c_string_terminated [simp]: "NUL \<notin> set s \<Longrightarrow> c_string (s @ NUL # t) = s"
  by (simp add: c_string_def takeWhile_append)

section \<open>What becomes of a buffer that is decoded\<close>

text \<open>
  A buffer is read outside its bounds, refused with a code, or decoded. \<open>reading\<close> goes on with what
  was read.
\<close>

datatype 'a decoded = Overread | Refused JHI_RET | Decoded 'a

definition reading :: "'a option \<Rightarrow> ('a \<Rightarrow> 'b decoded) \<Rightarrow> 'b decoded" where
  "reading r f = (case r of None \<Rightarrow> Overread | Some x \<Rightarrow> f x)"

lemma reading_simps [simp]: "reading None f = Overread" "reading (Some x) f = f x"
  by (simp_all add: reading_def)

lemma reading_Overread: "reading r f = Overread \<longleftrightarrow> r = None \<or> (\<exists>x. r = Some x \<and> f x = Overread)"
  by (cases r) auto

lemma reading_Decoded: "reading r f = Decoded y \<longleftrightarrow> (\<exists>x. r = Some x \<and> f x = Decoded y)"
  by (cases r) auto

end
