(* ===== verification/Service_State.thy ===== *)
theory Service_State
  imports Sessions_Manager Package_Reader Byte_Layout
begin

text \<open>
  The state of the running service and what it calls outside itself. A service state holds the
  managers' states (sessions, applets, globals, events), the file system and the \<open>world\<close>: the
  firmware with its virtual machine and the other processes of the system, of a type \<open>'w\<close> the
  development leaves open.

  What acts on the world is a \<open>platform\<close>: the methods of the abstract class
  \<^verbatim>\<open>VM_Plugin_interface\<close> (\<^verbatim>\<open>common/include/plugin_interface.h\<close>; the implementation is a library
  loaded at run time), the process table under \<^verbatim>\<open>/proc\<close>, \<^verbatim>\<open>uuid_generate\<close>, the XML library, and
  \<open>uninit_time\<close> and \<open>uninit_byte\<close>, what a \<^verbatim>\<open>FILETIME\<close> on the stack and a block of memory hold before
  they are assigned.
  Every handler takes the platform as its first argument; nothing is assumed of it unless a
  theorem says so.
\<close>

type_synonym 'w call = "'w \<Rightarrow> JHI_RET \<times> 'w"

text \<open>\<^verbatim>\<open>PACKAGE_INFO\<close>\<close>

record PACKAGE_INFO =
  packageType :: int
  pkg_uuid :: string

text \<open>
  \<^verbatim>\<open>dal_tee_metadata\<close>: a packed structure of 160 bytes, of which the service reads the API level and
  the firmware version.
\<close>

type_synonym dal_tee_metadata = "byte list"

definition metadata_sized :: "dal_tee_metadata \<Rightarrow> bool" where
  "metadata_sized m = (length m = 160)"

definition api_level :: "dal_tee_metadata \<Rightarrow> uint32" where
  "api_level m = get32 (take 4 m)"

definition metadata_fw_version :: "dal_tee_metadata \<Rightarrow> VERSION" where
  "metadata_fw_version m = \<lparr> Major = get16 (take 2 (drop 88 m)), Minor = get16 (take 2 (drop 90 m)),
     Hotfix = get16 (take 2 (drop 92 m)), Build = get16 (take 2 (drop 94 m)) \<rparr>"

record 'w VM_Plugin_interface =
  JHI_Plugin_Init :: "bool \<Rightarrow> 'w call"
  JHI_Plugin_DeInit :: "bool \<Rightarrow> 'w call"
  JHI_Plugin_Set_Transport_And_Memory :: "TEE_TRANSPORT_TYPE \<Rightarrow> 'w call"
  JHI_Plugin_DownloadApplet :: "string \<Rightarrow> byte list \<Rightarrow> 'w call"
  JHI_Plugin_UnloadApplet :: "string \<Rightarrow> 'w call"
  JHI_Plugin_GetAppletProperty :: "string \<Rightarrow> string \<Rightarrow> uint32 \<Rightarrow> 'w \<Rightarrow> (JHI_RET \<times> string \<times> uint32) \<times> 'w"
  JHI_Plugin_CreateSession :: "string \<Rightarrow> byte list option \<Rightarrow> JHI_SESSION_ID \<Rightarrow> byte list option \<Rightarrow>
      'w \<Rightarrow> (JHI_RET \<times> VM_SESSION_HANDLE) \<times> 'w"
  JHI_Plugin_CloseSession :: "VM_SESSION_HANDLE \<Rightarrow> 'w call"
  JHI_Plugin_ForceCloseSession :: "VM_SESSION_HANDLE \<Rightarrow> 'w call"
  JHI_Plugin_WaitForSpoolerEvent :: "VM_SESSION_HANDLE \<Rightarrow>
      'w \<Rightarrow> (JHI_RET \<times> JHI_EVENT_DATA option \<times> JHI_SESSION_ID) \<times> 'w"
  JHI_Plugin_SendAndRecv :: "VM_SESSION_HANDLE \<Rightarrow> uint32 \<Rightarrow> byte list \<Rightarrow> uint32 \<Rightarrow>
      'w \<Rightarrow> (JHI_RET \<times> byte list \<times> uint32 \<times> uint32) \<times> 'w"
  JHI_Plugin_SendCmdPkg :: "VM_SESSION_HANDLE \<Rightarrow> byte list \<Rightarrow> 'w call"
  JHI_Plugin_ParsePackage :: "byte list \<Rightarrow> 'w \<Rightarrow> (JHI_RET \<times> PACKAGE_INFO) \<times> 'w"
  JHI_Plugin_QueryTeeMetadata :: "'w \<Rightarrow> (JHI_RET \<times> dal_tee_metadata) \<times> 'w"
  JHI_Plugin_OpenSDSession :: "string \<Rightarrow> 'w \<Rightarrow> (JHI_RET \<times> VM_SESSION_HANDLE) \<times> 'w"
  JHI_Plugin_CloseSDSession :: "VM_SESSION_HANDLE \<Rightarrow> 'w call"
  JHI_Plugin_ListInstalledTAs :: "VM_SESSION_HANDLE \<Rightarrow> 'w \<Rightarrow> (JHI_RET \<times> string list) \<times> 'w"
  JHI_Plugin_ListInstalledSDs :: "VM_SESSION_HANDLE \<Rightarrow> 'w \<Rightarrow> (JHI_RET \<times> string list) \<times> 'w"
  JHI_Plugin_ProvisionOemMasterKey :: "byte list \<Rightarrow> 'w call"
  JHI_Plugin_SetTAEncryptionKey :: "byte list \<Rightarrow> 'w call"

record 'w platform = "'w VM_Plugin_interface" +
  uuid_generate :: "'w \<Rightarrow> JHI_SESSION_ID \<times> 'w"
  proc_dir :: "'w \<Rightarrow> uint32 \<Rightarrow> bool"
  proc_stat :: "'w \<Rightarrow> uint32 \<Rightarrow> string option"
  getpid :: uint32
  uninit_time :: FILETIME
  uninit_byte :: "nat \<Rightarrow> byte"
  xml_document :: "byte list \<Rightarrow> IXmlReader"

text \<open>\<^verbatim>\<open>EventManager\<close>'s fields; the listener thread is whether it was started.\<close>

record EventManager =
  initialized :: bool
  spooler_handle :: VM_SESSION_HANDLE
  listener_started :: bool

type_synonym applet_table = "(string, AppletRecord) smap"

record 'w jhi =
  sessions :: SessionsManager
  applets :: applet_table
  globals :: GlobalsManager
  events :: EventManager
  fsys :: file_system
  world :: 'w

type_synonym ('w, 'a) service = "('w jhi, 'a) state"

section \<open>Access to the parts\<close>

definition on_sessions :: "(SessionsManager \<Rightarrow> 'a \<times> SessionsManager) \<Rightarrow> ('w, 'a) service" where
  "on_sessions f = zoom sessions (\<lambda>m s. s\<lparr>sessions := m\<rparr>) (action f)"

definition on_fsys :: "'a fs \<Rightarrow> ('w, 'a) service" where
  "on_fsys m = zoom fsys (\<lambda>f s. s\<lparr>fsys := f\<rparr>) m"

definition on_globals :: "(GlobalsManager \<Rightarrow> 'a \<times> GlobalsManager) \<Rightarrow> ('w, 'a) service" where
  "on_globals f = zoom globals (\<lambda>g s. s\<lparr>globals := g\<rparr>) (action f)"

definition on_world :: "('w \<Rightarrow> 'a \<times> 'w) \<Rightarrow> ('w, 'a) service" where
  "on_world f = zoom world (\<lambda>w s. s\<lparr>world := w\<rparr>) (action f)"

definition set_applets :: "(applet_table \<Rightarrow> applet_table) \<Rightarrow> ('w, unit) service" where
  "set_applets f = modify (\<lambda>s. s\<lparr>applets := f (applets s)\<rparr>)"

definition set_globals :: "(GlobalsManager \<Rightarrow> GlobalsManager) \<Rightarrow> ('w, unit) service" where
  "set_globals f = modify (\<lambda>s. s\<lparr>globals := f (globals s)\<rparr>)"

definition set_events :: "(EventManager \<Rightarrow> EventManager) \<Rightarrow> ('w, unit) service" where
  "set_events f = modify (\<lambda>s. s\<lparr>events := f (events s)\<rparr>)"

text \<open>An allocation: whether it succeeds.\<close>

definition alloc :: "('w, bool) service" where
  "alloc = do { r \<leftarrow> on_fsys next_io; ret (r = Io_ok) }"

text \<open>\<^verbatim>\<open>!getPluginTable(&plugin) || plugin == NULL\<close>\<close>

definition no_plugin :: "('w, bool) service" where
  "no_plugin = gets (\<lambda>s. let (registered, table) = getPluginTable (globals s) in \<not> registered \<or> \<not> table)"

text \<open>\<^verbatim>\<open>processIsDead\<close> of \<^verbatim>\<open>SessionsManager.cpp\<close>\<close>

definition processIsDead :: "'w platform \<Rightarrow> 'w \<Rightarrow> JHI_PROCESS_INFO \<Rightarrow> bool" where
  "processIsDead pf w pinfo =
     isProcessDead (proc_dir pf w (pid pinfo)) (proc_stat pf w (pid pinfo)) (creationTime pinfo)"

section \<open>Running the accessors\<close>

lemma run_on_sessions [simp, run_simps]:
  "run_state (on_sessions f) s = (fst (f (sessions s)), s\<lparr>sessions := snd (f (sessions s))\<rparr>)"
  by (simp add: on_sessions_def split: prod.split)

lemma run_on_fsys [run_simps]:
  "run_state (on_fsys m) s =
     (fst (run_state m (fsys s)), s\<lparr>fsys := snd (run_state m (fsys s))\<rparr>)"
  by (simp add: on_fsys_def split: prod.split)

lemma run_on_globals [simp, run_simps]:
  "run_state (on_globals f) s = (fst (f (globals s)), s\<lparr>globals := snd (f (globals s))\<rparr>)"
  by (simp add: on_globals_def split: prod.split)

lemma run_on_world [simp, run_simps]:
  "run_state (on_world f) s = (fst (f (world s)), s\<lparr>world := snd (f (world s))\<rparr>)"
  by (simp add: on_world_def split: prod.split)

lemma run_set_applets [simp, run_simps]:
  "run_state (set_applets f) s = ((), s\<lparr>applets := f (applets s)\<rparr>)"
  by (simp add: set_applets_def)

lemma run_set_globals [simp, run_simps]:
  "run_state (set_globals f) s = ((), s\<lparr>globals := f (globals s)\<rparr>)"
  by (simp add: set_globals_def)

lemma run_set_events [simp, run_simps]:
  "run_state (set_events f) s = ((), s\<lparr>events := f (events s)\<rparr>)"
  by (simp add: set_events_def)

lemma run_no_plugin [simp, run_simps]:
  "run_state no_plugin s = (\<not> (plugin_registered (globals s) \<and> plugin_table (globals s)), s)"
  by (simp add: no_plugin_def getPluginTable_def)

section \<open>Invariants of one part\<close>

text \<open>
  An invariant of the session table alone (or of the applet table, the globals) is preserved by
  everything that acts on another part. The rules below are the frame conditions of the service.
\<close>

lemma preserves_on_sessions:
  "(\<And>s. I s \<Longrightarrow> I (s\<lparr>sessions := snd (f (sessions s))\<rparr>)) \<Longrightarrow> preserves I (on_sessions f)"
  by (simp add: preserves_def)

lemma sessions_inv_on_sessions:
  "(\<And>m. J m \<Longrightarrow> J (snd (f m))) \<Longrightarrow> preserves (\<lambda>s. J (sessions s)) (on_sessions f)"
  by (simp add: preserves_def)

lemma sessions_frame [pres_intros]:
  "preserves (\<lambda>s. J (sessions s)) (on_fsys m)"
  "preserves (\<lambda>s. J (sessions s)) (on_globals g)"
  "preserves (\<lambda>s. J (sessions s)) (on_world h)"
  "preserves (\<lambda>s. J (sessions s)) (set_applets a)"
  "preserves (\<lambda>s. J (sessions s)) (set_globals b)"
  "preserves (\<lambda>s. J (sessions s)) (set_events c)"
  "preserves (\<lambda>s. J (sessions s)) no_plugin"
  by (simp_all add: preserves_def run_on_fsys)

lemma applets_frame [pres_intros]:
  "preserves (\<lambda>s. J (applets s)) (on_fsys m)"
  "preserves (\<lambda>s. J (applets s)) (on_globals g)"
  "preserves (\<lambda>s. J (applets s)) (on_world h)"
  "preserves (\<lambda>s. J (applets s)) (on_sessions f)"
  "preserves (\<lambda>s. J (applets s)) (set_globals b)"
  "preserves (\<lambda>s. J (applets s)) (set_events c)"
  "preserves (\<lambda>s. J (applets s)) no_plugin"
  by (simp_all add: preserves_def run_on_fsys)

lemma applets_inv_set_applets:
  "(\<And>m. J m \<Longrightarrow> J (f m)) \<Longrightarrow> preserves (\<lambda>s. J (applets s)) (set_applets f)"
  by (simp add: preserves_def)

lemma globals_frame [pres_intros]:
  "preserves (\<lambda>s. J (globals s) (events s)) (on_fsys m)"
  "preserves (\<lambda>s. J (globals s) (events s)) (on_world h)"
  "preserves (\<lambda>s. J (globals s) (events s)) (on_sessions f)"
  "preserves (\<lambda>s. J (globals s) (events s)) (set_applets a)"
  "preserves (\<lambda>s. J (globals s) (events s)) no_plugin"
  by (simp_all add: preserves_def run_on_fsys)

lemma globals_set_events [pres_intros]: "preserves (\<lambda>s. J (globals s)) (set_events c)"
  by (simp add: preserves_def)

lemma fsys_frame [pres_intros]:
  "preserves (\<lambda>s. J (fsys s)) (on_sessions f)"
  "preserves (\<lambda>s. J (fsys s)) (on_globals g)"
  "preserves (\<lambda>s. J (fsys s)) (on_world h)"
  "preserves (\<lambda>s. J (fsys s)) (set_applets a)"
  "preserves (\<lambda>s. J (fsys s)) (set_globals b)"
  "preserves (\<lambda>s. J (fsys s)) (set_events c)"
  "preserves (\<lambda>s. J (fsys s)) no_plugin"
  by (simp_all add: preserves_def)

lemma fsys_inv_on_fsys: "preserves J m \<Longrightarrow> preserves (\<lambda>s. J (fsys s)) (on_fsys m)"
  by (simp add: preserves_def run_on_fsys)

lemma frame_alloc [pres_intros]:
  "preserves (\<lambda>s. J (sessions s)) alloc" "preserves (\<lambda>s. J' (applets s)) alloc"
  "preserves (\<lambda>s. J'' (globals s) (events s)) alloc"
  unfolding alloc_def by (intro pres_intros)+

lemma fsys_alloc [pres_intros]: "files_only J \<Longrightarrow> preserves (\<lambda>s. J (fsys s)) alloc"
  unfolding alloc_def by (intro pres_intros fsys_inv_on_fsys)

lemma run_alloc [run_simps]: "io (fsys s) = [] \<Longrightarrow> run_state alloc s = (True, s)"
  by (simp add: alloc_def run_on_fsys run_next_io)

section \<open>A concrete platform\<close>

text \<open>
  A platform to run the handlers on: the world counts the sessions and identifiers handed out,
  every request to the VM succeeds, \<^verbatim>\<open>applet.shared.session.support\<close> and every other property
  read \<^verbatim>\<open>true\<close>, a package is a request to install the applet \<open>sample_app\<close>, processes with an
  even number are alive, and no DALP document is valid.
\<close>

definition sample_app :: string where
  "sample_app = ''0123456789ABCDEF0123456789ABCDEF''"

definition sample_platform :: "nat platform" where
  "sample_platform = \<lparr>
     JHI_Plugin_Init = (\<lambda>b w. (JHI_SUCCESS, w)),
     JHI_Plugin_DeInit = (\<lambda>b w. (JHI_SUCCESS, w)),
     JHI_Plugin_Set_Transport_And_Memory = (\<lambda>t w. (JHI_SUCCESS, w)),
     JHI_Plugin_DownloadApplet = (\<lambda>a b w. (JHI_SUCCESS, w)),
     JHI_Plugin_UnloadApplet = (\<lambda>a w. (JHI_SUCCESS, w)),
     JHI_Plugin_GetAppletProperty = (\<lambda>a p n w. ((JHI_SUCCESS, ''true'' @ [NUL], 4), w)),
     JHI_Plugin_CreateSession = (\<lambda>a b i d w. ((JHI_SUCCESS, of_nat w), w + 1)),
     JHI_Plugin_CloseSession = (\<lambda>h w. (JHI_SUCCESS, w)),
     JHI_Plugin_ForceCloseSession = (\<lambda>h w. (JHI_SUCCESS, w)),
     JHI_Plugin_WaitForSpoolerEvent = (\<lambda>h w. ((JHI_INTERNAL_ERROR, None, UUID []), w)),
     JHI_Plugin_SendAndRecv = (\<lambda>h c t n w. ((JHI_SUCCESS, t, of_nat (length t), 0), w)),
     JHI_Plugin_SendCmdPkg = (\<lambda>h b w. (JHI_SUCCESS, w)),
     JHI_Plugin_ParsePackage = (\<lambda>b w. ((JHI_SUCCESS, \<lparr> packageType = 3, pkg_uuid = sample_app \<rparr>), w)),
     JHI_Plugin_QueryTeeMetadata = (\<lambda>w. ((JHI_SUCCESS, put32 2 @ replicate 84 0 @ put16 11 @ replicate 70 0), w)),
     JHI_Plugin_OpenSDSession = (\<lambda>sd w. ((TEE_STATUS_SUCCESS, of_nat w), w + 1)),
     JHI_Plugin_CloseSDSession = (\<lambda>h w. (TEE_STATUS_SUCCESS, w)),
     JHI_Plugin_ListInstalledTAs = (\<lambda>h w. ((TEE_STATUS_SUCCESS, [sample_app]), w)),
     JHI_Plugin_ListInstalledSDs = (\<lambda>h w. ((TEE_STATUS_SUCCESS, []), w)),
     JHI_Plugin_ProvisionOemMasterKey = (\<lambda>k w. (TEE_STATUS_SUCCESS, w)),
     JHI_Plugin_SetTAEncryptionKey = (\<lambda>k w. (TEE_STATUS_SUCCESS, w)),
     uuid_generate = (\<lambda>w. (UUID (replicate 15 0 @ [of_nat w]), w + 1)),
     proc_dir = (\<lambda>w p. even (uint p)),
     proc_stat = (\<lambda>w p. None),
     getpid = 2,
     uninit_time = \<lparr> dwHighDateTime = 0, dwLowDateTime = 0 \<rparr>,
     uninit_byte = (\<lambda>i. 0xCD),
     xml_document = (\<lambda>d. \<lparr> xml_valid = False, GetNodeText = (\<lambda>x. None),
                           GetNodeTextAsBase64 = (\<lambda>x. None), GetNodeCount = (\<lambda>x. 0) \<rparr>) \<rparr>"

definition sample_globals :: GlobalsManager where
  "sample_globals = GlobalsManager_init\<lparr>jhi_state := JHI_INITIALIZED, applets_folder := ''/repo'',
     plugin_registered := True, plugin_table := True, vmType := JHI_VM_TYPE_BEIHAI_V1,
     fwVersion := \<lparr> Major = 9, Minor = 5, Hotfix = 0, Build = 0 \<rparr>, pluginLoaded := True\<rparr>"

definition sample_process :: "nat \<Rightarrow> JHI_PROCESS_INFO" where
  "sample_process n =
     \<lparr> pid = of_nat n, creationTime = \<lparr> dwHighDateTime = 7, dwLowDateTime = 0 \<rparr> \<rparr>"

text \<open>A service with no session, no applet, and a package waiting at \<^verbatim>\<open>/tmp/a.acp\<close>.\<close>

definition sample_state :: "nat jhi" where
  "sample_state = \<lparr> sessions = SessionsManager_init, applets = [], globals = sample_globals,
     events = \<lparr> initialized = False, spooler_handle = 0, listener_started = False \<rparr>,
     fsys = \<lparr> files = [(''/tmp/a.acp'', [1, 2, 3])], folders = [''/repo''], io = [],
              stream_fault = False \<rparr>,
     world = 1 \<rparr>"

definition sample_id :: "nat \<Rightarrow> JHI_SESSION_ID" where
  "sample_id n = UUID (replicate 15 0 @ [of_nat n])"

text \<open>The same with a session of two owners, one of them dead.\<close>

definition sample_session :: "JHI_SESSION_FLAGS \<Rightarrow> nat list \<Rightarrow> nat \<Rightarrow> SessionRecord" where
  "sample_session flags owners n = \<lparr> sessionId = sample_id n, vmSessionHandle = of_nat n,
     appId = sample_app, sessionFlags = flags, state = JHI_SESSION_STATE_ACTIVE,
     ownersList = map sample_process owners, eventsDataQueue = [], sessionLock = 0,
     lastUsedTime = 0, eventHandle = None \<rparr>"

definition sample_with :: "(nat \<times> JHI_SESSION_FLAGS \<times> nat list) list \<Rightarrow> nat jhi" where
  "sample_with specs = sample_state\<lparr>sessions := \<lparr>
     sessionList = map (\<lambda>(n, flags, owners). (sample_id n, sample_session flags owners n)) specs,
     sharedSessionLRUCounter = 1 \<rparr>\<rparr>"

end
