(* ===== verification/Session_Service.thy ===== *)
theory Session_Service
  imports Service_State
begin

text \<open>
  Closing sessions: \<^verbatim>\<open>jhis_close_session\<close> (\<^verbatim>\<open>service/closeSession.cpp\<close>) and the methods of
  \<^verbatim>\<open>SessionsManager\<close> that call it to clean up, \<^verbatim>\<open>closeSessionsInVM\<close>, \<^verbatim>\<open>ClearAppletSharedSession\<close>,
  \<^verbatim>\<open>ClearAbandonedNonSharedSessions\<close> and \<^verbatim>\<open>TryRemoveUnusedSharedSession\<close>; with
  \<^verbatim>\<open>jhis_get_session_info\<close> (\<^verbatim>\<open>service/getSessionStat.cpp\<close>).
\<close>

section \<open>Closing a session\<close>

text \<open>The codes on which the record is dropped: the firmware no longer has the session.\<close>

definition session_gone :: "JHI_RET \<Rightarrow> bool" where
  "session_gone r =
     (r = JHI_SUCCESS \<or> r = JHI_APPLET_FATAL \<or> r = JHI_APPLET_TIMEOUT \<or> r = JHI_INVALID_SESSION_HANDLE)"

text \<open>The end of \<^verbatim>\<open>jhis_close_session\<close>: drop the record or release the lock.\<close>

definition finish_close :: "JHI_SESSION_ID \<Rightarrow> bool \<Rightarrow> JHI_RET \<Rightarrow> ('w, JHI_RET) service" where
  "finish_close sid force ulRetCode =
     (if session_gone ulRetCode then do {
        removed \<leftarrow> on_sessions (remove sid);
        ret (if \<not> removed \<and> \<not> force then JHI_INTERNAL_ERROR else ulRetCode) }
      else do {
        on_sessions (\<lambda>m. ((), ReleaseSessionLock sid m));
        ret ulRetCode })"

text \<open>The part under \<^verbatim>\<open>if (removeSession)\<close>.\<close>

definition close_and_remove :: "'w platform \<Rightarrow> JHI_SESSION_ID \<Rightarrow> bool \<Rightarrow> bool \<Rightarrow> ('w, JHI_RET) service" where
  "close_and_remove pf sid force removeFromVM = do {
     locked \<leftarrow> (if force then ret True else on_sessions (GetSessionLock sid));
     if \<not> locked then ret JHI_INVALID_SESSION_HANDLE
     else if removeFromVM then do {
       vm \<leftarrow> gets (\<lambda>s. getVMSessionHandle sid (sessions s));
       case vm of
         None \<Rightarrow> ret JHI_INTERNAL_ERROR
       | Some VMSessionHandle \<Rightarrow> do {
           np \<leftarrow> no_plugin;
           if np then finish_close sid force JHI_NO_CONNECTION_TO_FIRMWARE
           else do {
             r \<leftarrow> on_world (if force then JHI_Plugin_ForceCloseSession pf VMSessionHandle
                           else JHI_Plugin_CloseSession pf VMSessionHandle);
             relocked \<leftarrow> (if force then on_sessions (GetSessionLock sid) else ret True);
             if \<not> relocked then ret r else finish_close sid force r } } }
     else finish_close sid force JHI_SUCCESS }"

text \<open>Who asks: whether the session is to be removed, and the return code so far.\<close>

definition release_owner :: "JHI_SESSION_ID \<Rightarrow> JHI_SESSION_FLAGS \<Rightarrow> JHI_PROCESS_INFO option \<Rightarrow> bool \<Rightarrow>
    ('w, bool \<times> JHI_RET) service" where
  "release_owner sid flags processInfo force =
     (case processInfo of
        None \<Rightarrow> ret (True, JHI_INTERNAL_ERROR)
      | Some p \<Rightarrow> do {
          valid \<leftarrow> gets (\<lambda>s. isSessionOwnerValid sid p (sessions s));
          count \<leftarrow> gets (\<lambda>s. getOwnersCount sid (sessions s));
          if \<not> valid then ret (False, JHI_INTERNAL_ERROR)
          else if count = 1 \<and> \<not> sharedSession flags then ret (True, JHI_SUCCESS)
          else if \<not> force then do {
            on_sessions (removeSessionOwner sid p);
            ret (False, JHI_SUCCESS) }
          else ret (True, JHI_SUCCESS) })"

definition jhis_close_session :: "'w platform \<Rightarrow> JHI_SESSION_ID \<Rightarrow> JHI_PROCESS_INFO option \<Rightarrow>
    bool \<Rightarrow> bool \<Rightarrow> ('w, JHI_RET) service" where
  "jhis_close_session pf sid processInfo force removeFromVM = do {
     info \<leftarrow> gets (\<lambda>s. getSessionInfo sid (sessions s));
     if info_state info = JHI_SESSION_STATE_NOT_EXISTS then ret JHI_INVALID_SESSION_HANDLE
     else do {
       r \<leftarrow> release_owner sid (info_flags info) processInfo force;
       if \<not> fst r then ret (snd r) else close_and_remove pf sid force removeFromVM } }"

text \<open>\<^verbatim>\<open>jhis_get_session_info\<close>: the out parameter is the second component.\<close>

definition jhis_get_session_info :: "JHI_SESSION_ID option \<Rightarrow> bool \<Rightarrow>
    ('w, JHI_RET \<times> JHI_SESSION_INFO option) service" where
  "jhis_get_session_info pSessionID pSessionInfo =
     (case pSessionID of
        None \<Rightarrow> ret (JHI_INVALID_PARAMS, None)
      | Some sid \<Rightarrow>
          if \<not> pSessionInfo then ret (JHI_INVALID_PARAMS, None)
          else gets (\<lambda>s. (JHI_SUCCESS, Some (getSessionInfo sid (sessions s)))))"

section \<open>Clean-up\<close>

definition clear_dead_owners :: "'w platform \<Rightarrow> ('w, bool) service" where
  "clear_dead_owners pf = do {
     w \<leftarrow> gets world;
     on_sessions (ClearSessionsDeadOwners (processIsDead pf w)) }"

definition closeSessionsInVM :: "'w platform \<Rightarrow> ('w, unit) service" where
  "closeSessionsInVM pf = do {
     np \<leftarrow> no_plugin;
     if np then ret ()
     else do {
       handles \<leftarrow> gets (\<lambda>s. map (vmSessionHandle \<circ> snd) (sessionList (sessions s)));
       for_each (\<lambda>h. do { on_world (JHI_Plugin_CloseSession pf h); ret () }) handles } }"

definition ClearAppletSharedSession :: "'w platform \<Rightarrow> string \<Rightarrow> ('w, bool) service" where
  "ClearAppletSharedSession pf app = do {
     candidate \<leftarrow> gets (\<lambda>s. abandonedAppletShared app (sessions s));
     case candidate of
       None \<Rightarrow> ret False
     | Some sid \<Rightarrow> do {
         r \<leftarrow> jhis_close_session pf sid None False True;
         ret (r = JHI_SUCCESS) } }"

text \<open>Closing each session of a list: whether one was closed.\<close>

fun close_all :: "'w platform \<Rightarrow> bool \<Rightarrow> JHI_SESSION_ID list \<Rightarrow> ('w, bool) service" where
  "close_all pf removed [] = ret removed"
| "close_all pf removed (sid # sids) = do {
     r \<leftarrow> jhis_close_session pf sid None False True;
     close_all pf (removed \<or> r = JHI_SUCCESS) sids }"

definition ClearAbandonedNonSharedSessions :: "'w platform \<Rightarrow> ('w, bool) service" where
  "ClearAbandonedNonSharedSessions pf = do {
     slist \<leftarrow> gets (\<lambda>s. abandonedNonShared (sessions s));
     close_all pf False slist }"

definition TryRemoveUnusedSharedSession :: "'w platform \<Rightarrow> bool \<Rightarrow> ('w, bool) service" where
  "TryRemoveUnusedSharedSession pf allowNonSharedSessions = do {
     SessionToRemove \<leftarrow> gets (\<lambda>s. leastRecentlyUsed allowNonSharedSessions (sessions s));
     case SessionToRemove of
       None \<Rightarrow> ret False
     | Some sid \<Rightarrow> do {
         r \<leftarrow> jhis_close_session pf sid None False True;
         ret (r = JHI_SUCCESS) } }"

section \<open>What closing does\<close>

text \<open>Dropping the record of a present session, and keeping it.\<close>

lemma lock_unlock: "sm_inv m \<Longrightarrow> ReleaseSessionLock sid (snd (GetSessionLock sid m)) = m"
proof -
  assume inv: "sm_inv m"
  let ?m = "ReleaseSessionLock sid (snd (GetSessionLock sid m))"
  have "sessionList ?m = sessionList m"
  proof (rule smap_ext)
    show "smap_inv (sessionList ?m)" "smap_inv (sessionList m)"
      using inv by (simp_all add: table_ops sm_inv_table)
    have "session k ?m = session k m" for k
      by (cases "session sid m") auto
    then show "smap_find (sessionList ?m) k = smap_find (sessionList m) k" for k
      by (simp add: session_def)
  qed
  then show ?thesis
    by (simp add: GetSessionLock_def ReleaseSessionLock_def put_session_def split: option.splits)
qed

lemma remove_locked: "snd (remove sid (snd (GetSessionLock sid m))) = snd (remove sid m)"
  if "sm_inv m"
proof -
  have "sessionList (snd (remove sid (snd (GetSessionLock sid m)))) = sessionList (snd (remove sid m))"
  proof (rule smap_ext)
    show "smap_inv (sessionList (snd (remove sid (snd (GetSessionLock sid m)))))"
      "smap_inv (sessionList (snd (remove sid m)))"
      using that by (simp_all add: table_ops sm_inv_table table_remove)
    have "session k (snd (remove sid (snd (GetSessionLock sid m)))) = session k (snd (remove sid m))" for k
      by simp
    then show "smap_find (sessionList (snd (remove sid (snd (GetSessionLock sid m))))) k =
        smap_find (sessionList (snd (remove sid m))) k" for k
      by (simp add: session_def)
  qed
  then show ?thesis
    by (simp add: GetSessionLock_def remove_def put_session_def isSessionPresent_def
        split: option.splits if_splits)
qed

lemma GetSessionLock_status: "fst (GetSessionLock sid m) = isSessionPresent sid m"
  by (simp add: GetSessionLock_def isSessionPresent_iff split: option.splits)

lemma remove_status: "fst (remove sid m) = isSessionPresent sid m"
  by (simp add: remove_def)

lemma getVMSessionHandle_lock:
  "getVMSessionHandle sid (snd (GetSessionLock sid m)) = getVMSessionHandle sid m"
  by (simp add: getVMSessionHandle_def option.map_comp comp_def)

text \<open>
  The outcome of an unforced close that removes the session, either an internal one or by the
  only owner of a session that is not shared: the plugin's answer decides between dropping the
  record and leaving the table as it was.
\<close>

definition removes :: "JHI_PROCESS_INFO option \<Rightarrow> SessionRecord \<Rightarrow> bool" where
  "removes processInfo r \<longleftrightarrow>
     (case processInfo of
        None \<Rightarrow> True
      | Some p \<Rightarrow> list_ex (\<lambda>q. same_process q p) (ownersList r) \<and> length (ownersList r) = 1
                 \<and> \<not> sharedSession (sessionFlags r))"

lemma active_info:
  assumes "sm_inv m" "session sid m = Some rec"
  shows "getSessionInfo sid m = \<lparr> info_state = JHI_SESSION_STATE_ACTIVE, info_flags = sessionFlags rec \<rparr>"
  using record_bounds [OF assms] by (simp add: getSessionInfo_def assms(2))

lemma run_close_removal:
  assumes "sm_inv (sessions s)" "session sid (sessions s) = Some rec" "removes processInfo rec"
    "plugin_registered (globals s)" "plugin_table (globals s)"
    "JHI_Plugin_CloseSession pf (vmSessionHandle rec) (world s) = (r, w)"
  shows "run_state (jhis_close_session pf sid processInfo False True) s =
    (r, s\<lparr>world := w,
          sessions := (if session_gone r then snd (remove sid (sessions s)) else sessions s)\<rparr>)"
proof -
  have vm: "getVMSessionHandle sid (sessions s) = Some (vmSessionHandle rec)"
    by (simp add: getVMSessionHandle_def assms(2))
  have pres: "isSessionPresent sid (sessions s)"
    by (simp add: isSessionPresent_iff assms(2))
  have rel: "\<exists>c. run_state (release_owner sid (sessionFlags rec) processInfo False) s = ((True, c), s)"
    using assms(2,3)
    by (auto simp: release_owner_def removes_def isSessionOwnerValid_def getOwnersCount_def
        split: option.splits)
  show ?thesis
    using rel vm pres assms active_info [OF assms(1,2)]
    by (auto simp: jhis_close_session_def close_and_remove_def finish_close_def
        GetSessionLock_status getVMSessionHandle_lock remove_status remove_locked lock_unlock)
qed

lemmas run_close_internal = run_close_removal [where processInfo = None, unfolded removes_def option.case,
    OF _ _ TrueI]

text \<open>Only these table operations, on the session being closed, happen in a close.\<close>

lemma preserves_close_at:
  assumes lock: "\<And>m. J m \<Longrightarrow> J (snd (GetSessionLock sid m))"
    and unlock: "\<And>m. J m \<Longrightarrow> J (ReleaseSessionLock sid m)"
    and rem: "\<And>m. J m \<Longrightarrow> J (snd (remove sid m))"
    and disown: "\<And>m p. J m \<Longrightarrow> J (snd (removeSessionOwner sid p m))"
  shows "preserves (\<lambda>s. J (sessions s)) (jhis_close_session pf sid processInfo force removeFromVM)"
proof -
  have fin: "preserves (\<lambda>s. J (sessions s)) (finish_close sid force r)" for r
    unfolding finish_close_def
    by (intro pres_intros sessions_inv_on_sessions) (simp_all add: unlock rem)
  have "preserves (\<lambda>s. J (sessions s)) (close_and_remove pf sid force removeFromVM)"
    unfolding close_and_remove_def
    by (intro pres_intros sessions_inv_on_sessions lock fin)
  moreover have "preserves (\<lambda>s. J (sessions s)) (release_owner sid flags processInfo force)" for flags
    unfolding release_owner_def
    by (intro pres_intros sessions_inv_on_sessions disown)
  ultimately show ?thesis
    unfolding jhis_close_session_def by (intro pres_intros)
qed

lemma frame_close [pres_intros]:
  "preserves (\<lambda>s. J (applets s)) (jhis_close_session pf sid p force rm)"
  "preserves (\<lambda>s. J' (globals s) (events s)) (jhis_close_session pf sid p force rm)"
  "preserves (\<lambda>s. J'' (fsys s)) (jhis_close_session pf sid p force rm)"
  unfolding jhis_close_session_def release_owner_def close_and_remove_def finish_close_def
  by (intro pres_intros)+

lemma close_other_session:
  "k \<noteq> sid \<Longrightarrow> preserves (\<lambda>s. session k (sessions s) = v) (jhis_close_session pf sid p force rm)"
  by (rule preserves_close_at [where J = "\<lambda>m. session k m = v"]) simp_all

section \<open>Invariants of the session table through the service\<close>

text \<open>
  The interface between the table and the handlers that work on existing sessions: a property
  of the table kept by the table operations those handlers use is kept by the handlers.
\<close>

locale table_invariant =
  fixes J :: "SessionsManager \<Rightarrow> bool"
  assumes J_lock: "J m \<Longrightarrow> J (snd (GetSessionLock sid m))"
    and J_unlock: "J m \<Longrightarrow> J (ReleaseSessionLock sid m)"
    and J_remove: "J m \<Longrightarrow> J (snd (remove sid m))"
    and J_disown: "J m \<Longrightarrow> J (snd (removeSessionOwner sid p m))"
    and J_own: "J m \<Longrightarrow> J (snd (addSessionOwner sid p m))"
    and J_reap: "J m \<Longrightarrow> J (snd (ClearSessionDeadOwners dead sid m))"
begin

lemma close_pres: "preserves (\<lambda>s. J (sessions s)) (jhis_close_session pf sid p force rm)"
  by (intro preserves_close_at J_lock J_unlock J_remove J_disown)

lemma close_all_pres: "preserves (\<lambda>s. J (sessions s)) (close_all pf removed sids)"
  by (induction sids arbitrary: removed) (auto intro!: pres_intros close_pres)

lemma J_clear_dead: "J m \<Longrightarrow> J (snd (ClearSessionsDeadOwners dead m))"
  unfolding ClearSessionsDeadOwners_def by (rule preserve_clear_dead [where I = J]) (rule J_reap)

lemma clear_dead_pres: "preserves (\<lambda>s. J (sessions s)) (clear_dead_owners pf)"
  unfolding clear_dead_owners_def
  by (intro pres_intros sessions_inv_on_sessions J_clear_dead)

lemma clear_nonshared_pres: "preserves (\<lambda>s. J (sessions s)) (ClearAbandonedNonSharedSessions pf)"
  unfolding ClearAbandonedNonSharedSessions_def by (intro pres_intros close_all_pres)

lemma clear_applet_pres: "preserves (\<lambda>s. J (sessions s)) (ClearAppletSharedSession pf app)"
  unfolding ClearAppletSharedSession_def by (intro pres_intros close_pres)

lemma try_remove_pres: "preserves (\<lambda>s. J (sessions s)) (TryRemoveUnusedSharedSession pf allow)"
  unfolding TryRemoveUnusedSharedSession_def by (intro pres_intros close_pres)

end

interpretation inv: table_invariant sm_inv
  by unfold_locales
    (simp_all add: inv_lock inv_unlock inv_remove inv_removeOwner inv_addOwner inv_reap)

definition shared_inv :: "SessionsManager \<Rightarrow> bool" where
  "shared_inv m \<longleftrightarrow> sm_inv m \<and> shared_unique m"

lemma shared_inv_table: "shared_inv m \<Longrightarrow> smap_inv (sessionList m)"
  by (simp add: shared_inv_def sm_inv_table)

interpretation uniq: table_invariant shared_inv
  by unfold_locales
    (simp_all add: shared_inv_def inv_lock inv_unlock inv_remove inv_removeOwner inv_addOwner inv_reap
      sm_inv_table lock.op_shared_unique unlock.op_shared_unique shared_unique_remove
      disown.op_shared_unique own.op_shared_unique reap.op_shared_unique)

section \<open>What the clean-up does\<close>

lemma close_all_other:
  "k \<notin> set sids \<Longrightarrow> preserves (\<lambda>s. session k (sessions s) = v) (close_all pf removed sids)"
  by (induction sids arbitrary: removed) (auto intro!: pres_intros close_other_session)

lemma frame_close_all [pres_intros]:
  "preserves (\<lambda>s. J (applets s)) (close_all pf removed sids)"
  "preserves (\<lambda>s. J' (globals s) (events s)) (close_all pf removed sids)"
  "preserves (\<lambda>s. J'' (fsys s)) (close_all pf removed sids)"
  by (induction sids arbitrary: removed) (auto intro!: pres_intros)

lemma frame_cleanup [pres_intros]:
  "preserves (\<lambda>s. J (applets s)) (clear_dead_owners pf)"
  "preserves (\<lambda>s. J' (globals s) (events s)) (clear_dead_owners pf)"
  "preserves (\<lambda>s. J'' (fsys s)) (clear_dead_owners pf)"
  "preserves (\<lambda>s. J (applets s)) (ClearAbandonedNonSharedSessions pf)"
  "preserves (\<lambda>s. J' (globals s) (events s)) (ClearAbandonedNonSharedSessions pf)"
  "preserves (\<lambda>s. J'' (fsys s)) (ClearAbandonedNonSharedSessions pf)"
  "preserves (\<lambda>s. J (applets s)) (ClearAppletSharedSession pf app)"
  "preserves (\<lambda>s. J' (globals s) (events s)) (ClearAppletSharedSession pf app)"
  "preserves (\<lambda>s. J'' (fsys s)) (ClearAppletSharedSession pf app)"
  "preserves (\<lambda>s. J (applets s)) (TryRemoveUnusedSharedSession pf allow)"
  "preserves (\<lambda>s. J' (globals s) (events s)) (TryRemoveUnusedSharedSession pf allow)"
  "preserves (\<lambda>s. J'' (fsys s)) (TryRemoveUnusedSharedSession pf allow)"
  unfolding clear_dead_owners_def ClearAbandonedNonSharedSessions_def ClearAppletSharedSession_def
    TryRemoveUnusedSharedSession_def
  by (intro pres_intros)+

text \<open>A session that has an owner, or is shared, is not touched by the clean-up.\<close>

lemma nonshared_cleanup_safe:
  assumes "sm_inv (sessions s)" "session k (sessions s) = Some r"
    "ownersList r \<noteq> [] \<or> sharedSession (sessionFlags r)"
    "run_state (ClearAbandonedNonSharedSessions pf) s = (b, s')"
  shows "session k (sessions s') = Some r"
proof -
  have "k \<notin> set (abandonedNonShared (sessions s))"
    using assms by (auto simp: abandonedNonShared_iff sm_inv_table)
  from preservesD [OF close_all_other [OF this] assms(2)] assms(4) show ?thesis
    by (auto simp: ClearAbandonedNonSharedSessions_def)
qed

text \<open>A plugin that always reports the session as gone when asked to close it.\<close>

definition closes_sessions :: "'w platform \<Rightarrow> bool" where
  "closes_sessions pf \<longleftrightarrow> (\<forall>h w. session_gone (fst (JHI_Plugin_CloseSession pf h w)))"

lemma close_internal_gone:
  assumes "sm_inv (sessions s)" "plugin_registered (globals s)" "plugin_table (globals s)"
    "closes_sessions pf" "run_state (jhis_close_session pf sid None False True) s = (r, s')"
  shows "session sid (sessions s') = None"
proof (cases "session sid (sessions s)")
  case None
  with assms(5) show ?thesis by (simp add: jhis_close_session_def getSessionInfo_def)
next
  case (Some rec)
  obtain c w where c: "JHI_Plugin_CloseSession pf (vmSessionHandle rec) (world s) = (c, w)"
    by (cases "JHI_Plugin_CloseSession pf (vmSessionHandle rec) (world s)")
  then have "session_gone c" using assms(4) by (metis closes_sessions_def fst_conv)
  with run_close_internal [OF assms(1) Some assms(2,3) c] assms(5) show ?thesis by auto
qed

lemma close_all_gone:
  assumes "closes_sessions pf"
  shows "sm_inv (sessions s) \<Longrightarrow> plugin_registered (globals s) \<Longrightarrow> plugin_table (globals s) \<Longrightarrow>
    run_state (close_all pf removed sids) s = (b, s') \<Longrightarrow> k \<in> set sids \<Longrightarrow>
    session k (sessions s') = None"
proof (induction sids arbitrary: removed s)
  case Nil
  then show ?case by simp
next
  case (Cons sid sids)
  obtain r s1 where r: "run_state (jhis_close_session pf sid None False True) s = (r, s1)"
    by (cases "run_state (jhis_close_session pf sid None False True) s")
  have rest: "run_state (close_all pf (removed \<or> r = JHI_SUCCESS) sids) s1 = (b, s')"
    using Cons.prems(4) r by simp
  have s1: "sm_inv (sessions s1)" "plugin_registered (globals s1)" "plugin_table (globals s1)"
    using preservesD [OF inv.close_pres Cons.prems(1) r]
      preservesD [OF frame_close(2) [where J' = "\<lambda>g e. plugin_registered g"] Cons.prems(2) r]
      preservesD [OF frame_close(2) [where J' = "\<lambda>g e. plugin_table g"] Cons.prems(3) r] .
  show ?case
  proof (cases "k \<in> set sids")
    case True
    with Cons.IH [OF s1 rest] show ?thesis .
  next
    case False
    with Cons.prems(5) have "session k (sessions s1) = None"
      using close_internal_gone [OF Cons.prems(1-3) assms r] by simp
    from preservesD [OF close_all_other [OF False] this rest] show ?thesis .
  qed
qed

section \<open>Properties\<close>

lemma sample_inv: "sm_inv (sessions (sample_with [(1, 0, [2])]))"
  "sm_inv (sessions (sample_with [(1, 0, [2]), (2, 1, [3]), (3, 0, [5])]))"
  "sm_inv (sessions (sample_with [(1, 1, [2]), (2, 1, [])]))"
  by code_simp+

lemma sample_plugin [simp]:
  "plugin_registered (globals (sample_with specs))" "plugin_table (globals (sample_with specs))"
  by (simp_all add: sample_with_def sample_state_def sample_globals_def)

lemma sample_closes: "closes_sessions sample_platform"
  by (simp add: closes_sessions_def sample_platform_def session_gone_def)

text \<open>
  C24: a process that is not an owner of a session cannot close it, forced or not:
  \<^verbatim>\<open>jhis_close_session\<close> returns \<^verbatim>\<open>JHI_INTERNAL_ERROR\<close> and nothing in the service or the firmware changes.
\<close>

theorem close_by_stranger_rejected:
  assumes "sm_inv (sessions s)" "session sid (sessions s) = Some r"
    "\<not> list_ex (\<lambda>q. same_process q p) (ownersList r)"
  shows "run_state (jhis_close_session pf sid (Some p) force removeFromVM) s = (JHI_INTERNAL_ERROR, s)"
  using assms(2,3) active_info [OF assms(1,2)]
  by (simp add: jhis_close_session_def release_owner_def isSessionOwnerValid_def)

theorem close_by_stranger_rejected_witness:
  "run_state (jhis_close_session sample_platform (sample_id 1) (Some (sample_process 4)) True True)
     (sample_with [(1, 0, [2])]) = (JHI_INTERNAL_ERROR, sample_with [(1, 0, [2])])"
proof (rule close_by_stranger_rejected [OF sample_inv(1)])
  show "session (sample_id 1) (sessions (sample_with [(1, 0, [2])])) = Some (sample_session 0 [2] 1)"
    by code_simp
  show "\<not> list_ex (\<lambda>q. same_process q (sample_process 4)) (ownersList (sample_session 0 [2] 1))"
    by code_simp
qed

text \<open>
  An owner that closes a shared session without force only gives up its ownership: the call
  succeeds, the firmware is not asked, the session stays in the table with that one owner entry
  removed, and every other session is as it was.
\<close>

theorem close_shared_releases_owner:
  assumes "sm_inv (sessions s)" "session sid (sessions s) = Some r" "sharedSession (sessionFlags r)"
    "erase_owner p (ownersList r) = Some owners"
  shows "\<exists>r' m'. run_state (jhis_close_session pf sid (Some p) False removeFromVM) s =
      (JHI_SUCCESS, s\<lparr>sessions := m'\<rparr>)
    \<and> session sid m' = Some r' \<and> ownersList r' = owners \<and> appId r' = appId r
    \<and> sessionFlags r' = sessionFlags r \<and> vmSessionHandle r' = vmSessionHandle r
    \<and> (\<forall>k. k \<noteq> sid \<longrightarrow> session k m' = session k (sessions s))"
proof -
  have "list_ex (\<lambda>q. same_process q p) (ownersList r)"
    by (rule erase_owner_member [OF assms(4)])
  then have run: "run_state (jhis_close_session pf sid (Some p) False removeFromVM) s =
      (JHI_SUCCESS, s\<lparr>sessions := snd (removeSessionOwner sid p (sessions s))\<rparr>)"
    using assms active_info [OF assms(1,2)]
    by (simp add: jhis_close_session_def release_owner_def isSessionOwnerValid_def)
  show ?thesis
    by (rule exI [of _ "fst (updateSessionLastUsage (r\<lparr>ownersList := owners\<rparr>)
            (sharedSessionLRUCounter (sessions s)))"],
        rule exI [of _ "snd (removeSessionOwner sid p (sessions s))"], intro conjI)
      (rule run, simp_all add: assms)
qed

theorem close_shared_releases_owner_witness:
  "\<exists>r' m'. run_state (jhis_close_session sample_platform (sample_id 1) (Some (sample_process 2)) False True)
       (sample_with [(1, 1, [2]), (2, 1, [])]) =
     (JHI_SUCCESS, (sample_with [(1, 1, [2]), (2, 1, [])])\<lparr>sessions := m'\<rparr>)
     \<and> session (sample_id 1) m' = Some r' \<and> ownersList r' = []"
proof -
  have "session (sample_id 1) (sessions (sample_with [(1, 1, [2]), (2, 1, [])])) = Some (sample_session 1 [2] 1)"
    "sharedSession (sessionFlags (sample_session 1 [2] 1))"
    "erase_owner (sample_process 2) (ownersList (sample_session 1 [2] 1)) = Some []"
    by code_simp+
  from close_shared_releases_owner [OF sample_inv(3) this] show ?thesis by blast
qed

text \<open>
  C21: the only owner of a session that is not shared (or the service itself) closes it: the firmware
  is asked once, its answer is the result, and the record is dropped exactly when the answer
  says that the session is gone (success, fatal, timeout or invalid handle); on any other answer the
  table is as it was, the session's lock included.
\<close>

theorem close_drops_record_iff_gone:
  assumes "sm_inv (sessions s)" "session sid (sessions s) = Some rec" "removes processInfo rec"
    "plugin_registered (globals s)" "plugin_table (globals s)"
    "JHI_Plugin_CloseSession pf (vmSessionHandle rec) (world s) = (r, w)"
  shows "\<exists>m'. run_state (jhis_close_session pf sid processInfo False True) s =
      (r, s\<lparr>world := w, sessions := m'\<rparr>)
    \<and> (r \<in> {JHI_SUCCESS, JHI_APPLET_FATAL, JHI_APPLET_TIMEOUT, JHI_INVALID_SESSION_HANDLE} \<longrightarrow>
         session sid m' = None \<and> (\<forall>k. k \<noteq> sid \<longrightarrow> session k m' = session k (sessions s)))
    \<and> (r \<notin> {JHI_SUCCESS, JHI_APPLET_FATAL, JHI_APPLET_TIMEOUT, JHI_INVALID_SESSION_HANDLE} \<longrightarrow> m' = sessions s)"
  unfolding run_close_removal [OF assms] session_gone_def
  by (auto intro: exI [of _ "if session_gone r then snd (remove sid (sessions s)) else sessions s"])

theorem close_drops_record_iff_gone_witness:
  "\<exists>m'. run_state (jhis_close_session sample_platform (sample_id 1) (Some (sample_process 2)) False True)
       (sample_with [(1, 0, [2])]) = (JHI_SUCCESS, (sample_with [(1, 0, [2])])\<lparr>world := 1, sessions := m'\<rparr>)
     \<and> session (sample_id 1) m' = None"
proof -
  have "session (sample_id 1) (sessions (sample_with [(1, 0, [2])])) = Some (sample_session 0 [2] 1)"
    "removes (Some (sample_process 2)) (sample_session 0 [2] 1)"
    "JHI_Plugin_CloseSession sample_platform (vmSessionHandle (sample_session 0 [2] 1))
       (world (sample_with [(1, 0, [2])])) = (JHI_SUCCESS, 1)"
    by code_simp+
  with close_drops_record_iff_gone [OF sample_inv(1) this(1,2) sample_plugin this(3)] show ?thesis
    by blast
qed

text \<open>
  Whatever the caller, the mode and the firmware's answer, closing a session leaves every other
  session, the applet table, the settings and the files alone.
\<close>

theorem close_touches_one_session:
  assumes "run_state (jhis_close_session pf sid processInfo force removeFromVM) s = (r, s')" "k \<noteq> sid"
  shows "session k (sessions s') = session k (sessions s) \<and> applets s' = applets s
    \<and> globals s' = globals s \<and> fsys s' = fsys s"
  using preservesD [OF close_other_session [OF assms(2), of "session k (sessions s)"] _ assms(1)]
    preservesD [OF frame_close(1) [where J = "\<lambda>a. a = applets s"] _ assms(1)]
    preservesD [OF frame_close(2) [where J' = "\<lambda>a e. a = globals s"] _ assms(1)]
    preservesD [OF frame_close(3) [where J'' = "\<lambda>a. a = fsys s"] _ assms(1)]
  by blast

theorem close_touches_one_session_witness:
  "session (sample_id 2) (sessions (snd (run_state
      (jhis_close_session sample_platform (sample_id 1) None True True)
      (sample_with [(1, 0, [2]), (2, 1, [3]), (3, 0, [5])])))) = Some (sample_session 1 [3] 2)"
proof -
  have "sample_id 2 \<noteq> sample_id 1"
    "session (sample_id 2) (sessions (sample_with [(1, 0, [2]), (2, 1, [3]), (3, 0, [5])])) =
      Some (sample_session 1 [3] 2)"
    by code_simp+
  with close_touches_one_session [OF surjective_pairing this(1)] show ?thesis by metis
qed



text \<open>
  C25: when room is needed, the only session that may be lost is the least recently used shared session
  without owners: a session that has owners, is not shared, or has a candidate released before
  it, is still in the table, unchanged.
\<close>

theorem eviction_spares_used_sessions:
  assumes "sm_inv (sessions s)" "run_state (TryRemoveUnusedSharedSession pf allow) s = (b, s')"
    "session k (sessions s) = Some r"
    "ownersList r \<noteq> [] \<or> \<not> sharedSession (sessionFlags r)
     \<or> (\<exists>j \<in> set (unusedShared allow (sessions s)). last_used (sessions s) j < lastUsedTime r)"
  shows "session k (sessions s') = Some r"
proof (cases "leastRecentlyUsed allow (sessions s)")
  case None
  with assms(2,3) show ?thesis by (auto simp: TryRemoveUnusedSharedSession_def)
next
  case (Some v)
  note v = leastRecentlyUsed_Some [OF sm_inv_table [OF assms(1)] Some]
  have "k \<noteq> v"
  proof
    assume "k = v"
    with v(1) assms(1,3,4) obtain j where j: "j \<in> set (unusedShared allow (sessions s))"
      "last_used (sessions s) j < lastUsedTime r"
      by (auto simp: unusedShared_iff sm_inv_table)
    with v(2) \<open>k = v\<close> assms(3) show False
      by (metis last_used_def leD option.simps(5))
  qed
  obtain c s1 where c: "run_state (jhis_close_session pf v None False True) s = (c, s1)"
    by (cases "run_state (jhis_close_session pf v None False True) s")
  with assms(2) Some have "s' = s1" by (simp add: TryRemoveUnusedSharedSession_def)
  with preservesD [OF close_other_session [OF \<open>k \<noteq> v\<close>] assms(3) c] show ?thesis by simp
qed

theorem eviction_spares_used_sessions_witness:
  "session (sample_id 1) (sessions (snd (run_state (TryRemoveUnusedSharedSession sample_platform True)
      (sample_with [(1, 1, [2]), (2, 1, [])])))) = Some (sample_session 1 [2] 1)
   \<and> session (sample_id 2) (sessions (snd (run_state (TryRemoveUnusedSharedSession sample_platform True)
      (sample_with [(1, 1, [2]), (2, 1, [])])))) = None"
proof -
  have "session (sample_id 1) (sessions (sample_with [(1, 1, [2]), (2, 1, [])])) = Some (sample_session 1 [2] 1)"
    "ownersList (sample_session 1 [2] 1) \<noteq> []"
    by code_simp+
  then have "session (sample_id 1) (sessions (snd (run_state (TryRemoveUnusedSharedSession sample_platform True)
      (sample_with [(1, 1, [2]), (2, 1, [])])))) = Some (sample_session 1 [2] 1)"
    by (intro eviction_spares_used_sessions [OF sample_inv(3) surjective_pairing] disjI1)
  moreover have "session (sample_id 2) (sessions (snd (run_state (TryRemoveUnusedSharedSession sample_platform True)
      (sample_with [(1, 1, [2]), (2, 1, [])])))) = None"
    by code_simp
  ultimately show ?thesis by simp
qed

end
