(* ===== verification/Applets_Manager.thy ===== *)
theory Applets_Manager
  imports Session_Service
begin

text \<open>
  The applet table and the applet repository, \<^verbatim>\<open>service/AppletsManager.cpp\<close>: the table of known
  applets, the files \<^verbatim>\<open><UUID>.dalp\<close> and \<^verbatim>\<open><UUID>.acp\<close> of the repository folder, and the two-phase
  installation, in which a package is first copied to a \<^verbatim>\<open>PENDING-\<close> file and renamed when the
  firmware has accepted it. The methods that unload applets or ask the firmware for properties
  are with the handlers they call.
\<close>

section \<open>Names\<close>

definition dalpFileExt :: string where "dalpFileExt = ''.dalp''"
definition acpFileExt :: string where "acpFileExt = ''.acp''"
definition pendingHeader :: string where "pendingHeader = ''/PENDING-''"

definition file_ext :: "bool \<Rightarrow> string" where
  "file_ext isAcp = (if isAcp then acpFileExt else dalpFileExt)"

definition getPendingFileName :: "GlobalsManager \<Rightarrow> string \<Rightarrow> bool \<Rightarrow> string" where
  "getPendingFileName g appletId isAcp = applets_folder g @ pendingHeader @ appletId @ file_ext isAcp"

definition getFileName :: "GlobalsManager \<Rightarrow> string \<Rightarrow> bool \<Rightarrow> string" where
  "getFileName g appletId isAcp = applets_folder g @ ''/'' @ appletId @ file_ext isAcp"

definition compareFileExtension :: "string \<Rightarrow> string \<Rightarrow> bool" where
  "compareFileExtension file extention =
     (case rfind (CHR ''.'') file of
        None \<Rightarrow> False
      | Some index \<Rightarrow>
          let ext = drop index file in
          length ext = length extention \<and> list_all2 (\<lambda>a b. toupper_c a = toupper_c b) extention ext)"

section \<open>The table\<close>

definition isAppletRecordPresent :: "string \<Rightarrow> applet_table \<Rightarrow> bool" where
  "isAppletRecordPresent appletId t = (smap_find t appletId \<noteq> None)"

definition addAppRecordEntry :: "string \<Rightarrow> AppletRecord \<Rightarrow> applet_table \<Rightarrow> applet_table" where
  "addAppRecordEntry appletId rec t = smap_insert appletId rec t"

definition applet_remove :: "string \<Rightarrow> applet_table \<Rightarrow> bool \<times> applet_table" where
  "applet_remove appletId t = (smap_find t appletId \<noteq> None, smap_erase appletId t)"

definition applet_get :: "string \<Rightarrow> applet_table \<Rightarrow> AppletRecord option" where
  "applet_get appletId t = smap_find t appletId"

definition getAppletState :: "string \<Rightarrow> applet_table \<Rightarrow> JHI_APPLET_STATUS" where
  "getAppletState appletId t =
     (case smap_find t appletId of None \<Rightarrow> NOT_INSTALLED | Some r \<Rightarrow> status r)"

definition resetAppletTable :: "applet_table \<Rightarrow> applet_table" where
  "resetAppletTable t = []"

definition getLoadedAppletsList :: "applet_table \<Rightarrow> string list" where
  "getLoadedAppletsList t = [k. (k, r) \<leftarrow> t, status r = INSTALLED]"

text \<open>\<^verbatim>\<open>_appletTable[id]\<close> creates a record of zeros when there is none.\<close>

definition zero_record :: AppletRecord where
  "zero_record = \<lparr> status = NOT_INSTALLED, sharedSessionSupport = False,
     sharedSessionSupportRetrievedFromFW = False \<rparr>"

definition applet_at :: "string \<Rightarrow> applet_table \<Rightarrow> AppletRecord" where
  "applet_at appletId t = (case smap_find t appletId of None \<Rightarrow> zero_record | Some r \<Rightarrow> r)"

definition pending_record :: AppletRecord where
  "pending_record = zero_record\<lparr>status := PENDING_INSTALL\<rparr>"

definition installed_record :: AppletRecord where
  "installed_record = zero_record\<lparr>status := INSTALLED\<rparr>"

section \<open>Reading packages\<close>

text \<open>
  \<^verbatim>\<open>readFileAsBlob\<close>: the size test assigns a code that is overwritten, so it is a branch with no
  effect. Building the vector may fail to allocate, which the handler catches.
\<close>

definition readFileAsBlob :: "string \<Rightarrow> ('w, JHI_RET \<times> byte list list) service" where
  "readFileAsBlob filepath = do {
     is \<leftarrow> on_fsys (fopen_rb filepath);
     case is of
       None \<Rightarrow> ret (JHI_INTERNAL_ERROR, [])
     | Some content \<Rightarrow> do {
         ok \<leftarrow> alloc;
         if \<not> ok then ret (JHI_INVALID_PARAMS, []) else ret (JHI_SUCCESS, [content]) } }"

definition getPlatformApiLevel :: "'w platform \<Rightarrow> ('w, int) service" where
  "getPlatformApiLevel pf = do {
     np \<leftarrow> no_plugin;
     if np then ret (-1)
     else do {
       r \<leftarrow> on_world (JHI_Plugin_QueryTeeMetadata pf);
       ret (if fst r = TEE_STATUS_SUCCESS then sint (api_level (snd r)) else -1) } }"

definition fw_version_string :: "VERSION \<Rightarrow> string" where
  "fw_version_string v =
     decimal (unat (Major v)) @ ''.'' @ decimal (unat (Minor v)) @ ''.'' @ decimal (unat (Hotfix v))"

definition getAppletBlobs :: "'w platform \<Rightarrow> string \<Rightarrow> bool \<Rightarrow> ('w, JHI_RET \<times> byte list list) service" where
  "getAppletBlobs pf filepath isAcp =
     (if isAcp then readFileAsBlob filepath
      else if compareFileExtension filepath dalpFileExt then do {
        doc \<leftarrow> on_fsys (fopen_rb filepath);
        case doc of
          None \<Rightarrow> ret (JHI_INVALID_PACKAGE_FORMAT, [])
        | Some content \<Rightarrow>
            let reader = xml_document pf content in
            if \<not> xml_valid reader then ret (JHI_INVALID_PACKAGE_FORMAT, [])
            else do {
              g \<leftarrow> gets globals;
              r \<leftarrow> reader_getAppletBlobs (getPlatformApiLevel pf) g reader (fw_version_string (fwVersion g));
              ret (if \<not> fst r then (JHI_READ_FROM_FILE_FAILED, snd r)
                   else if snd r = [] then (JHI_INSTALL_FAILED, [])
                   else (JHI_SUCCESS, snd r)) } }
      else ret (JHI_INVALID_FILE_EXTENSION, []))"

section \<open>Installing\<close>

text \<open>The clean-up of both preparations: delete the copy in the repository.\<close>

definition drop_file :: "string \<Rightarrow> ('w, unit) service" where
  "drop_file path = do {
     present \<leftarrow> on_fsys (access_ok path);
     if present then do { on_fsys (remove_ok path); ret () } else ret () }"

definition mark_pending :: "string \<Rightarrow> ('w, unit) service" where
  "mark_pending appletId = do {
     st \<leftarrow> gets (\<lambda>s. getAppletState appletId (applets s));
     if st = NOT_INSTALLED then set_applets (addAppRecordEntry appletId pending_record) else ret () }"

definition prepareInstallFromFile :: "'w platform \<Rightarrow> string \<Rightarrow> string \<Rightarrow> bool \<Rightarrow>
    ('w, JHI_RET \<times> byte list list) service" where
  "prepareInstallFromFile pf file appletId isAcp = do {
     g \<leftarrow> gets globals;
     let DstFile = getPendingFileName g appletId isAcp;
     copy_status \<leftarrow> on_fsys (JhiUtilCopyFile (Some DstFile) (Some file));
     r \<leftarrow> (if copy_status \<noteq> JHI_SUCCESS then ret (JHI_FILE_ERROR_COPY, [])
          else do {
            chmod \<leftarrow> on_fsys next_io;
            if chmod \<noteq> Io_ok then ret (JHI_FILE_ERROR_COPY, [])
            else do {
              b \<leftarrow> getAppletBlobs pf DstFile isAcp;
              if fst b \<noteq> JHI_SUCCESS then ret b
              else do { mark_pending appletId; ret b } } });
     if fst r \<noteq> JHI_SUCCESS then do { drop_file DstFile; ret r } else ret r }"

definition prepareInstallFromBuffer :: "byte list \<Rightarrow> string \<Rightarrow> ('w, JHI_RET) service" where
  "prepareInstallFromBuffer appletBlob appletId = do {
     g \<leftarrow> gets globals;
     let DstFile = getPendingFileName g appletId True;
     created \<leftarrow> on_fsys (JhiUtilCreateFile_fromBuff (Some DstFile) (Some appletBlob));
     r \<leftarrow> (if created \<noteq> JHI_SUCCESS then ret JHI_FILE_ERROR_COPY
          else do {
            present \<leftarrow> on_fsys (access_ok DstFile);
            if \<not> present then ret JHI_FILE_ERROR_COPY
            else do {
              chmod \<leftarrow> on_fsys next_io;
              if chmod \<noteq> Io_ok then ret JHI_FILE_ERROR_COPY
              else do { mark_pending appletId; ret JHI_SUCCESS } } });
     if r \<noteq> JHI_SUCCESS then do { drop_file DstFile; ret r } else ret r }"

definition syncAppletRepoToDisk :: "('w, bool) service" where
  "syncAppletRepoToDisk = do {
     g \<leftarrow> gets globals;
     on_fsys (JhiUtilSyncFile (applets_folder g)) }"

text \<open>\<^verbatim>\<open>syncAppletToDisk\<close>: the file name is that of the \<^verbatim>\<open>.dalp\<close>, the default of \<^verbatim>\<open>getFileName\<close>.\<close>

definition syncAppletToDisk :: "string \<Rightarrow> ('w, bool) service" where
  "syncAppletToDisk appletId = do {
     g \<leftarrow> gets globals;
     ok \<leftarrow> on_fsys (JhiUtilSyncFile (getFileName g appletId False));
     if \<not> ok then ret False else syncAppletRepoToDisk }"

definition completeInstall :: "string \<Rightarrow> bool \<Rightarrow> ('w, bool) service" where
  "completeInstall appletId isAcp = do {
     g \<leftarrow> gets globals;
     on_fsys (remove_ok (getFileName g appletId isAcp));
     on_fsys (remove_ok (getFileName g appletId (\<not> isAcp)));
     renamed \<leftarrow> on_fsys (rename_ok (getPendingFileName g appletId isAcp) (getFileName g appletId isAcp));
     syncAppletToDisk appletId;
     if \<not> renamed then ret False
     else do {
       set_applets (\<lambda>t. smap_put appletId ((applet_at appletId t)\<lparr>status := INSTALLED\<rparr>) t);
       ret True } }"

text \<open>\<^verbatim>\<open>appletExistInRepository\<close>: the file name and whether it is an ACP.\<close>

definition appletExistInRepository :: "string \<Rightarrow> ('w, (string \<times> bool) option) service" where
  "appletExistInRepository appletId = do {
     g \<leftarrow> gets globals;
     dalp \<leftarrow> on_fsys (access_ok (getFileName g appletId False));
     if dalp then ret (Some (getFileName g appletId False, False))
     else do {
       acp \<leftarrow> on_fsys (access_ok (getFileName g appletId True));
       if acp then ret (Some (getFileName g appletId True, True)) else ret None } }"

section \<open>Finding the applets of the repository\<close>

text \<open>\<^verbatim>\<open>std::string::find\<close>: the index of the first occurrence.\<close>

fun find_sub :: "string \<Rightarrow> string \<Rightarrow> nat option" where
  "find_sub pat [] = (if pat = [] then Some 0 else None)"
| "find_sub pat (c # cs) =
     (if take (length pat) (c # cs) = pat then Some 0 else map_option Suc (find_sub pat cs))"

text \<open>The names \<^verbatim>\<open>readdir\<close> returns for a directory given with its trailing separator.\<close>

definition dir_entries :: "string \<Rightarrow> file_system \<Rightarrow> string list" where
  "dir_entries dir f =
     [drop (length dir) p. p \<leftarrow> map fst (files f) @ folders f,
        take (length dir) p = dir \<and> CHR ''/'' \<notin> set (drop (length dir) p)]"

definition repo_uuid :: "string \<Rightarrow> string option" where
  "repo_uuid filename =
     (if find_sub dalpFileExt filename = Some LEN_APP_ID then Some (take LEN_APP_ID filename)
      else if find_sub acpFileExt filename = Some LEN_APP_ID then Some (take LEN_APP_ID filename)
      else None)"

text \<open>The loop over the entries; one that cannot be examined with \<^verbatim>\<open>stat\<close> is skipped.\<close>

fun scan_repository :: "string list \<Rightarrow> ('w, string list) service" where
  "scan_repository [] = ret []"
| "scan_repository (name # names) = do {
     st \<leftarrow> on_fsys next_io;
     rest \<leftarrow> scan_repository names;
     ret (case (if st \<noteq> Io_ok then None else repo_uuid name) of
            None \<Rightarrow> rest | Some uuid \<Rightarrow> uuid # rest) }"

definition register_uuid :: "string \<Rightarrow> ('w, unit) service" where
  "register_uuid uuid =
     (if uuid = SPOOLER_APPLET_UUID then ret ()
      else set_applets (addAppRecordEntry uuid installed_record))"

definition updateAppletsList :: "('w, unit) service" where
  "updateAppletsList = do {
     g \<leftarrow> gets globals;
     opened \<leftarrow> on_fsys (access_ok (applets_folder g));
     names \<leftarrow> gets (\<lambda>s. dir_entries (applets_folder g @ ''/'') (fsys s));
     uuidsInRepo \<leftarrow> (if opened then scan_repository names else ret []);
     for_each register_uuid uuidsInRepo }"

section \<open>Names are distinct\<close>

lemma getFileName_ext: "getFileName g i True \<noteq> getFileName g i False"
  by (simp add: getFileName_def file_ext_def dalpFileExt_def acpFileExt_def)

lemma pending_not_file:
  "length i = length i' \<Longrightarrow> getPendingFileName g i a \<noteq> getFileName g i' b"
proof -
  assume "length i = length i'"
  then have "length (getPendingFileName g i a) \<noteq> length (getFileName g i' b)"
    by (simp add: getPendingFileName_def getFileName_def pendingHeader_def file_ext_def
        dalpFileExt_def acpFileExt_def)
  then show ?thesis by metis
qed

lemma getFileName_inj:
  "length i = length i' \<Longrightarrow> getFileName g i a = getFileName g i' b \<longleftrightarrow> i = i' \<and> a = b"
  by (auto simp: getFileName_def file_ext_def dalpFileExt_def acpFileExt_def split: if_splits)

lemma rfind_append: "c \<in> set t \<Longrightarrow> rfind c (s @ t) = map_option ((+) (length s)) (rfind c t)"
proof (induction s)
  case Nil
  then show ?case by (simp add: option.map_id0 [unfolded id_def])
next
  case (Cons x s)
  then have "rfind c t \<noteq> None" by (simp add: rfind_None)
  with Cons show ?case by (auto split: option.splits)
qed

lemma compareFileExtension_append:
  "compareFileExtension (s @ file_ext isAcp) (file_ext isAcp)"
  by (simp add: compareFileExtension_def file_ext_def dalpFileExt_def acpFileExt_def rfind_append)

section \<open>The table's invariant\<close>

definition applets_inv :: "applet_table \<Rightarrow> bool" where
  "applets_inv t \<longleftrightarrow> smap_inv t \<and> (\<forall>(k, r) \<in> set t. status r = PENDING_INSTALL \<or> status r = INSTALLED)"

lemma applets_inv_init [simp]: "applets_inv []"
  by (simp add: applets_inv_def)

lemma applets_inv_iff:
  "applets_inv t \<longleftrightarrow> smap_inv t \<and>
     (\<forall>k r. smap_find t k = Some r \<longrightarrow> status r = PENDING_INSTALL \<or> status r = INSTALLED)"
  unfolding applets_inv_def Ball_def split_paired_All prod.case by (metis tab.entries_find)

lemma applets_inv_insert:
  "applets_inv t \<Longrightarrow> status r = PENDING_INSTALL \<or> status r = INSTALLED \<Longrightarrow>
   applets_inv (addAppRecordEntry k r t)"
  by (auto simp: applets_inv_iff addAppRecordEntry_def tab.inv_insert tab.find_insert)

lemma applets_inv_put:
  "applets_inv t \<Longrightarrow> status r = PENDING_INSTALL \<or> status r = INSTALLED \<Longrightarrow> applets_inv (smap_put k r t)"
  by (auto simp: applets_inv_iff tab.inv_put tab.find_put)

lemma applets_inv_erase: "applets_inv t \<Longrightarrow> applets_inv (snd (applet_remove k t))"
  by (auto simp: applets_inv_iff applet_remove_def tab.inv_erase tab.find_erase)

lemma applets_inv_state: "applets_inv t \<Longrightarrow> getAppletState k t \<noteq> MAX_APP_STATES"
  by (force simp: applets_inv_iff getAppletState_def split: option.splits)

lemma getAppletState_none: "applets_inv t \<Longrightarrow> getAppletState k t = NOT_INSTALLED \<longleftrightarrow> smap_find t k = None"
  by (force simp: applets_inv_iff getAppletState_def split: option.splits)

lemma status_records [simp]:
  "status pending_record = PENDING_INSTALL" "status installed_record = INSTALLED"
  by (simp_all add: pending_record_def installed_record_def)

section \<open>Frames\<close>

lemma sessions_applet_ops [pres_intros]:
  "preserves (\<lambda>s. J (sessions s)) (mark_pending k)"
  "preserves (\<lambda>s. J (sessions s)) (drop_file path)"
  "preserves (\<lambda>s. J (sessions s)) (readFileAsBlob path)"
  "preserves (\<lambda>s. J (sessions s)) (getPlatformApiLevel pf)"
  "preserves (\<lambda>s. J (sessions s)) syncAppletRepoToDisk"
  "preserves (\<lambda>s. J (sessions s)) (appletExistInRepository k)"
  unfolding mark_pending_def drop_file_def readFileAsBlob_def getPlatformApiLevel_def
    syncAppletRepoToDisk_def appletExistInRepository_def
  by (intro pres_intros)+

lemma globals_applet_ops [pres_intros]:
  "preserves (\<lambda>s. J (globals s) (events s)) (mark_pending k)"
  "preserves (\<lambda>s. J (globals s) (events s)) (drop_file path)"
  "preserves (\<lambda>s. J (globals s) (events s)) (readFileAsBlob path)"
  "preserves (\<lambda>s. J (globals s) (events s)) (getPlatformApiLevel pf)"
  "preserves (\<lambda>s. J (globals s) (events s)) syncAppletRepoToDisk"
  "preserves (\<lambda>s. J (globals s) (events s)) (appletExistInRepository k)"
  unfolding mark_pending_def drop_file_def readFileAsBlob_def getPlatformApiLevel_def
    syncAppletRepoToDisk_def appletExistInRepository_def
  by (intro pres_intros)+

lemma applets_applet_ops [pres_intros]:
  "preserves (\<lambda>s. J (applets s)) (drop_file path)"
  "preserves (\<lambda>s. J (applets s)) (readFileAsBlob path)"
  "preserves (\<lambda>s. J (applets s)) (getPlatformApiLevel pf)"
  "preserves (\<lambda>s. J (applets s)) syncAppletRepoToDisk"
  "preserves (\<lambda>s. J (applets s)) (appletExistInRepository k)"
  unfolding drop_file_def readFileAsBlob_def getPlatformApiLevel_def
    syncAppletRepoToDisk_def appletExistInRepository_def
  by (intro pres_intros)+

lemma preserves_reader:
  "preserves I api \<Longrightarrow> preserves I (reader_getAppletBlobs api g xml v)"
  unfolding reader_getAppletBlobs_def getSignOnceAppletBlobs_def
  by (auto simp: Let_def intro!: pres_intros split: bool.split)

lemma sessions_install_ops [pres_intros]:
  "preserves (\<lambda>s. J (sessions s)) (getAppletBlobs pf path isAcp)"
  "preserves (\<lambda>s. J (sessions s)) (syncAppletToDisk k)"
  unfolding getAppletBlobs_def syncAppletToDisk_def by (intro pres_intros preserves_reader)+

lemma globals_install_ops [pres_intros]:
  "preserves (\<lambda>s. J (globals s) (events s)) (getAppletBlobs pf path isAcp)"
  "preserves (\<lambda>s. J (globals s) (events s)) (syncAppletToDisk k)"
  unfolding getAppletBlobs_def syncAppletToDisk_def by (intro pres_intros preserves_reader)+

lemma applets_install_ops [pres_intros]:
  "preserves (\<lambda>s. J (applets s)) (getAppletBlobs pf path isAcp)"
  "preserves (\<lambda>s. J (applets s)) (syncAppletToDisk k)"
  unfolding getAppletBlobs_def syncAppletToDisk_def by (intro pres_intros preserves_reader)+

lemma sessions_two_phase [pres_intros]:
  "preserves (\<lambda>s. J (sessions s)) (prepareInstallFromFile pf file k isAcp)"
  "preserves (\<lambda>s. J (sessions s)) (prepareInstallFromBuffer blob k)"
  "preserves (\<lambda>s. J (sessions s)) (completeInstall k isAcp)"
  unfolding prepareInstallFromFile_def prepareInstallFromBuffer_def completeInstall_def
  by (intro pres_intros)+

lemma globals_two_phase [pres_intros]:
  "preserves (\<lambda>s. J (globals s) (events s)) (prepareInstallFromFile pf file k isAcp)"
  "preserves (\<lambda>s. J (globals s) (events s)) (prepareInstallFromBuffer blob k)"
  "preserves (\<lambda>s. J (globals s) (events s)) (completeInstall k isAcp)"
  unfolding prepareInstallFromFile_def prepareInstallFromBuffer_def completeInstall_def
  by (intro pres_intros)+

lemma mark_pending_inv: "preserves (\<lambda>s. applets_inv (applets s)) (mark_pending k)"
  unfolding mark_pending_def
  by (intro pres_intros applets_inv_set_applets applets_inv_insert) simp_all

lemma two_phase_inv:
  "preserves (\<lambda>s. applets_inv (applets s)) (prepareInstallFromFile pf file k isAcp)"
  "preserves (\<lambda>s. applets_inv (applets s)) (prepareInstallFromBuffer blob k)"
  "preserves (\<lambda>s. applets_inv (applets s)) (completeInstall k isAcp)"
  unfolding prepareInstallFromFile_def prepareInstallFromBuffer_def completeInstall_def
  by (intro pres_intros mark_pending_inv applets_inv_set_applets applets_inv_put; simp)+

end
