(* ===== verification/Applet_Service.thy ===== *)
theory Applet_Service
  imports Applets_Manager
begin

text \<open>
  The handlers of the service that work on applets, one definition per C++ function:
  \<^verbatim>\<open>jhis_unload\<close> and \<^verbatim>\<open>jhis_uninstall\<close> (\<^verbatim>\<open>uninstall.cpp\<close>), \<^verbatim>\<open>jhis_install\<close> with its helpers
  (\<^verbatim>\<open>install.cpp\<close>), \<^verbatim>\<open>cmd_pkg_install_jta\<close> and \<^verbatim>\<open>jhis_send_cmd_pkg\<close> (\<^verbatim>\<open>SendCmdPkg.cpp\<close>),
  \<^verbatim>\<open>jhis_get_sessions_count\<close> (\<^verbatim>\<open>getSCount.cpp\<close>), \<^verbatim>\<open>jhis_get_applet_property\<close> (\<^verbatim>\<open>appProp.cpp\<close>),
  \<^verbatim>\<open>jhis_create_session\<close> (\<^verbatim>\<open>createSession.cpp\<close>), \<^verbatim>\<open>jhis_txrx_raw\<close> (\<^verbatim>\<open>sar.cpp\<close>), and the methods of
  \<^verbatim>\<open>AppletsManager\<close> that call them.

  \<^verbatim>\<open>jhis_create_session\<close>, \<^verbatim>\<open>isSharedSessionSupported\<close> and \<^verbatim>\<open>jhis_get_applet_property\<close> call each
  other. The cycle is cut where it is cut at run time: the property handler creates its session
  with flags 0, and with the shared bit clear \<^verbatim>\<open>jhis_create_session\<close> never asks for shared-session
  support. So \<open>create_session_with\<close> takes that question as an argument, the property handler uses
  it with flags 0, and \<open>jhis_create_session\<close> closes the cycle.
\<close>

section \<open>Common steps\<close>

text \<open>
  The clean-up at the start of the install and uninstall handlers: dead owners, abandoned sessions, and
  the applet's own shared session when it has no non-shared ones.
\<close>

definition cleanup_for :: "'w platform \<Rightarrow> string \<Rightarrow> ('w, unit) service" where
  "cleanup_for pf pAppId = do {
     clear_dead_owners pf;
     ClearAbandonedNonSharedSessions pf;
     nonshared \<leftarrow> gets (\<lambda>s. AppletHasNonSharedSessions pAppId (sessions s));
     if \<not> nonshared then do { ClearAppletSharedSession pf pAppId; ret () } else ret () }"

definition valid_app_state :: "JHI_APPLET_STATUS \<Rightarrow> bool" where
  "valid_app_state st = (applet_status_val st \<ge> 0 \<and> applet_status_val st < applet_status_val MAX_APP_STATES)"

definition remove_record :: "string \<Rightarrow> ('w, bool) service" where
  "remove_record pAppId = do {
     present \<leftarrow> gets (\<lambda>s. fst (applet_remove pAppId (applets s)));
     set_applets (\<lambda>t. snd (applet_remove pAppId t));
     ret present }"

section \<open>Unload and uninstall\<close>

text \<open>\<open>pkg\<close> is the security-domain handle and the command package, when there is one.\<close>

definition jhis_unload :: "'w platform \<Rightarrow> string \<Rightarrow> (VM_SESSION_HANDLE \<times> byte list) option \<Rightarrow>
    ('w, JHI_RET) service" where
  "jhis_unload pf pAppId pkg = do {
     v2 \<leftarrow> gets (\<lambda>s. vmType (globals s) = JHI_VM_TYPE_BEIHAI_V2);
     appStatus \<leftarrow> gets (\<lambda>s. getAppletState pAppId (applets s));
     if \<not> valid_app_state appStatus then ret JHI_INTERNAL_ERROR
     else if appStatus = NOT_INSTALLED \<and> \<not> v2 then ret JHI_APPLET_NOT_INSTALLED
     else do {
       cleanup_for pf pAppId;
       live \<leftarrow> gets (\<lambda>s. hasLiveSessions pAppId (sessions s));
       if live then ret JHI_UNINSTALL_FAILURE_SESSIONS_EXISTS
       else do {
         np \<leftarrow> no_plugin;
         if np then ret JHI_NO_CONNECTION_TO_FIRMWARE
         else do {
           r \<leftarrow> on_world (case pkg of
                  None \<Rightarrow> JHI_Plugin_UnloadApplet pf pAppId
                | Some (handle, blob) \<Rightarrow> JHI_Plugin_SendCmdPkg pf handle blob);
           if r \<noteq> JHI_SUCCESS then ret r
           else do {
             removed \<leftarrow> remove_record pAppId;
             ret (if \<not> removed \<and> \<not> v2 then JHI_INTERNAL_ERROR else r) } } } } }"

definition jhis_uninstall :: "'w platform \<Rightarrow> string \<Rightarrow> (VM_SESSION_HANDLE \<times> byte list) option \<Rightarrow>
    ('w, JHI_RET) service" where
  "jhis_uninstall pf pAppId pkg = do {
     r \<leftarrow> jhis_unload pf pAppId pkg;
     if r = JHI_SUCCESS \<or> r = JHI_APPLET_NOT_INSTALLED \<or> r = TEE_STATUS_TA_DOES_NOT_EXIST then do {
       found \<leftarrow> appletExistInRepository pAppId;
       case found of
         None \<Rightarrow> ret r
       | Some (filename, isAcp) \<Rightarrow> do {
           removed \<leftarrow> on_fsys (remove_ok filename);
           if \<not> removed then ret (if r = JHI_SUCCESS then JHI_DELETE_FROM_REPOSITORY_FAILURE else r)
           else do { syncAppletRepoToDisk; ret JHI_SUCCESS } } }
     else ret r }"

text \<open>\<^verbatim>\<open>AppletsManager::UnloadUnusedApplets\<close>\<close>

fun unload_all :: "'w platform \<Rightarrow> bool \<Rightarrow> string list \<Rightarrow> ('w, bool) service" where
  "unload_all pf unloaded [] = ret unloaded"
| "unload_all pf unloaded (app # apps) = do {
     r \<leftarrow> jhis_unload pf app None;
     unload_all pf (unloaded \<or> r = JHI_SUCCESS) apps }"

definition UnloadUnusedApplets :: "'w platform \<Rightarrow> ('w, bool) service" where
  "UnloadUnusedApplets pf = do {
     appidList \<leftarrow> gets (\<lambda>s. getLoadedAppletsList (applets s));
     unload_all pf False appidList }"

section \<open>Install\<close>

text \<open>\<^verbatim>\<open>UnloadAppletWithNoSessions\<close>: the first applet without sessions is the one that is tried.\<close>

definition UnloadAppletWithNoSessions :: "'w platform \<Rightarrow> string list \<Rightarrow> ('w, bool) service" where
  "UnloadAppletWithNoSessions pf loaded_applets = do {
     candidate \<leftarrow> gets (\<lambda>s. find (\<lambda>a. getJHISessionHandles a (sessions s) = []) loaded_applets);
     case candidate of
       None \<Rightarrow> ret False
     | Some app \<Rightarrow> do { r \<leftarrow> jhis_unload pf app None; ret (r = JHI_SUCCESS) } }"

definition TryUnloadUnusedApplet :: "'w platform \<Rightarrow> ('w, bool) service" where
  "TryUnloadUnusedApplet pf = do {
     loaded_applets \<leftarrow> gets (\<lambda>s. getLoadedAppletsList (applets s));
     unloaded \<leftarrow> UnloadAppletWithNoSessions pf loaded_applets;
     if unloaded then ret True
     else do {
       removed \<leftarrow> TryRemoveUnusedSharedSession pf False;
       if removed then UnloadAppletWithNoSessions pf loaded_applets else ret False } }"

text \<open>The first download loop: the blobs in order, until one is accepted or the VM is full.\<close>

fun download_blobs :: "'w platform \<Rightarrow> string \<Rightarrow> JHI_RET \<Rightarrow> byte list list \<Rightarrow> ('w, JHI_RET) service" where
  "download_blobs pf pAppId r [] = ret r"
| "download_blobs pf pAppId r (blob # blobs) = do {
     r1 \<leftarrow> on_world (JHI_Plugin_DownloadApplet pf pAppId blob);
     if r1 = JHI_FILE_IDENTICAL then do {
       on_world (JHI_Plugin_UnloadApplet pf pAppId);
       on_world (JHI_Plugin_DownloadApplet pf pAppId blob) }
     else if r1 = JHI_MAX_INSTALLED_APPLETS_REACHED \<or> r1 = JHI_SUCCESS then ret r1
     else download_blobs pf pAppId r1 blobs }"

text \<open>The second loop, after an applet was unloaded.\<close>

fun redownload_blobs :: "'w platform \<Rightarrow> string \<Rightarrow> JHI_RET \<Rightarrow> byte list list \<Rightarrow> ('w, JHI_RET) service" where
  "redownload_blobs pf pAppId r [] = ret r"
| "redownload_blobs pf pAppId r (blob # blobs) = do {
     r1 \<leftarrow> on_world (JHI_Plugin_DownloadApplet pf pAppId blob);
     if r1 = JHI_SUCCESS then ret r1 else redownload_blobs pf pAppId r1 blobs }"

text \<open>The label \<^verbatim>\<open>errorRemoveApplet\<close>.\<close>

definition error_remove_applet :: "string \<Rightarrow> bool \<Rightarrow> ('w, unit) service" where
  "error_remove_applet pAppId isAcp = do {
     g \<leftarrow> gets globals;
     on_fsys (remove_ok (getPendingFileName g pAppId isAcp));
     st \<leftarrow> gets (\<lambda>s. getAppletState pAppId (applets s));
     if st = PENDING_INSTALL then do { remove_record pAppId; ret () } else ret () }"

definition jhis_install :: "'w platform \<Rightarrow> string \<Rightarrow> string \<Rightarrow> bool \<Rightarrow> bool \<Rightarrow> ('w, JHI_RET) service" where
  "jhis_install pf pAppId pFile visibleApp isAcp = do {
     v1 \<leftarrow> gets (\<lambda>s. vmType (globals s) = JHI_VM_TYPE_BEIHAI_V1);
     cleanup_for pf pAppId;
     np \<leftarrow> no_plugin;
     if np then ret JHI_NO_CONNECTION_TO_FIRMWARE
     else do {
       present \<leftarrow> on_fsys (access_ok pFile);
       if \<not> present then ret JHI_FILE_NOT_FOUND
       else if \<not> compareFileExtension pFile (file_ext isAcp) then ret JHI_INVALID_FILE_EXTENSION
       else do {
         b \<leftarrow> (if visibleApp then prepareInstallFromFile pf pFile pAppId isAcp
              else getAppletBlobs pf pFile isAcp);
         if fst b \<noteq> JHI_SUCCESS then ret (fst b)
         else do {
           r \<leftarrow> download_blobs pf pAppId (fst b) (snd b);
           r \<leftarrow> (if v1 \<and> r = JHI_MAX_INSTALLED_APPLETS_REACHED then do {
                  unloaded \<leftarrow> TryUnloadUnusedApplet pf;
                  if unloaded then redownload_blobs pf pAppId r (snd b) else ret r }
                else ret r);
           if r \<noteq> JHI_SUCCESS then do {
             (if visibleApp then error_remove_applet pAppId isAcp else ret ());
             ret r }
           else if visibleApp then do {
             completed \<leftarrow> completeInstall pAppId isAcp;
             if completed then ret JHI_SUCCESS
             else do {
               on_world (JHI_Plugin_UnloadApplet pf pAppId);
               error_remove_applet pAppId isAcp;
               ret JHI_INTERNAL_ERROR } }
           else ret JHI_SUCCESS } } } }"

section \<open>Command packages\<close>

definition cmd_pkg_install_jta :: "'w platform \<Rightarrow> string \<Rightarrow> VM_SESSION_HANDLE \<Rightarrow> byte list \<Rightarrow>
    ('w, JHI_RET) service" where
  "cmd_pkg_install_jta pf pAppId handle blob = do {
     v1 \<leftarrow> gets (\<lambda>s. vmType (globals s) = JHI_VM_TYPE_BEIHAI_V1);
     cleanup_for pf pAppId;
     np \<leftarrow> no_plugin;
     if np then ret JHI_NO_CONNECTION_TO_FIRMWARE
     else do {
       p \<leftarrow> prepareInstallFromBuffer blob pAppId;
       if p \<noteq> JHI_SUCCESS then ret p
       else do {
         r \<leftarrow> on_world (JHI_Plugin_SendCmdPkg pf handle blob);
         r \<leftarrow> (if r = TEE_STATUS_IDENTICAL_PACKAGE then do {
                on_world (JHI_Plugin_UnloadApplet pf pAppId);
                on_world (JHI_Plugin_SendCmdPkg pf handle blob) }
              else ret r);
         r \<leftarrow> (if v1 \<and> r = JHI_MAX_INSTALLED_APPLETS_REACHED then do {
                unloaded \<leftarrow> TryUnloadUnusedApplet pf;
                if unloaded then on_world (JHI_Plugin_SendCmdPkg pf handle blob) else ret r }
              else ret r);
         if r \<noteq> JHI_SUCCESS then do { error_remove_applet pAppId True; ret r }
         else do {
           completed \<leftarrow> completeInstall pAppId True;
           if completed then ret JHI_SUCCESS
           else do {
             on_world (JHI_Plugin_UnloadApplet pf pAppId);
             error_remove_applet pAppId True;
             ret JHI_INTERNAL_ERROR } } } } }"

datatype AC_CMD_ID =
  AC_CMD_INVALID | AC_INSTALL_SD | AC_UNINSTALL_SD | AC_INSTALL_JTA | AC_UNINSTALL_JTA
  | AC_INSTALL_NTA | AC_UNINSTALL_NTA | AC_UPDATE_SVL | AC_INSTALL_JTA_PROP | AC_CMD_NUM

text \<open>The value of the enum a package type stands for; other values take the default branch.\<close>

definition ac_cmd :: "int \<Rightarrow> AC_CMD_ID" where
  "ac_cmd n =
     (if 0 \<le> n \<and> n \<le> 8
      then [AC_CMD_INVALID, AC_INSTALL_SD, AC_UNINSTALL_SD, AC_INSTALL_JTA, AC_UNINSTALL_JTA,
            AC_INSTALL_NTA, AC_UNINSTALL_NTA, AC_UPDATE_SVL, AC_INSTALL_JTA_PROP] ! nat n
      else AC_CMD_NUM)"

definition jhis_send_cmd_pkg :: "'w platform \<Rightarrow> VM_SESSION_HANDLE \<Rightarrow> byte list \<Rightarrow> ('w, TEE_STATUS) service" where
  "jhis_send_cmd_pkg pf handle blob =
     (if blob = [] then ret TEE_STATUS_INVALID_PARAMS
      else do {
        np \<leftarrow> no_plugin;
        if np then ret TEE_STATUS_NO_FW_CONNECTION
        else do {
          p \<leftarrow> on_world (JHI_Plugin_ParsePackage pf blob);
          if fst p \<noteq> TEE_STATUS_SUCCESS then ret (fst p)
          else if pkg_uuid (snd p) = SPOOLER_APPLET_UUID then ret TEE_STATUS_INVALID_UUID
          else
            let uuid = strToUppercase (pkg_uuid (snd p)) in
            case ac_cmd (packageType (snd p)) of
              AC_INSTALL_SD \<Rightarrow> on_world (JHI_Plugin_SendCmdPkg pf handle blob)
            | AC_UNINSTALL_SD \<Rightarrow> on_world (JHI_Plugin_SendCmdPkg pf handle blob)
            | AC_INSTALL_NTA \<Rightarrow> ret TEE_STATUS_UNSUPPORTED_PLATFORM
            | AC_UNINSTALL_NTA \<Rightarrow> ret TEE_STATUS_UNSUPPORTED_PLATFORM
            | AC_INSTALL_JTA_PROP \<Rightarrow> ret TEE_STATUS_UNSUPPORTED_PLATFORM
            | AC_INSTALL_JTA \<Rightarrow> do {
                r \<leftarrow> cmd_pkg_install_jta pf uuid handle blob; ret (jhiErrorToTeeError r) }
            | AC_UNINSTALL_JTA \<Rightarrow> do {
                r \<leftarrow> jhis_uninstall pf uuid (Some (handle, blob)); ret (jhiErrorToTeeError r) }
            | AC_UPDATE_SVL \<Rightarrow> on_world (JHI_Plugin_SendCmdPkg pf handle blob)
            | _ \<Rightarrow> ret TEE_STATUS_INVALID_PARAMS } })"

section \<open>Session count\<close>

definition jhis_get_sessions_count :: "string \<Rightarrow> bool \<Rightarrow> ('w, JHI_RET \<times> uint32 option) service" where
  "jhis_get_sessions_count pAppId pSessionsCount =
     (if \<not> pSessionsCount then ret (JHI_INVALID_PARAMS, None)
      else do {
        appStatus \<leftarrow> gets (\<lambda>s. getAppletState pAppId (applets s));
        if \<not> valid_app_state appStatus then ret (JHI_INTERNAL_ERROR, None)
        else if appStatus = NOT_INSTALLED then do {
          found \<leftarrow> appletExistInRepository pAppId;
          ret (if found \<noteq> None then JHI_SUCCESS else JHI_APPLET_NOT_INSTALLED, Some 0) }
        else gets (\<lambda>s. (JHI_SUCCESS,
               Some (of_nat (length (getJHISessionHandles pAppId (sessions s)))))) })"

section \<open>Creating a session\<close>

text \<open>The attempt over CSE: the blobs in order, until one is accepted or the VM is full.\<close>

fun create_from_blobs :: "'w platform \<Rightarrow> string \<Rightarrow> JHI_SESSION_ID \<Rightarrow> byte list option \<Rightarrow>
    JHI_RET \<times> VM_SESSION_HANDLE \<Rightarrow> byte list list \<Rightarrow> ('w, JHI_RET \<times> VM_SESSION_HANDLE) service" where
  "create_from_blobs pf pAppId sid initBuffer r [] = ret r"
| "create_from_blobs pf pAppId sid initBuffer r (blob # blobs) = do {
     r1 \<leftarrow> on_world (JHI_Plugin_CreateSession pf pAppId (Some blob) sid initBuffer);
     if fst r1 = JHI_SUCCESS \<or> fst r1 = JHI_MAX_INSTALLED_APPLETS_REACHED
        \<or> fst r1 = JHI_MAX_SESSIONS_REACHED then ret r1
     else create_from_blobs pf pAppId sid initBuffer r1 blobs }"

definition create_in_vm :: "'w platform \<Rightarrow> bool \<Rightarrow> string \<Rightarrow> byte list list \<Rightarrow> JHI_SESSION_ID \<Rightarrow>
    byte list option \<Rightarrow> JHI_RET \<times> VM_SESSION_HANDLE \<Rightarrow> ('w, JHI_RET \<times> VM_SESSION_HANDLE) service" where
  "create_in_vm pf v2 pAppId appletBlobs sid initBuffer r =
     (if v2 then create_from_blobs pf pAppId sid initBuffer r appletBlobs
      else on_world (JHI_Plugin_CreateSession pf pAppId None sid initBuffer))"

text \<open>A new session in the VM and its record: the code and the new identifier.\<close>

definition create_new_session :: "'w platform \<Rightarrow> bool \<Rightarrow> string \<Rightarrow> byte list list \<Rightarrow> JHI_SESSION_FLAGS \<Rightarrow>
    byte list option \<Rightarrow> JHI_PROCESS_INFO \<Rightarrow> ('w, JHI_RET \<times> JHI_SESSION_ID option) service" where
  "create_new_session pf v2 pAppId appletBlobs flags initBuffer processInfo = do {
     newSessionID \<leftarrow> on_world (uuid_generate pf);
     r \<leftarrow> create_in_vm pf v2 pAppId appletBlobs newSessionID initBuffer (JHI_SUCCESS, 0);
     r \<leftarrow> (if fst r = JHI_MAX_SESSIONS_REACHED \<or> fst r = JHI_MAX_INSTALLED_APPLETS_REACHED then do {
            freed \<leftarrow> TryRemoveUnusedSharedSession pf True;
            if freed then create_in_vm pf v2 pAppId appletBlobs newSessionID initBuffer r else ret r }
          else ret r);
     if fst r = JHI_MAX_INSTALLED_APPLETS_REACHED then ret (JHI_MAX_SESSIONS_REACHED, None)
     else if fst r \<noteq> JHI_SUCCESS then ret (fst r, None)
     else do {
       added \<leftarrow> on_sessions (add pAppId (snd r) newSessionID flags (Some processInfo));
       if added then ret (JHI_SUCCESS, Some newSessionID)
       else do {
         on_world (JHI_Plugin_CloseSession pf (snd r));
         ret (JHI_INTERNAL_ERROR, None) } } }"

text \<open>The steps before the session: the applet's package and its installation.\<close>

definition create_prepare :: "'w platform \<Rightarrow> bool \<Rightarrow> string \<Rightarrow> ('w, JHI_RET \<times> byte list list) service" where
  "create_prepare pf v2 pAppId = do {
     found \<leftarrow> appletExistInRepository pAppId;
     case found of
       None \<Rightarrow> ret (JHI_APPLET_NOT_INSTALLED, [])
     | Some (filename, isAcp) \<Rightarrow>
         if v2 then getAppletBlobs pf filename isAcp
         else do {
           appStatus \<leftarrow> gets (\<lambda>s. getAppletState pAppId (applets s));
           if \<not> valid_app_state appStatus then ret (JHI_INTERNAL_ERROR, [])
           else if appStatus = NOT_INSTALLED then do {
             r \<leftarrow> jhis_install pf pAppId filename True isAcp;
             ret (if r \<noteq> JHI_SUCCESS then JHI_APPLET_NOT_INSTALLED else JHI_SUCCESS, []) }
           else ret (JHI_SUCCESS, []) } }"

text \<open>\<^verbatim>\<open>jhis_create_session\<close>, given how shared-session support is found out.\<close>

definition create_session_with :: "(string \<Rightarrow> ('w, bool) service) \<Rightarrow> 'w platform \<Rightarrow> string \<Rightarrow>
    JHI_SESSION_FLAGS \<Rightarrow> byte list option \<Rightarrow> JHI_PROCESS_INFO \<Rightarrow>
    ('w, JHI_RET \<times> JHI_SESSION_ID option) service" where
  "create_session_with shared_supported pf pAppId flags initBuffer processInfo = do {
     np \<leftarrow> no_plugin;
     if np then ret (JHI_NO_CONNECTION_TO_FIRMWARE, None)
     else do {
       v2 \<leftarrow> gets (\<lambda>s. vmType (globals s) = JHI_VM_TYPE_BEIHAI_V2);
       p \<leftarrow> create_prepare pf v2 pAppId;
       if fst p \<noteq> JHI_SUCCESS then ret (fst p, None)
       else do {
         clear_dead_owners pf;
         ClearAbandonedNonSharedSessions pf;
         if sharedSession flags then do {
           supported \<leftarrow> (if v2 then ret True else shared_supported pAppId);
           if \<not> supported then ret (JHI_SHARED_SESSION_NOT_SUPPORTED, None)
           else do {
             existing \<leftarrow> gets (\<lambda>s. getSharedSessionID pAppId (sessions s));
             case existing of
               Some sid \<Rightarrow> do {
                 added \<leftarrow> on_sessions (addSessionOwner sid processInfo);
                 ret (if added then JHI_SUCCESS else JHI_MAX_SHARED_SESSION_REACHED, Some sid) }
             | None \<Rightarrow> create_new_session pf v2 pAppId (snd p) flags initBuffer processInfo } }
         else create_new_session pf v2 pAppId (snd p) flags initBuffer processInfo } } }"

section \<open>Applet properties\<close>

definition supported_properties :: "string list" where
  "supported_properties = [''applet.name'', ''applet.vendor'', ''applet.description'', ''applet.version'',
     ''security.version'', ''applet.flash.quota'', ''applet.debug.enable'',
     ''applet.shared.session.support'', ''applet.platform'']"

text \<open>\<^verbatim>\<open>isSupportedProperty\<close> on the transmit buffer, whose length is that of the list.\<close>

definition isSupportedProperty :: "string option \<Rightarrow> bool" where
  "isSupportedProperty TxBuf =
     (case TxBuf of
        None \<Rightarrow> False
      | Some buf \<Rightarrow>
          if length buf < 1 then False
          else if last buf \<noteq> NUL then False
          else c_string buf \<in> set supported_properties)"

text \<open>
  What the property handler needs before asking the plugin: the applet in the VM, and over Beihai
  v2 an open session. The result is the code, and the session created for the purpose.
\<close>

definition property_session :: "'w platform \<Rightarrow> bool \<Rightarrow> string \<Rightarrow> ('w, JHI_RET \<times> JHI_SESSION_ID option) service" where
  "property_session pf v2 pAppId = do {
     live \<leftarrow> gets (\<lambda>s. hasLiveSessions pAppId (sessions s));
     if v2 \<and> \<not> live then do {
       r \<leftarrow> create_session_with (\<lambda>_. ret False) pf pAppId 0 (Some [])
              \<lparr> pid = getpid pf, creationTime = uninit_time pf \<rparr>;
       ret (if fst r \<noteq> JHI_SUCCESS then (JHI_APPLET_NOT_INSTALLED, None) else (JHI_SUCCESS, snd r)) }
     else ret (JHI_SUCCESS, None) }"

definition property_install :: "'w platform \<Rightarrow> string \<Rightarrow> ('w, JHI_RET) service" where
  "property_install pf pAppId = do {
     appStatus \<leftarrow> gets (\<lambda>s. getAppletState pAppId (applets s));
     if appStatus = NOT_INSTALLED then do {
       found \<leftarrow> appletExistInRepository pAppId;
       case found of
         None \<Rightarrow> ret JHI_APPLET_NOT_INSTALLED
       | Some (filename, isAcp) \<Rightarrow> do {
           r \<leftarrow> jhis_install pf pAppId filename True isAcp;
           ret (if r \<noteq> JHI_SUCCESS then JHI_APPLET_NOT_INSTALLED else JHI_SUCCESS) } }
     else ret JHI_SUCCESS }"

text \<open>
  The exchange with the plugin: the code, the bytes written to the caller's receive buffer (when
  any are), and its new length.
\<close>

definition property_query :: "'w platform \<Rightarrow> string \<Rightarrow> string \<Rightarrow> uint32 \<Rightarrow>
    ('w, JHI_RET \<times> string option \<times> uint32) service" where
  "property_query pf pAppId TxBuf RxLen = do {
     a \<leftarrow> alloc;
     b \<leftarrow> alloc;
     if \<not> a \<or> \<not> b then ret (JHI_INTERNAL_ERROR, None, RxLen)
     else do {
       np \<leftarrow> no_plugin;
       if np then ret (JHI_NO_CONNECTION_TO_FIRMWARE, None, RxLen)
       else do {
         q \<leftarrow> on_world (JHI_Plugin_GetAppletProperty pf pAppId (c_string TxBuf) (RxLen - 1));
         let (r, buf, len) = q;
         ret (if r = JHI_SUCCESS then (r, Some (strncpy_bytes (unat RxLen) (c_string buf)), len + 1)
              else if r = JHI_INSUFFICIENT_BUFFER then (r, None, len + 1)
              else (r, None, RxLen)) } } }"

definition jhis_get_applet_property :: "'w platform \<Rightarrow> string \<Rightarrow> string option \<Rightarrow> uint32 \<Rightarrow>
    ('w, JHI_RET \<times> string option \<times> uint32) service" where
  "jhis_get_applet_property pf pAppId TxBuf RxLen =
     (if \<not> isSupportedProperty TxBuf then ret (JHI_APPLET_PROPERTY_NOT_SUPPORTED, None, RxLen)
      else do {
        v2 \<leftarrow> gets (\<lambda>s. vmType (globals s) = JHI_VM_TYPE_BEIHAI_V2);
        appStatus \<leftarrow> gets (\<lambda>s. getAppletState pAppId (applets s));
        if \<not> valid_app_state appStatus then ret (JHI_INTERNAL_ERROR, None, RxLen)
        else do {
          i \<leftarrow> property_install pf pAppId;
          if i \<noteq> JHI_SUCCESS then ret (i, None, RxLen)
          else do {
            p \<leftarrow> property_session pf v2 pAppId;
            if fst p \<noteq> JHI_SUCCESS then ret (fst p, None, RxLen)
            else do {
              q \<leftarrow> property_query pf pAppId (the TxBuf) RxLen;
              (case snd p of
                 None \<Rightarrow> ret JHI_SUCCESS
               | Some sid \<Rightarrow>
                   jhis_close_session pf sid
                     (Some \<lparr> pid = getpid pf, creationTime = uninit_time pf \<rparr>) False True);
              ret q } } } })"

text \<open>\<^verbatim>\<open>AppletsManager::updateSharedSessionSupport\<close> and \<^verbatim>\<open>isSharedSessionSupported\<close>\<close>

definition updateSharedSessionSupport :: "'w platform \<Rightarrow> string \<Rightarrow> ('w, unit) service" where
  "updateSharedSessionSupport pf appletId = do {
     q \<leftarrow> jhis_get_applet_property pf appletId (Some (''applet.shared.session.support'' @ [NUL])) 6;
     let (r, buf, len) = q;
     let shareEnabled = (r = JHI_SUCCESS \<and> (case buf of None \<Rightarrow> False | Some b \<Rightarrow> c_string b = ''true''));
     (if r = JHI_SUCCESS
      then set_applets (\<lambda>t. smap_put appletId
             ((applet_at appletId t)\<lparr>sharedSessionSupportRetrievedFromFW := True\<rparr>) t)
      else ret ());
     set_applets (\<lambda>t. smap_put appletId
       ((applet_at appletId t)\<lparr>sharedSessionSupport := shareEnabled\<rparr>) t) }"

definition isSharedSessionSupported :: "'w platform \<Rightarrow> string \<Rightarrow> ('w, bool) service" where
  "isSharedSessionSupported pf appletId = do {
     present \<leftarrow> gets (\<lambda>s. isAppletRecordPresent appletId (applets s));
     if \<not> present then ret False
     else do {
       known \<leftarrow> gets (\<lambda>s. sharedSessionSupportRetrievedFromFW (applet_at appletId (applets s)));
       (if \<not> known then updateSharedSessionSupport pf appletId else ret ());
       gets (\<lambda>s. sharedSessionSupport (applet_at appletId (applets s))) } }"

definition jhis_create_session :: "'w platform \<Rightarrow> string \<Rightarrow> JHI_SESSION_FLAGS \<Rightarrow> byte list option \<Rightarrow>
    JHI_PROCESS_INFO \<Rightarrow> ('w, JHI_RET \<times> JHI_SESSION_ID option) service" where
  "jhis_create_session pf = create_session_with (isSharedSessionSupported pf) pf"

section \<open>Send and receive\<close>

text \<open>
  \<^verbatim>\<open>jhis_txrx_raw\<close>: the code, and the plugin's answer when it was asked (the receive buffer, its
  length and the response code).
\<close>

definition jhis_txrx_raw :: "'w platform \<Rightarrow> JHI_SESSION_ID \<Rightarrow> uint32 \<Rightarrow> byte list \<Rightarrow> uint32 \<Rightarrow>
    ('w, JHI_RET \<times> (byte list \<times> uint32 \<times> uint32) option) service" where
  "jhis_txrx_raw pf sid nCommandId TxBuf RxLen = do {
     info \<leftarrow> gets (\<lambda>s. getSessionInfo sid (sessions s));
     if info_state info = JHI_SESSION_STATE_NOT_EXISTS then ret (JHI_INVALID_SESSION_HANDLE, None)
     else do {
       locked \<leftarrow> on_sessions (GetSessionLock sid);
       vm \<leftarrow> gets (\<lambda>s. getVMSessionHandle sid (sessions s));
       np \<leftarrow> no_plugin;
       r \<leftarrow> (if \<not> locked then ret (JHI_INVALID_SESSION_HANDLE, None)
            else case vm of
                None \<Rightarrow> ret (JHI_INTERNAL_ERROR, None)
              | Some VMSessionHandle \<Rightarrow>
                  if np then ret (JHI_NO_CONNECTION_TO_FIRMWARE, None)
                  else do {
                    a \<leftarrow> on_world (JHI_Plugin_SendAndRecv pf VMSessionHandle nCommandId TxBuf RxLen);
                    (if fst a = JHI_APPLET_FATAL \<or> fst a = JHI_APPLET_TIMEOUT
                        \<or> fst a = JHI_INVALID_SESSION_HANDLE
                     then jhis_close_session pf sid None False False else ret JHI_SUCCESS);
                    ret (fst a, Some (snd a)) });
       on_sessions (\<lambda>m. ((), ReleaseSessionLock sid m));
       ret r } }"

section \<open>Invariants of the session table through the applet handlers\<close>

context table_invariant
begin

lemma cleanup_pres: "preserves (\<lambda>s. J (sessions s)) (cleanup_for pf app)"
  unfolding cleanup_for_def
  by (intro pres_intros clear_dead_pres clear_nonshared_pres clear_applet_pres)

lemma remove_record_pres: "preserves (\<lambda>s. J (sessions s)) (remove_record app)"
  unfolding remove_record_def by (intro pres_intros)

lemma unload_pres: "preserves (\<lambda>s. J (sessions s)) (jhis_unload pf app pkg)"
  unfolding jhis_unload_def by (intro pres_intros cleanup_pres remove_record_pres)

lemma uninstall_pres: "preserves (\<lambda>s. J (sessions s)) (jhis_uninstall pf app pkg)"
  unfolding jhis_uninstall_def by (intro pres_intros unload_pres)

lemma unload_all_pres: "preserves (\<lambda>s. J (sessions s)) (unload_all pf b apps)"
  by (induction apps arbitrary: b) (auto intro!: pres_intros unload_pres)

lemma try_unload_pres: "preserves (\<lambda>s. J (sessions s)) (TryUnloadUnusedApplet pf)"
  unfolding TryUnloadUnusedApplet_def UnloadAppletWithNoSessions_def
  by (intro pres_intros unload_pres try_remove_pres)

lemma download_pres: "preserves (\<lambda>s. J (sessions s)) (download_blobs pf app r blobs)"
  by (induction blobs arbitrary: r) (auto intro!: pres_intros)

lemma redownload_pres: "preserves (\<lambda>s. J (sessions s)) (redownload_blobs pf app r blobs)"
  by (induction blobs arbitrary: r) (auto intro!: pres_intros)

lemma error_remove_pres: "preserves (\<lambda>s. J (sessions s)) (error_remove_applet app isAcp)"
  unfolding error_remove_applet_def by (intro pres_intros remove_record_pres)

lemma install_pres: "preserves (\<lambda>s. J (sessions s)) (jhis_install pf app file vis isAcp)"
  unfolding jhis_install_def
  by (intro pres_intros cleanup_pres try_unload_pres download_pres redownload_pres error_remove_pres)

lemma cmd_install_pres: "preserves (\<lambda>s. J (sessions s)) (cmd_pkg_install_jta pf app handle blob)"
  unfolding cmd_pkg_install_jta_def
  by (intro pres_intros cleanup_pres try_unload_pres error_remove_pres)

lemma send_cmd_pres: "preserves (\<lambda>s. J (sessions s)) (jhis_send_cmd_pkg pf handle blob)"
  unfolding jhis_send_cmd_pkg_def
  by (auto simp: Let_def intro!: pres_intros cmd_install_pres uninstall_pres split: AC_CMD_ID.split)

lemma count_pres: "preserves (\<lambda>s. J (sessions s)) (jhis_get_sessions_count app b)"
  unfolding jhis_get_sessions_count_def by (intro pres_intros)

lemma txrx_pres: "preserves (\<lambda>s. J (sessions s)) (jhis_txrx_raw pf sid c tx rx)"
  unfolding jhis_txrx_raw_def
  by (intro pres_intros close_pres sessions_inv_on_sessions) (simp_all add: J_lock J_unlock)

lemma create_in_vm_pres: "preserves (\<lambda>s. J (sessions s)) (create_in_vm pf v2 app blobs sid b r)"
proof -
  have "preserves (\<lambda>s. J (sessions s)) (create_from_blobs pf app sid b r blobs)"
    by (induction blobs arbitrary: r) (auto intro!: pres_intros)
  then show ?thesis unfolding create_in_vm_def by (auto intro!: pres_intros)
qed

lemma create_prepare_pres: "preserves (\<lambda>s. J (sessions s)) (create_prepare pf v2 app)"
  unfolding create_prepare_def by (intro pres_intros install_pres)

lemma property_query_pres: "preserves (\<lambda>s. J (sessions s)) (property_query pf app tx rx)"
  unfolding property_query_def by (intro pres_intros)

lemma property_install_pres: "preserves (\<lambda>s. J (sessions s)) (property_install pf app)"
  unfolding property_install_def by (intro pres_intros install_pres)

end

interpretation nosh: table_invariant "no_shared app" for app
  by unfold_locales
    (simp_all add: lock.op_no_shared unlock.op_no_shared disown.op_no_shared own.op_no_shared
      reap.op_no_shared no_shared_remove)

text \<open>An invariant that a new session keeps too, unless it is a second shared one.\<close>

locale table_invariant_add = table_invariant +
  assumes J_table: "J m \<Longrightarrow> smap_inv (sessionList m)"
    and J_add: "J m \<Longrightarrow> (sharedSession flags \<Longrightarrow> no_shared (toUpperCase app) m) \<Longrightarrow>
      J (snd (add app h sid flags info m))"
begin

lemma new_session_pres:
  "spec (\<lambda>s. J (sessions s) \<and> (sharedSession flags \<longrightarrow> no_shared (toUpperCase app) (sessions s)))
     (create_new_session pf v2 app blobs flags b p) (\<lambda>_ s. J (sessions s))"
proof -
  let ?K = "\<lambda>m. J m \<and> (sharedSession flags \<longrightarrow> no_shared (toUpperCase app) m)"
  have conj: "spec (\<lambda>s. ?K (sessions s)) m (\<lambda>_ s. ?K (sessions s))"
    if "preserves (\<lambda>s. J (sessions s)) m" "preserves (\<lambda>s. no_shared (toUpperCase app) (sessions s)) m"
    for m :: "('w, 'z) service"
    using that by (simp add: spec_def preserves_def)
  have vm: "spec (\<lambda>s. ?K (sessions s)) (create_in_vm pf v2 app blobs sid b r) (\<lambda>_ s. ?K (sessions s))"
    for sid r by (rule conj) (rule create_in_vm_pres nosh.create_in_vm_pres)+
  have freed: "spec (\<lambda>s. ?K (sessions s)) (TryRemoveUnusedSharedSession pf True) (\<lambda>_ s. ?K (sessions s))"
    by (rule conj) (rule try_remove_pres nosh.try_remove_pres)+
  have world: "spec (\<lambda>s. ?K (sessions s)) (on_world f) (\<lambda>_ s. ?K (sessions s))" for f :: "'w \<Rightarrow> 'z \<times> 'w"
    by (simp add: spec_def)
  have tail: "spec (\<lambda>s. J (sessions s)) (on_world f) (\<lambda>_ s. J (sessions s))" for f :: "'w \<Rightarrow> 'z \<times> 'w"
    by (simp add: spec_def)
  have added: "spec (\<lambda>s. ?K (sessions s)) (on_sessions (add app h sid flags (Some p)))
      (\<lambda>_ s. J (sessions s))" for h sid
    by (simp add: spec_def J_add)
  show ?thesis
    unfolding create_new_session_def
    apply (rule spec_bind [where R = "\<lambda>_ s. ?K (sessions s)"])
     apply (rule world)
    apply (rule spec_bind [where R = "\<lambda>_ s. ?K (sessions s)"])
     apply (rule vm)
    apply (rule spec_bind [where R = "\<lambda>_ s. ?K (sessions s)"])
     apply (intro spec_if spec_bind [OF freed] vm spec_ret; assumption)
    apply (intro spec_if spec_bind [OF added] spec_bind [OF tail] spec_ret)
        apply simp_all
    done
qed

lemma shared_branch_pres:
  assumes "upper app"
  shows "preserves (\<lambda>s. J (sessions s))
    (do { existing \<leftarrow> gets (\<lambda>s. getSharedSessionID app (sessions s));
          case existing of
            Some sid \<Rightarrow> do {
              added \<leftarrow> on_sessions (addSessionOwner sid p);
              ret (if added then JHI_SUCCESS else JHI_MAX_SHARED_SESSION_REACHED, Some sid) }
          | None \<Rightarrow> create_new_session pf v2 app blobs flags b p })"
proof (rule preserves_gets_bind)
  fix v
  show "spec (\<lambda>s. J (sessions s) \<and> getSharedSessionID app (sessions s) = v)
     (case v of
        Some sid \<Rightarrow> do {
          added \<leftarrow> on_sessions (addSessionOwner sid p);
          ret (if added then JHI_SUCCESS else JHI_MAX_SHARED_SESSION_REACHED, Some sid) }
      | None \<Rightarrow> create_new_session pf v2 app blobs flags b p) (\<lambda>_ s. J (sessions s))"
  proof (cases v)
    case None
    have "no_shared (toUpperCase app) m" if "J m" "getSharedSessionID app m = None" for m
      using that assms by (simp add: no_shared_find J_table)
    with None show ?thesis by (auto intro: spec_weaken [OF new_session_pres])
  next
    case (Some sid)
    then show ?thesis by (simp add: spec_def J_own)
  qed
qed

lemma new_nonshared_pres:
  "\<not> sharedSession flags \<Longrightarrow> preserves (\<lambda>s. J (sessions s)) (create_new_session pf v2 app blobs flags b p)"
  unfolding spec_preserves by (rule spec_weaken [OF new_session_pres]) auto

lemma create_with_pres:
  assumes "upper app" "preserves (\<lambda>s. J (sessions s)) (shared_supported app)"
  shows "preserves (\<lambda>s. J (sessions s)) (create_session_with shared_supported pf app flags b p)"
  unfolding create_session_with_def
  by (intro pres_intros create_prepare_pres clear_dead_pres clear_nonshared_pres assms(2)
      shared_branch_pres [OF assms(1)] new_nonshared_pres)

lemma property_pres:
  assumes "upper app"
  shows "preserves (\<lambda>s. J (sessions s)) (jhis_get_applet_property pf app tx rx)"
proof -
  have "preserves (\<lambda>s. J (sessions s)) (property_session pf v2 app)" for v2
    unfolding property_session_def by (intro pres_intros create_with_pres assms)
  then show ?thesis
    unfolding jhis_get_applet_property_def
    by (intro pres_intros property_install_pres property_query_pres close_pres)
qed

lemma supported_pres:
  "upper app \<Longrightarrow> preserves (\<lambda>s. J (sessions s)) (isSharedSessionSupported pf app)"
  unfolding isSharedSessionSupported_def updateSharedSessionSupport_def
  by (intro pres_intros property_pres)

lemma create_pres:
  "upper app \<Longrightarrow> preserves (\<lambda>s. J (sessions s)) (jhis_create_session pf app flags b p)"
  unfolding jhis_create_session_def by (intro create_with_pres supported_pres)

end

interpretation inv_add: table_invariant_add sm_inv
  by unfold_locales (simp_all add: sm_inv_table inv_add)

interpretation uniq_add: table_invariant_add shared_inv
  by unfold_locales (simp_all add: shared_inv_def sm_inv_table inv_add shared_unique_add)

end
