(* ===== verification/Service_Properties.thy ===== *)
theory Service_Properties
  imports Applet_Service
begin

text \<open>
  What the applet and session handlers guarantee: installation and removal of packages, creation
  of sessions, the exchange of commands, the property filter and the session count. The first part
  computes the handlers' steps on a file system without failures; the second follows a session that is in
  use through the clean-up; then the properties.
\<close>

section \<open>Installation without file system failures\<close>

lemma smap_erase_absent: "smap_find m k = None \<Longrightarrow> smap_erase k m = m"
  by (force simp: smap_find_None smap_erase_def filter_id_conv)

lemma run_remove_erase:
  "io f = [] \<Longrightarrow> \<exists>b. run_state (remove_ok path) f = (b, f\<lparr>files := smap_erase path (files f)\<rparr>)"
  by (cases "smap_find (files f) path") (auto simp: run_remove_ok smap_erase_absent)

text \<open>\<^verbatim>\<open>completeInstall\<close>: the pending file takes the place of both package files.\<close>

lemma run_completeInstall:
  assumes "io (fsys s) = []" "smap_find (files (fsys s)) (getPendingFileName (globals s) app isAcp) = Some c"
    "smap_inv (files (fsys s))"
  shows "run_state (completeInstall app isAcp) s =
    (True, s\<lparr>fsys := (fsys s)\<lparr>files :=
        smap_put (getFileName (globals s) app isAcp) c
          (smap_erase (getPendingFileName (globals s) app isAcp)
            (smap_erase (getFileName (globals s) app (\<not> isAcp))
              (smap_erase (getFileName (globals s) app isAcp) (files (fsys s)))))\<rparr>,
      applets := smap_put app ((applet_at app (applets s))\<lparr>status := INSTALLED\<rparr>) (applets s)\<rparr>)"
proof -
  let ?g = "globals s" and ?fs = "fsys s"
  let ?new = "getFileName ?g app isAcp" and ?other = "getFileName ?g app (\<not> isAcp)"
  let ?pend = "getPendingFileName ?g app isAcp"
  obtain b1 where r1: "run_state (remove_ok ?new) ?fs = (b1, ?fs\<lparr>files := smap_erase ?new (files ?fs)\<rparr>)"
    using run_remove_erase [OF assms(1)] by blast
  obtain b2 where r2: "run_state (remove_ok ?other) (?fs\<lparr>files := smap_erase ?new (files ?fs)\<rparr>) =
      (b2, ?fs\<lparr>files := smap_erase ?other (smap_erase ?new (files ?fs))\<rparr>)"
    using run_remove_erase [of "?fs\<lparr>files := smap_erase ?new (files ?fs)\<rparr>" ?other] assms(1) by auto
  have "smap_find (smap_erase ?other (smap_erase ?new (files ?fs))) ?pend = Some c"
    by (simp add: tab.find_erase pending_not_file assms(2))
  then have r3: "run_state (rename_ok ?pend ?new) (?fs\<lparr>files := smap_erase ?other (smap_erase ?new (files ?fs))\<rparr>) =
      (True, ?fs\<lparr>files := smap_put ?new c (smap_erase ?pend (smap_erase ?other (smap_erase ?new (files ?fs))))\<rparr>)"
    by (simp add: run_rename_ok assms(1))
  have sync: "\<exists>b. run_state (syncAppletToDisk app) t = (b, t)" if "io (fsys t) = []" for t :: "'w jhi"
    using that by (auto simp: syncAppletToDisk_def syncAppletRepoToDisk_def run_on_fsys run_sync_file)
  show ?thesis
    using sync [of "s\<lparr>fsys := ?fs\<lparr>files := smap_put ?new c (smap_erase ?pend (smap_erase ?other
        (smap_erase ?new (files ?fs))))\<rparr>\<rparr>"] assms(1)
    by (auto simp: completeInstall_def run_on_fsys r1 r2 r3)
qed

lemma run_readFileAsBlob:
  "io (fsys s) = [] \<Longrightarrow> smap_find (files (fsys s)) path = Some c \<Longrightarrow>
   run_state (readFileAsBlob path) s = ((JHI_SUCCESS, [c]), s)"
  by (simp add: readFileAsBlob_def run_on_fsys run_fopen_rb run_alloc)

definition pending_table :: "string \<Rightarrow> applet_table \<Rightarrow> applet_table" where
  "pending_table app t =
     (if getAppletState app t = NOT_INSTALLED then addAppRecordEntry app pending_record t else t)"

text \<open>The first phase for an ACP package: the copy in the repository and the pending record.\<close>

lemma run_prepare_acp:
  assumes "io (fsys s) = []" "smap_inv (files (fsys s))" "smap_find (files (fsys s)) file = Some c"
    "file \<noteq> getPendingFileName (globals s) app True"
  shows "run_state (prepareInstallFromFile pf file app True) s =
    ((JHI_SUCCESS, [c]),
     s\<lparr>fsys := (fsys s)\<lparr>files := smap_put (getPendingFileName (globals s) app True) c (files (fsys s))\<rparr>,
       applets := pending_table app (applets s)\<rparr>)"
proof -
  let ?d = "getPendingFileName (globals s) app True"
  let ?s1 = "s\<lparr>fsys := (fsys s)\<lparr>files := smap_put ?d c (files (fsys s))\<rparr>\<rparr>"
  have copy: "run_state (on_fsys (JhiUtilCopyFile (Some ?d) (Some file))) s = (JHI_SUCCESS, ?s1)"
    using run_copy_file [OF assms(1-3), of ?d] assms(4) by (simp add: run_on_fsys)
  have chmod: "run_state (on_fsys next_io) ?s1 = (Io_ok, ?s1)"
    by (simp add: run_on_fsys run_next_io assms(1))
  have blob: "run_state (getAppletBlobs pf ?d True) ?s1 = ((JHI_SUCCESS, [c]), ?s1)"
    by (simp add: getAppletBlobs_def run_readFileAsBlob assms(1) tab.find_put)
  show ?thesis
    by (simp add: prepareInstallFromFile_def Let_def copy chmod blob mark_pending_def pending_table_def)
qed

section \<open>A session in use survives the clean-up\<close>

lemma cleanup_frame:
  "preserves (\<lambda>s. J (applets s)) (cleanup_for pf app)"
  "preserves (\<lambda>s. J' (globals s) (events s)) (cleanup_for pf app)"
  "preserves (\<lambda>s. J'' (fsys s)) (cleanup_for pf app)"
  unfolding cleanup_for_def by (intro pres_intros)+

lemma cleanup_keeps_used:
  assumes "sm_inv (sessions s)" "session k (sessions s) = Some r"
    "list_ex (\<lambda>p. \<not> processIsDead pf (world s) p) (ownersList r)"
    "run_state (cleanup_for pf app) s = (u, s')"
  shows "\<exists>r'. session k (sessions s') = Some r' \<and> appId r' = appId r \<and> ownersList r' \<noteq> []"
proof -
  define dead where "dead = processIsDead pf (world s)"
  define s1 where "s1 = s\<lparr>sessions := snd (ClearSessionsDeadOwners dead (sessions s))\<rparr>"
  obtain b s2 where s2: "run_state (ClearAbandonedNonSharedSessions pf) s1 = (b, s2)"
    by (cases "run_state (ClearAbandonedNonSharedSessions pf) s1")
  have inv1: "sm_inv (sessions s1)" by (simp add: s1_def inv_ClearSessionsDeadOwners assms(1))
  have inv2: "sm_inv (sessions s2)" using preservesD [OF inv.clear_nonshared_pres inv1 s2] .
  obtain r1 where r1: "session k (sessions s1) = Some r1" "reaped dead r r1"
    using ClearSessionsDeadOwners_session [OF assms(1,2)] by (auto simp: s1_def)
  have own: "ownersList r1 \<noteq> []"
    using reaped_owners [OF r1(2)] assms(3) by (auto simp: filter_empty_conv list_ex_iff dead_def)
  have app: "appId r1 = appId r"
    using arg_cong [OF r1(2) [unfolded reaped_def], of appId] by simp
  have k2: "session k (sessions s2) = Some r1"
    using nonshared_cleanup_safe [OF inv1 r1(1) _ s2] own by blast
  have "session k (sessions s') = Some r1"
  proof (cases "AppletHasNonSharedSessions app (sessions s2)")
    case True
    with assms(4) s2 k2 show ?thesis
      by (simp add: cleanup_for_def clear_dead_owners_def s1_def dead_def)
  next
    case False
    obtain b3 s3 where s3: "run_state (ClearAppletSharedSession pf app) s2 = (b3, s3)"
      by (cases "run_state (ClearAppletSharedSession pf app) s2")
    have "s' = s3"
      using assms(4) s2 s3 False by (simp add: cleanup_for_def clear_dead_owners_def s1_def dead_def)
    show ?thesis
    proof (cases "abandonedAppletShared app (sessions s2)")
      case None
      with s3 k2 \<open>s' = s3\<close> show ?thesis by (simp add: ClearAppletSharedSession_def)
    next
      case (Some v)
      then obtain kv rv where kv: "(kv, rv) \<in> set (sessionList (sessions s2))" "ownersList rv = []"
        "v = sessionId rv"
        by (auto simp: abandonedAppletShared_def dest!: find_Some_iff2)
      then have "session kv (sessions s2) = Some rv"
        using inv2 by (simp add: session_def tab.entries_find sm_inv_table)
      with kv own k2 record_bounds [OF inv2 this] have "k \<noteq> v" by auto
      obtain c s4 where c: "run_state (jhis_close_session pf v None False True) s2 = (c, s4)"
        by (cases "run_state (jhis_close_session pf v None False True) s2")
      with s3 Some \<open>s' = s3\<close> have "s' = s4" by (simp add: ClearAppletSharedSession_def)
      with preservesD [OF close_other_session [OF \<open>k \<noteq> v\<close>] k2 c] show ?thesis by simp
    qed
  qed
  with app own show ?thesis by blast
qed

lemma cleanup_run:
  assumes "run_state (cleanup_for pf app) s = (u, s')"
  shows "applets s' = applets s" "globals s' = globals s" "fsys s' = fsys s"
  using preservesD [OF cleanup_frame(1) [where J = "\<lambda>a. a = applets s"] _ assms]
    preservesD [OF cleanup_frame(2) [where J' = "\<lambda>a e. a = globals s"] _ assms]
    preservesD [OF cleanup_frame(3) [where J'' = "\<lambda>a. a = fsys s"] _ assms]
  by blast+

section \<open>Idle applets and the installation run\<close>

text \<open>The applet has no session: kept by the handlers that work on existing sessions.\<close>

definition no_session :: "string \<Rightarrow> SessionsManager \<Rightarrow> bool" where
  "no_session app m \<longleftrightarrow> smap_inv (sessionList m) \<and> \<not> hasLiveSessions app m"

interpretation idle: table_invariant "no_session app" for app
proof unfold_locales
  fix m sid
  assume "no_session app m"
  then show "no_session app (snd (remove sid m))"
    by (auto simp: no_session_def hasLiveSessions_iff table_remove split: if_splits) metis
qed (simp_all add: no_session_def table_ops lock.op_live unlock.op_live disown.op_live own.op_live
    reap.op_live)

text \<open>The repository with \<open>app\<close>'s package replaced by \<open>c\<close>, as an ACP or a DALP file.\<close>

definition package_installed :: "GlobalsManager \<Rightarrow> string \<Rightarrow> bool \<Rightarrow> byte list \<Rightarrow>
    (string, byte list) smap \<Rightarrow> (string, byte list) smap \<Rightarrow> bool" where
  "package_installed g app isAcp c fs fs' \<longleftrightarrow>
     smap_find fs' (getFileName g app isAcp) = Some c
     \<and> smap_find fs' (getFileName g app (\<not> isAcp)) = None
     \<and> smap_find fs' (getPendingFileName g app isAcp) = None
     \<and> (\<forall>path. path \<noteq> getFileName g app True \<longrightarrow> path \<noteq> getFileName g app False \<longrightarrow>
          path \<noteq> getPendingFileName g app isAcp \<longrightarrow> smap_find fs' path = smap_find fs path)"

lemma run_install_acp:
  assumes "io (fsys s) = []" "smap_inv (files (fsys s))"
    "plugin_registered (globals s)" "plugin_table (globals s)"
    "smap_find (files (fsys s)) file = Some c" "compareFileExtension file acpFileExt"
    "file \<noteq> getPendingFileName (globals s) app True"
    "run_state (cleanup_for pf app) s = ((), s1)"
    "JHI_Plugin_DownloadApplet pf app c (world s1) = (r, w)"
    "r \<noteq> JHI_FILE_IDENTICAL" "vmType (globals s) = JHI_VM_TYPE_BEIHAI_V1 \<Longrightarrow> r \<noteq> JHI_MAX_INSTALLED_APPLETS_REACHED"
  shows "run_state (jhis_install pf app file True True) s =
    run_state (if r = JHI_SUCCESS
       then do { completed \<leftarrow> completeInstall app True;
                 if completed then ret JHI_SUCCESS
                 else do { on_world (JHI_Plugin_UnloadApplet pf app); error_remove_applet app True;
                           ret JHI_INTERNAL_ERROR } }
       else do { error_remove_applet app True; ret r })
     (s1\<lparr>fsys := (fsys s)\<lparr>files := smap_put (getPendingFileName (globals s) app True) c (files (fsys s))\<rparr>,
         applets := pending_table app (applets s), world := w\<rparr>)"
proof -
  note c = cleanup_run [OF assms(8)]
  have prep: "run_state (prepareInstallFromFile pf file app True) s1 =
    ((JHI_SUCCESS, [c]),
     s1\<lparr>fsys := (fsys s)\<lparr>files := smap_put (getPendingFileName (globals s) app True) c (files (fsys s))\<rparr>,
       applets := pending_table app (applets s)\<rparr>)"
    using run_prepare_acp [of s1 "file" c app pf] assms by (simp add: c)
  have acc: "run_state (on_fsys (access_ok file)) s1 = (True, s1)"
    using assms by (simp add: run_on_fsys run_access_ok c path_exists_def)
  show ?thesis
    using assms by (auto simp: jhis_install_def acc prep c file_ext_def)
qed


section \<open>Installing and uninstalling\<close>

lemma present_state:
  assumes "applets_inv t" "isAppletRecordPresent app t"
  shows "valid_app_state (getAppletState app t) \<and> getAppletState app t \<noteq> NOT_INSTALLED"
  using applets_inv_state [OF assms(1), of app] getAppletState_none [OF assms(1), of app] assms(2)
  by (cases "getAppletState app t") (simp_all add: valid_app_state_def isAppletRecordPresent_def)

lemma getAppletState_put:
  "getAppletState k (smap_put app r t) = (if k = app then status r else getAppletState k t)"
  by (simp add: getAppletState_def tab.find_put)

lemma getAppletState_pending:
  "k \<noteq> app \<Longrightarrow> getAppletState k (pending_table app t) = getAppletState k t"
  by (simp add: pending_table_def getAppletState_def addAppRecordEntry_def tab.find_insert)

text \<open>A pending record that was made for an applet without one goes again.\<close>

lemma pending_table_undo:
  assumes "applets_inv t" "getAppletState app t \<noteq> PENDING_INSTALL"
  shows "(if getAppletState app (pending_table app t) = PENDING_INSTALL
          then snd (applet_remove app (pending_table app t)) else pending_table app t) = t"
proof (cases "smap_find t app")
  case None
  with assms(1) have "pending_table app t = smap_insert app pending_record t"
    by (simp add: pending_table_def getAppletState_none addAppRecordEntry_def)
  moreover have "smap_erase app (smap_insert app pending_record t) = t"
    using assms(1) None
    by (intro smap_ext) (auto simp: applets_inv_def tab.inv_erase tab.inv_insert tab.find_erase tab.find_insert)
  ultimately show ?thesis
    by (simp add: getAppletState_def tab.find_insert None applet_remove_def)
next
  case (Some r)
  with assms show ?thesis
    by (auto simp: pending_table_def getAppletState_none applet_remove_def)
qed

lemma run_error_remove:
  assumes "io (fsys s) = []"
  shows "run_state (error_remove_applet app isAcp) s =
    ((), s\<lparr>fsys := (fsys s)\<lparr>files := smap_erase (getPendingFileName (globals s) app isAcp) (files (fsys s))\<rparr>,
           applets := (if getAppletState app (applets s) = PENDING_INSTALL
                       then snd (applet_remove app (applets s)) else applets s)\<rparr>)"
proof -
  obtain b where "run_state (remove_ok (getPendingFileName (globals s) app isAcp)) (fsys s) =
      (b, (fsys s)\<lparr>files := smap_erase (getPendingFileName (globals s) app isAcp) (files (fsys s))\<rparr>)"
    using run_remove_erase [OF assms] by blast
  then show ?thesis
    by (simp add: error_remove_applet_def remove_record_def run_on_fsys)
qed

text \<open>A platform whose VM answers downloads and unloads with a given code, and a service with one applet.\<close>

definition refusing_platform :: "JHI_RET \<Rightarrow> nat platform" where
  "refusing_platform r = sample_platform\<lparr>JHI_Plugin_DownloadApplet := (\<lambda>a b w. (r, w)),
     JHI_Plugin_UnloadApplet := (\<lambda>a w. (r, w))\<rparr>"

definition sample_installed :: "nat jhi" where
  "sample_installed = sample_state\<lparr>applets := [(sample_app, installed_record)],
     fsys := (fsys sample_state)\<lparr>files := [(''/repo/'' @ sample_app @ ''.acp'', [1, 2, 3]),
       (''/tmp/a.acp'', [1, 2, 3])]\<rparr>\<rparr>"

lemma sample_facts:
  "io (fsys sample_state) = []" "smap_inv (files (fsys sample_state))"
  "plugin_registered (globals sample_state)" "plugin_table (globals sample_state)"
  "smap_find (files (fsys sample_state)) ''/tmp/a.acp'' = Some [1, 2, 3]"
  "compareFileExtension ''/tmp/a.acp'' acpFileExt"
  "''/tmp/a.acp'' \<noteq> getPendingFileName (globals sample_state) sample_app True"
  "applets_inv (applets sample_state)"
  "getAppletState sample_app (applets sample_state) \<noteq> PENDING_INSTALL"
  by code_simp+

lemma sample_installed_facts:
  "no_session sample_app (sessions sample_installed)" "applets_inv (applets sample_installed)"
  "isAppletRecordPresent sample_app (applets sample_installed)" "io (fsys sample_installed) = []"
  "plugin_registered (globals sample_installed)" "plugin_table (globals sample_installed)"
  "getFileName (globals sample_installed) sample_app False \<notin> set (folders (fsys sample_installed))"
  "getFileName (globals sample_installed) sample_app True \<notin> set (folders (fsys sample_installed))"
  by code_simp+

text \<open>
  C32: installing an ACP package the firmware accepts, on a file system without failures:
  \<^verbatim>\<open>jhis_install\<close> succeeds, the repository holds exactly the given package for the applet (the ACP file
  has its content, a DALP file of the applet and the pending copy are gone, every other file is
  unchanged) and the applet is recorded as installed, no other applet's state having changed.
\<close>

theorem install_replaces_package:
  assumes "io (fsys s) = []" "smap_inv (files (fsys s))"
    "plugin_registered (globals s)" "plugin_table (globals s)"
    "smap_find (files (fsys s)) file = Some c" "compareFileExtension file acpFileExt"
    "file \<noteq> getPendingFileName (globals s) app True"
    "\<And>w. fst (JHI_Plugin_DownloadApplet pf app c w) = JHI_SUCCESS"
  shows "\<exists>s'. run_state (jhis_install pf app file True True) s = (JHI_SUCCESS, s')
    \<and> package_installed (globals s) app True c (files (fsys s)) (files (fsys s'))
    \<and> getAppletState app (applets s') = INSTALLED
    \<and> (\<forall>k. k \<noteq> app \<longrightarrow> getAppletState k (applets s') = getAppletState k (applets s))"
proof -
  let ?g = "globals s" and ?pend = "getPendingFileName (globals s) app True"
  obtain s1 where s1: "run_state (cleanup_for pf app) s = ((), s1)"
    by (cases "run_state (cleanup_for pf app) s") simp
  obtain w where w: "JHI_Plugin_DownloadApplet pf app c (world s1) = (JHI_SUCCESS, w)"
    using assms(8) by (metis prod.collapse)
  note c = cleanup_run [OF s1]
  let ?s2 = "s1\<lparr>fsys := (fsys s)\<lparr>files := smap_put ?pend c (files (fsys s))\<rparr>,
      applets := pending_table app (applets s), world := w\<rparr>"
  have "smap_find (files (fsys ?s2)) (getPendingFileName (globals ?s2) app True) = Some c"
    by (simp add: c tab.find_put)
  from run_completeInstall [OF _ this] assms(1,2) show ?thesis
    unfolding run_install_acp [OF assms(1-7) s1 w, simplified]
    by (simp add: c tab.inv_put package_installed_def tab.find_put tab.find_erase pending_not_file
        pending_not_file [symmetric] getFileName_inj getAppletState_put getAppletState_pending)
qed

theorem install_replaces_package_witness:
  "\<exists>s'. run_state (jhis_install sample_platform sample_app ''/tmp/a.acp'' True True) sample_state = (JHI_SUCCESS, s')
    \<and> package_installed (globals sample_state) sample_app True [1, 2, 3]
        (files (fsys sample_state)) (files (fsys s'))"
proof -
  have "fst (JHI_Plugin_DownloadApplet sample_platform sample_app [1, 2, 3] w) = JHI_SUCCESS" for w
    by (simp add: sample_platform_def)
  from install_replaces_package [OF sample_facts(1-7) this] show ?thesis by blast
qed



text \<open>
  An applet that has a session with a living owner cannot be uninstalled: \<^verbatim>\<open>jhis_uninstall\<close>
  reports \<^verbatim>\<open>JHI_UNINSTALL_FAILURE_SESSIONS_EXISTS\<close>, the applet table and the files are unchanged and
  the session is still there, whatever the clean-up removed.
\<close>

theorem uninstall_refused_in_use:
  assumes "sm_inv (sessions s)" "applets_inv (applets s)"
    "getAppletState app (applets s) \<noteq> NOT_INSTALLED \<or> vmType (globals s) = JHI_VM_TYPE_BEIHAI_V2"
    "session k (sessions s) = Some r" "appId r = toUpperCase app"
    "list_ex (\<lambda>p. \<not> processIsDead pf (world s) p) (ownersList r)"
  shows "\<exists>s'. run_state (jhis_uninstall pf app pkg) s = (JHI_UNINSTALL_FAILURE_SESSIONS_EXISTS, s')
    \<and> applets s' = applets s \<and> fsys s' = fsys s \<and> isSessionPresent k (sessions s')"
proof -
  obtain s1 where s1: "run_state (cleanup_for pf app) s = ((), s1)"
    by (cases "run_state (cleanup_for pf app) s") simp
  note c = cleanup_run [OF s1]
  obtain r' where r': "session k (sessions s1) = Some r'" "appId r' = toUpperCase app"
    using cleanup_keeps_used [OF assms(1,4,6) s1] assms(5) by auto
  have "sm_inv (sessions s1)" using preservesD [OF inv.cleanup_pres assms(1) s1] .
  with r' have live: "hasLiveSessions app (sessions s1)"
    by (simp add: hasLiveSessions_iff sm_inv_table) metis
  have "valid_app_state (getAppletState app (applets s))"
    using applets_inv_state [OF assms(2)] by (cases "getAppletState app (applets s)") (auto simp: valid_app_state_def)
  then have "run_state (jhis_unload pf app pkg) s = (JHI_UNINSTALL_FAILURE_SESSIONS_EXISTS, s1)"
    using assms(3) live s1 by (auto simp: jhis_unload_def)
  then show ?thesis using r'(1) by (simp add: jhis_uninstall_def c isSessionPresent_iff)
qed

theorem uninstall_refused_in_use_witness:
  "\<exists>s'. run_state (jhis_uninstall sample_platform sample_app None)
      ((sample_with [(1, 0, [2])])\<lparr>applets := [(sample_app, installed_record)]\<rparr>) =
        (JHI_UNINSTALL_FAILURE_SESSIONS_EXISTS, s')
    \<and> applets s' = [(sample_app, installed_record)]"
proof -
  let ?s = "(sample_with [(1, 0, [2])])\<lparr>applets := [(sample_app, installed_record)]\<rparr>"
  have "sm_inv (sessions ?s)" "applets_inv (applets ?s)"
    "getAppletState sample_app (applets ?s) \<noteq> NOT_INSTALLED \<or> vmType (globals ?s) = JHI_VM_TYPE_BEIHAI_V2"
    "session (sample_id 1) (sessions ?s) = Some (sample_session 0 [2] 1)"
    "appId (sample_session 0 [2] 1) = toUpperCase sample_app"
    "list_ex (\<lambda>p. \<not> processIsDead sample_platform (world ?s) p) (ownersList (sample_session 0 [2] 1))"
    "applets ?s = [(sample_app, installed_record)]"
    by code_simp+
  from uninstall_refused_in_use [OF this(1-6)] this(7) show ?thesis by metis
qed

text \<open>
  C34: uninstalling an applet without sessions, when the firmware unloads it: the call succeeds, the
  record is gone, no other record changed, and one file is deleted from the repository: the DALP
  package when there is one, otherwise the ACP package.
\<close>

theorem uninstall_removes_applet:
  assumes "no_session app (sessions s)" "applets_inv (applets s)" "isAppletRecordPresent app (applets s)"
    "io (fsys s) = []" "plugin_registered (globals s)" "plugin_table (globals s)"
    "\<And>w. fst (JHI_Plugin_UnloadApplet pf app w) = JHI_SUCCESS"
    "getFileName (globals s) app False \<notin> set (folders (fsys s))"
    "getFileName (globals s) app True \<notin> set (folders (fsys s))"
  shows "\<exists>s'. run_state (jhis_uninstall pf app None) s = (JHI_SUCCESS, s')
    \<and> \<not> isAppletRecordPresent app (applets s')
    \<and> (\<forall>k. k \<noteq> app \<longrightarrow> smap_find (applets s') k = smap_find (applets s) k)
    \<and> files (fsys s') =
        smap_erase (getFileName (globals s) app
          (smap_find (files (fsys s)) (getFileName (globals s) app False) = None)) (files (fsys s))"
proof -
  obtain s1 where s1: "run_state (cleanup_for pf app) s = ((), s1)"
    by (cases "run_state (cleanup_for pf app) s") simp
  note c = cleanup_run [OF s1]
  have "no_session app (sessions s1)" using preservesD [OF idle.cleanup_pres assms(1) s1] .
  then have live: "\<not> hasLiveSessions app (sessions s1)" by (simp add: no_session_def)
  obtain w where w: "JHI_Plugin_UnloadApplet pf app (world s1) = (JHI_SUCCESS, w)"
    using assms(7) by (metis prod.collapse)
  have st: "valid_app_state (getAppletState app (applets s))" "getAppletState app (applets s) \<noteq> NOT_INSTALLED"
    using applets_inv_state [OF assms(2)] assms(2,3) getAppletState_none [OF assms(2)]
    by (cases "getAppletState app (applets s)"; auto simp: valid_app_state_def isAppletRecordPresent_def)+
  let ?s2 = "s1\<lparr>world := w, applets := smap_erase app (applets s)\<rparr>"
  have unload: "run_state (jhis_unload pf app None) s = (JHI_SUCCESS, ?s2)"
    using assms(3,5,6) live s1 st
    by (simp add: jhis_unload_def c w remove_record_def applet_remove_def isAppletRecordPresent_def)
  show ?thesis
    using assms(4,8,9)
    by (auto simp: jhis_uninstall_def unload c appletExistInRepository_def syncAppletRepoToDisk_def run_on_fsys
        run_access_ok run_remove_ok run_sync_file path_exists_def isAppletRecordPresent_def tab.find_erase
        smap_erase_absent split: if_splits)
qed

theorem uninstall_removes_applet_witness:
  "\<exists>s'. run_state (jhis_uninstall sample_platform sample_app None) sample_installed = (JHI_SUCCESS, s')
    \<and> \<not> isAppletRecordPresent sample_app (applets s')
    \<and> files (fsys s') = [(''/tmp/a.acp'', [1, 2, 3])]"
proof -
  have "fst (JHI_Plugin_UnloadApplet sample_platform sample_app w) = JHI_SUCCESS" for w
    by (simp add: sample_platform_def)
  moreover have "smap_erase (getFileName (globals sample_installed) sample_app
      (smap_find (files (fsys sample_installed)) (getFileName (globals sample_installed) sample_app False) = None))
      (files (fsys sample_installed)) = [(''/tmp/a.acp'', [1, 2, 3])]"
    by code_simp
  ultimately show ?thesis
    using uninstall_removes_applet [OF sample_installed_facts(1-6) _ sample_installed_facts(7,8)] by metis
qed

text \<open>
  \<^verbatim>\<open>completeInstall\<close> deletes the applet's packages before it renames the pending file: when the
  rename fails, the installation is reported as failed, but the package that was installed before is
  lost while its record still says installed.
\<close>

theorem failed_rename_loses_package:
  assumes "io (fsys s) = [Io_ok, Io_ok, Io_fail n]" "getAppletState app (applets s) = INSTALLED"
  shows "\<exists>s'. run_state (completeInstall app isAcp) s = (False, s')
    \<and> getAppletState app (applets s') = INSTALLED
    \<and> smap_find (files (fsys s')) (getFileName (globals s) app True) = None
    \<and> smap_find (files (fsys s')) (getFileName (globals s) app False) = None"
proof -
  let ?g = "globals s" and ?fs = "fsys s"
  let ?n = "getFileName ?g app isAcp" and ?o = "getFileName ?g app (\<not> isAcp)"
  let ?del = "\<lambda>l. ?fs\<lparr>files := smap_erase ?o (smap_erase ?n (files ?fs)), io := l\<rparr>"
  obtain b1 where r1: "run_state (remove_ok ?n) ?fs =
      (b1, ?fs\<lparr>io := [Io_ok, Io_fail n], files := smap_erase ?n (files ?fs)\<rparr>)"
    using assms(1) by (cases "smap_find (files ?fs) ?n") (auto simp: remove_ok_def next_io_def smap_erase_absent)
  obtain b2 where r2: "run_state (remove_ok ?o) (?fs\<lparr>io := [Io_ok, Io_fail n], files := smap_erase ?n (files ?fs)\<rparr>) =
      (b2, ?del [Io_fail n])"
    by (cases "smap_find (smap_erase ?n (files ?fs)) ?o") (auto simp: remove_ok_def next_io_def smap_erase_absent)
  have r3: "run_state (rename_ok (getPendingFileName ?g app isAcp) ?n) (?del [Io_fail n]) = (False, ?del [])"
    by (simp add: rename_ok_def next_io_def split: option.split)
  have sync: "\<exists>b. run_state (syncAppletToDisk app) (s\<lparr>fsys := ?del []\<rparr>) = (b, s\<lparr>fsys := ?del []\<rparr>)"
    by (auto simp: syncAppletToDisk_def syncAppletRepoToDisk_def run_on_fsys run_sync_file)
  then have "run_state (completeInstall app isAcp) s = (False, s\<lparr>fsys := ?del []\<rparr>)"
    by (auto simp: completeInstall_def run_on_fsys r1 r2 r3)
  then show ?thesis
    using assms(2) by (cases isAcp) (simp_all add: tab.find_erase)
qed

theorem failed_rename_loses_package_witness:
  "\<exists>s'. run_state (completeInstall sample_app True)
      (sample_installed\<lparr>fsys := (fsys sample_installed)\<lparr>io := [Io_ok, Io_ok, Io_fail 0]\<rparr>\<rparr>) = (False, s')
    \<and> getAppletState sample_app (applets s') = INSTALLED"
proof -
  let ?s = "sample_installed\<lparr>fsys := (fsys sample_installed)\<lparr>io := [Io_ok, Io_ok, Io_fail 0]\<rparr>\<rparr>"
  have "io (fsys ?s) = [Io_ok, Io_ok, Io_fail 0]" "getAppletState sample_app (applets ?s) = INSTALLED"
    by code_simp+
  from failed_rename_loses_package [OF this] show ?thesis by blast
qed

text \<open>
  When the firmware answers that it does not know the applet, \<^verbatim>\<open>jhis_uninstall\<close> deletes the package
  and reports success, but the applet's record stays in the table as it was.
\<close>

theorem uninstall_may_leave_record:
  assumes "no_session app (sessions s)" "applets_inv (applets s)" "isAppletRecordPresent app (applets s)"
    "io (fsys s) = []" "plugin_registered (globals s)" "plugin_table (globals s)"
    "\<And>w. fst (JHI_Plugin_UnloadApplet pf app w) = TEE_STATUS_TA_DOES_NOT_EXIST"
    "smap_find (files (fsys s)) (getFileName (globals s) app False) \<noteq> None"
  shows "\<exists>s'. run_state (jhis_uninstall pf app None) s = (JHI_SUCCESS, s')
    \<and> applets s' = applets s
    \<and> smap_find (files (fsys s')) (getFileName (globals s) app False) = None"
proof -
  obtain s1 where s1: "run_state (cleanup_for pf app) s = ((), s1)"
    by (cases "run_state (cleanup_for pf app) s") simp
  note c = cleanup_run [OF s1]
  have "no_session app (sessions s1)" using preservesD [OF idle.cleanup_pres assms(1) s1] .
  then have live: "\<not> hasLiveSessions app (sessions s1)" by (simp add: no_session_def)
  obtain w where w: "JHI_Plugin_UnloadApplet pf app (world s1) = (TEE_STATUS_TA_DOES_NOT_EXIST, w)"
    using assms(7) by (metis prod.collapse)
  have unload: "run_state (jhis_unload pf app None) s = (TEE_STATUS_TA_DOES_NOT_EXIST, s1\<lparr>world := w\<rparr>)"
    using assms(5,6) live s1 present_state [OF assms(2,3)] by (simp add: jhis_unload_def c w)
  show ?thesis
    using assms(4,8)
    by (auto simp: jhis_uninstall_def unload c appletExistInRepository_def syncAppletRepoToDisk_def run_on_fsys
        run_access_ok run_remove_ok run_sync_file path_exists_def tab.find_erase)
qed

theorem uninstall_may_leave_record_witness:
  "\<exists>s'. run_state (jhis_uninstall (refusing_platform TEE_STATUS_TA_DOES_NOT_EXIST) sample_app None)
      (sample_installed\<lparr>fsys := (fsys sample_installed)\<lparr>files := [(''/repo/'' @ sample_app @ ''.dalp'', [1])]\<rparr>\<rparr>) =
        (JHI_SUCCESS, s') \<and> applets s' = [(sample_app, installed_record)]"
proof -
  let ?s = "sample_installed\<lparr>fsys := (fsys sample_installed)\<lparr>files := [(''/repo/'' @ sample_app @ ''.dalp'', [1])]\<rparr>\<rparr>"
  have "no_session sample_app (sessions ?s)" "applets_inv (applets ?s)" "isAppletRecordPresent sample_app (applets ?s)"
    "io (fsys ?s) = []" "plugin_registered (globals ?s)" "plugin_table (globals ?s)"
    "smap_find (files (fsys ?s)) (getFileName (globals ?s) sample_app False) \<noteq> None"
    "applets ?s = [(sample_app, installed_record)]"
    by code_simp+
  note facts = this
  have "fst (JHI_Plugin_UnloadApplet (refusing_platform TEE_STATUS_TA_DOES_NOT_EXIST) sample_app w) =
      TEE_STATUS_TA_DOES_NOT_EXIST" for w
    by (simp add: refusing_platform_def)
  from uninstall_may_leave_record [OF facts(1-6) this facts(7)] facts(8) show ?thesis by metis
qed

end
