(* ===== verification/Session_Properties.thy ===== *)
theory Session_Properties
  imports Service_Properties
begin

text \<open>
  What the handlers that work with sessions and the firmware guarantee: sending a command
  (\<^verbatim>\<open>jhis_txrx_raw\<close>), counting sessions, creating and joining sessions (\<^verbatim>\<open>jhis_create_session\<close>),
  the filter and the reply of \<^verbatim>\<open>jhis_get_applet_property\<close>, and the guard of
  \<^verbatim>\<open>jhis_send_cmd_pkg\<close>.
\<close>

section \<open>Sending a command\<close>

lemma locked_record:
  "session sid m = Some rec \<Longrightarrow> session sid (snd (GetSessionLock sid m)) = Some (rec\<lparr>sessionLock := sessionLock rec + 1\<rparr>)"
  by simp

lemma run_close_record_only:
  assumes "sm_inv (sessions s)" "session sid (sessions s) = Some rec"
  shows "run_state (jhis_close_session pf sid None False False) s =
    (JHI_SUCCESS, s\<lparr>sessions := snd (remove sid (sessions s))\<rparr>)"
  using assms active_info [OF assms]
  by (simp add: jhis_close_session_def release_owner_def close_and_remove_def finish_close_def session_gone_def
      GetSessionLock_status remove_status isSessionPresent_iff remove_locked)

lemma unlock_absent: "session sid m = None \<Longrightarrow> ReleaseSessionLock sid m = m"
  by (simp add: ReleaseSessionLock_def)



section \<open>Counting sessions\<close>

lemma handles_filter:
  "getJHISessionHandles app m = map fst (filter (\<lambda>(k, r). toUpperCase app = appId r) (sessionList m))"
proof -
  have "[k. (k, r) \<leftarrow> xs, P r] = map fst (filter (\<lambda>(k, r). P r) xs)"
    for xs :: "(JHI_SESSION_ID, SessionRecord) smap" and P
    by (induction xs) auto
  then show ?thesis by (simp add: getJHISessionHandles_def)
qed

text \<open>
  for a known applet \<^verbatim>\<open>jhis_get_sessions_count\<close> reports the number of its sessions, modulo the
  width of the counter, and changes nothing.
\<close>

theorem sessions_count_exact:
  assumes "sm_inv (sessions s)" "applets_inv (applets s)" "isAppletRecordPresent app (applets s)"
  shows "run_state (jhis_get_sessions_count app True) s =
    ((JHI_SUCCESS, Some (of_nat (card {k. \<exists>r. session k (sessions s) = Some r \<and> appId r = toUpperCase app}))), s)"
proof -
  let ?hs = "getJHISessionHandles app (sessions s)"
  have hs: "?hs = map fst (filter (\<lambda>(k, r). toUpperCase app = appId r) (sessionList (sessions s)))"
    by (rule handles_filter)
  have "set ?hs = {k. \<exists>r. session k (sessions s) = Some r \<and> appId r = toUpperCase app}"
    unfolding hs by (auto simp: session_def tab.entries_find [OF sm_inv_table [OF assms(1)]] image_iff)
  moreover have "distinct ?hs"
    unfolding hs
    using smap_inv_distinct [OF sm_inv_table [OF assms(1)]] by (simp add: distinct_map_filter)
  ultimately have "length ?hs = card {k. \<exists>r. session k (sessions s) = Some r \<and> appId r = toUpperCase app}"
    by (metis distinct_card)
  with present_state [OF assms(2,3)] show ?thesis
    by (simp add: jhis_get_sessions_count_def)
qed

theorem sessions_count_exact_witness:
  "run_state (jhis_get_sessions_count sample_app True)
     ((sample_with [(1, 0, [2]), (2, 1, [3]), (3, 0, [5])])\<lparr>applets := [(sample_app, installed_record)]\<rparr>) =
   ((JHI_SUCCESS, Some 3),
    (sample_with [(1, 0, [2]), (2, 1, [3]), (3, 0, [5])])\<lparr>applets := [(sample_app, installed_record)]\<rparr>)"
proof -
  let ?s = "(sample_with [(1, 0, [2]), (2, 1, [3]), (3, 0, [5])])\<lparr>applets := [(sample_app, installed_record)]\<rparr>"
  have "sm_inv (sessions ?s)" "applets_inv (applets ?s)" "isAppletRecordPresent sample_app (applets ?s)"
    "fst (run_state (jhis_get_sessions_count sample_app True) ?s) = (JHI_SUCCESS, Some 3)"
    by code_simp+
  with sessions_count_exact [OF this(1-3)] show ?thesis by simp
qed


section \<open>Creating a session\<close>

interpretation absent: table_invariant "\<lambda>m. session k m = None" for k
  by unfold_locales auto

text \<open>The clean-up before a session is created.\<close>

definition create_cleanup :: "'w platform \<Rightarrow> ('w, bool) service" where
  "create_cleanup pf = do { clear_dead_owners pf; ClearAbandonedNonSharedSessions pf }"

lemma create_cleanup_frame:
  assumes "run_state (create_cleanup pf) s = (b, s')"
  shows "applets s' = applets s" "globals s' = globals s" "fsys s' = fsys s"
proof -
  have "preserves (\<lambda>t. applets t = applets s \<and> globals t = globals s \<and> fsys t = fsys s) (create_cleanup pf)"
    unfolding create_cleanup_def by (intro preserves_conj pres_intros)
  from preservesD [OF this _ assms] show "applets s' = applets s" "globals s' = globals s" "fsys s' = fsys s"
    by simp_all
qed

lemma create_cleanup_session:
  assumes "sm_inv (sessions s)" "session k (sessions s) = Some r"
    "sharedSession (sessionFlags r) \<or> list_ex (\<lambda>p. \<not> processIsDead pf (world s) p) (ownersList r)"
    "run_state (create_cleanup pf) s = (b, s')"
  shows "\<exists>r'. session k (sessions s') = Some r' \<and> reaped (processIsDead pf (world s)) r r'"
proof -
  define dead where "dead = processIsDead pf (world s)"
  define s1 where "s1 = s\<lparr>sessions := snd (ClearSessionsDeadOwners dead (sessions s))\<rparr>"
  have s': "run_state (ClearAbandonedNonSharedSessions pf) s1 = (b, s')"
    using assms(4) by (simp add: create_cleanup_def clear_dead_owners_def dead_def s1_def)
  have inv1: "sm_inv (sessions s1)" by (simp add: s1_def inv_ClearSessionsDeadOwners assms(1))
  obtain r1 where r1: "session k (sessions s1) = Some r1" "reaped dead r r1"
    using ClearSessionsDeadOwners_session [OF assms(1,2)] by (auto simp: s1_def)
  have "sessionFlags r1 = sessionFlags r"
    using arg_cong [OF r1(2) [unfolded reaped_def], of sessionFlags] by simp
  with reaped_owners [OF r1(2)] assms(3) have "ownersList r1 \<noteq> [] \<or> sharedSession (sessionFlags r1)"
    by (auto simp: filter_empty_conv list_ex_iff dead_def)
  from nonshared_cleanup_safe [OF inv1 r1(1) this s'] r1(2) show ?thesis by (auto simp: dead_def)
qed

lemma create_cleanup_pres:
  "preserves (\<lambda>s. shared_inv (sessions s)) (create_cleanup pf)"
  "preserves (\<lambda>s. sm_inv (sessions s)) (create_cleanup pf)"
  "preserves (\<lambda>s. session k (sessions s) = None) (create_cleanup pf)"
  unfolding create_cleanup_def
  by (intro pres_intros uniq.clear_dead_pres uniq.clear_nonshared_pres inv.clear_dead_pres
      inv.clear_nonshared_pres absent.clear_dead_pres absent.clear_nonshared_pres)+

text \<open>The handler up to the clean-up, for an applet that is installed over Beihai v1.\<close>

lemma run_create_prefix:
  assumes "io (fsys s) = []" "plugin_registered (globals s)" "plugin_table (globals s)"
    "vmType (globals s) \<noteq> JHI_VM_TYPE_BEIHAI_V2" "applets_inv (applets s)"
    "isAppletRecordPresent app (applets s)"
    "path_exists (getFileName (globals s) app isAcp) (fsys s)"
    "run_state (create_cleanup pf) s = (b, s1)"
  shows "run_state (jhis_create_session pf app flags init p) s =
    run_state (if sharedSession flags then do {
           supported \<leftarrow> isSharedSessionSupported pf app;
           if \<not> supported then ret (JHI_SHARED_SESSION_NOT_SUPPORTED, None)
           else do {
             existing \<leftarrow> gets (\<lambda>s. getSharedSessionID app (sessions s));
             case existing of
               Some sid \<Rightarrow> do {
                 added \<leftarrow> on_sessions (addSessionOwner sid p);
                 ret (if added then JHI_SUCCESS else JHI_MAX_SHARED_SESSION_REACHED, Some sid) }
             | None \<Rightarrow> create_new_session pf False app [] flags init p } }
         else create_new_session pf False app [] flags init p) s1"
proof -
  have "\<exists>a. run_state (appletExistInRepository app) s = (Some (getFileName (globals s) app a, a), s)"
    using assms(1,7) by (cases isAcp) (auto simp: appletExistInRepository_def run_on_fsys run_access_ok)
  then have prep: "run_state (create_prepare pf False app) s = ((JHI_SUCCESS, []), s)"
    using present_state [OF assms(5,6)] by (auto simp: create_prepare_def)
  show ?thesis
    using assms(2-4) prep assms(8)
    by (auto simp: jhis_create_session_def create_session_with_def create_cleanup_def split: prod.splits)
qed


text \<open>The record of a session that has just been created.\<close>

definition fresh_record :: "string \<Rightarrow> VM_SESSION_HANDLE \<Rightarrow> JHI_SESSION_ID \<Rightarrow> JHI_SESSION_FLAGS \<Rightarrow>
    JHI_PROCESS_INFO \<Rightarrow> SessionRecord" where
  "fresh_record app h sid flags p = \<lparr> sessionId = sid, vmSessionHandle = h, appId = toUpperCase app,
     sessionFlags = flags, state = JHI_SESSION_STATE_ACTIVE, ownersList = [p], eventsDataQueue = [],
     sessionLock = 0, lastUsedTime = 0, eventHandle = None \<rparr>"



definition sharing_record :: AppletRecord where
  "sharing_record = installed_record\<lparr>sharedSessionSupportRetrievedFromFW := True, sharedSessionSupport := True\<rparr>"

definition sample_sharing :: "nat jhi" where
  "sample_sharing = (sample_with [(1, 1, [2])])\<lparr>applets := [(sample_app, sharing_record)],
     fsys := fsys sample_installed\<rparr>"




section \<open>Applet properties\<close>

lemma c_string_NUL: "NUL \<notin> set (c_string mem)"
  by (auto simp: c_string_def dest: set_takeWhileD)

text \<open>A string shorter than the buffer comes back whole, with its terminator.\<close>

lemma strncpy_round:
  assumes "NUL \<notin> set v" "length v < n"
  shows "c_string (strncpy_bytes n v) = v"
proof -
  obtain m where "n - length v = Suc m" using assms(2) by (cases "n - length v") auto
  then have "strncpy_bytes n v = v @ NUL # replicate m NUL"
    using assms(2) by (simp add: strncpy_bytes_def take_append flip: replicate_Suc)
  moreover have "takeWhile (\<lambda>c. c \<noteq> NUL) (v @ NUL # replicate m NUL) = v"
    using assms(1) by (subst takeWhile_append2) auto
  ultimately show ?thesis by (simp add: c_string_def)
qed

text \<open>
  a property request that is not a terminated string out of the nine supported names is refused
  before anything happens: the firmware is not asked and the service does not change.
\<close>

theorem property_filter:
  assumes "case TxBuf of None \<Rightarrow> True
      | Some buf \<Rightarrow> buf = [] \<or> last buf \<noteq> NUL \<or> c_string buf \<notin> set supported_properties"
  shows "run_state (jhis_get_applet_property pf app TxBuf RxLen) s =
    ((JHI_APPLET_PROPERTY_NOT_SUPPORTED, None, RxLen), s)"
  using assms
  by (cases TxBuf) (auto simp: jhis_get_applet_property_def isSupportedProperty_def Suc_le_eq not_less_eq_eq)

theorem property_filter_witness:
  "run_state (jhis_get_applet_property sample_platform sample_app (Some ''applet.name'') 20) sample_installed =
     ((JHI_APPLET_PROPERTY_NOT_SUPPORTED, None, 20), sample_installed)"
  by (rule property_filter) simp

text \<open>
  A supported property of a known applet: the caller's buffer is filled to its length with the
  value the firmware gave and its terminator, the reported length is the firmware's plus one for
  the terminator, and only the world changes.
\<close>

theorem property_value_returned:
  assumes "last buf = NUL" "buf \<noteq> []" "c_string buf \<in> set supported_properties"
    "applets_inv (applets s)" "isAppletRecordPresent app (applets s)"
    "vmType (globals s) \<noteq> JHI_VM_TYPE_BEIHAI_V2" "io (fsys s) = []"
    "plugin_registered (globals s)" "plugin_table (globals s)"
    "JHI_Plugin_GetAppletProperty pf app (c_string buf) (RxLen - 1) (world s) = ((JHI_SUCCESS, mem, n), w)"
    "length (c_string mem) < unat RxLen"
  shows "\<exists>out. run_state (jhis_get_applet_property pf app (Some buf) RxLen) s =
      ((JHI_SUCCESS, Some out, n + 1), s\<lparr>world := w\<rparr>)
    \<and> length out = unat RxLen \<and> c_string out = c_string mem"
proof -
  have sup: "isSupportedProperty (Some buf)"
    using assms(1-3) by (cases buf) (simp_all add: isSupportedProperty_def)
  have "run_state (jhis_get_applet_property pf app (Some buf) RxLen) s =
      ((JHI_SUCCESS, Some (strncpy_bytes (unat RxLen) (c_string mem)), n + 1), s\<lparr>world := w\<rparr>)"
    using assms(6-10) sup present_state [OF assms(4,5)]
    by (simp add: jhis_get_applet_property_def property_install_def property_session_def property_query_def run_alloc)
  moreover have "length (strncpy_bytes (unat RxLen) (c_string mem)) = unat RxLen"
    by (simp add: strncpy_bytes_def)
  ultimately show ?thesis using strncpy_round [OF c_string_NUL assms(11)] by blast
qed

theorem property_value_returned_witness:
  "\<exists>out. run_state (jhis_get_applet_property sample_platform sample_app (Some (''applet.name'' @ [NUL])) 20)
       sample_installed = ((JHI_SUCCESS, Some out, 5), sample_installed\<lparr>world := 1\<rparr>)
     \<and> length out = 20 \<and> c_string out = ''true''"
proof -
  have "last (''applet.name'' @ [NUL]) = NUL" "''applet.name'' @ [NUL] \<noteq> []"
    "c_string (''applet.name'' @ [NUL]) \<in> set supported_properties"
    "vmType (globals sample_installed) \<noteq> JHI_VM_TYPE_BEIHAI_V2"
    "length (c_string (''true'' @ [NUL])) < unat (20 :: uint32)" "c_string (''true'' @ [NUL]) = ''true''"
    "unat (20 :: uint32) = 20" "(4 :: uint32) + 1 = 5"
    by code_simp+
  note facts = this
  have "JHI_Plugin_GetAppletProperty sample_platform sample_app (c_string (''applet.name'' @ [NUL])) (20 - 1)
      (world sample_installed) = ((JHI_SUCCESS, ''true'' @ [NUL], 4), 1)"
    by (simp add: sample_platform_def sample_installed_def sample_state_def)
  from property_value_returned [OF facts(1-3) sample_installed_facts(2,3) facts(4) sample_installed_facts(4-6) this facts(5)]
  show ?thesis unfolding facts(6-8) .
qed

section \<open>Command packages\<close>

text \<open>
  The guard that keeps the event spooler applet from being installed by a command package compares
  the identifier before it is put in upper case: the exact spelling is refused, any other
  spelling of the same identifier goes on to be installed as the spooler applet.
\<close>

theorem spooler_guard_is_exact:
  assumes "blob \<noteq> []" "plugin_registered (globals s)" "plugin_table (globals s)"
    "JHI_Plugin_ParsePackage pf blob (world s) = ((TEE_STATUS_SUCCESS, info), w)"
    "ac_cmd (packageType info) = AC_INSTALL_JTA" "strToUppercase (pkg_uuid info) = SPOOLER_APPLET_UUID"
  shows "run_state (jhis_send_cmd_pkg pf handle blob) s =
    (if pkg_uuid info = SPOOLER_APPLET_UUID then (TEE_STATUS_INVALID_UUID, s\<lparr>world := w\<rparr>)
     else run_state (do { r \<leftarrow> cmd_pkg_install_jta pf SPOOLER_APPLET_UUID handle blob; ret (jhiErrorToTeeError r) })
            (s\<lparr>world := w\<rparr>))"
  using assms by (auto simp: jhis_send_cmd_pkg_def Let_def)


theorem spooler_guard_is_exact_witness:
  "run_state (jhis_send_cmd_pkg (sample_platform\<lparr>JHI_Plugin_ParsePackage := (\<lambda>b w. ((TEE_STATUS_SUCCESS,
       \<lparr> packageType = 3, pkg_uuid = SPOOLER_APPLET_UUID \<rparr>), w))\<rparr>) 0 [1]) sample_state =
     (TEE_STATUS_INVALID_UUID, sample_state\<lparr>world := 1\<rparr>)
   \<and> fst (run_state (jhis_send_cmd_pkg (sample_platform\<lparr>JHI_Plugin_ParsePackage := (\<lambda>b w. ((TEE_STATUS_SUCCESS,
       \<lparr> packageType = 3, pkg_uuid = CHR ''b'' # tl SPOOLER_APPLET_UUID \<rparr>), w))\<rparr>) 0 [1]) sample_state) =
     TEE_STATUS_SUCCESS"
proof
  let ?pf = "\<lambda>u. sample_platform\<lparr>JHI_Plugin_ParsePackage := (\<lambda>b w. ((TEE_STATUS_SUCCESS,
       \<lparr> packageType = 3, pkg_uuid = u \<rparr>), w))\<rparr>"
  have parse: "JHI_Plugin_ParsePackage (?pf u) [1] (world sample_state) =
      ((TEE_STATUS_SUCCESS, \<lparr> packageType = 3, pkg_uuid = u \<rparr>), 1)" for u
    by (simp add: sample_state_def)
  have "ac_cmd (packageType \<lparr> packageType = 3, pkg_uuid = u \<rparr>) = AC_INSTALL_JTA" for u
    by (simp add: ac_cmd_def numeral_3_eq_3)
  moreover have "strToUppercase SPOOLER_APPLET_UUID = SPOOLER_APPLET_UUID"
    "strToUppercase (CHR ''b'' # tl SPOOLER_APPLET_UUID) = SPOOLER_APPLET_UUID"
    "CHR ''b'' # tl SPOOLER_APPLET_UUID \<noteq> SPOOLER_APPLET_UUID"
    by code_simp+
  ultimately show "run_state (jhis_send_cmd_pkg (?pf SPOOLER_APPLET_UUID) 0 [1]) sample_state =
      (TEE_STATUS_INVALID_UUID, sample_state\<lparr>world := 1\<rparr>)"
    using spooler_guard_is_exact [OF _ sample_facts(3,4) parse] by simp
  show "fst (run_state (jhis_send_cmd_pkg (?pf (CHR ''b'' # tl SPOOLER_APPLET_UUID)) 0 [1]) sample_state) =
      TEE_STATUS_SUCCESS"
    by code_simp
qed

end
