(* ===== verification/Handler_Invariants.thy ===== *)
theory Handler_Invariants
  imports Applet_Service
begin

text \<open>
  What every handler keeps: none of them changes the settings of the service (\<^verbatim>\<open>GlobalsManager\<close>), and each
  keeps the invariant of the applet table. The invariants of the session table are
  the interpretations of \<open>table_invariant\<close> and \<open>table_invariant_add\<close>.
\<close>

section \<open>What the handlers leave alone\<close>

lemma globals_cleanup [pres_intros]:
  "preserves (\<lambda>s. J (globals s) (events s)) (cleanup_for pf app)"
  "preserves (\<lambda>s. J (globals s) (events s)) (remove_record app)"
  "preserves (\<lambda>s. J (globals s) (events s)) (TryRemoveUnusedSharedSession pf b)"
  unfolding cleanup_for_def remove_record_def TryRemoveUnusedSharedSession_def by (intro pres_intros)+

lemma globals_unload [pres_intros]: "preserves (\<lambda>s. J (globals s) (events s)) (jhis_unload pf app pkg)"
  unfolding jhis_unload_def by (intro pres_intros)

lemma globals_unload_all [pres_intros]: "preserves (\<lambda>s. J (globals s) (events s)) (unload_all pf b apps)"
  by (induction apps arbitrary: b) (auto intro!: pres_intros)

lemma globals_download [pres_intros]: "preserves (\<lambda>s. J (globals s) (events s)) (download_blobs pf app r blobs)"
  by (induction blobs arbitrary: r) (auto intro!: pres_intros)

lemma globals_redownload [pres_intros]: "preserves (\<lambda>s. J (globals s) (events s)) (redownload_blobs pf app r blobs)"
  by (induction blobs arbitrary: r) (auto intro!: pres_intros)

lemma globals_create_blobs [pres_intros]:
  "preserves (\<lambda>s. J (globals s) (events s)) (create_from_blobs pf app sid ib q blobs)"
  by (induction blobs arbitrary: q) (auto intro!: pres_intros)

lemma globals_install [pres_intros]:
  "preserves (\<lambda>s. J (globals s) (events s)) (TryUnloadUnusedApplet pf)"
  "preserves (\<lambda>s. J (globals s) (events s)) (error_remove_applet app isAcp)"
  "preserves (\<lambda>s. J (globals s) (events s)) (jhis_uninstall pf app pkg)"
  unfolding TryUnloadUnusedApplet_def UnloadAppletWithNoSessions_def error_remove_applet_def jhis_uninstall_def
  by (intro pres_intros)+

lemma globals_install2 [pres_intros]:
  "preserves (\<lambda>s. J (globals s) (events s)) (jhis_install pf app path vis isAcp)"
  "preserves (\<lambda>s. J (globals s) (events s)) (cmd_pkg_install_jta pf app handle blob)"
  unfolding jhis_install_def cmd_pkg_install_jta_def by (intro pres_intros)+

lemma globals_send_cmd [pres_intros]: "preserves (\<lambda>s. J (globals s) (events s)) (jhis_send_cmd_pkg pf handle blob)"
  unfolding jhis_send_cmd_pkg_def
  by (auto simp: Let_def intro!: pres_intros split: AC_CMD_ID.split)

lemma globals_create [pres_intros]:
  "preserves (\<lambda>s. J (globals s) (events s)) (create_in_vm pf v2 app blobs sid b r)"
  "preserves (\<lambda>s. J (globals s) (events s)) (create_prepare pf v2 app)"
  unfolding create_in_vm_def create_prepare_def by (intro pres_intros)+

lemma globals_create_new [pres_intros]:
  "preserves (\<lambda>s. J (globals s) (events s)) (create_new_session pf v2 app blobs flags b p)"
  unfolding create_new_session_def by (intro pres_intros)

lemma globals_create_with [pres_intros]:
  "preserves (\<lambda>s. J (globals s) (events s)) (shared_supported app) \<Longrightarrow>
   preserves (\<lambda>s. J (globals s) (events s)) (create_session_with shared_supported pf app flags b p)"
  unfolding create_session_with_def by (intro pres_intros)

lemma globals_property [pres_intros]:
  "preserves (\<lambda>s. J (globals s) (events s)) (jhis_get_applet_property pf app tx rx)"
  unfolding jhis_get_applet_property_def property_install_def property_session_def property_query_def
  by (intro pres_intros)

lemma globals_handlers [pres_intros]:
  "preserves (\<lambda>s. J (globals s) (events s)) (jhis_create_session pf app flags b p)"
  "preserves (\<lambda>s. J (globals s) (events s)) (jhis_txrx_raw pf sid c tx rx)"
  "preserves (\<lambda>s. J (globals s) (events s)) (jhis_get_sessions_count app n)"
  unfolding jhis_create_session_def isSharedSessionSupported_def updateSharedSessionSupport_def
    jhis_txrx_raw_def jhis_get_sessions_count_def
  by (intro pres_intros)+

lemma scan_frame [pres_intros]:
  "preserves (\<lambda>s. J (globals s) (events s)) (scan_repository names)"
  "preserves (\<lambda>s. J' (applets s)) (scan_repository names)"
  "preserves (\<lambda>s. J'' (sessions s)) (scan_repository names)"
  by (induction names) (auto intro!: pres_intros)

lemma globals_update_list [pres_intros]: "preserves (\<lambda>s. J (globals s) (events s)) updateAppletsList"
  unfolding updateAppletsList_def register_uuid_def by (intro pres_intros)

lemma sessions_update_list [pres_intros]: "preserves (\<lambda>s. J (sessions s)) updateAppletsList"
  unfolding updateAppletsList_def register_uuid_def by (intro pres_intros)

section \<open>The invariant of the applet table through the handlers\<close>

lemma remove_record_inv: "preserves (\<lambda>s. applets_inv (applets s)) (remove_record app)"
  unfolding remove_record_def by (intro pres_intros applets_inv_set_applets applets_inv_erase)

lemma applets_cleanup [pres_intros]:
  "preserves (\<lambda>s. J (applets s)) (cleanup_for pf app)"
  "preserves (\<lambda>s. J (applets s)) (TryRemoveUnusedSharedSession pf b)"
  unfolding cleanup_for_def TryRemoveUnusedSharedSession_def by (intro pres_intros)+

lemma unload_inv: "preserves (\<lambda>s. applets_inv (applets s)) (jhis_unload pf app pkg)"
  unfolding jhis_unload_def by (intro pres_intros remove_record_inv)

lemma uninstall_inv: "preserves (\<lambda>s. applets_inv (applets s)) (jhis_uninstall pf app pkg)"
  unfolding jhis_uninstall_def by (intro pres_intros unload_inv)

lemma unload_all_inv: "preserves (\<lambda>s. applets_inv (applets s)) (unload_all pf b apps)"
  by (induction apps arbitrary: b) (auto intro!: pres_intros unload_inv)

lemma try_unload_inv: "preserves (\<lambda>s. applets_inv (applets s)) (TryUnloadUnusedApplet pf)"
  unfolding TryUnloadUnusedApplet_def UnloadAppletWithNoSessions_def by (intro pres_intros unload_inv)

lemma error_remove_inv: "preserves (\<lambda>s. applets_inv (applets s)) (error_remove_applet app isAcp)"
  unfolding error_remove_applet_def by (intro pres_intros remove_record_inv)

lemma applets_download [pres_intros]: "preserves (\<lambda>s. J (applets s)) (download_blobs pf app r blobs)"
  by (induction blobs arbitrary: r) (auto intro!: pres_intros)

lemma applets_redownload [pres_intros]: "preserves (\<lambda>s. J (applets s)) (redownload_blobs pf app r blobs)"
  by (induction blobs arbitrary: r) (auto intro!: pres_intros)

lemma applets_create_blobs [pres_intros]: "preserves (\<lambda>s. J (applets s)) (create_from_blobs pf app sid ib q blobs)"
  by (induction blobs arbitrary: q) (auto intro!: pres_intros)

lemma install_inv: "preserves (\<lambda>s. applets_inv (applets s)) (jhis_install pf app path vis isAcp)"
  unfolding jhis_install_def by (intro pres_intros try_unload_inv error_remove_inv two_phase_inv)

lemma cmd_install_inv: "preserves (\<lambda>s. applets_inv (applets s)) (cmd_pkg_install_jta pf app handle blob)"
  unfolding cmd_pkg_install_jta_def by (intro pres_intros try_unload_inv error_remove_inv two_phase_inv)

lemma send_cmd_inv: "preserves (\<lambda>s. applets_inv (applets s)) (jhis_send_cmd_pkg pf handle blob)"
  unfolding jhis_send_cmd_pkg_def
  by (auto simp: Let_def intro!: pres_intros cmd_install_inv uninstall_inv split: AC_CMD_ID.split)

lemma applets_txrx [pres_intros]: "preserves (\<lambda>s. J (applets s)) (jhis_txrx_raw pf sid c tx rx)"
  unfolding jhis_txrx_raw_def by (intro pres_intros)

lemma applets_create_new [pres_intros]:
  "preserves (\<lambda>s. J (applets s)) (create_new_session pf v2 app blobs flags b p)"
  unfolding create_new_session_def create_in_vm_def by (intro pres_intros)

lemma create_prepare_inv: "preserves (\<lambda>s. applets_inv (applets s)) (create_prepare pf v2 app)"
  unfolding create_prepare_def by (intro pres_intros install_inv)

lemma create_prepare_v2: "preserves (\<lambda>s. J (applets s)) (create_prepare pf True app)"
  unfolding create_prepare_def if_True by (intro pres_intros)

text \<open>Over Beihai v2 a session that is not shared is created without touching the applet table.\<close>

lemma create_v2_applets:
  "preserves (\<lambda>s. vmType (globals s) = JHI_VM_TYPE_BEIHAI_V2 \<and> J (applets s))
     (create_session_with f pf app 0 b p)"
  unfolding create_session_with_def
  apply (rule preserves_bind, (intro preserves_conj pres_intros)[1])
  apply (rule preserves_if, rule preserves_ret)
  apply (rule preserves_known [where c = True], simp)
  unfolding if_True
  apply (rule preserves_conj; intro pres_intros create_prepare_v2)
  done

text \<open>A property of an applet that has a record is read without touching the applet table.\<close>

lemma property_keeps_applets:
  assumes "applets_inv t" "isAppletRecordPresent app t"
  shows "preserves (\<lambda>s. (vmType (globals s) = JHI_VM_TYPE_BEIHAI_V2) = v \<and> applets s = t)
    (jhis_get_applet_property pf app tx rx)" (is "preserves ?I _")
proof -
  have st: "getAppletState app t \<noteq> NOT_INSTALLED"
    using getAppletState_none [OF assms(1)] assms(2) by (simp add: isAppletRecordPresent_def)
  have inst: "preserves ?I (property_install pf app)"
    unfolding property_install_def
    by (rule preserves_known [where c = "getAppletState app t"]) (simp_all add: st preserves_ret)
  have create: "preserves ?I (create_session_with f pf app 0 b p)" if v for f b p
    using create_v2_applets [where J = "\<lambda>a. a = t"] that by simp
  have sess: "preserves ?I (property_session pf v app)"
    unfolding property_session_def by (intro pres_intros create; simp)
  have query: "preserves ?I (property_query pf app x rx)" for x
    unfolding property_query_def by (rule preserves_conj; intro pres_intros)
  have close: "preserves ?I (jhis_close_session pf sid p force rm)" for sid p force rm
    by (rule preserves_conj; intro pres_intros)
  show ?thesis
    unfolding jhis_get_applet_property_def
    apply (intro preserves_if preserves_ret)
    apply (rule preserves_known [where c = v], simp)
    apply (intro pres_intros inst sess query close)
    done
qed

lemma applets_inv_status:
  "applets_inv t \<Longrightarrow> smap_find t k = Some r \<Longrightarrow> status r = PENDING_INSTALL \<or> status r = INSTALLED"
  by (simp add: applets_inv_iff)

lemma shared_support_inv: "preserves (\<lambda>s. applets_inv (applets s)) (isSharedSessionSupported pf app)"
proof -
  let ?I = "\<lambda>s. applets_inv (applets s) \<and> isAppletRecordPresent app (applets s)"
  have keeps: "preserves ?I (jhis_get_applet_property pf app tx rx)" for tx rx
    unfolding preserves_def
    by (metis preservesD [OF property_keeps_applets] prod.collapse)
  have put: "preserves ?I (set_applets (\<lambda>t. smap_put app (f (applet_at app t)) t))"
    if "\<And>r. status (f r) = status r" for f
    using that
    by (auto simp: preserves_def isAppletRecordPresent_def tab.find_put applet_at_def
        intro!: applets_inv_put dest: applets_inv_status)
  have upd: "preserves ?I (updateSharedSessionSupport pf app)"
    unfolding updateSharedSessionSupport_def by (intro pres_intros keeps put) simp_all
  have rest: "spec (\<lambda>s. applets_inv (applets s) \<and> isAppletRecordPresent app (applets s) = present)
      (if \<not> present then ret False
       else do {
         known \<leftarrow> gets (\<lambda>s. sharedSessionSupportRetrievedFromFW (applet_at app (applets s)));
         (if \<not> known then updateSharedSessionSupport pf app else ret ());
         gets (\<lambda>s. sharedSessionSupport (applet_at app (applets s))) })
      (\<lambda>_ s. applets_inv (applets s))" for present
  proof (cases present)
    case True
    have "preserves ?I (do {
         known \<leftarrow> gets (\<lambda>s. sharedSessionSupportRetrievedFromFW (applet_at app (applets s)));
         (if \<not> known then updateSharedSessionSupport pf app else ret ());
         gets (\<lambda>s. sharedSessionSupport (applet_at app (applets s))) })"
      by (intro pres_intros upd)
    with True show ?thesis by (simp add: spec_def preserves_def)
  next
    case False
    then show ?thesis by (simp add: spec_def)
  qed
  show ?thesis unfolding isSharedSessionSupported_def by (rule preserves_gets_bind [OF rest])
qed

lemma create_with_inv:
  "preserves (\<lambda>s. applets_inv (applets s)) (shared_supported app) \<Longrightarrow>
   preserves (\<lambda>s. applets_inv (applets s)) (create_session_with shared_supported pf app flags b p)"
  unfolding create_session_with_def by (intro pres_intros create_prepare_inv)

lemma create_session_inv: "preserves (\<lambda>s. applets_inv (applets s)) (jhis_create_session pf app flags b p)"
  unfolding jhis_create_session_def by (intro create_with_inv shared_support_inv)

lemma property_inv: "preserves (\<lambda>s. applets_inv (applets s)) (jhis_get_applet_property pf app tx rx)"
  unfolding jhis_get_applet_property_def property_install_def property_session_def property_query_def
  by (intro pres_intros install_inv create_with_inv)

lemma count_applets [pres_intros]: "preserves (\<lambda>s. J (applets s)) (jhis_get_sessions_count app n)"
  unfolding jhis_get_sessions_count_def by (intro pres_intros)

lemma updateAppletsList_inv: "preserves (\<lambda>s. applets_inv (applets s)) updateAppletsList"
proof -
  have "preserves (\<lambda>s. applets_inv (applets s)) (register_uuid u)" for u
    unfolding register_uuid_def by (intro pres_intros applets_inv_set_applets applets_inv_insert) simp_all
  then show ?thesis unfolding updateAppletsList_def by (intro pres_intros)
qed

end
