(* ===== verification/Jhi_Event.thy ===== *)
theory Jhi_Event
  imports File_System
begin

text \<open>
  The event object through which the service wakes an application, \<^verbatim>\<open>common/jhi_event_linux.cpp\<close>:
  a local socket, which the application creates and listens on and the service opens and writes to.
  One definition per method, in the file system monad: sockets themselves are not part of the
  file table, but \<^verbatim>\<open>clean\<close> deletes the file of the event's name, and that may be any file.
  A connection to a regular file is refused; otherwise the outcome of a socket call is the next
  outcome of the environment. The message counters are unbounded integers.
\<close>

definition connect_ok :: "string \<Rightarrow> bool fs" where
  "connect_ok path = do { r \<leftarrow> next_io; gets (\<lambda>f. r = Io_ok \<and> smap_find (files f) path = None) }"

text \<open>\<^verbatim>\<open>bind\<close> fails when the name exists.\<close>

definition bind_ok :: "string \<Rightarrow> bool fs" where
  "bind_ok path = do { r \<leftarrow> next_io; gets (\<lambda>f. r = Io_ok \<and> smap_find (files f) path = None) }"

text \<open>\<^verbatim>\<open>sizeof(sun_path) - 1\<close>\<close>

abbreviation SUN_PATH_LEN :: nat where "SUN_PATH_LEN \<equiv> 107"

definition JhiEvent_clean :: "JhiEvent \<Rightarrow> JhiEvent fs" where
  "JhiEvent_clean e0 = do {
     let e = e0\<lparr>is_created := False\<rparr>;
     e1 \<leftarrow> (if isClient e \<and> event_fd e then do {
              (case event_name e of None \<Rightarrow> ret False | Some n \<Rightarrow> remove_ok n);
              ret (e\<lparr>event_fd := False\<rparr>) }
            else ret (if clFd e then e\<lparr>clFd := False\<rparr> else e));
     ret (e1\<lparr>event_name := None, is_created := False\<rparr>) }"

text \<open>\<^verbatim>\<open>__open_create\<close>: the status and the object afterwards.\<close>

definition JhiEvent_open_create :: "JhiEvent \<Rightarrow> string option \<Rightarrow> bool \<Rightarrow> (bool \<times> JhiEvent) fs" where
  "JhiEvent_open_create e name isOpen =
     (case name of
        None \<Rightarrow> ret (False, e)
      | Some n \<Rightarrow>
          if is_created e then ret (False, e)
          else do {
            e1 \<leftarrow> JhiEvent_clean (e\<lparr>isClient := isOpen\<rparr>);
            a \<leftarrow> next_io;
            if a \<noteq> Io_ok then ret (False, e1)
            else do {
              let e2 = e1\<lparr>event_name := Some n\<rparr>;
              s \<leftarrow> next_io;
              if s \<noteq> Io_ok then ret (False, e2\<lparr>event_fd := False\<rparr>)
              else do {
                let e3 = e2\<lparr>event_fd := True\<rparr>;
                let sun_path = take SUN_PATH_LEN n;
                ok \<leftarrow> (if isOpen then connect_ok sun_path
                      else do {
                        remove_ok n;
                        b \<leftarrow> bind_ok sun_path;
                        if \<not> b then ret False
                        else do {
                          c \<leftarrow> next_io;
                          if c \<noteq> Io_ok then ret False
                          else do { l \<leftarrow> next_io; ret (l = Io_ok) } } });
                ret (if ok then (True, e3\<lparr>is_created := True\<rparr>) else (False, e3)) } } })"

definition JhiEvent_create :: "JhiEvent \<Rightarrow> string option \<Rightarrow> (bool \<times> JhiEvent) fs" where
  "JhiEvent_create e name = JhiEvent_open_create e name False"

definition JhiEvent_open :: "JhiEvent \<Rightarrow> string option \<Rightarrow> (bool \<times> JhiEvent) fs" where
  "JhiEvent_open e name = JhiEvent_open_create e name True"

definition JhiEvent_listenCl :: "JhiEvent \<Rightarrow> (bool \<times> JhiEvent) fs" where
  "JhiEvent_listenCl e =
     (if \<not> is_created e \<or> isClient e \<or> clFd e then ret (False, e)
      else do { r \<leftarrow> next_io; ret (r = Io_ok, e\<lparr>clFd := (r = Io_ok)\<rparr>) })"

definition JhiEvent_close :: "JhiEvent \<Rightarrow> (bool \<times> JhiEvent) fs" where
  "JhiEvent_close e =
     (if \<not> is_created e then ret (False, e) else do { e' \<leftarrow> JhiEvent_clean e; ret (True, e') })"

definition JhiEvent_wait :: "JhiEvent \<Rightarrow> (bool \<times> JhiEvent) fs" where
  "JhiEvent_wait e =
     (if \<not> is_created e \<or> isClient e \<or> \<not> clFd e then ret (False, e)
      else do { r \<leftarrow> next_io; ret (r = Io_ok, e\<lparr>rx_cnt := rx_cnt e + 1\<rparr>) })"

definition JhiEvent_set :: "JhiEvent \<Rightarrow> (bool \<times> JhiEvent) fs" where
  "JhiEvent_set e =
     (if \<not> is_created e \<or> \<not> event_fd e \<or> \<not> isClient e then ret (False, e)
      else do { r \<leftarrow> next_io; ret (r = Io_ok, e\<lparr>tx_cnt := tx_cnt e + 1\<rparr>) })"

section \<open>Facts\<close>

text \<open>A created event has a name and an open descriptor.\<close>

definition event_inv :: "JhiEvent \<Rightarrow> bool" where
  "event_inv e \<longleftrightarrow> (is_created e \<longrightarrow> event_name e \<noteq> None \<and> event_fd e)"

lemma event_inv_init: "event_inv JhiEvent_init"
  by (simp add: event_inv_def JhiEvent_init_def)

lemma clean_result:
  "spec (\<lambda>_. True) (JhiEvent_clean e)
     (\<lambda>e' _. \<not> is_created e' \<and> event_name e' = None \<and> isClient e' = isClient e \<and> \<not> (isClient e \<and> event_fd e'))"
  by (auto simp: spec_def JhiEvent_clean_def Let_def split: prod.splits)

lemma open_create_inv: "event_inv e \<Longrightarrow> spec (\<lambda>_. True) (JhiEvent_open_create e name b) (\<lambda>r _. event_inv (snd r))"
  unfolding spec_def
proof (intro allI impI)
  fix f
  assume "event_inv e"
  moreover obtain e1 f1 where c: "run_state (JhiEvent_clean (e\<lparr>isClient := b\<rparr>)) f = (e1, f1)"
    by (cases "run_state (JhiEvent_clean (e\<lparr>isClient := b\<rparr>)) f")
  moreover have "\<not> is_created e1" using specD [OF clean_result _ c] by simp
  ultimately show "event_inv (snd (fst (run_state (JhiEvent_open_create e name b) f)))"
    by (auto simp: JhiEvent_open_create_def Let_def event_inv_def split: option.splits prod.splits if_splits)
qed

text \<open>An open that fails to connect leaves an object whose destruction deletes the named file.\<close>

lemma run_open_regular_file:
  assumes "io f = []" "smap_find (files f) (take SUN_PATH_LEN n) \<noteq> None"
  shows "run_state (JhiEvent_open JhiEvent_init (Some n)) f =
    ((False, JhiEvent_init\<lparr>isClient := True, event_name := Some n, event_fd := True\<rparr>), f)"
  using assms
  by (simp add: JhiEvent_open_def JhiEvent_open_create_def JhiEvent_clean_def JhiEvent_init_def connect_ok_def
      run_next_io Let_def)

lemma run_clean_client:
  assumes "io f = []" "isClient e" "event_fd e" "event_name e = Some n"
  shows "snd (run_state (JhiEvent_clean e) f) = (if smap_find (files f) n = None then f
    else f\<lparr>files := smap_erase n (files f)\<rparr>)"
  using assms by (simp add: JhiEvent_clean_def Let_def run_remove_ok)

end
