(* ===== verification/Event_Manager.thy ===== *)
theory Event_Manager
  imports Handler_Invariants Jhi_Event
begin

text \<open>
  The event manager, \<^verbatim>\<open>service/EventManager.cpp\<close>: the spooler applet through which the firmware
  raises events, and the registration of an application's event. One definition per method; the
  body of the listener thread is with the life cycle of the service, which it restarts.
\<close>

definition SPOOLER_APPLET_FILENAME :: string where
  "SPOOLER_APPLET_FILENAME = ''/SpoolerApplet''"

abbreviation JHI_EVENT_HANDLE_SIZE :: nat where "JHI_EVENT_HANDLE_SIZE \<equiv> 88"

section \<open>The spooler\<close>

definition GetSpoolerFullFilename :: "('w, (string \<times> bool) option) service" where
  "GetSpoolerFullFilename = do {
     dir \<leftarrow> gets (\<lambda>s. spooler_folder (globals s));
     let spoolerFileDalp = dir @ SPOOLER_APPLET_FILENAME @ dalpFileExt;
     let spoolerFileAcp = dir @ SPOOLER_APPLET_FILENAME @ acpFileExt;
     dalp \<leftarrow> on_fsys (access_ok spoolerFileDalp);
     if dalp then ret (Some (spoolerFileDalp, False))
     else do {
       acp \<leftarrow> on_fsys (access_ok spoolerFileAcp);
       ret (if acp then Some (spoolerFileAcp, True) else None) } }"

definition InstallSpooler :: "'w platform \<Rightarrow> string \<Rightarrow> bool \<Rightarrow> ('w, JHI_RET) service" where
  "InstallSpooler pf spoolerFile isAcp = jhis_install pf SPOOLER_APPLET_UUID spoolerFile False isAcp"

text \<open>One request for a spooler session; the plugin's handle is stored in any case.\<close>

definition open_spooler :: "'w platform \<Rightarrow> JHI_SESSION_ID \<Rightarrow> byte list option \<Rightarrow> ('w, JHI_RET) service" where
  "open_spooler pf spoolerID blob = do {
     r \<leftarrow> on_world (JHI_Plugin_CreateSession pf SPOOLER_APPLET_UUID blob spoolerID None);
     set_events (\<lambda>e. e\<lparr>spooler_handle := snd r\<rparr>);
     ret (fst r) }"

fun open_spooler_blobs :: "'w platform \<Rightarrow> JHI_SESSION_ID \<Rightarrow> JHI_RET \<Rightarrow> byte list list \<Rightarrow> ('w, JHI_RET) service" where
  "open_spooler_blobs pf spoolerID r [] = ret r"
| "open_spooler_blobs pf spoolerID r (blob # blobs) = do {
     r1 \<leftarrow> open_spooler pf spoolerID (Some blob);
     if r1 = JHI_SUCCESS then ret r1 else open_spooler_blobs pf spoolerID r1 blobs }"

definition CreateSpoolerSession :: "'w platform \<Rightarrow> string \<Rightarrow> bool \<Rightarrow> ('w, JHI_RET) service" where
  "CreateSpoolerSession pf spoolerFile isAcp = do {
     table \<leftarrow> gets (\<lambda>s. plugin_table (globals s));
     if \<not> table then ret JHI_INTERNAL_ERROR
     else do {
       spoolerID \<leftarrow> on_world (uuid_generate pf);
       v2 \<leftarrow> gets (\<lambda>s. vmType (globals s) = JHI_VM_TYPE_BEIHAI_V2);
       if \<not> v2 then open_spooler pf spoolerID None
       else do {
         b \<leftarrow> getAppletBlobs pf spoolerFile isAcp;
         if fst b \<noteq> JHI_SUCCESS then ret (fst b)
         else open_spooler_blobs pf spoolerID JHI_SUCCESS (snd b) } } }"

text \<open>\<^verbatim>\<open>CreateListenerThread\<close>: \<^verbatim>\<open>pthread_create\<close> may fail.\<close>

definition CreateListenerThread :: "'w platform \<Rightarrow> ('w, JHI_RET) service" where
  "CreateListenerThread pf = do {
     created \<leftarrow> alloc;
     if \<not> created then do {
       h \<leftarrow> gets (\<lambda>s. spooler_handle (events s));
       on_world (JHI_Plugin_CloseSession pf h);
       ret JHI_INTERNAL_ERROR }
     else do {
       set_events (\<lambda>e. e\<lparr>listener_started := True\<rparr>);
       ret JHI_SUCCESS } }"

text \<open>The body of \<^verbatim>\<open>Initialize\<close> up to the assignment of \<^verbatim>\<open>initialized\<close>.\<close>

definition initialize_spooler :: "'w platform \<Rightarrow> ('w, JHI_RET) service" where
  "initialize_spooler pf = do {
     v2 \<leftarrow> gets (\<lambda>s. vmType (globals s) = JHI_VM_TYPE_BEIHAI_V2);
     found \<leftarrow> GetSpoolerFullFilename;
     case found of
       None \<Rightarrow> ret JHI_SPOOLER_NOT_FOUND
     | Some (spoolerFile, isAcp) \<Rightarrow> do {
         weHaveASession \<leftarrow> (if v2 then do { r \<leftarrow> CreateSpoolerSession pf spoolerFile isAcp; ret (r = JHI_SUCCESS) }
                           else ret False);
         r \<leftarrow> (if weHaveASession then ret JHI_SUCCESS
              else do {
                i \<leftarrow> InstallSpooler pf spoolerFile isAcp;
                if i \<noteq> JHI_SUCCESS then ret i else CreateSpoolerSession pf spoolerFile isAcp });
         if r \<noteq> JHI_SUCCESS then ret r else CreateListenerThread pf } }"

text \<open>\<^verbatim>\<open>Initialize\<close>: when there is nothing to do it returns \<^verbatim>\<open>true\<close>, which is the code 1.\<close>

definition EventManager_Initialize :: "'w platform \<Rightarrow> ('w, JHI_RET) service" where
  "EventManager_Initialize pf = do {
     done \<leftarrow> gets (\<lambda>s. initialized (events s));
     if done then ret 1
     else do {
       init_status \<leftarrow> initialize_spooler pf;
       set_events (\<lambda>e. e\<lparr>initialized := (init_status = JHI_SUCCESS)\<rparr>);
       ret init_status } }"

definition closeSpoolerSession :: "'w platform \<Rightarrow> ('w, unit) service" where
  "closeSpoolerSession pf = do {
     h \<leftarrow> gets (\<lambda>s. spooler_handle (events s));
     np \<leftarrow> no_plugin;
     if h \<noteq> 0 \<and> \<not> np then do { on_world (JHI_Plugin_ForceCloseSession pf h); ret () } else ret () }"

definition EventManager_Deinit :: "'w platform \<Rightarrow> ('w, unit) service" where
  "EventManager_Deinit pf = do {
     done \<leftarrow> gets (\<lambda>s. initialized (events s));
     (if done then closeSpoolerSession pf else ret ());
     set_events (\<lambda>e. e\<lparr>initialized := False\<rparr>) }"

section \<open>Registering an event\<close>

text \<open>
  \<^verbatim>\<open>SetSessionEventHandler\<close>: \<open>delete\<close> of the event object is its destructor, \<^verbatim>\<open>clean\<close>. An empty
  name leaves the object unopened, which unregisters the session.
\<close>

definition SetSessionEventHandler :: "JHI_SESSION_ID \<Rightarrow> string option \<Rightarrow> ('w, JHI_RET) service" where
  "SetSessionEventHandler SessionID eventHandleName = do {
     info \<leftarrow> gets (\<lambda>s. getSessionInfo SessionID (sessions s));
     if info_state info = JHI_SESSION_STATE_NOT_EXISTS then ret JHI_INVALID_SESSION_HANDLE
     else if sharedSession (info_flags info) then ret JHI_EVENTS_NOT_SUPPORTED
     else case eventHandleName of
         None \<Rightarrow> ret JHI_INTERNAL_ERROR
       | Some name \<Rightarrow> do {
           a \<leftarrow> alloc;
           if \<not> a then ret JHI_INTERNAL_ERROR
           else do {
             r \<leftarrow> (if take JHI_EVENT_HANDLE_SIZE name \<noteq> []
                  then on_fsys (JhiEvent_open JhiEvent_init (Some name)) else ret (True, JhiEvent_init));
             if \<not> fst r then do {
               on_fsys (JhiEvent_clean (snd r));
               ret JHI_INTERNAL_ERROR }
             else do {
               stored \<leftarrow> on_sessions (setEventHandle SessionID (Some (snd r)));
               if \<not> stored then do {
                 c \<leftarrow> on_fsys (JhiEvent_close (snd r));
                 on_fsys (JhiEvent_clean (snd c));
                 ret JHI_INTERNAL_ERROR }
               else ret JHI_SUCCESS } } } }"

section \<open>Frames\<close>

lemma spooler_frame [pres_intros]:
  "preserves (\<lambda>s. J (sessions s)) GetSpoolerFullFilename"
  "preserves (\<lambda>s. J' (applets s)) GetSpoolerFullFilename"
  "preserves (\<lambda>s. J'' (globals s)) GetSpoolerFullFilename"
  "preserves (\<lambda>s. J (sessions s)) (CreateListenerThread pf)"
  "preserves (\<lambda>s. J' (applets s)) (CreateListenerThread pf)"
  "preserves (\<lambda>s. J'' (globals s)) (CreateListenerThread pf)"
  "preserves (\<lambda>s. J (sessions s)) (open_spooler pf sid blob)"
  "preserves (\<lambda>s. J' (applets s)) (open_spooler pf sid blob)"
  "preserves (\<lambda>s. J'' (globals s)) (open_spooler pf sid blob)"
  "preserves (\<lambda>s. J (sessions s)) (closeSpoolerSession pf)"
  "preserves (\<lambda>s. J' (applets s)) (closeSpoolerSession pf)"
  "preserves (\<lambda>s. J'' (globals s)) (closeSpoolerSession pf)"
  unfolding GetSpoolerFullFilename_def CreateListenerThread_def open_spooler_def closeSpoolerSession_def
  by (intro pres_intros)+

lemma spooler_blobs_frame [pres_intros]:
  "preserves (\<lambda>s. J (sessions s)) (open_spooler_blobs pf sid r blobs)"
  "preserves (\<lambda>s. J' (applets s)) (open_spooler_blobs pf sid r blobs)"
  "preserves (\<lambda>s. J'' (globals s)) (open_spooler_blobs pf sid r blobs)"
  by (induction blobs arbitrary: r) (auto intro!: pres_intros)

lemma spooler_session_frame [pres_intros]:
  "preserves (\<lambda>s. J (sessions s)) (CreateSpoolerSession pf path isAcp)"
  "preserves (\<lambda>s. J' (applets s)) (CreateSpoolerSession pf path isAcp)"
  "preserves (\<lambda>s. J'' (globals s)) (CreateSpoolerSession pf path isAcp)"
  "preserves (\<lambda>s. J (sessions s)) (EventManager_Deinit pf)"
  "preserves (\<lambda>s. J' (applets s)) (EventManager_Deinit pf)"
  "preserves (\<lambda>s. J'' (globals s)) (EventManager_Deinit pf)"
  unfolding CreateSpoolerSession_def EventManager_Deinit_def by (intro pres_intros)+

context table_invariant
begin

lemma initialize_pres: "preserves (\<lambda>s. J (sessions s)) (EventManager_Initialize pf)"
  unfolding EventManager_Initialize_def initialize_spooler_def InstallSpooler_def
  by (intro pres_intros install_pres)

end

end
