(* ===== verification/Config_File.thy ===== *)
theory Config_File
  imports File_System
begin

text \<open>
  The configuration file of the service, \<^verbatim>\<open>common/reg-linux.cpp\<close>: \<^verbatim>\<open>/etc/jhi/jhi.conf\<close> is read once,
  line by line, into a table of settings; each setting has a default. The content of the file (or
  that there is none) is an argument; so is whether \<^verbatim>\<open>/dev/dal0\<close> exists.
\<close>

section \<open>Reading the file\<close>

text \<open>The lines \<^verbatim>\<open>getline\<close> yields: a final line without a newline counts, an empty rest does not.\<close>

function config_lines :: "string \<Rightarrow> string list" where
  "config_lines s =
     (if s = [] then []
      else let l = takeWhile (\<lambda>c. c \<noteq> CHR 0x0A) s in l # config_lines (drop (Suc (length l)) s))"
  by pat_completeness auto

termination config_lines
  by (relation "measure length") auto

declare config_lines.simps [simp del]

definition is_space :: "char \<Rightarrow> bool" where
  "is_space c = (c = CHR '' '' \<or> (9 \<le> (of_char c :: nat) \<and> (of_char c :: nat) \<le> 13))"

text \<open>\<^verbatim>\<open>ss >> word\<close>: skips white space and reads up to the next; the word and the rest.\<close>

definition extract_word :: "string \<Rightarrow> string \<times> string" where
  "extract_word s = (let t = dropWhile is_space s in
     (takeWhile (\<lambda>c. \<not> is_space c) t, dropWhile (\<lambda>c. \<not> is_space c) t))"

type_synonym settings = "(string, string) smap"

definition config_line :: "string \<Rightarrow> settings \<Rightarrow> settings" where
  "config_line line st =
     (if line \<noteq> [] \<and> hd line = CHR ''#'' then st
      else
        let (key, rest) = extract_word line;
            (val, _) = extract_word rest in
        smap_put key val st)"

definition ConfigFile :: "string option \<Rightarrow> settings" where
  "ConfigFile config_file =
     (case config_file of None \<Rightarrow> [] | Some content \<Rightarrow> fold config_line (config_lines content) [])"

section \<open>The settings\<close>

definition setting :: "string \<Rightarrow> string \<Rightarrow> settings \<Rightarrow> string" where
  "setting key fallback st = (case smap_find st key of None \<Rightarrow> fallback | Some v \<Rightarrow> v)"

definition getTransportType :: "settings \<Rightarrow> TEE_TRANSPORT_TYPE" where
  "getTransportType st =
     (let s_transport = setting ''transport'' ''MEI'' st in
      if s_transport = ''SOCKET'' then TEE_TRANSPORT_TYPE_SOCKET
      else if s_transport = ''MEI'' then TEE_TRANSPORT_TYPE_TEE_LIB
      else if s_transport = ''KERNEL'' then TEE_TRANSPORT_TYPE_DAL_DEVICE
      else if s_transport = ''AUTO'' then TEE_TRANSPORT_TYPE_AUTO
      else TEE_TRANSPORT_TYPE_TEE_LIB)"

definition getIpAddress :: "settings \<Rightarrow> string" where
  "getIpAddress = setting ''socket_ip_address'' ''127.0.0.1''"

datatype JHI_LOG_LEVEL = JHI_LOG_LEVEL_OFF | JHI_LOG_LEVEL_RELEASE | JHI_LOG_LEVEL_DEBUG

definition getLogLevel :: "settings \<Rightarrow> JHI_LOG_LEVEL" where
  "getLogLevel st =
     (let s_loglevel = setting ''log_level'' ''RELEASE'' st in
      if s_loglevel = ''OFF'' then JHI_LOG_LEVEL_OFF
      else if s_loglevel = ''RELEASE'' then JHI_LOG_LEVEL_RELEASE
      else if s_loglevel = ''DEBUG'' then JHI_LOG_LEVEL_DEBUG
      else JHI_LOG_LEVEL_RELEASE)"

definition getDaemonSocketPath :: "settings \<Rightarrow> string" where
  "getDaemonSocketPath = setting ''socket_path'' ''/tmp/jhi_socket''"

definition getAppletsDir :: "settings \<Rightarrow> string" where
  "getAppletsDir = setting ''applets_dir'' ''/var/lib/intel/dal/applets''"

definition getAppRepoDir :: "settings \<Rightarrow> string" where
  "getAppRepoDir = setting ''app_repo_dir'' ''/var/lib/intel/dal/applet_repository''"

section \<open>The queries\<close>

text \<open>
  The C string left in a zeroed buffer by \<^verbatim>\<open>strncpy(outBuffer, s.c_str(), outBufferSize)\<close>.
\<close>

definition bounded_c_string :: "nat \<Rightarrow> string \<Rightarrow> string" where
  "bounded_c_string n s = take n (takeWhile (\<lambda>c. c \<noteq> NUL) s)"

definition JhiQueryAppFileLocationFromRegistry :: "settings \<Rightarrow> nat \<Rightarrow> string" where
  "JhiQueryAppFileLocationFromRegistry st outBufferSize = bounded_c_string outBufferSize (getAppRepoDir st)"

definition JhiQuerySpoolerLocationFromRegistry :: "settings \<Rightarrow> nat \<Rightarrow> string" where
  "JhiQuerySpoolerLocationFromRegistry st outBufferSize = bounded_c_string outBufferSize (getAppletsDir st)"

definition JhiQueryTransportTypeFromRegistry :: "settings \<Rightarrow> bool \<Rightarrow> TEE_TRANSPORT_TYPE" where
  "JhiQueryTransportTypeFromRegistry st has_dal0 =
     (let t = getTransportType st in
      if t = TEE_TRANSPORT_TYPE_AUTO
      then if has_dal0 then TEE_TRANSPORT_TYPE_DAL_DEVICE else TEE_TRANSPORT_TYPE_TEE_LIB
      else t)"

definition JhiQueryServiceFileLocationFromRegistry :: "nat \<Rightarrow> string" where
  "JhiQueryServiceFileLocationFromRegistry outBufferSize = bounded_c_string outBufferSize ''/usr/sbin''"

definition JhiQueryPluginLocationFromRegistry :: "nat \<Rightarrow> string" where
  "JhiQueryPluginLocationFromRegistry outBufferSize = bounded_c_string outBufferSize ''/usr/lib64''"

text \<open>
  \<^verbatim>\<open>JhiQueryDaemonSocketPathFromRegistry(char *path)\<close>: the number of bytes \<^verbatim>\<open>strcpy\<close> writes to the
  caller's buffer, and the string.
\<close>

definition JhiQueryDaemonSocketPathFromRegistry :: "settings \<Rightarrow> nat \<times> string" where
  "JhiQueryDaemonSocketPathFromRegistry st =
     (let s = takeWhile (\<lambda>c. c \<noteq> NUL) (getDaemonSocketPath st) in (length s + 1, s))"

section \<open>What is written is read\<close>

text \<open>A file with one setting per line, and the settings such a file can hold.\<close>

definition render_config :: "(string \<times> string) list \<Rightarrow> string" where
  "render_config kvs = concat (map (\<lambda>(k, v). k @ '' '' @ v @ [CHR 0x0A]) kvs)"

definition config_word :: "string \<Rightarrow> bool" where
  "config_word w \<longleftrightarrow> w \<noteq> [] \<and> list_all (\<lambda>c. \<not> is_space c) w"

lemma space_simps [simp]: "is_space (CHR '' '')" "is_space (CHR 0x0A)"
  by code_simp+

lemma config_lines_Cons:
  assumes "CHR 0x0A \<notin> set l"
  shows "config_lines (l @ CHR 0x0A # rest) = l # config_lines rest"
proof -
  have "takeWhile (\<lambda>c. c \<noteq> CHR 0x0A) (l @ CHR 0x0A # rest) = l"
    using assms by (subst takeWhile_append2) auto
  then show ?thesis by (subst config_lines.simps) (simp add: Let_def)
qed

lemma config_word_facts:
  assumes "config_word w"
  shows "takeWhile (\<lambda>c. \<not> is_space c) w = w" "dropWhile is_space w = w" "dropWhile (\<lambda>c. \<not> is_space c) w = []"
    "CHR 0x0A \<notin> set w" "takeWhile (\<lambda>c. \<not> is_space c) (w @ CHR '' '' # s) = w"
    "dropWhile (\<lambda>c. \<not> is_space c) (w @ CHR '' '' # s) = CHR '' '' # s"
    "dropWhile is_space (w @ s) = w @ s"
  using assms by (cases w; auto simp: config_word_def list_all_iff takeWhile_append dropWhile_append)+

lemma config_word_nonempty: "config_word w \<Longrightarrow> w \<noteq> []"
  by (simp add: config_word_def)

lemma config_line_pair:
  assumes "config_word k" "config_word v" "hd k \<noteq> CHR ''#''"
  shows "config_line (k @ '' '' @ v) st = smap_put k v st"
  using assms(3) config_word_nonempty [OF assms(1)]
  by (simp add: config_line_def extract_word_def Let_def hd_append config_word_facts [OF assms(1)]
      config_word_facts [OF assms(2)])

lemma fold_config_find:
  "smap_find (fold (\<lambda>(k, v). smap_put k v) kvs st) key =
     (case map_of (rev kvs) key of None \<Rightarrow> smap_find st key | Some v \<Rightarrow> Some v)"
  by (induction kvs arbitrary: st) (auto simp: tab.find_put map_add_def split: option.splits)

lemma config_fold:
  "list_all (\<lambda>(k, v). config_word k \<and> config_word v \<and> hd k \<noteq> CHR ''#'') kvs \<Longrightarrow>
   fold config_line (config_lines (render_config kvs)) st = fold (\<lambda>(k, v). smap_put k v) kvs st"
proof (induction kvs arbitrary: st)
  case Nil
  then show ?case by (simp add: render_config_def config_lines.simps)
next
  case (Cons kv kvs)
  obtain k v where kv: "kv = (k, v)" by (cases kv)
  with Cons.prems have w: "config_word k" "config_word v" "hd k \<noteq> CHR ''#''" by simp_all
  have "render_config (kv # kvs) = (k @ '' '' @ v) @ CHR 0x0A # render_config kvs"
    by (simp add: render_config_def kv)
  moreover have "CHR 0x0A \<notin> set (k @ '' '' @ v)"
    using config_word_facts(4) [OF w(1)] config_word_facts(4) [OF w(2)] by simp
  ultimately have "config_lines (render_config (kv # kvs)) = (k @ '' '' @ v) # config_lines (render_config kvs)"
    using config_lines_Cons by metis
  with Cons.IH Cons.prems config_line_pair [OF w] show ?case by (simp add: kv)
qed



end
