(* ===== verification/Service_Init.thy ===== *)
theory Service_Init
  imports Event_Manager Config_File
begin

text \<open>
  The life cycle of the service: start-up and reset (\<^verbatim>\<open>service/init.cpp\<close>) and the listener thread of
  the event manager (\<^verbatim>\<open>JomEventListenerThread\<close> of \<^verbatim>\<open>service/EventManager.cpp\<close>), which restarts the
  spooler or resets the service. What start-up finds on the machine is the \<open>environment\<close>: the
  configuration file, the kernel device, the plugin library, the transport to the firmware
  and the firmware information client. The read/write lock around start-up and reset makes each of
  them one step; the lock itself has its own theory.
\<close>

datatype TEE_TRANSPORT_ENTITY = TEE_TRANSPORT_ENTITY_IVM | TEE_TRANSPORT_ENTITY_SDM | TEE_TRANSPORT_ENTITY_RTM

text \<open>
  The calls return whether they succeeded; \<^verbatim>\<open>GetFwVersion\<close> is given the version it may write to and returns it.
\<close>

record 'w environment =
  config_file :: "string option"
  has_dal0 :: bool
  plugin_lib :: plugin_library
  TEE_Transport_Create :: "TEE_TRANSPORT_TYPE \<Rightarrow> 'w \<Rightarrow> bool \<times> 'w"
  pfnConnect :: "TEE_TRANSPORT_ENTITY \<Rightarrow> 'w \<Rightarrow> bool \<times> 'w"
  pfnDisconnect :: "'w \<Rightarrow> bool \<times> 'w"
  pfnTeardown :: "'w \<Rightarrow> bool \<times> 'w"
  fw_createInstance :: "TEE_TRANSPORT_TYPE \<Rightarrow> 'w \<Rightarrow> bool \<times> 'w"
  fw_Connect :: "'w \<Rightarrow> bool \<times> 'w"
  fw_GetFwVersion :: "VERSION \<Rightarrow> 'w \<Rightarrow> (bool \<times> VERSION) \<times> 'w"
  fw_Disconnect :: "'w \<Rightarrow> bool \<times> 'w"
  fw_delete :: "'w \<Rightarrow> unit \<times> 'w"

section \<open>Start-up\<close>

abbreviation FILENAME_MAX :: nat where "FILENAME_MAX \<equiv> 4096"

text \<open>A folder that has to exist, and the setter that stores it.\<close>

definition existing_folder :: "string \<Rightarrow> (string \<Rightarrow> GlobalsManager \<Rightarrow> bool \<times> GlobalsManager) \<Rightarrow> JHI_RET \<Rightarrow>
    ('w, JHI_RET) service" where
  "existing_folder path setFolder missing = do {
     present \<leftarrow> on_fsys (access_ok path);
     if \<not> present then ret missing
     else do {
       ok \<leftarrow> on_globals (setFolder path);
       ret (if ok then JHI_SUCCESS else JHI_INTERNAL_ERROR) } }"

definition JhiGetRegistryValues :: "'w environment \<Rightarrow> ('w, JHI_RET) service" where
  "JhiGetRegistryValues env = do {
     let conf = ConfigFile (config_file env);
     r \<leftarrow> existing_folder (JhiQueryAppFileLocationFromRegistry conf (FILENAME_MAX - 1)) setAppletsFolder
            JHI_ERROR_REPOSITORY_NOT_FOUND;
     if r \<noteq> JHI_SUCCESS then ret r
     else do {
       r \<leftarrow> existing_folder (JhiQueryServiceFileLocationFromRegistry (FILENAME_MAX - 1)) setServiceFolder
              JHI_INTERNAL_ERROR;
       if r \<noteq> JHI_SUCCESS then ret r
       else do {
         ok \<leftarrow> on_globals (setPluginFolder (JhiQueryPluginLocationFromRegistry (FILENAME_MAX - 1)));
         if \<not> ok then ret JHI_INTERNAL_ERROR
         else do {
           r \<leftarrow> existing_folder (JhiQuerySpoolerLocationFromRegistry conf (FILENAME_MAX - 1)) setSpoolerFolder
                  JHI_INTERNAL_ERROR;
           if r \<noteq> JHI_SUCCESS then ret r
           else do {
             set_globals (setTransportType (JhiQueryTransportTypeFromRegistry conf (has_dal0 env)));
             ret JHI_SUCCESS } } } } }"

definition discoverVmType :: "'w environment \<Rightarrow> TEE_TRANSPORT_TYPE \<Rightarrow> ('w, JHI_VM_TYPE) service" where
  "discoverVmType env t =
     (if t = TEE_TRANSPORT_TYPE_INVALID then ret JHI_VM_TYPE_INVALID
      else do {
        created \<leftarrow> on_world (TEE_Transport_Create env t);
        if \<not> created then ret JHI_VM_TYPE_INVALID
        else do {
          sdm \<leftarrow> on_world (pfnConnect env TEE_TRANSPORT_ENTITY_SDM);
          vm \<leftarrow> (if sdm then ret JHI_VM_TYPE_BEIHAI_V2
                else do {
                  ivm \<leftarrow> on_world (pfnConnect env (if t = TEE_TRANSPORT_TYPE_SOCKET then TEE_TRANSPORT_ENTITY_RTM
                                                   else TEE_TRANSPORT_ENTITY_IVM));
                  ret (if ivm then JHI_VM_TYPE_BEIHAI_V1 else JHI_VM_TYPE_INVALID) });
          (if vm \<noteq> JHI_VM_TYPE_INVALID then on_world (pfnDisconnect env) else ret True);
          down \<leftarrow> on_world (pfnTeardown env);
          ret (if down then vm else JHI_VM_TYPE_INVALID) } })"

abbreviation no_version :: VERSION where
  "no_version \<equiv> \<lparr> Major = 0, Minor = 0, Hotfix = 0, Build = 0 \<rparr>"

text \<open>\<^verbatim>\<open>discoverFwVersion\<close>: the status of the query is ignored, a buffer of another size is not read.\<close>

definition discoverFwVersion :: "'w platform \<Rightarrow> ('w, VERSION) service" where
  "discoverFwVersion pf = do {
     r \<leftarrow> on_world (JHI_Plugin_QueryTeeMetadata pf);
     ret (if metadata_sized (snd r) then metadata_fw_version (snd r) else no_version) }"

text \<open>\<^verbatim>\<open>discoverFwVersionLegacy\<close>: the loop, by the number of attempts left.\<close>

fun fw_version_attempts :: "'w environment \<Rightarrow> VERSION \<Rightarrow> nat \<Rightarrow> ('w, VERSION) service" where
  "fw_version_attempts env v 0 = ret v"
| "fw_version_attempts env v (Suc n) = do {
     connected \<leftarrow> on_world (fw_Connect env);
     if \<not> connected then fw_version_attempts env v n
     else do {
       g \<leftarrow> on_world (fw_GetFwVersion env v);
       on_world (fw_Disconnect env);
       if fst g \<and> Major (snd g) \<noteq> 0 then ret (snd g) else fw_version_attempts env (snd g) n } }"

definition discoverFwVersionLegacy :: "'w environment \<Rightarrow> ('w, VERSION) service" where
  "discoverFwVersionLegacy env = do {
     t \<leftarrow> gets (\<lambda>s. transportType (globals s));
     created \<leftarrow> on_world (fw_createInstance env t);
     if \<not> created then ret no_version
     else do {
       v \<leftarrow> fw_version_attempts env no_version 3;
       on_world (fw_delete env);
       ret v } }"

text \<open>The stages of \<^verbatim>\<open>jhis_init\<close>, each with its code: the VM type, and the registration of the plugin.\<close>

definition init_vm_type :: "'w environment \<Rightarrow> ('w, JHI_RET) service" where
  "init_vm_type env = do {
     vm \<leftarrow> gets (\<lambda>s. vmType (globals s));
     if vm \<noteq> JHI_VM_TYPE_INVALID then ret JHI_SUCCESS
     else do {
       t \<leftarrow> gets (\<lambda>s. transportType (globals s));
       vm \<leftarrow> discoverVmType env t;
       if vm = JHI_VM_TYPE_INVALID then ret JHI_NO_CONNECTION_TO_FIRMWARE
       else do { on_globals (setVmType vm); ret JHI_SUCCESS } } }"

definition init_plugin :: "'w environment \<Rightarrow> ('w, JHI_RET) service" where
  "init_plugin env = do {
     reg \<leftarrow> gets (\<lambda>s. plugin_registered (globals s));
     r \<leftarrow> (if reg then ret JHI_SUCCESS else on_globals (PluginRegister (plugin_lib env)));
     if r \<noteq> JHI_SUCCESS then ret r
     else do {
       table \<leftarrow> gets (\<lambda>s. plugin_table (globals s));
       ret (if table then JHI_SUCCESS else JHI_INTERNAL_ERROR) } }"

text \<open>\<^verbatim>\<open>do_vm_reset\<close>: no reset of a VM shared with the kernel.\<close>

definition do_vm_reset :: "GlobalsManager \<Rightarrow> bool" where
  "do_vm_reset g = (\<not> (transportType g = TEE_TRANSPORT_TYPE_DAL_DEVICE \<and> vmType g = JHI_VM_TYPE_BEIHAI_V2))"

definition init_fw_version :: "'w environment \<Rightarrow> 'w platform \<Rightarrow> ('w, unit) service" where
  "init_fw_version env pf = do {
     known \<leftarrow> gets (\<lambda>s. Major (fwVersion (globals s)) \<noteq> 0);
     if known then ret ()
     else do {
       v2 \<leftarrow> gets (\<lambda>s. vmType (globals s) = JHI_VM_TYPE_BEIHAI_V2);
       v \<leftarrow> (if v2 then discoverFwVersion pf else discoverFwVersionLegacy env);
       set_globals (setFwVersion v) } }"

text \<open>After the plugin is registered: the code, and whether the VM would be reset.\<close>

definition init_connected :: "'w environment \<Rightarrow> 'w platform \<Rightarrow> ('w, JHI_RET \<times> bool) service" where
  "init_connected env pf = do {
     t \<leftarrow> gets (\<lambda>s. transportType (globals s));
     r \<leftarrow> on_world (JHI_Plugin_Set_Transport_And_Memory pf t);
     if r \<noteq> JHI_SUCCESS then ret (r, True)
     else do {
       rst \<leftarrow> gets (\<lambda>s. do_vm_reset (globals s));
       r \<leftarrow> on_world (JHI_Plugin_Init pf rst);
       if r \<noteq> JHI_SUCCESS then ret (r, rst)
       else do {
         init_fw_version env pf;
         r \<leftarrow> EventManager_Initialize pf;
         if r \<noteq> JHI_SUCCESS then ret (r, rst)
         else do {
           v2 \<leftarrow> gets (\<lambda>s. vmType (globals s) = JHI_VM_TYPE_BEIHAI_V2);
           (if v2 then updateAppletsList else ret ());
           set_globals (setJhiState JHI_INITIALIZED);
           ret (JHI_SUCCESS, rst) } } } }"

definition init_stages :: "'w environment \<Rightarrow> 'w platform \<Rightarrow> ('w, JHI_RET \<times> bool) service" where
  "init_stages env pf = do {
     r \<leftarrow> JhiGetRegistryValues env;
     if r \<noteq> JHI_SUCCESS then ret (r, True)
     else do {
       r \<leftarrow> init_vm_type env;
       if r \<noteq> JHI_SUCCESS then ret (r, True)
       else do {
         r \<leftarrow> init_plugin env;
         if r \<noteq> JHI_SUCCESS then ret (r, True) else init_connected env pf } } }"

text \<open>The label \<^verbatim>\<open>end\<close> after a failure.\<close>

definition init_failed :: "'w platform \<Rightarrow> bool \<Rightarrow> ('w, unit) service" where
  "init_failed pf rst = do {
     np \<leftarrow> no_plugin;
     (if \<not> np then do { on_world (JHI_Plugin_DeInit pf rst); ret () } else ret ());
     reg \<leftarrow> gets (\<lambda>s. plugin_registered (globals s));
     if reg then set_globals PluginUnregister else ret () }"

definition jhis_init :: "'w environment \<Rightarrow> 'w platform \<Rightarrow> ('w, JHI_RET) service" where
  "jhis_init env pf = do {
     stopped \<leftarrow> gets (\<lambda>s. jhi_state (globals s) = JHI_STOPPED);
     if \<not> stopped then ret JHI_SUCCESS
     else do {
       r \<leftarrow> init_stages env pf;
       (if fst r \<noteq> JHI_SUCCESS then init_failed pf (snd r) else ret ());
       ret (fst r) } }"

section \<open>Reset\<close>

definition JhiReset :: "'w platform \<Rightarrow> ('w, unit) service" where
  "JhiReset pf = do {
     closeSessionsInVM pf;
     stopped \<leftarrow> gets (\<lambda>s. jhi_state (globals s) = JHI_STOPPED);
     if stopped then ret ()
     else do {
       set_applets resetAppletTable;
       on_sessions (\<lambda>m. ((), resetSessionManager m));
       EventManager_Deinit pf;
       np \<leftarrow> no_plugin;
       (if np then ret ()
        else do {
          rst \<leftarrow> gets (\<lambda>s. do_vm_reset (globals s));
          on_world (JHI_Plugin_DeInit pf rst);
          set_globals PluginUnregister });
       set_globals (setJhiState JHI_STOPPED);
       set_globals sendResetCompleteEvent } }"

section \<open>Stopping\<close>

text \<open>
  \<^verbatim>\<open>service/JHIMain.cpp\<close>: \<^verbatim>\<open>jhi_init\<close> with the outcome of opening the command server, \<^verbatim>\<open>jhi_stop\<close>
  after the command server is closed, and \<^verbatim>\<open>jhi_invoke_reset\<close> up to the point where it waits for
  the reset that the listener thread will make.
\<close>

definition jhi_init :: "bool \<Rightarrow> ('w, bool) service" where
  "jhi_init opened = do { set_globals (setJhiState JHI_STOPPED); ret opened }"

definition jhi_stop :: "'w platform \<Rightarrow> ('w, unit) service" where
  "jhi_stop pf = do {
     running \<leftarrow> gets (\<lambda>s. jhi_state (globals s) = JHI_INITIALIZED);
     if running then do { set_globals (setJhiState JHI_STOPPING); JhiReset pf } else ret () }"

definition jhi_invoke_reset :: "'w platform \<Rightarrow> ('w, unit) service" where
  "jhi_invoke_reset pf = do {
     running \<leftarrow> gets (\<lambda>s. jhi_state (globals s) = JHI_INITIALIZED);
     if running then do { set_globals (setJhiState JHI_STOPPING); EventManager_Deinit pf } else ret () }"

section \<open>The listener thread\<close>

text \<open>
  How an iteration of the loop ends: it goes on, the thread ends because the spooler was started
  again (with a thread of its own), or the service is reset.
\<close>

datatype listener_outcome = Listening | Spooler_restarted | Service_reset | No_plugin

text \<open>The delivery of one event: queue the data, then wake the application.\<close>

definition deliver_event :: "JHI_SESSION_ID \<Rightarrow> JHI_EVENT_DATA option \<Rightarrow> ('w, unit) service" where
  "deliver_event target event_data = do {
     h \<leftarrow> gets (\<lambda>s. getEventHandle target (sessions s));
     if \<not> fst h then ret ()
     else do {
       (case event_data of
          None \<Rightarrow> ret False
        | Some e \<Rightarrow> on_sessions (enqueueEventData target e));
       (case snd h of
          None \<Rightarrow> ret ()
        | Some ev \<Rightarrow> do {
            r \<leftarrow> on_fsys (JhiEvent_set ev);
            on_sessions (\<lambda>m. ((), case session target m of
                None \<Rightarrow> m | Some rec \<Rightarrow> put_session target (rec\<lparr>eventHandle := Some (snd r)\<rparr>) m)) }) } }"

definition listener_iteration :: "'w platform \<Rightarrow> ('w, listener_outcome) service" where
  "listener_iteration pf = do {
     h \<leftarrow> gets (\<lambda>s. spooler_handle (events s));
     r \<leftarrow> on_world (JHI_Plugin_WaitForSpoolerEvent pf h);
     let (st, event_data, target) = r;
     running \<leftarrow> gets (\<lambda>s. jhi_state (globals s) = JHI_INITIALIZED);
     if st = JHI_SUCCESS then do { deliver_event target event_data; ret Listening }
     else if (st = JHI_APPLET_FATAL \<or> st = JHI_APPLET_BAD_STATE \<or> st = JHI_INVALID_PARAMS) \<and> running then do {
       set_events (\<lambda>e. e\<lparr>spooler_handle := 0\<rparr>);
       EventManager_Deinit pf;
       i \<leftarrow> EventManager_Initialize pf;
       if i \<noteq> JHI_SUCCESS then do { JhiReset pf; ret Service_reset } else ret Spooler_restarted }
     else do { JhiReset pf; ret Service_reset } }"

text \<open>
  The thread: without a plugin it ends at once; otherwise it runs its loop, for at most \<open>n\<close>
  iterations here. \<open>None\<close> is a thread that is still waiting for events after them.
\<close>

fun listener_loop :: "'w platform \<Rightarrow> nat \<Rightarrow> ('w, listener_outcome option) service" where
  "listener_loop pf 0 = ret None"
| "listener_loop pf (Suc n) = do {
     o1 \<leftarrow> listener_iteration pf;
     if o1 = Listening then listener_loop pf n else ret (Some o1) }"

definition JomEventListenerThread :: "'w platform \<Rightarrow> nat \<Rightarrow> ('w, listener_outcome option) service" where
  "JomEventListenerThread pf n = do {
     table \<leftarrow> gets (\<lambda>s. plugin_table (globals s));
     if \<not> table then ret (Some No_plugin) else listener_loop pf n }"

text \<open>A machine on which start-up succeeds.\<close>

definition sample_env :: "nat environment" where
  "sample_env = \<lparr> config_file = Some ''app_repo_dir /repo'', has_dal0 = False,
     plugin_lib = \<lparr> load_dll = (\<lambda>a b. JHI_SUCCESS), has_register_symbol = True,
       register_result = (JHI_SUCCESS, True), reported_type = JHI_PLUGIN_TYPE_BEIHAI_V1 \<rparr>,
     TEE_Transport_Create = (\<lambda>t w. (True, w)),
     pfnConnect = (\<lambda>en w. (en \<noteq> TEE_TRANSPORT_ENTITY_SDM, w)),
     pfnDisconnect = (\<lambda>w. (True, w)), pfnTeardown = (\<lambda>w. (True, w)),
     fw_createInstance = (\<lambda>t w. (True, w)), fw_Connect = (\<lambda>w. (True, w)),
     fw_GetFwVersion = (\<lambda>v w. ((True, \<lparr> Major = 9, Minor = 5, Hotfix = 0, Build = 0 \<rparr>), w)),
     fw_Disconnect = (\<lambda>w. (True, w)), fw_delete = (\<lambda>w. ((), w)) \<rparr>"

end
