(* ===== verification/Life_Cycle.thy ===== *)
theory Life_Cycle
  imports Service_Init
begin

text \<open>
  What start-up, reset, stop and the listener thread guarantee. The invariant \<open>life_inv\<close> ties the
  state of the service to the plugin's registration and to the event manager; start-up moves the service from
  \<open>down\<close> to \<open>up\<close> or leaves it \<open>down\<close>, reset brings it \<open>down\<close> from anywhere. The invariants of
  the session and applet tables are kept throughout.
\<close>

section \<open>The life cycle invariant\<close>

text \<open>
  Running means that the plugin is registered and the event manager is up; stopped means that
  neither is. Between the two (\<^verbatim>\<open>JHI_STOPPING\<close>) the plugin is still there.
\<close>

fun life :: "jhi_states \<Rightarrow> bool \<Rightarrow> bool \<Rightarrow> bool" where
  "life JHI_INITIALIZED reg up = (reg \<and> up)"
| "life JHI_STOPPED reg up = (\<not> reg \<and> \<not> up)"
| "life JHI_STOPPING reg up = reg"

definition life_inv :: "GlobalsManager \<Rightarrow> EventManager \<Rightarrow> bool" where
  "life_inv g e \<longleftrightarrow> globals_inv g \<and> life (jhi_state g) (plugin_registered g) (initialized e)"

text \<open>The part of the settings that start-up's first stages leave alone.\<close>

definition plugin_part :: "GlobalsManager \<Rightarrow> bool \<times> bool \<times> bool \<times> jhi_states" where
  "plugin_part g = (plugin_registered g, plugin_table g, pluginLoaded g, jhi_state g)"

lemma plugin_part_setters [simp]:
  "plugin_part (snd (setServiceFolder d g)) = plugin_part g"
  "plugin_part (snd (setAppletsFolder d g)) = plugin_part g"
  "plugin_part (snd (setPluginFolder d g)) = plugin_part g"
  "plugin_part (snd (setSpoolerFolder d g)) = plugin_part g"
  "plugin_part (setTransportType t g) = plugin_part g"
  "plugin_part (snd (setVmType v g)) = plugin_part g"
  "plugin_part (setFwVersion fv g) = plugin_part g"
  by (simp_all add: plugin_part_def setServiceFolder_def setAppletsFolder_def setPluginFolder_def
      setSpoolerFolder_def setTransportType_def setVmType_def setFwVersion_def)

lemma part_on_globals:
  "(\<And>g. plugin_part (snd (f g)) = plugin_part g) \<Longrightarrow>
   preserves (\<lambda>s. J (plugin_part (globals s)) (events s)) (on_globals f)"
  by (simp add: preserves_def)

lemma part_set_globals:
  "(\<And>g. plugin_part (f g) = plugin_part g) \<Longrightarrow>
   preserves (\<lambda>s. J (plugin_part (globals s)) (events s)) (set_globals f)"
  by (simp add: preserves_def)

lemma part_folder:
  assumes "\<And>d g. plugin_part (snd (setFolder d g)) = plugin_part g"
  shows "preserves (\<lambda>s. J (plugin_part (globals s)) (events s)) (existing_folder path setFolder missing)"
  unfolding existing_folder_def by (intro pres_intros part_on_globals assms)

lemma part_registry:
  "preserves (\<lambda>s. J (plugin_part (globals s)) (events s)) (JhiGetRegistryValues env)"
  unfolding JhiGetRegistryValues_def
  by (intro pres_intros part_folder part_on_globals part_set_globals) simp_all

lemma globals_discover [pres_intros]:
  "preserves (\<lambda>s. J (globals s) (events s)) (discoverVmType env t)"
  "preserves (\<lambda>s. J (globals s) (events s)) (discoverFwVersion pf)"
  unfolding discoverVmType_def discoverFwVersion_def by (intro pres_intros)+

lemma globals_attempts [pres_intros]:
  "preserves (\<lambda>s. J (globals s) (events s)) (fw_version_attempts env v n)"
  by (induction n arbitrary: v) (auto intro!: pres_intros)

lemma part_vm_type: "preserves (\<lambda>s. J (plugin_part (globals s)) (events s)) (init_vm_type env)"
  unfolding init_vm_type_def by (intro pres_intros part_on_globals) simp_all

lemma part_fw_version: "preserves (\<lambda>s. J (plugin_part (globals s)) (events s)) (init_fw_version env pf)"
  unfolding init_fw_version_def discoverFwVersionLegacy_def by (intro pres_intros part_set_globals) simp_all


section \<open>Start-up succeeds or leaves the service stopped\<close>

definition registered_stopped :: "'w jhi \<Rightarrow> bool" where
  "registered_stopped s \<longleftrightarrow>
     plugin_part (globals s) = (True, True, True, JHI_STOPPED) \<and> \<not> initialized (events s)"

definition down :: "'w jhi \<Rightarrow> bool" where
  "down s \<longleftrightarrow> plugin_part (globals s) = (False, False, False, JHI_STOPPED) \<and> \<not> initialized (events s)"

definition up :: "'w jhi \<Rightarrow> bool" where
  "up s \<longleftrightarrow> plugin_part (globals s) = (True, True, True, JHI_INITIALIZED) \<and> initialized (events s)"

lemma down_iff: "down s \<longleftrightarrow> life_inv (globals s) (events s) \<and> jhi_state (globals s) = JHI_STOPPED"
  by (auto simp: down_def life_inv_def globals_inv_def plugin_part_def)

lemma up_iff: "up s \<longleftrightarrow> life_inv (globals s) (events s) \<and> jhi_state (globals s) = JHI_INITIALIZED"
  by (auto simp: up_def life_inv_def globals_inv_def plugin_part_def)

lemma globals_initialize [pres_intros]: "preserves (\<lambda>s. J (globals s)) (EventManager_Initialize pf)"
  unfolding EventManager_Initialize_def initialize_spooler_def InstallSpooler_def
  by (intro pres_intros)

lemma initialize_events:
  "spec (\<lambda>s. \<not> initialized (events s)) (EventManager_Initialize pf) (\<lambda>r s. initialized (events s) = (r = JHI_SUCCESS))"
  by (auto simp: spec_def EventManager_Initialize_def split: prod.split)

lemma initialize_spec:
  "spec registered_stopped (EventManager_Initialize pf)
     (\<lambda>r s. plugin_part (globals s) = (True, True, True, JHI_STOPPED) \<and> initialized (events s) = (r = JHI_SUCCESS))"
  using spec_frame [OF initialize_events globals_initialize
      [where J = "\<lambda>g. plugin_part g = (True, True, True, JHI_STOPPED)"]]
  by (rule spec_weaken) (auto simp: registered_stopped_def)

lemma world_registered: "preserves registered_stopped (on_world f)"
  by (simp add: preserves_def registered_stopped_def)

lemma fw_version_registered: "preserves registered_stopped (init_fw_version env pf)"
  unfolding registered_stopped_def by (rule part_fw_version)

text \<open>The last stage, after the event manager is up.\<close>

lemma init_finish:
  "spec (\<lambda>s. plugin_part (globals s) = (True, True, True, JHI_STOPPED) \<and> initialized (events s))
     (do { v2 \<leftarrow> gets (\<lambda>s. vmType (globals s) = JHI_VM_TYPE_BEIHAI_V2);
           (if v2 then updateAppletsList else ret ());
           set_globals (setJhiState JHI_INITIALIZED);
           ret (JHI_SUCCESS, rst) }) (\<lambda>r s. fst r = JHI_SUCCESS \<and> up s)"
proof -
  let ?P = "\<lambda>s. plugin_part (globals s) = (True, True, True, JHI_STOPPED) \<and> initialized (events s)"
  have "preserves ?P updateAppletsList"
    using globals_update_list
      [where J = "\<lambda>g e. plugin_part g = (True, True, True, JHI_STOPPED) \<and> initialized e"] .
  then have upd: "spec ?P (if v2 then updateAppletsList else ret ()) (\<lambda>_. ?P)" for v2
    by (cases v2) (simp_all add: spec_preserves [symmetric] preserves_ret)
  have "spec ?P (set_globals (setJhiState JHI_INITIALIZED)) (\<lambda>_. up)"
    by (simp add: spec_def up_def plugin_part_def setJhiState_def)
  then show ?thesis
    by (intro spec_bind [OF spec_gets [where Q = "\<lambda>_. ?P"]] spec_bind [OF upd] spec_bind spec_ret) simp_all
qed

lemma init_connected_spec:
  "spec registered_stopped (init_connected env pf)
     (\<lambda>r s. if fst r = JHI_SUCCESS then up s else registered_stopped s)"
  unfolding init_connected_def
  apply (rule spec_bind [OF spec_gets [where Q = "\<lambda>_. registered_stopped"]], assumption)
  apply (rule spec_bind [OF world_registered [unfolded spec_preserves]])
  apply (rule spec_if, rule spec_ret, simp)
  apply (rule spec_bind [OF spec_gets [where Q = "\<lambda>_. registered_stopped"]], assumption)
  apply (rule spec_bind [OF world_registered [unfolded spec_preserves]])
  apply (rule spec_if, rule spec_ret, simp)
  apply (rule spec_bind [OF fw_version_registered [unfolded spec_preserves]])
  apply (rule spec_bind [OF initialize_spec])
  apply (rule spec_if, rule spec_ret, simp add: registered_stopped_def)
  apply (rule spec_weaken [OF init_finish]; simp)
  done

lemma init_plugin_spec:
  "spec down (init_plugin env) (\<lambda>r s. if r = JHI_SUCCESS then registered_stopped s else down s)"
proof (rule specI)
  fix s r s'
  assume s: "down s" and run: "run_state (init_plugin env) s = (r, s')"
  obtain r1 g1 where reg: "JhiPlugin_Register (plugin_lib env) (globals s) = (r1, g1)"
    by (cases "JhiPlugin_Register (plugin_lib env) (globals s)")
  have st: "plugin_registered g1 = plugin_registered (globals s)" "jhi_state g1 = jhi_state (globals s)"
    using arg_cong [OF reg, of snd]
    by (auto simp: JhiPlugin_Register_def Let_def split: option.splits if_splits)
  from s have np: "\<not> plugin_registered (globals s)" "jhi_state (globals s) = JHI_STOPPED" "\<not> initialized (events s)"
    by (auto simp: down_def plugin_part_def)
  show "if r = JHI_SUCCESS then registered_stopped s' else down s'"
    using run np st JhiPlugin_Register_cases [of "plugin_lib env" "globals s"]
    by (auto simp: init_plugin_def PluginRegister_def reg registered_stopped_def down_def plugin_part_def
        split: if_splits)
qed

lemma init_failed_spec: "spec (\<lambda>s. registered_stopped s \<or> down s) (init_failed pf rst) (\<lambda>_. down)"
  by (auto simp: spec_def init_failed_def registered_stopped_def down_def plugin_part_def PluginUnregister_def)

lemma registry_down: "spec down (JhiGetRegistryValues env) (\<lambda>_. down)"
  unfolding spec_preserves [symmetric] unfolding down_def by (rule part_registry)

lemma vm_type_down: "spec down (init_vm_type env) (\<lambda>_. down)"
  unfolding spec_preserves [symmetric] unfolding down_def by (rule part_vm_type)

lemma init_stages_spec:
  "spec down (init_stages env pf)
     (\<lambda>r s. if fst r = JHI_SUCCESS then up s else registered_stopped s \<or> down s)"
  unfolding init_stages_def
  apply (rule spec_bind [OF registry_down])
  apply (rule spec_if, rule spec_ret, simp)
  apply (rule spec_bind [OF vm_type_down])
  apply (rule spec_if, rule spec_ret, simp)
  apply (rule spec_bind [OF init_plugin_spec])
  apply (rule spec_if, rule spec_ret, simp)
  apply (rule spec_weaken [OF init_connected_spec]; simp split: if_splits)
  done

lemma jhis_init_spec: "spec down (jhis_init env pf) (\<lambda>r s. if r = JHI_SUCCESS then up s else down s)"
proof -
  have fin: "spec (\<lambda>s. if fst r = JHI_SUCCESS then up s else registered_stopped s \<or> down s)
      (do { (if fst r \<noteq> JHI_SUCCESS then init_failed pf (snd r) else ret ()); ret (fst r) })
      (\<lambda>c s. if c = JHI_SUCCESS then up s else down s)" for r :: "JHI_RET \<times> bool"
    using init_failed_spec [of pf "snd r"] by (auto simp: spec_def split: prod.splits)
  have stages: "spec down (do { r \<leftarrow> init_stages env pf;
       (if fst r \<noteq> JHI_SUCCESS then init_failed pf (snd r) else ret ());
       ret (fst r) }) (\<lambda>c s. if c = JHI_SUCCESS then up s else down s)"
    by (rule spec_bind [OF init_stages_spec fin])
  show ?thesis
    unfolding jhis_init_def
    by (rule spec_known [where c = True]) (simp_all add: down_iff stages)
qed

section \<open>Reset\<close>

lemma close_in_vm_frame [pres_intros]:
  "preserves (\<lambda>s. J (sessions s)) (closeSessionsInVM pf)"
  "preserves (\<lambda>s. J' (applets s)) (closeSessionsInVM pf)"
  "preserves (\<lambda>s. K (globals s) (events s)) (closeSessionsInVM pf)"
  "preserves (\<lambda>s. J'' (fsys s)) (closeSessionsInVM pf)"
  unfolding closeSessionsInVM_def by (intro pres_intros)+

lemma fsys_deinit [pres_intros]: "preserves (\<lambda>s. J (fsys s)) (EventManager_Deinit pf)"
  unfolding EventManager_Deinit_def closeSpoolerSession_def by (intro pres_intros)

lemma deinit_events: "spec P (EventManager_Deinit pf) (\<lambda>_ s. \<not> initialized (events s))"
  by (auto simp: spec_def EventManager_Deinit_def split: prod.split)

text \<open>The reset proper, of a service that is not stopped.\<close>

definition reset_tables :: "'w platform \<Rightarrow> ('w, unit) service" where
  "reset_tables pf = do {
     set_applets resetAppletTable;
     on_sessions (\<lambda>m. ((), resetSessionManager m));
     EventManager_Deinit pf;
     np \<leftarrow> no_plugin;
     (if np then ret ()
      else do {
        rst \<leftarrow> gets (\<lambda>s. do_vm_reset (globals s));
        on_world (JHI_Plugin_DeInit pf rst);
        set_globals PluginUnregister });
     set_globals (setJhiState JHI_STOPPED);
     set_globals sendResetCompleteEvent }"

lemma run_reset_tables:
  assumes "globals_inv (globals s)"
  shows "spec (\<lambda>t. t = s) (reset_tables pf)
    (\<lambda>_ s'. down s' \<and> applets s' = [] \<and> sessionList (sessions s') = [] \<and> reset_complete (globals s')
       \<and> fsys s' = fsys s)"
proof (rule specI)
  fix t r s'
  assume "t = s" and run: "run_state (reset_tables pf) t = (r, s')"
  let ?s1 = "s\<lparr>applets := [], sessions := resetSessionManager (sessions s)\<rparr>"
  obtain u s2 where s2: "run_state (EventManager_Deinit pf) ?s1 = (u, s2)"
    by (cases "run_state (EventManager_Deinit pf) ?s1")
  have "applets s2 = []" using preservesD [OF spooler_session_frame(5) [where J' = "\<lambda>a. a = []"] _ s2] by simp
  moreover have "sessionList (sessions s2) = []"
    using preservesD [OF spooler_session_frame(4) [where J = "\<lambda>m. sessionList m = []"] _ s2]
    by (simp add: resetSessionManager_def)
  moreover have "globals s2 = globals s"
    using preservesD [OF spooler_session_frame(6) [where J'' = "\<lambda>g. g = globals s"] _ s2] by simp
  moreover have "fsys s2 = fsys s" using preservesD [OF fsys_deinit [where J = "\<lambda>f. f = fsys s"] _ s2] by simp
  moreover have "\<not> initialized (events s2)" using specD [OF deinit_events _ s2] by simp
  ultimately show "down s' \<and> applets s' = [] \<and> sessionList (sessions s') = [] \<and> reset_complete (globals s')
       \<and> fsys s' = fsys s"
    using run assms \<open>t = s\<close> s2
    by (auto simp: reset_tables_def resetAppletTable_def down_def plugin_part_def setJhiState_def
        sendResetCompleteEvent_def PluginUnregister_def globals_inv_def split: if_splits)
qed

lemma run_reset:
  assumes "globals_inv (globals s)" "jhi_state (globals s) \<noteq> JHI_STOPPED" "run_state (JhiReset pf) s = (u, s')"
  shows "down s' \<and> applets s' = [] \<and> sessionList (sessions s') = [] \<and> reset_complete (globals s')
    \<and> fsys s' = fsys s"
proof -
  obtain v s1 where s1: "run_state (closeSessionsInVM pf) s = (v, s1)" by (cases "run_state (closeSessionsInVM pf) s")
  have g: "globals s1 = globals s"
    using preservesD [OF close_in_vm_frame(3) [where K = "\<lambda>g e. g = globals s"] _ s1] by simp
  have f: "fsys s1 = fsys s"
    using preservesD [OF close_in_vm_frame(4) [where J'' = "\<lambda>f. f = fsys s"] _ s1] by simp
  have "run_state (reset_tables pf) s1 = (u, s')"
    using assms(2,3) s1 g by (simp add: JhiReset_def reset_tables_def)
  from specD [OF run_reset_tables _ this] assms(1) g f show ?thesis by metis
qed

lemma reset_stopped:
  assumes "jhi_state (globals s) = JHI_STOPPED" "run_state (JhiReset pf) s = (u, s')"
  shows "globals s' = globals s \<and> events s' = events s \<and> sessions s' = sessions s \<and> applets s' = applets s
    \<and> fsys s' = fsys s"
proof -
  obtain v s1 where s1: "run_state (closeSessionsInVM pf) s = (v, s1)" by (cases "run_state (closeSessionsInVM pf) s")
  have "globals s1 = globals s \<and> events s1 = events s"
    using preservesD [OF close_in_vm_frame(3) [where K = "\<lambda>g e. g = globals s \<and> e = events s"] _ s1] by simp
  moreover have "sessions s1 = sessions s"
    using preservesD [OF close_in_vm_frame(1) [where J = "\<lambda>m. m = sessions s"] _ s1] by simp
  moreover have "applets s1 = applets s"
    using preservesD [OF close_in_vm_frame(2) [where J' = "\<lambda>m. m = applets s"] _ s1] by simp
  moreover have "fsys s1 = fsys s"
    using preservesD [OF close_in_vm_frame(4) [where J'' = "\<lambda>f. f = fsys s"] _ s1] by simp
  ultimately show ?thesis using assms s1 by (simp add: JhiReset_def)
qed

lemma reset_down: "spec (\<lambda>s. life_inv (globals s) (events s)) (JhiReset pf) (\<lambda>_. down)"
proof (rule specI)
  fix s u s'
  assume "life_inv (globals s) (events s)" "run_state (JhiReset pf) s = (u, s')"
  then show "down s'"
    using reset_stopped [of s pf u s'] run_reset [of s pf u s']
    by (cases "jhi_state (globals s) = JHI_STOPPED") (auto simp: down_iff life_inv_def)
qed

section \<open>The life cycle invariant is kept\<close>

lemma life_init: "preserves (\<lambda>s. life_inv (globals s) (events s)) (jhis_init env pf)"
  unfolding preserves_def
proof (intro allI impI)
  fix s :: "'a jhi"
  assume inv: "life_inv (globals s) (events s)"
  obtain r s' where run: "run_state (jhis_init env pf) s = (r, s')" by (cases "run_state (jhis_init env pf) s")
  show "life_inv (globals (snd (run_state (jhis_init env pf) s))) (events (snd (run_state (jhis_init env pf) s)))"
  proof (cases "jhi_state (globals s) = JHI_STOPPED")
    case True
    with specD [OF jhis_init_spec _ run] inv run show ?thesis by (auto simp: down_iff up_iff split: if_splits)
  next
    case False
    with inv show ?thesis by (simp add: jhis_init_def)
  qed
qed

lemma life_reset: "preserves (\<lambda>s. life_inv (globals s) (events s)) (JhiReset pf)"
  unfolding spec_preserves by (rule spec_weaken [OF reset_down]) (simp_all add: down_iff)

lemma life_deinit:
  "spec (\<lambda>s. globals_inv (globals s) \<and> jhi_state (globals s) = JHI_STOPPING \<and> plugin_registered (globals s))
     (EventManager_Deinit pf) (\<lambda>_ s. life_inv (globals s) (events s))"
  using spec_frame [OF deinit_events spooler_session_frame(6)
      [where J'' = "\<lambda>g. globals_inv g \<and> jhi_state g = JHI_STOPPING \<and> plugin_registered g"]]
  by (rule spec_weaken) (auto simp: life_inv_def)

lemma life_stop: "preserves (\<lambda>s. life_inv (globals s) (events s)) (jhi_stop pf)"
proof -
  have st: "spec (\<lambda>s. life_inv (globals s) (events s) \<and> jhi_state (globals s) = JHI_INITIALIZED)
      (set_globals (setJhiState JHI_STOPPING)) (\<lambda>_ s. life_inv (globals s) (events s))"
    by (auto simp: spec_def life_inv_def setJhiState_def globals_inv_def)
  have "spec (\<lambda>s. life_inv (globals s) (events s) \<and> jhi_state (globals s) = JHI_INITIALIZED)
      (do { set_globals (setJhiState JHI_STOPPING); JhiReset pf }) (\<lambda>_ s. life_inv (globals s) (events s))"
    by (rule spec_bind [OF st life_reset [unfolded spec_preserves]])
  then have "spec (\<lambda>s. life_inv (globals s) (events s) \<and> (jhi_state (globals s) = JHI_INITIALIZED) = v)
      (if v then do { set_globals (setJhiState JHI_STOPPING); JhiReset pf } else ret ())
      (\<lambda>_ s. life_inv (globals s) (events s))" for v
    by (cases v) (auto intro: spec_ret)
  then show ?thesis unfolding jhi_stop_def by (rule preserves_gets_bind)
qed

lemma life_invoke_reset: "preserves (\<lambda>s. life_inv (globals s) (events s)) (jhi_invoke_reset pf)"
proof -
  have st: "spec (\<lambda>s. life_inv (globals s) (events s) \<and> jhi_state (globals s) = JHI_INITIALIZED)
      (set_globals (setJhiState JHI_STOPPING))
      (\<lambda>_ s. globals_inv (globals s) \<and> jhi_state (globals s) = JHI_STOPPING \<and> plugin_registered (globals s))"
    by (auto simp: spec_def life_inv_def setJhiState_def globals_inv_def)
  have "spec (\<lambda>s. life_inv (globals s) (events s) \<and> jhi_state (globals s) = JHI_INITIALIZED)
      (do { set_globals (setJhiState JHI_STOPPING); EventManager_Deinit pf }) (\<lambda>_ s. life_inv (globals s) (events s))"
    by (rule spec_bind [OF st life_deinit])
  then have "spec (\<lambda>s. life_inv (globals s) (events s) \<and> (jhi_state (globals s) = JHI_INITIALIZED) = v)
      (if v then do { set_globals (setJhiState JHI_STOPPING); EventManager_Deinit pf } else ret ())
      (\<lambda>_ s. life_inv (globals s) (events s))" for v
    by (cases v) (auto intro: spec_ret)
  then show ?thesis unfolding jhi_invoke_reset_def by (rule preserves_gets_bind)
qed

section \<open>The listener\<close>

lemma deliver_frame [pres_intros]:
  "preserves (\<lambda>s. K (globals s) (events s)) (deliver_event target e)"
  "preserves (\<lambda>s. J (applets s)) (deliver_event target e)"
  unfolding deliver_event_def by (intro pres_intros)+

lemma life_restart:
  "spec (\<lambda>s. life_inv (globals s) (events s) \<and> jhi_state (globals s) = JHI_INITIALIZED)
     (do { EventManager_Deinit pf;
           i \<leftarrow> EventManager_Initialize pf;
           if i \<noteq> JHI_SUCCESS then do { JhiReset pf; ret Service_reset } else ret Spooler_restarted })
     (\<lambda>_ s. life_inv (globals s) (events s))"
proof -
  let ?G = "\<lambda>g. globals_inv g \<and> jhi_state g = JHI_INITIALIZED \<and> plugin_registered g"
  have d: "spec (\<lambda>s. life_inv (globals s) (events s) \<and> jhi_state (globals s) = JHI_INITIALIZED)
      (EventManager_Deinit pf) (\<lambda>_ s. \<not> initialized (events s) \<and> ?G (globals s))"
    using spec_frame [OF deinit_events spooler_session_frame(6) [where J'' = ?G]]
    by (rule spec_weaken) (auto simp: life_inv_def)
  have i: "spec (\<lambda>s. \<not> initialized (events s) \<and> ?G (globals s)) (EventManager_Initialize pf)
      (\<lambda>r s. initialized (events s) = (r = JHI_SUCCESS) \<and> ?G (globals s))"
    by (rule spec_frame [OF initialize_events globals_initialize [where J = ?G]])
  have r: "spec (\<lambda>s. ?G (globals s)) (JhiReset pf) (\<lambda>_ s. life_inv (globals s) (events s))"
    by (rule specI) (use run_reset in \<open>fastforce simp: down_iff\<close>)
  have fin: "spec (\<lambda>s. initialized (events s) = (c = JHI_SUCCESS) \<and> ?G (globals s))
      (if c \<noteq> JHI_SUCCESS then do { JhiReset pf; ret Service_reset } else ret Spooler_restarted)
      (\<lambda>_ s. life_inv (globals s) (events s))" for c
  proof (rule spec_if)
    show "spec (\<lambda>s. initialized (events s) = (c = JHI_SUCCESS) \<and> ?G (globals s))
        (do { JhiReset pf; ret Service_reset }) (\<lambda>_ s. life_inv (globals s) (events s))"
      by (rule spec_bind [OF spec_weaken [OF r] spec_ret]) auto
    show "spec (\<lambda>s. initialized (events s) = (c = JHI_SUCCESS) \<and> ?G (globals s))
        (ret Spooler_restarted) (\<lambda>_ s. life_inv (globals s) (events s))" if "\<not> c \<noteq> JHI_SUCCESS"
      using that by (auto intro!: spec_ret simp: life_inv_def)
  qed
  show ?thesis by (rule spec_bind [OF d spec_bind [OF i fin]])
qed

lemma life_listener: "preserves (\<lambda>s. life_inv (globals s) (events s)) (listener_iteration pf)"
proof -
  let ?I = "\<lambda>s. life_inv (globals s) (events s)"
  have handle: "spec (\<lambda>s. ?I s \<and> jhi_state (globals s) = JHI_INITIALIZED) (set_events (\<lambda>e. e\<lparr>spooler_handle := 0\<rparr>))
      (\<lambda>_ s. ?I s \<and> jhi_state (globals s) = JHI_INITIALIZED)"
    by (auto simp: spec_def life_inv_def)
  have crash: "spec (\<lambda>s. ?I s \<and> (jhi_state (globals s) = JHI_INITIALIZED) = running)
      (if st = JHI_SUCCESS then do { deliver_event target ev; ret Listening }
       else if c \<and> running then do {
         set_events (\<lambda>e. e\<lparr>spooler_handle := 0\<rparr>);
         EventManager_Deinit pf;
         i \<leftarrow> EventManager_Initialize pf;
         if i \<noteq> JHI_SUCCESS then do { JhiReset pf; ret Service_reset } else ret Spooler_restarted }
       else do { JhiReset pf; ret Service_reset }) (\<lambda>_. ?I)" for st target ev c running
  proof -
    have "preserves ?I (do { deliver_event target ev; ret Listening })" by (intro pres_intros)
    moreover have "preserves ?I (do { JhiReset pf; ret Service_reset })" by (intro pres_intros life_reset)
    moreover note spec_bind [OF handle life_restart [of pf]]
    ultimately show ?thesis
      by (cases running; intro spec_if; auto simp: spec_preserves intro: spec_weaken)
  qed
  show ?thesis
    unfolding listener_iteration_def
    apply (rule preserves_bind, rule preserves_gets)
    apply (rule preserves_bind, rule globals_frame)
    apply (intro preserves_let preserves_case_prod)
    apply (rule preserves_gets_bind)
    apply (rule crash)
    done
qed

lemma applets_initialize: "preserves (\<lambda>s. applets_inv (applets s)) (EventManager_Initialize pf)"
  unfolding EventManager_Initialize_def initialize_spooler_def InstallSpooler_def
  by (intro pres_intros install_inv)

lemma applets_reset: "preserves (\<lambda>s. applets_inv (applets s)) (JhiReset pf)"
  unfolding JhiReset_def by (intro pres_intros applets_inv_set_applets) (simp_all add: resetAppletTable_def)

lemma applets_listener: "preserves (\<lambda>s. applets_inv (applets s)) (listener_iteration pf)"
  unfolding listener_iteration_def by (intro pres_intros applets_initialize applets_reset)

lemma applets_init_stages: "preserves (\<lambda>s. applets_inv (applets s)) (jhis_init env pf)"
proof -
  have att: "preserves (\<lambda>s. applets_inv (applets s)) (fw_version_attempts env v n)" for v n
    by (induction n arbitrary: v) (auto intro!: pres_intros)
  show ?thesis
    unfolding jhis_init_def init_stages_def init_failed_def init_connected_def init_plugin_def init_vm_type_def
      init_fw_version_def JhiGetRegistryValues_def existing_folder_def discoverVmType_def discoverFwVersion_def
      discoverFwVersionLegacy_def
    by (intro pres_intros att applets_initialize updateAppletsList_inv)
qed

section \<open>The session table through the life cycle\<close>

lemma shared_inv_events:
  "shared_inv m \<Longrightarrow> shared_inv (snd (setEventHandle sid h m))"
  "shared_inv m \<Longrightarrow> event_wf e \<Longrightarrow> shared_inv (snd (enqueueEventData sid e m))"
  "shared_inv m \<Longrightarrow> shared_inv (snd (getSessionEventData a sid m))"
  "shared_inv m \<Longrightarrow> shared_inv (resetSessionManager m)"
  by (simp_all add: shared_inv_def inv_setEventHandle inv_enqueue inv_dequeue inv_reset sm_inv_table
      set_event.op_shared_unique enq.op_shared_unique deq.op_shared_unique)
    (simp add: shared_unique_def static_part_def resetSessionManager_def)

interpretation signal: record_op
  "\<lambda>m. case session sid m of None \<Rightarrow> m | Some rec \<Rightarrow> put_session sid (rec\<lparr>eventHandle := h\<rparr>) m" sid
  "\<lambda>m r. r\<lparr>eventHandle := h\<rparr>" for sid h
  by unfold_locales (auto simp: table_put_session split: option.splits)

lemma shared_inv_signal:
  "shared_inv m \<Longrightarrow>
   shared_inv (case session sid m of None \<Rightarrow> m | Some rec \<Rightarrow> put_session sid (rec\<lparr>eventHandle := h\<rparr>) m)"
proof -
  assume inv: "shared_inv m"
  have "sm_inv (case session sid m of None \<Rightarrow> m | Some rec \<Rightarrow> put_session sid (rec\<lparr>eventHandle := h\<rparr>) m)"
    using inv by (intro signal.op_inv) (auto simp: shared_inv_def dest: record_bounds)
  with inv show ?thesis by (simp add: shared_inv_def signal.op_shared_unique sm_inv_table)
qed

text \<open>The plugin hands out well-formed events: the data has the length it is said to have.\<close>

definition events_wf :: "'w platform \<Rightarrow> bool" where
  "events_wf pf \<longleftrightarrow> (\<forall>h w. case fst (snd (fst (JHI_Plugin_WaitForSpoolerEvent pf h w))) of
     None \<Rightarrow> True | Some e \<Rightarrow> event_wf e)"

lemma sessions_deliver:
  "(case ev of None \<Rightarrow> True | Some e \<Rightarrow> event_wf e) \<Longrightarrow>
   preserves (\<lambda>s. shared_inv (sessions s)) (deliver_event target ev)"
  unfolding deliver_event_def
  by (intro pres_intros sessions_inv_on_sessions) (auto simp: shared_inv_events shared_inv_signal)

lemma sessions_reset_service: "preserves (\<lambda>s. shared_inv (sessions s)) (JhiReset pf)"
  unfolding JhiReset_def by (intro pres_intros sessions_inv_on_sessions) (simp add: shared_inv_events)

lemma sessions_listener:
  assumes "events_wf pf"
  shows "preserves (\<lambda>s. shared_inv (sessions s)) (listener_iteration pf)"
proof -
  have rest: "preserves (\<lambda>s. shared_inv (sessions s)) (do {
       running \<leftarrow> gets (\<lambda>s. jhi_state (globals s) = JHI_INITIALIZED);
       if st = JHI_SUCCESS then do { deliver_event target ev; ret Listening }
       else if (st = JHI_APPLET_FATAL \<or> st = JHI_APPLET_BAD_STATE \<or> st = JHI_INVALID_PARAMS) \<and> running then do {
         set_events (\<lambda>e. e\<lparr>spooler_handle := 0\<rparr>);
         EventManager_Deinit pf;
         i \<leftarrow> EventManager_Initialize pf;
         if i \<noteq> JHI_SUCCESS then do { JhiReset pf; ret Service_reset } else ret Spooler_restarted }
       else do { JhiReset pf; ret Service_reset } })"
    if "case ev of None \<Rightarrow> True | Some e \<Rightarrow> event_wf e" for st target ev
    by (intro pres_intros sessions_deliver that uniq.initialize_pres sessions_reset_service)
  show ?thesis
    unfolding preserves_def
  proof (intro allI impI)
    fix s :: "'a jhi"
    assume inv: "shared_inv (sessions s)"
    obtain st ev target w where r: "JHI_Plugin_WaitForSpoolerEvent pf (spooler_handle (events s)) (world s) =
        ((st, ev, target), w)" by (metis prod_cases3 surj_pair)
    have "case ev of None \<Rightarrow> True | Some e \<Rightarrow> event_wf e"
      using assms [unfolded events_wf_def, rule_format, of "spooler_handle (events s)" "world s"] r by simp
    from rest [OF this, of st target, unfolded preserves_def, rule_format, of "s\<lparr>world := w\<rparr>"] inv
    show "shared_inv (sessions (snd (run_state (listener_iteration pf) s)))"
      by (simp add: listener_iteration_def r Let_def)
  qed
qed

lemma sessions_init: "preserves (\<lambda>s. shared_inv (sessions s)) (jhis_init env pf)"
proof -
  have att: "preserves (\<lambda>s. shared_inv (sessions s)) (fw_version_attempts env v n)" for v n
    by (induction n arbitrary: v) (auto intro!: pres_intros)
  show ?thesis
    unfolding jhis_init_def init_stages_def init_failed_def init_connected_def init_plugin_def init_vm_type_def
      init_fw_version_def JhiGetRegistryValues_def existing_folder_def discoverVmType_def discoverFwVersion_def
      discoverFwVersionLegacy_def
    by (intro pres_intros att uniq.initialize_pres)
qed

lemma handler_sessions:
  "preserves (\<lambda>s. shared_inv (sessions s)) (SetSessionEventHandler sid name)"
  unfolding SetSessionEventHandler_def
  by (intro pres_intros sessions_inv_on_sessions) (simp add: shared_inv_events)

lemma handler_frames [pres_intros]:
  "preserves (\<lambda>s. K (globals s) (events s)) (SetSessionEventHandler sid name)"
  "preserves (\<lambda>s. J (applets s)) (SetSessionEventHandler sid name)"
  unfolding SetSessionEventHandler_def by (intro pres_intros)+

section \<open>Properties\<close>

text \<open>The stopped service on the machine \<open>sample_env\<close>.\<close>

definition stopped_state :: "nat jhi" where
  "stopped_state = sample_state\<lparr>globals := GlobalsManager_init,
     fsys := \<lparr> files = [(''/var/lib/intel/dal/applets/SpoolerApplet.acp'', [1])],
       folders = [''/repo'', ''/usr/sbin'', ''/var/lib/intel/dal/applets''], io = [], stream_fault = False \<rparr>\<rparr>"

text \<open>
  C39: start-up is all or nothing: called on a stopped service, \<^verbatim>\<open>jhis_init\<close> either reports success
  and the service is initialized with its plugin registered and the event manager up, or reports an
  error and the service is stopped with the plugin unregistered and unloaded.
\<close>

theorem init_all_or_nothing:
  assumes "life_inv (globals s) (events s)" "jhi_state (globals s) = JHI_STOPPED"
    "run_state (jhis_init env pf) s = (r, s')"
  shows "if r = JHI_SUCCESS
    then jhi_state (globals s') = JHI_INITIALIZED \<and> plugin_registered (globals s') \<and> plugin_table (globals s')
      \<and> initialized (events s')
    else jhi_state (globals s') = JHI_STOPPED \<and> \<not> plugin_registered (globals s') \<and> \<not> plugin_table (globals s')
      \<and> \<not> pluginLoaded (globals s') \<and> \<not> initialized (events s')"
proof -
  have "down s" using assms(1,2) by (simp add: down_iff)
  from specD [OF jhis_init_spec this assms(3)] show ?thesis
    by (simp add: down_def up_def plugin_part_def split: if_splits)
qed

theorem init_all_or_nothing_witness:
  "run_state (jhis_init sample_env sample_platform) stopped_state =
     (JHI_SUCCESS, snd (run_state (jhis_init sample_env sample_platform) stopped_state))
   \<and> jhi_state (globals (snd (run_state (jhis_init sample_env sample_platform) stopped_state))) = JHI_INITIALIZED"
proof -
  have "life_inv (globals stopped_state) (events stopped_state)" "jhi_state (globals stopped_state) = JHI_STOPPED"
    by code_simp+
  moreover have run: "run_state (jhis_init sample_env sample_platform) stopped_state =
      (JHI_SUCCESS, snd (run_state (jhis_init sample_env sample_platform) stopped_state))"
  proof -
    have "fst (run_state (jhis_init sample_env sample_platform) stopped_state) = JHI_SUCCESS" by code_simp
    then show ?thesis by (metis prod.collapse)
  qed
  ultimately show ?thesis
    using init_all_or_nothing [where r = JHI_SUCCESS] by auto
qed

text \<open>
  A reset of a service that is not stopped clears it: no session and no applet record is left,
  the event manager is down, the plugin is unregistered, the state is stopped and the waiting threads
  are told; the files are untouched.
\<close>

theorem reset_clears_service:
  assumes "life_inv (globals s) (events s)" "jhi_state (globals s) \<noteq> JHI_STOPPED"
    "run_state (JhiReset pf) s = (u, s')"
  shows "sessionList (sessions s') = [] \<and> applets s' = [] \<and> \<not> initialized (events s')
    \<and> jhi_state (globals s') = JHI_STOPPED \<and> \<not> plugin_registered (globals s') \<and> reset_complete (globals s')
    \<and> fsys s' = fsys s"
  using run_reset [OF _ assms(2,3)] assms(1) by (auto simp: life_inv_def down_def plugin_part_def)

theorem reset_clears_service_witness:
  "sessionList (sessions (snd (run_state (JhiReset sample_platform)
      ((sample_with [(1, 0, [2])])\<lparr>events := \<lparr> initialized = True, spooler_handle = 3, listener_started = True \<rparr>\<rparr>)))) = []"
proof -
  let ?s = "(sample_with [(1, 0, [2])])\<lparr>events := \<lparr> initialized = True, spooler_handle = 3, listener_started = True \<rparr>\<rparr>"
  have "life_inv (globals ?s) (events ?s)" "jhi_state (globals ?s) \<noteq> JHI_STOPPED" by code_simp+
  from reset_clears_service [OF this surjective_pairing] show ?thesis by blast
qed

text \<open>
  C40: an event for a session registered for events whose queue is not full is appended to that queue,
  the application is signalled once, the thread goes on listening, and no other session changes.
\<close>

theorem event_is_delivered:
  assumes "io (fsys s) = []" "session sid (sessions s) = Some r" "eventHandle r = Some h" "is_created h"
    "event_fd h" "isClient h" "length (eventsDataQueue r) < MAX_EVENTS_DATA_IN_QUEUE"
    "JHI_Plugin_WaitForSpoolerEvent pf (spooler_handle (events s)) (world s) = ((JHI_SUCCESS, Some e, sid), w)"
  shows "\<exists>m'. run_state (listener_iteration pf) s = (Listening, s\<lparr>world := w, sessions := m'\<rparr>)
    \<and> session sid m' = Some (r\<lparr>eventsDataQueue := eventsDataQueue r @ [e],
          eventHandle := Some (h\<lparr>tx_cnt := tx_cnt h + 1\<rparr>)\<rparr>)
    \<and> (\<forall>k. k \<noteq> sid \<longrightarrow> session k m' = session k (sessions s))"
proof -
  let ?m = "put_session sid (r\<lparr>eventsDataQueue := eventsDataQueue r @ [e],
      eventHandle := Some (h\<lparr>tx_cnt := tx_cnt h + 1\<rparr>)\<rparr>) (snd (enqueueEventData sid e (sessions s)))"
  have "run_state (listener_iteration pf) s = (Listening, s\<lparr>world := w, sessions := ?m\<rparr>)"
    using assms
    by (simp add: listener_iteration_def deliver_event_def Let_def getEventHandle_def registered_def
        JhiEvent_set_def run_on_fsys run_next_io)
  then show ?thesis by (intro exI [of _ ?m]) simp
qed

definition listening_session :: SessionRecord where
  "listening_session = (sample_session 0 [2] 1)\<lparr>eventHandle :=
     Some (JhiEvent_init\<lparr>event_name := Some ''/tmp/ev'', isClient := True, event_fd := True, is_created := True\<rparr>)\<rparr>"

definition listening_state :: "nat jhi" where
  "listening_state = (sample_with [])\<lparr>sessions := \<lparr> sessionList = [(sample_id 1, listening_session)],
     sharedSessionLRUCounter = 1 \<rparr>\<rparr>"

theorem event_is_delivered_witness:
  "\<exists>m'. run_state (listener_iteration (sample_platform\<lparr>JHI_Plugin_WaitForSpoolerEvent :=
      (\<lambda>h w. ((JHI_SUCCESS, Some (sample_event 5), sample_id 1), w))\<rparr>)) listening_state =
        (Listening, listening_state\<lparr>world := 1, sessions := m'\<rparr>)
    \<and> map_option eventsDataQueue (session (sample_id 1) m') = Some [sample_event 5]"
proof -
  let ?pf = "sample_platform\<lparr>JHI_Plugin_WaitForSpoolerEvent :=
      (\<lambda>h w. ((JHI_SUCCESS, Some (sample_event 5), sample_id 1), w))\<rparr>"
  have "io (fsys listening_state) = []" "session (sample_id 1) (sessions listening_state) = Some listening_session"
    "eventHandle listening_session = Some (the (eventHandle listening_session))"
    "is_created (the (eventHandle listening_session))" "event_fd (the (eventHandle listening_session))"
    "isClient (the (eventHandle listening_session))"
    "length (eventsDataQueue listening_session) < MAX_EVENTS_DATA_IN_QUEUE" "eventsDataQueue listening_session = []"
    by code_simp+
  note facts = this
  have "JHI_Plugin_WaitForSpoolerEvent ?pf (spooler_handle (events listening_state)) (world listening_state) =
      ((JHI_SUCCESS, Some (sample_event 5), sample_id 1), 1)"
    by (simp add: listening_state_def sample_with_def sample_state_def)
  from event_is_delivered [OF facts(1-7) this] facts(8) show ?thesis by auto
qed

text \<open>
  Registering an event under the name of an existing regular file deletes that file: the
  connection is refused, the handler reports an error, and the destructor of the event object
  removes the file named by the client.
\<close>

theorem event_name_deletes_file:
  assumes "io (fsys s) = []" "sm_inv (sessions s)" "session sid (sessions s) = Some r"
    "\<not> sharedSession (sessionFlags r)" "name \<noteq> []" "length name \<le> JHI_EVENT_HANDLE_SIZE"
    "smap_find (files (fsys s)) name \<noteq> None"
  shows "run_state (SetSessionEventHandler sid (Some name)) s =
    (JHI_INTERNAL_ERROR, s\<lparr>fsys := (fsys s)\<lparr>files := smap_erase name (files (fsys s))\<rparr>\<rparr>)"
proof -
  have path: "take SUN_PATH_LEN name = name" using assms(6) by simp
  let ?e = "JhiEvent_init\<lparr>isClient := True, event_name := Some name, event_fd := True\<rparr>"
  have opened: "run_state (JhiEvent_open JhiEvent_init (Some name)) (fsys s) = ((False, ?e), fsys s)"
    using run_open_regular_file [OF assms(1), of name] assms(7) path by simp
  have clean: "snd (run_state (JhiEvent_clean ?e) (fsys s)) = (fsys s)\<lparr>files := smap_erase name (files (fsys s))\<rparr>"
    using run_clean_client [OF assms(1), of ?e name] assms(7) by simp
  show ?thesis
    using assms(1,4,5) active_info [OF assms(2,3)]
    by (simp add: SetSessionEventHandler_def run_alloc run_on_fsys opened clean)
qed


theorem event_name_deletes_file_witness:
  "run_state (SetSessionEventHandler (sample_id 1) (Some ''/tmp/a.acp'')) (sample_with [(1, 0, [2])]) =
     (JHI_INTERNAL_ERROR, (sample_with [(1, 0, [2])])\<lparr>fsys := (fsys sample_state)\<lparr>files := []\<rparr>\<rparr>)"
proof -
  let ?s = "sample_with [(1, 0, [2])]"
  have "io (fsys ?s) = []" "session (sample_id 1) (sessions ?s) = Some (sample_session 0 [2] 1)"
    "\<not> sharedSession (sessionFlags (sample_session 0 [2] 1))" "''/tmp/a.acp'' \<noteq> []"
    "length ''/tmp/a.acp'' \<le> JHI_EVENT_HANDLE_SIZE" "smap_find (files (fsys ?s)) ''/tmp/a.acp'' \<noteq> None"
    "smap_erase ''/tmp/a.acp'' (files (fsys sample_state)) = []" "fsys ?s = fsys sample_state"
    by code_simp+
  note facts = this
  show ?thesis
    using event_name_deletes_file [OF facts(1) sample_inv(1) facts(2-6)] unfolding facts(8) facts(7) .
qed

end
