(* ===== verification/Command_Dispatcher.thy ===== *)
theory Command_Dispatcher
  imports Service_Init
begin

text \<open>
  The command dispatcher, \<^verbatim>\<open>service/CommandDispatcher.cpp\<close>: a command is a buffer of bytes, a packed
  \<^verbatim>\<open>JHI_COMMAND\<close> (identifier, length, data) whose data is a structure of
  \<^verbatim>\<open>common/include/CSTypedefs.h\<close>. Each \<^verbatim>\<open>Invoke\<close> method first checks the buffer and takes its fields
  (\<open>decode_...\<close>, with the offsets of the packed structures), calls the handler of the service, and
  builds the response. The outcome is a response, none when the memory for it is missing, or
  \<open>Undefined\<close> when a method reads its input or writes its output out of bounds. What of a response
  no statement assigns holds \<open>uninit_byte\<close>.
\<close>

datatype reply = Undefined | No_reply | Reply "byte list"

abbreviation JHI_BUFFER_MAX :: nat where "JHI_BUFFER_MAX \<equiv> 2097152"

section \<open>Requests\<close>

text \<open>The test \<^verbatim>\<open>cmd->dataLength != inputSize\<close>, the first of every method.\<close>

definition checked_length :: "JHI_RET \<Rightarrow> byte list \<Rightarrow> 'a decoded \<Rightarrow> 'a decoded" where
  "checked_length err b k = reading (u32_at 1 b) (\<lambda>n. if unat n \<noteq> length b then Refused err else k)"

definition convertAppIDtoUpperCase :: "string option \<Rightarrow> (bool \<times> string) option" where
  "convertAppIDtoUpperCase pAppId =
     (case pAppId of
        None \<Rightarrow> Some (False, [])
      | Some mem \<Rightarrow> map_option (\<lambda>(r, up). (r = JHI_SUCCESS, up)) (JhiUtilUUID_Validate (Some mem)))"

definition verifyAppID :: "string \<Rightarrow> JHI_RET" where
  "verifyAppID pAppId =
     (if length pAppId \<noteq> LEN_APP_ID then JHI_INVALID_APPLET_GUID
      else if pAppId = SPOOLER_APPLET_UUID then JHI_INVALID_APPLET_GUID
      else JHI_SUCCESS)"

text \<open>The two checks of an applet identifier that follow its terminator, in every method that has one.\<close>

definition verified_app :: "byte list \<Rightarrow> (string \<Rightarrow> 'a decoded) \<Rightarrow> 'a decoded" where
  "verified_app a k = reading (convertAppIDtoUpperCase (Some (chars a))) (\<lambda>(ok, app).
     if \<not> ok then Refused JHI_INTERNAL_ERROR
     else if verifyAppID app \<noteq> JHI_SUCCESS then Refused JHI_INVALID_APPLET_GUID
     else k app)"

definition process_of :: "byte list \<Rightarrow> JHI_PROCESS_INFO" where
  "process_of b = \<lparr> pid = get32 (take 4 b), creationTime = \<lparr> dwHighDateTime = get32 (take 4 (drop 4 b)),
     dwLowDateTime = get32 (drop 8 b) \<rparr> \<rparr>"

definition decode_install :: "byte list \<Rightarrow> (string \<times> string) decoded" where
  "decode_install b = checked_length JHI_INTERNAL_ERROR b
     (if length b < 43 then Refused JHI_INTERNAL_ERROR
      else reading (u32_at 38 b) (\<lambda>n.
        if n < 1 \<or> unat n > FILENAME_MAX + 1 then Refused JHI_INTERNAL_ERROR
        else if length b \<noteq> 42 + unat n then Refused JHI_INTERNAL_ERROR
        else reading (read_at 5 33 b) (\<lambda>a. reading (read_at 42 (unat n) b) (\<lambda>f.
          if a ! LEN_APP_ID \<noteq> 0 then Refused JHI_INTERNAL_ERROR
          else if last f \<noteq> 0 then Refused JHI_INTERNAL_ERROR
          else verified_app a (\<lambda>app. Decoded (app, c_string (chars f)))))))"

text \<open>\<^verbatim>\<open>JHI_CMD_UNINSTALL\<close> and \<^verbatim>\<open>JHI_CMD_GET_SESSIONS_COUNT\<close>: an applet identifier.\<close>

definition decode_app :: "byte list \<Rightarrow> string decoded" where
  "decode_app b = checked_length JHI_INTERNAL_ERROR b
     (if length b \<noteq> 38 then Refused JHI_INTERNAL_ERROR
      else reading (read_at 5 33 b) (\<lambda>a.
        if a ! LEN_APP_ID \<noteq> 0 then Refused JHI_INTERNAL_ERROR
        else verified_app a Decoded))"

definition decode_create_session ::
    "byte list \<Rightarrow> (string \<times> JHI_SESSION_FLAGS \<times> byte list option \<times> JHI_PROCESS_INFO) decoded" where
  "decode_create_session b = checked_length JHI_INTERNAL_ERROR b
     (if length b < 59 then Refused JHI_INTERNAL_ERROR
      else reading (u32_at 38 b) (\<lambda>n.
        if unat n > JHI_BUFFER_MAX then Refused JHI_INTERNAL_ERROR
        else if n = 0 \<and> length b \<noteq> 59 then Refused JHI_INTERNAL_ERROR
        else if n > 0 \<and> length b \<noteq> 58 + unat n then Refused JHI_INTERNAL_ERROR
        else reading (read_at 5 33 b) (\<lambda>a. reading (u32_at 42 b) (\<lambda>flags. reading (read_at 46 12 b) (\<lambda>p.
          reading (read_at 58 (unat n) b) (\<lambda>d.
          if a ! LEN_APP_ID \<noteq> 0 then Refused JHI_INTERNAL_ERROR
          else verified_app a (\<lambda>app.
            Decoded (app, flags, if n > 0 then Some d else None, process_of p))))))))"

definition decode_close_session :: "byte list \<Rightarrow> (JHI_SESSION_ID \<times> JHI_PROCESS_INFO \<times> bool) decoded" where
  "decode_close_session b = checked_length JHI_INTERNAL_ERROR b
     (if length b \<noteq> 34 then Refused JHI_INTERNAL_ERROR
      else reading (read_at 5 16 b) (\<lambda>sid. reading (read_at 21 12 b) (\<lambda>p. reading (read_at 33 1 b) (\<lambda>f.
        Decoded (UUID sid, process_of p, f \<noteq> [0])))))"

definition decode_event_handler :: "byte list \<Rightarrow> (JHI_SESSION_ID \<times> string) decoded" where
  "decode_event_handler b = checked_length JHI_INTERNAL_ERROR b
     (if length b < 26 then Refused JHI_INTERNAL_ERROR
      else reading (u32_at 21 b) (\<lambda>n.
        if n < 1 \<or> unat n > JHI_EVENT_HANDLE_SIZE then Refused JHI_INTERNAL_ERROR
        else if length b \<noteq> 25 + unat n then Refused JHI_INTERNAL_ERROR
        else reading (read_at 5 16 b) (\<lambda>sid. reading (read_at 25 (unat n) b) (\<lambda>name.
          if last name \<noteq> 0 then Refused JHI_INTERNAL_ERROR
          else Decoded (UUID sid, c_string (chars name))))))"

text \<open>\<^verbatim>\<open>JHI_CMD_GET_SESSION_INFO\<close> and \<^verbatim>\<open>JHI_CMD_GET_EVENT_DATA\<close>: a session identifier.\<close>

definition decode_session :: "byte list \<Rightarrow> JHI_SESSION_ID decoded" where
  "decode_session b = checked_length JHI_INTERNAL_ERROR b
     (if length b \<noteq> 21 then Refused JHI_INTERNAL_ERROR
      else reading (read_at 5 16 b) (\<lambda>sid. Decoded (UUID sid)))"

definition decode_send_and_recieve ::
    "byte list \<Rightarrow> (JHI_SESSION_ID \<times> uint32 \<times> byte list \<times> uint32) decoded" where
  "decode_send_and_recieve b = checked_length JHI_INTERNAL_ERROR b
     (if length b < 34 then Refused JHI_INTERNAL_ERROR
      else reading (u32_at 25 b) (\<lambda>n. reading (u32_at 29 b) (\<lambda>rx.
        if unat n > JHI_BUFFER_MAX \<or> unat rx > JHI_BUFFER_MAX then Refused JHI_INVALID_BUFFER_SIZE
        else if n = 0 \<and> length b \<noteq> 34 then Refused JHI_INTERNAL_ERROR
        else if n > 0 \<and> length b \<noteq> 33 + unat n then Refused JHI_INTERNAL_ERROR
        else reading (read_at 5 16 b) (\<lambda>sid. reading (u32_at 21 b) (\<lambda>cid. reading (read_at 33 (unat n) b) (\<lambda>tx.
          Decoded (UUID sid, cid, tx, rx)))))))"

text \<open>
  \<^verbatim>\<open>JHI_CMD_GET_APPLET_PROPERTY\<close>, up to the allocation of the receive buffer: the identifier is
  checked after it.
\<close>

definition decode_property_sizes :: "byte list \<Rightarrow> (byte list \<times> byte list \<times> uint32) decoded" where
  "decode_property_sizes b = checked_length JHI_INTERNAL_ERROR b
     (if length b < 47 then Refused JHI_INTERNAL_ERROR
      else reading (u32_at 38 b) (\<lambda>n. reading (u32_at 42 b) (\<lambda>rx.
        if unat n > JHI_BUFFER_MAX \<or> unat rx > JHI_BUFFER_MAX then Refused JHI_INVALID_BUFFER_SIZE
        else if n = 0 \<and> length b \<noteq> 47 then Refused JHI_INTERNAL_ERROR
        else if n > 0 \<and> length b \<noteq> 46 + unat n then Refused JHI_INTERNAL_ERROR
        else reading (read_at 5 33 b) (\<lambda>a. reading (read_at 46 (unat n) b) (\<lambda>tx. Decoded (a, tx, rx))))))"

definition decode_property_app :: "byte list \<Rightarrow> string decoded" where
  "decode_property_app a = (if a ! LEN_APP_ID \<noteq> 0 then Refused JHI_INTERNAL_ERROR else verified_app a Decoded)"

section \<open>Requests of the security domains\<close>

definition decode_open_sd :: "byte list \<Rightarrow> string decoded" where
  "decode_open_sd b = checked_length TEE_STATUS_INTERNAL_ERROR b
     (if length b < 38 then Refused TEE_STATUS_INTERNAL_ERROR
      else reading (read_at 5 33 b) (\<lambda>a.
        if a ! LEN_APP_ID \<noteq> 0 then Refused TEE_STATUS_INTERNAL_ERROR
        else let sdId = c_string (chars a) in
          if \<not> validateUuidString sdId then Refused TEE_STATUS_INVALID_UUID else Decoded sdId))"

text \<open>\<^verbatim>\<open>JHI_CMD_CLOSE_SD_SESSION\<close>, \<^verbatim>\<open>JHI_CMD_LIST_INSTALLED_TAS\<close>, \<^verbatim>\<open>JHI_CMD_LIST_INSTALLED_SDS\<close>: a handle.\<close>

definition decode_sd_handle :: "byte list \<Rightarrow> VM_SESSION_HANDLE decoded" where
  "decode_sd_handle b = checked_length TEE_STATUS_INTERNAL_ERROR b
     (if length b < 13 then Refused TEE_STATUS_INTERNAL_ERROR
      else reading (u64_at 5 b) (\<lambda>h. if h = 0 then Refused TEE_STATUS_INTERNAL_ERROR else Decoded h))"

text \<open>\<^verbatim>\<open>JHI_CMD_SEND_CMD_PKG\<close>: the two fields are read before the size of the input is compared with anything.\<close>

definition decode_send_cmd_pkg :: "byte list \<Rightarrow> (VM_SESSION_HANDLE \<times> byte list) decoded" where
  "decode_send_cmd_pkg b = checked_length TEE_STATUS_INTERNAL_ERROR b
     (reading (u32_at 13 b) (\<lambda>n. if n = 0 then Refused TEE_STATUS_INTERNAL_ERROR
      else reading (u64_at 5 b) (\<lambda>h. if h = 0 then Refused TEE_STATUS_INTERNAL_ERROR
      else if length b \<noteq> 17 + unat n then Refused TEE_STATUS_INTERNAL_ERROR
      else reading (read_at 17 (unat n) b) (\<lambda>blob. Decoded (h, blob)))))"

definition decode_metadata_query :: "byte list \<Rightarrow> unit decoded" where
  "decode_metadata_query b = checked_length TEE_STATUS_INTERNAL_ERROR b
     (if length b < 6 then Refused TEE_STATUS_INTERNAL_ERROR else Decoded ())"

text \<open>The two key commands: a structure of a fixed size.\<close>

definition decode_key :: "nat \<Rightarrow> byte list \<Rightarrow> byte list decoded" where
  "decode_key n b = checked_length TEE_STATUS_INTERNAL_ERROR b
     (if length b \<noteq> 5 + n then Refused TEE_STATUS_INTERNAL_ERROR
      else reading (read_at 5 n b) Decoded)"

section \<open>Responses\<close>

text \<open>
  A response of \<open>n\<close> bytes: code, length, the bytes assigned, and the rest of the block as it was
  allocated. The first nine bytes are always written.
\<close>

definition respond :: "'w platform \<Rightarrow> JHI_RET \<Rightarrow> uint32 \<Rightarrow> byte list \<Rightarrow> ('w, reply) service" where
  "respond pf r n body = do {
     a \<leftarrow> alloc;
     ret (if \<not> a then No_reply
          else if unat n < max 9 (8 + length body) then Undefined
          else Reply (put32 r @ put32 n @ body @ map (uninit_byte pf) [8 + length body ..< unat n])) }"

text \<open>How every method goes on from its checks.\<close>

definition answering :: "'a decoded \<Rightarrow> (JHI_RET \<Rightarrow> ('w, reply) service) \<Rightarrow> ('a \<Rightarrow> ('w, reply) service) \<Rightarrow>
    ('w, reply) service" where
  "answering d refused k =
     (case d of Overread \<Rightarrow> ret Undefined | Refused r \<Rightarrow> refused r | Decoded a \<Rightarrow> k a)"

definition InvokeInit :: "'w platform \<Rightarrow> byte list \<Rightarrow> ('w, reply) service" where
  "InvokeInit pf b = respond pf (if length b \<noteq> 6 then JHI_INTERNAL_ERROR else JHI_SUCCESS) 9 []"

definition InvokeInstall :: "'w platform \<Rightarrow> byte list \<Rightarrow> ('w, reply) service" where
  "InvokeInstall pf b = answering (decode_install b) (\<lambda>r. respond pf r 9 []) (\<lambda>(app, path). do {
     r \<leftarrow> jhis_install pf app path True False;
     respond pf r 9 [] })"

definition InvokeUninstall :: "'w platform \<Rightarrow> byte list \<Rightarrow> ('w, reply) service" where
  "InvokeUninstall pf b = answering (decode_app b) (\<lambda>r. respond pf r 9 []) (\<lambda>app. do {
     r \<leftarrow> jhis_uninstall pf app None;
     respond pf r 9 [] })"

definition InvokeGetSessionsCount :: "'w platform \<Rightarrow> byte list \<Rightarrow> ('w, reply) service" where
  "InvokeGetSessionsCount pf b = answering (decode_app b) (\<lambda>r. respond pf r 13 (put32 0)) (\<lambda>app. do {
     r \<leftarrow> jhis_get_sessions_count app True;
     respond pf (fst r) 13 (put32 (case snd r of None \<Rightarrow> 0 | Some n \<Rightarrow> n)) })"

definition InvokeCreateSession :: "'w platform \<Rightarrow> byte list \<Rightarrow> ('w, reply) service" where
  "InvokeCreateSession pf b = answering (decode_create_session b) (\<lambda>r. respond pf r 25 (replicate 16 0))
     (\<lambda>(app, flags, initData, p). do {
       r \<leftarrow> jhis_create_session pf app flags initData p;
       respond pf (fst r) 25 (case snd r of None \<Rightarrow> replicate 16 0 | Some sid \<Rightarrow> uuid_bytes sid) })"

definition InvokeCloseSession :: "'w platform \<Rightarrow> byte list \<Rightarrow> ('w, reply) service" where
  "InvokeCloseSession pf b = answering (decode_close_session b) (\<lambda>r. respond pf r 9 []) (\<lambda>(sid, p, force). do {
     r \<leftarrow> jhis_close_session pf sid (Some p) force True;
     respond pf r 9 [] })"

definition InvokeSetSessionEventHandler :: "'w platform \<Rightarrow> byte list \<Rightarrow> ('w, reply) service" where
  "InvokeSetSessionEventHandler pf b = answering (decode_event_handler b) (\<lambda>r. respond pf r 9 []) (\<lambda>(sid, name). do {
     r \<leftarrow> SetSessionEventHandler sid (Some name);
     respond pf r 9 [] })"

text \<open>\<^verbatim>\<open>JHI_SESSION_INFO\<close>: state, flags and twenty reserved words.\<close>

fun session_state_val :: "JHI_SESSION_STATE \<Rightarrow> uint32" where
  "session_state_val JHI_SESSION_STATE_ACTIVE = 0"
| "session_state_val JHI_SESSION_STATE_NOT_EXISTS = 1"

definition info_bytes :: "JHI_SESSION_INFO option \<Rightarrow> byte list" where
  "info_bytes info = (case info of
        None \<Rightarrow> replicate 88 0
      | Some i \<Rightarrow> put32 (session_state_val (info_state i)) @ put32 (info_flags i) @ replicate 80 0)"

definition InvokeGetSessionInfo :: "'w platform \<Rightarrow> byte list \<Rightarrow> ('w, reply) service" where
  "InvokeGetSessionInfo pf b = answering (decode_session b) (\<lambda>r. respond pf r 97 (info_bytes None)) (\<lambda>sid. do {
     r \<leftarrow> jhis_get_session_info (Some sid) True;
     respond pf (fst r) 97 (info_bytes (snd r)) })"

text \<open>
  \<^verbatim>\<open>JHI_RES_GET_EVENT_DATA\<close>: length, type, data; without data one byte of the cleared structure. The
  type is not assigned when there is no event.
\<close>

fun data_type_val :: "JHI_EVENT_DATA_TYPE \<Rightarrow> byte" where
  "data_type_val JHI_DATA_FROM_APPLET = 0"
| "data_type_val JHI_DATA_FROM_SERVICE = 1"

definition event_bytes :: "'w platform \<Rightarrow> JHI_EVENT_DATA option \<Rightarrow> byte list" where
  "event_bytes pf e = (case e of
        None \<Rightarrow> put32 0 @ [uninit_byte pf 12, 0]
      | Some d \<Rightarrow> put32 (datalen d) @ [data_type_val (dataType d)]
                  @ (case ev_data d of None \<Rightarrow> [0] | Some [] \<Rightarrow> [0] | Some bs \<Rightarrow> bs))"

definition event_length :: "JHI_EVENT_DATA option \<Rightarrow> uint32" where
  "event_length e = (case e of None \<Rightarrow> 0 | Some d \<Rightarrow> datalen d)"

definition InvokeGetSessionEventData :: "'w platform \<Rightarrow> byte list \<Rightarrow> ('w, reply) service" where
  "InvokeGetSessionEventData pf b = answering (decode_session b) (\<lambda>r. respond pf r 15 (replicate 6 0)) (\<lambda>sid. do {
     a \<leftarrow> alloc;
     r \<leftarrow> on_sessions (getSessionEventData a sid);
     respond pf (fst r) (15 + event_length (snd r)) (event_bytes pf (snd r)) })"

text \<open>
  The receive buffer of a command: absent when its size is zero. A handler that does not answer
  leaves its size and the response code of the cleared structure.
\<close>

definition received :: "uint32 \<Rightarrow> uint32 \<Rightarrow> byte list \<Rightarrow> byte list" where
  "received len rx mem = (if len > 0 \<and> len \<le> rx then take (unat len) mem else [0])"

definition InvokeSendAndRecieve :: "'w platform \<Rightarrow> byte list \<Rightarrow> ('w, reply) service" where
  "InvokeSendAndRecieve pf b = answering (decode_send_and_recieve b) (\<lambda>r. respond pf r 9 []) (\<lambda>(sid, cid, tx, rx). do {
     a \<leftarrow> (if rx > 0 then alloc else ret True);
     if \<not> a then ret No_reply
     else do {
       t \<leftarrow> jhis_txrx_raw pf sid cid tx rx;
       let r = fst t;
       let (mem, len, resp) = (case snd t of None \<Rightarrow> ([], rx, 0) | Some v \<Rightarrow> v);
       let n = (if r = JHI_SUCCESS then 18 + len else 18);
       respond pf r n
         (if r = JHI_INTERNAL_ERROR \<or> r = JHI_INVALID_BUFFER_SIZE then []
          else put32 resp @ put32 len
               @ (if r = JHI_SUCCESS then received len rx (mem @ replicate (unat rx) 0) else [0])) } })"

definition InvokeGetAppletProperty :: "'w platform \<Rightarrow> byte list \<Rightarrow> ('w, reply) service" where
  "InvokeGetAppletProperty pf b = answering (decode_property_sizes b) (\<lambda>r. respond pf r 9 []) (\<lambda>(a, tx, rx). do {
     m \<leftarrow> (if rx > 0 then alloc else ret True);
     if \<not> m then ret No_reply
     else answering (decode_property_app a) (\<lambda>r. respond pf r 9 []) (\<lambda>app. do {
       t \<leftarrow> jhis_get_applet_property pf app (Some (chars tx)) rx;
       let (r, buf, len) = t;
       let n = (if r = JHI_SUCCESS then 14 + len else 14);
       respond pf r n
         (if r = JHI_SUCCESS \<or> r = JHI_INSUFFICIENT_BUFFER
          then put32 len @ (if r = JHI_SUCCESS
                 then received len rx ((case buf of None \<Rightarrow> [] | Some v \<Rightarrow> bytes_of v)
                        @ map (uninit_byte pf) [0 ..< unat rx]) else [0])
          else []) }) })"

section \<open>Responses of the security domains\<close>

text \<open>These commands exist over Beihai v2 only; the plugin may be gone.\<close>

definition over_v2 :: "'a decoded \<Rightarrow> ('w, 'a decoded) service" where
  "over_v2 d = do {
     v2 \<leftarrow> gets (\<lambda>s. vmType (globals s) = JHI_VM_TYPE_BEIHAI_V2);
     ret (if v2 then d else Refused TEE_STATUS_UNSUPPORTED_PLATFORM) }"

definition with_plugin :: "('w \<Rightarrow> (TEE_STATUS \<times> 'a) \<times> 'w) \<Rightarrow> 'a \<Rightarrow> ('w, TEE_STATUS \<times> 'a) service" where
  "with_plugin f none = do {
     np \<leftarrow> no_plugin;
     if np then ret (TEE_STATUS_NO_FW_CONNECTION, none) else on_world f }"

text \<open>A plugin call that returns only a status.\<close>

definition status_call :: "'w call \<Rightarrow> 'w \<Rightarrow> (TEE_STATUS \<times> unit) \<times> 'w" where
  "status_call f w = (let (r, w') = f w in ((r, ()), w'))"

definition InvokeOpenSDSession :: "'w platform \<Rightarrow> byte list \<Rightarrow> ('w, reply) service" where
  "InvokeOpenSDSession pf b = do {
     d \<leftarrow> over_v2 (decode_open_sd b);
     answering d (\<lambda>r. respond pf r 9 []) (\<lambda>sdId. do {
       r \<leftarrow> with_plugin (JHI_Plugin_OpenSDSession pf sdId) 0;
       if fst r \<noteq> TEE_STATUS_SUCCESS then respond pf (fst r) 9 []
       else if snd r = 0 then respond pf TEE_STATUS_INTERNAL_ERROR 16 []
       else respond pf TEE_STATUS_SUCCESS 16 (put64 (snd r)) }) }"

definition InvokeCloseSDSession :: "'w platform \<Rightarrow> byte list \<Rightarrow> ('w, reply) service" where
  "InvokeCloseSDSession pf b = do {
     d \<leftarrow> over_v2 (decode_sd_handle b);
     answering d (\<lambda>r. respond pf r 9 []) (\<lambda>h. do {
       r \<leftarrow> with_plugin (status_call (JHI_Plugin_CloseSDSession pf h)) ();
       respond pf (fst r) 9 [] }) }"

definition InvokeSendCmdPkg :: "'w platform \<Rightarrow> byte list \<Rightarrow> ('w, reply) service" where
  "InvokeSendCmdPkg pf b = do {
     d \<leftarrow> over_v2 (decode_send_cmd_pkg b);
     answering d (\<lambda>r. respond pf r 9 []) (\<lambda>(h, blob). do {
       r \<leftarrow> jhis_send_cmd_pkg pf h blob;
       respond pf r 9 [] }) }"

text \<open>\<^verbatim>\<open>JHI_RES_LIST_INSTALLED_TAS\<close>: the count, the identifiers of 33 bytes each, a terminator.\<close>

definition list_bytes :: "string list \<Rightarrow> byte list" where
  "list_bytes us = put32 (of_nat (length us)) @ concat (map (\<lambda>u. bytes_of (strncpy_bytes 33 u)) us) @ [0]"

definition respond_list :: "'w platform \<Rightarrow> TEE_STATUS \<times> string list \<Rightarrow> ('w, reply) service" where
  "respond_list pf r =
     (if fst r = TEE_STATUS_SUCCESS then respond pf (fst r) (13 + of_nat (length (snd r)) * 33) (list_bytes (snd r))
      else respond pf (fst r) 9 [])"

definition InvokeListInstalledTAs :: "'w platform \<Rightarrow> byte list \<Rightarrow> ('w, reply) service" where
  "InvokeListInstalledTAs pf b = do {
     d \<leftarrow> over_v2 (decode_sd_handle b);
     answering d (\<lambda>r. respond pf r 9 []) (\<lambda>h. do {
       r \<leftarrow> with_plugin (JHI_Plugin_ListInstalledTAs pf h) [];
       respond_list pf r }) }"

definition InvokeListInstalledSDs :: "'w platform \<Rightarrow> byte list \<Rightarrow> ('w, reply) service" where
  "InvokeListInstalledSDs pf b = do {
     d \<leftarrow> over_v2 (decode_sd_handle b);
     answering d (\<lambda>r. respond pf r 9 []) (\<lambda>h. do {
       r \<leftarrow> with_plugin (JHI_Plugin_ListInstalledSDs pf h) [];
       respond_list pf r }) }"

text \<open>\<^verbatim>\<open>JHI_RES_QUERY_TEE_METADATA\<close>: the structure of five bytes is copied whole, also when there is no data.\<close>

definition InvokeQueryTeeMetadata :: "'w platform \<Rightarrow> byte list \<Rightarrow> ('w, reply) service" where
  "InvokeQueryTeeMetadata pf b = do {
     d \<leftarrow> over_v2 (decode_metadata_query b);
     answering d (\<lambda>r. respond pf r 9 []) (\<lambda>_. do {
       r \<leftarrow> with_plugin (JHI_Plugin_QueryTeeMetadata pf) [];
       if fst r = TEE_STATUS_SUCCESS
       then respond pf (fst r) (12 + of_nat (length (snd r)))
              (put32 (of_nat (length (snd r))) @ (if snd r = [] then [0] else snd r))
       else respond pf (fst r) 9 [] }) }"

definition InvokeProvisionOemMasterKey :: "'w platform \<Rightarrow> byte list \<Rightarrow> ('w, reply) service" where
  "InvokeProvisionOemMasterKey pf b = do {
     d \<leftarrow> over_v2 (decode_key 1040 b);
     answering d (\<lambda>r. respond pf r 9 []) (\<lambda>key. do {
       r \<leftarrow> with_plugin (status_call (JHI_Plugin_ProvisionOemMasterKey pf key)) ();
       respond pf (fst r) 9 [] }) }"

definition InvokeSetTAEncryptionKey :: "'w platform \<Rightarrow> byte list \<Rightarrow> ('w, reply) service" where
  "InvokeSetTAEncryptionKey pf b = do {
     d \<leftarrow> over_v2 (decode_key 1060 b);
     answering d (\<lambda>r. respond pf r 9 []) (\<lambda>key. do {
       r \<leftarrow> with_plugin (status_call (JHI_Plugin_SetTAEncryptionKey pf key)) ();
       respond pf (fst r) 9 [] }) }"

section \<open>Version information\<close>

text \<open>
  \<^verbatim>\<open>JHI_VERSION_INFO\<close>: two strings of fifty bytes, three enums and nineteen reserved words. It is
  built on the stack; what is not assigned there is sent as it is.
\<close>

definition VER_PRODUCTVERSION_STR :: string where
  "VER_PRODUCTVERSION_STR = ''11.0.0.3000''"

fun platform_val :: "JHI_PLATFROM_ID \<Rightarrow> int" where
  "platform_val ME = 0"
| "platform_val SEC = 1"
| "platform_val CSE = 2"
| "platform_val INVALID_PLATFORM_ID = -1"

definition version_bytes :: "'w platform \<Rightarrow> GlobalsManager \<Rightarrow> byte list" where
  "version_bytes pf g =
     (let fw = bytes_of (snd (getFwVersionString g)) @ [0] in
      bytes_of (strncpy_bytes 50 VER_PRODUCTVERSION_STR)
      @ take 50 (fw @ map (uninit_byte pf) [0 ..< 50])
      @ put32 (if transportType g \<noteq> TEE_TRANSPORT_TYPE_SOCKET then 1 else 0)
      @ put32 (of_int (platform_val (getPlatformId g)))
      @ put32 (of_int (vm_type_val (vmType g)))
      @ map (uninit_byte pf) [112 ..< 188])"

definition InvokeGetVersionInfo :: "'w platform \<Rightarrow> byte list \<Rightarrow> ('w, reply) service" where
  "InvokeGetVersionInfo pf b =
     (if length b \<noteq> 6 then respond pf JHI_INTERNAL_ERROR 197 []
      else do {
        g \<leftarrow> gets globals;
        respond pf JHI_SUCCESS 197 (version_bytes pf g) })"

section \<open>The dispatcher\<close>

text \<open>\<^verbatim>\<open>JHI_COMMAND_ID\<close>, in its order; \<open>20\<close> is \<^verbatim>\<open>INVALID_COMMAND_ID\<close>.\<close>

definition dispatch :: "'w platform \<Rightarrow> nat \<Rightarrow> byte list \<Rightarrow> ('w, reply) service" where
  "dispatch pf cmd b =
     (if cmd = 0 then InvokeInit pf b
      else if cmd = 1 then InvokeInstall pf b
      else if cmd = 2 then InvokeUninstall pf b
      else if cmd = 3 then InvokeSendAndRecieve pf b
      else if cmd = 4 then InvokeCreateSession pf b
      else if cmd = 5 then InvokeCloseSession pf b
      else if cmd = 6 then InvokeGetSessionsCount pf b
      else if cmd = 7 then InvokeGetSessionInfo pf b
      else if cmd = 8 then InvokeSetSessionEventHandler pf b
      else if cmd = 9 then InvokeGetSessionEventData pf b
      else if cmd = 10 then InvokeGetAppletProperty pf b
      else if cmd = 11 then InvokeGetVersionInfo pf b
      else if cmd = 12 then InvokeSendCmdPkg pf b
      else if cmd = 13 then InvokeOpenSDSession pf b
      else if cmd = 14 then InvokeCloseSDSession pf b
      else if cmd = 15 then InvokeListInstalledTAs pf b
      else if cmd = 16 then InvokeQueryTeeMetadata pf b
      else if cmd = 17 then InvokeListInstalledSDs pf b
      else if cmd = 18 then InvokeProvisionOemMasterKey pf b
      else InvokeSetTAEncryptionKey pf b)"

text \<open>
  \<^verbatim>\<open>processCommand\<close>: a command on a stopped service starts it. The codes of the failures before the
  dispatch are sent in a response of their own.
\<close>

definition processCommand :: "'w environment \<Rightarrow> 'w platform \<Rightarrow> byte list option \<Rightarrow> ('w, reply) service" where
  "processCommand env pf inputData =
     (case inputData of
        None \<Rightarrow> respond pf JHI_INTERNAL_ERROR 9 []
      | Some b \<Rightarrow>
          if length b < 6 then respond pf JHI_INTERNAL_ERROR 9 []
          else if unat (b ! 0) \<ge> 20 then respond pf JHI_INTERNAL_ERROR 9 []
          else if unat (get32 (take 4 (drop 1 b))) \<noteq> length b then respond pf JHI_INTERNAL_ERROR 9 []
          else do {
            stopped \<leftarrow> gets (\<lambda>s. jhi_state (globals s) = JHI_STOPPED);
            r \<leftarrow> (if stopped then jhis_init env pf else ret JHI_SUCCESS);
            if r \<noteq> JHI_SUCCESS then respond pf r 9 []
            else do {
              running \<leftarrow> gets (\<lambda>s. jhi_state (globals s) = JHI_INITIALIZED);
              if \<not> running then respond pf JHI_SERVICE_UNAVAILABLE 9 []
              else dispatch pf (unat (b ! 0)) b } })"

end
