(* ===== verification/Command_Invoker.thy ===== *)
theory Command_Invoker
  imports Command_Dispatcher
begin

text \<open>
  The client side of the commands, \<^verbatim>\<open>libjhi/CommandInvoker.cpp\<close>: one definition per method. A method
  builds the buffer of its command, sends it through an \<^verbatim>\<open>ICommandsClient\<close> and takes the response
  apart. The client is a record of the interface's operations over a state \<open>'s\<close>; besides them it
  has the outcome of an allocation, and the byte an unassigned place of memory holds. Buffers are
  within \<^verbatim>\<open>JHI_BUFFER_MAX\<close>, which the public functions check before they call these methods. A
  result \<open>Overread\<close> is a read outside of the response.
\<close>

record 's ICommandsClient =
  Connect :: "('s, bool) state"
  Invoke :: "byte list \<Rightarrow> ('s, byte list option) state"
  Disconnect :: "('s, bool) state"
  client_alloc :: "('s, bool) state"
  stack_byte :: byte

definition InvokeCommand :: "'s ICommandsClient \<Rightarrow> byte list \<Rightarrow> ('s, byte list option) state" where
  "InvokeCommand c b = do {
     connected \<leftarrow> Connect c;
     if \<not> connected then ret None
     else do {
       r \<leftarrow> Invoke c b;
       d \<leftarrow> Disconnect c;
       ret (if r \<noteq> None \<and> d then r else None) } }"

text \<open>The command buffer is allocated, sent, and the response handed on.\<close>

definition send_buffer :: "'s ICommandsClient \<Rightarrow> byte list \<Rightarrow> 'a \<Rightarrow> 'a \<Rightarrow> (byte list \<Rightarrow> 'a) \<Rightarrow> ('s, 'a) state" where
  "send_buffer c b no_memory unavailable k = do {
     a \<leftarrow> client_alloc c;
     if \<not> a then ret no_memory
     else do {
       r \<leftarrow> InvokeCommand c b;
       ret (case r of None \<Rightarrow> unavailable | Some out \<Rightarrow> k out) } }"

section \<open>Command buffers\<close>

text \<open>\<^verbatim>\<open>JHI_COMMAND\<close>: identifier, length, data.\<close>

definition command :: "nat \<Rightarrow> byte list \<Rightarrow> byte list" where
  "command cmd body = of_nat cmd # put32 (of_nat (5 + length body)) @ body"

definition process_bytes :: "JHI_PROCESS_INFO \<Rightarrow> byte list" where
  "process_bytes p = put32 (pid p) @ put32 (dwHighDateTime (creationTime p)) @ put32 (dwLowDateTime (creationTime p))"

text \<open>The identifier of an applet is copied with its terminator, 33 bytes.\<close>

definition app_bytes :: "string \<Rightarrow> byte list" where
  "app_bytes AppId = bytes_of (take 33 AppId)"

definition encode_install :: "string \<Rightarrow> string \<Rightarrow> byte list" where
  "encode_install AppId pSrcFile =
     command 1 (app_bytes AppId @ put32 (of_nat (length pSrcFile + 1)) @ bytes_of pSrcFile @ [0])"

definition encode_app :: "nat \<Rightarrow> string \<Rightarrow> byte list" where
  "encode_app cmd AppId = command cmd (app_bytes AppId)"

text \<open>An empty buffer leaves the one byte of the structure's \<^verbatim>\<open>data\<close> member in its place.\<close>

definition trailing :: "byte \<Rightarrow> byte list \<Rightarrow> byte list" where
  "trailing junk d = (if d = [] then [junk] else d)"

definition encode_create_session :: "byte \<Rightarrow> string \<Rightarrow> JHI_SESSION_FLAGS \<Rightarrow> byte list \<Rightarrow> JHI_PROCESS_INFO \<Rightarrow> byte list" where
  "encode_create_session junk AppId flags initBuffer p =
     command 4 (app_bytes AppId @ put32 (of_nat (length initBuffer)) @ put32 flags @ process_bytes p
       @ trailing junk initBuffer)"

definition encode_close_session :: "JHI_SESSION_ID \<Rightarrow> JHI_PROCESS_INFO \<Rightarrow> bool \<Rightarrow> byte list" where
  "encode_close_session sid p force =
     command 5 (uuid_bytes sid @ process_bytes p @ [if force then 1 else 0])"

definition encode_session :: "nat \<Rightarrow> JHI_SESSION_ID \<Rightarrow> byte list" where
  "encode_session cmd sid = command cmd (uuid_bytes sid)"

definition encode_event_handler :: "JHI_SESSION_ID \<Rightarrow> string \<Rightarrow> byte list" where
  "encode_event_handler sid handleName =
     command 8 (uuid_bytes sid @ put32 (of_nat (length handleName + 1)) @ bytes_of handleName @ [0])"

definition encode_send_and_recieve :: "byte \<Rightarrow> JHI_SESSION_ID \<Rightarrow> uint32 \<Rightarrow> byte list \<Rightarrow> uint32 \<Rightarrow> byte list" where
  "encode_send_and_recieve junk sid CommandId SendBuffer rx =
     command 3 (uuid_bytes sid @ put32 CommandId @ put32 (of_nat (length SendBuffer)) @ put32 rx
       @ trailing junk SendBuffer)"

text \<open>
  \<^verbatim>\<open>JhisGetAppletProperty\<close>: the sizes are those of the characters, the buffer has a terminator more.
  Without characters the length sent is that of a buffer one byte longer.
\<close>

definition encode_property :: "byte \<Rightarrow> string \<Rightarrow> string \<Rightarrow> uint32 \<Rightarrow> byte list" where
  "encode_property junk AppId SendBuffer rx =
     command 10 (app_bytes AppId @ put32 (of_nat (length SendBuffer) + 1) @ put32 (rx + 1)
       @ (if SendBuffer = [] then [junk, junk] else bytes_of SendBuffer @ [0]))"

definition encode_sd_open :: "string \<Rightarrow> byte list" where
  "encode_sd_open sdId = command 13 (bytes_of (take 32 sdId) @ [0])"

definition encode_sd_handle :: "nat \<Rightarrow> uint64 \<Rightarrow> byte list" where
  "encode_sd_handle cmd h = command cmd (put64 h)"

definition encode_cmd_pkg :: "uint64 \<Rightarrow> byte list \<Rightarrow> byte list" where
  "encode_cmd_pkg h package = command 12 (put64 h @ put32 (of_nat (length package)) @ package)"

section \<open>Responses\<close>

definition res_code :: "byte list \<Rightarrow> JHI_RET" where "res_code out = get32 (take 4 out)"
definition res_length :: "byte list \<Rightarrow> nat" where "res_length out = unat (get32 (take 4 (drop 4 out)))"

text \<open>The response of a command that returns only its code.\<close>

definition code_of_response :: "byte list \<Rightarrow> JHI_RET" where
  "code_of_response out =
     (if length out \<noteq> 9 then JHI_INTERNAL_ERROR
      else if length out \<noteq> res_length out then JHI_INTERNAL_ERROR
      else res_code out)"

definition JhisInit :: "'s ICommandsClient \<Rightarrow> ('s, JHI_RET) state" where
  "JhisInit c = do {
     r \<leftarrow> InvokeCommand c (command 0 [stack_byte c]);
     ret (case r of None \<Rightarrow> JHI_SERVICE_UNAVAILABLE | Some out \<Rightarrow> code_of_response out) }"

definition JhisInstall :: "'s ICommandsClient \<Rightarrow> string \<Rightarrow> string \<Rightarrow> ('s, JHI_RET) state" where
  "JhisInstall c AppId pSrcFile = send_buffer c (encode_install AppId pSrcFile)
     JHI_INTERNAL_ERROR JHI_SERVICE_UNAVAILABLE code_of_response"

definition JhisUninstall :: "'s ICommandsClient \<Rightarrow> string \<Rightarrow> ('s, JHI_RET) state" where
  "JhisUninstall c AppId = send_buffer c (encode_app 2 AppId)
     JHI_INTERNAL_ERROR JHI_SERVICE_UNAVAILABLE code_of_response"

text \<open>
  A response with out parameters of a fixed size: they are taken when the size fits, and the code is
  returned in any case.
\<close>

definition fixed_response :: "nat \<Rightarrow> (byte list \<Rightarrow> 'a) \<Rightarrow> byte list \<Rightarrow> JHI_RET \<times> 'a option" where
  "fixed_response n f out =
     (if length out < 9 then (JHI_INTERNAL_ERROR, None)
      else if length out \<noteq> res_length out then (JHI_INTERNAL_ERROR, None)
      else (res_code out, if length out = n then Some (f (drop 8 out)) else None))"

definition JhisGetSessionsCount :: "'s ICommandsClient \<Rightarrow> string \<Rightarrow> ('s, JHI_RET \<times> uint32 option) state" where
  "JhisGetSessionsCount c AppId = send_buffer c (encode_app 6 AppId)
     (JHI_INTERNAL_ERROR, None) (JHI_SERVICE_UNAVAILABLE, None) (fixed_response 13 (\<lambda>d. get32 (take 4 d)))"

definition JhisCreateSession :: "'s ICommandsClient \<Rightarrow> string \<Rightarrow> JHI_SESSION_FLAGS \<Rightarrow> byte list \<Rightarrow> JHI_PROCESS_INFO \<Rightarrow>
    ('s, JHI_RET \<times> JHI_SESSION_ID option) state" where
  "JhisCreateSession c AppId flags initBuffer p =
     send_buffer c (encode_create_session (stack_byte c) AppId flags initBuffer p)
       (JHI_INTERNAL_ERROR, None) (JHI_SERVICE_UNAVAILABLE, None) (fixed_response 25 (\<lambda>d. UUID (take 16 d)))"

definition JhisCloseSession :: "'s ICommandsClient \<Rightarrow> JHI_SESSION_ID \<Rightarrow> JHI_PROCESS_INFO \<Rightarrow> bool \<Rightarrow> ('s, JHI_RET) state" where
  "JhisCloseSession c sid p force = send_buffer c (encode_close_session sid p force)
     JHI_INTERNAL_ERROR JHI_SERVICE_UNAVAILABLE code_of_response"

text \<open>\<^verbatim>\<open>JHI_SESSION_INFO\<close> as received: the state is the number sent.\<close>

definition JhisGetSessionInfo :: "'s ICommandsClient \<Rightarrow> JHI_SESSION_ID \<Rightarrow> ('s, JHI_RET \<times> (uint32 \<times> JHI_SESSION_FLAGS) option) state" where
  "JhisGetSessionInfo c sid = send_buffer c (encode_session 7 sid)
     (JHI_INTERNAL_ERROR, None) (JHI_SERVICE_UNAVAILABLE, None)
     (fixed_response 97 (\<lambda>d. (get32 (take 4 d), get32 (take 4 (drop 4 d)))))"

definition JhisSetSessionEventHandler :: "'s ICommandsClient \<Rightarrow> JHI_SESSION_ID \<Rightarrow> string \<Rightarrow> ('s, JHI_RET) state" where
  "JhisSetSessionEventHandler c sid handleName = send_buffer c (encode_event_handler sid handleName)
     JHI_INTERNAL_ERROR JHI_SERVICE_UNAVAILABLE code_of_response"

text \<open>
  \<^verbatim>\<open>JhisGetEventData\<close>: the code, what is assigned to the size and the type, and the data copied to
  memory the method allocates.
\<close>

definition event_response :: "byte list \<Rightarrow> JHI_RET \<times> (uint32 \<times> byte) option \<times> byte list" where
  "event_response out =
     (if length out < 9 \<or> length out \<noteq> res_length out then (JHI_INTERNAL_ERROR, None, [])
      else if length out < 15
      then (if length out = 9 then res_code out else JHI_INTERNAL_ERROR, None, [])
      else let n = get32 (take 4 (drop 8 out)); ty = out ! 12 in
        if length out \<noteq> 15 + unat n then (JHI_INTERNAL_ERROR, Some (n, ty), [])
        else (res_code out, Some (n, ty), take (unat n) (drop 13 out)))"

definition JhisGetEventData :: "'s ICommandsClient \<Rightarrow> JHI_SESSION_ID \<Rightarrow>
    ('s, JHI_RET \<times> (uint32 \<times> byte) option \<times> byte list) state" where
  "JhisGetEventData c sid = do {
     r \<leftarrow> send_buffer c (encode_session 9 sid) (JHI_INTERNAL_ERROR, None, []) (JHI_SERVICE_UNAVAILABLE, None, [])
           event_response;
     if snd (snd r) = [] then ret r
     else do {
       a \<leftarrow> client_alloc c;
       ret (if a then r else (JHI_INTERNAL_ERROR, fst (snd r), [])) } }"

text \<open>
  \<^verbatim>\<open>JhisSendAndRecv\<close>: the code, what is copied to the receive buffer, its new size when it is
  assigned, and the response code.
\<close>

definition txrx_response :: "uint32 \<Rightarrow> byte list \<Rightarrow> JHI_RET \<times> byte list \<times> uint32 option \<times> uint32 option" where
  "txrx_response rx out =
     (if length out < 9 \<or> length out \<noteq> res_length out then (JHI_INTERNAL_ERROR, [], None, None)
      else let r = res_code out in
        if length out = 9 \<or> r = JHI_INTERNAL_ERROR \<or> r = JHI_INVALID_BUFFER_SIZE then (r, [], None, None)
        else if length out < 18 then (JHI_INTERNAL_ERROR, [], None, None)
        else let resp = get32 (take 4 (drop 8 out)); n = get32 (take 4 (drop 12 out)) in
          if length out \<noteq> (if r = JHI_SUCCESS then 18 + unat n else 18) then (JHI_INTERNAL_ERROR, [], None, None)
          else (r, if r = JHI_SUCCESS \<and> n > 0 \<and> rx \<ge> n then take (unat n) (drop 16 out) else [],
                if r = JHI_SUCCESS \<or> r = JHI_INSUFFICIENT_BUFFER then Some n else None, Some resp))"

definition JhisSendAndRecv :: "'s ICommandsClient \<Rightarrow> JHI_SESSION_ID \<Rightarrow> uint32 \<Rightarrow> byte list \<Rightarrow> uint32 \<Rightarrow>
    ('s, JHI_RET \<times> byte list \<times> uint32 option \<times> uint32 option) state" where
  "JhisSendAndRecv c sid CommandId SendBuffer rx =
     send_buffer c (encode_send_and_recieve (stack_byte c) sid CommandId SendBuffer rx)
       (JHI_INTERNAL_ERROR, [], None, None) (JHI_SERVICE_UNAVAILABLE, [], None, None) (txrx_response rx)"

text \<open>\<^verbatim>\<open>JhisGetAppletProperty\<close>: the same without a response code; sizes as numbers of characters.\<close>

definition property_response :: "bool \<Rightarrow> uint32 \<Rightarrow> byte list \<Rightarrow> JHI_RET \<times> byte list \<times> uint32 option" where
  "property_response hasBuffer rx out =
     (if length out < 9 \<or> length out \<noteq> res_length out then (JHI_INTERNAL_ERROR, [], None)
      else let r = res_code out in
        if length out = 9 \<or> r = JHI_INTERNAL_ERROR \<or> r = JHI_INVALID_BUFFER_SIZE then (r, [], None)
        else if length out < 14 then (JHI_INTERNAL_ERROR, [], None)
        else let n = get32 (take 4 (drop 8 out)) in
          if length out \<noteq> (if r = JHI_SUCCESS then 14 + unat n else 14) then (JHI_INTERNAL_ERROR, [], None)
          else (r, if r = JHI_SUCCESS \<and> n > 0 \<and> rx + 1 \<ge> n \<and> hasBuffer then take (unat n) (drop 12 out) else [],
                if r = JHI_SUCCESS \<or> r = JHI_INSUFFICIENT_BUFFER then Some (n - 1) else None))"

definition JhisGetAppletProperty :: "'s ICommandsClient \<Rightarrow> string \<Rightarrow> string \<Rightarrow> bool \<Rightarrow> uint32 \<Rightarrow>
    ('s, JHI_RET \<times> byte list \<times> uint32 option) state" where
  "JhisGetAppletProperty c AppId SendBuffer hasBuffer rx =
     send_buffer c (encode_property (stack_byte c) AppId SendBuffer rx)
       (JHI_INTERNAL_ERROR, [], None) (JHI_SERVICE_UNAVAILABLE, [], None) (property_response hasBuffer rx)"

definition version_response :: "byte list \<Rightarrow> JHI_RET \<times> byte list option" where
  "version_response out =
     (if length out < 9 then (JHI_INTERNAL_ERROR, None)
      else if length out \<noteq> (if res_code out = JHI_SUCCESS then 197 else 9) then (JHI_INTERNAL_ERROR, None)
      else if length out \<noteq> res_length out then (JHI_INTERNAL_ERROR, None)
      else (res_code out, if res_code out = JHI_SUCCESS then Some (take 188 (drop 8 out)) else None))"

definition JhisGetVersionInfo :: "'s ICommandsClient \<Rightarrow> ('s, JHI_RET \<times> byte list option) state" where
  "JhisGetVersionInfo c = do {
     r \<leftarrow> InvokeCommand c (command 11 [stack_byte c]);
     ret (case r of None \<Rightarrow> (JHI_SERVICE_UNAVAILABLE, None) | Some out \<Rightarrow> version_response out) }"

section \<open>Security domains\<close>

definition JhisOpenSDSession :: "'s ICommandsClient \<Rightarrow> string \<Rightarrow> bool \<Rightarrow> ('s, TEE_STATUS \<times> uint64 option) state" where
  "JhisOpenSDSession c sdId hasHandle =
     (if \<not> hasHandle then ret (TEE_STATUS_INVALID_PARAMS, None)
      else send_buffer c (encode_sd_open sdId) (TEE_STATUS_INTERNAL_ERROR, None) (TEE_STATUS_SERVICE_UNAVAILABLE, None)
        (\<lambda>out. if length out < 9 \<or> length out \<noteq> res_length out then (TEE_STATUS_INTERNAL_ERROR, None)
           else (jhiErrorToTeeError (res_code out),
                 if length out = 16 then Some (get64 (take 8 (drop 8 out))) else None)))"

text \<open>A command that returns only its code, as a TEE status.\<close>

definition tee_code_of_response :: "byte list \<Rightarrow> TEE_STATUS" where
  "tee_code_of_response out =
     (if length out \<noteq> 9 \<or> length out \<noteq> res_length out then TEE_STATUS_INTERNAL_ERROR
      else jhiErrorToTeeError (res_code out))"

text \<open>\<^verbatim>\<open>JhisCloseSDSession\<close>: on success the caller's handle is cleared.\<close>

definition JhisCloseSDSession :: "'s ICommandsClient \<Rightarrow> uint64 option \<Rightarrow> ('s, TEE_STATUS \<times> uint64 option) state" where
  "JhisCloseSDSession c sdHandle =
     (case sdHandle of
        None \<Rightarrow> ret (TEE_STATUS_INVALID_PARAMS, None)
      | Some h \<Rightarrow> do {
          r \<leftarrow> send_buffer c (encode_sd_handle 14 h) TEE_STATUS_INTERNAL_ERROR TEE_STATUS_SERVICE_UNAVAILABLE
                tee_code_of_response;
          ret (r, Some (if r = TEE_STATUS_SUCCESS then 0 else h)) })"

definition JhisSendAdminCmdPkg :: "'s ICommandsClient \<Rightarrow> uint64 \<Rightarrow> byte list \<Rightarrow> ('s, TEE_STATUS) state" where
  "JhisSendAdminCmdPkg c sdHandle package = send_buffer c (encode_cmd_pkg sdHandle package)
     TEE_STATUS_INTERNAL_ERROR TEE_STATUS_SERVICE_UNAVAILABLE tee_code_of_response"

text \<open>
  \<^verbatim>\<open>JhisListInstalledTAs\<close> and \<^verbatim>\<open>JhisListInstalledSDs\<close>: the copy of the identifiers has the length of the
  whole response, from the place of the identifiers on. \<open>mem\<close> is whether the memory for them was
  there.
\<close>

definition list_response :: "bool \<Rightarrow> byte list \<Rightarrow> UUID_LIST decoded" where
  "list_response mem out =
     (if length out < 9 then Refused TEE_STATUS_INTERNAL_ERROR
      else if res_code out \<noteq> JHI_SUCCESS then Refused (jhiErrorToTeeError (res_code out))
      else if length out \<noteq> res_length out then Refused TEE_STATUS_INTERNAL_ERROR
      else reading (u32_at 8 out) (\<lambda>count.
        if (of_nat (res_length out) - 13 :: uint32) \<noteq> 33 * count then Refused TEE_STATUS_INTERNAL_ERROR
        else if mem then reading (read_at 12 (res_length out) out) (\<lambda>us.
          let l = \<lparr> uuidCount = ucast count, uuids = Some (chars us) \<rparr> in
          reading (validateUuidList (Some l)) (\<lambda>ok. if ok then Decoded l else Refused TEE_STATUS_INTERNAL_ERROR))
        else let l = \<lparr> uuidCount = ucast count, uuids = None \<rparr> in
          reading (validateUuidList (Some l)) (\<lambda>ok. if ok then Decoded l else Refused TEE_STATUS_INTERNAL_ERROR)))"

definition list_installed :: "nat \<Rightarrow> 's ICommandsClient \<Rightarrow> uint64 \<Rightarrow> bool \<Rightarrow> ('s, UUID_LIST decoded) state" where
  "list_installed cmd c sdHandle hasList =
     (if \<not> hasList then ret (Refused TEE_STATUS_INTERNAL_ERROR)
      else do {
        r \<leftarrow> send_buffer c (encode_sd_handle cmd sdHandle) (Inl TEE_STATUS_INTERNAL_ERROR)
              (Inl TEE_STATUS_SERVICE_UNAVAILABLE) Inr;
        (case r of
           Inl e \<Rightarrow> ret (Refused e)
         | Inr out \<Rightarrow> do { a \<leftarrow> client_alloc c; ret (list_response a out) }) })"

definition JhisListInstalledTAs :: "'s ICommandsClient \<Rightarrow> uint64 \<Rightarrow> bool \<Rightarrow> ('s, UUID_LIST decoded) state" where
  "JhisListInstalledTAs = list_installed 15"

definition JhisListInstalledSDs :: "'s ICommandsClient \<Rightarrow> uint64 \<Rightarrow> bool \<Rightarrow> ('s, UUID_LIST decoded) state" where
  "JhisListInstalledSDs = list_installed 17"

text \<open>\<^verbatim>\<open>JhisQueryTEEMetadata\<close>: the length of the data is a \<^verbatim>\<open>size_t\<close> difference.\<close>

definition metadata_response :: "nat \<Rightarrow> byte list \<Rightarrow> byte list decoded" where
  "metadata_response max_length out =
     (if length out < 9 then Refused TEE_STATUS_INTERNAL_ERROR
      else if res_code out \<noteq> JHI_SUCCESS then Refused (jhiErrorToTeeError (res_code out))
      else if length out \<noteq> res_length out then Refused TEE_STATUS_INTERNAL_ERROR
      else let dataBufferLen = unat (of_nat (res_length out) - 12 :: uint64) in
        if dataBufferLen \<ge> max_length then reading (read_at 12 max_length out) Decoded
        else Refused TEE_STATUS_INTERNAL_ERROR)"

definition JhisQueryTEEMetadata :: "'s ICommandsClient \<Rightarrow> nat \<Rightarrow> ('s, byte list decoded) state" where
  "JhisQueryTEEMetadata c max_length = send_buffer c (command 16 [0]) (Refused TEE_STATUS_INTERNAL_ERROR)
     (Refused TEE_STATUS_SERVICE_UNAVAILABLE) (metadata_response max_length)"

text \<open>The two key commands.\<close>

definition key_response :: "byte list \<Rightarrow> TEE_STATUS" where
  "key_response out =
     (if length out < 9 then TEE_STATUS_INTERNAL_ERROR
      else if res_code out \<noteq> JHI_SUCCESS then jhiErrorToTeeError (res_code out)
      else if length out \<noteq> res_length out then TEE_STATUS_INTERNAL_ERROR
      else res_code out)"

definition JhisProvisionOemMasterKey :: "'s ICommandsClient \<Rightarrow> byte list option \<Rightarrow> ('s, TEE_STATUS) state" where
  "JhisProvisionOemMasterKey c key =
     (case key of
        None \<Rightarrow> ret TEE_STATUS_INTERNAL_ERROR
      | Some k \<Rightarrow> send_buffer c (command 18 k) TEE_STATUS_INTERNAL_ERROR TEE_STATUS_SERVICE_UNAVAILABLE key_response)"

definition JhisSetTAEncryptionKey :: "'s ICommandsClient \<Rightarrow> byte list option \<Rightarrow> ('s, TEE_STATUS) state" where
  "JhisSetTAEncryptionKey c key =
     (case key of
        None \<Rightarrow> ret TEE_STATUS_INTERNAL_ERROR
      | Some k \<Rightarrow> send_buffer c (command 19 k) TEE_STATUS_INTERNAL_ERROR TEE_STATUS_SERVICE_UNAVAILABLE key_response)"

end
