(* ===== verification/Command_Sockets.thy ===== *)
theory Command_Sockets
  imports Command_Invoker
begin

text \<open>
  The transport of the commands, \<^verbatim>\<open>libjhi/CommandsClientSocketsLinux.cpp\<close> and
  \<^verbatim>\<open>service/CommandsServerSocketsLinux.cpp\<close>: a command is sent as its size and its bytes over a stream
  socket, and the response comes back the same way. A stream delivers its bytes in pieces of any
  size: what arrives is the list of the pieces, an empty piece or the end of the list being a
  connection that was closed or failed. What \<^verbatim>\<open>send\<close> takes is the list of the counts it returns, the
  end of the list being an error.
\<close>

abbreviation JHI_MAX_TRANSPORT_DATA_SIZE :: nat where "JHI_MAX_TRANSPORT_DATA_SIZE \<equiv> 5242880"

section \<open>Blocking reads and writes\<close>

fun recv :: "byte list list \<Rightarrow> nat \<Rightarrow> byte list \<times> byte list list" where
  "recv [] n = ([], [])"
| "recv (c # cs) n = (take n c, if length c \<le> n then cs else drop n c # cs)"

lemma recv_length: "length (fst (recv cs n)) \<le> n"
  by (cases cs) auto

text \<open>The loop ends: every turn gets at least one of the bytes that are missing, or leaves.\<close>

function blockedRecv :: "byte list list \<Rightarrow> nat \<Rightarrow> byte list \<times> byte list list" where
  "blockedRecv cs n =
     (if n = 0 then ([], cs)
      else let (got, rest) = recv cs n in
        if got = [] then ([], rest)
        else let (more, rest') = blockedRecv rest (n - length got) in (got @ more, rest'))"
  by pat_completeness auto

termination
  by (relation "measure snd") (auto split: prod.splits)

declare blockedRecv.simps [simp del]

text \<open>\<^verbatim>\<open>blockedSend\<close>: the bytes sent, and the counts that are left.\<close>

fun blockedSend :: "nat list \<Rightarrow> byte list \<Rightarrow> byte list \<times> nat list" where
  "blockedSend [] b = ([], [])"
| "blockedSend (k # ks) b =
     (if b = [] then ([], k # ks)
      else let (sent, rest) = blockedSend ks (drop k b) in (take k b @ sent, rest))"

section \<open>The server\<close>

text \<open>
  \<^verbatim>\<open>ClientSessionThread\<close>: one command of a connection. The result is what is sent back, when the
  thread comes to that; \<open>Undefined\<close> is kept apart. Without a response the size sent is zero.
\<close>

datatype session_end = Dropped | Faulted | Answered "byte list"

definition send_answer :: "nat list \<Rightarrow> byte list \<Rightarrow> byte list" where
  "send_answer ks out =
     (let (s1, ks1) = blockedSend ks (put32 (of_nat (length out))) in
      if length s1 \<noteq> 4 then s1
      else if out = [] then s1
      else s1 @ fst (blockedSend ks1 out))"

definition ClientSessionThread :: "'w environment \<Rightarrow> 'w platform \<Rightarrow> byte list list \<Rightarrow> nat list \<Rightarrow>
    ('w, session_end) service" where
  "ClientSessionThread env pf cs ks = (
     let (h, cs1) = blockedRecv cs 4 in
     if length h \<noteq> 4 then ret Dropped
     else let n = unat (get32 h) in
       if n < 6 \<or> n > JHI_MAX_TRANSPORT_DATA_SIZE then ret Dropped
       else do {
         a \<leftarrow> alloc;
         if \<not> a then ret Dropped
         else let b = fst (blockedRecv cs1 n) in
           if length b \<noteq> n then ret Dropped
           else do {
             r \<leftarrow> processCommand env pf (Some b);
             ret (case r of
                    Undefined \<Rightarrow> Faulted
                  | No_reply \<Rightarrow> Answered (send_answer ks [])
                  | Reply out \<Rightarrow> Answered (send_answer ks out)) } })"

section \<open>The client\<close>

text \<open>\<^verbatim>\<open>Invoke\<close> up to the point where it waits for the response: what is on the wire.\<close>

definition invoke_send :: "nat list \<Rightarrow> byte list \<Rightarrow> byte list option" where
  "invoke_send ks b =
     (if b = [] then None
      else let (s1, ks1) = blockedSend ks (put32 (of_nat (length b))) in
        if length s1 \<noteq> 4 then None
        else let (s2, ks2) = blockedSend ks1 b in
          if length s2 \<noteq> length b then None else Some (s1 @ s2))"

text \<open>\<^verbatim>\<open>Invoke\<close> from there on; \<open>mem\<close> is whether the response buffer could be allocated.\<close>

definition invoke_receive :: "bool \<Rightarrow> byte list list \<Rightarrow> byte list option" where
  "invoke_receive mem cs =
     (let (h, cs1) = blockedRecv cs 4 in
      if length h \<noteq> 4 then None
      else let n = unat (get32 h) in
        if 9 \<le> n \<and> n < JHI_MAX_TRANSPORT_DATA_SIZE
        then if \<not> mem then None
             else let out = fst (blockedRecv cs1 n) in if length out \<noteq> n then None else Some out
        else None)"

section \<open>Fragmentation does not matter\<close>

lemma recv_concat:
  "recv cs n = (got, rest) \<Longrightarrow> got @ concat rest = concat cs"
  by (cases cs) (auto split: if_splits)

lemma blockedRecv_prefix: "fst (blockedRecv cs n) @ concat (snd (blockedRecv cs n)) = concat cs"
proof (induction cs n rule: blockedRecv.induct)
  case (1 cs n)
  show ?case
  proof (cases "n = 0")
    case True
    then show ?thesis by (subst (1 2) blockedRecv.simps) simp
  next
    case False
    obtain got rest where r: "recv cs n = (got, rest)" by fastforce
    note c = recv_concat [OF r]
    show ?thesis
    proof (cases "got = []")
      case True
      then show ?thesis using False r c by (subst (1 2) blockedRecv.simps) simp
    next
      case got: False
      have "fst (blockedRecv rest (n - length got)) @ concat (snd (blockedRecv rest (n - length got))) = concat rest"
        using "1.IH" [OF False r [symmetric] _ got] r by simp
      then show ?thesis
        using False r c got by (subst (1 2) blockedRecv.simps) (auto split: prod.splits)
    qed
  qed
qed

lemma recv_full:
  "[] \<notin> set cs \<Longrightarrow> recv cs n = (got, rest) \<Longrightarrow> [] \<notin> set rest \<and> (got = [] \<longrightarrow> n = 0 \<or> cs = [])"
  by (cases cs) (auto split: if_splits)

text \<open>As long as no piece is empty, the loop returns what was asked for, or all there is.\<close>

lemma blockedRecv_full:
  "[] \<notin> set cs \<Longrightarrow> length (fst (blockedRecv cs n)) = min n (length (concat cs)) \<and> [] \<notin> set (snd (blockedRecv cs n))"
proof (induction cs n rule: blockedRecv.induct)
  case (1 cs n)
  show ?case
  proof (cases "n = 0")
    case True
    then show ?thesis using 1 by (subst (1 2) blockedRecv.simps) simp
  next
    case False
    obtain got rest where r: "recv cs n = (got, rest)" by fastforce
    note c = recv_concat [OF r] and f = recv_full [OF "1.prems" r]
    have l: "length got \<le> n" using recv_length [of cs n] r by simp
    show ?thesis
    proof (cases "got = []")
      case True
      then have "cs = []" "rest = []" using f False r by auto
      then show ?thesis using False r by (subst (1 2) blockedRecv.simps) simp
    next
      case got: False
      have IH: "length (fst (blockedRecv rest (n - length got))) = min (n - length got) (length (concat rest))"
        "[] \<notin> set (snd (blockedRecv rest (n - length got)))"
        using "1.IH" [OF False r [symmetric] _ got] f by auto
      have "blockedRecv cs n = (got @ fst (blockedRecv rest (n - length got)), snd (blockedRecv rest (n - length got)))"
        using False r got by (subst blockedRecv.simps) (simp split: prod.splits)
      then show ?thesis using IH l c [symmetric] by simp
    qed
  qed
qed

lemma blockedRecv_pieces:
  assumes "[] \<notin> set cs" "concat cs = xs @ ys" "length xs = n"
  shows "\<exists>rest. blockedRecv cs n = (xs, rest) \<and> concat rest = ys \<and> [] \<notin> set rest"
proof -
  let ?r = "blockedRecv cs n"
  have "length (fst ?r) = length xs" using blockedRecv_full [OF assms(1), of n] assms by simp
  then have "fst ?r = xs" "concat (snd ?r) = ys"
    using blockedRecv_prefix [of cs n] assms(2) by (auto simp: append_eq_append_conv)
  then show ?thesis using blockedRecv_full [OF assms(1), of n] by (metis prod.collapse)
qed

text \<open>What is sent is a prefix; counts that are not zero are enough to send everything.\<close>

lemma blockedSend_prefix: "fst (blockedSend ks b) = take (length (fst (blockedSend ks b))) b"
proof (induction ks b rule: blockedSend.induct)
  case (2 k ks b)
  let ?s = "fst (blockedSend ks (drop k b))"
  have "b \<noteq> [] \<Longrightarrow> take k b @ ?s = take (length (take k b @ ?s)) b"
  proof -
    assume "b \<noteq> []"
    then have "?s = take (length ?s) (drop k b)" using 2 by simp
    then have "take k b @ ?s = take (k + length ?s) b" by (metis take_add)
    then show ?thesis by (metis length_take min.cobounded2 min.commute take_all_iff take_take)
  qed
  then show ?case by (auto split: prod.splits)
qed simp

lemma blockedSend_length: "length (fst (blockedSend ks b)) \<le> length b"
  by (subst blockedSend_prefix) simp

lemma blockedSend_all: "length (fst (blockedSend ks b)) = length b \<Longrightarrow> fst (blockedSend ks b) = b"
  using blockedSend_prefix [of ks b] by simp

lemma blockedSend_steady:
  "0 \<notin> set ks \<Longrightarrow> length b \<le> length ks \<Longrightarrow>
   \<exists>rest. blockedSend ks b = (b, rest) \<and> 0 \<notin> set rest \<and> length ks - length b \<le> length rest"
proof (induction ks b rule: blockedSend.induct)
  case (2 k ks b)
  show ?case
  proof (cases "b = []")
    case False
    with 2 have k: "0 < k" "length (drop k b) \<le> length ks" by auto
    then obtain rest where r: "blockedSend ks (drop k b) = (drop k b, rest)" "0 \<notin> set rest"
        "length ks - length (drop k b) \<le> length rest"
      using 2 False by auto
    have "length ks - (length b - k) \<le> length rest" "0 < length b" using r(3) False by auto
    then have "Suc (length ks) - length b \<le> length rest" using k(1) by linarith
    then show ?thesis using r k False by simp
  qed (use 2 in auto)
qed simp

lemma invoke_send_wire: "invoke_send ks b = Some wire \<Longrightarrow> wire = put32 (of_nat (length b)) @ b"
  using blockedSend_all [of ks "put32 (of_nat (length b))"]
    blockedSend_all [of "snd (blockedSend ks (put32 (of_nat (length b))))" b]
  by (auto simp: invoke_send_def split: prod.splits if_splits)

lemma send_answer_wire:
  "out \<noteq> [] \<Longrightarrow> length (send_answer ks out) = 4 + length out \<Longrightarrow> send_answer ks out = put32 (of_nat (length out)) @ out"
  using blockedSend_all [of ks "put32 (of_nat (length out))"] blockedSend_length [of ks "put32 (of_nat (length out))"]
    blockedSend_all [of "snd (blockedSend ks (put32 (of_nat (length out))))" out]
  by (auto simp: send_answer_def split: prod.splits if_splits)

lemma send_answer_steady:
  assumes "0 \<notin> set ks" "4 + length out \<le> length ks"
  shows "length (send_answer ks out) = 4 + length out"
proof -
  obtain r1 where "blockedSend ks (put32 (of_nat (length out))) = (put32 (of_nat (length out)), r1)"
      "0 \<notin> set r1" "length ks - 4 \<le> length r1"
    using blockedSend_steady [OF assms(1), of "put32 (of_nat (length out))"] assms(2) by auto
  moreover have "length out \<le> length r1" using assms(2) calculation(3) by linarith
  then obtain r2 where "blockedSend r1 out = (out, r2)"
    using blockedSend_steady [of r1 out] calculation(2) by blast
  ultimately show ?thesis by (simp add: send_answer_def)
qed

section \<open>The exchange\<close>

lemma unat_length [simp]: "n \<le> JHI_MAX_TRANSPORT_DATA_SIZE \<Longrightarrow> unat (of_nat n :: uint32) = n"
  by (simp add: unat_of_nat)

lemma invoke_receive_all:
  assumes "[] \<notin> set cs" "concat cs = put32 (of_nat (length out)) @ out"
    "9 \<le> length out" "length out < JHI_MAX_TRANSPORT_DATA_SIZE"
  shows "invoke_receive True cs = Some out"
proof -
  obtain cs1 where 1: "blockedRecv cs 4 = (put32 (of_nat (length out)), cs1)" "concat cs1 = out" "[] \<notin> set cs1"
    using blockedRecv_pieces [OF assms(1,2)] by auto
  moreover obtain cs2 where "blockedRecv cs1 (length out) = (out, cs2)"
    using blockedRecv_pieces [of cs1 out "[]" "length out"] 1 by auto
  ultimately show ?thesis using assms by (simp add: invoke_receive_def)
qed

lemma session_thread_answers:
  assumes "[] \<notin> set cs" "concat cs = put32 (of_nat (length b)) @ b"
    "6 \<le> length b" "length b \<le> JHI_MAX_TRANSPORT_DATA_SIZE"
    "run_state alloc s = (True, s1)" "run_state (processCommand env pf (Some b)) s1 = (Reply out, s')"
  shows "run_state (ClientSessionThread env pf cs ks) s = (Answered (send_answer ks out), s')"
proof -
  obtain cs1 where 1: "blockedRecv cs 4 = (put32 (of_nat (length b)), cs1)" "concat cs1 = b" "[] \<notin> set cs1"
    using blockedRecv_pieces [OF assms(1,2)] by auto
  moreover obtain cs2 where "blockedRecv cs1 (length b) = (b, cs2)"
    using blockedRecv_pieces [of cs1 b "[]" "length b"] 1 by auto
  ultimately show ?thesis using assms by (simp add: ClientSessionThread_def Let_def)
qed

text \<open>
  C8: the transport neither loses nor mixes up a byte, whatever pieces the sockets deliver: a command
  within the size limits that the client could send reaches \<^verbatim>\<open>processCommand\<close> as it was built, and a
  response that the service could send reaches the client as the dispatcher made it.
\<close>

theorem transport_faithful:
  assumes "invoke_send ks b = Some wire" "concat cs = wire" "[] \<notin> set cs"
    and "6 \<le> length b" "length b \<le> JHI_MAX_TRANSPORT_DATA_SIZE"
    and "run_state alloc s = (True, s1)"
    and "run_state (processCommand env pf (Some b)) s1 = (Reply out, s')"
    and "9 \<le> length out" "length out < JHI_MAX_TRANSPORT_DATA_SIZE"
    and "length (send_answer ks' out) = 4 + length out"
    and "concat cs' = send_answer ks' out" "[] \<notin> set cs'"
  shows "run_state (ClientSessionThread env pf cs ks') s = (Answered (send_answer ks' out), s')
    \<and> invoke_receive True cs' = Some out"
proof
  show "run_state (ClientSessionThread env pf cs ks') s = (Answered (send_answer ks' out), s')"
    using session_thread_answers assms(2-7) invoke_send_wire [OF assms(1)] by blast
  show "invoke_receive True cs' = Some out"
    using invoke_receive_all [OF assms(12)] send_answer_wire [OF _ assms(10)] assms(8,9,11) by fastforce
qed

theorem transport_faithful_witness:
  "run_state (ClientSessionThread sample_env sample_platform [[6], [0, 0, 0, 0, 6, 0, 0], [0, 0]] [3, 1, 9]) sample_state =
     (Answered (put32 9 @ put32 0 @ put32 9 @ [0xCD]), sample_state)
   \<and> invoke_receive True [put32 9, put32 0 @ put32 9, [0xCD]] = Some (put32 0 @ put32 9 @ [0xCD])"
proof -
  let ?out = "put32 0 @ put32 9 @ [0xCD]"
  have a: "run_state alloc sample_state = (True, sample_state)"
    by (simp add: run_alloc sample_state_def)
  have r: "run_state (processCommand sample_env sample_platform (Some [0, 6, 0, 0, 0, 0])) sample_state = (Reply ?out, sample_state)"
  proof -
    have "jhi_state (globals sample_state) = JHI_INITIALIZED"
      by (simp add: sample_state_def sample_globals_def)
    moreover have "map (uninit_byte sample_platform) [8 ..< 9] = [0xCD]"
      by (simp add: sample_platform_def upt_rec)
    ultimately show ?thesis
      by (simp add: processCommand_def get32_def dispatch_def InvokeInit_def respond_def a)
  qed
  have "invoke_send [2, 2, 6] [0, 6, 0, 0, 0, 0] = Some [6, 0, 0, 0, 0, 6, 0, 0, 0, 0]"
    "concat [[6], [0, 0, 0, 0, 6, 0, 0], [0, 0]] = [6 :: byte, 0, 0, 0, 0, 6, 0, 0, 0, 0]"
    "[] \<notin> set [[6], [0, 0, 0, 0, 6, 0, 0], [0, 0 :: byte]]"
    by code_simp+
  note sent = this
  have bounds: "6 \<le> length [0 :: byte, 6, 0, 0, 0, 0]" "length [0 :: byte, 6, 0, 0, 0, 0] \<le> JHI_MAX_TRANSPORT_DATA_SIZE"
    "9 \<le> length ?out" "length ?out < JHI_MAX_TRANSPORT_DATA_SIZE"
    by simp_all
  have "length (send_answer [3, 1, 9] ?out) = 4 + length ?out"
    "concat [put32 9, put32 0 @ put32 9, [0xCD]] = send_answer [3, 1, 9] ?out"
    "[] \<notin> set [put32 9, put32 0 @ put32 9, [0xCD]]" "send_answer [3, 1, 9] ?out = put32 9 @ ?out"
    by code_simp+
  note answered = this
  from transport_faithful [OF sent bounds(1,2) a r bounds(3,4) answered(1-3)] show ?thesis unfolding answered(4) .
qed

end
