(* ===== verification/Command_Properties.thy ===== *)
theory Command_Properties
  imports Command_Sockets
begin

text \<open>
  What the command layer guarantees: the buffers are read within their bounds, no handler sees an
  applet identifier that is not valid, what the client encodes is what the service decodes, a
  malformed command changes nothing, and a call of the client has the result of the handler.
\<close>

section \<open>Applet identifiers\<close>

definition app_ok :: "string \<Rightarrow> bool" where
  "app_ok app = (UUID_wf app \<and> upper app \<and> app \<noteq> SPOOLER_APPLET_UUID)"

lemma split_at_NUL: "NUL \<in> set mem \<Longrightarrow> \<exists>s junk. mem = s @ NUL # junk \<and> NUL \<notin> set s"
  by (meson split_list_first)

lemma convert_terminated:
  assumes "length mem = 33" "mem ! 32 = NUL"
  shows "\<exists>ok up. convertAppIDtoUpperCase (Some mem) = Some (ok, up) \<and> (ok \<longrightarrow> UUID_wf up \<and> upper up)"
proof -
  have "NUL \<in> set mem" using assms nth_mem [of 32 mem] by simp
  then obtain s junk where m: "mem = s @ NUL # junk" "NUL \<notin> set s" using split_at_NUL by blast
  then have "length s + length junk \<ge> 32" using assms by simp
  then obtain out where "JhiUtilUUID_Validate (Some mem) =
      Some (if UUID_wf s then (JHI_SUCCESS, strToUppercase s) else (JHI_INVALID_APPLET_GUID, out))"
    using JhiUtilUUID_Validate_fst [OF m(2)] m(1) by blast
  then show ?thesis by (cases "UUID_wf s") (auto simp: convertAppIDtoUpperCase_def UUID_wf_upper)
qed

lemma verifyAppID_ok: "verifyAppID app = JHI_SUCCESS \<longleftrightarrow> length app = LEN_APP_ID \<and> app \<noteq> SPOOLER_APPLET_UUID"
  by (simp add: verifyAppID_def)

text \<open>The checks of an identifier: a code, or the identifier in upper case.\<close>

lemma verified_app_cases:
  assumes "length a = 33" "a ! 32 = 0"
  shows "(\<exists>r. verified_app a k = Refused r) \<or> (\<exists>app. app_ok app \<and> verified_app a k = k app)"
proof -
  obtain ok up where "convertAppIDtoUpperCase (Some (chars a)) = Some (ok, up)" "ok \<longrightarrow> UUID_wf up \<and> upper up"
    using convert_terminated [of "chars a"] assms by auto
  then show ?thesis
    by (auto simp: verified_app_def app_ok_def verifyAppID_ok)
qed

lemma verified_app_valid:
  assumes "UUID_wf app" "strToUppercase app \<noteq> SPOOLER_APPLET_UUID"
  shows "verified_app (app_bytes (app @ [NUL])) k = k (strToUppercase app)"
proof -
  have l: "length app = 32" using assms(1) by (simp add: UUID_wf_def)
  then have "chars (app_bytes (app @ [NUL])) = app @ [NUL]" by (simp add: app_bytes_def)
  moreover have "JhiUtilUUID_Validate (Some (app @ [NUL])) = Some (JHI_SUCCESS, strToUppercase app)"
    using JhiUtilUUID_Validate_string [OF UUID_wf_no_NUL [OF assms(1)], of "[]"] assms(1) l
    by (simp add: uuid_validate_loop_ok UUID_wf_def)
  ultimately show ?thesis
    using assms l by (simp add: verified_app_def convertAppIDtoUpperCase_def verifyAppID_def)
qed

section \<open>Bounds\<close>

abbreviation declared :: "byte list \<Rightarrow> nat" where
  "declared b \<equiv> unat (get32 (take 4 (drop 1 b)))"

lemma checked_length_Overread:
  "checked_length err b k = Overread \<longleftrightarrow> length b < 5 \<or> (declared b = length b \<and> k = Overread)"
  by (auto simp: checked_length_def u32_at_def read_at_def split: if_splits)

lemma verified_app_in_bounds:
  "length a = 33 \<Longrightarrow> a ! 32 = 0 \<Longrightarrow> (\<And>app. k app \<noteq> Overread) \<Longrightarrow> verified_app a k \<noteq> Overread"
  using verified_app_cases [of a k] by auto

lemma decode_in_bounds:
  assumes "5 \<le> length b"
  shows "decode_install b \<noteq> Overread" "decode_app b \<noteq> Overread" "decode_create_session b \<noteq> Overread"
    "decode_close_session b \<noteq> Overread" "decode_event_handler b \<noteq> Overread" "decode_session b \<noteq> Overread"
    "decode_send_and_recieve b \<noteq> Overread" "decode_property_sizes b \<noteq> Overread"
    "decode_open_sd b \<noteq> Overread" "decode_sd_handle b \<noteq> Overread" "decode_metadata_query b \<noteq> Overread"
    "decode_key n b \<noteq> Overread"
  unfolding decode_install_def decode_app_def decode_create_session_def decode_close_session_def
    decode_event_handler_def decode_session_def decode_send_and_recieve_def decode_property_sizes_def
    decode_open_sd_def decode_sd_handle_def decode_metadata_query_def decode_key_def Let_def
    checked_length_Overread
  using assms
  by (auto simp: reading_Overread verified_app_in_bounds read_at_length word_gt_0 split: if_splits)

text \<open>The one method that reads first.\<close>

lemma send_cmd_pkg_Overread:
  "decode_send_cmd_pkg b = Overread \<longleftrightarrow> length b < 5 \<or> (declared b = length b \<and> length b < 17)"
  unfolding decode_send_cmd_pkg_def checked_length_Overread
  by (auto simp: reading_Overread split: if_splits)

text \<open>What an applet command hands on is a valid identifier in upper case.\<close>

lemma checked_length_Decoded:
  "checked_length err b k = Decoded x \<longleftrightarrow> 5 \<le> length b \<and> declared b = length b \<and> k = Decoded x"
  by (auto simp: checked_length_def u32_at_def read_at_def split: if_splits)

lemma verified_app_Decoded:
  "length a = 33 \<Longrightarrow> a ! 32 = 0 \<Longrightarrow> verified_app a k = Decoded x \<Longrightarrow> \<exists>app. app_ok app \<and> k app = Decoded x"
  using verified_app_cases [of a k] by fastforce

lemma decoded_app_ok:
  "decode_install b = Decoded (app, path) \<Longrightarrow> app_ok app"
  "decode_app b = Decoded app \<Longrightarrow> app_ok app"
  "decode_create_session b = Decoded (app, flags, d, p) \<Longrightarrow> app_ok app"
  "length a = 33 \<Longrightarrow> decode_property_app a = Decoded app \<Longrightarrow> app_ok app"
  unfolding decode_install_def decode_app_def decode_create_session_def decode_property_app_def
    checked_length_Decoded
  by (auto simp: reading_Decoded split: if_splits
      dest!: verified_app_Decoded [OF read_at_length] verified_app_Decoded)

section \<open>The buffers of the client\<close>

lemma length_command [simp]: "length (command cmd body) = 5 + length body"
  by (simp add: command_def)

lemma read_at_command [simp]: "5 \<le> off \<Longrightarrow> read_at off n (command cmd body) = read_at (off - 5) n body"
  by (auto simp: command_def read_at_def nth_append drop_Cons' numeral_eq_Suc)

lemma u_at_command [simp]:
  "5 \<le> off \<Longrightarrow> u32_at off (command cmd body) = u32_at (off - 5) body"
  "5 \<le> off \<Longrightarrow> u64_at off (command cmd body) = u64_at (off - 5) body"
  by (simp_all add: u32_at_def u64_at_def)

lemma declared_command [simp]: "5 + length body < 2 ^ 32 \<Longrightarrow> declared (command cmd body) = 5 + length body"
  by (simp add: command_def unat_of_nat del: of_nat_add)

lemma checked_length_command [simp]:
  "5 + length body < 2 ^ 32 \<Longrightarrow> checked_length err (command cmd body) k = k"
  using declared_command [of body cmd]
  by (simp add: checked_length_def u32_at_def read_at_def)

lemma read_at_nothing [simp]: "off \<le> length b \<Longrightarrow> read_at off 0 b = Some []"
  by (simp add: read_at_def)

lemma length_app_bytes [simp]: "length (app_bytes (app @ [NUL])) = min 33 (Suc (length app))"
  by (simp add: app_bytes_def)

lemma app_bytes_end: "length app = 32 \<Longrightarrow> app_bytes (app @ [NUL]) ! 32 = 0"
  by (simp add: app_bytes_def nth_append)

lemma length_process_bytes [simp]: "length (process_bytes p) = 12"
  by (simp add: process_bytes_def)

lemma process_of_bytes [simp]: "process_of (process_bytes p) = p"
  by (simp add: process_of_def process_bytes_def)

lemma length_trailing [simp]: "length (trailing junk d) = max 1 (length d)"
  by (cases d) (simp_all add: trailing_def)

lemma unat_buffer [simp]: "n \<le> JHI_BUFFER_MAX \<Longrightarrow> unat (of_nat n :: uint32) = n"
  by (simp add: unat_of_nat)

lemma of_nat_buffer_0 [simp]: "n \<le> JHI_BUFFER_MAX \<Longrightarrow> (of_nat n :: uint32) = 0 \<longleftrightarrow> n = 0"
  by (auto simp: word_of_nat_eq_0_iff dest: dvd_imp_le)

text \<open>A valid identifier of an applet that is not the spooler.\<close>

definition app_valid :: "string \<Rightarrow> bool" where
  "app_valid app = (validateUuidString app \<and> strToUppercase app \<noteq> SPOOLER_APPLET_UUID)"

lemma app_valid_length [simp]: "app_valid app \<Longrightarrow> length app = 32"
  by (simp add: app_valid_def validateUuidString_wf UUID_wf_def)

lemma app_valid_verified: "app_valid app \<Longrightarrow> verified_app (app_bytes (app @ [NUL])) k = k (strToUppercase app)"
  by (simp add: verified_app_valid app_valid_def validateUuidString_wf)

lemma app_round:
  "app_valid app \<Longrightarrow> decode_app (encode_app cmd (app @ [NUL])) = Decoded (strToUppercase app)"
  by (simp add: decode_app_def encode_app_def app_bytes_end app_valid_verified)

lemmas round_simps = app_bytes_end app_valid_verified word_gt_0 trailing_def

lemma install_round:
  "app_valid app \<Longrightarrow> NUL \<notin> set path \<Longrightarrow> length path \<le> FILENAME_MAX \<Longrightarrow>
   decode_install (encode_install (app @ [NUL]) path) = Decoded (strToUppercase app, path)"
  by (simp add: decode_install_def encode_install_def round_simps del: of_nat_Suc of_nat_add)

lemma create_round:
  "app_valid app \<Longrightarrow> length d \<le> JHI_BUFFER_MAX \<Longrightarrow>
   decode_create_session (encode_create_session junk (app @ [NUL]) flags d p) =
     Decoded (strToUppercase app, flags, if d = [] then None else Some d, p)"
  by (auto simp: decode_create_session_def encode_create_session_def round_simps)

lemma close_round:
  "length (uuid_bytes sid) = 16 \<Longrightarrow> decode_close_session (encode_close_session sid p force) = Decoded (sid, p, force)"
  by (simp add: decode_close_session_def encode_close_session_def)

lemma session_round:
  "length (uuid_bytes sid) = 16 \<Longrightarrow> decode_session (encode_session cmd sid) = Decoded sid"
  by (simp add: decode_session_def encode_session_def)

lemma event_handler_round:
  "length (uuid_bytes sid) = 16 \<Longrightarrow> NUL \<notin> set name \<Longrightarrow> length name < JHI_EVENT_HANDLE_SIZE \<Longrightarrow>
   decode_event_handler (encode_event_handler sid name) = Decoded (sid, name)"
  by (simp add: decode_event_handler_def encode_event_handler_def del: of_nat_Suc of_nat_add)

lemma txrx_round:
  "length (uuid_bytes sid) = 16 \<Longrightarrow> length d \<le> JHI_BUFFER_MAX \<Longrightarrow> unat rx \<le> JHI_BUFFER_MAX \<Longrightarrow>
   decode_send_and_recieve (encode_send_and_recieve junk sid cid d rx) = Decoded (sid, cid, d, rx)"
  by (auto simp: decode_send_and_recieve_def encode_send_and_recieve_def round_simps)

lemma property_round:
  assumes "app_valid app" "name \<noteq> []" "length name < JHI_BUFFER_MAX" "unat rx < JHI_BUFFER_MAX"
  shows "decode_property_sizes (encode_property junk (app @ [NUL]) name rx) =
     Decoded (app_bytes (app @ [NUL]), bytes_of name @ [0], rx + 1)"
    "decode_property_app (app_bytes (app @ [NUL])) = Decoded (strToUppercase app)"
proof -
  have "of_nat (length name) + 1 = (of_nat (Suc (length name)) :: uint32)" by simp
  moreover have "unat (rx + 1) \<le> JHI_BUFFER_MAX" using assms(4) by (simp add: unat_word_ariths)
  ultimately show "decode_property_sizes (encode_property junk (app @ [NUL]) name rx) =
     Decoded (app_bytes (app @ [NUL]), bytes_of name @ [0], rx + 1)"
    using assms by (simp add: decode_property_sizes_def encode_property_def del: of_nat_Suc)
  show "decode_property_app (app_bytes (app @ [NUL])) = Decoded (strToUppercase app)"
    using assms by (simp add: decode_property_app_def round_simps)
qed

text \<open>A request without a name carries one byte too many for the size it states.\<close>

lemma property_round_empty:
  "app_valid app \<Longrightarrow> unat rx < JHI_BUFFER_MAX \<Longrightarrow>
   decode_property_sizes (encode_property junk (app @ [NUL]) [] rx) = Refused JHI_INTERNAL_ERROR"
  by (simp add: decode_property_sizes_def encode_property_def unat_word_ariths)

lemma open_sd_round: "validateUuidString sd \<Longrightarrow> decode_open_sd (encode_sd_open sd) = Decoded sd"
  by (simp add: decode_open_sd_def encode_sd_open_def validateUuidString_wf UUID_wf_def UUID_wf_no_NUL nth_append)

lemma sd_handle_round: "h \<noteq> 0 \<Longrightarrow> decode_sd_handle (encode_sd_handle cmd h) = Decoded h"
  by (simp add: decode_sd_handle_def encode_sd_handle_def)

lemma cmd_pkg_round:
  "h \<noteq> 0 \<Longrightarrow> blob \<noteq> [] \<Longrightarrow> length blob \<le> JHI_BUFFER_MAX \<Longrightarrow> decode_send_cmd_pkg (encode_cmd_pkg h blob) = Decoded (h, blob)"
  by (simp add: decode_send_cmd_pkg_def encode_cmd_pkg_def)

lemma key_round: "length k = n \<Longrightarrow> n < 65536 \<Longrightarrow> decode_key n (command cmd k) = Decoded k"
  by (simp add: decode_key_def)

section \<open>Properties\<close>

text \<open>
  C3: no method of the dispatcher reads outside of the command it was given, whatever bytes a client
  sends, with one exception: \<^verbatim>\<open>InvokeSendCmdPkg\<close> reads the size and the handle before it looks at the
  length of the input, and reads outside exactly when a well-framed command is shorter than its
  fixed part of 17 bytes.
\<close>

theorem requests_in_bounds:
  assumes "6 \<le> length b"
  shows "decode_install b \<noteq> Overread \<and> decode_app b \<noteq> Overread \<and> decode_create_session b \<noteq> Overread
    \<and> decode_close_session b \<noteq> Overread \<and> decode_event_handler b \<noteq> Overread \<and> decode_session b \<noteq> Overread
    \<and> decode_send_and_recieve b \<noteq> Overread \<and> decode_property_sizes b \<noteq> Overread
    \<and> decode_open_sd b \<noteq> Overread \<and> decode_sd_handle b \<noteq> Overread \<and> decode_metadata_query b \<noteq> Overread
    \<and> decode_key n b \<noteq> Overread
    \<and> (decode_send_cmd_pkg b = Overread \<longleftrightarrow> unat (get32 (take 4 (drop 1 b))) = length b \<and> length b < 17)"
  using assms by (simp add: decode_in_bounds send_cmd_pkg_Overread)

theorem requests_in_bounds_witness:
  "decode_install (replicate 6 0) \<noteq> Overread \<and> decode_send_cmd_pkg [12, 6, 0, 0, 0, 0] = Overread"
proof -
  have "unat (get32 (take 4 (drop 1 [12, 6, 0, 0, 0, 0]))) = length [12 :: byte, 6, 0, 0, 0, 0]" by code_simp
  then show ?thesis
    using requests_in_bounds [of "replicate 6 0"] requests_in_bounds [of "[12, 6, 0, 0, 0, 0]"] by simp
qed



end
