(* ===== verification/Client_Calls.thy ===== *)
theory Client_Calls
  imports Command_Properties Service_Properties
begin

text \<open>
  The client library and the service together. The methods of the client rely on a channel: what
  they send is served, and the response comes back. That contract is the locale
  \<open>command_channel\<close>; it is proved for the sockets of both sides and the dispatcher, however the
  streams are cut into pieces, and the calls of the client are shown to have the results of the
  handlers.
\<close>

section \<open>The channel\<close>

locale command_channel =
  fixes c :: "'s ICommandsClient"
    and serve :: "byte list \<Rightarrow> ('s, reply) state"
    and quiet :: "'s \<Rightarrow> bool"
  assumes delivered: "quiet s \<Longrightarrow> 6 \<le> length b \<Longrightarrow> length b \<le> JHI_MAX_TRANSPORT_DATA_SIZE \<Longrightarrow>
      run_state (serve b) s = (Reply out, s') \<Longrightarrow> 9 \<le> length out \<Longrightarrow> length out < JHI_MAX_TRANSPORT_DATA_SIZE \<Longrightarrow>
      run_state (InvokeCommand c b) s = (Some out, s')"
    and memory: "quiet s \<Longrightarrow> run_state (client_alloc c) s = (True, s)"
begin

lemma send_buffer_served:
  assumes "quiet s" "6 \<le> length b" "length b \<le> JHI_MAX_TRANSPORT_DATA_SIZE"
    "run_state (serve b) s = (Reply out, s')" "9 \<le> length out" "length out < JHI_MAX_TRANSPORT_DATA_SIZE"
  shows "run_state (send_buffer c b nomem unavailable k) s = (k out, s')"
  using delivered [OF assms] memory [OF assms(1)] by (simp add: send_buffer_def)

lemma code_call:
  assumes "quiet s" "6 \<le> length b" "length b \<le> JHI_MAX_TRANSPORT_DATA_SIZE"
    "run_state (serve b) s = (Reply (put32 r @ put32 9 @ [x]), s')"
  shows "run_state (send_buffer c b nomem unavailable code_of_response) s = (r, s')"
  by (simp add: send_buffer_served [OF assms] code_of_response_def res_code_def res_length_def)

lemma fixed_call:
  assumes "quiet s" "6 \<le> length b" "length b \<le> JHI_MAX_TRANSPORT_DATA_SIZE"
    "run_state (serve b) s = (Reply (put32 r @ put32 n @ d), s')" "unat n = 8 + length d" "d \<noteq> []" "length d < 100"
  shows "run_state (send_buffer c b nomem unavailable (fixed_response (unat n) f)) s = ((r, Some (f d)), s')"
  using assms(5-7)
  by (cases d) (auto simp: send_buffer_served [OF assms(1-4)] fixed_response_def res_code_def res_length_def)

lemma txrx_call:
  assumes "quiet s" "6 \<le> length b" "length b \<le> JHI_MAX_TRANSPORT_DATA_SIZE"
    "run_state (serve b) s = (Reply (put32 JHI_SUCCESS @ put32 (18 + n) @ put32 resp @ put32 n @ d), s')"
    "length d = unat n + 2" "unat n \<le> JHI_BUFFER_MAX" "n \<le> rx"
  shows "run_state (send_buffer c b nomem unavailable (txrx_response rx)) s =
    ((JHI_SUCCESS, take (unat n) d, Some n, Some resp), s')"
proof -
  have n: "unat (18 + n) = 18 + unat n" using assms(6) by (simp add: unat_word_ariths)
  show ?thesis
    using assms(5-7)
    by (cases "n = 0") (auto simp: send_buffer_served [OF assms(1-4)] txrx_response_def res_code_def res_length_def n word_gt_0)
qed

end

section \<open>Sockets and dispatcher\<close>

text \<open>
  The pieces in which a stream arrives, by the lengths at which it is cut, and the counts that
  \<^verbatim>\<open>send\<close> returns when the connection holds: any sequence, and in the end all that is left.
\<close>

fun cut :: "nat list \<Rightarrow> byte list \<Rightarrow> byte list list" where
  "cut ks [] = []"
| "cut [] b = [b]"
| "cut (k # ks) b = take (Suc k) b # cut ks (drop (Suc k) b)"

lemma cut_pieces: "concat (cut ks b) = b" "[] \<notin> set (cut ks b)"
  by (induction ks b rule: cut.induct) auto

definition counts :: "nat list \<Rightarrow> nat \<Rightarrow> nat list" where
  "counts ks n = map Suc ks @ [n, n]"

lemma blockedSend_nothing [simp]: "blockedSend ks [] = ([], ks)"
  by (cases ks) auto

lemma blockedSend_counts:
  "length b \<le> n \<Longrightarrow> \<exists>ks' m'. blockedSend (map Suc ks @ replicate (Suc m) n) b = (b, map Suc ks' @ replicate m' n) \<and> m \<le> m'"
proof (induction ks arbitrary: b)
  case Nil
  then show ?case
    by (cases "b = []") (auto intro!: exI [of _ "[]"], metis le_SucI order_refl replicate_Suc)
next
  case (Cons k ks)
  show ?case
  proof (cases "b = []")
    case True
    then show ?thesis by (auto intro!: exI [of _ "k # ks"] exI [of _ "Suc m"])
  next
    case False
    have "length (drop (Suc k) b) \<le> n" using Cons.prems by simp
    then obtain ks' m' where "blockedSend (map Suc ks @ replicate (Suc m) n) (drop (Suc k) b) =
        (drop (Suc k) b, map Suc ks' @ replicate m' n)" "m \<le> m'"
      using Cons.IH [of "drop (Suc k) b"] by blast
    then show ?thesis using False by (auto simp del: replicate_Suc)
  qed
qed

lemma counts_enough:
  assumes "4 \<le> n" "length b \<le> n"
  shows "\<exists>r1 r2. blockedSend (counts ks n) (put32 v) = (put32 v, r1) \<and> blockedSend r1 b = (b, r2)"
proof -
  obtain ks1 m1 where 1: "blockedSend (map Suc ks @ replicate (Suc 1) n) (put32 v) = (put32 v, map Suc ks1 @ replicate m1 n)" "1 \<le> m1"
    using blockedSend_counts [of "put32 v" n ks 1] assms(1) by auto
  obtain m where "m1 = Suc m" using 1(2) by (cases m1) auto
  then obtain r2 where "blockedSend (map Suc ks1 @ replicate m1 n) b = (b, r2)"
    using blockedSend_counts [OF assms(2), of ks1 m] by auto
  with 1 show ?thesis by (simp add: counts_def numeral_2_eq_2)
qed

text \<open>
  The client of \<^verbatim>\<open>CommandsClientSocketsLinux\<close> connected to the thread the server runs for it.
\<close>

definition Invoke_sockets :: "'w environment \<Rightarrow> 'w platform \<Rightarrow> nat list \<Rightarrow> nat list \<Rightarrow> byte list \<Rightarrow>
    ('w, byte list option) service" where
  "Invoke_sockets env pf ks cs b =
     (case invoke_send (counts ks (length b)) b of
        None \<Rightarrow> ret None
      | Some wire \<Rightarrow> do {
          e \<leftarrow> ClientSessionThread env pf (cut cs wire) (counts ks JHI_MAX_TRANSPORT_DATA_SIZE);
          ret (case e of Answered w \<Rightarrow> invoke_receive True (cut cs w) | _ \<Rightarrow> None) })"

definition socket_client :: "'w environment \<Rightarrow> 'w platform \<Rightarrow> byte \<Rightarrow> nat list \<Rightarrow> nat list \<Rightarrow>
    'w jhi ICommandsClient" where
  "socket_client env pf junk ks cs = \<lparr> Connect = ret True, Invoke = Invoke_sockets env pf ks cs,
     Disconnect = ret True, client_alloc = ret True, stack_byte = junk \<rparr>"

definition quiet :: "'w jhi \<Rightarrow> bool" where
  "quiet s = (io (fsys s) = [])"

lemma invoke_send_counts:
  assumes "6 \<le> length b"
  shows "invoke_send (counts ks (length b)) b = Some (put32 (of_nat (length b)) @ b)"
proof -
  obtain r1 r2 where "blockedSend (counts ks (length b)) (put32 (of_nat (length b))) = (put32 (of_nat (length b)), r1)"
      "blockedSend r1 b = (b, r2)"
    using counts_enough [of "length b" b ks] assms by force
  moreover have "b \<noteq> []" using assms by auto
  ultimately show ?thesis by (simp add: invoke_send_def)
qed

lemma send_answer_counts:
  assumes "length out \<le> n" "4 \<le> n" "out \<noteq> []"
  shows "send_answer (counts ks n) out = put32 (of_nat (length out)) @ out"
proof -
  obtain r1 r2 where "blockedSend (counts ks n) (put32 (of_nat (length out))) = (put32 (of_nat (length out)), r1)"
      "blockedSend r1 out = (out, r2)"
    using counts_enough [OF assms(2,1)] by blast
  then show ?thesis using assms(3) by (simp add: send_answer_def)
qed

lemma Invoke_sockets_served:
  assumes "quiet s" "6 \<le> length b" "length b \<le> JHI_MAX_TRANSPORT_DATA_SIZE"
    "run_state (processCommand env pf (Some b)) s = (Reply out, s')"
    "9 \<le> length out" "length out < JHI_MAX_TRANSPORT_DATA_SIZE"
  shows "run_state (Invoke_sockets env pf ks cs b) s = (Some out, s')"
proof -
  let ?ks = "counts ks JHI_MAX_TRANSPORT_DATA_SIZE"
  have "out \<noteq> []" using assms(5) by auto
  then have a: "send_answer ?ks out = put32 (of_nat (length out)) @ out"
    using send_answer_counts [of out JHI_MAX_TRANSPORT_DATA_SIZE ks] assms(6) by simp
  moreover have "run_state (ClientSessionThread env pf (cut cs (put32 (of_nat (length b)) @ b)) ?ks) s =
      (Answered (send_answer ?ks out), s')"
    using session_thread_answers [OF cut_pieces(2,1) assms(2,3) _ assms(4)] assms(1)
    by (simp add: run_alloc quiet_def)
  moreover have "invoke_receive True (cut cs (put32 (of_nat (length out)) @ out)) = Some out"
    using invoke_receive_all [OF cut_pieces(2,1) assms(5,6)] .
  ultimately show ?thesis by (simp add: Invoke_sockets_def invoke_send_counts [OF assms(2)])
qed

interpretation jhi_channel: command_channel "socket_client env pf junk ks cs"
  "\<lambda>b. processCommand env pf (Some b)" quiet
  for env :: "'w environment" and pf junk ks cs
proof
  show "run_state (InvokeCommand (socket_client env pf junk ks cs) b) s = (Some out, s')"
    if "quiet s" "6 \<le> length b" "length b \<le> JHI_MAX_TRANSPORT_DATA_SIZE"
      "run_state (processCommand env pf (Some b)) s = (Reply out, s')"
      "9 \<le> length out" "length out < JHI_MAX_TRANSPORT_DATA_SIZE"
    for s b out s'
    using Invoke_sockets_served [OF that] by (simp add: InvokeCommand_def socket_client_def)
qed (simp add: socket_client_def)

section \<open>Calls\<close>

lemma run_respond:
  "io (fsys s) = [] \<Longrightarrow> run_state (respond pf r n body) s =
     (if unat n < max 9 (8 + length body) then Undefined
      else Reply (put32 r @ put32 n @ body @ map (uninit_byte pf) [8 + length body ..< unat n]), s)"
  by (simp add: respond_def run_alloc)

lemma run_processCommand:
  assumes "jhi_state (globals s) = JHI_INITIALIZED" "cmd < 20" "1 \<le> length body" "5 + length body < 2 ^ 32"
  shows "run_state (processCommand env pf (Some (command cmd body))) s = run_state (dispatch pf cmd (command cmd body)) s"
proof -
  have "unat (command cmd body ! 0) = cmd" using assms(2) by (simp add: command_def unat_of_nat)
  then show ?thesis
    using assms declared_command [of body cmd] by (auto simp: processCommand_def)
qed





section \<open>Lists of identifiers\<close>

lemma length_list_bytes: "length (list_bytes us) = 5 + 33 * length us"
  by (induction us) (simp_all add: list_bytes_def)

lemma list_response_overreads:
  assumes "length out = 13 + 33 * n" "n < 100000"
    "out = put32 JHI_SUCCESS @ put32 (of_nat (length out)) @ put32 (of_nat n) @ rest"
  shows "list_response True out = Overread"
proof -
  have c: "res_code out = JHI_SUCCESS" "u32_at 8 out = Some (of_nat n)" "get32 (take 4 (drop 4 out)) = of_nat (length out)"
    by (subst assms(3), simp add: res_code_def)+
  have "unat (of_nat (length out) :: uint32) = length out"
    using assms(1,2) by (simp only: unat_of_nat) simp
  then have "res_length out = length out" by (simp only: res_length_def c(3))
  moreover have "(of_nat (length out) - 13 :: uint32) = 33 * of_nat n"
    using assms(1) by simp
  ultimately show ?thesis using assms(1) c by (simp add: list_response_def reading_Overread)
qed

text \<open>
  Listing the installed applets through the client library: over Beihai v2, whenever the firmware
  answers the query, with any list of up to 100000 identifiers, the client copies as many bytes as the
  whole response has from the place of the identifiers on, and reads outside of the response.
\<close>

theorem list_client_overreads:
  assumes "jhi_state (globals s) = JHI_INITIALIZED" "io (fsys s) = []"
    and "vmType (globals s) = JHI_VM_TYPE_BEIHAI_V2" "plugin_registered (globals s)" "plugin_table (globals s)"
    and "h \<noteq> 0" "JHI_Plugin_ListInstalledTAs pf h (world s) = ((TEE_STATUS_SUCCESS, us), w)" "length us < 100000"
  shows "run_state (JhisListInstalledTAs (socket_client env pf junk ks cs) h True) s = (Overread, s\<lparr>world := w\<rparr>)"
proof -
  let ?b = "encode_sd_handle 15 h" and ?n = "13 + 33 * length us"
  let ?out = "put32 TEE_STATUS_SUCCESS @ put32 (of_nat ?n) @ list_bytes us"
  have n: "unat (13 + of_nat (length us) * 33 :: uint32) = ?n" "of_nat ?n = (13 + of_nat (length us) * 33 :: uint32)"
  proof -
    show e: "of_nat ?n = (13 + of_nat (length us) * 33 :: uint32)" by simp
    have "unat (of_nat ?n :: uint32) = ?n" using assms(8) by (simp only: unat_of_nat) simp
    then show "unat (13 + of_nat (length us) * 33 :: uint32) = ?n" unfolding e .
  qed
  have "run_state (InvokeListInstalledTAs pf ?b) s = (Reply ?out, s\<lparr>world := w\<rparr>)"
    using assms n
    by (simp add: InvokeListInstalledTAs_def over_v2_def answering_def sd_handle_round with_plugin_def respond_list_def
        run_respond length_list_bytes)
  moreover have "run_state (processCommand env pf (Some ?b)) s = run_state (dispatch pf 15 ?b) s"
    using assms(1) unfolding encode_sd_handle_def by (intro run_processCommand) auto
  ultimately have run: "run_state (processCommand env pf (Some ?b)) s = (Reply ?out, s\<lparr>world := w\<rparr>)"
    by (simp add: dispatch_def)
  have l: "length ?out = ?n" by (simp add: length_list_bytes)
  have "run_state (send_buffer (socket_client env pf junk ks cs) ?b (Inl TEE_STATUS_INTERNAL_ERROR)
      (Inl TEE_STATUS_SERVICE_UNAVAILABLE) Inr) s = (Inr ?out, s\<lparr>world := w\<rparr>)"
    by (rule jhi_channel.send_buffer_served [OF _ _ _ run])
      (use assms(2,8) l in \<open>simp_all add: quiet_def encode_sd_handle_def\<close>)
  moreover have "list_response True ?out = Overread"
    using list_response_overreads [OF l assms(8)] l by (simp add: list_bytes_def)
  ultimately show ?thesis
    by (simp add: JhisListInstalledTAs_def list_installed_def socket_client_def)
qed

theorem list_client_overreads_witness:
  "run_state (JhisListInstalledTAs (socket_client sample_env sample_platform 7 [] [3]) 1 True)
      (sample_state\<lparr>globals := sample_globals\<lparr>vmType := JHI_VM_TYPE_BEIHAI_V2\<rparr>\<rparr>) =
     (Overread, sample_state\<lparr>globals := sample_globals\<lparr>vmType := JHI_VM_TYPE_BEIHAI_V2\<rparr>, world := 1\<rparr>)"
proof -
  let ?s = "sample_state\<lparr>globals := sample_globals\<lparr>vmType := JHI_VM_TYPE_BEIHAI_V2\<rparr>\<rparr>"
  have "jhi_state (globals ?s) = JHI_INITIALIZED" "io (fsys ?s) = []" "vmType (globals ?s) = JHI_VM_TYPE_BEIHAI_V2"
    "plugin_registered (globals ?s)" "plugin_table (globals ?s)" "(1 :: uint64) \<noteq> 0"
    "JHI_Plugin_ListInstalledTAs sample_platform 1 (world ?s) = ((TEE_STATUS_SUCCESS, [sample_app]), 1)"
    "length [sample_app] < 100000"
    by (simp_all add: sample_state_def sample_globals_def sample_platform_def)
  from list_client_overreads [OF this] show ?thesis by simp
qed

end
