(* ===== verification/Service_Run.thy ===== *)
theory Service_Run
  imports Life_Cycle Client_Calls
begin

text \<open>
  The service as it runs: commands of any client, events of the firmware, resets and stops, in any
  order, beside other processes that change the file system and the world. Every step keeps the
  invariant of the three managers: a session table with at most one shared session for an applet,
  an applet table with applets that are installed or being installed, and a plugin and an event
  manager that are up exactly as the state of the service says.
\<close>

section \<open>Commands keep the invariants\<close>

lemma respond_frame [pres_intros]:
  "preserves (\<lambda>s. J (sessions s)) (respond pf r n body)"
  "preserves (\<lambda>s. J' (applets s)) (respond pf r n body)"
  "preserves (\<lambda>s. K (globals s) (events s)) (respond pf r n body)"
  unfolding respond_def by (intro pres_intros)+

lemma respond_list_frame [pres_intros]:
  "preserves (\<lambda>s. J (sessions s)) (respond_list pf r)"
  "preserves (\<lambda>s. J' (applets s)) (respond_list pf r)"
  "preserves (\<lambda>s. K (globals s) (events s)) (respond_list pf r)"
  unfolding respond_list_def by (intro pres_intros)+

lemma over_v2_frame [pres_intros]: "preserves I (over_v2 d)"
  unfolding over_v2_def by (intro pres_intros)

lemma with_plugin_frame [pres_intros]:
  "preserves (\<lambda>s. J (sessions s)) (with_plugin f x)"
  "preserves (\<lambda>s. J' (applets s)) (with_plugin f x)"
  "preserves (\<lambda>s. K (globals s) (events s)) (with_plugin f x)"
  unfolding with_plugin_def by (intro pres_intros)+

lemma preserves_answering [pres_intros]:
  "(\<And>r. preserves I (refused r)) \<Longrightarrow> (\<And>a. d = Decoded a \<Longrightarrow> preserves I (k a)) \<Longrightarrow> preserves I (answering d refused k)"
  unfolding answering_def by (cases d) (auto intro!: pres_intros)

lemma info_frame [pres_intros]: "preserves I (jhis_get_session_info sid b)"
  unfolding jhis_get_session_info_def by (cases sid) (auto intro!: pres_intros)

lemmas invoke_defs = InvokeInit_def InvokeInstall_def InvokeUninstall_def InvokeGetSessionsCount_def
  InvokeCreateSession_def InvokeCloseSession_def InvokeSetSessionEventHandler_def InvokeGetSessionInfo_def
  InvokeGetSessionEventData_def InvokeSendAndRecieve_def InvokeGetAppletProperty_def InvokeGetVersionInfo_def
  InvokeSendCmdPkg_def InvokeOpenSDSession_def InvokeCloseSDSession_def InvokeListInstalledTAs_def
  InvokeListInstalledSDs_def InvokeQueryTeeMetadata_def InvokeProvisionOemMasterKey_def
  InvokeSetTAEncryptionKey_def

lemma dispatch_life: "preserves (\<lambda>s. life_inv (globals s) (events s)) (dispatch pf cmd b)"
  unfolding dispatch_def invoke_defs Let_def by (intro pres_intros)

lemma dispatch_applets: "preserves (\<lambda>s. applets_inv (applets s)) (dispatch pf cmd b)"
  unfolding dispatch_def invoke_defs Let_def
  by (intro pres_intros install_inv uninstall_inv create_session_inv property_inv send_cmd_inv)

lemma create_sessions: "preserves (\<lambda>s. shared_inv (sessions s)) (InvokeCreateSession pf b)"
  unfolding InvokeCreateSession_def
  by (intro pres_intros uniq_add.create_pres) (auto dest: decoded_app_ok simp: app_ok_def)

lemma property_sizes_app: "decode_property_sizes b = Decoded (a, tx, rx) \<Longrightarrow> length a = 33"
  unfolding decode_property_sizes_def checked_length_Decoded
  by (auto simp: reading_Decoded read_at_length split: if_splits)

lemma property_sessions: "preserves (\<lambda>s. shared_inv (sessions s)) (InvokeGetAppletProperty pf b)"
  unfolding InvokeGetAppletProperty_def Let_def
  by (intro pres_intros uniq_add.property_pres) (auto dest!: decoded_app_ok(4) [OF property_sizes_app] simp: app_ok_def)

lemma dispatch_sessions: "preserves (\<lambda>s. shared_inv (sessions s)) (dispatch pf cmd b)"
  unfolding dispatch_def InvokeInit_def InvokeInstall_def InvokeUninstall_def InvokeGetSessionsCount_def
    InvokeCloseSession_def InvokeSetSessionEventHandler_def InvokeGetSessionInfo_def
    InvokeGetSessionEventData_def InvokeSendAndRecieve_def InvokeGetVersionInfo_def
    InvokeSendCmdPkg_def InvokeOpenSDSession_def InvokeCloseSDSession_def InvokeListInstalledTAs_def
    InvokeListInstalledSDs_def InvokeQueryTeeMetadata_def InvokeProvisionOemMasterKey_def
    InvokeSetTAEncryptionKey_def Let_def
  by (intro pres_intros create_sessions property_sessions uniq.install_pres uniq.uninstall_pres uniq.count_pres
      uniq.close_pres handler_sessions uniq.txrx_pres uniq.send_cmd_pres sessions_inv_on_sessions
      shared_inv_events)

section \<open>The invariant\<close>

definition service_inv :: "'w jhi \<Rightarrow> bool" where
  "service_inv s \<longleftrightarrow> shared_inv (sessions s) \<and> applets_inv (applets s) \<and> life_inv (globals s) (events s)"

lemma preserves_service_inv:
  "preserves (\<lambda>s. shared_inv (sessions s)) m \<Longrightarrow> preserves (\<lambda>s. applets_inv (applets s)) m \<Longrightarrow>
   preserves (\<lambda>s. life_inv (globals s) (events s)) m \<Longrightarrow> preserves service_inv m"
  by (simp add: preserves_def service_inv_def)

lemma init_inv: "preserves service_inv (jhis_init env pf)"
  by (intro preserves_service_inv sessions_init applets_init_stages life_init)

lemma dispatch_inv: "preserves service_inv (dispatch pf cmd b)"
  by (intro preserves_service_inv dispatch_sessions dispatch_applets dispatch_life)

lemma respond_inv: "preserves service_inv (respond pf r n body)"
  by (intro preserves_service_inv respond_frame)

lemma processCommand_inv: "preserves service_inv (processCommand env pf b)"
  unfolding processCommand_def by (intro pres_intros respond_inv dispatch_inv init_inv)

lemma listener_inv: "events_wf pf \<Longrightarrow> preserves service_inv (listener_iteration pf)"
  by (intro preserves_service_inv sessions_listener applets_listener life_listener)

lemma reset_inv: "preserves service_inv (JhiReset pf)"
  by (intro preserves_service_inv sessions_reset_service applets_reset life_reset)

lemma stop_inv: "preserves service_inv (jhi_stop pf)"
proof (rule preserves_service_inv)
  show "preserves (\<lambda>s. shared_inv (sessions s)) (jhi_stop pf)"
    unfolding jhi_stop_def by (intro pres_intros sessions_reset_service)
  show "preserves (\<lambda>s. applets_inv (applets s)) (jhi_stop pf)"
    unfolding jhi_stop_def by (intro pres_intros applets_reset)
qed (rule life_stop)

lemma invoke_reset_inv: "preserves service_inv (jhi_invoke_reset pf)"
proof (rule preserves_service_inv)
  show "preserves (\<lambda>s. shared_inv (sessions s)) (jhi_invoke_reset pf)"
    "preserves (\<lambda>s. applets_inv (applets s)) (jhi_invoke_reset pf)"
    unfolding jhi_invoke_reset_def by (intro pres_intros)+
qed (rule life_invoke_reset)

section \<open>Runs\<close>

text \<open>
  A step: a command of a client, an iteration of the listener thread, a reset, a stop, the request
  for a reset, or a change outside of the service. A run begins with the service as it is loaded.
\<close>

inductive service_step :: "'w environment \<Rightarrow> 'w platform \<Rightarrow> 'w jhi \<Rightarrow> 'w jhi \<Rightarrow> bool"
  for env :: "'w environment" and pf :: "'w platform" where
  step_command: "run_state (processCommand env pf b) s = (r, s') \<Longrightarrow> service_step env pf s s'"
| step_event: "run_state (listener_iteration pf) s = (e, s') \<Longrightarrow> service_step env pf s s'"
| step_reset: "run_state (JhiReset pf) s = (u, s') \<Longrightarrow> service_step env pf s s'"
| step_stop: "run_state (jhi_stop pf) s = (u, s') \<Longrightarrow> service_step env pf s s'"
| step_invoke_reset: "run_state (jhi_invoke_reset pf) s = (u, s') \<Longrightarrow> service_step env pf s s'"
| step_outside: "service_step env pf s (s\<lparr>world := w, fsys := f\<rparr>)"

inductive_cases service_stepE: "service_step env pf s s'"

definition loaded :: "file_system \<Rightarrow> 'w \<Rightarrow> 'w jhi" where
  "loaded f w = \<lparr> sessions = SessionsManager_init, applets = [], globals = GlobalsManager_init,
     events = \<lparr> initialized = False, spooler_handle = 0, listener_started = False \<rparr>, fsys = f, world = w \<rparr>"

inductive service_run :: "'w environment \<Rightarrow> 'w platform \<Rightarrow> 'w jhi \<Rightarrow> bool"
  for env :: "'w environment" and pf :: "'w platform" where
  run_loaded: "service_run env pf (loaded f w)"
| run_step: "service_run env pf s \<Longrightarrow> service_step env pf s s' \<Longrightarrow> service_run env pf s'"

lemma loaded_inv: "service_inv (loaded f w)"
  by (simp add: service_inv_def loaded_def shared_inv_def shared_unique_def SessionsManager_init_def
      static_part_def life_inv_def globals_inv_init) (simp add: GlobalsManager_init_def sm_inv_init [unfolded SessionsManager_init_def])

lemma step_inv:
  assumes "events_wf pf" "service_step env pf s s'" "service_inv s"
  shows "service_inv s'"
  using assms(2)
proof cases
  case (step_command b r)
  then show ?thesis using preservesD [OF processCommand_inv assms(3)] by blast
next
  case (step_event e)
  then show ?thesis using preservesD [OF listener_inv [OF assms(1)] assms(3)] by blast
next
  case (step_reset u)
  then show ?thesis using preservesD [OF reset_inv assms(3)] by blast
next
  case (step_stop u)
  then show ?thesis using preservesD [OF stop_inv assms(3)] by blast
next
  case (step_invoke_reset u)
  then show ?thesis using preservesD [OF invoke_reset_inv assms(3)] by blast
next
  case (step_outside w f)
  then show ?thesis using assms(3) by (simp add: service_inv_def)
qed

lemma run_inv: "service_run env pf s \<Longrightarrow> events_wf pf \<Longrightarrow> service_inv s"
  by (induction rule: service_run.induct) (auto intro: loaded_inv step_inv)

text \<open>
  C1: whatever bytes clients send, whatever the firmware answers, and in whatever order commands,
  events, resets and stops come, the running service keeps its invariant: the session table is well
  formed and an applet has at most one shared session, every applet record is of an applet that is
  installed or being installed, an initialized service has its plugin registered and its event
  manager up, and a stopped one neither.
\<close>

theorem service_invariant:
  assumes "service_run env pf s" "events_wf pf"
  shows "sm_inv (sessions s) \<and> shared_unique (sessions s) \<and> applets_inv (applets s)
    \<and> (jhi_state (globals s) = JHI_INITIALIZED \<longrightarrow>
         plugin_registered (globals s) \<and> plugin_table (globals s) \<and> initialized (events s))
    \<and> (jhi_state (globals s) = JHI_STOPPED \<longrightarrow>
         \<not> plugin_registered (globals s) \<and> \<not> plugin_table (globals s) \<and> \<not> initialized (events s))"
  using run_inv [OF assms]
  by (auto simp: service_inv_def shared_inv_def life_inv_def globals_inv_def)

theorem service_invariant_witness:
  "\<exists>s. service_run sample_env sample_platform s \<and> jhi_state (globals s) = JHI_INITIALIZED
     \<and> plugin_registered (globals s) \<and> initialized (events s)"
proof -
  let ?s1 = "snd (run_state (jhis_init sample_env sample_platform) stopped_state)"
  have "fst (run_state (jhis_init sample_env sample_platform) stopped_state) = JHI_SUCCESS"
    "io (fsys ?s1) = []" "jhi_state (globals ?s1) = JHI_INITIALIZED" "jhi_state (globals stopped_state) = JHI_STOPPED"
    by code_simp+
  note facts = this
  obtain s1 where s1: "run_state (jhis_init sample_env sample_platform) stopped_state = (JHI_SUCCESS, s1)"
    using facts(1) by (metis prod.collapse)
  then have s1_facts: "io (fsys s1) = []" "jhi_state (globals s1) = JHI_INITIALIZED" "?s1 = s1"
    using facts(2,3) by simp_all
  then have "\<exists>r. run_state (processCommand sample_env sample_platform (Some [0, 6, 0, 0, 0, 0])) stopped_state = (r, s1)"
    using facts(4) s1 by (simp add: processCommand_def get32_def dispatch_def InvokeInit_def run_respond)
  then have "service_step sample_env sample_platform stopped_state s1" using step_command by blast
  moreover have "stopped_state = loaded (fsys stopped_state) 1"
    by (simp add: stopped_state_def loaded_def sample_state_def)
  then have "service_run sample_env sample_platform stopped_state" using run_loaded by metis
  ultimately have "service_run sample_env sample_platform s1" using run_step by blast
  moreover have "events_wf sample_platform" by (simp add: events_wf_def sample_platform_def)
  ultimately show ?thesis using service_invariant s1_facts(2) by blast
qed

end
