(* ===== verification/Client_Library.thy ===== *)
theory Client_Library
  imports Service_Run
begin

text \<open>
  The public functions of the client library, \<^verbatim>\<open>libjhi/jhi.cpp\<close> in the Linux build, over the methods of
  the command invoker. The library keeps one application handle with the list of the session handles
  it has given out; a session handle points to the event object and the flag it shares with the
  thread that listens for the session's events. Handles, event objects and flags are kept in stores,
  so that a freed object is seen as such: reading or writing one sets \<open>fault\<close>.

  Addresses come from \<open>mallocs\<close>: the outcomes of the next allocations (also of the next threads).
  An address in use or zero is never handed out. A call is one step (the library's mutex); the
  listener threads run between the calls. The queries of the trace settings are left out.
\<close>

abbreviation JHI_INVALID_HANDLE :: JHI_RET where "JHI_INVALID_HANDLE \<equiv> 0x201"
abbreviation JHI_INVALID_COMM_BUFFER :: JHI_RET where "JHI_INVALID_COMM_BUFFER \<equiv> 0x1002"
abbreviation JHI_INVALID_INSTALL_FILE :: JHI_RET where "JHI_INVALID_INSTALL_FILE \<equiv> 0x1003"
abbreviation JHI_INVALID_INIT_BUFFER :: JHI_RET where "JHI_INVALID_INIT_BUFFER \<equiv> 0x1006"
abbreviation JHI_SESSION_NOT_REGISTERED :: JHI_RET where "JHI_SESSION_NOT_REGISTERED \<equiv> 0x1010"
abbreviation JHI_SESSION_ALREADY_REGSITERED :: JHI_RET where "JHI_SESSION_ALREADY_REGSITERED \<equiv> 0x1011"

type_synonym addr = nat

record JHI_I_SESSION_HANDLE =
  h_sessionID :: JHI_SESSION_ID
  h_event :: "addr option"
  h_thread :: bool
  h_callback :: "nat option"
  h_flag :: "addr option"
  h_flags :: JHI_SESSION_FLAGS
  h_process :: JHI_PROCESS_INFO

record JHI_I_HANDLE =
  a_address :: addr
  a_process :: JHI_PROCESS_INFO
  SessionsList :: "addr list"
  ReferenceCount :: uint32

text \<open>A listener thread: what it copied from its session handle.\<close>

record listener =
  l_session :: addr
  l_event :: addr
  l_flag :: addr
  l_id :: JHI_SESSION_ID
  l_callback :: nat

record JHI_EVENT =
  e_session :: addr
  e_callback :: nat
  e_data :: "byte list"
  e_type :: byte

record 'w libjhi =
  appHandle :: "JHI_I_HANDLE option"
  session_heap :: "addr \<Rightarrow> JHI_I_SESSION_HANDLE option"
  event_heap :: "addr \<Rightarrow> JhiEvent option"
  flag_heap :: "addr \<Rightarrow> byte option"
  listeners :: "listener list"
  callbacks :: "JHI_EVENT list"
  mallocs :: "addr option list"
  new_uuids :: "string list"
  fault :: bool
  svc :: "'w jhi"

type_synonym ('w, 'a) lib = "('w libjhi, 'a) state"

text \<open>The process: its channel to the service, its identity, and what unassigned memory holds.\<close>

record 'w process =
  channel :: "'w jhi ICommandsClient"
  own_pid :: uint32
  own_stat :: "string option"
  uninit_id :: JHI_SESSION_ID

record DATA_BUFFER =
  b_length :: uint32
  b_data :: "byte list option"

section \<open>Memory\<close>

definition on_svc :: "('w, 'a) service \<Rightarrow> ('w, 'a) lib" where
  "on_svc m = zoom svc (\<lambda>v s. s\<lparr>svc := v\<rparr>) m"

definition malloc :: "('w libjhi \<Rightarrow> addr \<Rightarrow> bool) \<Rightarrow> ('w, addr option) lib" where
  "malloc used = action (\<lambda>s. case mallocs s of
     [] \<Rightarrow> (None, s)
   | x # xs \<Rightarrow> (case x of None \<Rightarrow> None | Some a \<Rightarrow> if a = 0 \<or> used s a then None else Some a, s\<lparr>mallocs := xs\<rparr>))"

definition crash :: "('w, unit) lib" where
  "crash = modify (\<lambda>s. s\<lparr>fault := True\<rparr>)"

definition dead_handle :: JHI_I_SESSION_HANDLE where
  "dead_handle = \<lparr> h_sessionID = UUID [], h_event = None, h_thread = False, h_callback = None, h_flag = None,
     h_flags = 0, h_process = \<lparr> pid = 0, creationTime = \<lparr> dwHighDateTime = 0, dwLowDateTime = 0 \<rparr> \<rparr> \<rparr>"

definition read_handle :: "addr \<Rightarrow> ('w, JHI_I_SESSION_HANDLE) lib" where
  "read_handle h = do {
     r \<leftarrow> gets (\<lambda>s. session_heap s h);
     (case r of None \<Rightarrow> do { crash; ret dead_handle } | Some x \<Rightarrow> ret x) }"

definition write_handle :: "addr \<Rightarrow> (JHI_I_SESSION_HANDLE \<Rightarrow> JHI_I_SESSION_HANDLE) \<Rightarrow> ('w, unit) lib" where
  "write_handle h f = do {
     r \<leftarrow> read_handle h;
     modify (\<lambda>s. s\<lparr>session_heap := (session_heap s)(h := map_option f (session_heap s h))\<rparr>) }"

definition read_event :: "addr \<Rightarrow> ('w, JhiEvent) lib" where
  "read_event e = do {
     r \<leftarrow> gets (\<lambda>s. event_heap s e);
     (case r of None \<Rightarrow> do { crash; ret JhiEvent_init } | Some x \<Rightarrow> ret x) }"

text \<open>A method of an event object.\<close>

definition use_event :: "addr \<Rightarrow> (JhiEvent \<Rightarrow> ('a \<times> JhiEvent) fs) \<Rightarrow> ('w, 'a) lib" where
  "use_event e m = do {
     x \<leftarrow> read_event e;
     r \<leftarrow> on_svc (on_fsys (m x));
     modify (\<lambda>s. s\<lparr>event_heap := (event_heap s)(e := map_option (\<lambda>_. snd r) (event_heap s e))\<rparr>);
     ret (fst r) }"

definition delete_event :: "addr \<Rightarrow> ('w, unit) lib" where
  "delete_event e = do {
     use_event e (\<lambda>x. do { y \<leftarrow> JhiEvent_clean x; ret ((), y) });
     modify (\<lambda>s. s\<lparr>event_heap := (event_heap s)(e := None)\<rparr>) }"

definition read_flag :: "addr \<Rightarrow> ('w, byte) lib" where
  "read_flag f = do {
     r \<leftarrow> gets (\<lambda>s. flag_heap s f);
     (case r of None \<Rightarrow> do { crash; ret 1 } | Some x \<Rightarrow> ret x) }"

definition write_flag :: "addr \<Rightarrow> byte \<Rightarrow> ('w, unit) lib" where
  "write_flag f v = do {
     x \<leftarrow> read_flag f;
     modify (\<lambda>s. s\<lparr>flag_heap := (flag_heap s)(f := map_option (\<lambda>_. v) (flag_heap s f))\<rparr>) }"

definition delete_flag :: "addr \<Rightarrow> ('w, unit) lib" where
  "delete_flag f = do {
     x \<leftarrow> read_flag f;
     modify (\<lambda>s. s\<lparr>flag_heap := (flag_heap s)(f := None)\<rparr>) }"

definition free_handle :: "addr \<Rightarrow> ('w, unit) lib" where
  "free_handle h = do {
     x \<leftarrow> read_handle h;
     modify (\<lambda>s. s\<lparr>session_heap := (session_heap s)(h := None)\<rparr>) }"

section \<open>The list of session handles\<close>

definition ValidateJHIhandle :: "addr \<Rightarrow> 'w libjhi \<Rightarrow> bool" where
  "ValidateJHIhandle handle s =
     (if handle = 0 then False
      else case appHandle s of None \<Rightarrow> False | Some a \<Rightarrow> handle = a_address a)"

definition SessionHandleValid :: "addr \<Rightarrow> 'w libjhi \<Rightarrow> bool" where
  "SessionHandleValid h s =
     (case appHandle s of None \<Rightarrow> False | Some a \<Rightarrow> if h = 0 then False else h \<in> set (SessionsList a))"

definition addSessionHandle :: "addr \<Rightarrow> ('w, bool) lib" where
  "addSessionHandle h = action (\<lambda>s. case appHandle s of
     None \<Rightarrow> (False, s)
   | Some a \<Rightarrow> if h = 0 then (False, s)
               else (True, s\<lparr>appHandle := Some (a\<lparr>SessionsList := SessionsList a @ [h]\<rparr>)\<rparr>))"

definition removeSessionHandle :: "addr \<Rightarrow> ('w, bool) lib" where
  "removeSessionHandle h = action (\<lambda>s.
     if \<not> SessionHandleValid h s then (False, s)
     else (True, s\<lparr>appHandle := map_option (\<lambda>a. a\<lparr>SessionsList := removeAll h (SessionsList a)\<rparr>) (appHandle s)\<rparr>))"

definition getSessionID :: "addr \<Rightarrow> ('w, JHI_SESSION_ID option) lib" where
  "getSessionID h = do {
     v \<leftarrow> gets (SessionHandleValid h);
     if v then do { r \<leftarrow> read_handle h; ret (Some (h_sessionID r)) } else ret None }"

text \<open>\<^verbatim>\<open>eventHandle != NULL && eventHandle->is_created()\<close>\<close>

definition event_created :: "JHI_I_SESSION_HANDLE \<Rightarrow> ('w, bool) lib" where
  "event_created r = (case h_event r of None \<Rightarrow> ret False | Some e \<Rightarrow> do { x \<leftarrow> read_event e; ret (is_created x) })"

definition closeSessionEventThread :: "addr \<Rightarrow> ('w, unit) lib" where
  "closeSessionEventThread h = do {
     v \<leftarrow> gets (SessionHandleValid h);
     if \<not> v then ret ()
     else do {
       write_handle h (\<lambda>r. r\<lparr>h_callback := None\<rparr>);
       r \<leftarrow> read_handle h;
       b \<leftarrow> event_created r;
       (if b then do {
          (case h_flag r of None \<Rightarrow> ret () | Some f \<Rightarrow> write_flag f 1);
          (case h_event r of None \<Rightarrow> ret False | Some e \<Rightarrow> use_event e JhiEvent_close);
          write_handle h (\<lambda>r. r\<lparr>h_event := None\<rparr>) }
        else ret ());
       (if h_thread r then write_handle h (\<lambda>r. r\<lparr>h_thread := False\<rparr>) else ret ()) } }"

section \<open>Opening and closing the library\<close>

text \<open>\<open>out\<close>: whether the caller gave a place for the handle.\<close>

definition JHI_Initialize :: "'w process \<Rightarrow> bool \<Rightarrow> ('w, JHI_RET \<times> addr option) lib" where
  "JHI_Initialize p out =
     (if \<not> out then ret (JHI_INVALID_HANDLE, None)
      else do {
        h \<leftarrow> gets appHandle;
        (case h of
           Some a \<Rightarrow> do {
             modify (\<lambda>s. s\<lparr>appHandle := Some (a\<lparr>ReferenceCount := ReferenceCount a + 1\<rparr>)\<rparr>);
             ret (JHI_SUCCESS, Some (a_address a)) }
         | None \<Rightarrow> do {
             rc \<leftarrow> on_svc (JhisInit (channel p));
             if rc \<noteq> JHI_SUCCESS then ret (rc, None)
             else do {
               m \<leftarrow> malloc (\<lambda>_ _. False);
               (case m of
                  None \<Rightarrow> ret (JHI_INTERNAL_ERROR, None)
                | Some a \<Rightarrow> do {
                    l \<leftarrow> malloc (\<lambda>_ _. False);
                    if l = None then ret (JHI_INTERNAL_ERROR, None)
                    else (case getProcStartTime (own_stat p) \<lparr> dwHighDateTime = 0, dwLowDateTime = 0 \<rparr> of
                       (t, time) \<Rightarrow>
                         if t \<noteq> JHI_SUCCESS then ret (JHI_INTERNAL_ERROR, None)
                         else do {
                           modify (\<lambda>s. s\<lparr>appHandle := Some \<lparr> a_address = a,
                             a_process = \<lparr> pid = own_pid p, creationTime = time \<rparr>,
                             SessionsList = [], ReferenceCount = 1 \<rparr>\<rparr>);
                           ret (JHI_SUCCESS, Some a) }) }) } }) })"

text \<open>The handles are freed one after the other; the freed ones are replaced by \<^verbatim>\<open>NULL\<close> in the list.\<close>

definition clear_entry :: "addr \<Rightarrow> ('w, unit) lib" where
  "clear_entry h = do {
     r \<leftarrow> read_handle h;
     b \<leftarrow> event_created r;
     (if b then closeSessionEventThread h else ret ());
     free_handle h;
     modify (\<lambda>s. s\<lparr>appHandle := map_option (\<lambda>a. a\<lparr>SessionsList := map (\<lambda>x. if x = h then 0 else x) (SessionsList a)\<rparr>)
       (appHandle s)\<rparr>) }"

definition JHI_Deinit :: "addr \<Rightarrow> ('w, JHI_RET) lib" where
  "JHI_Deinit handle = do {
     v \<leftarrow> gets (ValidateJHIhandle handle);
     if \<not> v then ret JHI_INVALID_HANDLE
     else do {
       modify (\<lambda>s. s\<lparr>appHandle := map_option (\<lambda>a. a\<lparr>ReferenceCount := ReferenceCount a - 1\<rparr>) (appHandle s)\<rparr>);
       n \<leftarrow> gets (\<lambda>s. case appHandle s of None \<Rightarrow> 0 | Some a \<Rightarrow> ReferenceCount a);
       if n > 0 then ret JHI_SUCCESS
       else do {
         hs \<leftarrow> gets (\<lambda>s. case appHandle s of None \<Rightarrow> [] | Some a \<Rightarrow> SessionsList a);
         for_each clear_entry hs;
         modify (\<lambda>s. s\<lparr>appHandle := None\<rparr>);
         ret JHI_SUCCESS } } }"

section \<open>Sessions\<close>

text \<open>
  \<^verbatim>\<open>AppId && strlen(AppId) == LEN_APP_ID && JhiUtilUUID_Validate(AppId, ucAppId) == JHI_SUCCESS\<close>:
  the characters before the terminator of the string that was passed, if any; the copy has its
  terminator.
\<close>

definition checked_app :: "string option \<Rightarrow> string option" where
  "checked_app AppId =
     (case AppId of
        None \<Rightarrow> None
      | Some s \<Rightarrow>
          if length s \<noteq> LEN_APP_ID then None
          else case JhiUtilUUID_Validate (Some (s @ [NUL])) of
              Some (r, uc) \<Rightarrow> if r = JHI_SUCCESS then Some (uc @ [NUL]) else None
            | None \<Rightarrow> None)"

definition buffer_bytes :: "DATA_BUFFER \<Rightarrow> byte list" where
  "buffer_bytes b = (case b_data b of None \<Rightarrow> [] | Some d \<Rightarrow> take (unat (b_length b)) d)"

definition new_handle :: "addr \<Rightarrow> JHI_I_SESSION_HANDLE \<Rightarrow> ('w, unit) lib" where
  "new_handle h r = modify (\<lambda>s. s\<lparr>session_heap := (session_heap s)(h := Some r)\<rparr>)"

text \<open>The request to the service, with the handle allocated for the session.\<close>

definition request_session :: "'w process \<Rightarrow> addr \<Rightarrow> string \<Rightarrow> JHI_SESSION_FLAGS \<Rightarrow> DATA_BUFFER \<Rightarrow> JHI_I_HANDLE \<Rightarrow>
    ('w, JHI_RET \<times> addr option) lib" where
  "request_session p h app flags buf a = do {
     write_handle h (\<lambda>r. r\<lparr>h_process := a_process a\<rparr>);
     r \<leftarrow> on_svc (JhisCreateSession (channel p) app flags (buffer_bytes buf) (a_process a));
     (case snd r of None \<Rightarrow> ret () | Some i \<Rightarrow> write_handle h (\<lambda>x. x\<lparr>h_sessionID := i\<rparr>));
     if fst r \<noteq> JHI_SUCCESS then do { free_handle h; ret (fst r, None) }
     else do {
       ok \<leftarrow> addSessionHandle h;
       if ok then ret (JHI_SUCCESS, Some h)
       else do { free_handle h; ret (JHI_INVALID_HANDLE, None) } } }"

definition JHI_CreateSession :: "'w process \<Rightarrow> addr \<Rightarrow> string option \<Rightarrow> JHI_SESSION_FLAGS \<Rightarrow> DATA_BUFFER option \<Rightarrow> bool \<Rightarrow>
    ('w, JHI_RET \<times> addr option) lib" where
  "JHI_CreateSession p handle AppId flags initBuffer out = do {
     v \<leftarrow> gets (ValidateJHIhandle handle);
     if \<not> v then ret (JHI_INVALID_HANDLE, None)
     else if \<not> out then ret (JHI_INVALID_SESSION_HANDLE, None)
     else do {
       let buf = (case initBuffer of None \<Rightarrow> \<lparr> b_length = 0, b_data = None \<rparr> | Some b \<Rightarrow> b);
       (case checked_app AppId of
          None \<Rightarrow> ret (JHI_INVALID_APPLET_GUID, None)
        | Some app \<Rightarrow>
            if b_length buf > 0 \<and> b_data buf = None then ret (JHI_INVALID_INIT_BUFFER, None)
            else if unat (b_length buf) > JHI_BUFFER_MAX then ret (JHI_INVALID_BUFFER_SIZE, None)
            else do {
              m \<leftarrow> malloc (\<lambda>s a. session_heap s a \<noteq> None);
              (case m of
                 None \<Rightarrow> ret (JHI_INTERNAL_ERROR, None)
               | Some h \<Rightarrow> do {
                   new_handle h (dead_handle\<lparr>h_sessionID := uninit_id p, h_flags := flags\<rparr>);
                   a \<leftarrow> gets appHandle;
                   (case a of
                      None \<Rightarrow> do { free_handle h; ret (JHI_INVALID_HANDLE, None) }
                    | Some a \<Rightarrow> request_session p h app flags buf a) }) }) } }"

text \<open>The request to the service; the handle is freed when the session is closed or not known any more.\<close>

definition close_at_service :: "'w process \<Rightarrow> addr \<Rightarrow> JHI_I_SESSION_HANDLE \<Rightarrow> bool \<Rightarrow> ('w, JHI_RET \<times> bool) lib" where
  "close_at_service p h r force = do {
     me \<leftarrow> gets (\<lambda>s. case appHandle s of None \<Rightarrow> h_process r | Some a \<Rightarrow> a_process a);
     c \<leftarrow> on_svc (JhisCloseSession (channel p) (h_sessionID r) me force);
     let rc = (if c = JHI_INVALID_SESSION_HANDLE then JHI_SUCCESS else c);
     if rc = JHI_SUCCESS then do {
       d \<leftarrow> removeSessionHandle h;
       (if d then do { free_handle h; ret (rc, True) } else ret (rc, False)) }
     else ret (rc, False) }"

text \<open>
  \<^verbatim>\<open>JHI_CloseSessionInternal\<close>: \<open>h\<close> is the handle the caller's pointer leads to, if there is a pointer;
  the second result is whether the caller's handle was set to \<^verbatim>\<open>NULL\<close>.
\<close>

definition JHI_CloseSessionInternal :: "'w process \<Rightarrow> addr \<Rightarrow> addr option \<Rightarrow> bool \<Rightarrow> ('w, JHI_RET \<times> bool) lib" where
  "JHI_CloseSessionInternal p handle pSessionHandle force = do {
     v \<leftarrow> gets (ValidateJHIhandle handle);
     if \<not> v then ret (JHI_INVALID_HANDLE, False)
     else (case pSessionHandle of
         None \<Rightarrow> ret (JHI_INVALID_SESSION_HANDLE, False)
       | Some h \<Rightarrow> do {
           ok \<leftarrow> gets (SessionHandleValid h);
           if \<not> ok then ret (JHI_INVALID_SESSION_HANDLE, False)
           else do {
             r \<leftarrow> read_handle h;
             b \<leftarrow> event_created r;
             (if b then closeSessionEventThread h else ret ());
             close_at_service p h r force } }) }"

definition JHI_CloseSession :: "'w process \<Rightarrow> addr \<Rightarrow> addr option \<Rightarrow> ('w, JHI_RET \<times> bool) lib" where
  "JHI_CloseSession p handle h = JHI_CloseSessionInternal p handle h False"

definition JHI_ForceCloseSession :: "'w process \<Rightarrow> addr \<Rightarrow> addr option \<Rightarrow> ('w, JHI_RET \<times> bool) lib" where
  "JHI_ForceCloseSession p handle h = JHI_CloseSessionInternal p handle h True"

text \<open>The caller's buffers of a command.\<close>

definition comm_missing :: "DATA_BUFFER \<times> DATA_BUFFER \<Rightarrow> bool" where
  "comm_missing c = (b_length (fst c) > 0 \<and> b_data (fst c) = None \<or> b_length (snd c) > 0 \<and> b_data (snd c) = None)"

text \<open>The code, the bytes put into the receive buffer, its length when assigned, and the response code.\<close>

definition JHI_SendAndRecv2 :: "'w process \<Rightarrow> addr \<Rightarrow> addr \<Rightarrow> uint32 \<Rightarrow> (DATA_BUFFER \<times> DATA_BUFFER) option \<Rightarrow>
    ('w, JHI_RET \<times> byte list \<times> uint32 option \<times> uint32 option) lib" where
  "JHI_SendAndRecv2 p handle SessionHandle nCommandId pComm = do {
     v \<leftarrow> gets (ValidateJHIhandle handle);
     if \<not> v then ret (JHI_INVALID_HANDLE, [], None, None)
     else do {
       i \<leftarrow> getSessionID SessionHandle;
       (case (i, pComm) of
          (None, _) \<Rightarrow> ret (JHI_INVALID_SESSION_HANDLE, [], None, None)
        | (Some sid, None) \<Rightarrow> ret (JHI_INVALID_COMM_BUFFER, [], None, None)
        | (Some sid, Some (tx, rx)) \<Rightarrow>
            if comm_missing (tx, rx) then ret (JHI_INVALID_COMM_BUFFER, [], None, None)
            else if unat (b_length tx) > JHI_BUFFER_MAX \<or> unat (b_length rx) > JHI_BUFFER_MAX
            then ret (JHI_INVALID_BUFFER_SIZE, [], None, None)
            else do {
              r \<leftarrow> on_svc (JhisSendAndRecv (channel p) sid nCommandId (buffer_bytes tx) (b_length rx));
              (if fst r = JHI_APPLET_FATAL \<or> fst r = JHI_INVALID_SESSION_HANDLE \<or> fst r = JHI_APPLET_TIMEOUT
               then do { JHI_CloseSession p handle (Some SessionHandle); ret () } else ret ());
              ret r }) } }"

text \<open>The state and the flags of the session are the result.\<close>

definition JHI_GetSessionInfo :: "'w process \<Rightarrow> addr \<Rightarrow> addr \<Rightarrow> bool \<Rightarrow>
    ('w, JHI_RET \<times> (uint32 \<times> JHI_SESSION_FLAGS) option) lib" where
  "JHI_GetSessionInfo p handle SessionHandle out = do {
     v \<leftarrow> gets (ValidateJHIhandle handle);
     if \<not> v then ret (JHI_INVALID_HANDLE, None)
     else do {
       i \<leftarrow> getSessionID SessionHandle;
       (case i of
          None \<Rightarrow> ret (JHI_INVALID_SESSION_HANDLE, None)
        | Some sid \<Rightarrow>
            if \<not> out then ret (JHI_INVALID_PARAMS, None)
            else do {
              r \<leftarrow> on_svc (JhisGetSessionInfo (channel p) sid);
              (if fst r = JHI_INVALID_SESSION_HANDLE
               then do { JHI_CloseSession p handle (Some SessionHandle); ret () } else ret ());
              ret r }) } }"

section \<open>Applets\<close>

definition JHI_Install2 :: "'w process \<Rightarrow> addr \<Rightarrow> string option \<Rightarrow> string option \<Rightarrow> ('w, JHI_RET) lib" where
  "JHI_Install2 p handle AppId pInstallFile = do {
     v \<leftarrow> gets (ValidateJHIhandle handle);
     if \<not> v then ret JHI_INVALID_HANDLE
     else (case (checked_app AppId, pInstallFile) of
         (None, _) \<Rightarrow> ret JHI_INVALID_APPLET_GUID
       | (Some app, None) \<Rightarrow> ret JHI_INVALID_INSTALL_FILE
       | (Some app, Some f) \<Rightarrow>
           if length f > FILENAME_MAX then ret JHI_INVALID_INSTALL_FILE
           else on_svc (JhisInstall (channel p) app f)) }"

definition JHI_Uninstall :: "'w process \<Rightarrow> addr \<Rightarrow> string option \<Rightarrow> ('w, JHI_RET) lib" where
  "JHI_Uninstall p handle AppId = do {
     v \<leftarrow> gets (ValidateJHIhandle handle);
     if \<not> v then ret JHI_INVALID_HANDLE
     else (case checked_app AppId of
         None \<Rightarrow> ret JHI_INVALID_APPLET_GUID
       | Some app \<Rightarrow> on_svc (JhisUninstall (channel p) app)) }"

definition JHI_GetSessionsCount :: "'w process \<Rightarrow> addr \<Rightarrow> string option \<Rightarrow> bool \<Rightarrow> ('w, JHI_RET \<times> uint32 option) lib" where
  "JHI_GetSessionsCount p handle AppId out = do {
     v \<leftarrow> gets (ValidateJHIhandle handle);
     if \<not> v then ret (JHI_INVALID_HANDLE, None)
     else if \<not> out then ret (JHI_INVALID_PARAMS, None)
     else (case checked_app AppId of
         None \<Rightarrow> ret (JHI_INVALID_APPLET_GUID, None)
       | Some app \<Rightarrow> on_svc (JhisGetSessionsCount (channel p) app)) }"

text \<open>
  \<^verbatim>\<open>JHI_GetAppletProperty\<close>. The name is copied from a string made of the caller's memory up to the
  first terminator, but with the length the caller states: more than the string and its terminator
  is read when that length is larger (\<open>Overread\<close>), and so is memory without a terminator. The
  terminator of the answer is put at the length the answer has, and \<open>Overread\<close> also stands for a place
  outside of the buffer. The result is the code, the length, and the characters written to the caller's receive buffer.
\<close>

definition property_name :: "DATA_BUFFER \<Rightarrow> string decoded" where
  "property_name tx =
     (let mem = chars (case b_data tx of None \<Rightarrow> [] | Some d \<Rightarrow> d) in
      if NUL \<notin> set mem then Overread
      else if unat (b_length tx) > length (c_string mem) + 1 then Overread
      else Decoded (take (unat (b_length tx)) (c_string mem @ [NUL])))"

definition JHI_GetAppletProperty :: "'w process \<Rightarrow> addr \<Rightarrow> string option \<Rightarrow> (DATA_BUFFER \<times> DATA_BUFFER) option \<Rightarrow>
    ('w, (JHI_RET \<times> uint32 option \<times> string) decoded) lib" where
  "JHI_GetAppletProperty p handle AppId pComm = do {
     v \<leftarrow> gets (ValidateJHIhandle handle);
     if \<not> v then ret (Refused JHI_INVALID_HANDLE)
     else (case (checked_app AppId, pComm) of
         (None, _) \<Rightarrow> ret (Refused JHI_INVALID_APPLET_GUID)
       | (Some app, None) \<Rightarrow> ret (Refused JHI_INVALID_COMM_BUFFER)
       | (Some app, Some (tx, rx)) \<Rightarrow>
           if comm_missing (tx, rx) then ret (Refused JHI_INVALID_COMM_BUFFER)
           else if b_length tx = 0 then ret (Refused JHI_APPLET_PROPERTY_NOT_SUPPORTED)
           else if unat (b_length tx) > JHI_BUFFER_MAX \<or> unat (b_length rx) > JHI_BUFFER_MAX
           then ret (Refused JHI_INVALID_BUFFER_SIZE)
           else do {
             t \<leftarrow> malloc (\<lambda>_ _. False);
             if t = None then ret (Refused JHI_INTERNAL_ERROR)
             else (case property_name tx of
                 Overread \<Rightarrow> ret Overread
               | Refused r \<Rightarrow> ret (Refused r)
               | Decoded name \<Rightarrow> do {
                   let hasBuffer = (b_length rx \<noteq> 0);
                   m \<leftarrow> (if hasBuffer then malloc (\<lambda>_ _. False) else ret (Some 1));
                   if m = None then ret (Refused JHI_INTERNAL_ERROR)
                   else do {
                     r \<leftarrow> on_svc (JhisGetAppletProperty (channel p) app name hasBuffer (b_length rx));
                     (case r of (code, bytes, len) \<Rightarrow>
                        let n = (case len of None \<Rightarrow> b_length rx | Some n \<Rightarrow> n) in
                        if code \<noteq> JHI_SUCCESS \<or> \<not> hasBuffer then ret (Decoded (code, len, []))
                        else if n > b_length rx then ret Overread
                        else ret (Decoded (code, len, c_string (chars (take (unat n) bytes)) @ [NUL]))) } }) }) }"

definition JHI_GetVersionInfo :: "'w process \<Rightarrow> addr \<Rightarrow> bool \<Rightarrow> ('w, JHI_RET \<times> byte list option) lib" where
  "JHI_GetVersionInfo p handle out = do {
     v \<leftarrow> gets (ValidateJHIhandle handle);
     if \<not> v then ret (JHI_INVALID_HANDLE, None)
     else if \<not> out then ret (JHI_INVALID_PARAMS, None)
     else on_svc (JhisGetVersionInfo (channel p)) }"

section \<open>Events\<close>

definition generateHandleUUID :: "('w, string option) lib" where
  "generateHandleUUID = do {
     u \<leftarrow> action (\<lambda>s. case new_uuids s of [] \<Rightarrow> ([], s) | u # us \<Rightarrow> (u, s\<lparr>new_uuids := us\<rparr>));
     m \<leftarrow> malloc (\<lambda>_ _. False);
     ret (if m = None then None else Some (''/tmp/jhievent-'' @ u)) }"

text \<open>The body of \<^verbatim>\<open>JHI_RegisterEvents\<close>, up to its clean-up.\<close>

definition drop_registration :: "addr \<Rightarrow> addr \<Rightarrow> addr \<Rightarrow> ('w, JHI_RET) lib" where
  "drop_registration h f e = do {
     delete_flag f;
     write_handle h (\<lambda>r. r\<lparr>h_flag := None\<rparr>);
     delete_event e;
     write_handle h (\<lambda>r. r\<lparr>h_event := None\<rparr>);
     ret JHI_INTERNAL_ERROR }"

definition start_listener :: "'w process \<Rightarrow> addr \<Rightarrow> nat \<Rightarrow> addr \<Rightarrow> addr \<Rightarrow> string \<Rightarrow> ('w, JHI_RET) lib" where
  "start_listener p h cb f e name = do {
     t \<leftarrow> malloc (\<lambda>_ _. False);
     if t = None then drop_registration h f e
     else do {
       write_handle h (\<lambda>r. r\<lparr>h_thread := True\<rparr>);
       r \<leftarrow> read_handle h;
       modify (\<lambda>s. s\<lparr>listeners := listeners s @ [\<lparr> l_session = h, l_event = e, l_flag = f, l_id = h_sessionID r,
         l_callback = cb \<rparr>]\<rparr>);
       on_svc (JhisSetSessionEventHandler (channel p) (h_sessionID r) name) } }"

definition register_event :: "'w process \<Rightarrow> addr \<Rightarrow> nat \<Rightarrow> addr \<Rightarrow> string \<Rightarrow> ('w, JHI_RET) lib" where
  "register_event p h cb f name = do {
     x \<leftarrow> malloc (\<lambda>s a. event_heap s a \<noteq> None);
     write_handle h (\<lambda>r. r\<lparr>h_event := x\<rparr>);
     (case x of
        None \<Rightarrow> do { delete_flag f; write_handle h (\<lambda>r. r\<lparr>h_flag := None\<rparr>); ret JHI_INTERNAL_ERROR }
      | Some e \<Rightarrow> do {
          modify (\<lambda>s. s\<lparr>event_heap := (event_heap s)(e := Some JhiEvent_init)\<rparr>);
          ok \<leftarrow> use_event e (\<lambda>x. JhiEvent_create x (Some name));
          if \<not> ok then drop_registration h f e
          else start_listener p h cb f e name }) }"

definition register_flag :: "'w process \<Rightarrow> addr \<Rightarrow> nat \<Rightarrow> ('w, JHI_RET) lib" where
  "register_flag p h cb = do {
     m \<leftarrow> malloc (\<lambda>s a. flag_heap s a \<noteq> None);
     write_handle h (\<lambda>r. r\<lparr>h_flag := m\<rparr>);
     (case m of
        None \<Rightarrow> ret JHI_INTERNAL_ERROR
      | Some f \<Rightarrow> do {
          modify (\<lambda>s. s\<lparr>flag_heap := (flag_heap s)(f := Some 0)\<rparr>);
          write_handle h (\<lambda>r. r\<lparr>h_callback := Some cb\<rparr>);
          n \<leftarrow> generateHandleUUID;
          (case n of
             None \<Rightarrow> do { delete_flag f; write_handle h (\<lambda>r. r\<lparr>h_flag := None\<rparr>); ret JHI_INTERNAL_ERROR }
           | Some name \<Rightarrow> register_event p h cb f name) }) }"

definition register_session :: "'w process \<Rightarrow> addr \<Rightarrow> nat \<Rightarrow> ('w, JHI_RET) lib" where
  "register_session p h cb = do {
     v \<leftarrow> gets (SessionHandleValid h);
     if \<not> v then ret JHI_INVALID_SESSION_HANDLE
     else do {
       r \<leftarrow> read_handle h;
       if sharedSession (h_flags r) then ret JHI_EVENTS_NOT_SUPPORTED
       else do {
         b \<leftarrow> event_created r;
         if b then ret JHI_SESSION_ALREADY_REGSITERED else register_flag p h cb } } }"

definition drop_dead_session :: "addr \<Rightarrow> ('w, unit) lib" where
  "drop_dead_session h = do {
     d \<leftarrow> removeSessionHandle h;
     if d then free_handle h else ret () }"

definition JHI_RegisterEvents :: "'w process \<Rightarrow> addr \<Rightarrow> addr \<Rightarrow> nat option \<Rightarrow> ('w, JHI_RET) lib" where
  "JHI_RegisterEvents p handle h pEventFunction = do {
     v \<leftarrow> gets (ValidateJHIhandle handle);
     if \<not> v then ret JHI_INVALID_HANDLE
     else (case pEventFunction of
         None \<Rightarrow> ret JHI_INVALID_PARAMS
       | Some cb \<Rightarrow> do {
           rc \<leftarrow> register_session p h cb;
           (if rc \<noteq> JHI_SUCCESS \<and> rc \<noteq> JHI_SESSION_ALREADY_REGSITERED then do {
              closeSessionEventThread h;
              if rc = JHI_INVALID_SESSION_HANDLE then drop_dead_session h else ret () }
            else ret ());
           ret rc }) }"

definition JHI_UnRegisterEvents :: "'w process \<Rightarrow> addr \<Rightarrow> addr \<Rightarrow> ('w, JHI_RET) lib" where
  "JHI_UnRegisterEvents p handle h = do {
     v \<leftarrow> gets (ValidateJHIhandle handle);
     if \<not> v then ret JHI_INVALID_HANDLE
     else do {
       ok \<leftarrow> gets (SessionHandleValid h);
       if \<not> ok then ret JHI_INVALID_SESSION_HANDLE
       else do {
         r \<leftarrow> read_handle h;
         if sharedSession (h_flags r) then ret JHI_EVENTS_NOT_SUPPORTED
         else do {
           b \<leftarrow> event_created r;
           if \<not> b then ret JHI_SESSION_NOT_REGISTERED
           else do {
             closeSessionEventThread h;
             rc \<leftarrow> on_svc (JhisSetSessionEventHandler (channel p) (h_sessionID r) []);
             (if rc = JHI_INVALID_SESSION_HANDLE then drop_dead_session h else ret ());
             ret rc } } } } }"

section \<open>Listener threads\<close>

text \<open>
  \<^verbatim>\<open>retriveEventData\<close> asks for at most \<open>n\<close> events here; the result is whether the loop came to its end.
  An event whose type the response did not assign has the type an unassigned byte holds.
\<close>

fun retriveEventData :: "'w process \<Rightarrow> nat \<Rightarrow> listener \<Rightarrow> ('w, bool) lib" where
  "retriveEventData p 0 l = ret False"
| "retriveEventData p (Suc n) l = do {
     stop \<leftarrow> read_flag (l_flag l);
     if stop \<noteq> 0 then ret True
     else do {
       r \<leftarrow> on_svc (JhisGetEventData (channel p) (l_id l));
       if fst r \<noteq> JHI_SUCCESS then ret True
       else do {
         modify (\<lambda>s. s\<lparr>callbacks := callbacks s @ [\<lparr> e_session = l_session l, e_callback = l_callback l,
           e_data = snd (snd r),
           e_type = (case fst (snd r) of None \<Rightarrow> stack_byte (channel p) | Some x \<Rightarrow> snd x) \<rparr>]\<rparr>);
         retriveEventData p n l } } }"

text \<open>The thread frees the flag and the event object when it ends.\<close>

definition finish_listener :: "listener \<Rightarrow> ('w, unit) lib" where
  "finish_listener l = do {
     delete_flag (l_flag l);
     use_event (l_event l) JhiEvent_close;
     delete_event (l_event l);
     modify (\<lambda>s. s\<lparr>listeners := remove1 l (listeners s)\<rparr>) }"

text \<open>
  One turn of the thread's loop, with at most \<open>n\<close> events; the result is whether the thread goes on.
  \<^verbatim>\<open>listenCl\<close> comes before the first turn, and a failure of it ends the thread.
\<close>

definition listener_turn :: "'w process \<Rightarrow> nat \<Rightarrow> listener \<Rightarrow> ('w, bool) lib" where
  "listener_turn p n l = do {
     stop \<leftarrow> read_flag (l_flag l);
     if stop \<noteq> 0 then do { finish_listener l; ret False }
     else do {
       w \<leftarrow> use_event (l_event l) JhiEvent_wait;
       (if w then do { retriveEventData p n l; ret () } else ret ());
       ret True } }"

fun listener_turns :: "'w process \<Rightarrow> nat \<Rightarrow> nat \<Rightarrow> listener \<Rightarrow> ('w, unit) lib" where
  "listener_turns p n 0 l = ret ()"
| "listener_turns p n (Suc k) l = do {
     go \<leftarrow> listener_turn p n l;
     if go then listener_turns p n k l else ret () }"

definition eventListenerThread :: "'w process \<Rightarrow> nat \<Rightarrow> nat \<Rightarrow> listener \<Rightarrow> ('w, unit) lib" where
  "eventListenerThread p n k l = do {
     ok \<leftarrow> use_event (l_event l) JhiEvent_listenCl;
     if \<not> ok then finish_listener l else listener_turns p n k l }"

end
