(* ===== verification/Client_Invariant.thy ===== *)
theory Client_Invariant
  imports Client_Library
begin

text \<open>
  The memory of the client library. In every state the public functions and the listener threads
  reach, the session handles in the list are exactly the ones allocated, a handle's event object is
  alive and shared with exactly one listener, and no freed object was used.
\<close>

section \<open>Runs on live objects\<close>

lemma run_on_svc [simp]: "run_state (on_svc m) s = (case run_state m (svc s) of (a, v) \<Rightarrow> (a, s\<lparr>svc := v\<rparr>))"
  by (simp add: on_svc_def)

lemma run_read_handle [simp]: "session_heap s h = Some r \<Longrightarrow> run_state (read_handle h) s = (r, s)"
  by (simp add: read_handle_def)

lemma run_write_handle [simp]:
  "session_heap s h = Some r \<Longrightarrow>
   run_state (write_handle h f) s = ((), s\<lparr>session_heap := (session_heap s)(h \<mapsto> f r)\<rparr>)"
  by (simp add: write_handle_def)

lemma run_free_handle [simp]:
  "session_heap s h = Some r \<Longrightarrow> run_state (free_handle h) s = ((), s\<lparr>session_heap := (session_heap s)(h := None)\<rparr>)"
  by (simp add: free_handle_def)

lemma run_read_event [simp]: "event_heap s e = Some x \<Longrightarrow> run_state (read_event e) s = (x, s)"
  by (simp add: read_event_def)

lemma run_use_event [simp]:
  "event_heap s e = Some x \<Longrightarrow> run_state (use_event e m) s =
   (case run_state (on_fsys (m x)) (svc s) of ((a, y), v) \<Rightarrow> (a, s\<lparr>svc := v, event_heap := (event_heap s)(e \<mapsto> y)\<rparr>))"
  by (simp add: use_event_def split: prod.splits)

lemma run_delete_event [simp]:
  "event_heap s e = Some x \<Longrightarrow> run_state (delete_event e) s =
   (case run_state (on_fsys (JhiEvent_clean x)) (svc s) of
      (y, v) \<Rightarrow> ((), s\<lparr>svc := v, event_heap := (event_heap s)(e := None)\<rparr>))"
  by (simp add: delete_event_def on_fsys_def split_beta)

lemma run_read_flag [simp]: "flag_heap s f = Some v \<Longrightarrow> run_state (read_flag f) s = (v, s)"
  by (simp add: read_flag_def)

lemma run_write_flag [simp]:
  "flag_heap s f = Some v \<Longrightarrow> run_state (write_flag f w) s = ((), s\<lparr>flag_heap := (flag_heap s)(f \<mapsto> w)\<rparr>)"
  by (simp add: write_flag_def)

lemma run_delete_flag [simp]:
  "flag_heap s f = Some v \<Longrightarrow> run_state (delete_flag f) s = ((), s\<lparr>flag_heap := (flag_heap s)(f := None)\<rparr>)"
  by (simp add: delete_flag_def)

lemma run_event_created [simp]:
  "h_event r = None \<Longrightarrow> run_state (event_created r) s = (False, s)"
  "h_event r = Some e \<Longrightarrow> event_heap s e = Some x \<Longrightarrow> run_state (event_created r) s = (is_created x, s)"
  by (simp_all add: event_created_def)

lemma run_malloc:
  "run_state (malloc used) s = (x, s') \<Longrightarrow>
   s' = s\<lparr>mallocs := tl (mallocs s)\<rparr> \<and> (\<forall>a. x = Some a \<longrightarrow> a \<noteq> 0 \<and> \<not> used s a)"
  by (auto simp: malloc_def split: list.splits option.splits if_splits)

section \<open>The invariant\<close>

text \<open>A session handle and its listener.\<close>

definition handle_ok :: "'w libjhi \<Rightarrow> addr \<Rightarrow> JHI_I_SESSION_HANDLE \<Rightarrow> bool" where
  "handle_ok s h r \<longleftrightarrow> (\<forall>e. h_event r = Some e \<longrightarrow>
     (\<exists>x. event_heap s e = Some x \<and> is_created x)
       \<and> (\<exists>l \<in> set (listeners s). l_event l = e \<and> l_session l = h \<and> h_flag r = Some (l_flag l)
            \<and> flag_heap s (l_flag l) = Some 0))"

definition lib_mem :: "'w libjhi \<Rightarrow> bool" where
  "lib_mem s \<longleftrightarrow> \<not> fault s
     \<and> (\<forall>h r. session_heap s h = Some r \<longrightarrow> handle_ok s h r)
     \<and> (\<forall>l \<in> set (listeners s). event_heap s (l_event l) \<noteq> None \<and> flag_heap s (l_flag l) \<noteq> None)
     \<and> distinct (map l_event (listeners s)) \<and> distinct (map l_flag (listeners s))"

definition lib_list :: "'w libjhi \<Rightarrow> bool" where
  "lib_list s \<longleftrightarrow> (case appHandle s of
     None \<Rightarrow> dom (session_heap s) = {}
   | Some a \<Rightarrow> a_address a \<noteq> 0 \<and> distinct (SessionsList a) \<and> 0 \<notin> set (SessionsList a)
       \<and> set (SessionsList a) = dom (session_heap s))"

definition lib_inv :: "'w libjhi \<Rightarrow> bool" where
  "lib_inv s \<longleftrightarrow> lib_mem s \<and> lib_list s"

lemma inv_other [simp]:
  "lib_mem (s\<lparr>svc := v\<rparr>) = lib_mem s" "lib_mem (s\<lparr>mallocs := m\<rparr>) = lib_mem s"
  "lib_mem (s\<lparr>new_uuids := u\<rparr>) = lib_mem s" "lib_mem (s\<lparr>callbacks := c\<rparr>) = lib_mem s"
  "lib_mem (s\<lparr>appHandle := a\<rparr>) = lib_mem s"
  "lib_list (s\<lparr>svc := v\<rparr>) = lib_list s" "lib_list (s\<lparr>mallocs := m\<rparr>) = lib_list s"
  "lib_list (s\<lparr>new_uuids := u\<rparr>) = lib_list s" "lib_list (s\<lparr>callbacks := c\<rparr>) = lib_list s"
  "lib_list (s\<lparr>flag_heap := fh\<rparr>) = lib_list s" "lib_list (s\<lparr>event_heap := eh\<rparr>) = lib_list s"
  "lib_list (s\<lparr>listeners := ls\<rparr>) = lib_list s"
  by (simp_all add: lib_mem_def lib_list_def handle_ok_def cong: option.case_cong)

lemma lib_memD:
  assumes "lib_mem s"
  shows "\<not> fault s" "session_heap s h = Some r \<Longrightarrow> handle_ok s h r"
    "l \<in> set (listeners s) \<Longrightarrow> event_heap s (l_event l) \<noteq> None"
    "l \<in> set (listeners s) \<Longrightarrow> flag_heap s (l_flag l) \<noteq> None"
  using assms by (auto simp: lib_mem_def)

lemma listener_unique:
  assumes "lib_mem s" "l \<in> set (listeners s)" "m \<in> set (listeners s)" "l_event l = l_event m \<or> l_flag l = l_flag m"
  shows "l = m"
  using assms by (auto simp: lib_mem_def distinct_map dest: inj_onD)

text \<open>A handle changed in its other fields, a new one, and one freed.\<close>

lemma mem_handle:
  assumes "lib_mem s" "h_event r' = None \<or> (\<exists>r. session_heap s h = Some r \<and> h_event r' = h_event r \<and> h_flag r' = h_flag r)"
  shows "lib_mem (s\<lparr>session_heap := (session_heap s)(h \<mapsto> r')\<rparr>)"
proof -
  have "handle_ok s h r'"
  proof (cases "h_event r' = None")
    case False
    then obtain r where "session_heap s h = Some r" "h_event r' = h_event r" "h_flag r' = h_flag r" using assms(2) by auto
    then show ?thesis using lib_memD(2) [OF assms(1)] by (simp add: handle_ok_def)
  qed (simp add: handle_ok_def)
  then show ?thesis using assms(1) by (auto simp: lib_mem_def handle_ok_def)
qed

lemma mem_free: "lib_mem s \<Longrightarrow> lib_mem (s\<lparr>session_heap := (session_heap s)(h := None)\<rparr>)"
  by (auto simp: lib_mem_def handle_ok_def)

text \<open>A flag or an event object that no listener has.\<close>

lemma mem_flag:
  assumes "lib_mem s" "f \<notin> l_flag ` set (listeners s)"
  shows "lib_mem (s\<lparr>flag_heap := (flag_heap s)(f := v)\<rparr>)"
proof -
  have "handle_ok (s\<lparr>flag_heap := (flag_heap s)(f := v)\<rparr>) h r" if "session_heap s h = Some r" for h r
    using lib_memD(2) [OF assms(1) that] assms(2) by (fastforce simp: handle_ok_def image_iff)
  then show ?thesis using assms by (auto simp: lib_mem_def image_iff)
qed

lemma mem_event:
  assumes "lib_mem s" "e \<notin> l_event ` set (listeners s)"
  shows "lib_mem (s\<lparr>event_heap := (event_heap s)(e := v)\<rparr>)"
proof -
  have "handle_ok (s\<lparr>event_heap := (event_heap s)(e := v)\<rparr>) h r" if "session_heap s h = Some r" for h r
    using lib_memD(2) [OF assms(1) that] assms(2) by (fastforce simp: handle_ok_def image_iff)
  then show ?thesis using assms by (auto simp: lib_mem_def image_iff)
qed

lemma valid_live:
  assumes "lib_list s" "SessionHandleValid h s"
  obtains r where "session_heap s h = Some r"
  using assms by (auto simp: lib_list_def SessionHandleValid_def split: option.splits if_splits)

lemma close_created: "snd (fst (run_state (JhiEvent_close x) f)) = y \<Longrightarrow> is_created x \<Longrightarrow> \<not> is_created y"
  by (auto simp: JhiEvent_close_def JhiEvent_clean_def Let_def split: prod.splits)

text \<open>
  \<^verbatim>\<open>closeSessionEventThread\<close> parts a handle from its listener: the handle has no event object any more, the
  listener's flag is set, and its event object is closed.
\<close>

lemma mem_part:
  assumes "lib_mem s" "session_heap s h = Some r" "h_event r = Some e" "h_flag r = Some f" "h_event r' = None"
  shows "lib_mem (s\<lparr>flag_heap := (flag_heap s)(f \<mapsto> v), svc := w, event_heap := (event_heap s)(e \<mapsto> x),
    session_heap := (session_heap s)(h \<mapsto> r')\<rparr>)"
proof -
  obtain l where l: "l \<in> set (listeners s)" "l_event l = e" "l_session l = h" "l_flag l = f"
    using lib_memD(2) [OF assms(1,2)] assms(3,4) by (auto simp: handle_ok_def)
  have "handle_ok (s\<lparr>flag_heap := (flag_heap s)(f \<mapsto> v), svc := w, event_heap := (event_heap s)(e \<mapsto> x), session_heap := S\<rparr>) k q"
    if "session_heap s k = Some q" "k \<noteq> h" for k q S
  proof -
    have "l_flag m \<noteq> f \<and> l_event m \<noteq> e" if "m \<in> set (listeners s)" "l_session m = k" for m
      using listener_unique [OF assms(1) that(1) l(1)] l that(2) \<open>k \<noteq> h\<close> by auto
    then show ?thesis using lib_memD(2) [OF assms(1) that(1)] by (fastforce simp: handle_ok_def)
  qed
  then show ?thesis
    using assms(1,5) by (auto simp: lib_mem_def) (auto simp: handle_ok_def)
qed

lemma run_closeSessionEventThread:
  assumes "lib_mem s" "SessionHandleValid h s" "session_heap s h = Some r"
    "run_state (closeSessionEventThread h) s = (u, s')"
  shows "lib_mem s'" "appHandle s' = appHandle s"
    "\<exists>r'. session_heap s' = (session_heap s)(h \<mapsto> r') \<and> h_event r' = None \<and> h_sessionID r' = h_sessionID r"
proof -
  let ?q = "if h_thread r then r\<lparr>h_callback := None, h_thread := False\<rparr> else r\<lparr>h_callback := None\<rparr>"
  have goal: "lib_mem s' \<and> appHandle s' = appHandle s
    \<and> (\<exists>r'. session_heap s' = (session_heap s)(h \<mapsto> r') \<and> h_event r' = None \<and> h_sessionID r' = h_sessionID r)"
  proof (cases "h_event r")
    case None
    then have "s' = s\<lparr>session_heap := (session_heap s)(h \<mapsto> ?q)\<rparr>"
      using assms(2-4) by (auto simp: closeSessionEventThread_def split: if_splits)
    then show ?thesis using mem_handle [OF assms(1), of ?q h] None by auto
  next
    case (Some e)
    then obtain x l where x: "event_heap s e = Some x" "is_created x" and
      l: "l \<in> set (listeners s)" "l_event l = e" "h_flag r = Some (l_flag l)" "flag_heap s (l_flag l) = Some 0"
      using lib_memD(2) [OF assms(1) assms(3)] by (auto simp: handle_ok_def)
    obtain b y v where c: "run_state (on_fsys (JhiEvent_close x)) (svc s) = ((b, y), v)" by (metis prod.exhaust)
    let ?q = "if h_thread r then r\<lparr>h_callback := None, h_event := None, h_thread := False\<rparr>
      else r\<lparr>h_callback := None, h_event := None\<rparr>"
    have "s' = s\<lparr>flag_heap := (flag_heap s)(l_flag l \<mapsto> 1), svc := v, event_heap := (event_heap s)(e \<mapsto> y),
        session_heap := (session_heap s)(h \<mapsto> ?q)\<rparr>"
      using assms(2-4) Some x l c by (auto simp: closeSessionEventThread_def split: if_splits)
    then show ?thesis using mem_part [OF assms(1) assms(3) Some l(3), where r' = ?q and v = 1 and w = v and x = y] by auto
  qed
  then show "lib_mem s'" "appHandle s' = appHandle s"
    "\<exists>r'. session_heap s' = (session_heap s)(h \<mapsto> r') \<and> h_event r' = None \<and> h_sessionID r' = h_sessionID r"
    by blast+
qed

lemma inv_other_svc [simp]:
  "lib_inv (s\<lparr>svc := v\<rparr>) = lib_inv s" "lib_inv (s\<lparr>mallocs := m\<rparr>) = lib_inv s"
  "lib_inv (s\<lparr>new_uuids := u\<rparr>) = lib_inv s" "lib_inv (s\<lparr>callbacks := c\<rparr>) = lib_inv s"
  by (simp_all add: lib_inv_def)

lemma pres_on_svc [pres_intros]: "preserves lib_inv (on_svc m)"
  unfolding on_svc_def by (rule preserves_zoom) simp

lemma pres_malloc [pres_intros]: "preserves lib_inv (malloc used)"
  by (rule preservesI) (use run_malloc in fastforce)

text \<open>A handle taken out of the list and freed.\<close>

lemma inv_drop:
  assumes "lib_inv s" "session_heap s h = Some r" "appHandle s = Some a"
  shows "lib_inv (s\<lparr>appHandle := Some (a\<lparr>SessionsList := removeAll h (SessionsList a)\<rparr>),
    session_heap := (session_heap s)(h := None)\<rparr>)"
proof -
  have "lib_mem (s\<lparr>session_heap := (session_heap s)(h := None)\<rparr>)" using assms(1) mem_free [of s h] by (simp add: lib_inv_def)
  then have "lib_mem (s\<lparr>appHandle := Some (a\<lparr>SessionsList := removeAll h (SessionsList a)\<rparr>),
      session_heap := (session_heap s)(h := None)\<rparr>)"
    by (simp add: lib_mem_def handle_ok_def)
  moreover have "lib_list (s\<lparr>appHandle := Some (a\<lparr>SessionsList := removeAll h (SessionsList a)\<rparr>),
      session_heap := (session_heap s)(h := None)\<rparr>)"
    using assms by (auto simp: lib_inv_def lib_list_def distinct_removeAll)
  ultimately show ?thesis by (simp add: lib_inv_def)
qed

lemma run_drop:
  assumes "lib_inv s" "SessionHandleValid h s" "run_state (removeSessionHandle h) s = (d, s1)"
  shows "d" "run_state (free_handle h) s1 = (u, s2) \<Longrightarrow> lib_inv s2 \<and> session_heap s2 h = None"
proof -
  obtain a r where a: "appHandle s = Some a" "session_heap s h = Some r"
    using assms(1,2) valid_live [of s h] by (auto simp: lib_inv_def SessionHandleValid_def split: option.splits)
  then have s1: "s1 = s\<lparr>appHandle := Some (a\<lparr>SessionsList := removeAll h (SessionsList a)\<rparr>)\<rparr>" "d"
    using assms(2,3) by (auto simp: removeSessionHandle_def)
  then show "d" by simp
  assume "run_state (free_handle h) s1 = (u, s2)"
  then have "s2 = s\<lparr>appHandle := Some (a\<lparr>SessionsList := removeAll h (SessionsList a)\<rparr>),
      session_heap := (session_heap s)(h := None)\<rparr>"
    using a s1 by simp
  then show "lib_inv s2 \<and> session_heap s2 h = None" using inv_drop [OF assms(1) a(2,1)] by simp
qed

lemma drop_dead_inv [pres_intros]: "preserves lib_inv (drop_dead_session h)"
proof (rule preservesI)
  fix s s' :: "'w libjhi" and u
  assume s: "lib_inv s" "run_state (drop_dead_session h) s = (u, s')"
  show "lib_inv s'"
  proof (cases "SessionHandleValid h s")
    case True
    obtain d s1 where d: "run_state (removeSessionHandle h) s = (d, s1)" by (metis prod.exhaust)
    then show ?thesis using s(2) run_drop [OF s(1) True d] by (simp add: drop_dead_session_def)
  qed (use s in \<open>auto simp: drop_dead_session_def removeSessionHandle_def\<close>)
qed

lemma close_thread_inv [pres_intros]: "preserves lib_inv (closeSessionEventThread h)"
proof (rule preservesI)
  fix s s' :: "'w libjhi" and u
  assume s: "lib_inv s" "run_state (closeSessionEventThread h) s = (u, s')"
  show "lib_inv s'"
  proof (cases "SessionHandleValid h s")
    case True
    then obtain r where "session_heap s h = Some r" using s(1) valid_live by (auto simp: lib_inv_def)
    moreover have "lib_mem s" "lib_list s" using s(1) by (simp_all add: lib_inv_def)
    ultimately show ?thesis
      using run_closeSessionEventThread [OF _ True _ s(2)] by (auto simp: lib_inv_def lib_list_def split: option.splits)
  qed (use s in \<open>auto simp: closeSessionEventThread_def\<close>)
qed

text \<open>Reading through a valid handle changes nothing.\<close>

lemma pres_valid:
  assumes "\<And>r. spec (\<lambda>s. lib_inv s \<and> SessionHandleValid h s \<and> session_heap s h = Some r) (k r) (\<lambda>_. lib_inv)"
  shows "spec (\<lambda>s. lib_inv s \<and> SessionHandleValid h s) (read_handle h \<bind> k) (\<lambda>_. lib_inv)"
  unfolding spec_def
proof (intro allI impI)
  fix s :: "'a libjhi"
  assume s: "lib_inv s \<and> SessionHandleValid h s"
  then obtain r where "session_heap s h = Some r" using valid_live by (auto simp: lib_inv_def)
  then show "lib_inv (snd (run_state (read_handle h \<bind> k) s))"
    using s assms [of r] by (simp add: spec_def)
qed

lemma spec_event_created:
  assumes "\<And>b. spec (\<lambda>s. lib_inv s \<and> SessionHandleValid h s \<and> session_heap s h = Some r \<and> b = (h_event r \<noteq> None)) (k b) (\<lambda>_. lib_inv)"
  shows "spec (\<lambda>s. lib_inv s \<and> SessionHandleValid h s \<and> session_heap s h = Some r) (event_created r \<bind> k) (\<lambda>_. lib_inv)"
  unfolding spec_def
proof (intro allI impI)
  fix s :: "'a libjhi"
  assume s: "lib_inv s \<and> SessionHandleValid h s \<and> session_heap s h = Some r"
  then have "handle_ok s h r" using lib_memD(2) by (auto simp: lib_inv_def)
  then have "run_state (event_created r) s = (h_event r \<noteq> None, s)"
    by (cases "h_event r") (auto simp: handle_ok_def)
  then show "lib_inv (snd (run_state (event_created r \<bind> k) s))"
    using s assms [of "h_event r \<noteq> None"] by (simp add: spec_def)
qed

lemma pres_if_valid:
  assumes "preserves lib_inv m"
    and "\<And>r. spec (\<lambda>s. lib_inv s \<and> SessionHandleValid h s \<and> session_heap s h = Some r) (k r) (\<lambda>_. lib_inv)"
  shows "preserves lib_inv (gets (SessionHandleValid h) \<bind> (\<lambda>v. if \<not> v then m else read_handle h \<bind> k))"
proof (rule preserves_gets_bind)
  fix v
  show "spec (\<lambda>s. lib_inv s \<and> SessionHandleValid h s = v) (if \<not> v then m else read_handle h \<bind> k) (\<lambda>_. lib_inv)"
    using pres_valid [OF assms(2)] preserves_spec [OF assms(1)] by (cases v) (simp_all add: spec_def)
qed

lemma drop_pres [pres_intros]:
  "preserves lib_inv (removeSessionHandle h \<bind> (\<lambda>d. if d then free_handle h \<bind> (\<lambda>_. ret x) else ret y))"
proof (rule preservesI)
  fix s s' a
  assume s: "lib_inv s" "run_state (removeSessionHandle h \<bind> (\<lambda>d. if d then free_handle h \<bind> (\<lambda>_. ret x) else ret y)) s = (a, s')"
  show "lib_inv s'"
  proof (cases "SessionHandleValid h s")
    case True
    obtain d s1 where d: "run_state (removeSessionHandle h) s = (d, s1)" by (metis prod.exhaust)
    obtain s2 where f: "run_state (free_handle h) s1 = ((), s2)" by (metis prod.exhaust old.unit.exhaust)
    show ?thesis using s(2) run_drop(1) [OF s(1) True d] run_drop(2) [OF s(1) True d f] d f by simp
  qed (use s in \<open>auto simp: removeSessionHandle_def\<close>)
qed

lemma getSessionID_frame:
  "lib_inv s \<Longrightarrow> run_state (getSessionID h) s = (x, s') \<Longrightarrow>
   s' = s \<and> (x = None \<longleftrightarrow> \<not> SessionHandleValid h s)"
  by (cases "SessionHandleValid h s") (auto simp: getSessionID_def lib_inv_def elim!: valid_live [of s h])

lemma getSessionID_inv [pres_intros]: "preserves lib_inv (getSessionID h)"
  by (rule preservesI) (use getSessionID_frame in fastforce)

text \<open>The steps of a function that checks its handles, in the order in which they apply.\<close>

lemmas checked_steps = preserves_ret pres_if_valid spec_event_created pres_on_svc preserves_if preserves_case_option
  preserves_case_prod preserves_bind preserves_gets

lemma close_session_inv [pres_intros]: "preserves lib_inv (JHI_CloseSessionInternal p handle h force)"
  unfolding JHI_CloseSessionInternal_def close_at_service_def Let_def
  by (rule checked_steps | (rule preserves_spec, (intro pres_intros)[1], simp))+

lemma preserves_case_decoded [pres_intros]:
  "preserves I m \<Longrightarrow> (\<And>r. preserves I (g r)) \<Longrightarrow> (\<And>a. preserves I (f a)) \<Longrightarrow>
   preserves I (case d of Overread \<Rightarrow> m | Refused r \<Rightarrow> g r | Decoded a \<Rightarrow> f a)"
  by (cases d) auto

lemma session_call_inv [pres_intros]:
  "preserves lib_inv (JHI_CloseSession p handle h)" "preserves lib_inv (JHI_ForceCloseSession p handle h)"
  "preserves lib_inv (JHI_SendAndRecv2 p handle x cid comm)" "preserves lib_inv (JHI_GetSessionInfo p handle x out)"
  unfolding JHI_CloseSession_def JHI_ForceCloseSession_def JHI_SendAndRecv2_def JHI_GetSessionInfo_def
  by (intro pres_intros)+

lemma applet_call_inv [pres_intros]:
  "preserves lib_inv (JHI_Install2 p handle app f)" "preserves lib_inv (JHI_Uninstall p handle app)"
  "preserves lib_inv (JHI_GetSessionsCount p handle app out)" "preserves lib_inv (JHI_GetVersionInfo p handle out)"
  "preserves lib_inv (JHI_GetAppletProperty p handle app comm)"
  unfolding JHI_Install2_def JHI_Uninstall_def JHI_GetSessionsCount_def JHI_GetVersionInfo_def
    JHI_GetAppletProperty_def Let_def
  by (intro pres_intros)+

lemma unregister_inv [pres_intros]: "preserves lib_inv (JHI_UnRegisterEvents p handle h)"
  unfolding JHI_UnRegisterEvents_def
  by (rule checked_steps spec_if spec_ret | simp | (rule preserves_spec, (intro pres_intros)[1], simp))+

text \<open>Opening and closing the library.\<close>

lemma inv_count: "appHandle s = Some a \<Longrightarrow> lib_inv (s\<lparr>appHandle := Some (a\<lparr>ReferenceCount := n\<rparr>)\<rparr>) = lib_inv s"
  by (simp add: lib_inv_def lib_list_def)

lemma initialize_inv [pres_intros]: "preserves lib_inv (JHI_Initialize p out)"
proof (rule preservesI)
  fix s s' x
  assume s: "lib_inv s" "run_state (JHI_Initialize p out) s = (x, s')"
  show "lib_inv s'"
  proof (cases "appHandle s")
    case (Some a)
    then show ?thesis using s by (auto simp: JHI_Initialize_def inv_count split: if_splits)
  next
    case None
    obtain rc v where j: "run_state (JhisInit (channel p)) (svc s) = (rc, v)" by (metis prod.exhaust)
    obtain m s2 where m: "run_state (malloc (\<lambda>_ _. False)) (s\<lparr>svc := v\<rparr>) = (m, s2)" by (metis prod.exhaust)
    obtain l s3 where l: "run_state (malloc (\<lambda>_ _. False)) s2 = (l, s3)" by (metis prod.exhaust)
    have "lib_inv s2" "lib_inv s3" "appHandle s3 = None" "m \<noteq> Some 0"
      using s(1) None run_malloc [OF m] run_malloc [OF l] by auto
    then show ?thesis
      using s None j m l
      by (auto simp: JHI_Initialize_def lib_inv_def lib_list_def split: if_splits option.splits prod.splits)
  qed
qed

lemma clear_entry_run:
  assumes "lib_mem s" "appHandle s = Some a" "h \<in> set (SessionsList a)" "h \<noteq> 0" "session_heap s h = Some r"
    "run_state (clear_entry h) s = (u, s')"
  shows "lib_mem s'" "appHandle s' = Some (a\<lparr>SessionsList := map (\<lambda>x. if x = h then 0 else x) (SessionsList a)\<rparr>)"
    "session_heap s' = (session_heap s)(h := None)"
proof -
  have v: "SessionHandleValid h s" using assms(2-4) by (simp add: SessionHandleValid_def)
  have e: "run_state (event_created r) s = (h_event r \<noteq> None, s)"
    using lib_memD(2) [OF assms(1,5)] by (cases "h_event r") (auto simp: handle_ok_def)
  obtain s1 where s1: "run_state (if h_event r \<noteq> None then closeSessionEventThread h else ret ()) s = ((), s1)"
    by (metis prod.exhaust old.unit.exhaust)
  then have "lib_mem s1 \<and> appHandle s1 = appHandle s \<and> (\<exists>q. session_heap s1 = (session_heap s)(h \<mapsto> q))"
    using run_closeSessionEventThread [OF assms(1) v assms(5), of "()" s1] assms(1,5)
    by (cases "h_event r") (simp add: exI [of _ r] fun_upd_idem, auto)
  then obtain q where q: "lib_mem s1" "appHandle s1 = Some a" "session_heap s1 = (session_heap s)(h \<mapsto> q)"
    using assms(2) by auto
  have "s' = s1\<lparr>session_heap := (session_heap s)(h := None),
      appHandle := Some (a\<lparr>SessionsList := map (\<lambda>x. if x = h then 0 else x) (SessionsList a)\<rparr>)\<rparr>"
    using assms(5,6) e s1 q by (auto simp: clear_entry_def)
  moreover have "lib_mem (s1\<lparr>session_heap := (session_heap s1)(h := None)\<rparr>)" using q(1) by (rule mem_free)
  ultimately show "lib_mem s'" "session_heap s' = (session_heap s)(h := None)"
    "appHandle s' = Some (a\<lparr>SessionsList := map (\<lambda>x. if x = h then 0 else x) (SessionsList a)\<rparr>)"
    using q(3) by simp_all
qed

lemma clear_all_run:
  assumes "lib_mem s" "appHandle s = Some a" "distinct hs" "set hs \<subseteq> set (SessionsList a)" "0 \<notin> set hs"
    "dom (session_heap s) = set hs" "run_state (for_each clear_entry hs) s = (u, s')"
  shows "lib_mem s' \<and> dom (session_heap s') = {}"
  using assms
proof (induction hs arbitrary: s a)
  case (Cons h hs)
  obtain r where r: "session_heap s h = Some r" using Cons.prems(6) by auto
  obtain s1 where s1: "run_state (clear_entry h) s = ((), s1)" by (metis prod.exhaust old.unit.exhaust)
  have "h \<in> set (SessionsList a)" "h \<noteq> 0" using Cons.prems(4,5) by auto
  note c = clear_entry_run [OF Cons.prems(1,2) this r s1]
  show ?case
  proof (rule Cons.IH [OF c(1,2)])
    show "set hs \<subseteq> set (SessionsList (a\<lparr>SessionsList := map (\<lambda>x. if x = h then 0 else x) (SessionsList a)\<rparr>))"
      using Cons.prems(3,4) by force
    show "dom (session_heap s1) = set hs" using Cons.prems(3,6) c(3) by auto
    show "run_state (for_each clear_entry hs) s1 = (u, s')" using Cons.prems(7) s1 by simp
  qed (use Cons.prems in auto)
qed simp

lemma deinit_inv [pres_intros]: "preserves lib_inv (JHI_Deinit handle)"
proof (rule preservesI)
  fix s s' x
  assume s: "lib_inv s" "run_state (JHI_Deinit handle) s = (x, s')"
  show "lib_inv s'"
  proof (cases "appHandle s")
    case (Some a)
    let ?s1 = "s\<lparr>appHandle := Some (a\<lparr>ReferenceCount := ReferenceCount a - 1\<rparr>)\<rparr>"
    obtain s2 where s2: "run_state (for_each clear_entry (SessionsList a)) ?s1 = ((), s2)"
      by (metis prod.exhaust old.unit.exhaust)
    have "lib_inv ?s1" using s(1) Some inv_count by blast
    then have "lib_mem s2 \<and> dom (session_heap s2) = {}"
      using clear_all_run [OF _ _ _ _ _ _ s2, of "a\<lparr>ReferenceCount := ReferenceCount a - 1\<rparr>"]
      by (auto simp: lib_inv_def lib_list_def)
    then have "lib_inv (s2\<lparr>appHandle := None\<rparr>)" by (simp add: lib_inv_def lib_list_def)
    then show ?thesis using s Some s2 \<open>lib_inv ?s1\<close> by (auto simp: JHI_Deinit_def split: if_splits)
  next
    case None
    then have "\<not> ValidateJHIhandle handle s" by (simp add: ValidateJHIhandle_def)
    then show ?thesis using s by (simp add: JHI_Deinit_def)
  qed
qed

text \<open>A new handle: it is allocated, filled in, and put into the list or freed.\<close>

lemma mem_new: "lib_mem s \<Longrightarrow> h_event r = None \<Longrightarrow> lib_mem (s\<lparr>session_heap := (session_heap s)(h \<mapsto> r)\<rparr>)"
  using mem_handle by blast

lemma dead_handle_event [simp]: "h_event dead_handle = None" "h_event (dead_handle\<lparr>h_sessionID := i, h_flags := f\<rparr>) = None"
  by (simp_all add: dead_handle_def)

lemma request_session_inv:
  assumes run: "run_state (request_session p h app flags buf a) (s\<lparr>session_heap := (session_heap s)(h \<mapsto> r)\<rparr>) = (x, s')"
    and "lib_inv s" "appHandle s = Some a" "session_heap s h = None" "0 < h" "h_event r = None"
  shows "lib_inv s'"
proof -
  obtain rc i v where j: "run_state (JhisCreateSession (channel p) app flags (buffer_bytes buf) (a_process a)) (svc s) = ((rc, i), v)"
    by (metis prod.exhaust)
  let ?r = "case i of None \<Rightarrow> r\<lparr>h_process := a_process a\<rparr> | Some k \<Rightarrow> r\<lparr>h_process := a_process a, h_sessionID := k\<rparr>"
  have e: "s' = (if rc \<noteq> JHI_SUCCESS then s\<lparr>svc := v, session_heap := (session_heap s)(h := None)\<rparr>
      else s\<lparr>svc := v, session_heap := (session_heap s)(h \<mapsto> ?r), appHandle := Some (a\<lparr>SessionsList := SessionsList a @ [h]\<rparr>)\<rparr>)"
    using assms(3-5) run j
    by (cases i) (auto simp: request_session_def addSessionHandle_def split: if_splits)
  have "h \<notin> set (SessionsList a)" using assms(2-4) by (auto simp: lib_inv_def lib_list_def)
  moreover have "lib_mem (s\<lparr>svc := v, session_heap := (session_heap s)(h \<mapsto> ?r)\<rparr>)"
    using assms(2,6) mem_new [of "s\<lparr>svc := v\<rparr>" ?r h] by (simp add: lib_inv_def split: option.splits)
  moreover have "(session_heap s)(h := None) = session_heap s" using assms(4) by (simp add: fun_upd_idem)
  ultimately show ?thesis using e assms(2-5) by (auto simp: lib_inv_def lib_list_def)
qed

lemma client_create_inv [pres_intros]: "preserves lib_inv (JHI_CreateSession p handle app flags buf out)"
proof (rule preservesI)
  fix s s' x
  assume s: "lib_inv s" "run_state (JHI_CreateSession p handle app flags buf out) s = (x, s')"
  obtain m s1 where m: "run_state (malloc (\<lambda>s a. session_heap s a \<noteq> None)) s = (m, s1)" by (metis prod.exhaust)
  have s1: "s1 = s\<lparr>mallocs := tl (mallocs s)\<rparr>" "\<And>h. m = Some h \<Longrightarrow> h \<noteq> 0 \<and> session_heap s h = None"
    using run_malloc [OF m] by auto
  have inv: "lib_inv s1" using s(1) s1(1) by simp
  show "lib_inv s'"
  proof (cases "appHandle s")
    case None
    then have "\<not> ValidateJHIhandle handle s" by (simp add: ValidateJHIhandle_def)
    then show ?thesis using s by (simp add: JHI_CreateSession_def)
  next
    case (Some a)
    then have "appHandle s1 = Some a" "\<And>h. m = Some h \<Longrightarrow> h \<noteq> 0 \<and> session_heap s1 h = None" using s1 by auto
    then show ?thesis
      using s inv m
      by (auto simp: JHI_CreateSession_def new_handle_def Let_def intro: request_session_inv
          split: if_splits option.splits)
  qed
qed

section \<open>Registration\<close>

text \<open>
  While a registration is under way the session handle \<open>h\<close> has the flag \<open>f\<close> and the event object \<open>e\<close>,
  but no listener has them yet; everything else is as the invariant says.
\<close>

definition without :: "addr \<Rightarrow> addr \<Rightarrow> addr \<Rightarrow> 'w libjhi \<Rightarrow> 'w libjhi" where
  "without h f e s = s\<lparr>session_heap := (session_heap s)(h := None), flag_heap := (flag_heap s)(f := None),
     event_heap := (event_heap s)(e := None)\<rparr>"

definition registering :: "addr \<Rightarrow> addr \<Rightarrow> addr \<Rightarrow> 'w libjhi \<Rightarrow> bool" where
  "registering h f e s \<longleftrightarrow> lib_mem (without h f e s) \<and> lib_list s
     \<and> (\<exists>r. session_heap s h = Some r \<and> h_event r = Some e \<and> h_flag r = Some f)
     \<and> flag_heap s f = Some 0 \<and> event_heap s e \<noteq> None"

lemma registering_other [simp]:
  "registering h f e (s\<lparr>svc := v\<rparr>) = registering h f e s" "registering h f e (s\<lparr>mallocs := m\<rparr>) = registering h f e s"
  by (simp_all add: registering_def without_def lib_mem_def handle_ok_def)

lemma registering_event:
  "registering h f e s \<Longrightarrow> registering h f e (s\<lparr>event_heap := (event_heap s)(e \<mapsto> x)\<rparr>)"
  by (simp add: registering_def without_def lib_mem_def handle_ok_def)

lemma registering_thread:
  "registering h f e s \<Longrightarrow> session_heap s h = Some r \<Longrightarrow> registering h f e (s\<lparr>session_heap := (session_heap s)(h \<mapsto> r\<lparr>h_thread := b\<rparr>)\<rparr>)"
  by (auto simp: registering_def without_def lib_mem_def handle_ok_def lib_list_def split: option.splits)

lemma without_free:
  assumes "lib_mem (without h f e s)" "l \<in> set (listeners s)"
  shows "l_flag l \<noteq> f" "l_event l \<noteq> e" "flag_heap s (l_flag l) \<noteq> None" "event_heap s (l_event l) \<noteq> None"
  using lib_memD(3,4) [OF assms(1), of l] assms(2) by (auto simp: without_def split: if_splits)

lemma without_handle:
  assumes "lib_mem (without h f e s)" "session_heap s k = Some q" "k \<noteq> h" "h_event q = Some d"
  obtains x l where "d \<noteq> e" "event_heap s d = Some x" "is_created x" "l \<in> set (listeners s)" "l_event l = d" "l_session l = k"
    "h_flag q = Some (l_flag l)" "l_flag l \<noteq> f" "flag_heap s (l_flag l) = Some 0"
  using lib_memD(2) [OF assms(1), of k q] assms(2-4) that by (auto simp: without_def handle_ok_def split: if_splits)

lemma drop_registration_inv:
  assumes "registering h f e s" "run_state (drop_registration h f e) s = (x, s')"
  shows "lib_inv s'"
proof -
  obtain r y where r: "session_heap s h = Some r" "event_heap s e = Some y" "flag_heap s f = Some 0" "lib_list s"
    and m: "lib_mem (without h f e s)"
    using assms(1) by (auto simp: registering_def)
  obtain b v where b: "run_state (on_fsys (JhiEvent_clean y)) (svc s) = (b, v)" by (metis prod.exhaust)
  let ?q = "r\<lparr>h_flag := None, h_event := None\<rparr>"
  have e: "s' = s\<lparr>flag_heap := (flag_heap s)(f := None), svc := v, event_heap := (event_heap s)(e := None),
      session_heap := (session_heap s)(h \<mapsto> ?q)\<rparr>"
    using assms(2) r b by (simp add: drop_registration_def)
  have "lib_mem ((without h f e s)\<lparr>session_heap := (session_heap (without h f e s))(h \<mapsto> ?q)\<rparr>)"
    using m by (intro mem_new) simp_all
  then have "lib_mem s'" unfolding e by (simp add: without_def lib_mem_def handle_ok_def)
  moreover have "lib_list s'" unfolding e using r by (auto simp: lib_list_def split: option.splits)
  ultimately show ?thesis by (simp add: lib_inv_def)
qed

lemma inv_listener:
  assumes "registering h f e s" "event_heap s e = Some y" "is_created y" "l_session l = h" "l_flag l = f" "l_event l = e"
  shows "lib_inv (s\<lparr>listeners := listeners s @ [l]\<rparr>)"
proof -
  obtain r where r: "session_heap s h = Some r" "h_event r = Some e" "h_flag r = Some f" "flag_heap s f = Some 0" "lib_list s"
    and m: "lib_mem (without h f e s)"
    using assms(1) by (auto simp: registering_def)
  have "handle_ok (s\<lparr>listeners := listeners s @ [l]\<rparr>) k q" if "session_heap s k = Some q" for k q
  proof (cases "k = h")
    case True
    then show ?thesis using that r assms(2-6) by (auto simp: handle_ok_def)
  next
    case False
    then show ?thesis using that without_handle [OF m that False] by (fastforce simp: handle_ok_def)
  qed
  moreover have "\<not> fault s" "distinct (map l_event (listeners s))" "distinct (map l_flag (listeners s))"
    using m by (auto simp: lib_mem_def without_def)
  moreover have "e \<notin> l_event ` set (listeners s)" "f \<notin> l_flag ` set (listeners s)"
    using without_free(1,2) [OF m] by blast+
  ultimately have "lib_mem (s\<lparr>listeners := listeners s @ [l]\<rparr>)"
    using without_free(3,4) [OF m] assms(2,5,6) r(4) by (auto simp: lib_mem_def)
  then show ?thesis using r(5) by (simp add: lib_inv_def)
qed

lemma start_listener_inv:
  assumes "registering h f e s" "event_heap s e = Some y" "is_created y" "run_state (start_listener p h cb f e name) s = (x, s')"
  shows "lib_inv s'"
proof -
  obtain t s1 where t: "run_state (malloc (\<lambda>_ _. False)) s = (t, s1)" by (metis prod.exhaust)
  have s1: "s1 = s\<lparr>mallocs := tl (mallocs s)\<rparr>" using run_malloc [OF t] by simp
  obtain r where r: "session_heap s1 h = Some r" using assms(1) s1 by (auto simp: registering_def)
  have reg: "registering h f e s1" using assms(1) s1 by simp
  show ?thesis
  proof (cases t)
    case None
    then show ?thesis using assms(4) t drop_registration_inv [OF reg] by (simp add: start_listener_def)
  next
    case (Some a)
    let ?s2 = "s1\<lparr>session_heap := (session_heap s1)(h \<mapsto> r\<lparr>h_thread := True\<rparr>)\<rparr>"
    let ?l = "\<lparr> l_session = h, l_event = e, l_flag = f, l_id = h_sessionID r, l_callback = cb \<rparr>"
    obtain v where "s' = ?s2\<lparr>listeners := listeners ?s2 @ [?l], svc := v\<rparr>"
      using assms(4) t Some r by (auto simp: start_listener_def split: prod.splits)
    moreover have "lib_inv (?s2\<lparr>listeners := listeners ?s2 @ [?l]\<rparr>)"
      using registering_thread [OF reg r] assms(2,3) s1 by (intro inv_listener) auto
    ultimately show ?thesis by simp
  qed
qed

lemma create_created:
  "run_state (on_fsys (JhiEvent_create x n)) v = ((ok, y), v') \<Longrightarrow> ok \<Longrightarrow> is_created y"
  by (auto simp: on_fsys_def JhiEvent_create_def JhiEvent_open_create_def Let_def
      split: prod.splits option.splits if_splits)

lemma not_listened:
  assumes "lib_mem s"
  shows "flag_heap s f = None \<Longrightarrow> f \<notin> l_flag ` set (listeners s)" "event_heap s e = None \<Longrightarrow> e \<notin> l_event ` set (listeners s)"
  using lib_memD(3,4) [OF assms] by fastforce+

text \<open>The event object of a registration: from a handle that has a flag of its own.\<close>

lemma registering_start:
  assumes "lib_inv s" "session_heap s h = Some r" "flag_heap s f = Some 0" "f \<notin> l_flag ` set (listeners s)"
    "h_flag r = Some f" "event_heap s e = None"
  shows "registering h f e (s\<lparr>session_heap := (session_heap s)(h \<mapsto> r\<lparr>h_event := Some e\<rparr>),
    event_heap := (event_heap s)(e \<mapsto> x)\<rparr>)"
proof -
  have m: "lib_mem s" "lib_list s" using assms(1) by (simp_all add: lib_inv_def)
  have "lib_mem (s\<lparr>session_heap := (session_heap s)(h := None), flag_heap := (flag_heap s)(f := None)\<rparr>)"
    using mem_flag [OF mem_free [OF m(1)], of f h None] assms(4) by simp
  moreover have "(event_heap s)(e := None) = event_heap s" using assms(6) by (simp add: fun_upd_idem)
  ultimately have "lib_mem (without h f e (s\<lparr>session_heap := (session_heap s)(h \<mapsto> r\<lparr>h_event := Some e\<rparr>),
      event_heap := (event_heap s)(e \<mapsto> x)\<rparr>))"
    by (simp add: without_def lib_mem_def handle_ok_def)
  then show ?thesis
    using m(2) assms(2,3,5) by (auto simp: registering_def lib_list_def split: option.splits)
qed

text \<open>A handle that has a flag but no event object, and a flag no listener has.\<close>

definition flagged :: "addr \<Rightarrow> addr \<Rightarrow> 'w libjhi \<Rightarrow> bool" where
  "flagged h f s \<longleftrightarrow> lib_inv s \<and> (\<exists>r. session_heap s h = Some r \<and> h_event r = None \<and> h_flag r = Some f)
     \<and> flag_heap s f = Some 0 \<and> f \<notin> l_flag ` set (listeners s)"

lemma inv_handle:
  assumes "lib_inv s" "session_heap s h = Some r" "h_event r' = None"
  shows "lib_inv (s\<lparr>session_heap := (session_heap s)(h \<mapsto> r')\<rparr>)"
  using assms mem_new [of s r' h] by (auto simp: lib_inv_def lib_list_def split: option.splits)

lemma inv_flag: "lib_inv s \<Longrightarrow> f \<notin> l_flag ` set (listeners s) \<Longrightarrow> lib_inv (s\<lparr>flag_heap := (flag_heap s)(f := v)\<rparr>)"
  using mem_flag by (auto simp: lib_inv_def)

lemma unflag_inv:
  assumes "flagged h f s" "session_heap s h = Some r"
  shows "lib_inv (s\<lparr>flag_heap := (flag_heap s)(f := None), session_heap := (session_heap s)(h \<mapsto> r\<lparr>h_flag := None\<rparr>)\<rparr>)"
proof -
  have "lib_inv (s\<lparr>flag_heap := (flag_heap s)(f := None)\<rparr>)" using assms(1) inv_flag by (auto simp: flagged_def)
  then show ?thesis using inv_handle [of "s\<lparr>flag_heap := (flag_heap s)(f := None)\<rparr>" h r "r\<lparr>h_flag := None\<rparr>"] assms
    by (auto simp: flagged_def)
qed

lemma svc_outward: "(s\<lparr>svc := v\<rparr>)\<lparr>event_heap := eh\<rparr> = s\<lparr>event_heap := eh, svc := v\<rparr>"
  by (cases s) simp

lemma flag_inward: "(s\<lparr>session_heap := sh\<rparr>)\<lparr>flag_heap := fh\<rparr> = s\<lparr>flag_heap := fh, session_heap := sh\<rparr>"
  by (cases s) simp

lemma register_event_inv:
  assumes "flagged h f s" "run_state (register_event p h cb f name) s = (x, s')"
  shows "lib_inv s'"
proof -
  obtain a s1 where a: "run_state (malloc (\<lambda>s a. event_heap s a \<noteq> None)) s = (a, s1)" by (metis prod.exhaust)
  have s1: "s1 = s\<lparr>mallocs := tl (mallocs s)\<rparr>" "\<And>e. a = Some e \<Longrightarrow> event_heap s1 e = None"
    using run_malloc [OF a] by auto
  then have fl: "flagged h f s1" using assms(1) by (simp add: flagged_def)
  obtain r where r: "session_heap s1 h = Some r" "h_event r = None" "h_flag r = Some f" "flag_heap s1 f = Some 0"
    "f \<notin> l_flag ` set (listeners s1)" "lib_inv s1"
    using fl by (auto simp: flagged_def)
  show ?thesis
  proof (cases a)
    case None
    have "r\<lparr>h_event := None\<rparr> = r" using r(2) by simp
    then show ?thesis
      using assms(2) a None r unflag_inv [OF fl r(1)] by (simp add: register_event_def fun_upd_idem)
  next
    case (Some e)
    let ?t = "\<lambda>y. s1\<lparr>session_heap := (session_heap s1)(h \<mapsto> r\<lparr>h_event := Some e\<rparr>), event_heap := (event_heap s1)(e \<mapsto> y)\<rparr>"
    obtain ok y v where y: "run_state (on_fsys (JhiEvent_create JhiEvent_init (Some name))) (svc s1) = ((ok, y), v)"
      by (metis prod.exhaust)
    have reg: "registering h f e (?t y\<lparr>svc := v\<rparr>)"
      using registering_start [OF r(6,1,4,5,3)] s1(2) Some by simp
    have run: "run_state (if \<not> ok then drop_registration h f e else start_listener p h cb f e name) (?t y\<lparr>svc := v\<rparr>) = (x, s')"
      using assms(2) a Some r(1) y by (simp add: register_event_def svc_outward)
    show ?thesis
    proof (cases ok)
      case True
      then show ?thesis using run start_listener_inv [OF reg _ create_created [OF y True]] by simp
    next
      case False
      then show ?thesis using run drop_registration_inv [OF reg] by simp
    qed
  qed
qed

lemma flagged_other [simp]:
  "flagged h f (s\<lparr>mallocs := m\<rparr>) = flagged h f s" "flagged h f (s\<lparr>new_uuids := u\<rparr>) = flagged h f s"
  by (simp_all add: flagged_def)

lemma flagged_generate: "flagged h f s \<Longrightarrow> run_state generateHandleUUID s = (n, s') \<Longrightarrow> flagged h f s'"
proof -
  assume s: "flagged h f s" "run_state generateHandleUUID s = (n, s')"
  have pr: "preserves (flagged h f) generateHandleUUID"
    unfolding generateHandleUUID_def malloc_def
    by (intro preserves_bind preserves_action preserves_ret) (simp_all split: list.splits)
  show ?thesis by (rule preservesD [OF pr s])
qed

lemma register_flag_inv:
  assumes "lib_inv s" "session_heap s h = Some r" "h_event r = None" "run_state (register_flag p h cb) s = (x, s')"
  shows "lib_inv s'"
proof -
  obtain a s1 where a: "run_state (malloc (\<lambda>s a. flag_heap s a \<noteq> None)) s = (a, s1)" by (metis prod.exhaust)
  have s1: "s1 = s\<lparr>mallocs := tl (mallocs s)\<rparr>" "\<And>f. a = Some f \<Longrightarrow> flag_heap s1 f = None"
    using run_malloc [OF a] by auto
  have i1: "lib_inv s1" "session_heap s1 h = Some r" using assms(1,2) s1(1) by auto
  have i2: "lib_inv (s1\<lparr>session_heap := (session_heap s1)(h \<mapsto> r\<lparr>h_flag := a\<rparr>)\<rparr>)"
    using inv_handle [OF i1] assms(3) by simp
  show ?thesis
  proof (cases a)
    case None
    then show ?thesis using assms(4) a i1(2) i2 by (simp add: register_flag_def)
  next
    case (Some f)
    let ?q = "r\<lparr>h_flag := Some f, h_callback := Some cb\<rparr>"
    let ?s2 = "s1\<lparr>flag_heap := (flag_heap s1)(f \<mapsto> 0), session_heap := (session_heap s1)(h \<mapsto> ?q)\<rparr>"
    have f: "f \<notin> l_flag ` set (listeners s1)" using not_listened(1) s1(2) [OF Some] i1(1) by (auto simp: lib_inv_def)
    have "lib_inv ?s2"
      using inv_handle [OF inv_flag [OF i1(1) f, of "Some 0"], of h r ?q] i1(2) assms(3) by simp
    then have fl2: "flagged h f ?s2" using f assms(3) by (simp add: flagged_def)
    obtain n s3 where n: "run_state generateHandleUUID ?s2 = (n, s3)" by (metis prod.exhaust)
    then have fl: "flagged h f s3" using flagged_generate [OF fl2] by blast
    then obtain q where q: "session_heap s3 h = Some q" "flag_heap s3 f = Some 0" by (auto simp: flagged_def)
    have run: "run_state (case n of None \<Rightarrow> delete_flag f \<bind> (\<lambda>_. write_handle h (\<lambda>r. r\<lparr>h_flag := None\<rparr>) \<bind> (\<lambda>_. ret JHI_INTERNAL_ERROR))
        | Some name \<Rightarrow> register_event p h cb f name) s3 = (x, s')"
      using assms(4) a Some i1(2) n by (simp add: register_flag_def flag_inward)
    show ?thesis
      using run register_event_inv [OF fl] unflag_inv [OF fl q(1)] q by (cases n) auto
  qed
qed

lemma register_inv [pres_intros]: "preserves lib_inv (JHI_RegisterEvents p handle h f)"
proof -
  have "spec (\<lambda>s. lib_inv s \<and> SessionHandleValid h s \<and> session_heap s h = Some r \<and> False = (h_event r \<noteq> None))
      (register_flag p h cb) (\<lambda>_. lib_inv)" for r cb
    by (rule specI) (auto intro: register_flag_inv)
  then have "preserves lib_inv (register_session p h cb)" for cb
    unfolding register_session_def
    by (intro pres_if_valid preserves_ret spec_if spec_ret spec_event_created) (auto simp: spec_def)
  then show ?thesis unfolding JHI_RegisterEvents_def by (intro pres_intros)
qed

section \<open>Listeners\<close>

definition listening :: "listener \<Rightarrow> 'w libjhi \<Rightarrow> bool" where
  "listening l s \<longleftrightarrow> lib_inv s \<and> l \<in> set (listeners s)"

lemma listening_other [simp]:
  "listening l (s\<lparr>svc := v\<rparr>) = listening l s" "listening l (s\<lparr>callbacks := c\<rparr>) = listening l s"
  by (simp_all add: listening_def)

lemma inv_event_same:
  assumes "lib_inv s" "event_heap s e = Some x" "is_created y = is_created x"
  shows "lib_inv (s\<lparr>event_heap := (event_heap s)(e \<mapsto> y)\<rparr>)"
proof -
  have "handle_ok (s\<lparr>event_heap := (event_heap s)(e \<mapsto> y)\<rparr>) h r" if "session_heap s h = Some r" for h r
    using lib_memD(2) [of s h r] that assms by (auto simp: handle_ok_def lib_inv_def)
  then show ?thesis using assms by (auto simp: lib_inv_def lib_mem_def)
qed

lemma wait_created:
  "run_state (on_fsys (JhiEvent_wait x)) v = ((b, y), v') \<Longrightarrow> is_created y = is_created x"
  "run_state (on_fsys (JhiEvent_listenCl x)) v = ((b, y), v') \<Longrightarrow> is_created y = is_created x"
  by (auto simp: on_fsys_def JhiEvent_wait_def JhiEvent_listenCl_def split: prod.splits if_splits)

lemma listening_flag:
  assumes "listening l s"
  obtains v x where "flag_heap s (l_flag l) = Some v" "event_heap s (l_event l) = Some x"
  using assms lib_memD(3,4) [of s l] by (auto simp: listening_def lib_inv_def)

lemma listening_use_event:
  assumes "listening l s" "run_state (use_event (l_event l) m) s = (b, s')" "m = JhiEvent_wait \<or> m = JhiEvent_listenCl"
  shows "listening l s'"
proof -
  obtain x where x: "event_heap s (l_event l) = Some x" using listening_flag [OF assms(1)] by blast
  obtain c y v where y: "run_state (on_fsys (m x)) (svc s) = ((c, y), v)" by (metis prod.exhaust)
  have s': "s' = s\<lparr>event_heap := (event_heap s)(l_event l \<mapsto> y), svc := v\<rparr>"
    using assms(2) x y by (simp add: svc_outward)
  have "is_created y = is_created x" using y assms(3) wait_created by blast
  then have "lib_inv (s\<lparr>event_heap := (event_heap s)(l_event l \<mapsto> y)\<rparr>)"
    using inv_event_same [OF _ x] assms(1) by (simp add: listening_def)
  then show ?thesis using assms(1) unfolding s' by (simp add: listening_def)
qed

lemma listening_retrieve: "listening l s \<Longrightarrow> listening l (snd (run_state (retriveEventData p n l) s))"
proof (induction n arbitrary: s)
  case (Suc n)
  obtain v x where v: "flag_heap s (l_flag l) = Some v" using listening_flag [OF Suc.prems] by blast
  show ?case using Suc v by (auto simp: split_beta)
qed simp

lemma listening_on_svc: "preserves (listening l) (on_svc m)"
  unfolding on_svc_def by (rule preserves_zoom) simp

text \<open>A listener that ends: its flag is set, so no session handle has its event object.\<close>

lemma finish_inv:
  assumes "listening l s" "flag_heap s (l_flag l) \<noteq> Some 0" "run_state (finish_listener l) s = (u, s')"
  shows "lib_inv s'"
proof -
  obtain v x where x: "flag_heap s (l_flag l) = Some v" "event_heap s (l_event l) = Some x"
    using listening_flag [OF assms(1)] by blast
  have m: "lib_mem s" "l \<in> set (listeners s)" using assms(1) by (simp_all add: listening_def lib_inv_def)
  obtain c y v1 where c: "run_state (on_fsys (JhiEvent_close x)) (svc s) = ((c, y), v1)" by (metis prod.exhaust)
  obtain b v2 where b: "run_state (on_fsys (JhiEvent_clean y)) v1 = (b, v2)" by (metis prod.exhaust)
  have s': "s' = s\<lparr>flag_heap := (flag_heap s)(l_flag l := None), svc := v2, event_heap := (event_heap s)(l_event l := None),
      listeners := remove1 l (listeners s)\<rparr>"
    using assms(3) x c b by (simp add: finish_listener_def)
  have "distinct (listeners s)" using m(1) by (auto simp: lib_mem_def distinct_map)
  then have r: "set (remove1 l (listeners s)) = set (listeners s) - {l}" by simp
  have "handle_ok s' h r" if hr: "session_heap s h = Some r" for h r
  proof -
    have "e \<noteq> l_event l \<and> (\<exists>k \<in> set (listeners s). k \<noteq> l \<and> l_event k = e \<and> l_session k = h \<and> h_flag r = Some (l_flag k)
        \<and> l_flag k \<noteq> l_flag l \<and> flag_heap s (l_flag k) = Some 0)" if e: "h_event r = Some e" for e
    proof -
      obtain k where k: "k \<in> set (listeners s)" "l_event k = e" "l_session k = h" "h_flag r = Some (l_flag k)"
        "flag_heap s (l_flag k) = Some 0"
        using lib_memD(2) [OF m(1) hr] e by (auto simp: handle_ok_def)
      then have "k \<noteq> l" using assms(2) by auto
      then have "l_event k \<noteq> l_event l" "l_flag k \<noteq> l_flag l" using listener_unique [OF m(1) k(1) m(2)] by auto
      then show ?thesis using k by auto
    qed
    then show ?thesis using lib_memD(2) [OF m(1) hr] r unfolding s' by (fastforce simp: handle_ok_def)
  qed
  moreover have "distinct (map g (listeners s)) \<Longrightarrow> distinct (map g (remove1 l (listeners s)))" for g :: "listener \<Rightarrow> addr"
    using r by (auto simp: distinct_map intro: inj_on_subset)
  moreover have "l_event k \<noteq> l_event l \<and> l_flag k \<noteq> l_flag l" if "k \<in> set (listeners s) - {l}" for k
    using listener_unique [OF m(1) _ m(2), of k] that by auto
  ultimately have "lib_mem s'" using m(1) r unfolding s' by (auto simp: lib_mem_def)
  moreover have "lib_list s'" using assms(1) unfolding s' by (simp add: listening_def lib_inv_def)
  ultimately show ?thesis by (simp add: lib_inv_def)
qed

lemma listener_turn_inv:
  assumes "listening l s" "run_state (listener_turn p n l) s = (b, s')"
  shows "lib_inv s'"
proof -
  obtain v x where x: "flag_heap s (l_flag l) = Some v" using listening_flag [OF assms(1)] by blast
  obtain w s1 where w: "run_state (use_event (l_event l) JhiEvent_wait) s = (w, s1)" by (metis prod.exhaust)
  have l1: "listening l s1" using listening_use_event [OF assms(1) w] by simp
  show ?thesis
  proof (cases "v = 0")
    case True
    then show ?thesis
      using assms(2) x w l1 listening_retrieve [OF l1, of p n] by (auto simp: listener_turn_def listening_def split_beta)
  next
    case False
    obtain s2 where s2: "run_state (finish_listener l) s = ((), s2)" by (metis prod.exhaust old.unit.exhaust)
    then show ?thesis using assms(2) x False finish_inv [OF assms(1) _ s2] by (simp add: listener_turn_def)
  qed
qed

end
