(* ===== verification/Client_Safety.thy ===== *)
theory Client_Safety
  imports Client_Invariant
begin

text \<open>
  An application that uses the client library: its calls in any order, the listener threads between
  them, and whatever the service and other processes do. As long as the listeners' sockets accept
  their connection, no freed object is ever used and no session handle is lost.
\<close>

section \<open>Runs\<close>

definition lib_start :: "'w jhi \<Rightarrow> 'w libjhi" where
  "lib_start v = \<lparr> appHandle = None, session_heap = (\<lambda>_. None), event_heap = (\<lambda>_. None), flag_heap = (\<lambda>_. None),
     listeners = [], callbacks = [], mallocs = [], new_uuids = [], fault = False, svc = v \<rparr>"

text \<open>\<open>lib_outside\<close>: the service, and the outcomes of the allocations and identifiers to come.\<close>

inductive lib_step :: "'w process \<Rightarrow> 'w libjhi \<Rightarrow> 'w libjhi \<Rightarrow> bool" for p where
  lib_initialize: "run_state (JHI_Initialize p out) s = (x, s') \<Longrightarrow> lib_step p s s'"
| lib_deinit: "run_state (JHI_Deinit a) s = (r, s') \<Longrightarrow> lib_step p s s'"
| lib_create: "run_state (JHI_CreateSession p a app flags buf out) s = (y, s') \<Longrightarrow> lib_step p s s'"
| lib_close: "run_state (JHI_CloseSessionInternal p a h force) s = (c, s') \<Longrightarrow> lib_step p s s'"
| lib_txrx: "run_state (JHI_SendAndRecv2 p a k cid comm) s = (t, s') \<Longrightarrow> lib_step p s s'"
| lib_info: "run_state (JHI_GetSessionInfo p a k out) s = (i, s') \<Longrightarrow> lib_step p s s'"
| lib_register: "run_state (JHI_RegisterEvents p a k cb) s = (r, s') \<Longrightarrow> lib_step p s s'"
| lib_unregister: "run_state (JHI_UnRegisterEvents p a k) s = (r, s') \<Longrightarrow> lib_step p s s'"
| lib_install: "run_state (JHI_Install2 p a app f) s = (r, s') \<Longrightarrow> lib_step p s s'"
| lib_uninstall: "run_state (JHI_Uninstall p a app) s = (r, s') \<Longrightarrow> lib_step p s s'"
| lib_count: "run_state (JHI_GetSessionsCount p a app out) s = (n, s') \<Longrightarrow> lib_step p s s'"
| lib_property: "run_state (JHI_GetAppletProperty p a app comm) s = (d, s') \<Longrightarrow> lib_step p s s'"
| lib_version: "run_state (JHI_GetVersionInfo p a out) s = (w, s') \<Longrightarrow> lib_step p s s'"
| lib_listen: "l \<in> set (listeners s) \<Longrightarrow> run_state (use_event (l_event l) JhiEvent_listenCl) s = (True, s') \<Longrightarrow> lib_step p s s'"
| lib_turn: "l \<in> set (listeners s) \<Longrightarrow> run_state (listener_turn p m l) s = (b, s') \<Longrightarrow> lib_step p s s'"
| lib_outside: "lib_step p s (s\<lparr>mallocs := ms, new_uuids := us, svc := v\<rparr>)"

inductive lib_run :: "'w process \<Rightarrow> 'w libjhi \<Rightarrow> bool" for p where
  lib_begin: "lib_run p (lib_start v)"
| lib_next: "lib_run p s \<Longrightarrow> lib_step p s s' \<Longrightarrow> lib_run p s'"

lemma start_inv: "lib_inv (lib_start v)"
  by (simp add: lib_inv_def lib_mem_def lib_list_def lib_start_def)

lemma lib_step_inv:
  assumes "lib_step p s s'" "lib_inv s"
  shows "lib_inv s'"
  using assms(1)
proof cases
  case (lib_listen l)
  then show ?thesis using listening_use_event [of l s JhiEvent_listenCl True s'] assms(2) by (simp add: listening_def)
next
  case (lib_turn l m b)
  then show ?thesis using listener_turn_inv [of l s p m b s'] assms(2) by (simp add: listening_def)
qed (use assms(2) in \<open>auto elim!: preservesD [rotated 2] intro: pres_intros\<close>)

lemma lib_run_inv: "lib_run p s \<Longrightarrow> lib_inv s"
  by (induction rule: lib_run.induct) (auto intro: start_inv lib_step_inv)

section \<open>Handles that are not valid\<close>

lemma removeSessionHandle_invalid: "\<not> SessionHandleValid h s \<Longrightarrow> run_state (removeSessionHandle h) s = (False, s)"
  by (simp add: removeSessionHandle_def)

lemma closeSessionEventThread_invalid:
  "\<not> SessionHandleValid h s \<Longrightarrow> run_state (closeSessionEventThread h) s = ((), s)"
  by (simp add: closeSessionEventThread_def)

lemma getSessionID_invalid: "\<not> SessionHandleValid h s \<Longrightarrow> run_state (getSessionID h) s = (None, s)"
  by (simp add: getSessionID_def)

lemmas invalid_handle_simps = removeSessionHandle_invalid closeSessionEventThread_invalid getSessionID_invalid

section \<open>A socket that does not accept\<close>

text \<open>The listener ends on its own and frees what the session handle still points to.\<close>

lemma run_failed_listener:
  assumes "lib_inv s" "l \<in> set (listeners s)"
    and "\<And>x. event_heap s (l_event l) = Some x \<Longrightarrow> \<not> fst (fst (run_state (JhiEvent_listenCl x) (fsys (svc s))))"
    and "run_state (eventListenerThread p n k l) s = (u, s')"
  shows "event_heap s' (l_event l) = None" "appHandle s' = appHandle s" "session_heap s' = session_heap s"
proof -
  have l: "listening l s" using assms(1,2) by (simp add: listening_def)
  obtain v x where x: "flag_heap s (l_flag l) = Some v" "event_heap s (l_event l) = Some x"
    using listening_flag [OF l] by blast
  obtain b y f where y: "run_state (JhiEvent_listenCl x) (fsys (svc s)) = ((b, y), f)" by (metis prod.exhaust)
  then have "\<not> b" using assms(3) [OF x(2)] by simp
  have a: "run_state (use_event (l_event l) JhiEvent_listenCl) s =
      (False, s\<lparr>svc := (svc s)\<lparr>fsys := f\<rparr>, event_heap := (event_heap s)(l_event l \<mapsto> y)\<rparr>)"
    using x y \<open>\<not> b\<close> by (simp add: on_fsys_def)
  obtain c z v1 where c: "run_state (on_fsys (JhiEvent_close y)) ((svc s)\<lparr>fsys := f\<rparr>) = ((c, z), v1)" by (metis prod.exhaust)
  obtain d v2 where d: "run_state (on_fsys (JhiEvent_clean z)) v1 = (d, v2)" by (metis prod.exhaust)
  have "event_heap s' (l_event l) = None \<and> appHandle s' = appHandle s \<and> session_heap s' = session_heap s"
    using assms(4) a c d x by (auto simp: eventListenerThread_def finish_listener_def)
  then show "event_heap s' (l_event l) = None" "appHandle s' = appHandle s" "session_heap s' = session_heap s" by auto
qed

lemma pres_fault:
  "preserves fault (on_svc m)" "preserves fault (removeSessionHandle h)" "preserves fault (free_handle h)"
  "preserves fault (closeSessionEventThread h)"
proof -
  have r: "preserves fault (read_handle h)" "preserves fault (read_flag f)" "preserves fault (read_event e)" for h f e
    unfolding read_handle_def read_flag_def read_event_def crash_def by (intro pres_intros preserves_modify; simp)+
  show os: "preserves fault (on_svc m)" for m :: "('a, 'b) service" unfolding on_svc_def by (rule preserves_zoom) simp
  show "preserves fault (removeSessionHandle h)" unfolding removeSessionHandle_def by (rule preserves_action) simp
  show "preserves fault (free_handle h)" unfolding free_handle_def by (intro pres_intros r preserves_modify) simp
  show "preserves fault (closeSessionEventThread h)"
    unfolding closeSessionEventThread_def write_handle_def event_created_def write_flag_def use_event_def on_svc_def
    by (intro pres_intros r preserves_modify preserves_zoom) simp_all
qed

lemma close_dangling:
  assumes "ValidateJHIhandle handle s" "SessionHandleValid h s" "session_heap s h = Some r" "h_event r = Some e"
    "event_heap s e = None"
  shows "fault (snd (run_state (JHI_CloseSession p handle (Some h)) s))"
proof -
  let ?s = "s\<lparr>fault := True\<rparr>"
  have "run_state (event_created r) s = (is_created JhiEvent_init, ?s)"
    using assms(4,5) by (simp add: event_created_def read_event_def crash_def)
  then have "run_state (JHI_CloseSession p handle (Some h)) s = run_state (close_at_service p h r False) ?s"
    using assms(1-3) by (simp add: JHI_CloseSession_def JHI_CloseSessionInternal_def JhiEvent_init_def)
  moreover have "preserves fault (close_at_service p h r False)"
    unfolding close_at_service_def by (intro pres_intros pres_fault)
  ultimately show ?thesis by (simp add: preserves_def)
qed

section \<open>Properties\<close>


text \<open>A service that accepts every command, and a process that uses it.\<close>

definition sample_channel :: "nat jhi ICommandsClient" where
  "sample_channel = \<lparr> Connect = ret True,
     Invoke = (\<lambda>b. ret (Some (if hd b = 4 then put32 0 @ put32 25 @ replicate 16 3 @ [0] else put32 0 @ put32 9 @ [0]))),
     Disconnect = ret True, client_alloc = ret True, stack_byte = 0 \<rparr>"

definition sample_app_process :: "nat process" where
  "sample_app_process = \<lparr> channel = sample_channel, own_pid = 2,
     own_stat = Some (stat_line ([''12'', ''(bash)'', ''S''] @ replicate 18 ''-1'' @ ''4242'' # [''0''])), uninit_id = sample_id 0 \<rparr>"

lemma sample_start_time:
  "getProcStartTime (own_stat sample_app_process) \<lparr> dwHighDateTime = 0, dwLowDateTime = 0 \<rparr> =
    (JHI_SUCCESS, \<lparr> dwHighDateTime = 4242, dwLowDateTime = 0 \<rparr>)"
  using getProcStartTime_field_witness by (simp add: sample_app_process_def)

lemma sample_calls:
  "run_state (JhisInit sample_channel) v = (JHI_SUCCESS, v)"
  "run_state (JhisCreateSession sample_channel app flags d q) v = ((JHI_SUCCESS, Some (UUID (replicate 16 3))), v)"
  by (simp_all add: JhisInit_def JhisCreateSession_def InvokeCommand_def send_buffer_def sample_channel_def command_def
      encode_create_session_def code_of_response_def fixed_response_def res_code_def res_length_def)

definition sample_opened :: "nat libjhi" where
  "sample_opened = (lib_start sample_state)\<lparr>mallocs := [Some 5], appHandle := Some \<lparr> a_address = 1,
     a_process = \<lparr> pid = 2, creationTime = \<lparr> dwHighDateTime = 4242, dwLowDateTime = 0 \<rparr> \<rparr>,
     SessionsList = [], ReferenceCount = 1 \<rparr>\<rparr>"

definition sample_lib :: "nat libjhi" where
  "sample_lib = snd (run_state (JHI_CreateSession sample_app_process 1 (Some sample_app) 0 None True) sample_opened)"

lemma sample_lib_run: "lib_run sample_app_process sample_lib"
proof -
  let ?s = "(lib_start sample_state)\<lparr>mallocs := [Some 1, Some 2, Some 5]\<rparr>"
  have "lib_step sample_app_process (lib_start sample_state) ?s"
    using lib_outside [where s = "lib_start sample_state" and ms = "[Some 1, Some 2, Some 5]" and us = "[]" and v = sample_state]
    by (simp add: lib_start_def)
  then have "lib_run sample_app_process ?s" using lib_begin lib_next by blast
  moreover have "run_state (JHI_Initialize sample_app_process True) ?s = ((JHI_SUCCESS, Some 1), sample_opened)"
    using sample_start_time sample_calls(1)
    by (simp add: JHI_Initialize_def lib_start_def malloc_def sample_opened_def sample_app_process_def)
  ultimately have "lib_run sample_app_process sample_opened" using lib_next lib_initialize by blast
  then show ?thesis
    unfolding sample_lib_def by (rule lib_next [OF _ lib_create [OF prod.collapse [symmetric]]])
qed

lemma sample_lib_eq:
  "sample_lib = sample_opened\<lparr>mallocs := [], session_heap := [5 \<mapsto> dead_handle\<lparr>h_sessionID := UUID (replicate 16 3), h_flags := 0,
       h_process := \<lparr> pid = 2, creationTime = \<lparr> dwHighDateTime = 4242, dwLowDateTime = 0 \<rparr> \<rparr>\<rparr>],
     appHandle := Some \<lparr> a_address = 1,
       a_process = \<lparr> pid = 2, creationTime = \<lparr> dwHighDateTime = 4242, dwLowDateTime = 0 \<rparr> \<rparr>,
       SessionsList = [5], ReferenceCount = 1 \<rparr>\<rparr>"
proof -
  have "checked_app (Some sample_app) = Some (sample_app @ [NUL])" by code_simp
  then show ?thesis
    using sample_calls(2)
    by (simp add: sample_lib_def JHI_CreateSession_def sample_opened_def lib_start_def malloc_def new_handle_def
        request_session_def addSessionHandle_def ValidateJHIhandle_def Let_def sample_app_process_def dead_handle_def)
qed

lemma sample_lib_valid:
  "SessionHandleValid 5 sample_lib" "\<not> SessionHandleValid 8 sample_lib" "ValidateJHIhandle 1 sample_lib"
  "\<not> ValidateJHIhandle 3 sample_lib"
  by (simp_all add: SessionHandleValid_def ValidateJHIhandle_def sample_lib_eq)




text \<open>
  When the socket of a session's listener does not accept a connection, the thread ends and frees
  the event object to which the session handle still points: closing that session then uses the
  freed object.
\<close>

theorem failed_accept_dangles:
  assumes "lib_run p s" "l \<in> set (listeners s)" "session_heap s (l_session l) = Some r" "h_event r = Some (l_event l)"
    and "\<And>x. event_heap s (l_event l) = Some x \<Longrightarrow> \<not> fst (fst (run_state (JhiEvent_listenCl x) (fsys (svc s))))"
    and "ValidateJHIhandle handle s" "run_state (eventListenerThread p n k l) s = (u, s')"
  shows "fault (snd (run_state (JHI_CloseSession p handle (Some (l_session l))) s'))"
proof -
  have inv: "lib_inv s" using lib_run_inv [OF assms(1)] .
  note e = run_failed_listener [OF inv assms(2,5,7)]
  have "SessionHandleValid (l_session l) s"
    using inv assms(3) by (cases "appHandle s") (auto simp: lib_inv_def lib_list_def SessionHandleValid_def)
  moreover have "SessionHandleValid (l_session l) s' = SessionHandleValid (l_session l) s"
    "ValidateJHIhandle handle s' = ValidateJHIhandle handle s"
    using e(2) by (simp_all add: SessionHandleValid_def ValidateJHIhandle_def)
  ultimately show ?thesis
    using e(1,3) assms(3,4,6) by (intro close_dangling [where e = "l_event l" and r = r]) simp_all
qed

text \<open>The session of \<open>sample_lib\<close> registered for events, and then a socket that does not accept.\<close>

definition sample_offer :: "nat libjhi" where
  "sample_offer = sample_lib\<lparr>mallocs := [Some 7, Some 9, Some 6, Some 11], new_uuids := [''u'']\<rparr>"

definition sample_registered :: "nat libjhi" where
  "sample_registered = snd (run_state (JHI_RegisterEvents sample_app_process 1 5 (Some 3)) sample_offer)"

lemma sample_create:
  "fst (fst (run_state (on_fsys (JhiEvent_create JhiEvent_init (Some ''/tmp/jhievent-u''))) sample_state))"
  by code_simp

lemma sample_set_handler: "run_state (JhisSetSessionEventHandler sample_channel sid name) v = (JHI_SUCCESS, v)"
  by (simp add: JhisSetSessionEventHandler_def InvokeCommand_def send_buffer_def sample_channel_def command_def
      encode_event_handler_def code_of_response_def res_code_def res_length_def)

lemma sample_registered_facts:
  "listeners sample_registered = [\<lparr> l_session = 5, l_event = 6, l_flag = 7, l_id = UUID (replicate 16 3), l_callback = 3 \<rparr>]"
  "\<exists>r. session_heap sample_registered 5 = Some r \<and> h_event r = Some 6" "appHandle sample_registered = appHandle sample_lib"
proof -
  obtain y v where y: "run_state (on_fsys (JhiEvent_create JhiEvent_init (Some ''/tmp/jhievent-u''))) sample_state = ((True, y), v)"
    using sample_create by (metis prod.collapse)
  then have "listeners sample_registered = [\<lparr> l_session = 5, l_event = 6, l_flag = 7, l_id = UUID (replicate 16 3), l_callback = 3 \<rparr>]
      \<and> (\<exists>r. session_heap sample_registered 5 = Some r \<and> h_event r = Some 6) \<and> appHandle sample_registered = appHandle sample_lib"
    using sample_set_handler
    by (simp add: sample_registered_def sample_offer_def JHI_RegisterEvents_def register_session_def register_flag_def
        register_event_def start_listener_def generateHandleUUID_def malloc_def sample_lib_eq sample_opened_def lib_start_def
        ValidateJHIhandle_def SessionHandleValid_def dead_handle_def sample_app_process_def)
  then show "listeners sample_registered = [\<lparr> l_session = 5, l_event = 6, l_flag = 7, l_id = UUID (replicate 16 3), l_callback = 3 \<rparr>]"
    "\<exists>r. session_heap sample_registered 5 = Some r \<and> h_event r = Some 6" "appHandle sample_registered = appHandle sample_lib"
    by blast+
qed

lemma sample_registered_run: "lib_run sample_app_process sample_registered"
proof -
  have "lib_run sample_app_process sample_offer"
    using lib_next [OF sample_lib_run lib_outside [where ms = "[Some 7, Some 9, Some 6, Some 11]" and us = "[''u'']" and v = "svc sample_lib"]]
    by (simp add: sample_offer_def)
  then show ?thesis
    unfolding sample_registered_def by (rule lib_next [OF _ lib_register [OF prod.collapse [symmetric]]])
qed

definition sample_refusing :: "nat libjhi" where
  "sample_refusing = sample_registered\<lparr>svc := (svc sample_registered)\<lparr>fsys := (fsys (svc sample_registered))\<lparr>io := [Io_fail 1]\<rparr>\<rparr>\<rparr>"

theorem failed_accept_dangles_witness:
  "\<exists>s' l. run_state (eventListenerThread sample_app_process 1 1 l) sample_refusing = ((), s') \<and> l \<in> set (listeners sample_refusing)
    \<and> fault (snd (run_state (JHI_CloseSession sample_app_process 1 (Some 5)) s'))"
proof -
  let ?l = "\<lparr> l_session = 5, l_event = 6, l_flag = 7, l_id = UUID (replicate 16 3), l_callback = 3 \<rparr>"
  have run: "lib_run sample_app_process sample_refusing"
    using lib_next [OF sample_registered_run lib_outside [where ms = "mallocs sample_registered" and us = "new_uuids sample_registered"
        and v = "svc sample_refusing"]]
    by (simp add: sample_refusing_def)
  obtain r where r: "session_heap sample_refusing (l_session ?l) = Some r" "h_event r = Some (l_event ?l)"
    using sample_registered_facts(2) by (auto simp: sample_refusing_def)
  have l: "?l \<in> set (listeners sample_refusing)" using sample_registered_facts(1) by (simp add: sample_refusing_def)
  have a: "\<not> fst (fst (run_state (JhiEvent_listenCl x) (fsys (svc sample_refusing))))" for x
    by (simp add: JhiEvent_listenCl_def sample_refusing_def next_io_def)
  have v: "ValidateJHIhandle 1 sample_refusing"
    using sample_lib_valid(3) sample_registered_facts(3) by (simp add: ValidateJHIhandle_def sample_refusing_def)
  obtain s' where s': "run_state (eventListenerThread sample_app_process 1 1 ?l) sample_refusing = ((), s')"
    by (metis prod.exhaust old.unit.exhaust)
  show ?thesis using failed_accept_dangles [OF run l r a v s'] s' l by auto
qed

end
