(* ===== verification/Client_Events.thy ===== *)
theory Client_Events
  imports Client_Safety
begin

text \<open>
  Events from the queue of the service to the callback of the application: the loop of the listener
  thread over the sockets and the dispatcher.
\<close>

context command_channel
begin

lemma event_call:
  assumes "quiet s" "6 \<le> length b" "length b \<le> JHI_MAX_TRANSPORT_DATA_SIZE"
    "run_state (serve b) s = (Reply (put32 r @ put32 (15 + n) @ put32 n @ ty # d), s')"
    "length d = unat n + 2" "unat n \<le> JHI_BUFFER_MAX"
  shows "run_state (send_buffer c b nomem unavailable event_response) s = ((r, Some (n, ty), take (unat n) d), s')"
proof -
  let ?out = "put32 r @ put32 (15 + n) @ put32 n @ ty # d"
  have n: "unat (15 + n) = 15 + unat n" using assms(6) by (simp add: unat_word_ariths)
  have l: "length ?out = 15 + unat n" using assms(5) by simp
  have "?out ! 12 = ty" by (simp add: nth_append)
  moreover have "drop 13 ?out = d" "get32 (take 4 (drop 8 ?out)) = n" "res_code ?out = r" "res_length ?out = 15 + unat n"
    by (simp_all add: res_code_def res_length_def n)
  ultimately have "event_response ?out = (r, Some (n, ty), take (unat n) d)"
    using l by (simp add: event_response_def Let_def)
  then show ?thesis using send_buffer_served [OF assms(1-4), where k = event_response and nomem = nomem and unavailable = unavailable]
      l assms(6) by simp
qed

end

text \<open>An event that is sent whole: its data has the length it states, within the limit.\<close>

definition deliverable :: "JHI_EVENT_DATA \<Rightarrow> bool" where
  "deliverable e \<longleftrightarrow> unat (datalen e) \<le> JHI_BUFFER_MAX
     \<and> length (case ev_data e of None \<Rightarrow> [] | Some d \<Rightarrow> d) = unat (datalen e)"

definition payload :: "JHI_EVENT_DATA \<Rightarrow> byte list" where
  "payload e = (case ev_data e of None \<Rightarrow> [] | Some d \<Rightarrow> d)"

definition delivery :: "listener \<Rightarrow> JHI_EVENT_DATA \<Rightarrow> JHI_EVENT" where
  "delivery l e = \<lparr> e_session = l_session l, e_callback = l_callback l, e_data = payload e,
     e_type = data_type_val (dataType e) \<rparr>"

lemma get_event_dispatch:
  assumes "jhi_state (globals s) = JHI_INITIALIZED" "length (uuid_bytes sid) = 16"
  shows "run_state (processCommand env pf (Some (encode_session 9 sid))) s =
    run_state (InvokeGetSessionEventData pf (encode_session 9 sid)) s"
  using run_processCommand [OF assms(1), of 9 "uuid_bytes sid" env pf] assms(2)
  by (simp add: encode_session_def dispatch_def)

lemma event_answered:
  assumes "jhi_state (globals s) = JHI_INITIALIZED" "io (fsys s) = []" "length (uuid_bytes sid) = 16"
    and "run_state (InvokeGetSessionEventData pf (encode_session 9 sid)) s =
      (Reply (put32 r @ put32 (15 + n) @ put32 n @ ty # d), s')"
    and "length d = unat n + 2" "unat n \<le> JHI_BUFFER_MAX"
  shows "run_state (JhisGetEventData (socket_client env pf junk ks cs) sid) s = ((r, Some (n, ty), take (unat n) d), s')"
proof -
  have "length (encode_session 9 sid) = 21" using assms(3) by (simp add: encode_session_def)
  then have "run_state (send_buffer (socket_client env pf junk ks cs) (encode_session 9 sid) (JHI_INTERNAL_ERROR, None, [])
      (JHI_SERVICE_UNAVAILABLE, None, []) event_response) s = ((r, Some (n, ty), take (unat n) d), s')"
    using assms by (intro jhi_channel.event_call) (simp_all add: get_event_dispatch quiet_def)
  then show ?thesis by (simp add: JhisGetEventData_def socket_client_def)
qed

lemma get_event_served:
  assumes "jhi_state (globals s) = JHI_INITIALIZED" "io (fsys s) = []" "length (uuid_bytes sid) = 16"
    and "session sid (sessions s) = Some r" "registered (eventHandle r)" "eventsDataQueue r = e # q" "deliverable e"
  shows "run_state (JhisGetEventData (socket_client env pf junk ks cs) sid) s =
    ((JHI_SUCCESS, Some (datalen e, data_type_val (dataType e)), payload e),
     s\<lparr>sessions := put_session sid (r\<lparr>eventsDataQueue := q\<rparr>) (sessions s)\<rparr>)"
proof -
  let ?n = "datalen e" and ?d = "if payload e = [] then [0] else payload e"
  let ?fill = "map (uninit_byte pf) [13 + length ?d ..< 15 + unat (datalen e)]"
  have n: "unat (15 + ?n) = 15 + unat ?n" "unat ?n \<le> JHI_BUFFER_MAX" "length (payload e) = unat ?n"
    using assms(7) by (simp_all add: deliverable_def payload_def unat_word_ariths)
  have eb: "event_bytes pf (Some e) = put32 ?n @ data_type_val (dataType e) # ?d"
    by (auto simp: event_bytes_def payload_def split: option.splits list.splits)
  have "run_state (InvokeGetSessionEventData pf (encode_session 9 sid)) s =
      (Reply (put32 JHI_SUCCESS @ put32 (15 + ?n) @ put32 ?n @ data_type_val (dataType e) # (?d @ ?fill)),
       s\<lparr>sessions := put_session sid (r\<lparr>eventsDataQueue := q\<rparr>) (sessions s)\<rparr>)"
    using assms(1-6) n
    by (auto simp: InvokeGetSessionEventData_def answering_def session_round run_alloc getSessionEventData_def
        run_respond event_length_def eb Let_def)
  moreover have "length (?d @ ?fill) = unat ?n + 2" "take (unat ?n) (?d @ ?fill) = payload e" using n(3) by auto
  ultimately show ?thesis
    using event_answered [OF assms(1-3), where n = ?n and d = "?d @ ?fill" and r = JHI_SUCCESS] n(2) by simp
qed

lemma no_event_served:
  assumes "jhi_state (globals s) = JHI_INITIALIZED" "io (fsys s) = []" "length (uuid_bytes sid) = 16"
    and "session sid (sessions s) = Some r" "registered (eventHandle r)" "eventsDataQueue r = []"
  shows "fst (fst (run_state (JhisGetEventData (socket_client env pf junk ks cs) sid) s)) = JHI_GET_EVENT_FAIL_NO_EVENTS"
    "snd (run_state (JhisGetEventData (socket_client env pf junk ks cs) sid) s) = s"
proof -
  let ?b = "encode_session 9 sid"
  have "run_state (InvokeGetSessionEventData pf ?b) s =
      (Reply (put32 JHI_GET_EVENT_FAIL_NO_EVENTS @ put32 (15 + 0) @ put32 0 @ uninit_byte pf 12 # [0, uninit_byte pf 14]), s)"
    using assms
    by (simp add: InvokeGetSessionEventData_def answering_def session_round run_alloc getSessionEventData_def
        run_respond event_length_def event_bytes_def upt_rec)
  then have "run_state (JhisGetEventData (socket_client env pf junk ks cs) sid) s =
      ((JHI_GET_EVENT_FAIL_NO_EVENTS, Some (0, uninit_byte pf 12), []), s)"
    using event_answered [OF assms(1-3), where n = 0 and d = "[0, uninit_byte pf 14]" and s' = s] by simp
  then show "fst (fst (run_state (JhisGetEventData (socket_client env pf junk ks cs) sid) s)) = JHI_GET_EVENT_FAIL_NO_EVENTS"
    "snd (run_state (JhisGetEventData (socket_client env pf junk ks cs) sid) s) = s"
    by simp_all
qed

text \<open>The service while one session's events are taken.\<close>

definition pending :: "JHI_SESSION_ID \<Rightarrow> JHI_EVENT_DATA list \<Rightarrow> 'w jhi \<Rightarrow> bool" where
  "pending sid q s \<longleftrightarrow> jhi_state (globals s) = JHI_INITIALIZED \<and> io (fsys s) = []
     \<and> (\<exists>r. session sid (sessions s) = Some r \<and> registered (eventHandle r) \<and> eventsDataQueue r = q)"

lemma retrieve_all:
  assumes "channel p = socket_client env pf junk ks cs" "length (uuid_bytes (l_id l)) = 16"
    and "flag_heap s (l_flag l) = Some 0" "pending (l_id l) q (svc s)" "list_all deliverable q" "length q < n"
  shows "\<exists>v. pending (l_id l) [] v \<and>
    run_state (retriveEventData p n l) s = (True, s\<lparr>callbacks := callbacks s @ map (delivery l) q, svc := v\<rparr>)"
  using assms(3-6)
proof (induction q arbitrary: n s)
  case Nil
  then obtain m where n: "n = Suc m" by (cases n) auto
  obtain r where r: "session (l_id l) (sessions (svc s)) = Some r" "registered (eventHandle r)" "eventsDataQueue r = []"
    "jhi_state (globals (svc s)) = JHI_INITIALIZED" "io (fsys (svc s)) = []"
    using Nil.prems(2) by (auto simp: pending_def)
  note none = no_event_served [OF r(4,5) assms(2) r(1,2,3), of env pf junk ks cs]
  have "run_state (retriveEventData p n l) s = (True, s\<lparr>svc := svc s\<rparr>)"
    using Nil.prems(1) none assms(1) by (simp add: n split_beta)
  then show ?case using Nil.prems(2) by auto
next
  case (Cons e q)
  then obtain m where n: "n = Suc m" by (cases n) auto
  obtain r where r: "session (l_id l) (sessions (svc s)) = Some r" "registered (eventHandle r)" "eventsDataQueue r = e # q"
    "jhi_state (globals (svc s)) = JHI_INITIALIZED" "io (fsys (svc s)) = []"
    using Cons.prems(2) by (auto simp: pending_def)
  let ?v = "(svc s)\<lparr>sessions := put_session (l_id l) (r\<lparr>eventsDataQueue := q\<rparr>) (sessions (svc s))\<rparr>"
  let ?s = "s\<lparr>svc := ?v, callbacks := callbacks s @ [delivery l e]\<rparr>"
  note one = get_event_served [OF r(4,5) assms(2) r(1,2,3), of env pf junk ks cs]
  have run: "run_state (retriveEventData p n l) s = run_state (retriveEventData p m l) ?s"
    using Cons.prems(1,3) one assms(1) by (simp add: n delivery_def)
  have "\<exists>v. pending (l_id l) [] v \<and>
      run_state (retriveEventData p m l) ?s = (True, ?s\<lparr>callbacks := callbacks ?s @ map (delivery l) q, svc := v\<rparr>)"
    using Cons.prems r n by (intro Cons.IH) (auto simp: pending_def)
  then show ?case unfolding run by auto
qed

section \<open>Properties\<close>

text \<open>
  C12: a listener that is woken delivers every event of its session: as soon as the loop may run more
  turns than the queue is long, it comes to its end, the application's callback has been called
  once for each queued event, in the order of the queue, with the event's data and type, and the
  session's queue in the service is empty.
\<close>

theorem listener_delivers_queue:
  assumes "channel p = socket_client env pf junk ks cs" "length (uuid_bytes (l_id l)) = 16"
    and "flag_heap s (l_flag l) = Some 0" "pending (l_id l) q (svc s)" "list_all deliverable q" "length q < n"
  shows "\<exists>v. pending (l_id l) [] v \<and>
    run_state (retriveEventData p n l) s = (True, s\<lparr>callbacks := callbacks s @ map (delivery l) q, svc := v\<rparr>)"
  using retrieve_all [OF assms] .

definition sample_proc :: "nat process" where
  "sample_proc = \<lparr> channel = socket_client sample_env sample_platform 7 [] [2], own_pid = 2, own_stat = None,
     uninit_id = sample_id 0 \<rparr>"

definition sample_listener :: listener where
  "sample_listener = \<lparr> l_session = 5, l_event = 6, l_flag = 7, l_id = sample_id 1, l_callback = 3 \<rparr>"

definition sample_event :: JHI_EVENT_DATA where
  "sample_event = \<lparr> datalen = 2, ev_data = Some [8, 9], dataType = JHI_DATA_FROM_APPLET \<rparr>"

definition sample_queue :: "nat jhi" where
  "sample_queue = (let s = sample_with [(1, 0, [2])] in
     s\<lparr>sessions := put_session (sample_id 1)
       ((the (session (sample_id 1) (sessions s)))\<lparr>eventsDataQueue := [sample_event],
         eventHandle := Some (JhiEvent_init\<lparr>is_created := True\<rparr>)\<rparr>) (sessions s)\<rparr>)"

theorem listener_delivers_queue_witness:
  "\<exists>v. run_state (retriveEventData sample_proc 2 sample_listener) ((lib_start sample_queue)\<lparr>flag_heap := [7 \<mapsto> 0]\<rparr>) =
    (True, (lib_start sample_queue)\<lparr>flag_heap := [7 \<mapsto> 0],
       callbacks := [\<lparr> e_session = 5, e_callback = 3, e_data = [8, 9], e_type = 0 \<rparr>], svc := v\<rparr>)"
proof -
  let ?s = "(lib_start sample_queue)\<lparr>flag_heap := [7 \<mapsto> 0]\<rparr>"
  have "jhi_state (globals (sample_with [(1, 0, [2])])) = JHI_INITIALIZED"
    "io (fsys (sample_with [(1, 0, [2])])) = []" "length (uuid_bytes (sample_id 1)) = 16"
    by code_simp+
  then have "pending (l_id sample_listener) [sample_event] (svc ?s)" "length (uuid_bytes (l_id sample_listener)) = 16"
    by (simp_all add: pending_def lib_start_def sample_listener_def sample_queue_def Let_def registered_def)
  moreover have "list_all deliverable [sample_event]" "flag_heap ?s (l_flag sample_listener) = Some 0"
    by (simp_all add: deliverable_def sample_event_def sample_listener_def)
  ultimately show ?thesis
    using listener_delivers_queue [of sample_proc sample_env sample_platform 7 "[]" "[2]" sample_listener ?s "[sample_event]" 2]
    by (auto simp: sample_proc_def delivery_def payload_def sample_event_def sample_listener_def lib_start_def)
qed

end
