(* ===== verification/Read_Write_Lock.thy ===== *)
theory Read_Write_Lock
  imports Jhi_Prelude "HOL-Library.Sublist"
begin

text \<open>
  The mutex class \<^verbatim>\<open>Locker\<close> (\<^verbatim>\<open>common/locker-pthread.cpp\<close>) and the lock between the commands of the
  clients and the resets of the service, \<^verbatim>\<open>ReadWriteLock\<close> (\<^verbatim>\<open>service/ReadWriteLockPThread.cpp\<close>), on any
  number of threads. A method of the lock is the list of its statements; a thread in a call has the
  rest of the list still to run, and the threads' statements interleave in any order. A mutex is
  recursive, as \<^verbatim>\<open>Locker\<close> makes it. \<^verbatim>\<open>pthread_cond_wait\<close> gives the mutex up, sleeps, and has to take it
  again when it is woken, by a signal or for no reason at all.
\<close>

section \<open>The mutex\<close>

record mutex =
  owner :: "nat option"
  depth :: nat

definition Locker_Init :: mutex where
  "Locker_Init = \<lparr>owner = None, depth = 0\<rparr>"

text \<open>\<open>None\<close>: the thread waits. Unlocking a mutex of another thread is refused and changes nothing.\<close>

definition Locker_Lock :: "nat \<Rightarrow> mutex \<Rightarrow> mutex option" where
  "Locker_Lock t m = (case owner m of
     None \<Rightarrow> Some \<lparr>owner = Some t, depth = 1\<rparr>
   | Some u \<Rightarrow> if u = t then Some (m\<lparr>depth := depth m + 1\<rparr>) else None)"

definition Locker_UnLock :: "nat \<Rightarrow> mutex \<Rightarrow> mutex" where
  "Locker_UnLock t m =
     (if owner m \<noteq> Some t then m
      else if depth m \<le> 1 then Locker_Init
      else m\<lparr>depth := depth m - 1\<rparr>)"

definition Locker_new :: "bool \<Rightarrow> nat \<Rightarrow> mutex option" where
  "Locker_new lockOnCreation t = (if lockOnCreation then Locker_Lock t Locker_Init else Some Locker_Init)"

section \<open>The methods of the lock\<close>

datatype instr = Lock_write | UnLock_write | Lock_read | UnLock_read
  | Inc_readers | Dec_readers | Signal_no_readers | Wait_no_readers

definition aquireReaderLock :: "instr list" where
  "aquireReaderLock = [Lock_write, Lock_read, Inc_readers, UnLock_read, UnLock_write]"

definition releaseReaderLock :: "instr list" where
  "releaseReaderLock = [Lock_read, Dec_readers, Signal_no_readers, UnLock_read]"

definition aquireWriterLock :: "instr list" where
  "aquireWriterLock = [Lock_write, Lock_read, Wait_no_readers, UnLock_read]"

definition releaseWriterLock :: "instr list" where
  "releaseWriterLock = [UnLock_write]"

lemmas rw_methods = aquireReaderLock_def releaseReaderLock_def aquireWriterLock_def releaseWriterLock_def

text \<open>What a thread holds, or is about to hold while it still has statements of the call to run.\<close>

datatype role = Outside | Reader | Writer

record rw_thread =
  hold :: role
  todo :: "instr list"
  asleep :: bool

record rw_lock =
  write_lock :: mutex
  read_lock :: mutex
  readers_count :: uint32
  thr :: "nat \<Rightarrow> rw_thread"

definition idle_thread :: rw_thread where
  "idle_thread = \<lparr>hold = Outside, todo = [], asleep = False\<rparr>"

definition ReadWriteLock :: rw_lock where
  "ReadWriteLock = \<lparr>write_lock = Locker_Init, read_lock = Locker_Init, readers_count = 0, thr = \<lambda>_. idle_thread\<rparr>"

definition on_thread :: "nat \<Rightarrow> (rw_thread \<Rightarrow> rw_thread) \<Rightarrow> rw_lock \<Rightarrow> rw_lock" where
  "on_thread t f l = l\<lparr>thr := (thr l)(t := f (thr l t))\<rparr>"

definition pop :: "nat \<Rightarrow> rw_lock \<Rightarrow> rw_lock" where
  "pop t = on_thread t (\<lambda>th. th\<lparr>todo := tl (todo th)\<rparr>)"

definition wake :: "nat \<Rightarrow> rw_lock \<Rightarrow> rw_lock" where
  "wake t = on_thread t (\<lambda>th. th\<lparr>asleep := False\<rparr>)"

definition fall_asleep :: "nat \<Rightarrow> rw_lock \<Rightarrow> rw_lock" where
  "fall_asleep t l = on_thread t (\<lambda>th. th\<lparr>todo := Lock_read # todo th, asleep := True\<rparr>)
     (l\<lparr>read_lock := Locker_UnLock t (read_lock l)\<rparr>)"

text \<open>\<^verbatim>\<open>pthread_cond_signal\<close> wakes one of the threads that sleep, if there is one.\<close>

definition cond_signal :: "nat \<Rightarrow> rw_lock \<Rightarrow> rw_lock list" where
  "cond_signal n l = (case filter (\<lambda>u. asleep (thr l u)) [0..<n] of
     [] \<Rightarrow> [l]
   | us \<Rightarrow> map (\<lambda>u. wake u l) us)"

text \<open>One statement of thread \<open>t\<close> out of \<open>n\<close> threads: the states it may lead to, none if it has to wait.\<close>

fun exec :: "nat \<Rightarrow> nat \<Rightarrow> instr \<Rightarrow> rw_lock \<Rightarrow> rw_lock list" where
  "exec n t Lock_write l = (case Locker_Lock t (write_lock l) of
     None \<Rightarrow> [] | Some m \<Rightarrow> [pop t (l\<lparr>write_lock := m\<rparr>)])"
| "exec n t UnLock_write l = [pop t (l\<lparr>write_lock := Locker_UnLock t (write_lock l)\<rparr>)]"
| "exec n t Lock_read l = (case Locker_Lock t (read_lock l) of
     None \<Rightarrow> [] | Some m \<Rightarrow> [pop t (l\<lparr>read_lock := m\<rparr>)])"
| "exec n t UnLock_read l = [pop t (l\<lparr>read_lock := Locker_UnLock t (read_lock l)\<rparr>)]"
| "exec n t Inc_readers l = [pop t (l\<lparr>readers_count := readers_count l + 1\<rparr>)]"
| "exec n t Dec_readers l = [pop t (l\<lparr>readers_count := readers_count l - 1\<rparr>)]"
| "exec n t Signal_no_readers l = (if readers_count l = 0 then cond_signal n (pop t l) else [pop t l])"
| "exec n t Wait_no_readers l = (if readers_count l > 0 then [fall_asleep t l] else [pop t l])"

definition run_thread :: "nat \<Rightarrow> nat \<Rightarrow> rw_lock \<Rightarrow> rw_lock list" where
  "run_thread n t l = (case todo (thr l t) of
     [] \<Rightarrow> []
   | i # is \<Rightarrow> if asleep (thr l t) then [] else exec n t i l)"

section \<open>Calls and steps\<close>

text \<open>
  The calls a thread may make, by what it holds: the service takes and gives back each lock in
  turn (\<^verbatim>\<open>processCommand\<close>, \<^verbatim>\<open>JhiReset\<close>, \<^verbatim>\<open>jhi_invoke_reset\<close>) and never takes a second one.
\<close>

definition rw_calls :: "role \<Rightarrow> (role \<times> instr list) list" where
  "rw_calls r = (case r of
     Outside \<Rightarrow> [(Reader, aquireReaderLock), (Writer, aquireWriterLock)]
   | Reader \<Rightarrow> [(Outside, releaseReaderLock)]
   | Writer \<Rightarrow> [(Outside, releaseWriterLock)])"

definition internal :: "nat \<Rightarrow> rw_lock \<Rightarrow> rw_lock \<Rightarrow> bool" where
  "internal n l l' \<longleftrightarrow> (\<exists>t<n. l' \<in> set (run_thread n t l))"

inductive rw_step :: "nat \<Rightarrow> rw_lock \<Rightarrow> rw_lock \<Rightarrow> bool" for n where
  rw_call: "t < n \<Longrightarrow> todo (thr l t) = [] \<Longrightarrow> (r, p) \<in> set (rw_calls (hold (thr l t))) \<Longrightarrow>
     rw_step n l (on_thread t (\<lambda>th. th\<lparr>hold := r, todo := p\<rparr>) l)"
| rw_internal: "internal n l l' \<Longrightarrow> rw_step n l l'"
| rw_spurious: "t < n \<Longrightarrow> asleep (thr l t) \<Longrightarrow> rw_step n l (wake t l)"

inductive rw_reach :: "nat \<Rightarrow> rw_lock \<Rightarrow> bool" for n where
  rw_start: "rw_reach n ReadWriteLock"
| rw_next: "rw_reach n l \<Longrightarrow> rw_step n l l' \<Longrightarrow> rw_reach n l'"

definition reading :: "nat \<Rightarrow> rw_lock \<Rightarrow> bool" where
  "reading t l \<longleftrightarrow> hold (thr l t) = Reader \<and> todo (thr l t) = []"

definition writing :: "nat \<Rightarrow> rw_lock \<Rightarrow> bool" where
  "writing t l \<longleftrightarrow> hold (thr l t) = Writer \<and> todo (thr l t) = []"

section \<open>The invariant\<close>

text \<open>What the place of a thread in its call says about the locks and the count.\<close>

definition wf_thread :: "rw_thread \<Rightarrow> bool" where
  "wf_thread th \<longleftrightarrow>
     todo th \<in> set (case hold th of
         Reader \<Rightarrow> suffixes aquireReaderLock
       | Writer \<Rightarrow> suffixes aquireWriterLock
       | Outside \<Rightarrow> suffixes releaseReaderLock @ suffixes releaseWriterLock)
     \<and> (asleep th \<longrightarrow> hold th = Writer \<and> todo th = tl aquireWriterLock)"

definition has_write :: "rw_thread \<Rightarrow> bool" where
  "has_write th \<longleftrightarrow> Lock_write \<notin> set (todo th) \<and> (UnLock_write \<in> set (todo th) \<or> hold th = Writer)"

definition has_read :: "rw_thread \<Rightarrow> bool" where
  "has_read th \<longleftrightarrow> Lock_read \<notin> set (todo th) \<and> UnLock_read \<in> set (todo th)"

definition counted :: "rw_thread \<Rightarrow> bool" where
  "counted th \<longleftrightarrow> hold th = Reader \<and> Inc_readers \<notin> set (todo th) \<or> Dec_readers \<in> set (todo th)"

definition signalling :: "rw_thread \<Rightarrow> bool" where
  "signalling th \<longleftrightarrow> Signal_no_readers \<in> set (todo th) \<and> Dec_readers \<notin> set (todo th)"

definition past_wait :: "rw_thread \<Rightarrow> bool" where
  "past_wait th \<longleftrightarrow> hold th = Writer \<and> Wait_no_readers \<notin> set (todo th)"

lemmas place_defs = has_write_def has_read_def counted_def signalling_def past_wait_def

definition held_by :: "(rw_thread \<Rightarrow> bool) \<Rightarrow> (nat \<Rightarrow> rw_thread) \<Rightarrow> mutex \<Rightarrow> bool" where
  "held_by H th m \<longleftrightarrow> (\<forall>t. owner m = Some t \<longleftrightarrow> H (th t)) \<and> depth m = (if owner m = None then 0 else 1)"

definition rw_inv :: "nat \<Rightarrow> rw_lock \<Rightarrow> bool" where
  "rw_inv n l \<longleftrightarrow>
     (\<forall>t. wf_thread (thr l t)) \<and> (\<forall>t. n \<le> t \<longrightarrow> thr l t = idle_thread)
     \<and> held_by has_write (thr l) (write_lock l) \<and> held_by has_read (thr l) (read_lock l)
     \<and> unat (readers_count l) = card {t. t < n \<and> counted (thr l t)}
     \<and> (\<forall>t. asleep (thr l t) \<longrightarrow> readers_count l \<noteq> 0 \<or> (\<exists>u. signalling (thr l u)))
     \<and> (\<forall>t. past_wait (thr l t) \<longrightarrow> readers_count l = 0)"

lemma wf_thread_cases:
  assumes "wf_thread th"
  obtains (reader) "hold th = Reader" "\<not> asleep th" "todo th \<in> set (suffixes aquireReaderLock)"
  | (writer) "hold th = Writer" "\<not> asleep th" "todo th \<in> set (suffixes aquireWriterLock)"
  | (sleeping) "hold th = Writer" "asleep th" "todo th = [Lock_read, Wait_no_readers, UnLock_read]"
  | (leaving) "hold th = Outside" "\<not> asleep th" "todo th \<in> set (suffixes releaseReaderLock)"
  | (left) "hold th = Outside" "\<not> asleep th" "todo th \<in> set (suffixes releaseWriterLock)"
  using assms unfolding wf_thread_def by (cases "hold th"; cases "asleep th") (auto simp: aquireWriterLock_def)

definition popped :: "rw_thread \<Rightarrow> rw_thread" where
  "popped th = th\<lparr>todo := tl (todo th)\<rparr>"

lemma place_pop:
  assumes "wf_thread th" "\<not> asleep th" "todo th = i # is"
  shows place_pop_wf: "wf_thread (popped th)" and place_pop_awake: "\<not> asleep (popped th)"
    and place_pop_write: "i \<notin> {Lock_write, UnLock_write} \<Longrightarrow> has_write (popped th) = has_write th"
    and place_pop_lock_write: "i = Lock_write \<Longrightarrow> \<not> has_write th \<and> has_write (popped th)"
    and place_pop_unlock_write: "i = UnLock_write \<Longrightarrow> has_write th \<and> \<not> has_write (popped th)"
    and place_pop_read: "i \<notin> {Lock_read, UnLock_read} \<Longrightarrow> has_read (popped th) = has_read th"
    and place_pop_lock_read: "i = Lock_read \<Longrightarrow> \<not> has_read th \<and> has_read (popped th)"
    and place_pop_unlock_read: "i = UnLock_read \<Longrightarrow> has_read th \<and> \<not> has_read (popped th)"
    and place_pop_counted: "i \<notin> {Inc_readers, Dec_readers} \<Longrightarrow> counted (popped th) = counted th"
    and place_pop_inc: "i = Inc_readers \<Longrightarrow> \<not> counted th \<and> counted (popped th) \<and> has_write th \<and> hold th = Reader"
    and place_pop_dec: "i = Dec_readers \<Longrightarrow> counted th \<and> \<not> counted (popped th)"
    and place_pop_signalling: "signalling (popped th) \<longleftrightarrow> i = Dec_readers" "signalling th \<longleftrightarrow> i = Signal_no_readers"
    and place_pop_past_wait: "past_wait (popped th) \<longleftrightarrow> past_wait th \<or> i = Wait_no_readers"
    and place_pop_count_locked:
      "i \<in> {Inc_readers, Dec_readers, Signal_no_readers, Wait_no_readers} \<Longrightarrow> has_read th"
  using assms
  by (elim wf_thread_cases; auto simp: rw_methods place_defs popped_def wf_thread_def)+

lemma past_wait_writer: "wf_thread th \<Longrightarrow> past_wait th \<Longrightarrow> has_write th \<and> hold th = Writer"
  by (elim wf_thread_cases) (auto simp: rw_methods place_defs)

lemma asleep_writer: "wf_thread th \<Longrightarrow> asleep th \<Longrightarrow> has_write th \<and> hold th = Writer"
  by (elim wf_thread_cases) (auto simp: rw_methods place_defs)

lemma held_same: "held_by H f m \<Longrightarrow> H th = H (f t) \<Longrightarrow> held_by H (f(t := th)) m"
  by (simp add: held_by_def)

lemma held_lock:
  "held_by H f m \<Longrightarrow> Locker_Lock t m = Some m' \<Longrightarrow> \<not> H (f t) \<Longrightarrow> H th \<Longrightarrow> held_by H (f(t := th)) m'"
  by (auto simp: held_by_def Locker_Lock_def split: option.splits if_splits)

lemma held_unlock: "held_by H f m \<Longrightarrow> H (f t) \<Longrightarrow> \<not> H th \<Longrightarrow> held_by H (f(t := th)) (Locker_UnLock t m)"
  by (auto simp: held_by_def Locker_UnLock_def Locker_Init_def split: if_splits) (metis option.inject)

lemma held_unique: "held_by H f m \<Longrightarrow> H (f t) \<Longrightarrow> H (f u) \<Longrightarrow> t = u"
  by (metis held_by_def option.inject)

lemma count_upd:
  fixes n :: nat
  assumes "t < n"
  shows "card {u. u < n \<and> P ((f(t := x)) u)} = card {u. u < n \<and> P (f u)} + of_bool (P x) - of_bool (P (f t))"
proof -
  let ?R = "{u. u < n \<and> u \<noteq> t \<and> P (f u)}"
  have "{u. u < n \<and> P ((f(t := x)) u)} = (if P x then insert t ?R else ?R)"
    "{u. u < n \<and> P (f u)} = (if P (f t) then insert t ?R else ?R)"
    using assms by auto
  then show ?thesis by simp
qed

lemma count_pos: "t < (n :: nat) \<Longrightarrow> P t \<Longrightarrow> 0 < card {u. u < n \<and> P u}"
  by (auto simp: card_gt_0_iff)

lemma count_less: "t < (n :: nat) \<Longrightarrow> \<not> P t \<Longrightarrow> card {u. u < n \<and> P u} < n"
  using psubset_card_mono [of "{..<n}" "{u. u < n \<and> P u}"] by auto

lemma rw_invD:
  assumes "rw_inv n l"
  shows "wf_thread (thr l t)" "n \<le> t \<Longrightarrow> thr l t = idle_thread"
    "held_by has_write (thr l) (write_lock l)" "held_by has_read (thr l) (read_lock l)"
    "unat (readers_count l) = card {t. t < n \<and> counted (thr l t)}"
    "asleep (thr l t) \<Longrightarrow> readers_count l \<noteq> 0 \<or> (\<exists>u. signalling (thr l u))"
    "past_wait (thr l t) \<Longrightarrow> readers_count l = 0"
  using assms by (auto simp: rw_inv_def)

lemma pop_eq: "pop t l = l\<lparr>thr := (thr l)(t := popped (thr l t))\<rparr>"
  by (simp add: pop_def on_thread_def popped_def)

text \<open>Any statement but a signal that wakes a thread, and falling asleep.\<close>

lemma inv_pop:
  assumes "rw_inv n l" "t < n" "todo (thr l t) = i # is" "\<not> asleep (thr l t)"
    and "held_by has_write ((thr l)(t := popped (thr l t))) w" "held_by has_read ((thr l)(t := popped (thr l t))) r"
    and "unat c = card {u. u < n \<and> counted (((thr l)(t := popped (thr l t))) u)}"
    and "i \<notin> {Inc_readers, Dec_readers} \<Longrightarrow> c = readers_count l"
    and "i = Signal_no_readers \<Longrightarrow> readers_count l = 0 \<Longrightarrow> \<forall>u<n. \<not> asleep (thr l u)"
    and "i = Wait_no_readers \<Longrightarrow> readers_count l = 0"
  shows "rw_inv n (pop t (l\<lparr>write_lock := w, read_lock := r, readers_count := c\<rparr>))"
proof -
  note I = rw_invD [OF assms(1)] and P = rw_invD(1) [OF assms(1), of t] assms(4,3)
  let ?f = "(thr l)(t := popped (thr l t))"
  have "wf_thread (?f u)" "n \<le> u \<Longrightarrow> ?f u = idle_thread" for u using place_pop_wf [OF P] I(1,2) assms(2) by auto
  moreover have "c \<noteq> 0 \<or> (\<exists>u. signalling (?f u))" if u: "asleep (?f u)" for u
  proof (cases "i = Dec_readers")
    case True
    then show ?thesis using place_pop_signalling(1) [OF P] by (metis fun_upd_same)
  next
    case False
    have ut: "asleep (thr l u)" "u \<noteq> t" using u place_pop_awake [OF P] by (auto split: if_splits)
    then have un: "u < n" using I(2) [of u] by (cases "u < n") (auto simp: idle_thread_def)
    show ?thesis
    proof (cases "i = Inc_readers")
      case True
      then have "0 < unat c"
        using place_pop_inc [OF P] assms(2,7) count_pos [of t n "\<lambda>u. counted (?f u)"] by simp
      then show ?thesis by auto
    next
      case False
      then have "c = readers_count l" using \<open>i \<noteq> Dec_readers\<close> assms(8) by simp
      moreover have "readers_count l = 0 \<Longrightarrow> \<exists>v. v \<noteq> t \<and> signalling (thr l v)"
        using I(6) [OF ut(1)] place_pop_signalling(2) [OF P] assms(9) ut(1) un by metis
      ultimately show ?thesis by auto
    qed
  qed
  moreover have "c = 0" if u: "past_wait (?f u)" for u
  proof -
    have w: "has_write (?f u) \<and> hold (?f u) = Writer" using u calculation(1) past_wait_writer by blast
    have r: "readers_count l = 0" using u I(7) [of u] I(7) [of t] place_pop_past_wait [OF P] assms(10) by (auto split: if_splits)
    have "i \<noteq> Inc_readers"
    proof
      assume i: "i = Inc_readers"
      then have "hold (thr l t) = Reader" "has_write (?f t)"
        using place_pop_inc [OF P] place_pop_write [OF P] by auto
      then have "u = t" using w held_unique [OF assms(5)] by blast
      then show False using w \<open>hold (thr l t) = Reader\<close> by (simp add: popped_def)
    qed
    moreover have "i \<noteq> Dec_readers"
      using r I(5) place_pop_dec [OF P] count_pos [of t n "\<lambda>u. counted (thr l u)"] assms(2) by auto
    ultimately show ?thesis using assms(8) r by simp
  qed
  ultimately show ?thesis using assms(5-7) by (simp add: rw_inv_def pop_eq)
qed

lemma count_pop:
  assumes "rw_inv n l" "t < n" "todo (thr l t) = i # is" "\<not> asleep (thr l t)" "n < 2 ^ 32"
  shows "card {u. u < n \<and> counted (((thr l)(t := popped (thr l t))) u)} =
    unat (if i = Inc_readers then readers_count l + 1 else if i = Dec_readers then readers_count l - 1 else readers_count l)"
proof -
  note I = rw_invD [OF assms(1)] and P = rw_invD(1) [OF assms(1), of t] assms(4,3)
  note upd = count_upd [OF assms(2), of counted "thr l" "popped (thr l t)"]
  consider "i = Inc_readers" | "i = Dec_readers" | "i \<notin> {Inc_readers, Dec_readers}" by auto
  then show ?thesis
  proof cases
    case 1
    have "unat (readers_count l) < n" using I(5) count_less [OF assms(2)] place_pop_inc [OF P 1] by metis
    then have "unat (readers_count l + 1) = Suc (unat (readers_count l))"
      using assms(5) by (simp add: unat_word_ariths)
    then show ?thesis using 1 upd I(5) place_pop_inc [OF P 1] by simp
  next
    case 2
    have "0 < unat (readers_count l)" using I(5) count_pos [OF assms(2)] place_pop_dec [OF P 2] by metis
    then have "unat (readers_count l - 1) = unat (readers_count l) - 1" by (simp add: unat_minus_one unat_gt_0)
    then show ?thesis using 2 upd I(5) place_pop_dec [OF P 2] by simp
  next
    case 3
    then show ?thesis using upd I(5) place_pop_counted [OF P 3] by simp
  qed
qed

lemma sleeper_unique:
  assumes "rw_inv n l" "asleep (thr l t)" "asleep (thr l u)"
  shows "t = u"
  using assms held_unique [OF rw_invD(3)] asleep_writer rw_invD(1) by meson

lemma inv_wake:
  assumes "rw_inv n l" "asleep (thr l t)"
  shows "rw_inv n (wake t l)"
proof -
  let ?th = "(thr l t)\<lparr>asleep := False\<rparr>"
  note I = rw_invD [OF assms(1)]
  have same: "has_write ?th = has_write (thr l t)" "has_read ?th = has_read (thr l t)" "counted ?th = counted (thr l t)"
    "signalling ?th = signalling (thr l t)" "past_wait ?th = past_wait (thr l t)"
    by (simp_all add: place_defs)
  have t: "t < n" using I(2) [of t] assms(2) by (cases "t < n") (auto simp: idle_thread_def)
  have "wf_thread ?th" using I(1) [of t] by (simp add: wf_thread_def)
  moreover have "\<not> asleep (((thr l)(t := ?th)) u)" for u
    using sleeper_unique [OF assms] by auto
  moreover have "card {u. u < n \<and> counted (((thr l)(t := ?th)) u)} = unat (readers_count l)"
    using count_upd [OF t, of counted "thr l" ?th] I(5) same by simp
  ultimately show ?thesis
    using I(1,2) I(7) t same held_same [OF I(3), of ?th t] held_same [OF I(4), of ?th t]
    by (auto simp: rw_inv_def wake_def on_thread_def)
qed

lemma inv_fall_asleep:
  assumes "rw_inv n l" "todo (thr l t) = Wait_no_readers # is" "\<not> asleep (thr l t)" "readers_count l > 0" "t < n"
  shows "rw_inv n (fall_asleep t l)"
proof -
  let ?th = "(thr l t)\<lparr>todo := Lock_read # todo (thr l t), asleep := True\<rparr>"
  note I = rw_invD [OF assms(1)]
  have th: "wf_thread ?th" "has_write ?th = has_write (thr l t)" "has_read (thr l t)" "\<not> has_read ?th"
    "counted ?th = counted (thr l t)" "\<not> past_wait ?th"
    using I(1) [of t] assms(2,3) by (elim wf_thread_cases; auto simp: rw_methods place_defs wf_thread_def)+
  have "card {u. u < n \<and> counted (((thr l)(t := ?th)) u)} = unat (readers_count l)"
    using count_upd [OF assms(5), of counted "thr l" ?th] I(5) th by simp
  moreover have "readers_count l \<noteq> 0" using assms(4) by auto
  moreover have "held_by has_read ((thr l)(t := ?th)) (Locker_UnLock t (read_lock l))"
    using held_unlock [OF I(4)] th(3,4) by blast
  ultimately show ?thesis
    using I(1,2) I(7) th assms(5) held_same [OF I(3), of ?th t]
    by (auto simp: rw_inv_def fall_asleep_def on_thread_def)
qed

lemma inv_call:
  assumes "rw_inv n l" "t < n" "todo (thr l t) = []" "(r, p) \<in> set (rw_calls (hold (thr l t)))"
  shows "rw_inv n (on_thread t (\<lambda>th. th\<lparr>hold := r, todo := p\<rparr>) l)"
proof -
  let ?th = "(thr l t)\<lparr>hold := r, todo := p\<rparr>"
  note I = rw_invD [OF assms(1)]
  have th: "wf_thread ?th" "has_write ?th = has_write (thr l t)" "has_read ?th = has_read (thr l t)"
    "counted ?th = counted (thr l t)" "\<not> past_wait ?th" "\<not> asleep ?th" "\<not> signalling (thr l t)"
    using I(1) [of t] assms(3,4)
    by (elim wf_thread_cases; auto simp: rw_methods place_defs wf_thread_def rw_calls_def)+
  have "card {u. u < n \<and> counted (((thr l)(t := ?th)) u)} = unat (readers_count l)"
    using count_upd [OF assms(2), of counted "thr l" ?th] I(5) th by simp
  moreover have "readers_count l \<noteq> 0 \<or> (\<exists>v. signalling (((thr l)(t := ?th)) v))" if "asleep (((thr l)(t := ?th)) u)" for u
  proof -
    have "asleep (thr l u)" using that th(6) by (auto split: if_splits)
    then show ?thesis using I(6) th(7) by (metis fun_upd_other)
  qed
  ultimately show ?thesis
    using I(1,2) I(7) th(1-5) assms(2) held_same [OF I(3), of ?th t] held_same [OF I(4), of ?th t]
    by (simp add: rw_inv_def on_thread_def) blast
qed

lemma inv_pop_plain:
  assumes "rw_inv n l" "t < n" "todo (thr l t) = i # is" "\<not> asleep (thr l t)" "n < 2 ^ 32"
    and "i = Signal_no_readers \<and> (readers_count l = 0 \<longrightarrow> (\<forall>u<n. \<not> asleep (thr l u)))
      \<or> i = Wait_no_readers \<and> readers_count l = 0"
  shows "rw_inv n (pop t l)"
proof -
  note I = rw_invD [OF assms(1)] and P = rw_invD(1) [OF assms(1), of t] assms(4,3)
  have "held_by has_write ((thr l)(t := popped (thr l t))) (write_lock l)"
    "held_by has_read ((thr l)(t := popped (thr l t))) (read_lock l)"
    using assms(6) held_same [OF I(3)] place_pop_write [OF P] held_same [OF I(4)] place_pop_read [OF P] by auto
  then have "rw_inv n (pop t (l\<lparr>write_lock := write_lock l, read_lock := read_lock l, readers_count := readers_count l\<rparr>))"
    using assms count_pop [OF assms(1-5)] by (intro inv_pop) auto
  then show ?thesis by simp
qed

lemma set_cond_signal:
  "set (cond_signal n l) =
     (if \<forall>u<n. \<not> asleep (thr l u) then {l} else (\<lambda>u. wake u l) ` {u. u < n \<and> asleep (thr l u)})"
proof (cases "filter (\<lambda>u. asleep (thr l u)) [0..<n]")
  case Nil
  then show ?thesis by (auto simp: cond_signal_def filter_empty_conv)
next
  case (Cons u us)
  then have "set (u # us) = {u. u < n \<and> asleep (thr l u)}"
    by (metis (mono_tags, lifting) Collect_cong atLeastLessThan_iff set_filter set_upt zero_le)
  then show ?thesis using Cons by (auto simp: cond_signal_def)
qed

lemma inv_signal:
  assumes "rw_inv n l" "t < n" "todo (thr l t) = Signal_no_readers # is" "\<not> asleep (thr l t)" "n < 2 ^ 32"
    and "l' \<in> set (cond_signal n (pop t l))"
  shows "rw_inv n l'"
proof -
  have same: "asleep (thr (pop t l) u) = asleep (thr l u)" for u by (simp add: pop_eq popped_def)
  show ?thesis
  proof (cases "\<forall>u<n. \<not> asleep (thr l u)")
    case True
    then have "l' = pop t l" using assms(6) by (simp add: set_cond_signal same)
    then show ?thesis using inv_pop_plain [OF assms(1-5)] True by simp
  next
    case False
    then have "l' \<in> (\<lambda>u. wake u (pop t l)) ` {u. u < n \<and> asleep (thr l u)}"
      using assms(6) unfolding set_cond_signal same by (simp only: if_False)
    then obtain v where v: "asleep (thr l v)" "l' = wake v (pop t l)" by blast
    have vt: "v \<noteq> t" using v(1) assms(4) by auto
    then have "l' = pop t (wake v l)" using v(2) by (simp add: wake_def pop_eq on_thread_def fun_upd_twist)
    moreover have "thr (wake v l) t = thr l t" "\<forall>u<n. \<not> asleep (thr (wake v l) u)"
      using vt sleeper_unique [OF assms(1) v(1)] by (auto simp: wake_def on_thread_def)
    ultimately show ?thesis
      using inv_pop_plain [OF inv_wake [OF assms(1) v(1)] assms(2) _ _ assms(5)] assms(3,4) by simp
  qed
qed

lemma inv_mutex:
  assumes "rw_inv n l" "t < n" "todo (thr l t) = i # is" "\<not> asleep (thr l t)" "n < 2 ^ 32"
    and "i \<in> {Lock_write, UnLock_write, Lock_read, UnLock_read, Inc_readers, Dec_readers}" "l' \<in> set (exec n t i l)"
  shows "rw_inv n l'"
proof -
  note I = rw_invD [OF assms(1)] and P = rw_invD(1) [OF assms(1), of t] assms(4,3)
  let ?c = "if i = Inc_readers then readers_count l + 1 else if i = Dec_readers then readers_count l - 1 else readers_count l"
  obtain w r where wr: "l' = pop t (l\<lparr>write_lock := w, read_lock := r, readers_count := ?c\<rparr>)"
    "held_by has_write ((thr l)(t := popped (thr l t))) w" "held_by has_read ((thr l)(t := popped (thr l t))) r"
  proof -
    have "held_by has_write ((thr l)(t := popped (thr l t))) (write_lock l')
      \<and> held_by has_read ((thr l)(t := popped (thr l t))) (read_lock l')
      \<and> l' = pop t (l\<lparr>write_lock := write_lock l', read_lock := read_lock l', readers_count := ?c\<rparr>)"
      using assms(6,7) held_same [OF I(3), of "popped (thr l t)" t] held_same [OF I(4), of "popped (thr l t)" t]
        place_pop_write [OF P] place_pop_read [OF P] place_pop_lock_write [OF P] place_pop_unlock_write [OF P]
        place_pop_lock_read [OF P] place_pop_unlock_read [OF P]
        held_lock [OF I(3), of t _ "popped (thr l t)"] held_lock [OF I(4), of t _ "popped (thr l t)"]
        held_unlock [OF I(3), of t "popped (thr l t)"] held_unlock [OF I(4), of t "popped (thr l t)"]
      by (elim insertE emptyE) (auto simp: pop_eq split: option.splits)
    then show ?thesis using that by blast
  qed
  show ?thesis unfolding wr(1) using assms count_pop [OF assms(1-5)] wr(2,3) by (intro inv_pop) auto
qed

lemma internalE:
  assumes "internal n l l'"
  obtains t i "is" where "t < n" "todo (thr l t) = i # is" "\<not> asleep (thr l t)" "l' \<in> set (exec n t i l)"
proof -
  obtain t where t: "t < n" "l' \<in> set (run_thread n t l)" using assms by (auto simp: internal_def)
  then show ?thesis using that [of t] by (cases "todo (thr l t)") (auto simp: run_thread_def split: if_splits)
qed

lemma inv_step:
  assumes "rw_step n l l'" "rw_inv n l" "n < 2 ^ 32"
  shows "rw_inv n l'"
  using assms(1)
proof cases
  case (rw_call t r p)
  then show ?thesis using inv_call assms(2) by blast
next
  case rw_internal
  then obtain t i "is" where t: "t < n" "todo (thr l t) = i # is" "\<not> asleep (thr l t)" "l' \<in> set (exec n t i l)"
    by (elim internalE)
  note plain = inv_pop_plain [OF assms(2) t(1-3) assms(3)] and sig = inv_signal [OF assms(2) t(1) _ t(3) assms(3)]
    and sleep = inv_fall_asleep [OF assms(2) _ t(3) _ t(1)]
  show ?thesis
    using t inv_mutex [OF assms(2) t(1-3) assms(3) _ t(4)] plain sig sleep
    by (cases i) (auto simp: word_gt_0 split: if_splits)
next
  case (rw_spurious t)
  then show ?thesis using inv_wake assms(2) by blast
qed

lemma reach_inv: "rw_reach n l \<Longrightarrow> n < 2 ^ 32 \<Longrightarrow> rw_inv n l"
proof (induction rule: rw_reach.induct)
  case rw_start
  show ?case
    by (simp add: rw_inv_def ReadWriteLock_def idle_thread_def wf_thread_def held_by_def Locker_Init_def place_defs rw_methods)
next
  case (rw_next l l')
  then show ?case using inv_step by blast
qed

section \<open>Progress\<close>

text \<open>
  How many statements a thread can still run before its call returns, if no thread makes a new call:
  a writer sleeps at most once, since no reader enters while it waits. \<open>z\<close>: there are no readers.
\<close>

definition weight :: "bool \<Rightarrow> rw_thread \<Rightarrow> nat" where
  "weight z th =
     (if hold th = Writer \<and> Wait_no_readers \<in> set (todo th) then
        if Lock_write \<in> set (todo th) then 7
        else if asleep th then 4
        else if z then length (todo th) else length (todo th) + 3
      else length (todo th))"

definition work :: "nat \<Rightarrow> rw_lock \<Rightarrow> nat" where
  "work n l = (\<Sum>t<n. weight (readers_count l = 0) (thr l t))"

lemma weight_le: "wf_thread th \<Longrightarrow> weight z th \<le> 7"
  by (elim wf_thread_cases) (auto simp: rw_methods weight_def)

lemma weight_zero: "wf_thread th \<Longrightarrow> weight True th \<le> weight z th"
  by (elim wf_thread_cases) (auto simp: rw_methods weight_def)

lemma weight_no_write: "\<not> has_write th \<Longrightarrow> weight z th = weight z' th"
  by (auto simp: weight_def has_write_def)

lemma weight_pop:
  assumes "wf_thread th" "\<not> asleep th" "todo th = i # is" "i = Wait_no_readers \<Longrightarrow> z"
  shows "weight z (popped th) < weight z th"
  using assms by (elim wf_thread_cases) (auto simp: rw_methods weight_def popped_def)

lemma weight_reader: "hold th = Reader \<Longrightarrow> weight z th = weight z' th" "hold (popped th) = hold th"
  by (simp_all add: weight_def popped_def)

lemma work_less:
  assumes "\<And>u. u < n \<Longrightarrow> weight (readers_count l' = 0) (thr l' u) \<le> weight (readers_count l = 0) (thr l u)"
    and "t < n" "weight (readers_count l' = 0) (thr l' t) < weight (readers_count l = 0) (thr l t)"
  shows "work n l' < work n l"
  unfolding work_def using assms by (intro sum_strict_mono_ex1) auto

lemma work_pop:
  assumes "rw_inv n l" "t < n" "todo (thr l t) = i # is" "\<not> asleep (thr l t)"
    and "thr l' = (thr l)(t := popped (thr l t))"
    and "readers_count l' = readers_count l \<and> (i = Wait_no_readers \<longrightarrow> readers_count l = 0)
      \<or> i = Inc_readers \<or> i = Dec_readers \<and> readers_count l \<noteq> 0"
  shows "work n l' < work n l"
proof -
  note I = rw_invD [OF assms(1)] and P = rw_invD(1) [OF assms(1), of t] assms(4,3)
  let ?z = "readers_count l = 0" and ?z' = "readers_count l' = 0"
  have other: "weight ?z' (thr l u) \<le> weight ?z (thr l u)" if "u \<noteq> t" for u
  proof (cases "i = Inc_readers")
    case True
    then have "\<not> has_write (thr l u)" using place_pop_inc [OF P] held_unique [OF I(3)] that by blast
    then show ?thesis using weight_no_write eq_imp_le by blast
  next
    case False
    then show ?thesis using assms(6) weight_zero [OF I(1) [of u], of False] by (cases ?z') auto
  qed
  have "weight ?z' (popped (thr l t)) < weight ?z (thr l t)"
  proof (cases "readers_count l' = readers_count l \<and> (i = Wait_no_readers \<longrightarrow> readers_count l = 0)")
    case True
    then show ?thesis using weight_pop [OF P, of ?z] by simp
  next
    case False
    then have "i = Inc_readers \<or> i = Dec_readers" using assms(6) by blast
    then have "weight ?z' (popped (thr l t)) = weight ?z (popped (thr l t))" "i \<noteq> Wait_no_readers"
      using I(1) [of t] assms(3) by (elim wf_thread_cases; auto simp: rw_methods weight_def popped_def)+
    then show ?thesis using weight_pop [OF P, of ?z] by simp
  qed
  then show ?thesis using assms(2,5) other by (intro work_less [of n l' l t]) auto
qed

lemma work_wake:
  assumes "rw_inv n l" "asleep (thr l t)" "readers_count l = 0"
  shows "work n (wake t l) \<le> work n l"
proof -
  have "weight True ((thr l t)\<lparr>asleep := False\<rparr>) \<le> weight True (thr l t)"
    using rw_invD(1) [OF assms(1), of t] assms(2) by (elim wf_thread_cases) (auto simp: weight_def)
  then show ?thesis unfolding work_def using assms(3) by (intro sum_mono) (auto simp: wake_def on_thread_def)
qed

lemma internal_work:
  assumes "rw_inv n l" "n < 2 ^ 32" "internal n l l'"
  shows "work n l' < work n l"
proof -
  obtain t i "is" where t: "t < n" "todo (thr l t) = i # is" "\<not> asleep (thr l t)" "l' \<in> set (exec n t i l)"
    using assms(3) by (elim internalE)
  note I = rw_invD [OF assms(1)] and P = rw_invD(1) [OF assms(1), of t] t(3,2)
  note wp = work_pop [OF assms(1) t(1-3)]
  show ?thesis
  proof (cases i)
    case Signal_no_readers
    have pop: "work n (pop t l) < work n l" using wp [of "pop t l"] Signal_no_readers by (simp add: pop_eq)
    show ?thesis
    proof (cases "l' = pop t l")
      case False
      then obtain v where v: "readers_count l = 0" "asleep (thr (pop t l) v)" "l' = wake v (pop t l)"
        using t(4) Signal_no_readers by (auto simp: set_cond_signal split: if_splits)
      have "v \<noteq> t" "asleep (thr l v)" using v(2) t(3) by (auto simp: pop_eq popped_def split: if_splits)
      then have e: "l' = pop t (wake v l)" "thr (wake v l) t = thr l t"
        using v(3) by (simp_all add: wake_def pop_eq on_thread_def fun_upd_twist)
      have "work n l' < work n (wake v l)"
        unfolding e(1) using t(1-3) e(2) Signal_no_readers
        by (intro work_pop [OF inv_wake [OF assms(1) \<open>asleep (thr l v)\<close>], of t i "is"]) (simp_all add: pop_eq)
      then show ?thesis using work_wake [OF assms(1) \<open>asleep (thr l v)\<close> v(1)] by simp
    qed (use pop in simp)
  next
    case Wait_no_readers
    show ?thesis
    proof (cases "readers_count l = 0")
      case True
      then show ?thesis using wp [of l'] t(4) Wait_no_readers by (simp add: pop_eq)
    next
      case False
      then have "l' = fall_asleep t l" using t(4) Wait_no_readers by (simp add: word_gt_0)
      moreover have "weight False ((thr l t)\<lparr>todo := Lock_read # todo (thr l t), asleep := True\<rparr>) < weight False (thr l t)"
        using P Wait_no_readers by (elim wf_thread_cases) (auto simp: rw_methods weight_def)
      ultimately show ?thesis
        using t(1) False by (intro work_less [of n l' l t]) (auto simp: fall_asleep_def on_thread_def)
    qed
  next
    case Dec_readers
    have "0 < unat (readers_count l)"
      using I(5) place_pop_dec [OF P Dec_readers] count_pos [OF t(1), of "\<lambda>u. counted (thr l u)"] by simp
    then show ?thesis using t(4) Dec_readers by (auto intro!: wp simp: pop_eq)
  qed (use t(4) in \<open>auto intro!: wp simp: pop_eq split: option.splits\<close>)
qed

lemma internal_run_work:
  "(internal n ^^ k) l l' \<Longrightarrow> rw_inv n l \<Longrightarrow> n < 2 ^ 32 \<Longrightarrow> k + work n l' \<le> work n l"
proof (induction k arbitrary: l')
  case (Suc k)
  then obtain m where m: "(internal n ^^ k) l m" "internal n m l'" by auto
  have inv: "rw_inv n m" using m(1) Suc.prems(2,3)
  proof (induction k arbitrary: m)
    case (Suc k)
    then show ?case using inv_step rw_internal by (metis relpowp_Suc_E)
  qed simp
  then show ?case using Suc.IH [OF m(1)] Suc.prems internal_work [OF inv Suc.prems(3) m(2)] by simp
qed simp

lemma work_bound: "rw_inv n l \<Longrightarrow> work n l \<le> 7 * n"
  unfolding work_def using sum_bounded_above [of "{..<n}" _ 7] weight_le rw_invD(1)
  by (metis (no_types, lifting) card_lessThan mult.commute of_nat_id)

text \<open>The owner of a mutex of the lock that is not asleep and not done can run its next statement.\<close>

lemma can_run:
  assumes "t < n" "todo (thr l t) = i # is" "\<not> asleep (thr l t)"
    and "i = Lock_write \<Longrightarrow> owner (write_lock l) = None" "i = Lock_read \<Longrightarrow> owner (read_lock l) = None"
  shows "\<exists>l'. internal n l l'"
proof -
  have "exec n t i l \<noteq> []"
    using assms(4,5) set_cond_signal [of n "pop t l"] by (cases i) (auto simp: Locker_Lock_def set_empty [symmetric] simp del: set_empty)
  then have "run_thread n t l \<noteq> []" using assms(2,3) by (simp add: run_thread_def)
  then show ?thesis using assms(1) unfolding internal_def by (meson last_in_set)
qed

lemma locked_by:
  assumes "rw_inv n l"
  shows "owner (write_lock l) = Some t \<longleftrightarrow> has_write (thr l t)" "owner (read_lock l) = Some t \<longleftrightarrow> has_read (thr l t)"
  using rw_invD(3,4) [OF assms] by (simp_all add: held_by_def)

lemma busy_thread: "rw_inv n l \<Longrightarrow> thr l t \<noteq> idle_thread \<Longrightarrow> t < n"
  using rw_invD(2) by (metis not_le)

lemma has_read_runs:
  assumes "rw_inv n l" "has_read (thr l t)"
  shows "\<exists>l'. internal n l l'"
proof -
  obtain i "is" where i: "todo (thr l t) = i # is" "i \<notin> {Lock_write, Lock_read}" "\<not> asleep (thr l t)"
    using rw_invD(1) [OF assms(1), of t] assms(2)
    by (elim wf_thread_cases) (auto simp: rw_methods place_defs)
  moreover have "t < n" using i(1) by (intro busy_thread [OF assms(1)]) (auto simp: idle_thread_def)
  ultimately show ?thesis using can_run [of t n l i "is"] by auto
qed

lemma has_write_runs:
  assumes "rw_inv n l" "has_write (thr l t)" "owner (read_lock l) = None" "\<not> asleep (thr l t)" "\<not> writing t l"
  shows "\<exists>l'. internal n l l'"
proof -
  obtain i "is" where i: "todo (thr l t) = i # is" "i \<noteq> Lock_write"
    using rw_invD(1) [OF assms(1), of t] assms(2,4,5)
    by (elim wf_thread_cases) (auto simp: rw_methods place_defs writing_def)
  moreover have "t < n" using i(1) by (intro busy_thread [OF assms(1)]) (auto simp: idle_thread_def)
  ultimately show ?thesis using can_run [of t n l i "is"] assms(3,4) by auto
qed

lemma stuck_lock:
  assumes "rw_inv n l" "\<And>l'. \<not> internal n l l'" "t < n" "todo (thr l t) \<noteq> []"
  shows "(\<exists>u<n. writing u l) \<or> (\<exists>u<n. reading u l) \<and> (\<exists>u<n. asleep (thr l u))"
proof (rule ccontr)
  assume no: "\<not> ?thesis"
  note I = rw_invD [OF assms(1)] and own = locked_by [OF assms(1)]
  have r: "owner (read_lock l) = None" "\<And>u. \<not> has_read (thr l u)"
    using has_read_runs [OF assms(1)] assms(2) own(2) by (metis option.exhaust)+
  have quiet: "\<not> asleep (thr l u)" for u
  proof
    assume u: "asleep (thr l u)"
    then have un: "u < n" by (intro busy_thread [OF assms(1)]) (auto simp: idle_thread_def)
    have "\<not> signalling (thr l v)" for v
      using I(1) [of v] r(2) [of v] by (elim wf_thread_cases) (auto simp: rw_methods place_defs)
    then have "readers_count l \<noteq> 0" using I(6) [OF u] by blast
    then have "0 < card {t. t < n \<and> counted (thr l t)}" using I(5) unat_gt_0 by metis
    then obtain v where v: "v < n" "counted (thr l v)" by (auto simp: card_gt_0_iff)
    have "v \<noteq> u" using v(2) asleep_writer [OF I(1) u] I(1) [of u] by (elim wf_thread_cases) (auto simp: rw_methods place_defs)
    then have "\<not> has_write (thr l v)" using held_unique [OF I(3)] asleep_writer [OF I(1) u] by blast
    then have "reading v l \<or> todo (thr l v) = releaseReaderLock \<and> \<not> asleep (thr l v)"
      using I(1) [of v] v(2) r(2) [of v] by (elim wf_thread_cases) (auto simp: rw_methods place_defs reading_def)
    moreover have "\<not> reading v l" using no v(1) u un by blast
    ultimately show False using can_run [OF v(1)] r(1) assms(2) by (auto simp: releaseReaderLock_def)
  qed
  have "\<not> writing u l" for u
  proof
    assume w: "writing u l"
    then have "thr l u \<noteq> idle_thread" by (auto simp: writing_def idle_thread_def)
    then show False using no w busy_thread [OF assms(1)] by blast
  qed
  then have "\<not> has_write (thr l u)" for u using has_write_runs [OF assms(1) _ r(1) quiet] assms(2) by blast
  then have "owner (write_lock l) = None" using own(1) by (metis option.exhaust)
  then show False using assms(2-4) quiet r(1) can_run [of t n l] by (cases "todo (thr l t)") auto
qed

lemma exec_effect:
  assumes "l' \<in> set (exec n t i l)" "todo (thr l t) = i # is"
  shows "hold (thr l' u) = hold (thr l u) \<and> (todo (thr l' u) = [] \<longrightarrow> todo (thr l u) = [] \<or> u = t \<and> is = [])"
  using assms
  by (cases i) (auto simp: set_cond_signal pop_eq popped_def fall_asleep_def wake_def on_thread_def
      split: if_splits option.splits)

lemma no_reader_enters:
  assumes "rw_inv n l" "rw_step n l l'" "hold (thr l t) = Writer" "Lock_write \<notin> set (todo (thr l t))" "reading u l'"
  shows "reading u l"
  using assms(2)
proof cases
  case (rw_call v r p)
  then show ?thesis
    using assms(5) by (cases "v = u"; cases "hold (thr l v)") (auto simp: reading_def on_thread_def rw_calls_def rw_methods)
next
  case rw_internal
  then obtain v i "is" where v: "todo (thr l v) = i # is" "\<not> asleep (thr l v)" "l' \<in> set (exec n v i l)"
    by (elim internalE)
  note I = rw_invD [OF assms(1)] and e = exec_effect [OF v(3,1), of u]
  have t: "has_write (thr l t)" using assms(3,4) by (simp add: has_write_def)
  have "\<not> (hold (thr l u) = Reader \<and> todo (thr l u) = [i])"
  proof
    assume u: "hold (thr l u) = Reader \<and> todo (thr l u) = [i]"
    then have "has_write (thr l u)" using I(1) [of u] by (elim wf_thread_cases) (auto simp: rw_methods place_defs)
    then show False using held_unique [OF I(3) t] u assms(3) by auto
  qed
  then show ?thesis using e v(1) assms(5) by (auto simp: reading_def)
next
  case (rw_spurious v)
  then show ?thesis using assms(5) by (auto simp: reading_def wake_def on_thread_def split: if_splits)
qed

text \<open>A schedule: the threads that run a statement, in order, those that have to wait left out.\<close>

fun after :: "nat \<Rightarrow> nat list \<Rightarrow> rw_lock \<Rightarrow> rw_lock" where
  "after n [] l = l"
| "after n (t # ts) l = (case run_thread n t l of [] \<Rightarrow> after n ts l | l' # _ \<Rightarrow> after n ts l')"

lemma reach_after: "rw_reach n l \<Longrightarrow> list_all (\<lambda>t. t < n) ts \<Longrightarrow> rw_reach n (after n ts l)"
proof (induction ts arbitrary: l)
  case step: (Cons t ts)
  show ?case
  proof (cases "run_thread n t l")
    case (Cons l' ls)
    then have "internal n l l'" using step.prems(2) unfolding internal_def by (intro exI [of _ t]) simp
    then have "rw_reach n l'" using step.prems(1) rw_next rw_internal by blast
    then show ?thesis using Cons step by simp
  qed (use step in simp)
qed simp

definition called :: "nat \<Rightarrow> role \<Rightarrow> instr list \<Rightarrow> rw_lock \<Rightarrow> rw_lock" where
  "called t r p = on_thread t (\<lambda>th. th\<lparr>hold := r, todo := p\<rparr>)"

lemma reach_called:
  "rw_reach n l \<Longrightarrow> t < n \<Longrightarrow> todo (thr l t) = [] \<Longrightarrow> (r, p) \<in> set (rw_calls (hold (thr l t))) \<Longrightarrow>
   rw_reach n (called t r p l)"
  unfolding called_def by (rule rw_next) (auto intro: rw_call)

definition sample_writing :: rw_lock where
  "sample_writing = after 2 [0, 0, 0, 0] (called 0 Writer aquireWriterLock ReadWriteLock)"

definition sample_waiting :: rw_lock where
  "sample_waiting = after 2 [1, 1, 1] (called 1 Writer aquireWriterLock
     (after 2 [0, 0, 0, 0, 0] (called 0 Reader aquireReaderLock ReadWriteLock)))"

lemma sample_locks_reached: "rw_reach 2 sample_writing" "rw_reach 2 sample_waiting"
proof -
  show "rw_reach 2 sample_writing"
    unfolding sample_writing_def
    by (intro reach_after reach_called rw_start) (simp_all add: ReadWriteLock_def idle_thread_def rw_calls_def)
  have "todo (thr (after 2 [0, 0, 0, 0, 0] (called 0 Reader aquireReaderLock ReadWriteLock)) 1) = []"
    "hold (thr (after 2 [0, 0, 0, 0, 0] (called 0 Reader aquireReaderLock ReadWriteLock)) 1) = Outside"
    by code_simp+
  then show "rw_reach 2 sample_waiting"
    unfolding sample_waiting_def
    by (intro reach_after reach_called rw_start) (simp_all add: ReadWriteLock_def idle_thread_def rw_calls_def)
qed

section \<open>Properties\<close>

text \<open>
  C9: the lock excludes, on any number of threads and any interleaving, spurious wake-ups included: beside
  a thread that writes no other thread reads or writes, the count is never below the number of threads that
  read, and every statement that reads or changes the count is run by the owner of its mutex.
\<close>

theorem rw_lock_exclusion:
  assumes "rw_reach n l" "n < 2 ^ 32"
  shows "(\<forall>t u. writing t l \<and> u \<noteq> t \<longrightarrow> \<not> writing u l \<and> \<not> reading u l)
    \<and> card {t. reading t l} \<le> unat (readers_count l)
    \<and> (\<forall>t i is. todo (thr l t) = i # is \<and> \<not> asleep (thr l t)
         \<and> i \<in> {Inc_readers, Dec_readers, Signal_no_readers, Wait_no_readers} \<longrightarrow> owner (read_lock l) = Some t)"
proof -
  have inv: "rw_inv n l" using reach_inv [OF assms] .
  note I = rw_invD [OF inv]
  have "reading t l \<Longrightarrow> t < n" for t
    using busy_thread [OF inv, of t] by (cases "thr l t = idle_thread") (auto simp: reading_def idle_thread_def)
  then have c: "{t. reading t l} \<subseteq> {t. t < n \<and> counted (thr l t)}" by (auto simp: reading_def counted_def)
  have w: "writing t l \<Longrightarrow> has_write (thr l t) \<and> past_wait (thr l t)" for t by (simp add: writing_def place_defs)
  have "\<not> writing u l \<and> \<not> reading u l" if t: "writing t l" "u \<noteq> t" for t u
  proof
    show "\<not> writing u l" using t w held_unique [OF I(3)] by blast
    have "card {t. t < n \<and> counted (thr l t)} = 0" using I(5) I(7) w [OF t(1)] by (metis unat_0)
    then show "\<not> reading u l" using c by auto
  qed
  moreover have "card {t. reading t l} \<le> unat (readers_count l)"
    unfolding I(5) using c by (intro card_mono) auto
  moreover have "owner (read_lock l) = Some t" if "todo (thr l t) = i # is" "\<not> asleep (thr l t)"
    "i \<in> {Inc_readers, Dec_readers, Signal_no_readers, Wait_no_readers}" for t i "is"
    using place_pop_count_locked [OF I(1) that(2,1,3)] locked_by(2) [OF inv] by simp
  ultimately show ?thesis by blast
qed

theorem rw_lock_exclusion_witness:
  "writing 0 sample_writing \<and> \<not> writing 1 sample_writing \<and> \<not> reading 1 sample_writing"
proof -
  have "writing 0 sample_writing" by code_simp
  then show ?thesis
    using rw_lock_exclusion [OF sample_locks_reached(1)] by auto
qed

text \<open>
  C10: the lock makes progress. As long as no thread makes a new call and no thread wakes up for no
  reason, the calls under way run at most seven statements for each thread; when none can run
  any more, every call has returned, or a thread writes, or threads read and a writer waits for
  them. And once a writer is past the first statement of its call, no further reader enters.
\<close>

theorem rw_lock_progress:
  assumes "rw_reach n l" "n < 2 ^ 32"
  shows "(\<forall>k l'. (internal n ^^ k) l l' \<longrightarrow> k \<le> 7 * n)
    \<and> ((\<forall>l'. \<not> internal n l l') \<longrightarrow> (\<forall>t<n. todo (thr l t) = []) \<or> (\<exists>t<n. writing t l)
         \<or> (\<exists>t<n. reading t l) \<and> (\<exists>t<n. asleep (thr l t)))
    \<and> (\<forall>t u l'. hold (thr l t) = Writer \<and> Lock_write \<notin> set (todo (thr l t)) \<and> rw_step n l l' \<and> reading u l' \<longrightarrow>
         reading u l)"
proof -
  have inv: "rw_inv n l" using reach_inv [OF assms] .
  have "k \<le> 7 * n" if "(internal n ^^ k) l l'" for k l'
    using internal_run_work [OF that inv assms(2)] work_bound [OF inv] by simp
  then show ?thesis using stuck_lock [OF inv] no_reader_enters [OF inv] by blast
qed

theorem rw_lock_progress_witness:
  "reading 0 sample_waiting \<and> asleep (thr sample_waiting 1)
   \<and> {k. \<exists>l'. (internal 2 ^^ k) sample_waiting l'} \<subseteq> {..14}
   \<and> {l'. rw_step 2 sample_waiting l' \<and> reading 1 l'} = {}"
proof -
  have f: "reading 0 sample_waiting" "asleep (thr sample_waiting 1)" "\<not> reading 1 sample_waiting"
    "hold (thr sample_waiting 1) = Writer" "Lock_write \<notin> set (todo (thr sample_waiting 1))"
    by code_simp+
  note p = rw_lock_progress [OF sample_locks_reached(2), simplified]
  have "{k. \<exists>l'. (internal 2 ^^ k) sample_waiting l'} \<subseteq> {..14}" using p by auto
  moreover have "{l'. rw_step 2 sample_waiting l' \<and> reading 1 l'} = {}" using f p by blast
  ultimately show ?thesis using f by simp
qed

end
