(* ===== verification/Tee_Management.thy ===== *)
theory Tee_Management
  imports Client_Calls
begin

text \<open>
  The security-domain functions of \<^verbatim>\<open>teemanagement/teemanagement.cpp\<close>: parameter checks in front of the
  methods of the command invoker. \<^verbatim>\<open>checkServiceStatus\<close> does nothing in the Linux build. A security domain
  handle is a pointer-sized number, \<^verbatim>\<open>NULL\<close> being zero; an argument given by reference is an option.
\<close>

text \<open>\<open>sdId\<close> is the memory of the caller's string: reading outside of it is \<open>Overread\<close>.\<close>

definition TEE_OpenSDSession :: "'s ICommandsClient \<Rightarrow> string \<Rightarrow> bool \<Rightarrow> ('s, (TEE_STATUS \<times> uint64 option) decoded) state" where
  "TEE_OpenSDSession c sdId out =
     (case validateUuidChar sdId of
        None \<Rightarrow> ret Overread
      | Some False \<Rightarrow> ret (Refused TEE_STATUS_INVALID_UUID)
      | Some True \<Rightarrow> do { r \<leftarrow> JhisOpenSDSession c (c_string sdId) out; ret (Decoded r) })"

definition TEE_CloseSDSession :: "'s ICommandsClient \<Rightarrow> uint64 option \<Rightarrow> ('s, TEE_STATUS \<times> uint64 option) state" where
  "TEE_CloseSDSession c sdHandle = JhisCloseSDSession c sdHandle"

definition TEE_SendAdminCmdPkg :: "'s ICommandsClient \<Rightarrow> uint64 \<Rightarrow> byte list option \<Rightarrow> uint32 \<Rightarrow> ('s, TEE_STATUS) state" where
  "TEE_SendAdminCmdPkg c sdHandle package packageSize =
     (case package of
        None \<Rightarrow> ret TEE_STATUS_INVALID_PARAMS
      | Some p \<Rightarrow>
          if sdHandle = 0 \<or> packageSize = 0 then ret TEE_STATUS_INVALID_PARAMS
          else JhisSendAdminCmdPkg c sdHandle (take (unat packageSize) p))"

definition TEE_ListInstalledTAs :: "'s ICommandsClient \<Rightarrow> uint64 \<Rightarrow> bool \<Rightarrow> ('s, UUID_LIST decoded) state" where
  "TEE_ListInstalledTAs c sdHandle hasList =
     (if sdHandle = 0 then ret (Refused TEE_STATUS_INVALID_PARAMS) else JhisListInstalledTAs c sdHandle hasList)"

definition TEE_ListInstalledSDs :: "'s ICommandsClient \<Rightarrow> uint64 \<Rightarrow> bool \<Rightarrow> ('s, UUID_LIST decoded) state" where
  "TEE_ListInstalledSDs c sdHandle hasList =
     (if sdHandle = 0 then ret (Refused TEE_STATUS_INVALID_PARAMS) else JhisListInstalledSDs c sdHandle hasList)"

text \<open>
  The handle is not used by the remaining functions. The size of the metadata is \<^verbatim>\<open>sizeof(dal_tee_metadata)\<close>,
  and the structure of the caller is there (the invoker has no test for it).
\<close>

definition TEE_QueryTEEMetadata :: "'s ICommandsClient \<Rightarrow> uint64 \<Rightarrow> ('s, byte list decoded) state" where
  "TEE_QueryTEEMetadata c sdHandle = JhisQueryTEEMetadata c 160"

definition TEE_ProvisionOemMasterKey :: "'s ICommandsClient \<Rightarrow> uint64 \<Rightarrow> byte list option \<Rightarrow> ('s, TEE_STATUS) state" where
  "TEE_ProvisionOemMasterKey c sdHandle key = JhisProvisionOemMasterKey c key"

definition TEE_SetTAEncryptionKey :: "'s ICommandsClient \<Rightarrow> uint64 \<Rightarrow> byte list option \<Rightarrow> ('s, TEE_STATUS) state" where
  "TEE_SetTAEncryptionKey c sdHandle key = JhisSetTAEncryptionKey c key"

section \<open>The metadata query end to end\<close>

lemma metadata_response_decodes:
  assumes "length m = 160"
  shows "metadata_response 160 (put32 JHI_SUCCESS @ put32 172 @ put32 160 @ m) = Decoded m"
  using assms by (simp add: metadata_response_def res_code_def res_length_def read_at_def)

lemma metadata_query_round: "decode_metadata_query (command 16 [0]) = Decoded ()"
  by code_simp

lemma query_metadata_run:
  assumes "io (fsys s) = []" "vmType (globals s) = JHI_VM_TYPE_BEIHAI_V2" "plugin_registered (globals s)"
    "plugin_table (globals s)" "JHI_Plugin_QueryTeeMetadata pf (world s) = ((TEE_STATUS_SUCCESS, m), w)" "length m = 160"
  shows "run_state (InvokeQueryTeeMetadata pf (command 16 [0])) s =
     (Reply (put32 JHI_SUCCESS @ put32 172 @ put32 160 @ m), s\<lparr>world := w\<rparr>)"
  using assms
  by (auto simp: InvokeQueryTeeMetadata_def over_v2_def answering_def metadata_query_round with_plugin_def run_respond)

text \<open>
  Querying the metadata through the client library over Beihai v2: whenever the firmware answers with
  metadata of the size of the structure, the caller receives exactly these bytes, through the command
  buffer, the sockets, the dispatcher and the response.
\<close>

theorem metadata_roundtrip:
  assumes "jhi_state (globals s) = JHI_INITIALIZED" "io (fsys s) = []"
    and "vmType (globals s) = JHI_VM_TYPE_BEIHAI_V2" "plugin_registered (globals s)" "plugin_table (globals s)"
    and "JHI_Plugin_QueryTeeMetadata pf (world s) = ((TEE_STATUS_SUCCESS, m), w)" "length m = 160"
  shows "run_state (TEE_QueryTEEMetadata (socket_client env pf junk ks cs) h) s = (Decoded m, s\<lparr>world := w\<rparr>)"
proof -
  let ?b = "command 16 [0]"
  have "run_state (processCommand env pf (Some ?b)) s = run_state (dispatch pf 16 ?b) s"
    using assms(1) by (intro run_processCommand) auto
  then have run: "run_state (processCommand env pf (Some ?b)) s =
      (Reply (put32 JHI_SUCCESS @ put32 172 @ put32 160 @ m), s\<lparr>world := w\<rparr>)"
    using query_metadata_run [OF assms(2-)] by (simp add: dispatch_def)
  have "run_state (send_buffer (socket_client env pf junk ks cs) ?b (Refused TEE_STATUS_INTERNAL_ERROR)
      (Refused TEE_STATUS_SERVICE_UNAVAILABLE) (metadata_response 160)) s =
     (metadata_response 160 (put32 JHI_SUCCESS @ put32 172 @ put32 160 @ m), s\<lparr>world := w\<rparr>)"
    by (rule jhi_channel.send_buffer_served [OF _ _ _ run])
      (use assms(2,7) in \<open>simp_all add: quiet_def command_def\<close>)
  then show ?thesis
    by (simp add: TEE_QueryTEEMetadata_def JhisQueryTEEMetadata_def metadata_response_decodes [OF assms(7)])
qed

theorem metadata_roundtrip_witness:
  "run_state (TEE_QueryTEEMetadata (socket_client sample_env sample_platform 7 [] [3]) 0)
      (sample_state\<lparr>globals := sample_globals\<lparr>vmType := JHI_VM_TYPE_BEIHAI_V2\<rparr>\<rparr>) =
     (Decoded (put32 2 @ replicate 84 0 @ put16 11 @ replicate 70 0),
      sample_state\<lparr>globals := sample_globals\<lparr>vmType := JHI_VM_TYPE_BEIHAI_V2\<rparr>\<rparr>)"
proof -
  let ?s = "sample_state\<lparr>globals := sample_globals\<lparr>vmType := JHI_VM_TYPE_BEIHAI_V2\<rparr>\<rparr>"
  let ?m = "put32 2 @ replicate 84 0 @ put16 11 @ replicate 70 0"
  have "jhi_state (globals ?s) = JHI_INITIALIZED" "io (fsys ?s) = []" "vmType (globals ?s) = JHI_VM_TYPE_BEIHAI_V2"
    "plugin_registered (globals ?s)" "plugin_table (globals ?s)"
    "JHI_Plugin_QueryTeeMetadata sample_platform (world ?s) = ((TEE_STATUS_SUCCESS, ?m), world ?s)" "length ?m = 160"
    by (simp_all add: sample_state_def sample_globals_def sample_platform_def)
  from metadata_roundtrip [OF this] show ?thesis by simp
qed

end
