(* ===== verification/Command_Server.thy ===== *)
theory Command_Server
  imports Service_Run Config_File
begin

text \<open>
  The command server of the Linux build, \<^verbatim>\<open>service/CommandsServerSocketsLinux.cpp\<close>, with the semaphore of
  \<^verbatim>\<open>common/jhi_semaphore-linux.cpp\<close> and the process around it, \<^verbatim>\<open>service/JHIMain.cpp\<close>. One thread accepts
  connections, a thread for each connection processes one command, and a semaphore bounds the number of
  connections. The statements that wait or change what the threads share are the steps of a relation,
  in any interleaving; a connection's command is one step, as in the runs of the service.
\<close>

abbreviation JHI_MAX_CLIENTS_CONNECTIONS :: byte where "JHI_MAX_CLIENTS_CONNECTIONS \<equiv> 10"

text \<open>Where the accepting thread is in \<^verbatim>\<open>waitForRequests\<close>.\<close>

datatype acceptor = At_test | At_acquire | At_accept | At_start nat | Returned | Exited

text \<open>
  \<open>socket_set\<close> is \<^verbatim>\<open>_socket != INVALID_SOCKET\<close>, \<open>listening\<close> whether that descriptor is open;
  \<open>permits\<close> is the value of the semaphore. The sockets of the connections: those whose thread is
  still to process its command, those whose thread is about to close them, and those no thread has.
  \<open>unreleased\<close> counts the threads that could not be created.
\<close>

record 'w server =
  socket_set :: bool
  listening :: bool
  permits :: nat
  acceptor :: acceptor
  serving :: "nat list"
  ending :: "nat list"
  abandoned :: "nat list"
  unreleased :: nat
  served :: "'w jhi"

section \<open>The semaphore\<close>

definition Semaphore_new :: "byte \<Rightarrow> nat" where
  "Semaphore_new semaphore_count = unat semaphore_count"

text \<open>\<^verbatim>\<open>sem_wait\<close> waits at zero.\<close>

definition Acquire :: "'w server \<Rightarrow> 'w server option" where
  "Acquire s = (if permits s = 0 then None else Some (s\<lparr>permits := permits s - 1\<rparr>))"

definition Release :: "'w server \<Rightarrow> 'w server" where
  "Release s = s\<lparr>permits := permits s + 1\<rparr>"

section \<open>Opening and closing\<close>

definition CommandsServerSocketsLinux :: "byte \<Rightarrow> 'w jhi \<Rightarrow> 'w server" where
  "CommandsServerSocketsLinux maxClientNum v = \<lparr> socket_set = False, listening = False,
     permits = Semaphore_new maxClientNum, acceptor = At_test, serving = [], ending = [], abandoned = [],
     unreleased = 0, served = v \<rparr>"

definition on_served :: "('w, 'a) service \<Rightarrow> ('w server, 'a) state" where
  "on_served m = zoom served (\<lambda>v s. s\<lparr>served := v\<rparr>) m"

text \<open>
  \<^verbatim>\<open>open\<close>: the name has its terminator in the 108 bytes of \<^verbatim>\<open>sun_path\<close>; what deleting the old socket and
  \<^verbatim>\<open>chmod\<close> return is not looked at. The dispatcher's \<^verbatim>\<open>init\<close> and \<^verbatim>\<open>deinit\<close> return true.
\<close>

definition bind_and_listen :: "string \<Rightarrow> bool fs" where
  "bind_and_listen path = do {
     remove_ok path;
     b \<leftarrow> bind_ok path;
     if \<not> b then ret False
     else do { c \<leftarrow> next_io; l \<leftarrow> next_io; ret (l = Io_ok) } }"

definition server_open :: "settings \<Rightarrow> ('w server, bool) state" where
  "server_open st = do {
     let path = snd (JhiQueryDaemonSocketPathFromRegistry st);
     a \<leftarrow> on_served (on_fsys next_io);
     ok \<leftarrow> (if a \<noteq> Io_ok \<or> length path + 1 > 108 then ret False else on_served (on_fsys (bind_and_listen path)));
     modify (\<lambda>s. s\<lparr>socket_set := ok, listening := ok\<rparr>);
     ret ok }"

text \<open>\<^verbatim>\<open>close\<close>: the descriptor is closed even when \<^verbatim>\<open>close\<close> reports an error; \<^verbatim>\<open>_socket\<close> keeps its value.\<close>

definition server_close :: "('w server, bool) state" where
  "server_close = do {
     c \<leftarrow> on_served (on_fsys next_io);
     modify (\<lambda>s. s\<lparr>listening := False\<rparr>);
     ret (c = Io_ok) }"

definition server_init :: "settings \<Rightarrow> ('w server, bool) state" where
  "server_init st = do {
     on_served (set_globals (setJhiState JHI_STOPPED));
     server_open st }"

definition server_stop :: "'w platform \<Rightarrow> ('w server, unit) state" where
  "server_stop pf = do { server_close; on_served (jhi_stop pf) }"

section \<open>Connections\<close>

text \<open>\<open>mem\<close>: whether the parameters of the thread can be allocated; \<open>thread\<close>: whether it can be created.\<close>

definition startClientSession :: "bool \<Rightarrow> bool \<Rightarrow> nat \<Rightarrow> 'w server \<Rightarrow> 'w server" where
  "startClientSession mem thread clientSocket s =
     (if \<not> mem then Release (s\<lparr>abandoned := clientSocket # abandoned s\<rparr>)
      else if \<not> thread then s\<lparr>abandoned := clientSocket # abandoned s, unreleased := unreleased s + 1\<rparr>
      else s\<lparr>serving := clientSocket # serving s\<rparr>)"

definition open_sockets :: "'w server \<Rightarrow> nat list" where
  "open_sockets s = (case acceptor s of At_start c \<Rightarrow> [c] | _ \<Rightarrow> []) @ serving s @ ending s @ abandoned s"

text \<open>
  \<^verbatim>\<open>waitForRequests\<close>, the threads of the connections and the end of \<^verbatim>\<open>jhi_main\<close>. \<^verbatim>\<open>accept\<close> gives a socket that is
  not in use and fails once the server is closed. A thread processes whatever bytes its client sends.
  Everything else the service does may happen in between.
\<close>

inductive server_step :: "'w environment \<Rightarrow> 'w platform \<Rightarrow> 'w server \<Rightarrow> 'w server \<Rightarrow> bool"
  for env :: "'w environment" and pf :: "'w platform" where
  wait_test: "acceptor s = At_test \<Longrightarrow>
     server_step env pf s (s\<lparr>acceptor := (if socket_set s then At_acquire else Returned)\<rparr>)"
| wait_acquire: "acceptor s = At_acquire \<Longrightarrow> Acquire s = Some s' \<Longrightarrow> server_step env pf s (s'\<lparr>acceptor := At_accept\<rparr>)"
| wait_accept: "acceptor s = At_accept \<Longrightarrow> listening s \<Longrightarrow> c \<notin> set (open_sockets s) \<Longrightarrow>
     server_step env pf s (s\<lparr>acceptor := At_start c\<rparr>)"
| wait_failed: "acceptor s = At_accept \<Longrightarrow> server_step env pf s (Release (s\<lparr>acceptor := Returned\<rparr>))"
| wait_start: "acceptor s = At_start c \<Longrightarrow>
     server_step env pf s (startClientSession mem thread c (s\<lparr>acceptor := At_test\<rparr>))"
| thread_serves: "c \<in> set (serving s) \<Longrightarrow> run_state (ClientSessionThread env pf cs ks) (served s) = (r, v) \<Longrightarrow>
     server_step env pf s (s\<lparr>serving := remove1 c (serving s), ending := c # ending s, served := v\<rparr>)"
| thread_ends: "c \<in> set (ending s) \<Longrightarrow> server_step env pf s (Release (s\<lparr>ending := remove1 c (ending s)\<rparr>))"
| main_exits: "acceptor s = Returned \<Longrightarrow> jhi_state (globals (served s)) = JHI_STOPPED \<Longrightarrow>
     server_step env pf s (s\<lparr>acceptor := Exited\<rparr>)"
| main_exits_reset: "acceptor s = Returned \<Longrightarrow> jhi_state (globals (served s)) \<noteq> JHI_STOPPED \<Longrightarrow>
     waitForResetComplete (globals (served s)) = Some g \<Longrightarrow>
     server_step env pf s (s\<lparr>acceptor := Exited, served := (served s)\<lparr>globals := g\<rparr>\<rparr>)"
| stop_signal: "run_state (server_stop pf) s = (u, s') \<Longrightarrow> server_step env pf s s'"
| service_acts: "service_step env pf (served s) v \<Longrightarrow> server_step env pf s (s\<lparr>served := v\<rparr>)"

inductive_cases server_stepE: "server_step env pf s s'"

inductive server_run :: "'w environment \<Rightarrow> 'w platform \<Rightarrow> byte \<Rightarrow> 'w server \<Rightarrow> bool"
  for env :: "'w environment" and pf :: "'w platform" and n :: byte where
  server_started: "run_state (server_init st) (CommandsServerSocketsLinux n (loaded f w)) = (True, s) \<Longrightarrow>
     server_run env pf n s"
| server_next: "server_run env pf n s \<Longrightarrow> server_step env pf s s' \<Longrightarrow> server_run env pf n s'"

section \<open>Invariant\<close>

text \<open>The permit of the accepting thread, between \<^verbatim>\<open>Acquire\<close> and the start of the connection's thread.\<close>

definition held :: "acceptor \<Rightarrow> nat" where
  "held a = (case a of At_accept \<Rightarrow> 1 | At_start c \<Rightarrow> 1 | _ \<Rightarrow> 0)"

definition accounted :: "nat \<Rightarrow> 'w server \<Rightarrow> bool" where
  "accounted n s \<longleftrightarrow> permits s + length (serving s) + length (ending s) + unreleased s + held (acceptor s) = n
     \<and> distinct (open_sockets s) \<and> unreleased s \<le> length (abandoned s)"

lemma length_remove1_pos: "c \<in> set xs \<Longrightarrow> Suc (length (remove1 c xs)) = length xs"
  by (metis One_nat_def Suc_pred length_pos_if_in_set length_remove1)

lemma preserves_ClientSessionThread: "preserves service_inv (ClientSessionThread env pf cs ks)"
proof -
  have "preserves service_inv alloc" by (intro preserves_service_inv frame_alloc)
  then show ?thesis
    unfolding ClientSessionThread_def Let_def by (intro pres_intros processCommand_inv)
qed

lemma run_on_served:
  "run_state (on_served m) s = (fst (run_state m (served s)), s\<lparr>served := snd (run_state m (served s))\<rparr>)"
  by (simp add: on_served_def zoom_def split: prod.split)

lemma accounted_served [simp]: "accounted n (s\<lparr>served := v\<rparr>) = accounted n s"
  by (simp add: accounted_def open_sockets_def)

lemma accounted_listening [simp]: "accounted n (s\<lparr>listening := b\<rparr>) = accounted n s"
  by (simp add: accounted_def open_sockets_def)

lemma on_fsys_inv: "service_inv v \<Longrightarrow> service_inv (snd (run_state (on_fsys m) v))"
proof -
  have "preserves service_inv (on_fsys m)" by (rule preserves_service_inv; intro pres_intros)
  then show "service_inv v \<Longrightarrow> ?thesis" unfolding preserves_def by blast
qed

lemma stop_keeps: "service_inv v \<Longrightarrow> service_inv (snd (run_state (jhi_stop pf) v))"
  using stop_inv unfolding preserves_def by blast

lemma server_stop_inv:
  assumes "run_state (server_stop pf) s = (u, s')" "accounted n s" "service_inv (served s)"
  shows "accounted n s'" "service_inv (served s')"
proof -
  have "service_inv (snd (run_state (on_fsys next_io) (served s)))"
    using on_fsys_inv [OF assms(3)] .
  then have "service_inv (snd (run_state (jhi_stop pf) (snd (run_state (on_fsys next_io) (served s)))))"
    by (rule stop_keeps)
  then show "accounted n s'" "service_inv (served s')"
    using assms(1,2) by (auto simp: server_stop_def server_close_def run_on_served)
qed

lemma step_accounted:
  assumes "server_step env pf s s'" "accounted n s" "service_inv (served s)"
  shows "accounted n s'"
  using assms(1)
proof cases
  case (thread_serves c cs ks r v)
  then show ?thesis
    using assms(2) length_remove1_pos [of c "serving s"]
    by (auto simp: accounted_def open_sockets_def set_remove1_eq split: acceptor.splits)
next
  case (thread_ends c)
  then show ?thesis
    using assms(2) length_remove1_pos [of c "ending s"]
    by (auto simp: accounted_def open_sockets_def Release_def set_remove1_eq split: acceptor.splits)
next
  case (stop_signal u)
  then show ?thesis using server_stop_inv(1) assms(2,3) by blast
qed (use assms(2) in \<open>auto simp: accounted_def open_sockets_def held_def Acquire_def Release_def startClientSession_def split: if_splits acceptor.splits\<close>)

lemma step_service:
  assumes "server_step env pf s s'" "accounted n s" "service_inv (served s)" "events_wf pf"
  shows "service_inv (served s')"
  using assms(1)
proof cases
  case (wait_acquire s1)
  then show ?thesis using assms(3) by (auto simp: Acquire_def split: if_splits)
next
  case (thread_serves c cs ks r v)
  then show ?thesis using preservesD [OF preserves_ClientSessionThread assms(3)] by simp
next
  case (main_exits_reset g)
  then show ?thesis
    using assms(3) by (auto simp: service_inv_def waitForResetComplete_def life_inv_def globals_inv_def split: if_splits)
next
  case (stop_signal u)
  then show ?thesis using server_stop_inv(2) assms(2,3) by blast
next
  case (service_acts v)
  then show ?thesis using step_inv [OF assms(4)] assms(3) by simp
qed (use assms(3) in \<open>simp_all add: Release_def startClientSession_def\<close>)

lemma init_server:
  assumes "run_state (server_init st) (CommandsServerSocketsLinux n (loaded f w)) = (r, s)"
  shows "accounted (unat n) s" "service_inv (served s)"
proof -
  let ?v = "loaded f w" and ?path = "snd (JhiQueryDaemonSocketPathFromRegistry st)"
  let ?v1 = "?v\<lparr>globals := setJhiState JHI_STOPPED (globals ?v)\<rparr>"
  have v1: "service_inv ?v1"
    using loaded_inv [of f w] by (simp add: service_inv_def life_inv_def loaded_def setJhiState_def GlobalsManager_init_def globals_inv_def)
  show "accounted (unat n) s"
    using assms by (auto simp: server_init_def server_open_def run_on_served CommandsServerSocketsLinux_def accounted_def
        open_sockets_def held_def Semaphore_new_def Let_def split: if_splits)
  show "service_inv (served s)"
    using assms v1 by (auto simp: server_init_def server_open_def run_on_served CommandsServerSocketsLinux_def run_set_globals
        Let_def on_fsys_inv split: if_splits)
qed

lemma server_run_inv: "server_run env pf n s \<Longrightarrow> events_wf pf \<Longrightarrow> accounted (unat n) s \<and> service_inv (served s)"
  by (induction rule: server_run.induct) (blast intro: init_server step_accounted step_service)+

lemma step_never_releases:
  "server_step env pf s s' \<Longrightarrow> unreleased s \<le> unreleased s' \<and> socket_set s' = socket_set s"
  by (erule server_stepE)
    (auto simp: Acquire_def Release_def startClientSession_def server_stop_def server_close_def run_on_served split: if_splits)

lemma step_waits:
  assumes "server_step env pf s s'" "permits s = 0" "socket_set s" "acceptor s \<in> {At_test, At_acquire}"
  shows "acceptor s' \<in> {At_test, At_acquire}"
  using assms
  by (elim server_stepE)
    (auto simp: Acquire_def Release_def startClientSession_def server_stop_def server_close_def run_on_served split: if_splits)

lemma no_permit_left:
  assumes "accounted n s" "n \<le> unreleased s"
  shows "permits s = 0 \<and> serving s = [] \<and> ending s = [] \<and> held (acceptor s) = 0"
  using assms by (auto simp: accounted_def)

text \<open>
  The server of a process started with nothing in its way, with one connection accepted: its thread
  was created, or could not be.
\<close>

definition sample_server :: "byte \<Rightarrow> nat server" where
  "sample_server n = snd (run_state (server_init []) (CommandsServerSocketsLinux n (loaded \<lparr> files = [], folders = [], io = [], stream_fault = False \<rparr> 1)))"

definition sample_accepted :: "byte \<Rightarrow> bool \<Rightarrow> nat server" where
  "sample_accepted n thread = startClientSession True thread 5
     ((sample_server n)\<lparr>permits := permits (sample_server n) - 1, acceptor := At_test\<rparr>)"

lemma sample_server_facts:
  "fst (run_state (server_init []) (CommandsServerSocketsLinux n (loaded \<lparr> files = [], folders = [], io = [], stream_fault = False \<rparr> 1))) = True"
  "acceptor (sample_server n) = At_test" "socket_set (sample_server n)" "listening (sample_server n)"
  "permits (sample_server n) = unat n" "open_sockets (sample_server n) = []" "unreleased (sample_server n) = 0"
  by (simp_all add: sample_server_def server_init_def server_open_def run_on_served CommandsServerSocketsLinux_def
      Let_def run_on_fsys bind_and_listen_def open_sockets_def Semaphore_new_def run_set_globals loaded_def
      JhiQueryDaemonSocketPathFromRegistry_def getDaemonSocketPath_def setting_def
      run_next_io run_remove_ok bind_ok_def)

lemma sample_accepted_run:
  assumes "0 < unat n"
  shows "server_run env pf n (sample_accepted n thread)"
proof -
  let ?s = "sample_server n"
  let ?s1 = "?s\<lparr>acceptor := At_acquire\<rparr>" let ?s2 = "?s1\<lparr>permits := permits ?s - 1, acceptor := At_accept\<rparr>"
  let ?s3 = "?s2\<lparr>acceptor := At_start 5\<rparr>"
  have "server_run env pf n ?s"
    using server_started sample_server_facts(1) unfolding sample_server_def by (metis prod.collapse)
  then have "server_run env pf n ?s1"
    using server_next [OF _ wait_test [of ?s]] sample_server_facts by simp
  then have "server_run env pf n ?s2"
    using server_next [OF _ wait_acquire [of ?s1 "?s1\<lparr>permits := permits ?s - 1\<rparr>"]] sample_server_facts assms by (simp add: Acquire_def)
  then have "server_run env pf n ?s3"
    using server_next [OF _ wait_accept [of ?s2 5]] sample_server_facts by (simp add: open_sockets_def)
  then have "server_run env pf n (startClientSession True thread 5 (?s3\<lparr>acceptor := At_test\<rparr>))"
    by (rule server_next) (rule wait_start, simp)
  then show ?thesis by (simp add: sample_accepted_def)
qed

section \<open>Properties\<close>

text \<open>
  C13: on every interleaving of the accepting thread with the threads of the connections, whichever
  allocations and threads fail: at most as many connections as the limit says are being served, each
  on a socket of its own; the accepting thread waits for a permit only when every permit is with a
  thread or was lost when one could not be created; and the service keeps its invariant.
\<close>

theorem server_bounds_clients:
  assumes "server_run env pf n s" "events_wf pf"
  shows "length (serving s) + length (ending s) \<le> unat n \<and> permits s \<le> unat n \<and> distinct (open_sockets s)
    \<and> (acceptor s = At_acquire \<and> Acquire s = None \<longrightarrow> length (serving s) + length (ending s) + unreleased s = unat n)
    \<and> sm_inv (sessions (served s)) \<and> applets_inv (applets (served s))"
proof -
  have "accounted (unat n) s" "service_inv (served s)" using server_run_inv [OF assms] by auto
  then show ?thesis by (auto simp: accounted_def Acquire_def held_def service_inv_def shared_inv_def split: if_splits)
qed

theorem server_bounds_clients_witness:
  "serving (sample_accepted 10 True) = [5] \<and> length (serving (sample_accepted 10 True)) \<le> 10
   \<and> sm_inv (sessions (served (sample_accepted 10 True)))"
proof -
  have "server_run sample_env sample_platform 10 (sample_accepted 10 True)" by (rule sample_accepted_run) simp
  moreover have "events_wf sample_platform" by (simp add: events_wf_def sample_platform_def)
  moreover have "serving (sample_accepted 10 True) = [5]"
    using sample_server_facts(6) [of 10] by (simp add: sample_accepted_def startClientSession_def open_sockets_def)
  ultimately show ?thesis using server_bounds_clients by fastforce
qed

text \<open>
  A thread that cannot be created keeps its permit. After as many such failures as the limit
  says, no connection is ever served again, and a server that was listening never comes to the end
  of its main loop either, not even when it is told to stop.
\<close>

theorem failed_threads_block:
  assumes "server_run env pf n s" "events_wf pf" "unreleased s = unat n" "(server_step env pf)\<^sup>*\<^sup>* s s'"
  shows "serving s' = [] \<and> ending s' = []
    \<and> (socket_set s \<and> acceptor s \<in> {At_test, At_acquire} \<longrightarrow> acceptor s' \<in> {At_test, At_acquire})"
proof -
  have "server_run env pf n s' \<and> unat n \<le> unreleased s' \<and> socket_set s' = socket_set s
    \<and> (socket_set s \<and> acceptor s \<in> {At_test, At_acquire} \<longrightarrow> acceptor s' \<in> {At_test, At_acquire})"
    using assms(4)
  proof induction
    case base
    then show ?case using assms(1,3) by simp
  next
    case (step t u)
    have a: "accounted (unat n) t" using server_run_inv [OF _ assms(2)] step.IH by blast
    then have "permits t = 0" using no_permit_left step.IH by blast
    then show ?case
      using step.IH step.hyps(2) step_never_releases [OF step.hyps(2)] step_waits [OF step.hyps(2)]
      by (auto intro: server_next)
  qed
  then show ?thesis
    using no_permit_left server_run_inv [OF _ assms(2)] by blast
qed

theorem failed_threads_block_witness:
  "unreleased (sample_accepted 1 False) = 1 \<and> serving (sample_accepted 1 False) = []
   \<and> acceptor (sample_accepted 1 False) \<in> {At_test, At_acquire}
   \<and> {s. (server_step sample_env sample_platform)\<^sup>*\<^sup>* (sample_accepted 1 False) s \<and> acceptor s = Exited} = {}"
proof -
  let ?s = "sample_accepted 1 False"
  have run: "server_run sample_env sample_platform 1 ?s" by (rule sample_accepted_run) simp
  have e: "events_wf sample_platform" by (simp add: events_wf_def sample_platform_def)
  have f: "unreleased ?s = 1" "socket_set ?s" "acceptor ?s = At_test"
    using sample_server_facts [of 1] by (simp_all add: sample_accepted_def startClientSession_def)
  note block = failed_threads_block [OF run e]
  show ?thesis using block [of ?s] block f by fastforce
qed

end
