(* ===== verification/Beihai_Common.thy ===== *)
theory Beihai_Common
  imports Service_Run
begin

text \<open>
  What the plugins of the two Beihai machines have in common: the memory functions the service gives
  them, the library below, and the functions that both sources have in the same words.
\<close>

section \<open>Memory and firmware\<close>

text \<open>
  \<open>plugin_mem\<close> holds the outcomes of the next allocations, which succeed from its end on. \<open>plugin_fault\<close> is set
  by a call or a read through a null pointer, a read outside of a block, and an exception nothing
  catches. \<open>fw\<close> is the state of the library below, the firmware included.
\<close>

record 'f plugin_env =
  plugin_mem :: "bool list"
  plugin_fault :: bool
  fw :: 'f

definition on_fw :: "('f \<Rightarrow> 'a \<times> 'f) \<Rightarrow> (('f, 'm) plugin_env_scheme, 'a) state" where
  "on_fw f = zoom fw (\<lambda>w s. s\<lparr>fw := w\<rparr>) (action f)"

definition allocateMemory :: "(('f, 'm) plugin_env_scheme, bool) state" where
  "allocateMemory = action (\<lambda>s. case plugin_mem s of [] \<Rightarrow> (True, s) | b # bs \<Rightarrow> (b, s\<lparr>plugin_mem := bs\<rparr>))"

definition plugin_crash :: "(('f, 'm) plugin_env_scheme, unit) state" where
  "plugin_crash = modify (\<lambda>s. s\<lparr>plugin_fault := True\<rparr>)"

section \<open>The version of an applet\<close>

text \<open>The number an input stream reads into an \<^verbatim>\<open>unsigned int\<close>: zero when there is none, the largest one when it does not fit.\<close>

fun digits_value :: "nat \<Rightarrow> string \<Rightarrow> nat" where
  "digits_value acc [] = acc"
| "digits_value acc (c # cs) =
     (if 48 \<le> chr_val c \<and> chr_val c \<le> 57 then digits_value (10 * acc + (chr_val c - 48)) cs else acc)"

definition stream_unsigned :: "string \<Rightarrow> nat" where
  "stream_unsigned s =
     (let t = skip_space s; n = digits_value 0 (drop_sign t) in
      if n \<ge> 2 ^ 32 then 2 ^ 32 - 1
      else case t of c # cs \<Rightarrow> if c = CHR ''-'' \<and> n \<noteq> 0 then 2 ^ 32 - n else n | [] \<Rightarrow> n)"

text \<open>
  \<^verbatim>\<open>convertAppProperty_Version\<close>: the text afterwards. Without memory for the number the caller goes on with a
  null pointer.
\<close>

definition convertAppProperty_Version :: "string \<Rightarrow> (('f, 'm) plugin_env_scheme, string) state" where
  "convertAppProperty_Version version =
     (case rfind (CHR ''.'') version of
        None \<Rightarrow> ret version
      | Some index \<Rightarrow>
          let majorUINT = stream_unsigned (take index version); minorUINT = stream_unsigned (drop (index + 1) version) in
          if majorUINT > 255 \<or> minorUINT > 255 then ret version
          else do {
            a \<leftarrow> allocateMemory;
            if a then ret (decimal (or majorUINT (push_bit 8 minorUINT)))
            else do { plugin_crash; ret [] } })"

section \<open>An event of the spooler\<close>

text \<open>
  An event that is too short keeps the structure it was to be put in; its type, and an identifier
  that is not assigned, are then without meaning.
\<close>

definition spooler_event :: "uint32 \<Rightarrow> byte list \<Rightarrow> uint32 \<Rightarrow>
    (('f, 'm) plugin_env_scheme, JHI_RET \<times> JHI_EVENT_DATA option \<times> JHI_SESSION_ID) state" where
  "spooler_event bufLen written len =
     (let buffer = written @ replicate (unat bufLen - length written) 0 in
      if len < 16
      then ret (JHI_INTERNAL_ERROR, Some \<lparr> datalen = 0, ev_data = None, dataType = JHI_DATA_FROM_APPLET \<rparr>, UUID [])
      else if len > bufLen then do { plugin_crash; ret (JHI_INTERNAL_ERROR, None, UUID []) }
      else let target = UUID (take 16 buffer); n = len - 16 in
        if n = 0 then ret (JHI_SUCCESS, Some \<lparr> datalen = 0, ev_data = None, dataType = JHI_DATA_FROM_APPLET \<rparr>, target)
        else do {
          a \<leftarrow> allocateMemory;
          if \<not> a then ret (JHI_INTERNAL_ERROR, None, target)
          else ret (JHI_SUCCESS, Some \<lparr> datalen = n, ev_data = Some (take (unat n) (drop 16 buffer)),
                 dataType = JHI_DATA_FROM_APPLET \<rparr>, target) })"

section \<open>Facts\<close>

lemma run_on_fw [run_simps]:
  "run_state (on_fw f) s = (fst (f (fw s)), s\<lparr>fw := snd (f (fw s))\<rparr>)"
  by (simp add: on_fw_def zoom_def action_def split: prod.split)

lemma run_allocate: "plugin_mem s = [] \<Longrightarrow> run_state allocateMemory s = (True, s)"
  by (simp add: allocateMemory_def action_def)

lemma spooler_event_wf:
  "case fst (snd (fst (run_state (spooler_event n w l) s))) of None \<Rightarrow> True | Some e \<Rightarrow> event_wf e"
proof -
  have "unat (l - 16) \<le> length w + (unat n - length w) - 16" if "\<not> l < 16" "\<not> n < l"
  proof -
    have "unat l \<le> unat n" "unat (l - 16) = unat l - 16"
      using that by (simp_all add: word_le_nat_alt not_less unat_sub)
    then show ?thesis by linarith
  qed
  then show ?thesis
    by (auto simp: spooler_event_def Let_def event_wf_def plugin_crash_def split: option.splits prod.splits if_splits)
qed

end
