(* ===== verification/Beihai_Status.thy ===== *)
theory Beihai_Status
  imports Misc_Util
begin

text \<open>
  The status codes of the Beihai library (\<^verbatim>\<open>bh_shared_errcode.h\<close> and \<^verbatim>\<open>BeihaiStatusHAL.h\<close>) that the plugin of the
  second Beihai machine looks at, and their translation to the codes of the service,
  \<^verbatim>\<open>beihaiToJhiError\<close> and \<^verbatim>\<open>beihaiToTeeError\<close> of \<^verbatim>\<open>plugins/bhplugin2/jhi_plugin.cpp\<close>. A switch is the list of its
  cases, in the order of the source.
\<close>

type_synonym BH_RET = uint32

section \<open>Codes\<close>

abbreviation BH_SUCCESS :: BH_RET where "BH_SUCCESS \<equiv> 0x0"
abbreviation BPE_NOT_INIT :: BH_RET where "BPE_NOT_INIT \<equiv> 0x1"
abbreviation BPE_INTERNAL_ERROR :: BH_RET where "BPE_INTERNAL_ERROR \<equiv> 0x3"
abbreviation BPE_COMMS_ERROR :: BH_RET where "BPE_COMMS_ERROR \<equiv> 0x4"
abbreviation BPE_INVALID_PARAMS :: BH_RET where "BPE_INVALID_PARAMS \<equiv> 0x6"
abbreviation BPE_NO_CONNECTION_TO_FIRMWARE :: BH_RET where "BPE_NO_CONNECTION_TO_FIRMWARE \<equiv> 0x9"
abbreviation BPE_INVALID_BPK_FILE :: BH_RET where "BPE_INVALID_BPK_FILE \<equiv> 0xE"
abbreviation BPE_INVALID_SESSION_HANDLE :: BH_RET where "BPE_INVALID_SESSION_HANDLE \<equiv> 0xF"
abbreviation BHE_OUT_OF_MEMORY :: BH_RET where "BHE_OUT_OF_MEMORY \<equiv> 0x101"
abbreviation BHE_INSUFFICIENT_BUFFER :: BH_RET where "BHE_INSUFFICIENT_BUFFER \<equiv> 0x103"
abbreviation BHE_WD_TIMEOUT :: BH_RET where "BHE_WD_TIMEOUT \<equiv> 0x106"
abbreviation BHE_APPLET_CRASHED :: BH_RET where "BHE_APPLET_CRASHED \<equiv> 0x201"
abbreviation BHE_IAC_EXIST_INTERNAL_SESSION :: BH_RET where "BHE_IAC_EXIST_INTERNAL_SESSION \<equiv> 0x244"
abbreviation BHE_IAC_SERVICE_HOST_SESSION_NUM_EXCEED :: BH_RET where "BHE_IAC_SERVICE_HOST_SESSION_NUM_EXCEED \<equiv> 0x247"
abbreviation BHE_LOAD_JEFF_FAIL :: BH_RET where "BHE_LOAD_JEFF_FAIL \<equiv> 0x303"
abbreviation BHE_PACKAGE_NOT_FOUND :: BH_RET where "BHE_PACKAGE_NOT_FOUND \<equiv> 0x304"
abbreviation BHE_EXIST_LIVE_SESSION :: BH_RET where "BHE_EXIST_LIVE_SESSION \<equiv> 0x305"
abbreviation BHE_VM_INSTANCE_INIT_FAIL :: BH_RET where "BHE_VM_INSTANCE_INIT_FAIL \<equiv> 0x306"
abbreviation BHE_QUERY_PROP_NOT_SUPPORT :: BH_RET where "BHE_QUERY_PROP_NOT_SUPPORT \<equiv> 0x307"
abbreviation BHE_INVALID_BPK_FILE :: BH_RET where "BHE_INVALID_BPK_FILE \<equiv> 0x308"
abbreviation BHE_GROUP_CHECK_FAIL :: BH_RET where "BHE_GROUP_CHECK_FAIL \<equiv> 0x314"
abbreviation BHE_SESSION_NUM_EXCEED :: BH_RET where "BHE_SESSION_NUM_EXCEED \<equiv> 0x317"
abbreviation BHE_TA_PACKAGE_HASH_VERIFY_FAIL :: BH_RET where "BHE_TA_PACKAGE_HASH_VERIFY_FAIL \<equiv> 0x318"
abbreviation BHE_OPERATION_NOT_PERMITTED :: BH_RET where "BHE_OPERATION_NOT_PERMITTED \<equiv> 0x31A"
abbreviation BHE_TA_PACKAGE_HMAC_VERIFY_FAIL :: BH_RET where "BHE_TA_PACKAGE_HMAC_VERIFY_FAIL \<equiv> 0x31C"
abbreviation BHE_APPLET_GENERIC :: BH_RET where "BHE_APPLET_GENERIC \<equiv> 0x400"
abbreviation BHE_UNCAUGHT_EXCEPTION :: BH_RET where "BHE_UNCAUGHT_EXCEPTION \<equiv> 0x401"
abbreviation BHE_APPLET_SMALL_BUFFER :: BH_RET where "BHE_APPLET_SMALL_BUFFER \<equiv> 0x403"
abbreviation BHE_BAD_STATE :: BH_RET where "BHE_BAD_STATE \<equiv> 0x404"
abbreviation BHE_ONLY_SINGLE_INSTANCE_ALLOWED :: BH_RET where "BHE_ONLY_SINGLE_INSTANCE_ALLOWED \<equiv> 0x406"
abbreviation BHE_SDM_NOT_FOUND :: BH_RET where "BHE_SDM_NOT_FOUND \<equiv> 0x801"
abbreviation BHE_SDM_ALREADY_EXIST :: BH_RET where "BHE_SDM_ALREADY_EXIST \<equiv> 0x803"
abbreviation BHE_SDM_TA_NUMBER_LIMIT :: BH_RET where "BHE_SDM_TA_NUMBER_LIMIT \<equiv> 0x805"
abbreviation BHE_SDM_SIGNATURE_VERIFY_FAIL :: BH_RET where "BHE_SDM_SIGNATURE_VERIFY_FAIL \<equiv> 0x806"
abbreviation BHE_SDM_PERMGROUP_CHECK_FAIL :: BH_RET where "BHE_SDM_PERMGROUP_CHECK_FAIL \<equiv> 0x807"
abbreviation BHE_SDM_SVN_CHECK_FAIL :: BH_RET where "BHE_SDM_SVN_CHECK_FAIL \<equiv> 0x809"
abbreviation BHE_SDM_SD_DB_NO_FREE_SLOT :: BH_RET where "BHE_SDM_SD_DB_NO_FREE_SLOT \<equiv> 0x80B"
abbreviation BHE_SDM_SVL_DB_NO_FREE_SLOT :: BH_RET where "BHE_SDM_SVL_DB_NO_FREE_SLOT \<equiv> 0x80C"
abbreviation BHE_SDM_SVL_CHECK_FAIL :: BH_RET where "BHE_SDM_SVL_CHECK_FAIL \<equiv> 0x80D"
abbreviation BHE_SDM_SD_INTERFACE_DISABLED :: BH_RET where "BHE_SDM_SD_INTERFACE_DISABLED \<equiv> 0x810"
abbreviation BHE_SDM_SD_PUBLICKEY_HASH_VERIFY_FAIL :: BH_RET where "BHE_SDM_SD_PUBLICKEY_HASH_VERIFY_FAIL \<equiv> 0x811"
abbreviation BHE_SDM_TA_INSTALL_UNALLOWED :: BH_RET where "BHE_SDM_TA_INSTALL_UNALLOWED \<equiv> 0x812"
abbreviation BHE_SDM_SD_INSTALL_UNALLOWED :: BH_RET where "BHE_SDM_SD_INSTALL_UNALLOWED \<equiv> 0x813"
abbreviation BHE_SDM_SVL_UPDATE_UNALLOWED :: BH_RET where "BHE_SDM_SVL_UPDATE_UNALLOWED \<equiv> 0x814"
abbreviation BHE_SDM_SD_NOT_FOUND :: BH_RET where "BHE_SDM_SD_NOT_FOUND \<equiv> 0x815"
abbreviation BHE_SDM_SD_INVALID_PROPERTIES :: BH_RET where "BHE_SDM_SD_INVALID_PROPERTIES \<equiv> 0x816"
abbreviation HAL_TIMED_OUT :: BH_RET where "HAL_TIMED_OUT \<equiv> 0x1001"
abbreviation HAL_OUT_OF_RESOURCES :: BH_RET where "HAL_OUT_OF_RESOURCES \<equiv> 0x1003"
abbreviation HAL_OUT_OF_MEMORY :: BH_RET where "HAL_OUT_OF_MEMORY \<equiv> 0x1004"
abbreviation HAL_BUFFER_TOO_SMALL :: BH_RET where "HAL_BUFFER_TOO_SMALL \<equiv> 0x1005"
abbreviation HAL_FW_VERSION_MISMATCH :: BH_RET where "HAL_FW_VERSION_MISMATCH \<equiv> 0x2000"
abbreviation HAL_ILLEGAL_SIGNATURE :: BH_RET where "HAL_ILLEGAL_SIGNATURE \<equiv> 0x2001"
abbreviation HAL_UNSUPPORTED_PLATFORM_TYPE :: BH_RET where "HAL_UNSUPPORTED_PLATFORM_TYPE \<equiv> 0x2004"
abbreviation HAL_UNSUPPORTED_CPU_TYPE :: BH_RET where "HAL_UNSUPPORTED_CPU_TYPE \<equiv> 0x2005"
abbreviation HAL_UNSUPPORTED_PCH_TYPE :: BH_RET where "HAL_UNSUPPORTED_PCH_TYPE \<equiv> 0x2006"
abbreviation HAL_UNSUPPORTED_FEATURE_SET :: BH_RET where "HAL_UNSUPPORTED_FEATURE_SET \<equiv> 0x2007"
abbreviation HAL_ILLEGAL_VERSION :: BH_RET where "HAL_ILLEGAL_VERSION \<equiv> 0x2008"
abbreviation HAL_ALREADY_INSTALLED :: BH_RET where "HAL_ALREADY_INSTALLED \<equiv> 0x2009"
abbreviation HAL_ILLEGAL_PLATFORM_ID :: BH_RET where "HAL_ILLEGAL_PLATFORM_ID \<equiv> 0x2011"
abbreviation HAL_PLATFORM_AFTER_EOM :: BH_RET where "HAL_PLATFORM_AFTER_EOM \<equiv> 0x2014"
abbreviation HAL_MAX_INVOCATIONS :: BH_RET where "HAL_MAX_INVOCATIONS \<equiv> 0x2015"
abbreviation HAL_COUNTER_MISMATCH :: BH_RET where "HAL_COUNTER_MISMATCH \<equiv> 0x2016"
abbreviation HAL_TA_ENCRYPTION_KEY_NOT_SET :: BH_RET where "HAL_TA_ENCRYPTION_KEY_NOT_SET \<equiv> 0x2017"
abbreviation HAL_OMK_NOT_PROVISIONED :: BH_RET where "HAL_OMK_NOT_PROVISIONED \<equiv> 0x2018"
abbreviation HAL_TA_ENCRYPTION_KEY_INVALID :: BH_RET where "HAL_TA_ENCRYPTION_KEY_INVALID \<equiv> 0x2019"
abbreviation JHI_NO_CONNECTION_TO_FIRMWARE :: uint32 where "JHI_NO_CONNECTION_TO_FIRMWARE \<equiv> 0x300"
abbreviation JHI_FIRMWARE_OUT_OF_RESOURCES :: uint32 where "JHI_FIRMWARE_OUT_OF_RESOURCES \<equiv> 0x1018"
abbreviation JHI_TA_PLATFORM_MISMATCH :: uint32 where "JHI_TA_PLATFORM_MISMATCH \<equiv> 0x1044"
abbreviation JHI_MAX_INSTALLED_APPLETS_REACHED :: uint32 where "JHI_MAX_INSTALLED_APPLETS_REACHED \<equiv> 0x404"
abbreviation JHI_SVN_CHECK_FAIL :: uint32 where "JHI_SVN_CHECK_FAIL \<equiv> 0x1042"
abbreviation JHI_TA_ENCRYPTION_KEY_NOT_SET :: uint32 where "JHI_TA_ENCRYPTION_KEY_NOT_SET \<equiv> 0x1043"
abbreviation JHI_UNINSTALL_FAILURE_SESSIONS_EXISTS :: uint32 where "JHI_UNINSTALL_FAILURE_SESSIONS_EXISTS \<equiv> 0x100A"
abbreviation JHI_APPLET_PROPERTY_NOT_SUPPORTED :: uint32 where "JHI_APPLET_PROPERTY_NOT_SUPPORTED \<equiv> 0x1013"
abbreviation JHI_IAC_SERVER_SESSION_EXIST :: uint32 where "JHI_IAC_SERVER_SESSION_EXIST \<equiv> 0x1020"
abbreviation JHI_IAC_SERVER_INTERNAL_SESSIONS_EXIST :: uint32 where "JHI_IAC_SERVER_INTERNAL_SESSIONS_EXIST \<equiv> 0x1021"
abbreviation JHI_ONLY_SINGLE_INSTANCE_ALLOWED :: uint32 where "JHI_ONLY_SINGLE_INSTANCE_ALLOWED \<equiv> 0x1019"
abbreviation JHI_ERROR_OEM_SIGNING_DISABLED :: uint32 where "JHI_ERROR_OEM_SIGNING_DISABLED \<equiv> 0x1050"
abbreviation JHI_ERROR_SD_PUBLICKEY_HASH_FAILED :: uint32 where "JHI_ERROR_SD_PUBLICKEY_HASH_FAILED \<equiv> 0x1051"
abbreviation JHI_ERROR_SD_DB_NO_FREE_SLOT :: uint32 where "JHI_ERROR_SD_DB_NO_FREE_SLOT \<equiv> 0x1052"
abbreviation JHI_ERROR_SD_TA_INSTALLATION_UNALLOWED :: uint32 where "JHI_ERROR_SD_TA_INSTALLATION_UNALLOWED \<equiv> 0x1053"
abbreviation JHI_OPERATION_NOT_PERMITTED :: uint32 where "JHI_OPERATION_NOT_PERMITTED \<equiv> 0x101A"
abbreviation TEE_STATUS_NO_FW_CONNECTION :: uint32 where "TEE_STATUS_NO_FW_CONNECTION \<equiv> 0x2005"
abbreviation TEE_STATUS_UNSUPPORTED_PLATFORM :: uint32 where "TEE_STATUS_UNSUPPORTED_PLATFORM \<equiv> 0x2006"
abbreviation TEE_STATUS_INVALID_SIGNATURE :: uint32 where "TEE_STATUS_INVALID_SIGNATURE \<equiv> 0x2201"
abbreviation TEE_STATUS_INVALID_PACKAGE :: uint32 where "TEE_STATUS_INVALID_PACKAGE \<equiv> 0x2200"
abbreviation TEE_STATUS_MAX_SVL_RECORDS :: uint32 where "TEE_STATUS_MAX_SVL_RECORDS \<equiv> 0x2202"
abbreviation TEE_STATUS_SVL_CHECK_FAIL :: uint32 where "TEE_STATUS_SVL_CHECK_FAIL \<equiv> 0x2308"
abbreviation TEE_STATUS_MAX_TAS_REACHED :: uint32 where "TEE_STATUS_MAX_TAS_REACHED \<equiv> 0x2302"
abbreviation TEE_STATUS_TA_PLATFORM_MISMATCH :: uint32 where "TEE_STATUS_TA_PLATFORM_MISMATCH \<equiv> 0x2309"
abbreviation TEE_STATUS_IDENTICAL_PACKAGE :: uint32 where "TEE_STATUS_IDENTICAL_PACKAGE \<equiv> 0x2306"
abbreviation TEE_STATUS_CMD_FAILURE_SESSIONS_EXISTS :: uint32 where "TEE_STATUS_CMD_FAILURE_SESSIONS_EXISTS \<equiv> 0x2300"
abbreviation TEE_STATUS_TA_DOES_NOT_EXIST :: uint32 where "TEE_STATUS_TA_DOES_NOT_EXIST \<equiv> 0x2304"
abbreviation TEE_STATUS_SD_SD_DOES_NOT_EXIST :: uint32 where "TEE_STATUS_SD_SD_DOES_NOT_EXIST \<equiv> 0x2406"
abbreviation TEE_STATUS_MISSING_ACCESS_CONTROL :: uint32 where "TEE_STATUS_MISSING_ACCESS_CONTROL \<equiv> 0x2303"
abbreviation TEE_STATUS_ILLEGAL_PLATFORM_ID :: uint32 where "TEE_STATUS_ILLEGAL_PLATFORM_ID \<equiv> 0x2307"
abbreviation TEE_STATUS_SD_INTERFCE_DISABLED :: uint32 where "TEE_STATUS_SD_INTERFCE_DISABLED \<equiv> 0x2400"
abbreviation TEE_STATUS_SD_PUBLICKEY_HASH_VERIFY_FAIL :: uint32 where "TEE_STATUS_SD_PUBLICKEY_HASH_VERIFY_FAIL \<equiv> 0x2401"
abbreviation TEE_STATUS_SD_DB_NO_FREE_SLOT :: uint32 where "TEE_STATUS_SD_DB_NO_FREE_SLOT \<equiv> 0x2402"
abbreviation TEE_STATUS_SD_TA_INSTALLATION_UNALLOWED :: uint32 where "TEE_STATUS_SD_TA_INSTALLATION_UNALLOWED \<equiv> 0x2403"
abbreviation TEE_STATUS_SD_INVALID_PROPERTIES :: uint32 where "TEE_STATUS_SD_INVALID_PROPERTIES \<equiv> 0x2405"
abbreviation TEE_STATUS_SD_SD_INSTALL_UNALLOWED :: uint32 where "TEE_STATUS_SD_SD_INSTALL_UNALLOWED \<equiv> 0x2407"
abbreviation TEE_STATUS_PLATFORM_AFTER_EOM :: uint32 where "TEE_STATUS_PLATFORM_AFTER_EOM \<equiv> 0x2500"
abbreviation TEE_STATUS_MAX_INVOCATIONS :: uint32 where "TEE_STATUS_MAX_INVOCATIONS \<equiv> 0x2501"
abbreviation TEE_STATUS_COUNTER_MISMATCH :: uint32 where "TEE_STATUS_COUNTER_MISMATCH \<equiv> 0x2502"
abbreviation TEE_STATUS_TA_ENCRYPTION_KEY_NOT_SET :: uint32 where "TEE_STATUS_TA_ENCRYPTION_KEY_NOT_SET \<equiv> 0x2503"
abbreviation TEE_STATUS_OMK_NOT_PROVISIONED :: uint32 where "TEE_STATUS_OMK_NOT_PROVISIONED \<equiv> 0x2504"
abbreviation TEE_STATUS_TA_ENCRYPTION_KEY_INVALID :: uint32 where "TEE_STATUS_TA_ENCRYPTION_KEY_INVALID \<equiv> 0x2505"

section \<open>Translation\<close>

definition beihai_jhi :: "(BH_RET \<times> JHI_RET) list" where
  "beihai_jhi =
    [(BH_SUCCESS, JHI_SUCCESS),
     (BPE_INVALID_PARAMS, JHI_INVALID_PARAMS),
     (BPE_INVALID_SESSION_HANDLE, JHI_INVALID_SESSION_HANDLE),
     (BHE_INSUFFICIENT_BUFFER, JHI_INSUFFICIENT_BUFFER),
     (BHE_APPLET_SMALL_BUFFER, JHI_INSUFFICIENT_BUFFER),
     (HAL_BUFFER_TOO_SMALL, JHI_INSUFFICIENT_BUFFER),
     (BPE_COMMS_ERROR, JHI_NO_CONNECTION_TO_FIRMWARE),
     (BPE_NOT_INIT, JHI_NO_CONNECTION_TO_FIRMWARE),
     (BPE_NO_CONNECTION_TO_FIRMWARE, JHI_NO_CONNECTION_TO_FIRMWARE),
     (BHE_VM_INSTANCE_INIT_FAIL, JHI_FIRMWARE_OUT_OF_RESOURCES),
     (BHE_OUT_OF_MEMORY, JHI_FIRMWARE_OUT_OF_RESOURCES),
     (BHE_WD_TIMEOUT, JHI_APPLET_TIMEOUT),
     (HAL_OUT_OF_MEMORY, JHI_APPLET_FATAL),
     (BHE_UNCAUGHT_EXCEPTION, JHI_APPLET_FATAL),
     (BHE_APPLET_CRASHED, JHI_APPLET_FATAL),
     (HAL_TIMED_OUT, JHI_APPLET_FATAL),
     (BHE_APPLET_GENERIC, JHI_APPLET_FATAL),
     (BHE_BAD_STATE, JHI_APPLET_FATAL),
     (HAL_ILLEGAL_SIGNATURE, JHI_FILE_ERROR_AUTH),
     (HAL_ILLEGAL_VERSION, JHI_FILE_ERROR_AUTH),
     (HAL_FW_VERSION_MISMATCH, JHI_FILE_ERROR_AUTH),
     (HAL_UNSUPPORTED_CPU_TYPE, JHI_FILE_ERROR_AUTH),
     (HAL_UNSUPPORTED_PCH_TYPE, JHI_FILE_ERROR_AUTH),
     (HAL_UNSUPPORTED_FEATURE_SET, JHI_FILE_ERROR_AUTH),
     (HAL_UNSUPPORTED_PLATFORM_TYPE, JHI_FILE_ERROR_AUTH),
     (BHE_SDM_SIGNATURE_VERIFY_FAIL, JHI_FILE_ERROR_AUTH),
     (BHE_LOAD_JEFF_FAIL, JHI_TA_PLATFORM_MISMATCH),
     (BHE_TA_PACKAGE_HASH_VERIFY_FAIL, JHI_INVALID_PACKAGE_FORMAT),
     (BHE_INVALID_BPK_FILE, JHI_INVALID_PACKAGE_FORMAT),
     (BPE_INVALID_BPK_FILE, JHI_INVALID_PACKAGE_FORMAT),
     (HAL_ALREADY_INSTALLED, JHI_FILE_IDENTICAL),
     (BHE_SDM_ALREADY_EXIST, JHI_FILE_IDENTICAL),
     (HAL_OUT_OF_RESOURCES, JHI_MAX_INSTALLED_APPLETS_REACHED),
     (BHE_SDM_TA_NUMBER_LIMIT, JHI_MAX_INSTALLED_APPLETS_REACHED),
     (BHE_SDM_SVL_CHECK_FAIL, JHI_SVL_CHECK_FAIL),
     (BHE_SDM_SVN_CHECK_FAIL, JHI_SVN_CHECK_FAIL),
     (HAL_TA_ENCRYPTION_KEY_NOT_SET, JHI_TA_ENCRYPTION_KEY_NOT_SET),
     (BHE_TA_PACKAGE_HMAC_VERIFY_FAIL, JHI_APPLET_NOT_INSTALLED),
     (BHE_EXIST_LIVE_SESSION, JHI_UNINSTALL_FAILURE_SESSIONS_EXISTS),
     (BHE_PACKAGE_NOT_FOUND, JHI_APPLET_NOT_INSTALLED),
     (BHE_SDM_NOT_FOUND, JHI_APPLET_NOT_INSTALLED),
     (BHE_QUERY_PROP_NOT_SUPPORT, JHI_APPLET_PROPERTY_NOT_SUPPORTED),
     (BHE_IAC_SERVICE_HOST_SESSION_NUM_EXCEED, JHI_IAC_SERVER_SESSION_EXIST),
     (BHE_IAC_EXIST_INTERNAL_SESSION, JHI_IAC_SERVER_INTERNAL_SESSIONS_EXIST),
     (BHE_GROUP_CHECK_FAIL, JHI_MISSING_ACCESS_CONTROL),
     (BHE_SESSION_NUM_EXCEED, JHI_MAX_SESSIONS_REACHED),
     (HAL_ILLEGAL_PLATFORM_ID, JHI_ILLEGAL_PLATFORM_ID),
     (BHE_ONLY_SINGLE_INSTANCE_ALLOWED, JHI_ONLY_SINGLE_INSTANCE_ALLOWED),
     (BHE_SDM_SD_INTERFACE_DISABLED, JHI_ERROR_OEM_SIGNING_DISABLED),
     (BHE_SDM_SD_PUBLICKEY_HASH_VERIFY_FAIL, JHI_ERROR_SD_PUBLICKEY_HASH_FAILED),
     (BHE_SDM_SD_DB_NO_FREE_SLOT, JHI_ERROR_SD_DB_NO_FREE_SLOT),
     (BHE_SDM_TA_INSTALL_UNALLOWED, JHI_ERROR_SD_TA_INSTALLATION_UNALLOWED),
     (BHE_OPERATION_NOT_PERMITTED, JHI_OPERATION_NOT_PERMITTED)]"

definition beihai_tee :: "(BH_RET \<times> TEE_STATUS) list" where
  "beihai_tee =
    [(BH_SUCCESS, TEE_STATUS_SUCCESS),
     (BPE_INVALID_PARAMS, TEE_STATUS_INVALID_PARAMS),
     (BPE_COMMS_ERROR, TEE_STATUS_NO_FW_CONNECTION),
     (BPE_NOT_INIT, TEE_STATUS_NO_FW_CONNECTION),
     (BPE_NO_CONNECTION_TO_FIRMWARE, TEE_STATUS_NO_FW_CONNECTION),
     (HAL_UNSUPPORTED_CPU_TYPE, TEE_STATUS_UNSUPPORTED_PLATFORM),
     (HAL_UNSUPPORTED_PCH_TYPE, TEE_STATUS_UNSUPPORTED_PLATFORM),
     (HAL_UNSUPPORTED_FEATURE_SET, TEE_STATUS_UNSUPPORTED_PLATFORM),
     (HAL_UNSUPPORTED_PLATFORM_TYPE, TEE_STATUS_UNSUPPORTED_PLATFORM),
     (HAL_ILLEGAL_SIGNATURE, TEE_STATUS_INVALID_SIGNATURE),
     (HAL_ILLEGAL_VERSION, TEE_STATUS_INVALID_SIGNATURE),
     (HAL_FW_VERSION_MISMATCH, TEE_STATUS_INVALID_SIGNATURE),
     (BHE_SDM_SIGNATURE_VERIFY_FAIL, TEE_STATUS_INVALID_SIGNATURE),
     (BHE_INVALID_BPK_FILE, TEE_STATUS_INVALID_PACKAGE),
     (BPE_INVALID_BPK_FILE, TEE_STATUS_INVALID_PACKAGE),
     (BHE_TA_PACKAGE_HASH_VERIFY_FAIL, TEE_STATUS_INVALID_PACKAGE),
     (BHE_SDM_SVL_DB_NO_FREE_SLOT, TEE_STATUS_MAX_SVL_RECORDS),
     (BHE_SDM_SVL_CHECK_FAIL, TEE_STATUS_SVL_CHECK_FAIL),
     (BHE_SDM_SVN_CHECK_FAIL, TEE_STATUS_INVALID_TA_SVN),
     (HAL_OUT_OF_RESOURCES, TEE_STATUS_MAX_TAS_REACHED),
     (BHE_SDM_TA_NUMBER_LIMIT, TEE_STATUS_MAX_TAS_REACHED),
     (BHE_LOAD_JEFF_FAIL, TEE_STATUS_TA_PLATFORM_MISMATCH),
     (BHE_SDM_ALREADY_EXIST, TEE_STATUS_IDENTICAL_PACKAGE),
     (BHE_EXIST_LIVE_SESSION, TEE_STATUS_CMD_FAILURE_SESSIONS_EXISTS),
     (BHE_PACKAGE_NOT_FOUND, TEE_STATUS_TA_DOES_NOT_EXIST),
     (BHE_SDM_NOT_FOUND, TEE_STATUS_TA_DOES_NOT_EXIST),
     (BHE_SDM_SD_NOT_FOUND, TEE_STATUS_SD_SD_DOES_NOT_EXIST),
     (BHE_GROUP_CHECK_FAIL, TEE_STATUS_MISSING_ACCESS_CONTROL),
     (HAL_ILLEGAL_PLATFORM_ID, TEE_STATUS_ILLEGAL_PLATFORM_ID),
     (BHE_SDM_SD_INTERFACE_DISABLED, TEE_STATUS_SD_INTERFCE_DISABLED),
     (BHE_SDM_SD_PUBLICKEY_HASH_VERIFY_FAIL, TEE_STATUS_SD_PUBLICKEY_HASH_VERIFY_FAIL),
     (BHE_SDM_SD_DB_NO_FREE_SLOT, TEE_STATUS_SD_DB_NO_FREE_SLOT),
     (BHE_SDM_SVL_UPDATE_UNALLOWED, TEE_STATUS_SD_TA_INSTALLATION_UNALLOWED),
     (BHE_SDM_TA_INSTALL_UNALLOWED, TEE_STATUS_SD_TA_INSTALLATION_UNALLOWED),
     (BHE_SDM_SD_INVALID_PROPERTIES, TEE_STATUS_SD_INVALID_PROPERTIES),
     (BHE_SDM_PERMGROUP_CHECK_FAIL, TEE_STATUS_SD_INVALID_PROPERTIES),
     (BHE_SDM_SD_INSTALL_UNALLOWED, TEE_STATUS_SD_SD_INSTALL_UNALLOWED),
     (HAL_PLATFORM_AFTER_EOM, TEE_STATUS_PLATFORM_AFTER_EOM),
     (HAL_MAX_INVOCATIONS, TEE_STATUS_MAX_INVOCATIONS),
     (HAL_COUNTER_MISMATCH, TEE_STATUS_COUNTER_MISMATCH),
     (HAL_TA_ENCRYPTION_KEY_NOT_SET, TEE_STATUS_TA_ENCRYPTION_KEY_NOT_SET),
     (HAL_OMK_NOT_PROVISIONED, TEE_STATUS_OMK_NOT_PROVISIONED),
     (HAL_TA_ENCRYPTION_KEY_INVALID, TEE_STATUS_TA_ENCRYPTION_KEY_INVALID)]"
definition beihaiToJhiError :: "BH_RET \<Rightarrow> JHI_RET \<Rightarrow> JHI_RET" where
  "beihaiToJhiError bhError defaultError =
     (case map_of beihai_jhi bhError of Some r \<Rightarrow> r | None \<Rightarrow> defaultError)"

definition beihaiToTeeError :: "BH_RET \<Rightarrow> TEE_STATUS \<Rightarrow> TEE_STATUS" where
  "beihaiToTeeError bhError defaultError =
     (case map_of beihai_tee bhError of Some r \<Rightarrow> r | None \<Rightarrow> defaultError)"

section \<open>Facts\<close>

lemma map_of_all:
  "map_of xs k = Some v \<Longrightarrow> list_all (\<lambda>(a, b). P a b) xs \<Longrightarrow> P k v"
  by (auto simp: list_all_iff dest: map_of_SomeD)

lemma jhi_cases:
  "list_all (\<lambda>(a, b). (b = JHI_SUCCESS \<longleftrightarrow> a = BH_SUCCESS) \<and> isJhiError b) beihai_jhi"
  "map_of beihai_jhi BH_SUCCESS = Some JHI_SUCCESS" "distinct (map fst beihai_jhi)"
  by code_simp+

lemma tee_cases:
  "list_all (\<lambda>(a, b). (b = TEE_STATUS_SUCCESS \<longleftrightarrow> a = BH_SUCCESS) \<and> (a \<noteq> BH_SUCCESS \<longrightarrow> \<not> isJhiError b)) beihai_tee"
  "map_of beihai_tee BH_SUCCESS = Some TEE_STATUS_SUCCESS" "distinct (map fst beihai_tee)"
  by code_simp+

lemma beihaiToJhiError_BH_SUCCESS [simp]: "beihaiToJhiError 0 d = JHI_SUCCESS"
  using jhi_cases(2) by (simp add: beihaiToJhiError_def)

lemma beihaiToTeeError_BH_SUCCESS [simp]: "beihaiToTeeError 0 d = TEE_STATUS_SUCCESS"
  using tee_cases(2) by (simp add: beihaiToTeeError_def)

lemma beihaiToJhiError_success: "d \<noteq> JHI_SUCCESS \<Longrightarrow> beihaiToJhiError r d = JHI_SUCCESS \<longleftrightarrow> r = BH_SUCCESS"
  using map_of_all [OF _ jhi_cases(1), of r] jhi_cases(2) by (auto simp: beihaiToJhiError_def split: option.splits)

lemma beihaiToTeeError_success: "d \<noteq> TEE_STATUS_SUCCESS \<Longrightarrow> beihaiToTeeError r d = TEE_STATUS_SUCCESS \<longleftrightarrow> r = BH_SUCCESS"
  using map_of_all [OF _ tee_cases(1), of r] tee_cases(2) by (auto simp: beihaiToTeeError_def split: option.splits)

lemma beihaiToJhiError_range: "isJhiError d \<Longrightarrow> isJhiError (beihaiToJhiError r d)"
  using map_of_all [OF _ jhi_cases(1), of r] by (auto simp: beihaiToJhiError_def split: option.splits)

lemma beihaiToTeeError_range: "\<not> isJhiError d \<Longrightarrow> r \<noteq> BH_SUCCESS \<Longrightarrow> \<not> isJhiError (beihaiToTeeError r d)"
  using map_of_all [OF _ tee_cases(1), of r] by (auto simp: beihaiToTeeError_def split: option.splits)


end
