(* ===== verification/Beihai_Plugin.thy ===== *)
theory Beihai_Plugin
  imports Beihai_Common Beihai_Status
begin

text \<open>
  The plugin of the second Beihai machine, \<^verbatim>\<open>plugins/bhplugin2/jhi_plugin.cpp\<close>: the implementation of the interface
  through which the service reaches the firmware, over the functions of the Beihai library. These
  functions (\<^verbatim>\<open>bhp_exp.h\<close>, \<^verbatim>\<open>bh_acp_exp.h\<close>) and the transport are a parameter; \<open>'f\<close> is their state, the
  firmware included. The security domain of Intel is opened once, when the plugin starts
  (\<^verbatim>\<open>OPEN_INTEL_SD_SESSION_ONCE\<close>).
\<close>

section \<open>The library\<close>

text \<open>
  An array of identifiers: the count, and the entries unless the array is \<^verbatim>\<open>NULL\<close>; an entry may be \<^verbatim>\<open>NULL\<close>.
  The last component of \<^verbatim>\<open>BHP_SendAndRecv\<close>'s result is the response code, if it was assigned. The
  functions that parse a command package return an identifier of sixteen bytes, \<^verbatim>\<open>ACP_pload_ins_jta\<close> also where
  the applet's own package begins.
\<close>

type_synonym id_array = "uint32 \<times> string option list option"

record 'f BHP =
  BHP_Init :: "bool \<Rightarrow> 'f \<Rightarrow> BH_RET \<times> 'f"
  BHP_Deinit :: "bool \<Rightarrow> 'f \<Rightarrow> BH_RET \<times> 'f"
  BHP_OpenSDSession :: "string \<Rightarrow> 'f \<Rightarrow> (BH_RET \<times> uint64) \<times> 'f"
  BHP_CloseSDSession :: "uint64 \<Rightarrow> 'f \<Rightarrow> BH_RET \<times> 'f"
  BHP_SendAdminCmdPkg :: "uint64 \<Rightarrow> byte list \<Rightarrow> 'f \<Rightarrow> BH_RET \<times> 'f"
  BHP_ListInstalledTAs :: "uint64 \<Rightarrow> string \<Rightarrow> 'f \<Rightarrow> (BH_RET \<times> id_array) \<times> 'f"
  BHP_ListInstalledSDs :: "uint64 \<Rightarrow> 'f \<Rightarrow> (BH_RET \<times> id_array) \<times> 'f"
  BHP_ListTASessions :: "string \<Rightarrow> 'f \<Rightarrow> (BH_RET \<times> uint32) \<times> 'f"
  BHP_QueryTAProperty :: "string \<Rightarrow> string \<Rightarrow> 'f \<Rightarrow> (BH_RET \<times> string option) \<times> 'f"
  BHP_QueryTEEMetadata :: "'f \<Rightarrow> (BH_RET \<times> byte list) \<times> 'f"
  BHP_OpenTASession :: "string \<Rightarrow> byte list option \<Rightarrow> byte list option \<Rightarrow> 'f \<Rightarrow> (BH_RET \<times> uint64) \<times> 'f"
  BHP_CloseTASession :: "uint64 \<Rightarrow> 'f \<Rightarrow> BH_RET \<times> 'f"
  BHP_ForceCloseTASession :: "uint64 \<Rightarrow> 'f \<Rightarrow> BH_RET \<times> 'f"
  BHP_SendAndRecv :: "uint64 \<Rightarrow> uint32 \<Rightarrow> byte list \<Rightarrow> uint32 \<Rightarrow>
      'f \<Rightarrow> (BH_RET \<times> byte list option \<times> uint32 \<times> uint32 option) \<times> 'f"
  BHP_SendAndRecvInternal :: "uint64 \<Rightarrow> uint32 \<Rightarrow> uint32 \<Rightarrow> byte list \<Rightarrow> 'f \<Rightarrow> (BH_RET \<times> uint32 option) \<times> 'f"
  BHP_ProvisionOemMasterKey :: "uint64 \<Rightarrow> byte list \<Rightarrow> 'f \<Rightarrow> BH_RET \<times> 'f"
  BHP_SetTAEncryptionKey :: "uint64 \<Rightarrow> byte list \<Rightarrow> 'f \<Rightarrow> BH_RET \<times> 'f"
  ACP_get_cmd_id :: "byte list \<Rightarrow> BH_RET \<times> int"
  ACP_pload_ins_sd :: "byte list \<Rightarrow> BH_RET \<times> byte list"
  ACP_pload_uns_sd :: "byte list \<Rightarrow> BH_RET \<times> byte list"
  ACP_pload_ins_jta :: "byte list \<Rightarrow> BH_RET \<times> byte list \<times> nat option"
  ACP_pload_uns_jta :: "byte list \<Rightarrow> BH_RET \<times> byte list"
  TEE_Transport_Create :: "TEE_TRANSPORT_TYPE \<Rightarrow> 'f \<Rightarrow> (uint32 \<times> bool) \<times> 'f"
  pfnTeardown :: "'f \<Rightarrow> (uint32 \<times> bool) \<times> 'f"

section \<open>The plugin's state\<close>

text \<open>\<open>transport_up\<close>: the transport is not in the state \<^verbatim>\<open>TEE_INTERFACE_STATE_NOT_INITIALIZED\<close>.\<close>

record 'f BeihaiPlugin = "'f plugin_env" +
  intel_sd_handle :: uint64
  is_intel_sd_open :: bool
  oem_sd_handle :: uint64
  is_oem_sd_open :: bool
  oem_sd_id :: string
  transport_up :: bool

type_synonym ('f, 'a) plugin = "('f BeihaiPlugin, 'a) state"

definition BeihaiPlugin_new :: "'f \<Rightarrow> 'f BeihaiPlugin" where
  "BeihaiPlugin_new f = \<lparr> plugin_mem = [], plugin_fault = False, fw = f, intel_sd_handle = 0, is_intel_sd_open = False,
     oem_sd_handle = 0, is_oem_sd_open = False, oem_sd_id = [], transport_up = False \<rparr>"

section \<open>Starting and stopping\<close>

text \<open>\<^verbatim>\<open>INTEL_SD_UUID\<close>\<close>

abbreviation INTEL_SD_UUID :: string where "INTEL_SD_UUID \<equiv> ''BD2FBA36A2D64DAB9390FF6DA2FEF31C''"

definition BeihaiPlugin_Set_Transport_And_Memory :: "'f BHP \<Rightarrow> TEE_TRANSPORT_TYPE \<Rightarrow> ('f, JHI_RET) plugin" where
  "BeihaiPlugin_Set_Transport_And_Memory b tt = do {
     r \<leftarrow> on_fw (TEE_Transport_Create b tt);
     modify (\<lambda>s. s\<lparr>transport_up := snd r\<rparr>);
     ret (if fst r \<noteq> 0 then JHI_INTERNAL_ERROR else JHI_SUCCESS) }"

definition openIntelSD :: "'f BHP \<Rightarrow> ('f, BH_RET) plugin" where
  "openIntelSD b = do {
     o' \<leftarrow> gets is_intel_sd_open;
     if o' then ret BH_SUCCESS
     else do {
       r \<leftarrow> on_fw (BHP_OpenSDSession b INTEL_SD_UUID);
       (if fst r = BH_SUCCESS then modify (\<lambda>s. s\<lparr>intel_sd_handle := snd r, is_intel_sd_open := True\<rparr>) else ret ());
       ret (fst r) } }"

definition closeIntelSD :: "'f BHP \<Rightarrow> ('f, BH_RET) plugin" where
  "closeIntelSD b = do {
     o' \<leftarrow> gets is_intel_sd_open;
     if \<not> o' then ret BH_SUCCESS
     else do {
       h \<leftarrow> gets intel_sd_handle;
       r \<leftarrow> on_fw (BHP_CloseSDSession b h);
       modify (\<lambda>s. s\<lparr>intel_sd_handle := 0, is_intel_sd_open := False\<rparr>);
       ret r } }"

text \<open>What opening the domain returns is not looked at.\<close>

definition BeihaiPlugin_Init :: "'f BHP \<Rightarrow> bool \<Rightarrow> ('f, JHI_RET) plugin" where
  "BeihaiPlugin_Init b vmReset = do {
     r \<leftarrow> on_fw (BHP_Init b vmReset);
     openIntelSD b;
     ret (beihaiToJhiError r JHI_NO_CONNECTION_TO_FIRMWARE) }"

definition BeihaiPlugin_DeInit :: "'f BHP \<Rightarrow> bool \<Rightarrow> ('f, JHI_RET) plugin" where
  "BeihaiPlugin_DeInit b vmReset = do {
     closeIntelSD b;
     oem \<leftarrow> gets is_oem_sd_open;
     (if oem then do {
        h \<leftarrow> gets oem_sd_handle;
        on_fw (BHP_CloseSDSession b h);
        modify (\<lambda>s. s\<lparr>is_oem_sd_open := False, oem_sd_handle := 0, oem_sd_id := []\<rparr>) }
      else ret ());
     r \<leftarrow> on_fw (BHP_Deinit b vmReset);
     up \<leftarrow> gets transport_up;
     if up then do {
       t \<leftarrow> on_fw (pfnTeardown b);
       modify (\<lambda>s. s\<lparr>transport_up := snd t\<rparr>);
       ret (if fst t \<noteq> TEE_STATUS_SUCCESS \<or> snd t then JHI_INTERNAL_ERROR else beihaiToJhiError r JHI_INTERNAL_ERROR) }
     else ret (beihaiToJhiError r JHI_INTERNAL_ERROR) }"

section \<open>Applets\<close>

text \<open>
  \<^verbatim>\<open>UNINSTALL_PACK\<close>: a command package that uninstalls an applet, with its identifier, the last sixteen bytes,
  left open. \<^verbatim>\<open>setUninstallPack\<close> fills them with the values of the pairs of hexadecimal digits;
  \<^verbatim>\<open>substr\<close> throws when the identifier is too short.
\<close>

definition UNINSTALL_PACK :: "byte list" where
  "UNINSTALL_PACK =
    [6, 0, 0, 0, 0xA1, 0, 0, 0, 0, 0, 1, 0, 0, 0, 0, 0, 0x86, 0x80, 0, 0, 0x27, 7, 0x10, 0x20, 0xAE, 0, 0, 0, 0x40, 0, 0, 0, 0x40, 0, 0, 0, 1, 0, 0, 0, 0x43, 0x53, 0x45, 0x58, 1, 0, 0, 0, 0xBD, 0x2F, 0xBA, 0x36, 0xA2, 0xD6, 0x4D, 0xAB, 0x93, 0x90, 0xFF, 0x6D, 0xA2, 0xFE, 0xF3, 0x1C, 7, 0, 0, 0, 4] @
    replicate 579 0 @
    [0x42, 0x41, 0x43, 0x50, 1, 0, 0, 0, 0x30, 0, 0, 0, 4, 0, 0, 0, 0, 0, 0, 0, 2, 0, 0, 0, 0xFF, 0xFF, 0xFF, 0xFF, 0x20] @
    replicate 19 0"

text \<open>The number that \<^verbatim>\<open>strtol\<close> reads to base 16, as far as its last byte goes.\<close>

definition hex_digit :: "char \<Rightarrow> nat option" where
  "hex_digit c =
     (let v = chr_val c in
      if 48 \<le> v \<and> v \<le> 57 then Some (v - 48)
      else if 65 \<le> v \<and> v \<le> 70 then Some (v - 55)
      else if 97 \<le> v \<and> v \<le> 102 then Some (v - 87)
      else None)"

fun hex_value :: "byte \<Rightarrow> string \<Rightarrow> byte" where
  "hex_value acc [] = acc"
| "hex_value acc (c # cs) = (case hex_digit c of None \<Rightarrow> acc | Some d \<Rightarrow> hex_value (16 * acc + of_nat d) cs)"

definition strtol16 :: "string \<Rightarrow> byte" where
  "strtol16 s =
     (let t = skip_space s; n = hex_value 0 (drop_sign t) in
      case t of c # cs \<Rightarrow> if c = CHR ''-'' then - n else n | [] \<Rightarrow> n)"

definition setUninstallPack :: "string \<Rightarrow> ('f, byte list option) plugin" where
  "setUninstallPack pAppId = do {
     let appId = map toupper_c pAppId;
     a \<leftarrow> allocateMemory;
     if \<not> a then ret None
     else if length appId < 30 then do { plugin_crash; ret None }
     else ret (Some (take 680 UNINSTALL_PACK @ map (\<lambda>i. strtol16 (take 2 (drop (2 * i) appId))) [0 ..< 16])) }"

text \<open>\<^verbatim>\<open>strcasecmp\<close>\<close>

definition same_id :: "string \<Rightarrow> string \<Rightarrow> bool" where
  "same_id a b = (map toupper_c a = map toupper_c b)"

definition isTAinstalled :: "'f BHP \<Rightarrow> string \<Rightarrow> ('f, bool) plugin" where
  "isTAinstalled b pAppId = do {
     h \<leftarrow> gets intel_sd_handle;
     r \<leftarrow> on_fw (BHP_ListInstalledTAs b h INTEL_SD_UUID);
     ret (case r of (code, cnt, arr) \<Rightarrow>
       case arr of
         None \<Rightarrow> False
       | Some ids \<Rightarrow> code = BH_SUCCESS \<and>
           list_ex (\<lambda>e. case e of None \<Rightarrow> False | Some i \<Rightarrow> same_id i pAppId) (take (unat cnt) ids)) }"

definition getTA_SessionCount :: "'f BHP \<Rightarrow> string \<Rightarrow> ('f, uint32) plugin" where
  "getTA_SessionCount b pAppId = do {
     i \<leftarrow> isTAinstalled b pAppId;
     if \<not> i then ret 0
     else do {
       r \<leftarrow> on_fw (BHP_ListTASessions b pAppId);
       ret (if fst r = BH_SUCCESS then snd r else 0) } }"

definition BeihaiPlugin_DownloadApplet :: "'f BHP \<Rightarrow> string \<Rightarrow> byte list \<Rightarrow> ('f, JHI_RET) plugin" where
  "BeihaiPlugin_DownloadApplet b pAppId pAppBlob = do {
     n \<leftarrow> getTA_SessionCount b pAppId;
     if n > 0 then ret JHI_INSTALL_FAILURE_SESSIONS_EXISTS
     else do {
       h \<leftarrow> gets intel_sd_handle;
       r \<leftarrow> on_fw (BHP_SendAdminCmdPkg b h pAppBlob);
       ret (beihaiToJhiError r JHI_INTERNAL_ERROR) } }"

definition BeihaiPlugin_UnloadApplet :: "'f BHP \<Rightarrow> string \<Rightarrow> ('f, JHI_RET) plugin" where
  "BeihaiPlugin_UnloadApplet b pAppId = do {
     p \<leftarrow> setUninstallPack pAppId;
     (case p of
        None \<Rightarrow> ret JHI_INTERNAL_ERROR
      | Some uninstallPkg \<Rightarrow> do {
          h \<leftarrow> gets intel_sd_handle;
          r \<leftarrow> on_fw (BHP_SendAdminCmdPkg b h uninstallPkg);
          ret (beihaiToJhiError r JHI_INTERNAL_ERROR) }) }"

section \<open>Properties of applets\<close>

text \<open>The code, what is in the receive buffer, and the length.\<close>

definition BeihaiPlugin_GetAppletProperty :: "'f BHP \<Rightarrow> string \<Rightarrow> string \<Rightarrow> uint32 \<Rightarrow> ('f, JHI_RET \<times> string \<times> uint32) plugin" where
  "BeihaiPlugin_GetAppletProperty b AppId inputBuffer outputBufferLength = do {
     r \<leftarrow> on_fw (BHP_QueryTAProperty b AppId inputBuffer);
     (case r of
        (code, Some out) \<Rightarrow>
          if code \<noteq> BH_SUCCESS then ret (beihaiToJhiError code JHI_INTERNAL_ERROR, [], 0)
          else do {
            v \<leftarrow> (if inputBuffer = ''applet.version'' then convertAppProperty_Version out else ret out);
            if sint outputBufferLength < int (length v) then ret (JHI_INSUFFICIENT_BUFFER, [], of_nat (length v))
            else ret (JHI_SUCCESS, v @ [NUL], of_nat (length v)) }
      | (code, None) \<Rightarrow> ret (beihaiToJhiError code JHI_INTERNAL_ERROR, [], 0)) }"

section \<open>Sessions\<close>

text \<open>\<^verbatim>\<open>sendSessionIDtoApplet\<close>: the response is -1 before the call. The message type 1 is the identifier.\<close>

definition sendSessionIDtoApplet :: "'f BHP \<Rightarrow> uint64 \<Rightarrow> JHI_SESSION_ID \<Rightarrow> ('f, BH_RET \<times> uint32) plugin" where
  "sendSessionIDtoApplet b session_handle SessionID = do {
     r \<leftarrow> on_fw (BHP_SendAndRecvInternal b session_handle 1 0 (uuid_bytes SessionID));
     ret (fst r, case snd r of None \<Rightarrow> - 1 | Some x \<Rightarrow> x) }"

definition BeihaiPlugin_CreateSession :: "'f BHP \<Rightarrow> string \<Rightarrow> byte list option \<Rightarrow> JHI_SESSION_ID \<Rightarrow> byte list option \<Rightarrow>
    ('f, JHI_RET \<times> VM_SESSION_HANDLE) plugin" where
  "BeihaiPlugin_CreateSession b AppId pAppBlob SessionID initBuffer = do {
     let blob = (case pAppBlob of None \<Rightarrow> [] | Some x \<Rightarrow> x);
     let ta_pack = map_option (\<lambda>n. drop n blob) (snd (snd (ACP_pload_ins_jta b blob)));
     r \<leftarrow> on_fw (BHP_OpenTASession b AppId ta_pack initBuffer);
     if fst r = BH_SUCCESS then do {
       q \<leftarrow> sendSessionIDtoApplet b (snd r) SessionID;
       ret (if fst q \<noteq> BH_SUCCESS \<or> snd q \<noteq> 0 then JHI_INTERNAL_ERROR else JHI_SUCCESS, snd r) }
     else ret (beihaiToJhiError (fst r) JHI_INTERNAL_ERROR, snd r) }"

definition BeihaiPlugin_ForceCloseSession :: "'f BHP \<Rightarrow> VM_SESSION_HANDLE \<Rightarrow> ('f, JHI_RET) plugin" where
  "BeihaiPlugin_ForceCloseSession b h = do {
     r \<leftarrow> on_fw (BHP_ForceCloseTASession b h);
     ret (beihaiToJhiError r JHI_INTERNAL_ERROR) }"

definition BeihaiPlugin_CloseSession :: "'f BHP \<Rightarrow> VM_SESSION_HANDLE \<Rightarrow> ('f, JHI_RET) plugin" where
  "BeihaiPlugin_CloseSession b h = do {
     r \<leftarrow> on_fw (BHP_CloseTASession b h);
     ret (beihaiToJhiError r JHI_INTERNAL_ERROR) }"

text \<open>
  \<^verbatim>\<open>JHI_Plugin_SendAndRecv\<close>: the code, the bytes written to the receive buffer, the length and the response,
  which is \<open>resp\<close> when the library does not assign it. \<^verbatim>\<open>memcpy_s\<close> writes nothing when the buffer is too small.
\<close>

definition BeihaiPlugin_SendAndRecv :: "'f BHP \<Rightarrow> uint32 \<Rightarrow> VM_SESSION_HANDLE \<Rightarrow> uint32 \<Rightarrow> byte list \<Rightarrow> uint32 \<Rightarrow>
    ('f, JHI_RET \<times> byte list \<times> uint32 \<times> uint32) plugin" where
  "BeihaiPlugin_SendAndRecv b resp h nCommandId inputBuffer outputBufferLength = do {
     r \<leftarrow> on_fw (BHP_SendAndRecv b h nCommandId inputBuffer outputBufferLength);
     (case r of (code, out, len, response) \<Rightarrow>
        let copied = (case out of
            Some o' \<Rightarrow> if code = BH_SUCCESS \<and> len \<le> outputBufferLength then take (unat len) o' else []
          | None \<Rightarrow> []) in
        ret (beihaiToJhiError code JHI_INTERNAL_ERROR, copied, len, case response of None \<Rightarrow> resp | Some x \<Rightarrow> x)) }"

text \<open>\<^verbatim>\<open>JHI_Plugin_WaitForSpoolerEvent\<close>: the first buffer is zeroed, the second is taken to be.\<close>

definition BeihaiPlugin_WaitForSpoolerEvent :: "'f BHP \<Rightarrow> VM_SESSION_HANDLE \<Rightarrow>
    ('f, JHI_RET \<times> JHI_EVENT_DATA option \<times> JHI_SESSION_ID) plugin" where
  "BeihaiPlugin_WaitForSpoolerEvent b SpoolerSession = do {
     a \<leftarrow> allocateMemory;
     if \<not> a then ret (JHI_INTERNAL_ERROR, None, UUID [])
     else do {
       e \<leftarrow> allocateMemory;
       if \<not> e then ret (JHI_INTERNAL_ERROR, None, UUID [])
       else do {
         let splr = map byte_of_char ''SPLR'';
         r \<leftarrow> BeihaiPlugin_SendAndRecv b 0 SpoolerSession 1 splr 1040;
         (case r of (code, written, len, response) \<Rightarrow>
            if code = JHI_INSUFFICIENT_BUFFER then do {
              a2 \<leftarrow> allocateMemory;
              if \<not> a2 then ret (JHI_INTERNAL_ERROR, None, UUID [])
              else do {
                q \<leftarrow> BeihaiPlugin_SendAndRecv b response SpoolerSession 1 splr len;
                (case q of (code2, written2, len2, response2) \<Rightarrow>
                   if code2 = JHI_SUCCESS \<and> response2 = JHI_SUCCESS then spooler_event len written2 len2
                   else ret (code2, None, UUID [])) } }
            else if code = JHI_SUCCESS \<and> response = JHI_SUCCESS then spooler_event 1040 written len
            else ret (code, None, UUID [])) } } }"

section \<open>Security domains and command packages\<close>

text \<open>The entries up to the first one that is missing or has less than 32 characters.\<close>

fun listed_ids :: "string option list \<Rightarrow> string list" where
  "listed_ids [] = []"
| "listed_ids (e # es) = (case e of None \<Rightarrow> [] | Some i \<Rightarrow> if length i < 32 then [] else i # listed_ids es)"

definition BeihaiPlugin_ListInstalledTAs :: "'f BHP \<Rightarrow> uint64 \<Rightarrow> ('f, TEE_STATUS \<times> string list) plugin" where
  "BeihaiPlugin_ListInstalledTAs b h = do {
     s \<leftarrow> gets (\<lambda>s. s);
     let sdId = (if h = 0 then Inl BPE_INVALID_PARAMS
                 else if h = intel_sd_handle s then Inr INTEL_SD_UUID
                 else if is_oem_sd_open s \<and> h = oem_sd_handle s then Inr (oem_sd_id s)
                 else Inl BHE_SDM_NOT_FOUND);
     (case sdId of
        Inl e \<Rightarrow> ret (beihaiToTeeError e TEE_STATUS_INTERNAL_ERROR, [])
      | Inr i \<Rightarrow> do {
          r \<leftarrow> on_fw (BHP_ListInstalledTAs b h i);
          (case r of (code, cnt, arr) \<Rightarrow>
             if code \<noteq> BH_SUCCESS then ret (beihaiToTeeError code TEE_STATUS_INTERNAL_ERROR, [])
             else case arr of
                 None \<Rightarrow> ret (beihaiToTeeError (if cnt \<noteq> 0 then BPE_INTERNAL_ERROR else BH_SUCCESS) TEE_STATUS_INTERNAL_ERROR, [])
               | Some ids \<Rightarrow> ret (TEE_STATUS_SUCCESS, listed_ids (take (unat cnt) ids))) }) }"

text \<open>The two early returns give the library's code as it is.\<close>

definition BeihaiPlugin_ListInstalledSDs :: "'f BHP \<Rightarrow> uint64 \<Rightarrow> ('f, TEE_STATUS \<times> string list) plugin" where
  "BeihaiPlugin_ListInstalledSDs b h = do {
     i \<leftarrow> gets intel_sd_handle;
     if h \<noteq> i then ret (beihaiToTeeError TEE_STATUS_UNSUPPORTED_PLATFORM TEE_STATUS_INTERNAL_ERROR, [])
     else do {
       r \<leftarrow> on_fw (BHP_ListInstalledSDs b h);
       (case r of (code, cnt, arr) \<Rightarrow>
          if code \<noteq> BH_SUCCESS then ret (code, [])
          else case arr of
              None \<Rightarrow> ret (BPE_INTERNAL_ERROR, [])
            | Some ids \<Rightarrow> ret (TEE_STATUS_SUCCESS, listed_ids (take (unat cnt) ids))) } }"

text \<open>The handle that is not assigned is zero.\<close>

definition BeihaiPlugin_OpenSDSession :: "'f BHP \<Rightarrow> string \<Rightarrow> ('f, TEE_STATUS \<times> uint64) plugin" where
  "BeihaiPlugin_OpenSDSession b sdId =
     (if \<not> validateUuidString sdId then ret (beihaiToTeeError BPE_INVALID_PARAMS TEE_STATUS_INTERNAL_ERROR, 0)
      else do {
        s \<leftarrow> gets (\<lambda>s. s);
        if same_id INTEL_SD_UUID sdId then ret (TEE_STATUS_SUCCESS, intel_sd_handle s)
        else if is_oem_sd_open s \<and> sdId = oem_sd_id s then ret (TEE_STATUS_SUCCESS, oem_sd_handle s)
        else do {
          r \<leftarrow> on_fw (BHP_OpenSDSession b sdId);
          (if fst r = BH_SUCCESS
           then modify (\<lambda>s. s\<lparr>is_oem_sd_open := True, oem_sd_handle := snd r, oem_sd_id := sdId\<rparr>) else ret ());
          ret (beihaiToTeeError (fst r) TEE_STATUS_INTERNAL_ERROR, snd r) } })"

definition BeihaiPlugin_CloseSDSession :: "'f BHP \<Rightarrow> uint64 \<Rightarrow> ('f, TEE_STATUS) plugin" where
  "BeihaiPlugin_CloseSDSession b h = do {
     s \<leftarrow> gets (\<lambda>s. s);
     if h = intel_sd_handle s then ret TEE_STATUS_SUCCESS
     else if is_oem_sd_open s \<and> h = oem_sd_handle s then ret TEE_STATUS_SUCCESS
     else do {
       r \<leftarrow> on_fw (BHP_CloseSDSession b h);
       ret (beihaiToTeeError r TEE_STATUS_INTERNAL_ERROR) } }"

definition BeihaiPlugin_SendCmdPkg :: "'f BHP \<Rightarrow> uint64 \<Rightarrow> byte list \<Rightarrow> ('f, TEE_STATUS) plugin" where
  "BeihaiPlugin_SendCmdPkg b h blob =
     (if blob = [] then ret TEE_STATUS_INVALID_PARAMS
      else do {
        r \<leftarrow> on_fw (BHP_SendAdminCmdPkg b h blob);
        ret (beihaiToTeeError r TEE_STATUS_INTERNAL_ERROR) })"

text \<open>Without memory for the copy the caller gets a null pointer with the length of the metadata.\<close>

definition BeihaiPlugin_QueryTeeMetadata :: "'f BHP \<Rightarrow> ('f, TEE_STATUS \<times> byte list) plugin" where
  "BeihaiPlugin_QueryTeeMetadata b = do {
     r \<leftarrow> on_fw (BHP_QueryTEEMetadata b);
     if fst r = BH_SUCCESS then do {
       a \<leftarrow> allocateMemory;
       if a then ret (TEE_STATUS_SUCCESS, snd r) else do { plugin_crash; ret (TEE_STATUS_SUCCESS, []) } }
     else ret (beihaiToTeeError (fst r) TEE_STATUS_INTERNAL_ERROR, []) }"

text \<open>\<^verbatim>\<open>uuid_to_string\<close> of \<^verbatim>\<open>bh_acp_util.c\<close>\<close>

definition hex2asc :: "nat \<Rightarrow> char" where
  "hex2asc c = char_of (if c < 10 then 48 + c else 97 + c - 10)"

definition uuid_to_string :: "byte list \<Rightarrow> string" where
  "uuid_to_string uuid = concat (map (\<lambda>x. [hex2asc (unat x div 16), hex2asc (unat x mod 16)]) uuid)"

text \<open>
  \<^verbatim>\<open>JHI_Plugin_ParsePackage\<close>. For the command that uninstalls a domain the identifier is read from the place where
  the pointer to it is kept.
\<close>

definition BeihaiPlugin_ParsePackage :: "'f BHP \<Rightarrow> byte list \<Rightarrow> TEE_STATUS \<times> PACKAGE_INFO" where
  "BeihaiPlugin_ParsePackage b cmd_pkg =
     (let none = \<lparr> packageType = 0, pkg_uuid = [] \<rparr>; bad = beihaiToTeeError BPE_INVALID_PARAMS TEE_STATUS_INTERNAL_ERROR in
      if cmd_pkg = [] then (bad, none)
      else case ACP_get_cmd_id b cmd_pkg of (r, cmd_type) \<Rightarrow>
        if r \<noteq> BH_SUCCESS then (bad, none)
        else let
            info = \<lparr> packageType = cmd_type, pkg_uuid = [] \<rparr>;
            parsed = (\<lambda>q. if fst q \<noteq> BH_SUCCESS then (bad, info)
                          else (TEE_STATUS_SUCCESS, info\<lparr>pkg_uuid := uuid_to_string (take 16 (snd q))\<rparr>))
          in case ac_cmd cmd_type of
              AC_INSTALL_SD \<Rightarrow> parsed (ACP_pload_ins_sd b cmd_pkg)
            | AC_UNINSTALL_SD \<Rightarrow> parsed (ACP_pload_uns_sd b cmd_pkg)
            | AC_INSTALL_JTA \<Rightarrow> parsed (case ACP_pload_ins_jta b cmd_pkg of (c, i, n) \<Rightarrow> (c, i))
            | AC_UNINSTALL_JTA \<Rightarrow> parsed (ACP_pload_uns_jta b cmd_pkg)
            | AC_UPDATE_SVL \<Rightarrow> (TEE_STATUS_SUCCESS, info)
            | _ \<Rightarrow> (beihaiToTeeError BPE_INVALID_BPK_FILE TEE_STATUS_INTERNAL_ERROR, info))"

definition BeihaiPlugin_ProvisionOemMasterKey :: "'f BHP \<Rightarrow> byte list \<Rightarrow> ('f, TEE_STATUS) plugin" where
  "BeihaiPlugin_ProvisionOemMasterKey b key = do {
     h \<leftarrow> gets intel_sd_handle;
     r \<leftarrow> on_fw (BHP_ProvisionOemMasterKey b h key);
     ret (beihaiToTeeError r JHI_INTERNAL_ERROR) }"

definition BeihaiPlugin_SetTAEncryptionKey :: "'f BHP \<Rightarrow> byte list \<Rightarrow> ('f, TEE_STATUS) plugin" where
  "BeihaiPlugin_SetTAEncryptionKey b key = do {
     h \<leftarrow> gets intel_sd_handle;
     r \<leftarrow> on_fw (BHP_SetTAEncryptionKey b h key);
     ret (beihaiToTeeError r JHI_INTERNAL_ERROR) }"

section \<open>The interface\<close>

text \<open>
  The plugin as the service sees it; what is not part of the plugin comes from \<open>base\<close>. The response code
  of a command is a variable of the caller.
\<close>

definition beihai_v2 :: "'f BHP \<Rightarrow> 'f BeihaiPlugin platform \<Rightarrow> 'f BeihaiPlugin platform" where
  "beihai_v2 b base = base\<lparr>
     JHI_Plugin_Init := (\<lambda>r. run_state (BeihaiPlugin_Init b r)),
     JHI_Plugin_DeInit := (\<lambda>r. run_state (BeihaiPlugin_DeInit b r)),
     JHI_Plugin_Set_Transport_And_Memory := (\<lambda>t. run_state (BeihaiPlugin_Set_Transport_And_Memory b t)),
     JHI_Plugin_DownloadApplet := (\<lambda>a d. run_state (BeihaiPlugin_DownloadApplet b a d)),
     JHI_Plugin_UnloadApplet := (\<lambda>a. run_state (BeihaiPlugin_UnloadApplet b a)),
     JHI_Plugin_GetAppletProperty := (\<lambda>a q n. run_state (BeihaiPlugin_GetAppletProperty b a q n)),
     JHI_Plugin_CreateSession := (\<lambda>a d i q. run_state (BeihaiPlugin_CreateSession b a d i q)),
     JHI_Plugin_CloseSession := (\<lambda>h. run_state (BeihaiPlugin_CloseSession b h)),
     JHI_Plugin_ForceCloseSession := (\<lambda>h. run_state (BeihaiPlugin_ForceCloseSession b h)),
     JHI_Plugin_WaitForSpoolerEvent := (\<lambda>h. run_state (BeihaiPlugin_WaitForSpoolerEvent b h)),
     JHI_Plugin_SendAndRecv := (\<lambda>h c t n. run_state (BeihaiPlugin_SendAndRecv b 0 h c t n)),
     JHI_Plugin_SendCmdPkg := (\<lambda>h d. run_state (BeihaiPlugin_SendCmdPkg b h d)),
     JHI_Plugin_ParsePackage := (\<lambda>d. Pair (BeihaiPlugin_ParsePackage b d)),
     JHI_Plugin_QueryTeeMetadata := run_state (BeihaiPlugin_QueryTeeMetadata b),
     JHI_Plugin_OpenSDSession := (\<lambda>i. run_state (BeihaiPlugin_OpenSDSession b i)),
     JHI_Plugin_CloseSDSession := (\<lambda>h. run_state (BeihaiPlugin_CloseSDSession b h)),
     JHI_Plugin_ListInstalledTAs := (\<lambda>h. run_state (BeihaiPlugin_ListInstalledTAs b h)),
     JHI_Plugin_ListInstalledSDs := (\<lambda>h. run_state (BeihaiPlugin_ListInstalledSDs b h)),
     JHI_Plugin_ProvisionOemMasterKey := (\<lambda>k. run_state (BeihaiPlugin_ProvisionOemMasterKey b k)),
     JHI_Plugin_SetTAEncryptionKey := (\<lambda>k. run_state (BeihaiPlugin_SetTAEncryptionKey b k))\<rparr>"

end
