(* ===== verification/Beihai_Properties.thy ===== *)
theory Beihai_Properties
  imports Beihai_Plugin
begin

text \<open>
  What the plugin of the second Beihai machine promises, and the service over this plugin.
\<close>

section \<open>Runs of the plugin's methods\<close>

lemma beihai_v2_fields [simp]:
  "JHI_Plugin_WaitForSpoolerEvent (beihai_v2 b base) h = run_state (BeihaiPlugin_WaitForSpoolerEvent b h)"
  "JHI_Plugin_ParsePackage (beihai_v2 b base) d w = (BeihaiPlugin_ParsePackage b d, w)"
  by (simp_all add: beihai_v2_def)

section \<open>Events\<close>

lemma wait_event_wf:
  "case fst (snd (fst (run_state (BeihaiPlugin_WaitForSpoolerEvent b h) s))) of None \<Rightarrow> True | Some e \<Rightarrow> event_wf e"
  by (auto simp: BeihaiPlugin_WaitForSpoolerEvent_def Let_def spooler_event_wf split: prod.split if_splits)

lemma beihai_events_wf: "events_wf (beihai_v2 b base)"
  using wait_event_wf by (auto simp: events_wf_def)

section \<open>Identifiers in hexadecimal\<close>

lemma hex2asc_val: "n < 16 \<Longrightarrow> chr_val (hex2asc n) = (if n < 10 then 48 + n else 87 + n)"
  by (simp add: hex2asc_def)

lemma uuid_to_string_lower: "c \<in> set (uuid_to_string u) \<Longrightarrow> chr_val c < 65 \<or> 97 \<le> chr_val c"
proof -
  have "unat x div 16 < 16" for x :: byte using unat_less [of x] by simp
  then show "c \<in> set (uuid_to_string u) \<Longrightarrow> ?thesis" by (auto simp: uuid_to_string_def hex2asc_val split: if_splits)
qed

lemma parsed_uuid_not_spooler:
  "pkg_uuid (snd (BeihaiPlugin_ParsePackage b blob)) \<noteq> SPOOLER_APPLET_UUID"
proof -
  have "uuid_to_string u \<noteq> SPOOLER_APPLET_UUID" for u
  proof
    assume "uuid_to_string u = SPOOLER_APPLET_UUID"
    then have "CHR ''B'' \<in> set (uuid_to_string u)" by (simp add: SPOOLER_APPLET_UUID_def)
    then show False using uuid_to_string_lower [of "CHR ''B''" u] by simp
  qed
  then show ?thesis
    by (auto simp: BeihaiPlugin_ParsePackage_def Let_def SPOOLER_APPLET_UUID_def split: prod.splits AC_CMD_ID.splits)
qed

text \<open>The identifier of the event spooler as a package has it.\<close>

definition spooler_bytes :: "byte list" where
  "spooler_bytes = [0xBA, 0x8D, 0x16, 0x43, 0x50, 0xB6, 0x49, 0xCC, 0x86, 0x1D, 0x2C, 0x01, 0xBE, 0xD1, 0x4B, 0xE8]"

lemma spooler_bytes_string: "strToUppercase (uuid_to_string spooler_bytes) = SPOOLER_APPLET_UUID" "length spooler_bytes = 16"
  by code_simp+

lemma uppercase_hex2asc: "hex_digit c = Some d \<Longrightarrow> toupper_c (hex2asc d) = toupper_c c"
proof -
  assume "hex_digit c = Some d"
  then have "d < 16" "chr_val c = 48 + d \<and> d < 10 \<or> chr_val c = 55 + d \<and> 10 \<le> d \<or> chr_val c = 87 + d \<and> 10 \<le> d"
    by (auto simp: hex_digit_def Let_def split: if_splits)
  then show ?thesis
    by (auto simp: toupper_c_def hex2asc_val) (auto simp: hex2asc_def char_of_eq_iff take_bit_nat_eq_self)
qed

lemma uuid_char_digit: "uuid_char c \<Longrightarrow> \<exists>d < 16. hex_digit c = Some d"
  by (auto simp: uuid_char_def hex_digit_def Let_def)

lemma uuid_char_plain: "uuid_char c \<Longrightarrow> \<not> isspace_c c \<and> c \<noteq> CHR ''-'' \<and> c \<noteq> CHR ''+''"
  by (auto simp: uuid_char_def isspace_c_def)

lemma toupper_digit: "uuid_char c \<Longrightarrow> hex_digit (toupper_c c) = hex_digit c \<and> uuid_char (toupper_c c)"
  by (auto simp: uuid_char_def hex_digit_def chr_val_toupper Let_def)

lemma strtol16_pair:
  assumes "uuid_char c" "uuid_char d" "hex_digit c = Some x" "hex_digit d = Some y"
  shows "strtol16 [c, d] = of_nat (16 * x + y)"
  using assms uuid_char_plain [of c] uuid_char_plain [of d]
  by (simp add: strtol16_def skip_space_def drop_sign_def Let_def)

text \<open>Two digits, the byte they stand for, and its text.\<close>

lemma pair_round:
  assumes "uuid_char c" "uuid_char d"
  shows "map toupper_c (uuid_to_string [strtol16 (map toupper_c [c, d])]) = map toupper_c [c, d]"
proof -
  obtain x y where x: "x < 16" "hex_digit c = Some x" and y: "y < 16" "hex_digit d = Some y"
    using uuid_char_digit assms by meson
  have "strtol16 (map toupper_c [c, d]) = of_nat (16 * x + y)"
    using strtol16_pair [of "toupper_c c" "toupper_c d" x y] assms x y by (simp add: toupper_digit)
  moreover have "unat (of_nat (16 * x + y) :: byte) = 16 * x + y"
    using x(1) y(1) by (simp only: unat_of_nat) simp
  ultimately show ?thesis
    using x y by (simp add: uuid_to_string_def uppercase_hex2asc)
qed

definition hex_bytes :: "string \<Rightarrow> byte list" where
  "hex_bytes s = map (\<lambda>i. strtol16 (take 2 (drop (2 * i) s))) [0 ..< length s div 2]"

lemma hex_bytes_step: "hex_bytes (c # d # s) = strtol16 [c, d] # hex_bytes s"
  by (simp add: hex_bytes_def upt_conv_Cons map_Suc_upt [symmetric] del: upt_Suc)

lemma hex_bytes_round:
  "list_all uuid_char s \<Longrightarrow> even (length s) \<Longrightarrow>
   map toupper_c (uuid_to_string (hex_bytes (map toupper_c s))) = map toupper_c s"
proof (induction s rule: induct_list012)
  case (3 c d s)
  then show ?case
    using pair_round [of c d] by (simp add: hex_bytes_step uuid_to_string_def)
qed (simp_all add: hex_bytes_def uuid_to_string_def)

section \<open>Numbers in decimal\<close>

lemma digits_value_append:
  "list_all isdigit_c s \<Longrightarrow> digits_value acc (s @ t) = digits_value (digits_value acc s) t"
  by (induction s arbitrary: acc) (auto simp: isdigit_c_def)

lemma decimal_digits: "list_all isdigit_c (decimal n)"
  by (induction n rule: decimal.induct) (subst decimal.simps, auto simp: isdigit_c_def [abs_def])

lemma digits_value_decimal: "digits_value 0 (decimal n) = n"
proof (induction n rule: decimal.induct)
  case (1 n)
  show ?case
    using 1 by (subst decimal.simps) (auto simp: digits_value_append decimal_digits)
qed

lemma stream_unsigned_decimal: "n < 2 ^ 32 \<Longrightarrow> stream_unsigned (decimal n) = n"
proof -
  assume n: "n < 2 ^ 32"
  obtain c cs where d: "decimal n = c # cs" using decimal_nonempty by (meson neq_Nil_conv)
  then have "isdigit_c c" using decimal_digits [of n] by simp
  then have "\<not> isspace_c c" "c \<noteq> CHR ''-''" "c \<noteq> CHR ''+''" by (auto simp: isdigit_c_def isspace_c_def)
  then show ?thesis
    using n digits_value_decimal [of n] d by (simp add: stream_unsigned_def skip_space_def drop_sign_def Let_def)
qed

lemma version_split: "rfind (CHR ''.'') (decimal m @ CHR ''.'' # decimal n) = Some (length (decimal m))"
proof -
  have "CHR ''.'' \<notin> set (decimal n)" using decimal_digits [of n] by (auto simp: list_all_iff isdigit_c_def)
  then show ?thesis by (simp add: rfind_append rfind_None [THEN iffD2])
qed

section \<open>Frames\<close>

lemma frames_on_fw: "(\<And>s w. g (s\<lparr>fw := w\<rparr>) = g s) \<Longrightarrow> frames g (on_fw f)"
  by (simp add: frames_def run_on_fw)

lemma frames_steps:
  "frames g (ret a)" "frames g (gets h)"
  "frames g m \<Longrightarrow> (\<And>x. frames g (k x)) \<Longrightarrow> frames g (m \<bind> k)"
  "frames g p \<Longrightarrow> frames g q \<Longrightarrow> frames g (if c then p else q)"
  "frames g n \<Longrightarrow> (\<And>x. frames g (j x)) \<Longrightarrow> frames g (case y of None \<Rightarrow> n | Some x \<Rightarrow> j x)"
  "(\<And>x z. frames g (l x z)) \<Longrightarrow> frames g (case xz of (x, z) \<Rightarrow> l x z)"
  "(\<And>x. frames g (e x)) \<Longrightarrow> (\<And>x. frames g (i x)) \<Longrightarrow> frames g (case ei of Inl x \<Rightarrow> e x | Inr x \<Rightarrow> i x)"
  by (auto simp: frames_def split: prod.split option.split sum.split) (metis snd_conv)+

text \<open>The domain of Intel, as the plugin keeps it.\<close>

definition intel_domain :: "'f BeihaiPlugin \<Rightarrow> uint64 \<times> bool" where
  "intel_domain s = (intel_sd_handle s, is_intel_sd_open s)"

lemma domain_fw [simp]: "intel_domain (s\<lparr>fw := w\<rparr>) = intel_domain s"
  by (simp add: intel_domain_def)

lemma domain_memory: "frames intel_domain allocateMemory" "frames intel_domain plugin_crash"
  by (auto simp: frames_def allocateMemory_def plugin_crash_def action_def intel_domain_def split: list.split)

lemmas domain_steps = frames_on_fw [where g = intel_domain, OF domain_fw] domain_memory frames_steps [where g = intel_domain]

text \<open>A call of the service between start and stop of the plugin, or a change of the firmware by itself.\<close>

inductive plugin_call :: "'f BHP \<Rightarrow> 'f BeihaiPlugin \<Rightarrow> 'f BeihaiPlugin \<Rightarrow> bool" for b :: "'f BHP" where
  call_download: "run_state (BeihaiPlugin_DownloadApplet b a d) s = (r, s') \<Longrightarrow> plugin_call b s s'"
| call_unload: "run_state (BeihaiPlugin_UnloadApplet b a) s = (r, s') \<Longrightarrow> plugin_call b s s'"
| call_property: "run_state (BeihaiPlugin_GetAppletProperty b a q n) s = (t, s') \<Longrightarrow> plugin_call b s s'"
| call_create: "run_state (BeihaiPlugin_CreateSession b a blob i d2) s = (u, s') \<Longrightarrow> plugin_call b s s'"
| call_close: "run_state (BeihaiPlugin_CloseSession b h) s = (r, s') \<Longrightarrow> plugin_call b s s'"
| call_force_close: "run_state (BeihaiPlugin_ForceCloseSession b h) s = (r, s') \<Longrightarrow> plugin_call b s s'"
| call_wait: "run_state (BeihaiPlugin_WaitForSpoolerEvent b h) s = (e, s') \<Longrightarrow> plugin_call b s s'"
| call_txrx: "run_state (BeihaiPlugin_SendAndRecv b resp h c d n) s = (x, s') \<Longrightarrow> plugin_call b s s'"
| call_cmd: "run_state (BeihaiPlugin_SendCmdPkg b h d) s = (r, s') \<Longrightarrow> plugin_call b s s'"
| call_metadata: "run_state (BeihaiPlugin_QueryTeeMetadata b) s = (m, s') \<Longrightarrow> plugin_call b s s'"
| call_open_sd: "run_state (BeihaiPlugin_OpenSDSession b a) s = (o', s') \<Longrightarrow> plugin_call b s s'"
| call_close_sd: "run_state (BeihaiPlugin_CloseSDSession b h) s = (r, s') \<Longrightarrow> plugin_call b s s'"
| call_list_tas: "run_state (BeihaiPlugin_ListInstalledTAs b h) s = (l, s') \<Longrightarrow> plugin_call b s s'"
| call_list_sds: "run_state (BeihaiPlugin_ListInstalledSDs b h) s = (l, s') \<Longrightarrow> plugin_call b s s'"
| call_master_key: "run_state (BeihaiPlugin_ProvisionOemMasterKey b d) s = (r, s') \<Longrightarrow> plugin_call b s s'"
| call_encryption_key: "run_state (BeihaiPlugin_SetTAEncryptionKey b d) s = (r, s') \<Longrightarrow> plugin_call b s s'"
| call_outside: "plugin_call b s (s\<lparr>fw := w\<rparr>)"

lemma domain_open_sd: "frames intel_domain (BeihaiPlugin_OpenSDSession b a)"
  by (auto simp: frames_def BeihaiPlugin_OpenSDSession_def run_on_fw intel_domain_def)

lemma domain_events:
  "frames intel_domain (spooler_event n w l)" "frames intel_domain (BeihaiPlugin_SendAndRecv b resp h c d k)"
  "frames intel_domain (BeihaiPlugin_WaitForSpoolerEvent b h)"
  unfolding BeihaiPlugin_WaitForSpoolerEvent_def BeihaiPlugin_SendAndRecv_def spooler_event_def Let_def
  by (intro domain_steps)+

lemma domain_applets:
  "frames intel_domain (BeihaiPlugin_DownloadApplet b a d)" "frames intel_domain (BeihaiPlugin_UnloadApplet b a)"
  "frames intel_domain (BeihaiPlugin_GetAppletProperty b a q n)" "frames intel_domain (BeihaiPlugin_CreateSession b a bl i d2)"
  unfolding BeihaiPlugin_DownloadApplet_def BeihaiPlugin_UnloadApplet_def BeihaiPlugin_GetAppletProperty_def
    BeihaiPlugin_CreateSession_def getTA_SessionCount_def isTAinstalled_def setUninstallPack_def convertAppProperty_Version_def
    sendSessionIDtoApplet_def Let_def
  by (intro domain_steps)+

lemma domain_others:
  "frames intel_domain (BeihaiPlugin_CloseSession b h)" "frames intel_domain (BeihaiPlugin_ForceCloseSession b h)"
  "frames intel_domain (BeihaiPlugin_SendCmdPkg b h d)" "frames intel_domain (BeihaiPlugin_QueryTeeMetadata b)"
  "frames intel_domain (BeihaiPlugin_CloseSDSession b h)" "frames intel_domain (BeihaiPlugin_ListInstalledTAs b h)"
  "frames intel_domain (BeihaiPlugin_ListInstalledSDs b h)" "frames intel_domain (BeihaiPlugin_ProvisionOemMasterKey b d)"
  "frames intel_domain (BeihaiPlugin_SetTAEncryptionKey b d)"
  unfolding BeihaiPlugin_CloseSession_def BeihaiPlugin_ForceCloseSession_def BeihaiPlugin_SendCmdPkg_def
    BeihaiPlugin_QueryTeeMetadata_def BeihaiPlugin_CloseSDSession_def BeihaiPlugin_ListInstalledTAs_def
    BeihaiPlugin_ListInstalledSDs_def BeihaiPlugin_ProvisionOemMasterKey_def BeihaiPlugin_SetTAEncryptionKey_def Let_def
  by (intro domain_steps)+

lemmas domain_kept = domain_open_sd [THEN framesD] domain_events(2,3) [THEN framesD] domain_applets [THEN framesD]
  domain_others [THEN framesD]

lemma call_keeps_domain: "plugin_call b s s' \<Longrightarrow> intel_domain s' = intel_domain s"
  by (induction rule: plugin_call.induct) (erule domain_kept | simp)+

section \<open>Properties\<close>

text \<open>A library whose functions succeed: it has one applet, and its packages uninstall the event spooler.\<close>

definition sample_bhp :: "nat BHP" where
  "sample_bhp = \<lparr>
     BHP_Init = (\<lambda>r f. (BH_SUCCESS, f)), BHP_Deinit = (\<lambda>r f. (BH_SUCCESS, f)),
     BHP_OpenSDSession = (\<lambda>i f. ((BH_SUCCESS, of_nat f), f + 1)), BHP_CloseSDSession = (\<lambda>h f. (BH_SUCCESS, f)),
     BHP_SendAdminCmdPkg = (\<lambda>h d f. (BH_SUCCESS, f)),
     BHP_ListInstalledTAs = (\<lambda>h i f. ((BH_SUCCESS, 1, Some [Some sample_app]), f)),
     BHP_ListInstalledSDs = (\<lambda>h f. ((BH_SUCCESS, 1, Some [Some INTEL_SD_UUID]), f)),
     BHP_ListTASessions = (\<lambda>a f. ((BH_SUCCESS, 0), f)),
     BHP_QueryTAProperty = (\<lambda>a q f. ((BH_SUCCESS, Some ''3.2''), f)),
     BHP_QueryTEEMetadata = (\<lambda>f. ((BH_SUCCESS, replicate 160 0), f)),
     BHP_OpenTASession = (\<lambda>a d i f. ((BH_SUCCESS, of_nat f), f + 1)),
     BHP_CloseTASession = (\<lambda>h f. (BH_SUCCESS, f - 1)), BHP_ForceCloseTASession = (\<lambda>h f. (BH_SUCCESS, f - 1)),
     BHP_SendAndRecv = (\<lambda>h c d n f. ((BH_SUCCESS, Some [], 0, Some 0), f)),
     BHP_SendAndRecvInternal = (\<lambda>h q c d f. ((BPE_COMMS_ERROR, None), f)),
     BHP_ProvisionOemMasterKey = (\<lambda>h k f. (BH_SUCCESS, f)), BHP_SetTAEncryptionKey = (\<lambda>h k f. (BH_SUCCESS, f)),
     ACP_get_cmd_id = (\<lambda>d. (BH_SUCCESS, 4)), ACP_pload_ins_sd = (\<lambda>d. (BH_SUCCESS, spooler_bytes)),
     ACP_pload_uns_sd = (\<lambda>d. (BH_SUCCESS, spooler_bytes)), ACP_pload_ins_jta = (\<lambda>d. (BH_SUCCESS, spooler_bytes, Some 0)),
     ACP_pload_uns_jta = (\<lambda>d. (BH_SUCCESS, spooler_bytes)),
     TEE_Transport_Create = (\<lambda>t f. ((0, True), f)), pfnTeardown = (\<lambda>f. ((0, False), f)) \<rparr>"

text \<open>
  C2: over the plugin of the second Beihai machine, whatever the Beihai library and the firmware
  answer, every run of the service keeps the session and applet tables well formed: what the service
  needs of a plugin, this plugin provides by itself.
\<close>

theorem service_over_beihai:
  assumes "service_run env (beihai_v2 b base) s"
  shows "sm_inv (sessions s) \<and> shared_unique (sessions s) \<and> applets_inv (applets s)
    \<and> (jhi_state (globals s) = JHI_INITIALIZED \<longrightarrow>
         plugin_registered (globals s) \<and> plugin_table (globals s) \<and> initialized (events s))"
  using run_inv [OF assms beihai_events_wf]
  by (auto simp: service_inv_def shared_inv_def life_inv_def globals_inv_def)

theorem service_over_beihai_witness:
  "\<forall>env base f c. sm_inv (sessions (snd (run_state (processCommand env (beihai_v2 sample_bhp base) (Some c))
     (loaded f (BeihaiPlugin_new 0)))))"
proof (intro allI)
  fix env base f c
  let ?pf = "beihai_v2 sample_bhp base" and ?s = "loaded f (BeihaiPlugin_new 0)"
  have "service_run env ?pf (snd (run_state (processCommand env ?pf (Some c)) ?s))"
    using run_step [OF run_loaded step_command [of env ?pf "Some c" ?s]] by (metis prod.collapse)
  then show "sm_inv (sessions (snd (run_state (processCommand env ?pf (Some c)) ?s)))"
    using service_over_beihai by blast
qed

text \<open>
  C14: the service is to refuse every command package that has to do with the event spooler. Over the
  plugin of the second Beihai machine it never does: the plugin writes the identifier in lower case,
  the guard of the Linux build compares it with one in upper case, and a package that uninstalls the
  spooler is carried out as the uninstallation of the spooler.
\<close>

theorem spooler_guard_never_fires:
  assumes "plugin_registered (globals s)" "plugin_table (globals s)" "blob \<noteq> []"
    and "ACP_get_cmd_id b blob = (BH_SUCCESS, 4)" "ACP_pload_uns_jta b blob = (BH_SUCCESS, spooler_bytes)"
  shows "run_state (jhis_send_cmd_pkg (beihai_v2 b base) h blob) s =
    (let (r, s') = run_state (jhis_uninstall (beihai_v2 b base) SPOOLER_APPLET_UUID (Some (h, blob))) s
     in (jhiErrorToTeeError r, s'))"
proof -
  have p: "BeihaiPlugin_ParsePackage b blob = (TEE_STATUS_SUCCESS, \<lparr> packageType = 4, pkg_uuid = uuid_to_string spooler_bytes \<rparr>)"
    using assms(3-5) spooler_bytes_string(2) by (simp add: BeihaiPlugin_ParsePackage_def Let_def ac_cmd_def)
  have "uuid_to_string spooler_bytes \<noteq> SPOOLER_APPLET_UUID"
    using parsed_uuid_not_spooler [of b blob] p by simp
  then show ?thesis
    using assms(1-3) p
    by (simp add: jhis_send_cmd_pkg_def run_no_plugin run_on_world getPluginTable_def ac_cmd_def spooler_bytes_string Let_def
        split: prod.split)
qed

theorem spooler_guard_never_fires_witness:
  "\<forall>base f. run_state (jhis_send_cmd_pkg (beihai_v2 sample_bhp base) 1 [7]) ((loaded f (BeihaiPlugin_new 0))\<lparr>globals := sample_globals\<rparr>) =
     (let (r, s') = run_state (jhis_uninstall (beihai_v2 sample_bhp base) SPOOLER_APPLET_UUID (Some (1, [7])))
        ((loaded f (BeihaiPlugin_new 0))\<lparr>globals := sample_globals\<rparr>) in (jhiErrorToTeeError r, s'))"
  by (intro allI spooler_guard_never_fires) (simp_all add: sample_globals_def sample_bhp_def)

text \<open>
  The version of an applet is reported as one number: for every version with two parts below 256,
  the number that has the first part in its low byte and the second in its high byte; from the
  number both parts can be read again.
\<close>

theorem version_property_encoded:
  assumes "m < 256" "n < 256" "plugin_mem s = []"
  shows "run_state (convertAppProperty_Version (decimal m @ CHR ''.'' # decimal n)) s = (decimal (m + 256 * n), s)
    \<and> digits_value 0 (decimal (m + 256 * n)) mod 256 = m \<and> digits_value 0 (decimal (m + 256 * n)) div 256 = n"
proof -
  have "or m (push_bit 8 n) = m + 256 * n"
  proof -
    have m: "take_bit 8 m = m" using assms(1) by (simp add: take_bit_nat_eq_self)
    have "and m (push_bit 8 n) = 0" by (subst m [symmetric], rule bit_eqI) (auto simp: bit_simps)
    then have "m + push_bit 8 n = or m (push_bit 8 n)" by (rule disjunctive_add_eq_or)
    then show ?thesis by (simp add: push_bit_eq_mult)
  qed
  then have "run_state (convertAppProperty_Version (decimal m @ CHR ''.'' # decimal n)) s = (decimal (m + 256 * n), s)"
    using assms by (simp add: convertAppProperty_Version_def version_split Let_def stream_unsigned_decimal run_allocate)
  then show ?thesis using assms(1,2) by (simp add: digits_value_decimal)
qed

theorem version_property_encoded_witness:
  "run_state (convertAppProperty_Version ''3.2'') (BeihaiPlugin_new (0 :: nat)) = (''515'', BeihaiPlugin_new 0)"
proof -
  have "decimal 3 = ''3''" "decimal 2 = ''2''" "decimal (3 + 256 * 2) = ''515''" by code_simp+
  then show ?thesis
    using version_property_encoded [of 3 2 "BeihaiPlugin_new 0"] by (simp add: BeihaiPlugin_new_def)
qed



text \<open>
  When the applet of a new session does not answer the message with its identifier, the plugin reports a
  failure, but the session it has opened in the firmware stays open: no call that closes it is made,
  and the service has no record of it.
\<close>

theorem unanswered_session_stays_open:
  assumes "BHP_OpenTASession b a (map_option (\<lambda>n. drop n blob) (snd (snd (ACP_pload_ins_jta b blob)))) d (fw s) =
      ((BH_SUCCESS, h), f1)"
    and "BHP_SendAndRecvInternal b h 1 0 (uuid_bytes i) f1 = ((r, resp), f2)" "r \<noteq> BH_SUCCESS \<or> resp \<noteq> Some 0"
  shows "run_state (BeihaiPlugin_CreateSession b a (Some blob) i d) s = ((JHI_INTERNAL_ERROR, h), s\<lparr>fw := f2\<rparr>)"
  using assms
  by (auto simp: BeihaiPlugin_CreateSession_def sendSessionIDtoApplet_def run_on_fw Let_def split: option.splits)

theorem unanswered_session_stays_open_witness:
  "run_state (BeihaiPlugin_CreateSession sample_bhp sample_app (Some [1]) (sample_id 1) None) (BeihaiPlugin_new 4) =
     ((JHI_INTERNAL_ERROR, 4), BeihaiPlugin_new 5)"
  using unanswered_session_stays_open [of sample_bhp sample_app "[1]" None "BeihaiPlugin_new 4" 4 5 "sample_id 1" BPE_COMMS_ERROR None 5]
  by (simp add: sample_bhp_def BeihaiPlugin_new_def)

end
