(* ===== verification/Beihai_V1.thy ===== *)
theory Beihai_V1
  imports Beihai_Common Beihai_Status
begin

text \<open>
  The plugin of the first Beihai machine, \<^verbatim>\<open>plugins/bhplugin1/jhi_plugin.cpp\<close>, for firmware that knows no security
  domains: the same interface over the functions of \<^verbatim>\<open>beihai.h\<close>, which with the transport are a parameter.
\<close>

section \<open>The library\<close>

text \<open>
  \<^verbatim>\<open>BH_PluginInit\<close> is given the handle of the connection. \<^verbatim>\<open>BH_PluginSendAndRecv\<close> returns the code, the output
  unless it is \<^verbatim>\<open>NULL\<close>, its length, and the response if it was assigned. The functions of the transport
  return a \<^verbatim>\<open>TEE_COMM_STATUS\<close>, and the handle where they assign it.
\<close>

abbreviation TEE_COMM_SUCCESS :: uint32 where "TEE_COMM_SUCCESS \<equiv> 0"

record 'f BH1 =
  BH_PluginInit :: "uint32 \<Rightarrow> bool \<Rightarrow> 'f \<Rightarrow> BH_RET \<times> 'f"
  BH_PluginDeinit :: "'f \<Rightarrow> BH_RET \<times> 'f"
  BH_PluginDownload :: "string \<Rightarrow> byte list \<Rightarrow> 'f \<Rightarrow> BH_RET \<times> 'f"
  BH_PluginUnload :: "string \<Rightarrow> 'f \<Rightarrow> BH_RET \<times> 'f"
  BH_PluginCreateSession :: "string \<Rightarrow> byte list option \<Rightarrow> 'f \<Rightarrow> (BH_RET \<times> uint64) \<times> 'f"
  BH_PluginCloseSession :: "uint64 \<Rightarrow> 'f \<Rightarrow> BH_RET \<times> 'f"
  BH_PluginForceCloseSession :: "uint64 \<Rightarrow> 'f \<Rightarrow> BH_RET \<times> 'f"
  BH_PluginSendAndRecv :: "uint64 \<Rightarrow> uint32 \<Rightarrow> byte list \<Rightarrow> uint32 \<Rightarrow>
      'f \<Rightarrow> (BH_RET \<times> byte list option \<times> uint32 \<times> uint32 option) \<times> 'f"
  BH_PluginSendAndRecvInternal :: "uint64 \<Rightarrow> uint32 \<Rightarrow> uint32 \<Rightarrow> byte list \<Rightarrow> 'f \<Rightarrow> (BH_RET \<times> uint32 option) \<times> 'f"
  BH_PluginQueryAPI :: "string \<Rightarrow> string \<Rightarrow> 'f \<Rightarrow> (BH_RET \<times> string option) \<times> 'f"
  transport_Create :: "TEE_TRANSPORT_TYPE \<Rightarrow> 'f \<Rightarrow> uint32 \<times> 'f"
  transport_Connect :: "TEE_TRANSPORT_ENTITY \<Rightarrow> 'f \<Rightarrow> (uint32 \<times> uint64 option) \<times> 'f"
  transport_Disconnect :: "uint64 \<Rightarrow> 'f \<Rightarrow> (uint32 \<times> uint64 option) \<times> 'f"
  transport_Teardown :: "'f \<Rightarrow> uint32 \<times> 'f"

section \<open>Codes\<close>

abbreviation BPE1_NO_CONNECTION_TO_FIRMWARE :: BH_RET where "BPE1_NO_CONNECTION_TO_FIRMWARE \<equiv> 0xF0001008"
abbreviation BPE1_INVALID_SESSION_HANDLE :: BH_RET where "BPE1_INVALID_SESSION_HANDLE \<equiv> 0xF000100C"
abbreviation BHE_APPLET_BAD_STATE :: BH_RET where "BHE_APPLET_BAD_STATE \<equiv> 0x404"
abbreviation HAL_OUT_OF_STORAGE :: BH_RET where "HAL_OUT_OF_STORAGE \<equiv> 0x2003"
abbreviation JHI_APPLET_BAD_STATE :: uint32 where "JHI_APPLET_BAD_STATE \<equiv> 0x407"
abbreviation JHI_COMMS_ERROR :: uint32 where "JHI_COMMS_ERROR \<equiv> 0x300"
abbreviation JHI_APPLET_AUTHENTICATION_FAILURE :: uint32 where "JHI_APPLET_AUTHENTICATION_FAILURE \<equiv> JHI_FILE_ERROR_AUTH"
abbreviation JHI_BAD_APPLET_FORMAT :: uint32 where "JHI_BAD_APPLET_FORMAT \<equiv> 0x2001"

definition beihai1_jhi :: "(BH_RET \<times> JHI_RET) list" where
  "beihai1_jhi =
    [(BH_SUCCESS, JHI_SUCCESS),
     (BPE1_INVALID_SESSION_HANDLE, JHI_INVALID_SESSION_HANDLE),
     (BHE_INSUFFICIENT_BUFFER, JHI_INSUFFICIENT_BUFFER),
     (BHE_APPLET_SMALL_BUFFER, JHI_INSUFFICIENT_BUFFER),
     (HAL_BUFFER_TOO_SMALL, JHI_INSUFFICIENT_BUFFER),
     (BHE_APPLET_BAD_STATE, JHI_APPLET_BAD_STATE),
     (BPE1_NO_CONNECTION_TO_FIRMWARE, JHI_NO_CONNECTION_TO_FIRMWARE),
     (HAL_OUT_OF_MEMORY, JHI_APPLET_FATAL),
     (BHE_UNCAUGHT_EXCEPTION, JHI_APPLET_FATAL),
     (BHE_APPLET_CRASHED, JHI_APPLET_FATAL),
     (BHE_WD_TIMEOUT, JHI_APPLET_FATAL),
     (HAL_TIMED_OUT, JHI_APPLET_FATAL),
     (HAL_ILLEGAL_SIGNATURE, JHI_APPLET_AUTHENTICATION_FAILURE),
     (HAL_ILLEGAL_VERSION, JHI_APPLET_AUTHENTICATION_FAILURE),
     (HAL_FW_VERSION_MISMATCH, JHI_APPLET_AUTHENTICATION_FAILURE),
     (HAL_UNSUPPORTED_CPU_TYPE, JHI_APPLET_AUTHENTICATION_FAILURE),
     (HAL_UNSUPPORTED_PCH_TYPE, JHI_APPLET_AUTHENTICATION_FAILURE),
     (HAL_UNSUPPORTED_FEATURE_SET, JHI_APPLET_AUTHENTICATION_FAILURE),
     (HAL_UNSUPPORTED_PLATFORM_TYPE, JHI_APPLET_AUTHENTICATION_FAILURE),
     (BHE_LOAD_JEFF_FAIL, JHI_TA_PLATFORM_MISMATCH),
     (BHE_INVALID_BPK_FILE, JHI_BAD_APPLET_FORMAT),
     (HAL_ALREADY_INSTALLED, JHI_FILE_IDENTICAL),
     (HAL_OUT_OF_RESOURCES, JHI_MAX_INSTALLED_APPLETS_REACHED),
     (HAL_OUT_OF_STORAGE, JHI_MAX_INSTALLED_APPLETS_REACHED),
     (BHE_EXIST_LIVE_SESSION, JHI_INSTALL_FAILURE_SESSIONS_EXISTS),
     (BHE_QUERY_PROP_NOT_SUPPORT, JHI_APPLET_PROPERTY_NOT_SUPPORTED),
     (BHE_PACKAGE_NOT_FOUND, JHI_APPLET_NOT_INSTALLED)]"

definition JhiErrorTranslate :: "BH_RET \<Rightarrow> JHI_RET \<Rightarrow> JHI_RET" where
  "JhiErrorTranslate bhError defaultError =
     (case map_of beihai1_jhi bhError of Some r \<Rightarrow> r | None \<Rightarrow> defaultError)"

section \<open>The plugin's state\<close>

text \<open>
  \<open>transport_table\<close>: the function pointers of \<^verbatim>\<open>transport_interface\<close> are set. \<open>bh_handle\<close> is the field \<^verbatim>\<open>handle\<close> of
  \<^verbatim>\<open>bh_transport_APIs\<close> as the transport writes it, through a pointer to a \<^verbatim>\<open>void*\<close>; the library reads it as the
  \<^verbatim>\<open>unsigned int\<close> it is declared as.
\<close>

record 'f BeihaiPlugin1 = "'f plugin_env" +
  transport_table :: bool
  bh_handle :: uint64

type_synonym ('f, 'a) plugin1 = "('f BeihaiPlugin1, 'a) state"

definition BeihaiPlugin1_new :: "'f \<Rightarrow> 'f BeihaiPlugin1" where
  "BeihaiPlugin1_new f = \<lparr> plugin_mem = [], plugin_fault = False, fw = f, transport_table = False, bh_handle = 0 \<rparr>"

section \<open>Starting and stopping\<close>

text \<open>A handle that the transport does not assign keeps its value.\<close>

definition set_handle :: "uint64 option \<Rightarrow> ('f, unit) plugin1" where
  "set_handle h = modify (\<lambda>s. case h of None \<Rightarrow> s | Some v \<Rightarrow> s\<lparr>bh_handle := v\<rparr>)"

definition BeihaiPlugin1_Set_Transport_And_Memory :: "'f BH1 \<Rightarrow> TEE_TRANSPORT_TYPE \<Rightarrow> ('f, JHI_RET) plugin1" where
  "BeihaiPlugin1_Set_Transport_And_Memory b tt = do {
     modify (\<lambda>s. s\<lparr>bh_handle := 0, transport_table := False\<rparr>);
     r \<leftarrow> on_fw (transport_Create b tt);
     modify (\<lambda>s. s\<lparr>transport_table := (r = TEE_COMM_SUCCESS)\<rparr>);
     if r \<noteq> TEE_COMM_SUCCESS then ret JHI_INTERNAL_ERROR
     else do {
       let transport_entity = (if tt = TEE_TRANSPORT_TYPE_SOCKET then TEE_TRANSPORT_ENTITY_RTM else TEE_TRANSPORT_ENTITY_IVM);
       c \<leftarrow> on_fw (transport_Connect b transport_entity);
       set_handle (snd c);
       ret (if fst c \<noteq> TEE_COMM_SUCCESS then JHI_COMMS_ERROR else JHI_SUCCESS) } }"

definition BeihaiPlugin1_Init :: "'f BH1 \<Rightarrow> bool \<Rightarrow> ('f, JHI_RET) plugin1" where
  "BeihaiPlugin1_Init b vmReset = do {
     h \<leftarrow> gets bh_handle;
     r \<leftarrow> on_fw (BH_PluginInit b (ucast h) vmReset);
     ret (JhiErrorTranslate r JHI_INTERNAL_ERROR) }"

text \<open>
  What the transport returns is only written to the log. Without a transport the pointer called
  through is null.
\<close>

definition BeihaiPlugin1_DeInit :: "'f BH1 \<Rightarrow> bool \<Rightarrow> ('f, JHI_RET) plugin1" where
  "BeihaiPlugin1_DeInit b vmReset = do {
     r \<leftarrow> on_fw (BH_PluginDeinit b);
     set \<leftarrow> gets transport_table;
     if \<not> set then do { plugin_crash; ret (JhiErrorTranslate r JHI_INTERNAL_ERROR) }
     else do {
       h \<leftarrow> gets bh_handle;
       d \<leftarrow> on_fw (transport_Disconnect b h);
       set_handle (snd d);
       on_fw (transport_Teardown b);
       ret (JhiErrorTranslate r JHI_INTERNAL_ERROR) } }"

section \<open>Applets\<close>

definition BeihaiPlugin1_DownloadApplet :: "'f BH1 \<Rightarrow> string \<Rightarrow> byte list \<Rightarrow> ('f, JHI_RET) plugin1" where
  "BeihaiPlugin1_DownloadApplet b pAppId pAppBlob = do {
     r \<leftarrow> on_fw (BH_PluginDownload b pAppId pAppBlob);
     ret (JhiErrorTranslate r JHI_INTERNAL_ERROR) }"

definition BeihaiPlugin1_UnloadApplet :: "'f BH1 \<Rightarrow> string \<Rightarrow> ('f, JHI_RET) plugin1" where
  "BeihaiPlugin1_UnloadApplet b AppId = do {
     r \<leftarrow> on_fw (BH_PluginUnload b AppId);
     ret (JhiErrorTranslate r JHI_INTERNAL_ERROR) }"

definition BeihaiPlugin1_GetAppletProperty :: "'f BH1 \<Rightarrow> string \<Rightarrow> string \<Rightarrow> uint32 \<Rightarrow>
    ('f, JHI_RET \<times> string \<times> uint32) plugin1" where
  "BeihaiPlugin1_GetAppletProperty b AppId inputBuffer outputBufferLength = do {
     r \<leftarrow> on_fw (BH_PluginQueryAPI b AppId inputBuffer);
     (case r of
        (code, Some out) \<Rightarrow>
          if code \<noteq> BH_SUCCESS then ret (JhiErrorTranslate code JHI_INTERNAL_ERROR, [], 0)
          else do {
            v \<leftarrow> (if inputBuffer = ''applet.version'' then convertAppProperty_Version out else ret out);
            if sint outputBufferLength < int (length v) then ret (JHI_INSUFFICIENT_BUFFER, [], of_nat (length v))
            else ret (JhiErrorTranslate code JHI_INTERNAL_ERROR, v @ [NUL], of_nat (length v)) }
      | (code, None) \<Rightarrow> ret (JhiErrorTranslate code JHI_INTERNAL_ERROR, [], 0)) }"

section \<open>Sessions\<close>

definition sendSessionIDtoApplet1 :: "'f BH1 \<Rightarrow> uint64 \<Rightarrow> JHI_SESSION_ID \<Rightarrow> ('f, JHI_RET \<times> uint32) plugin1" where
  "sendSessionIDtoApplet1 b h SessionID = do {
     r \<leftarrow> on_fw (BH_PluginSendAndRecvInternal b h 1 0 (uuid_bytes SessionID));
     ret (JhiErrorTranslate (fst r) JHI_INTERNAL_ERROR, case snd r of None \<Rightarrow> - 1 | Some x \<Rightarrow> x) }"

definition BeihaiPlugin1_CreateSession :: "'f BH1 \<Rightarrow> string \<Rightarrow> byte list option \<Rightarrow> JHI_SESSION_ID \<Rightarrow> byte list option \<Rightarrow>
    ('f, JHI_RET \<times> VM_SESSION_HANDLE) plugin1" where
  "BeihaiPlugin1_CreateSession b AppId pAppBlob SessionID initBuffer = do {
     r \<leftarrow> on_fw (BH_PluginCreateSession b AppId initBuffer);
     if fst r = BH_SUCCESS then do {
       q \<leftarrow> sendSessionIDtoApplet1 b (snd r) SessionID;
       ret (if fst q \<noteq> JHI_SUCCESS \<or> snd q \<noteq> 0 then JHI_INTERNAL_ERROR
            else JhiErrorTranslate (fst r) JHI_INTERNAL_ERROR, snd r) }
     else ret (JhiErrorTranslate (fst r) JHI_INTERNAL_ERROR, snd r) }"

definition BeihaiPlugin1_ForceCloseSession :: "'f BH1 \<Rightarrow> VM_SESSION_HANDLE \<Rightarrow> ('f, JHI_RET) plugin1" where
  "BeihaiPlugin1_ForceCloseSession b h = do {
     r \<leftarrow> on_fw (BH_PluginForceCloseSession b h);
     ret (JhiErrorTranslate r JHI_INTERNAL_ERROR) }"

definition BeihaiPlugin1_CloseSession :: "'f BH1 \<Rightarrow> VM_SESSION_HANDLE \<Rightarrow> ('f, JHI_RET) plugin1" where
  "BeihaiPlugin1_CloseSession b h = do {
     r \<leftarrow> on_fw (BH_PluginCloseSession b h);
     ret (JhiErrorTranslate r JHI_INTERNAL_ERROR) }"

definition BeihaiPlugin1_SendAndRecv :: "'f BH1 \<Rightarrow> uint32 \<Rightarrow> VM_SESSION_HANDLE \<Rightarrow> uint32 \<Rightarrow> byte list \<Rightarrow> uint32 \<Rightarrow>
    ('f, JHI_RET \<times> byte list \<times> uint32 \<times> uint32) plugin1" where
  "BeihaiPlugin1_SendAndRecv b resp h nCommandId inputBuffer outputBufferLength = do {
     r \<leftarrow> on_fw (BH_PluginSendAndRecv b h nCommandId inputBuffer outputBufferLength);
     (case r of (code, out, len, response) \<Rightarrow>
        let copied = (case out of
            Some o' \<Rightarrow> if code = BH_SUCCESS \<and> len \<le> outputBufferLength then take (unat len) o' else []
          | None \<Rightarrow> []) in
        ret (JhiErrorTranslate code JHI_INTERNAL_ERROR, copied, len, case response of None \<Rightarrow> resp | Some x \<Rightarrow> x)) }"

text \<open>The request has no data, and the response is not looked at.\<close>

definition BeihaiPlugin1_WaitForSpoolerEvent :: "'f BH1 \<Rightarrow> VM_SESSION_HANDLE \<Rightarrow>
    ('f, JHI_RET \<times> JHI_EVENT_DATA option \<times> JHI_SESSION_ID) plugin1" where
  "BeihaiPlugin1_WaitForSpoolerEvent b SpoolerSession = do {
     a \<leftarrow> allocateMemory;
     if \<not> a then ret (JHI_INTERNAL_ERROR, None, UUID [])
     else do {
       e \<leftarrow> allocateMemory;
       if \<not> e then ret (JHI_INTERNAL_ERROR, None, UUID [])
       else do {
         r \<leftarrow> BeihaiPlugin1_SendAndRecv b 0 SpoolerSession 1 [] 1040;
         (case r of (code, written, len, response) \<Rightarrow>
            if code = JHI_INSUFFICIENT_BUFFER then do {
              a2 \<leftarrow> allocateMemory;
              if \<not> a2 then ret (JHI_INTERNAL_ERROR, None, UUID [])
              else do {
                q \<leftarrow> BeihaiPlugin1_SendAndRecv b response SpoolerSession 1 [] len;
                (case q of (code2, written2, len2, response2) \<Rightarrow>
                   if code2 = JHI_SUCCESS then spooler_event len written2 len2 else ret (code2, None, UUID [])) } }
            else if code = JHI_SUCCESS then spooler_event 1040 written len
            else ret (code, None, UUID [])) } } }"

section \<open>The interface\<close>

text \<open>The calls for security domains, command packages, metadata and keys, none of which the machine has.\<close>

definition unsupported :: "'a \<Rightarrow> 's \<Rightarrow> (TEE_STATUS \<times> 'a) \<times> 's" where
  "unsupported a s = ((TEE_STATUS_UNSUPPORTED_PLATFORM, a), s)"

definition beihai_v1 :: "'f BH1 \<Rightarrow> 'f BeihaiPlugin1 platform \<Rightarrow> 'f BeihaiPlugin1 platform" where
  "beihai_v1 b base = base\<lparr>
     JHI_Plugin_Init := (\<lambda>r. run_state (BeihaiPlugin1_Init b r)),
     JHI_Plugin_DeInit := (\<lambda>r. run_state (BeihaiPlugin1_DeInit b r)),
     JHI_Plugin_Set_Transport_And_Memory := (\<lambda>t. run_state (BeihaiPlugin1_Set_Transport_And_Memory b t)),
     JHI_Plugin_DownloadApplet := (\<lambda>a d. run_state (BeihaiPlugin1_DownloadApplet b a d)),
     JHI_Plugin_UnloadApplet := (\<lambda>a. run_state (BeihaiPlugin1_UnloadApplet b a)),
     JHI_Plugin_GetAppletProperty := (\<lambda>a q n. run_state (BeihaiPlugin1_GetAppletProperty b a q n)),
     JHI_Plugin_CreateSession := (\<lambda>a d i q. run_state (BeihaiPlugin1_CreateSession b a d i q)),
     JHI_Plugin_CloseSession := (\<lambda>h. run_state (BeihaiPlugin1_CloseSession b h)),
     JHI_Plugin_ForceCloseSession := (\<lambda>h. run_state (BeihaiPlugin1_ForceCloseSession b h)),
     JHI_Plugin_WaitForSpoolerEvent := (\<lambda>h. run_state (BeihaiPlugin1_WaitForSpoolerEvent b h)),
     JHI_Plugin_SendAndRecv := (\<lambda>h c t n. run_state (BeihaiPlugin1_SendAndRecv b 0 h c t n)),
     JHI_Plugin_SendCmdPkg := (\<lambda>h d. Pair TEE_STATUS_UNSUPPORTED_PLATFORM),
     JHI_Plugin_ParsePackage := (\<lambda>d. unsupported \<lparr> packageType = 0, pkg_uuid = [] \<rparr>),
     JHI_Plugin_QueryTeeMetadata := unsupported [],
     JHI_Plugin_OpenSDSession := (\<lambda>i. unsupported 0),
     JHI_Plugin_CloseSDSession := (\<lambda>h. Pair TEE_STATUS_UNSUPPORTED_PLATFORM),
     JHI_Plugin_ListInstalledTAs := (\<lambda>h. unsupported []),
     JHI_Plugin_ListInstalledSDs := (\<lambda>h. unsupported []),
     JHI_Plugin_ProvisionOemMasterKey := (\<lambda>k. Pair TEE_STATUS_UNSUPPORTED_PLATFORM),
     JHI_Plugin_SetTAEncryptionKey := (\<lambda>k. Pair TEE_STATUS_UNSUPPORTED_PLATFORM)\<rparr>"

end
