(* ===== verification/Beihai_V1_Properties.thy ===== *)
theory Beihai_V1_Properties
  imports Beihai_V1
begin

text \<open>
  What the plugin of the first Beihai machine promises, and the service over this plugin.
\<close>

section \<open>Codes\<close>

lemma v1_cases:
  "list_all (\<lambda>(a, b). (b = JHI_SUCCESS \<longleftrightarrow> a = BH_SUCCESS) \<and> (isJhiError b \<longleftrightarrow> a \<noteq> BHE_INVALID_BPK_FILE)) beihai1_jhi"
  "map_of beihai1_jhi BH_SUCCESS = Some JHI_SUCCESS" "map_of beihai1_jhi BHE_INVALID_BPK_FILE = Some TEE_STATUS_INTERNAL_ERROR"
  by code_simp+

lemma JhiErrorTranslate_BH_SUCCESS [simp]: "JhiErrorTranslate 0 d = JHI_SUCCESS"
  using v1_cases(2) by (simp add: JhiErrorTranslate_def)

text \<open>
  Success is translated to success and nothing else is, and every other code to one of the service's,
  except that of a package in the wrong format: its translation is the number of a \<^verbatim>\<open>TEE_STATUS\<close>, the one
  for an internal error.
\<close>

theorem v1_codes_translated:
  "(JhiErrorTranslate r JHI_INTERNAL_ERROR = JHI_SUCCESS \<longleftrightarrow> r = BH_SUCCESS)
   \<and> (isJhiError (JhiErrorTranslate r JHI_INTERNAL_ERROR) \<longleftrightarrow> r \<noteq> BHE_INVALID_BPK_FILE)
   \<and> JhiErrorTranslate BHE_INVALID_BPK_FILE JHI_INTERNAL_ERROR = TEE_STATUS_INTERNAL_ERROR"
proof -
  have "isJhiError JHI_INTERNAL_ERROR" by (simp add: isJhiError_def)
  then show ?thesis
    using map_of_all [OF _ v1_cases(1), of r] v1_cases(2,3) by (auto simp: JhiErrorTranslate_def split: option.split)
qed

section \<open>Events\<close>

lemma beihai_v1_fields [simp]:
  "JHI_Plugin_WaitForSpoolerEvent (beihai_v1 b base) h = run_state (BeihaiPlugin1_WaitForSpoolerEvent b h)"
  "JHI_Plugin_Set_Transport_And_Memory (beihai_v1 b base) t = run_state (BeihaiPlugin1_Set_Transport_And_Memory b t)"
  "JHI_Plugin_DeInit (beihai_v1 b base) r = run_state (BeihaiPlugin1_DeInit b r)"
  "JHI_Plugin_ParsePackage (beihai_v1 b base) d w = ((TEE_STATUS_UNSUPPORTED_PLATFORM, \<lparr> packageType = 0, pkg_uuid = [] \<rparr>), w)"
  by (simp_all add: beihai_v1_def unsupported_def)

lemma v1_events_wf: "events_wf (beihai_v1 b base)"
proof -
  have "case fst (snd (fst (run_state (BeihaiPlugin1_WaitForSpoolerEvent b h) s))) of None \<Rightarrow> True | Some e \<Rightarrow> event_wf e" for h s
    by (auto simp: BeihaiPlugin1_WaitForSpoolerEvent_def Let_def spooler_event_wf split: prod.split if_splits)
  then show ?thesis by (auto simp: events_wf_def)
qed

text \<open>
  Over the plugin of the first Beihai machine as well, every run of the service keeps its tables well
  formed, whatever the library and the firmware answer.
\<close>

theorem service_over_beihai_v1:
  assumes "service_run env (beihai_v1 b base) s"
  shows "sm_inv (sessions s) \<and> shared_unique (sessions s) \<and> applets_inv (applets s)
    \<and> (jhi_state (globals s) = JHI_INITIALIZED \<longrightarrow>
         plugin_registered (globals s) \<and> plugin_table (globals s) \<and> initialized (events s))"
  using run_inv [OF assms v1_events_wf]
  by (auto simp: service_inv_def shared_inv_def life_inv_def globals_inv_def)

section \<open>A transport that cannot be created\<close>

lemma v1_connect_fails:
  assumes "transport_Create b (transportType (globals s)) (fw (world s)) = (r, f)" "r \<noteq> TEE_COMM_SUCCESS"
  shows "run_state (init_connected env (beihai_v1 b base)) s =
    ((JHI_INTERNAL_ERROR, True), s\<lparr>world := (world s)\<lparr>bh_handle := 0, transport_table := False, fw := f\<rparr>\<rparr>)"
  using assms
  by (simp add: init_connected_def BeihaiPlugin1_Set_Transport_And_Memory_def run_on_fw run_on_world)

lemma v1_deinit_faults: "\<not> transport_table s \<Longrightarrow> plugin_fault (snd (run_state (BeihaiPlugin1_DeInit b r) s))"
  by (simp add: BeihaiPlugin1_DeInit_def run_on_fw plugin_crash_def)

lemma v1_init_failed_faults:
  assumes "plugin_registered (globals s)" "plugin_table (globals s)" "\<not> transport_table (world s)"
  shows "plugin_fault (world (snd (run_state (init_failed (beihai_v1 b base) rst) s)))"
  using assms v1_deinit_faults [of "world s" b rst]
  by (simp add: init_failed_def run_no_plugin getPluginTable_def run_on_world set_globals_def)

text \<open>
  Over the plugin of the first Beihai machine, a transport that cannot be created stops the service
  with a fault: \<^verbatim>\<open>jhis_init\<close>, told of the failure, stops the plugin, and the plugin then calls the transport
  through the null pointers that the failure has left.
\<close>

theorem failed_transport_faults:
  assumes "jhi_state (globals s) = JHI_STOPPED"
    and "run_state (JhiGetRegistryValues env) s = (JHI_SUCCESS, s1)"
    and "run_state (init_vm_type env) s1 = (JHI_SUCCESS, s2)" "run_state (init_plugin env) s2 = (JHI_SUCCESS, s3)"
    and "plugin_registered (globals s3)" "plugin_table (globals s3)"
    and "fst (transport_Create b (transportType (globals s3)) (fw (world s3))) \<noteq> TEE_COMM_SUCCESS"
  shows "\<exists>s'. run_state (jhis_init env (beihai_v1 b base)) s = (JHI_INTERNAL_ERROR, s') \<and> plugin_fault (world s')"
proof -
  obtain r f where c: "transport_Create b (transportType (globals s3)) (fw (world s3)) = (r, f)" by fastforce
  let ?t = "s3\<lparr>world := (world s3)\<lparr>bh_handle := 0, transport_table := False, fw := f\<rparr>\<rparr>"
  have "run_state (init_stages env (beihai_v1 b base)) s = ((JHI_INTERNAL_ERROR, True), ?t)"
    using assms(2-4,7) v1_connect_fails [OF c, of env base] c by (simp add: init_stages_def)
  then have "run_state (jhis_init env (beihai_v1 b base)) s =
      (JHI_INTERNAL_ERROR, snd (run_state (init_failed (beihai_v1 b base) True) ?t))"
    using assms(1) by (simp add: jhis_init_def split: prod.split)
  then show ?thesis using v1_init_failed_faults [of ?t b base True] assms(5,6) by simp
qed


text \<open>A library below which no transport can be created, and an environment in which the service finds the first machine.\<close>

definition broken_bh1 :: "nat BH1" where
  "broken_bh1 = \<lparr>
     BH_PluginInit = (\<lambda>h r f. (BH_SUCCESS, f)), BH_PluginDeinit = (\<lambda>f. (0xF0001000, f)),
     BH_PluginDownload = (\<lambda>a d f. (BH_SUCCESS, f)), BH_PluginUnload = (\<lambda>a f. (BH_SUCCESS, f)),
     BH_PluginCreateSession = (\<lambda>a d f. ((BH_SUCCESS, of_nat f), f + 1)),
     BH_PluginCloseSession = (\<lambda>h f. (BH_SUCCESS, f)), BH_PluginForceCloseSession = (\<lambda>h f. (BH_SUCCESS, f)),
     BH_PluginSendAndRecv = (\<lambda>h c d n f. ((BH_SUCCESS, Some [], 0, Some 0), f)),
     BH_PluginSendAndRecvInternal = (\<lambda>h q c d f. ((BH_SUCCESS, Some 0), f)),
     BH_PluginQueryAPI = (\<lambda>a q f. ((BH_SUCCESS, Some ''3.2''), f)),
     transport_Create = (\<lambda>t f. (1, f)), transport_Connect = (\<lambda>e f. ((0, Some 7), f)),
     transport_Disconnect = (\<lambda>h f. ((0, Some (- 1)), f)), transport_Teardown = (\<lambda>f. (0, f)) \<rparr>"

definition v1_env :: "nat BeihaiPlugin1 environment" where
  "v1_env = \<lparr> config_file = Some ''app_repo_dir /repo'', has_dal0 = False,
     plugin_lib = \<lparr> load_dll = (\<lambda>a b. JHI_SUCCESS), has_register_symbol = True,
       register_result = (JHI_SUCCESS, True), reported_type = JHI_PLUGIN_TYPE_BEIHAI_V1 \<rparr>,
     TEE_Transport_Create = (\<lambda>t w. (True, w)), pfnConnect = (\<lambda>en w. (en \<noteq> TEE_TRANSPORT_ENTITY_SDM, w)),
     pfnDisconnect = (\<lambda>w. (True, w)), pfnTeardown = (\<lambda>w. (True, w)),
     fw_createInstance = (\<lambda>t w. (True, w)), fw_Connect = (\<lambda>w. (True, w)),
     fw_GetFwVersion = (\<lambda>v w. ((True, \<lparr> Major = 9, Minor = 5, Hotfix = 0, Build = 0 \<rparr>), w)),
     fw_Disconnect = (\<lambda>w. (True, w)), fw_delete = (\<lambda>w. ((), w)) \<rparr>"

definition v1_stopped :: "nat BeihaiPlugin1 jhi" where
  "v1_stopped = loaded (fsys stopped_state) (BeihaiPlugin1_new 0)"

theorem failed_transport_faults_witness:
  "\<forall>base. plugin_fault (world (snd (run_state (jhis_init v1_env (beihai_v1 broken_bh1 base)) v1_stopped)))"
proof
  fix base
  let ?s1 = "snd (run_state (JhiGetRegistryValues v1_env) v1_stopped)"
  let ?s2 = "snd (run_state (init_vm_type v1_env) ?s1)" and ?c = "\<lambda>m s. (fst (run_state m s), snd (run_state m s))"
  let ?s3 = "snd (run_state (init_plugin v1_env) ?s2)"
  have "fst (run_state (JhiGetRegistryValues v1_env) v1_stopped) = JHI_SUCCESS" by code_simp
  moreover have "fst (run_state (init_vm_type v1_env) ?s1) = JHI_SUCCESS" by code_simp
  moreover have "fst (run_state (init_plugin v1_env) ?s2) = JHI_SUCCESS" by code_simp
  moreover have "jhi_state (globals v1_stopped) = JHI_STOPPED" by code_simp
  moreover have "plugin_registered (globals ?s3) \<and> plugin_table (globals ?s3)" by code_simp
  moreover have "fst (transport_Create broken_bh1 t f) \<noteq> TEE_COMM_SUCCESS" for t f by (simp add: broken_bh1_def)
  ultimately show "plugin_fault (world (snd (run_state (jhis_init v1_env (beihai_v1 broken_bh1 base)) v1_stopped)))"
    using failed_transport_faults [of v1_stopped v1_env ?s1 ?s2 ?s3 broken_bh1 base] by (metis prod.collapse snd_conv)
qed

end
