(* ===== verification/Dal_Device.thy ===== *)
theory Dal_Device
  imports Beihai_V1_Properties "HOL-Library.Sublist"
begin

text \<open>
  The transport over the kernel's DAL device, \<^verbatim>\<open>teetransport_dal_device_wrapper.c\<close> with \<^verbatim>\<open>teetransport_dal_device.c\<close> and
  \<^verbatim>\<open>isEntityValid\<close> of \<^verbatim>\<open>teetransport_internal.c\<close>, and the plugin of the first Beihai machine over it.
\<close>

section \<open>The device\<close>

text \<open>
  \<open>dal_fds\<close> are the open descriptors of the process, \<open>dal_opens\<close> the ones that \<^verbatim>\<open>open\<close> gives out next, \<open>dal_accepts\<close>
  how many bytes the next calls of \<^verbatim>\<open>write\<close> take (all of them when the list is used up), \<open>dal_input\<close> what the next
  calls of \<^verbatim>\<open>read\<close> find (\<open>None\<close> is a failure, the end of the list the end of the input). \<open>dal_sent\<close> and \<open>dal_closed\<close>
  record what was written in one piece, and what \<^verbatim>\<open>close\<close> was called with.
\<close>

record dal_device =
  dal_nodes :: "string list"
  dal_fds :: "int list"
  dal_opens :: "int list"
  dal_accepts :: "int list"
  dal_input :: "byte list option list"
  dal_sent :: "(int \<times> byte list) list"
  dal_closed :: "int list"
  dal_initialized :: bool

fun head_or :: "'a \<Rightarrow> 'a list \<Rightarrow> 'a" where
  "head_or d [] = d"
| "head_or d (x # xs) = x"

definition dal_open :: "string \<Rightarrow> dal_device \<Rightarrow> int \<times> dal_device" where
  "dal_open path k =
     (let fd = head_or (- 1) (dal_opens k) in
      if path \<notin> set (dal_nodes k) \<or> fd < 0 \<or> fd \<in> set (dal_fds k) then (- 1, k\<lparr>dal_opens := tl (dal_opens k)\<rparr>)
      else (fd, k\<lparr>dal_opens := tl (dal_opens k), dal_fds := fd # dal_fds k\<rparr>))"

definition dal_close :: "int \<Rightarrow> dal_device \<Rightarrow> int \<times> dal_device" where
  "dal_close fd k =
     (if fd \<in> set (dal_fds k) then 0 else - 1, k\<lparr>dal_fds := removeAll fd (dal_fds k), dal_closed := dal_closed k @ [fd]\<rparr>)"

definition dal_write :: "int \<Rightarrow> byte list \<Rightarrow> dal_device \<Rightarrow> int \<times> dal_device" where
  "dal_write fd bytes k =
     (if fd \<notin> set (dal_fds k) then (- 1, k)
      else let n = min (head_or (int (length bytes)) (dal_accepts k)) (int (length bytes));
               k' = k\<lparr>dal_accepts := tl (dal_accepts k)\<rparr> in
        if n \<le> 0 then (n, k') else (n, k'\<lparr>dal_sent := dal_sent k @ [(fd, take (nat n) bytes)]\<rparr>))"

definition dal_read :: "int \<Rightarrow> nat \<Rightarrow> dal_device \<Rightarrow> byte list option \<times> dal_device" where
  "dal_read fd n k =
     (if fd \<notin> set (dal_fds k) then (None, k)
      else case dal_input k of
          [] \<Rightarrow> (Some [], k)
        | None # more_input \<Rightarrow> (None, k\<lparr>dal_input := more_input\<rparr>)
        | Some bs # more_input \<Rightarrow> (Some (take n bs), k\<lparr>dal_input := (if length bs \<le> n then more_input else Some (drop n bs) # more_input)\<rparr>))"

section \<open>The transport\<close>

abbreviation TEE_COMM_INTERNAL_ERROR :: uint32 where "TEE_COMM_INTERNAL_ERROR \<equiv> - 1"
abbreviation TEE_COMM_INVALID_PARAMS :: uint32 where "TEE_COMM_INVALID_PARAMS \<equiv> - 2"
abbreviation TEE_COMM_INVALID_HANDLE :: uint32 where "TEE_COMM_INVALID_HANDLE \<equiv> - 3"
abbreviation TEE_COMM_NOT_INITIALIZED :: uint32 where "TEE_COMM_NOT_INITIALIZED \<equiv> - 5"
abbreviation TEE_COMM_TRANSPORT_FAILED :: uint32 where "TEE_COMM_TRANSPORT_FAILED \<equiv> - 10"

text \<open>A handle is a descriptor in a pointer; \<^verbatim>\<open>TEE_TRANSPORT_INVALID_HANDLE_VALUE\<close> is -1.\<close>

definition entity_value :: "TEE_TRANSPORT_ENTITY \<Rightarrow> int" where
  "entity_value e = (case e of TEE_TRANSPORT_ENTITY_IVM \<Rightarrow> 10002 | TEE_TRANSPORT_ENTITY_SDM \<Rightarrow> 10001 | TEE_TRANSPORT_ENTITY_RTM \<Rightarrow> 10000)"

definition isEntityValid :: "int \<Rightarrow> bool" where
  "isEntityValid e = (e \<in> set [10002, 10000, 10001, 10003, 10100])"

definition TEE_Transport_DAL_Device_Create :: "dal_device \<Rightarrow> uint32 \<times> dal_device" where
  "TEE_Transport_DAL_Device_Create k = (TEE_COMM_SUCCESS, k\<lparr>dal_initialized := True\<rparr>)"

definition DAL_Device_Teardown :: "dal_device \<Rightarrow> uint32 \<times> dal_device" where
  "DAL_Device_Teardown k = (TEE_COMM_SUCCESS, if dal_initialized k then k\<lparr>dal_initialized := False\<rparr> else k)"

text \<open>The handle is \<open>None\<close> where it is not assigned.\<close>

definition DAL_Device_Connect :: "int \<Rightarrow> dal_device \<Rightarrow> (uint32 \<times> uint64 option) \<times> dal_device" where
  "DAL_Device_Connect entity k =
     (if \<not> isEntityValid entity then ((TEE_COMM_INVALID_PARAMS, None), k)
      else if \<not> dal_initialized k then ((TEE_COMM_NOT_INITIALIZED, None), k)
      else let (fd, k') =
          (if entity = 10002 then dal_open ''/dev/dal0'' k
           else if entity = 10001 then dal_open ''/dev/dal1'' k
           else if entity = 10000 then dal_open ''/dev/dal2'' k
           else (- 1, k)) in
        if fd < 0 then ((TEE_COMM_INTERNAL_ERROR, Some (- 1)), k') else ((TEE_COMM_SUCCESS, Some (of_int fd)), k'))"

definition DAL_Device_Disconnect :: "uint64 \<Rightarrow> dal_device \<Rightarrow> (uint32 \<times> uint64 option) \<times> dal_device" where
  "DAL_Device_Disconnect handle k =
     (if \<not> dal_initialized k then ((TEE_COMM_NOT_INITIALIZED, None), k)
      else if handle = - 1 then ((TEE_COMM_INVALID_HANDLE, None), k)
      else let (r, k') = dal_close (sint handle) k in
        if r < 0 then ((TEE_COMM_INTERNAL_ERROR, None), k') else ((TEE_COMM_SUCCESS, Some (- 1)), k'))"

text \<open>The loop of \<^verbatim>\<open>DAL_Device_Send\<close>: \<open>rest\<close> is what is not written yet.\<close>

abbreviation client_mtu :: nat where "client_mtu \<equiv> 4096"

function dal_send_loop :: "int \<Rightarrow> byte list \<Rightarrow> dal_device \<Rightarrow> uint32 \<times> dal_device" where
  "dal_send_loop fd rest k =
     (if rest = [] then (TEE_COMM_SUCCESS, k)
      else let (n, k') = dal_write fd (take client_mtu rest) k in
        if n \<le> 0 then (TEE_COMM_INTERNAL_ERROR, k') else dal_send_loop fd (drop (nat n) rest) k')"
  by pat_completeness auto

termination by (relation "measure (\<lambda>(fd, rest, k). length rest)") auto

declare dal_send_loop.simps [simp del]

text \<open>\<open>None\<close> is a null buffer.\<close>

definition DAL_Device_Send :: "uint64 \<Rightarrow> byte list option \<Rightarrow> dal_device \<Rightarrow> uint32 \<times> dal_device" where
  "DAL_Device_Send handle buffer k =
     (case buffer of
        None \<Rightarrow> (TEE_COMM_INVALID_PARAMS, k)
      | Some bytes \<Rightarrow>
          if handle = - 1 then (TEE_COMM_INVALID_PARAMS, k)
          else if \<not> dal_initialized k then (TEE_COMM_NOT_INITIALIZED, k)
          else dal_send_loop (sint handle) bytes k)"

text \<open>The code and the bytes read, whose number is the new length.\<close>

definition DAL_Device_Recv :: "uint64 \<Rightarrow> nat \<Rightarrow> dal_device \<Rightarrow> (uint32 \<times> byte list option) \<times> dal_device" where
  "DAL_Device_Recv handle len k =
     (if handle = - 1 then ((TEE_COMM_INVALID_PARAMS, None), k)
      else if \<not> dal_initialized k then ((TEE_COMM_NOT_INITIALIZED, None), k)
      else let (r, k') = dal_read (sint handle) len k in
        case r of None \<Rightarrow> ((TEE_COMM_TRANSPORT_FAILED, None), k') | Some bs \<Rightarrow> ((TEE_COMM_SUCCESS, Some bs), k'))"

section \<open>Sending\<close>

lemma dal_write_result:
  assumes "dal_write fd bytes k = (n, k')"
  shows "dal_initialized k' = dal_initialized k" "dal_fds k' = dal_fds k"
    "0 < n \<Longrightarrow> dal_sent k' = dal_sent k @ [(fd, take (nat n) bytes)] \<and> nat n \<le> length bytes"
    "n \<le> 0 \<Longrightarrow> dal_sent k' = dal_sent k"
  using assms by (auto simp: dal_write_def Let_def split: if_splits)

lemma dal_send_loop_exact:
  "\<exists>ps. dal_sent (snd (dal_send_loop fd rest k)) = dal_sent k @ map (Pair fd) ps \<and> list_all (\<lambda>p. p \<noteq> [] \<and> length p \<le> client_mtu) ps
     \<and> prefix (concat ps) rest \<and> (fst (dal_send_loop fd rest k) = TEE_COMM_SUCCESS \<longleftrightarrow> concat ps = rest)"
proof (induction fd rest k rule: dal_send_loop.induct)
  case (1 fd rest k)
  show ?case
  proof (cases "rest = []")
    case True
    then show ?thesis by (intro exI [of _ "[]"]) (simp add: dal_send_loop.simps [of fd "[]"])
  next
    case False
    obtain n k' where w: "dal_write fd (take client_mtu rest) k = (n, k')" by fastforce
    show ?thesis
    proof (cases "n \<le> 0")
      case True
      then have "dal_send_loop fd rest k = (TEE_COMM_INTERNAL_ERROR, k')"
        using False w by (simp add: dal_send_loop.simps [of fd rest k])
      then show ?thesis using False True dal_write_result(4) [OF w] by (intro exI [of _ "[]"]) simp
    next
      case n: False
      then obtain ps where ps: "dal_sent (snd (dal_send_loop fd (drop (nat n) rest) k')) = dal_sent k' @ map (Pair fd) ps"
          "list_all (\<lambda>p. p \<noteq> [] \<and> length p \<le> client_mtu) ps" "prefix (concat ps) (drop (nat n) rest)"
          "fst (dal_send_loop fd (drop (nat n) rest) k') = TEE_COMM_SUCCESS \<longleftrightarrow> concat ps = drop (nat n) rest"
        using "1.IH" [OF False w [symmetric] refl] by auto
      have s: "dal_sent k' = dal_sent k @ [(fd, take (nat n) rest)]" "nat n \<le> client_mtu" "nat n \<le> length rest"
        using dal_write_result(3) [OF w] n by (simp_all add: min_def split: if_splits)
      moreover have "dal_send_loop fd rest k = dal_send_loop fd (drop (nat n) rest) k'"
        using False n w by (simp add: dal_send_loop.simps [of fd rest k])
      moreover have "prefix (take (nat n) rest @ concat ps) rest"
        using ps(3) by (metis append_take_drop_id same_prefix_prefix)
      moreover have "take (nat n) rest @ concat ps = rest \<longleftrightarrow> concat ps = drop (nat n) rest"
        by (metis append_take_drop_id same_append_eq)
      ultimately show ?thesis
        using ps(1,2,4) False n by (intro exI [of _ "take (nat n) rest # ps"]) auto
    qed
  qed
qed

text \<open>
  C30: the transport sends a message completely or says that it did not: the pieces it writes to the
  device, none empty or longer than the device takes, are in order the beginning of the message, and they are
  the whole of it exactly when success is returned, however many bytes the device takes at a time.
\<close>

theorem dal_send_exact:
  assumes "dal_initialized k" "handle \<noteq> - 1"
  shows "\<exists>ps. dal_sent (snd (DAL_Device_Send handle (Some bytes) k)) = dal_sent k @ map (Pair (sint handle)) ps
     \<and> list_all (\<lambda>p. p \<noteq> [] \<and> length p \<le> client_mtu) ps \<and> prefix (concat ps) bytes
     \<and> (fst (DAL_Device_Send handle (Some bytes) k) = TEE_COMM_SUCCESS \<longleftrightarrow> concat ps = bytes)"
  using assms dal_send_loop_exact [of "sint handle" bytes k] by (simp add: DAL_Device_Send_def)

text \<open>A device that takes the next pieces as the list says; 5 is its descriptor.\<close>

definition sample_dal :: "int list \<Rightarrow> dal_device" where
  "sample_dal takes = \<lparr> dal_nodes = [''/dev/dal0''], dal_fds = [5], dal_opens = [], dal_accepts = takes, dal_input = [],
     dal_sent = [], dal_closed = [], dal_initialized = True \<rparr>"

theorem dal_send_exact_witness:
  "\<exists>ps. dal_sent (snd (DAL_Device_Send 5 (Some [1, 2, 3]) (sample_dal [2]))) = map (Pair 5) ps \<and> concat ps = [1, 2, 3]"
proof -
  have "fst (DAL_Device_Send 5 (Some [1, 2, 3]) (sample_dal [2])) = TEE_COMM_SUCCESS" by code_simp
  then show ?thesis
    using dal_send_exact [of "sample_dal [2]" 5 "[1, 2, 3]"] by (auto simp: sample_dal_def)
qed

section \<open>The first Beihai machine over the device\<close>

text \<open>The other transports stay those of the parameter.\<close>

definition over_dal_device :: "dal_device BH1 \<Rightarrow> dal_device BH1" where
  "over_dal_device b = b\<lparr>
     transport_Create := (\<lambda>t. if t = TEE_TRANSPORT_TYPE_DAL_DEVICE then TEE_Transport_DAL_Device_Create else transport_Create b t),
     transport_Connect := (\<lambda>e. DAL_Device_Connect (entity_value e)),
     transport_Disconnect := DAL_Device_Disconnect,
     transport_Teardown := DAL_Device_Teardown\<rparr>"

text \<open>\<^verbatim>\<open>closeWrapper\<close>, with which the library closes the connection: the handle it disconnects is a copy.\<close>

definition closeWrapper :: "uint64 \<Rightarrow> dal_device \<Rightarrow> uint32 \<times> dal_device" where
  "closeWrapper handle k = (let ((r, h), k') = DAL_Device_Disconnect handle k in (r, k'))"

text \<open>
  Starting connects to the device of the machine: the handle the plugin keeps is the descriptor, and it
  is open.
\<close>

theorem v1_connects_to_device:
  assumes "dal_open ''/dev/dal0'' (fw s) = (fd, k)" "0 \<le> fd"
  shows "run_state (BeihaiPlugin1_Set_Transport_And_Memory (over_dal_device b) TEE_TRANSPORT_TYPE_DAL_DEVICE) s =
    (JHI_SUCCESS, s\<lparr>transport_table := True, bh_handle := of_int fd, fw := k\<lparr>dal_initialized := True\<rparr>\<rparr>)"
proof -
  have "dal_open ''/dev/dal0'' ((fw s)\<lparr>dal_initialized := True\<rparr>) = (fd, k\<lparr>dal_initialized := True\<rparr>)"
    using assms(1) by (auto simp: dal_open_def Let_def split: if_splits)
  then show ?thesis
    using assms(2)
    by (simp add: BeihaiPlugin1_Set_Transport_And_Memory_def over_dal_device_def run_on_fw TEE_Transport_DAL_Device_Create_def
        DAL_Device_Connect_def entity_value_def isEntityValid_def set_handle_def)
qed

text \<open>
  Stopping closes the descriptor of the device twice. The library closes its copy of the handle to end the thread that
  receives; the plugin, whose own handle does not change by this, then disconnects again. A descriptor that another
  thread has opened in between and that got the same number is closed by the second call.
\<close>

theorem v1_closes_device_twice:
  assumes "BH_PluginDeinit b (fw s) = (r, snd (closeWrapper (ucast (ucast (bh_handle s) :: uint32)) (fw s)))"
    and "ucast (ucast (bh_handle s) :: uint32) = bh_handle s" "bh_handle s \<noteq> - 1" "transport_table s" "dal_initialized (fw s)"
  shows "dal_closed (fw (snd (run_state (BeihaiPlugin1_DeInit (over_dal_device b) rst) s))) =
    dal_closed (fw s) @ [sint (bh_handle s), sint (bh_handle s)]"
  using assms
  by (simp add: BeihaiPlugin1_DeInit_def over_dal_device_def run_on_fw closeWrapper_def DAL_Device_Disconnect_def dal_close_def
      DAL_Device_Teardown_def set_handle_def split: option.split)

end
