(* ===== verification/Fw_Info.thy ===== *)
theory Fw_Info
  imports Service_Init
begin

text \<open>
  The client that asks the firmware for its version on machines older than the second Beihai machine:
  \<^verbatim>\<open>FWInfoLinux.cpp\<close> (\<^verbatim>\<open>FWInfoFactory.h\<close>, \<^verbatim>\<open>FWInfoLinuxSockets.h\<close>, the messages of \<^verbatim>\<open>MkhiMsgs.h\<close>) over the descriptors of
  the process and the device of the management engine.
\<close>

section \<open>Descriptors and the device\<close>

text \<open>
  \<open>open_fds\<close> are the open descriptors of the process. The lists hold what the next calls on an open
  descriptor return: the descriptors that \<^verbatim>\<open>open\<close> gives out, the results of \<^verbatim>\<open>ioctl\<close>, \<^verbatim>\<open>write\<close> and \<^verbatim>\<open>select\<close>, and the
  messages that can be read, \<open>None\<close> for a failure. A list that is used up stands for a device that has
  gone away. \<open>closes\<close> records the descriptors \<^verbatim>\<open>close\<close> was called with.
\<close>

record process =
  dev_nodes :: "string list"
  open_fds :: "int list"
  opens :: "int list"
  ioctls :: "int list"
  writes :: "int list"
  selects :: "int list"
  messages :: "byte list option list"
  closes :: "int list"

text \<open>\<^verbatim>\<open>FWInfoLinux\<close>'s fields; \<open>over_sockets\<close>: the object is a \<^verbatim>\<open>FWInfoLinuxSockets\<close>.\<close>

record FWInfoLinux = process +
  over_sockets :: bool
  heciFd :: int
  isConnected :: bool
  connectionAttemptNum :: uint32

type_synonym 'a fw_info = "(FWInfoLinux, 'a) state"

fun next_of :: "'a \<Rightarrow> 'a list \<Rightarrow> 'a" where
  "next_of d [] = d"
| "next_of d (x # xs) = x"

definition sys_open :: "string option \<Rightarrow> int fw_info" where
  "sys_open path = action (\<lambda>s. case path of
       None \<Rightarrow> (- 1, s)
     | Some p \<Rightarrow>
         let fd = next_of (- 1) (opens s) in
         if p \<notin> set (dev_nodes s) \<or> fd < 0 \<or> fd \<in> set (open_fds s) then (- 1, s\<lparr>opens := tl (opens s)\<rparr>)
         else (fd, s\<lparr>opens := tl (opens s), open_fds := fd # open_fds s\<rparr>))"

definition sys_ioctl :: "int \<Rightarrow> int fw_info" where
  "sys_ioctl fd = action (\<lambda>s.
     if fd \<in> set (open_fds s) then (next_of (- 1) (ioctls s), s\<lparr>ioctls := tl (ioctls s)\<rparr>) else (- 1, s))"

definition sys_write :: "int \<Rightarrow> byte list \<Rightarrow> int fw_info" where
  "sys_write fd bytes = action (\<lambda>s.
     if fd \<in> set (open_fds s) then (next_of (- 1) (writes s), s\<lparr>writes := tl (writes s)\<rparr>) else (- 1, s))"

definition sys_select :: "int \<Rightarrow> nat \<times> nat \<Rightarrow> int fw_info" where
  "sys_select fd tv = action (\<lambda>s.
     if fd \<in> set (open_fds s) then (next_of (- 1) (selects s), s\<lparr>selects := tl (selects s)\<rparr>) else (- 1, s))"

definition sys_read :: "int \<Rightarrow> nat \<Rightarrow> byte list option fw_info" where
  "sys_read fd n = action (\<lambda>s.
     if fd \<in> set (open_fds s)
     then (map_option (take n) (next_of None (messages s)), s\<lparr>messages := tl (messages s)\<rparr>) else (None, s))"

definition sys_close :: "int \<Rightarrow> int fw_info" where
  "sys_close fd = action (\<lambda>s.
     (if fd \<in> set (open_fds s) then 0 else - 1, s\<lparr>open_fds := removeAll fd (open_fds s), closes := closes s @ [fd]\<rparr>))"

section \<open>Messages\<close>

text \<open>
  The header of a message, four bytes: the group, the command with the bit that marks a response, a
  reserved byte and the result. The answer goes on with the versions, the minor number first.
\<close>

abbreviation MKHI_GEN_GROUP_ID :: byte where "MKHI_GEN_GROUP_ID \<equiv> 0xFF"
abbreviation GEN_GET_FW_VERSION_CMD :: byte where "GEN_GET_FW_VERSION_CMD \<equiv> 2"
abbreviation ME_SUCCESS :: byte where "ME_SUCCESS \<equiv> 0"
abbreviation MAX_BUFFER_SIZE :: nat where "MAX_BUFFER_SIZE \<equiv> 16384"
abbreviation FWINFO_FW_COMMS_TIMEOUT :: nat where "FWINFO_FW_COMMS_TIMEOUT \<equiv> 100000"

text \<open>The request; its last two bytes are not set by the code and taken to be zero.\<close>

definition GEN_GET_FW_VERSION :: "byte list" where
  "GEN_GET_FW_VERSION = [MKHI_GEN_GROUP_ID, GEN_GET_FW_VERSION_CMD, 0, 0]"

definition ack_Result :: "byte list \<Rightarrow> byte" where
  "ack_Result m = m ! 3"

definition ack_FWVersion :: "byte list \<Rightarrow> VERSION" where
  "ack_FWVersion m = \<lparr> Major = get16 (take 2 (drop 6 m)), Minor = get16 (take 2 (drop 4 m)),
     Hotfix = get16 (take 2 (drop 10 m)), Build = get16 (take 2 (drop 8 m)) \<rparr>"

section \<open>The class\<close>

definition FWInfoFactory_createInstance :: "TEE_TRANSPORT_TYPE \<Rightarrow> bool fw_info" where
  "FWInfoFactory_createInstance t = action (\<lambda>s. (True, s\<lparr>over_sockets := (t = TEE_TRANSPORT_TYPE_SOCKET),
     heciFd := - 1, isConnected := False, connectionAttemptNum := 0\<rparr>))"

definition mei_default_device :: "string list \<Rightarrow> string option" where
  "mei_default_device nodes = find (\<lambda>n. n \<in> set nodes) [''/dev/mei0'', ''/dev/mei'']"

text \<open>
  The wait before a further attempt, a number of microseconds between 100 and 300, has no effect here.
\<close>

definition FWInfoLinux_Connect :: "bool fw_info" where
  "FWInfoLinux_Connect = do {
     s \<leftarrow> gets (\<lambda>s. s);
     if over_sockets s then ret False
     else if isConnected s then ret True
     else do {
       modify (\<lambda>s. s\<lparr>connectionAttemptNum := connectionAttemptNum s + 1\<rparr>);
       fd \<leftarrow> sys_open (mei_default_device (dev_nodes s));
       modify (\<lambda>s. s\<lparr>heciFd := fd\<rparr>);
       if fd = - 1 then ret False
       else do {
         result \<leftarrow> sys_ioctl fd;
         (if result = 0 then modify (\<lambda>s. s\<lparr>isConnected := True\<rparr>) else do { sys_close fd; ret () });
         ret (result = 0) } } }"

text \<open>The flag \<^verbatim>\<open>_isConnected\<close> keeps its value.\<close>

definition FWInfoLinux_Disconnect :: "bool fw_info" where
  "FWInfoLinux_Disconnect = do {
     s \<leftarrow> gets (\<lambda>s. s);
     if over_sockets s then ret False
     else if \<not> isConnected s then ret True
     else if heciFd s \<noteq> - 1 then do { r \<leftarrow> sys_close (heciFd s); ret (r = 0) }
     else ret True }"

definition FWInfoLinux_delete :: "unit fw_info" where
  "FWInfoLinux_delete = do {
     s \<leftarrow> gets (\<lambda>s. s);
     if \<not> over_sockets s \<and> isConnected s then do { FWInfoLinux_Disconnect; ret () } else ret () }"

text \<open>The seconds and microseconds that \<^verbatim>\<open>HeciWrite\<close> waits for the answer; its result is whether it failed.\<close>

definition heci_timeval :: "nat \<Rightarrow> nat \<times> nat" where
  "heci_timeval timeout = (timeout div 1000, (timeout mod 1000) * 1000000)"

definition HeciWrite :: "byte list \<Rightarrow> nat \<Rightarrow> bool fw_info" where
  "HeciWrite buffer timeout = do {
     fd \<leftarrow> gets heciFd;
     rv \<leftarrow> sys_write fd buffer;
     if rv < 0 then ret True
     else do {
       rv \<leftarrow> sys_select fd (heci_timeval timeout);
       ret (\<not> rv > 0) } }"

definition HeciRead :: "nat \<Rightarrow> byte list option fw_info" where
  "HeciRead len = do { fd \<leftarrow> gets heciFd; sys_read fd len }"

text \<open>A message that is shorter than the answer is completed by the zeros in the buffer.\<close>

definition FWInfoLinux_GetFwVersion :: "VERSION \<Rightarrow> (bool \<times> VERSION) fw_info" where
  "FWInfoLinux_GetFwVersion fw_version = do {
     s \<leftarrow> gets (\<lambda>s. s);
     if over_sockets s \<or> \<not> isConnected s then ret (False, fw_version)
     else do {
       failed \<leftarrow> HeciWrite GEN_GET_FW_VERSION FWINFO_FW_COMMS_TIMEOUT;
       if failed then ret (False, fw_version)
       else do {
         m \<leftarrow> HeciRead MAX_BUFFER_SIZE;
         (case m of
            None \<Rightarrow> ret (False, fw_version)
          | Some bytes \<Rightarrow>
              let HECIReply = bytes @ replicate (MAX_BUFFER_SIZE - length bytes) 0 in
              if ack_Result HECIReply \<noteq> ME_SUCCESS then ret (False, fw_version)
              else ret (True, ack_FWVersion HECIReply)) } } }"

text \<open>The client as start-up uses it.\<close>

definition linux_fw_info :: "FWInfoLinux environment \<Rightarrow> FWInfoLinux environment" where
  "linux_fw_info env = env\<lparr>
     fw_createInstance := (\<lambda>t. run_state (FWInfoFactory_createInstance t)),
     fw_Connect := run_state FWInfoLinux_Connect,
     fw_GetFwVersion := (\<lambda>v. run_state (FWInfoLinux_GetFwVersion v)),
     fw_Disconnect := run_state FWInfoLinux_Disconnect,
     fw_delete := run_state FWInfoLinux_delete\<rparr>"

section \<open>Runs\<close>

lemma linux_fw_fields [simp]:
  "fw_createInstance (linux_fw_info env) t = run_state (FWInfoFactory_createInstance t)"
  "fw_Connect (linux_fw_info env) = run_state FWInfoLinux_Connect"
  "fw_GetFwVersion (linux_fw_info env) v = run_state (FWInfoLinux_GetFwVersion v)"
  "fw_Disconnect (linux_fw_info env) = run_state FWInfoLinux_Disconnect"
  "fw_delete (linux_fw_info env) = run_state FWInfoLinux_delete"
  by (simp_all add: linux_fw_info_def)

text \<open>A device that can be opened and accepts the connection; \<open>fd\<close> is its descriptor.\<close>

definition reachable_device :: "int \<Rightarrow> FWInfoLinux \<Rightarrow> bool" where
  "reachable_device fd w =
     (mei_default_device (dev_nodes w) \<noteq> None \<and> 0 \<le> fd \<and> fd \<notin> set (open_fds w)
      \<and> next_of (- 1) (opens w) = fd \<and> next_of (- 1) (ioctls w) = 0)"

text \<open>The object of a client that has connected.\<close>

definition connected_client :: "int \<Rightarrow> FWInfoLinux \<Rightarrow> FWInfoLinux" where
  "connected_client fd w = w\<lparr>over_sockets := False, heciFd := fd, isConnected := True, connectionAttemptNum := 1,
     opens := tl (opens w), ioctls := tl (ioctls w), open_fds := fd # open_fds w\<rparr>"

lemma device_node: "mei_default_device nodes = Some p \<Longrightarrow> p \<in> set nodes"
  by (auto simp: mei_default_device_def split: if_splits)

lemma run_create_connect:
  assumes "reachable_device fd w" "t \<noteq> TEE_TRANSPORT_TYPE_SOCKET"
  shows "run_state FWInfoLinux_Connect (snd (run_state (FWInfoFactory_createInstance t) w)) = (True, connected_client fd w)"
proof -
  obtain p where p: "mei_default_device (dev_nodes w) = Some p" using assms(1) by (auto simp: reachable_device_def)
  show ?thesis
    using assms device_node [OF p] p
    by (simp add: reachable_device_def FWInfoLinux_Connect_def FWInfoFactory_createInstance_def sys_open_def sys_ioctl_def
        connected_client_def action_def Let_def)
qed

lemma run_disconnect:
  assumes "isConnected w" "\<not> over_sockets w" "heciFd w \<noteq> - 1"
  shows "snd (run_state FWInfoLinux_Disconnect w) =
    w\<lparr>open_fds := removeAll (heciFd w) (open_fds w), closes := closes w @ [heciFd w]\<rparr>"
  using assms by (simp add: FWInfoLinux_Disconnect_def sys_close_def action_def)

text \<open>Once disconnected, the client takes itself for connected; an attempt fails and closes the descriptor again.\<close>

definition spent_client :: "FWInfoLinux \<Rightarrow> bool" where
  "spent_client w = (isConnected w \<and> \<not> over_sockets w \<and> heciFd w \<noteq> - 1 \<and> heciFd w \<notin> set (open_fds w))"

lemma spent_runs:
  assumes "spent_client w"
  shows "run_state FWInfoLinux_Connect w = (True, w)" "run_state (FWInfoLinux_GetFwVersion v) w = ((False, v), w)"
    "snd (run_state FWInfoLinux_Disconnect w) = w\<lparr>closes := closes w @ [heciFd w]\<rparr>"
    "snd (run_state FWInfoLinux_delete w) = w\<lparr>closes := closes w @ [heciFd w]\<rparr>"
  using assms
  by (simp_all add: spent_client_def FWInfoLinux_Connect_def FWInfoLinux_GetFwVersion_def HeciWrite_def sys_write_def
      FWInfoLinux_delete_def FWInfoLinux_Disconnect_def sys_close_def action_def removeAll_id split: prod.split)

lemma spent_attempts:
  "spent_client (world s) \<Longrightarrow> run_state (fw_version_attempts (linux_fw_info env) v n) s =
     (v, s\<lparr>world := (world s)\<lparr>closes := closes (world s) @ replicate n (heciFd (world s))\<rparr>\<rparr>)"
proof (induction n arbitrary: s)
  case (Suc n)
  let ?s = "s\<lparr>world := (world s)\<lparr>closes := closes (world s) @ [heciFd (world s)]\<rparr>\<rparr>"
  have "spent_client (world ?s)" using Suc.prems by (simp add: spent_client_def)
  from Suc.IH [OF this] show ?case
    using spent_runs [OF Suc.prems] by (simp add: run_on_world)
qed simp

text \<open>After a first attempt that has connected: either its version is taken, or the remaining attempts add nothing.\<close>

lemma attempts_after_connect:
  assumes c: "run_state FWInfoLinux_Connect (world s) = (True, w1)" and g: "run_state (FWInfoLinux_GetFwVersion v) w1 = (r, w2)"
    and w2: "isConnected w2" "\<not> over_sockets w2" "heciFd w2 \<noteq> - 1"
  shows "run_state (fw_version_attempts (linux_fw_info env) v (Suc n)) s =
    (snd r, s\<lparr>world := w2\<lparr>open_fds := removeAll (heciFd w2) (open_fds w2),
        closes := closes w2 @ replicate (if fst r \<and> Major (snd r) \<noteq> 0 then 1 else Suc n) (heciFd w2)\<rparr>\<rparr>)"
proof -
  let ?w = "w2\<lparr>open_fds := removeAll (heciFd w2) (open_fds w2), closes := closes w2 @ [heciFd w2]\<rparr>"
  have "spent_client ?w" using w2 by (simp add: spent_client_def)
  then show ?thesis
    using c g run_disconnect [OF w2] spent_attempts [of "s\<lparr>world := ?w\<rparr>" env "snd r" n]
    by (simp add: run_on_world)
qed

lemma get_version_frame:
  "isConnected (snd (run_state (FWInfoLinux_GetFwVersion v) w)) = isConnected w"
  "over_sockets (snd (run_state (FWInfoLinux_GetFwVersion v) w)) = over_sockets w"
  "heciFd (snd (run_state (FWInfoLinux_GetFwVersion v) w)) = heciFd w"
  "open_fds (snd (run_state (FWInfoLinux_GetFwVersion v) w)) = open_fds w"
  "closes (snd (run_state (FWInfoLinux_GetFwVersion v) w)) = closes w"
  by (auto simp: FWInfoLinux_GetFwVersion_def HeciWrite_def HeciRead_def sys_write_def sys_select_def sys_read_def action_def
      Let_def split: prod.split option.split)

lemma get_version_failed: "\<not> fst (fst (run_state (FWInfoLinux_GetFwVersion v) w)) \<Longrightarrow>
    snd (fst (run_state (FWInfoLinux_GetFwVersion v) w)) = v"
  by (auto simp: FWInfoLinux_GetFwVersion_def Let_def split: prod.splits option.splits if_splits)

lemma get_version_answered:
  assumes "isConnected w" "\<not> over_sockets w" "heciFd w \<in> set (open_fds w)" "0 \<le> next_of (- 1) (writes w)" "0 < next_of (- 1) (selects w)"
    "next_of None (messages w) = Some (h # c # r # ME_SUCCESS # put16 a2 @ put16 a1 @ put16 a4 @ put16 a3 @ rest)"
  shows "fst (run_state (FWInfoLinux_GetFwVersion v) w) = (True, \<lparr> Major = a1, Minor = a2, Hotfix = a3, Build = a4 \<rparr>)"
  using assms
  by (simp add: FWInfoLinux_GetFwVersion_def HeciWrite_def HeciRead_def sys_write_def sys_select_def sys_read_def action_def
      ack_Result_def ack_FWVersion_def Let_def not_less)

text \<open>The whole query of a device that can be reached, from the first attempt on.\<close>

lemma run_discover:
  assumes d: "reachable_device fd (world s)" "transportType (globals s) \<noteq> TEE_TRANSPORT_TYPE_SOCKET"
    and g: "fst (run_state (FWInfoLinux_GetFwVersion no_version) (connected_client fd (world s))) = r"
  shows "\<exists>w. run_state (discoverFwVersionLegacy (linux_fw_info env)) s = (snd r, s\<lparr>world := w\<rparr>) \<and> open_fds w = open_fds (world s)
    \<and> closes w = closes (world s) @ replicate (if fst r \<and> Major (snd r) \<noteq> 0 then 2 else 4) fd"
proof -
  let ?t = "transportType (globals s)" and ?w1 = "connected_client fd (world s)"
  let ?s = "s\<lparr>world := snd (run_state (FWInfoFactory_createInstance ?t) (world s))\<rparr>"
  let ?w2 = "snd (run_state (FWInfoLinux_GetFwVersion no_version) ?w1)"
  let ?k = "if fst r \<and> Major (snd r) \<noteq> 0 then 1 else Suc 2"
  let ?w3 = "?w2\<lparr>open_fds := removeAll fd (open_fds ?w2), closes := closes ?w2 @ replicate ?k fd\<rparr>"
  have fd: "fd \<noteq> - 1" "fd \<notin> set (open_fds (world s))" using d(1) by (auto simp: reachable_device_def)
  have w2: "isConnected ?w2" "\<not> over_sockets ?w2" "heciFd ?w2 = fd" "open_fds ?w2 = fd # open_fds (world s)"
    "closes ?w2 = closes (world s)"
    using get_version_frame [of no_version ?w1] by (simp_all add: connected_client_def)
  have "run_state FWInfoLinux_Connect (world ?s) = (True, ?w1)" using run_create_connect [OF d] by simp
  moreover have "run_state (FWInfoLinux_GetFwVersion no_version) ?w1 = (r, ?w2)" using g by (metis prod.collapse)
  ultimately have "run_state (fw_version_attempts (linux_fw_info env) no_version 3) ?s = (snd r, s\<lparr>world := ?w3\<rparr>)"
    using attempts_after_connect [of ?s ?w1 no_version r ?w2 env 2] w2 fd(1) by (simp add: eval_nat_numeral)
  moreover have "spent_client ?w3" using w2 fd by (simp add: spent_client_def)
  ultimately have "run_state (discoverFwVersionLegacy (linux_fw_info env)) s = (snd r, s\<lparr>world := ?w3\<lparr>closes := closes ?w3 @ [fd]\<rparr>\<rparr>)"
    using spent_runs(4) [of ?w3] w2(3)
    by (simp add: discoverFwVersionLegacy_def run_on_world FWInfoFactory_createInstance_def action_def)
  moreover have "open_fds ?w3 = open_fds (world s)" using w2(4) fd(2) by (simp add: removeAll_id)
  moreover have "closes ?w3 @ [fd] = closes (world s) @ replicate (if fst r \<and> Major (snd r) \<noteq> 0 then 2 else 4) fd"
    using w2(5) by (simp add: eval_nat_numeral)
  ultimately show ?thesis by (intro exI [of _ "?w3\<lparr>closes := closes ?w3 @ [fd]\<rparr>"]) simp
qed

section \<open>Properties\<close>

text \<open>
  C31: when the device can be reached and the firmware answers the request, start-up learns exactly the
  version in the answer, and no descriptor stays open; the one of the device is closed twice, by the
  client when it disconnects and again when it is deleted.
\<close>

theorem fw_version_discovered:
  assumes "reachable_device fd (world s)" "transportType (globals s) \<noteq> TEE_TRANSPORT_TYPE_SOCKET"
    and "0 \<le> next_of (- 1) (writes (world s))" "0 < next_of (- 1) (selects (world s))"
    and "next_of None (messages (world s)) =
        Some (h # c # r # ME_SUCCESS # put16 (Minor v) @ put16 (Major v) @ put16 (Build v) @ put16 (Hotfix v) @ rest)"
    and "Major v \<noteq> 0"
  shows "\<exists>w. run_state (discoverFwVersionLegacy (linux_fw_info env)) s = (v, s\<lparr>world := w\<rparr>)
    \<and> open_fds w = open_fds (world s) \<and> closes w = closes (world s) @ [fd, fd]"
proof -
  have "fst (run_state (FWInfoLinux_GetFwVersion no_version) (connected_client fd (world s))) = (True, v)"
    using assms(3-5) get_version_answered [of "connected_client fd (world s)"] by (simp add: connected_client_def)
  from run_discover [OF assms(1,2) this, of env] show ?thesis
    using assms(6) by (simp add: eval_nat_numeral)
qed

text \<open>
  Start-up asks for the version up to three times, but when the first request has failed on a
  connection that was made, the other two fail whatever the firmware answers by then: the client
  does not note that it has disconnected and goes on with the descriptor it has closed. It closes
  it four times in all; the version stays unknown.
\<close>

theorem fw_retries_in_vain:
  assumes "reachable_device fd (world s)" "transportType (globals s) \<noteq> TEE_TRANSPORT_TYPE_SOCKET"
    and "\<not> fst (fst (run_state (FWInfoLinux_GetFwVersion no_version) (connected_client fd (world s))))"
  shows "\<exists>w. run_state (discoverFwVersionLegacy (linux_fw_info env)) s = (no_version, s\<lparr>world := w\<rparr>)
    \<and> open_fds w = open_fds (world s) \<and> closes w = closes (world s) @ [fd, fd, fd, fd]"
proof -
  let ?r = "fst (run_state (FWInfoLinux_GetFwVersion no_version) (connected_client fd (world s)))"
  have "snd ?r = no_version" using get_version_failed [OF assms(3)] .
  with run_discover [OF assms(1,2) refl, of env] show ?thesis
    using assms(3) by (simp add: eval_nat_numeral)
qed

text \<open>A device whose answer is the version 9.5; the waiting times of its requests are in \<open>waits\<close>.\<close>

definition sample_mei :: "int list \<Rightarrow> FWInfoLinux" where
  "sample_mei waits = \<lparr> dev_nodes = [''/dev/mei''], open_fds = [0, 1, 2], opens = [5, 6, 7], ioctls = [0, 0, 0],
     writes = [4, 4, 4], selects = waits, messages = replicate 3 (Some ([0xFF, 0x82, 0, 0] @ put16 5 @ put16 9 @ put16 7 @ put16 1)),
     closes = [], over_sockets = False, heciFd = - 1, isConnected = False, connectionAttemptNum = 0 \<rparr>"

definition mei_state :: "int list \<Rightarrow> FWInfoLinux jhi \<Rightarrow> FWInfoLinux jhi" where
  "mei_state waits s = s\<lparr>globals := GlobalsManager_init\<lparr>transportType := TEE_TRANSPORT_TYPE_TEE_LIB\<rparr>, world := sample_mei waits\<rparr>"

lemma mei_state_parts: "transportType (globals (mei_state n s)) = TEE_TRANSPORT_TYPE_TEE_LIB" "world (mei_state n s) = sample_mei n"
  by (simp_all add: mei_state_def)

lemma sample_reachable: "reachable_device 5 (world (mei_state waits s))"
  by (simp add: reachable_device_def mei_state_parts sample_mei_def mei_default_device_def)

theorem fw_version_discovered_witness:
  "\<forall>env s. fst (run_state (discoverFwVersionLegacy (linux_fw_info env)) (mei_state [1] s)) =
       \<lparr> Major = 9, Minor = 5, Hotfix = 1, Build = 7 \<rparr>
     \<and> closes (world (snd (run_state (discoverFwVersionLegacy (linux_fw_info env)) (mei_state [1] s)))) = [5, 5]"
proof (intro allI)
  fix env and s :: "FWInfoLinux jhi"
  let ?v = "\<lparr> Major = 9, Minor = 5, Hotfix = 1, Build = 7 \<rparr> :: VERSION"
  have "next_of None (messages (world (mei_state [1] s))) =
      Some (0xFF # 0x82 # 0 # ME_SUCCESS # put16 (Minor ?v) @ put16 (Major ?v) @ put16 (Build ?v) @ put16 (Hotfix ?v) @ [])"
    by (simp add: mei_state_parts sample_mei_def eval_nat_numeral)
  from fw_version_discovered [OF sample_reachable _ _ _ this, of env]
  show "fst (run_state (discoverFwVersionLegacy (linux_fw_info env)) (mei_state [1] s)) = ?v
      \<and> closes (world (snd (run_state (discoverFwVersionLegacy (linux_fw_info env)) (mei_state [1] s)))) = [5, 5]"
    by (force simp: mei_state_parts sample_mei_def)
qed

text \<open>The first request is not answered in time, the others would be.\<close>

theorem fw_retries_in_vain_witness:
  "\<forall>env s. fst (run_state (discoverFwVersionLegacy (linux_fw_info env)) (mei_state [0, 1, 1] s)) = no_version
     \<and> closes (world (snd (run_state (discoverFwVersionLegacy (linux_fw_info env)) (mei_state [0, 1, 1] s)))) = [5, 5, 5, 5]"
proof (intro allI)
  fix env and s :: "FWInfoLinux jhi"
  let ?s = "mei_state [0, 1, 1] s"
  have "\<not> fst (fst (run_state (FWInfoLinux_GetFwVersion no_version) (connected_client 5 (world ?s))))"
    by (simp add: mei_state_parts connected_client_def sample_mei_def FWInfoLinux_GetFwVersion_def HeciWrite_def sys_write_def
        sys_select_def action_def)
  from fw_retries_in_vain [OF sample_reachable _ this, of env]
  show "fst (run_state (discoverFwVersionLegacy (linux_fw_info env)) ?s) = no_version
      \<and> closes (world (snd (run_state (discoverFwVersionLegacy (linux_fw_info env)) ?s))) = [5, 5, 5, 5]"
    by (force simp: mei_state_parts sample_mei_def)
qed

end
