(* ===== verification/Acp_Format.thy ===== *)
theory Acp_Format
  imports Acp_Package
begin

unbundle bit_operations_syntax

text \<open>
  The format of admin command packages as a reference definition over offsets, and the proof that
  the pointer code of \<open>Acp_Package\<close> accepts exactly this format, never reads outside the package and stores
  only addresses within it.
\<close>

section \<open>The format\<close>

text \<open>A section has a fixed size, or a header with a count of elements of a size.\<close>

datatype ac_section = Fixed nat | Counted nat nat nat nat

definition round_up :: "nat \<Rightarrow> nat \<Rightarrow> nat" where
  "round_up k n = n + (k - n mod k) mod k"

fun section_size :: "byte list \<Rightarrow> nat \<Rightarrow> ac_section \<Rightarrow> nat option" where
  "section_size d i (Fixed n) = (if i + n \<le> length d then Some n else None)"
| "section_size d i (Counted h k mx e) =
     (if i + h \<le> length d
      then case u32_at (i + k) d of
          None \<Rightarrow> None
        | Some c \<Rightarrow> if unat c \<le> mx \<and> i + (h + unat c * e) \<le> length d then Some (h + unat c * e) else None
      else None)"

definition section_end :: "byte list \<Rightarrow> nat \<Rightarrow> ac_section \<Rightarrow> nat option" where
  "section_end d i s =
     (case section_size d i s of
        None \<Rightarrow> None
      | Some n \<Rightarrow> if round_up 4 (i + n) \<le> length d then Some (round_up 4 (i + n)) else None)"

text \<open>The offsets of the sections that follow each other, and where the last one ends.\<close>

fun scan_sections :: "byte list \<Rightarrow> nat \<Rightarrow> ac_section list \<Rightarrow> (nat list \<times> nat) option" where
  "scan_sections d i [] = Some ([], i)"
| "scan_sections d i (s # ss) =
     (case section_end d i s of
        None \<Rightarrow> None
      | Some j \<Rightarrow> map_option (\<lambda>(js, e). (i # js, e)) (scan_sections d j ss))"

lemma up_ge: "n \<le> round_up k n" and up_less: "0 < k \<Longrightarrow> round_up k n < n + k"
  by (simp_all add: round_up_def)

section \<open>Machine arithmetic\<close>

lemma unat_addr: "unat a + n < 2 ^ 64 \<Longrightarrow> unat (a + of_nat n :: uint64) = unat a + n"
  by (simp add: unat_word_ariths unat_of_nat)

lemma addr_diff: "m \<le> n \<Longrightarrow> (a + of_nat n :: uint64) - (a + of_nat m) = of_nat (n - m)"
  by simp

lemma room: "x > UINTPTR_MAX - n \<longleftrightarrow> 2 ^ 64 \<le> unat x + unat (n :: uint64)"
proof -
  have "unat (UINTPTR_MAX - n) = 2 ^ 64 - 1 - unat n"
    by (simp add: unat_sub unsigned_minus_1_eq_mask mask_eq_exp_minus_1)
  then show ?thesis using unat_less [of n] by (auto simp: word_less_nat_alt)
qed

lemma unat_and_mask: "unat (x AND 3 :: uint64) = unat x mod 4" "unat (x AND 7 :: uint64) = unat x mod 8"
proof -
  have "x AND 3 = take_bit 2 x" "x AND 7 = take_bit 3 x"
    by (simp_all add: take_bit_eq_mask mask_eq_exp_minus_1)
  then show "unat (x AND 3) = unat x mod 4" "unat (x AND 7) = unat x mod 8"
    by (simp_all add: take_bit_eq_mod unat_mod)
qed

lemma unat_pad:
  "unat ((4 - (x AND 3)) AND 3 :: uint64) = (4 - unat x mod 4) mod 4"
  "unat ((8 - (x AND 7)) AND 7 :: uint64) = (8 - unat x mod 8) mod 8"
proof -
  have "unat (4 - (x AND 3)) = 4 - unat (x AND 3)" "unat (8 - (x AND 7)) = 8 - unat (x AND 7)"
    by (simp_all add: unat_sub word_le_nat_alt unat_and_mask)
  then show "unat ((4 - (x AND 3)) AND 3) = (4 - unat x mod 4) mod 4"
    "unat ((8 - (x AND 7)) AND 7) = (8 - unat x mod 8) mod 8"
    by (simp_all add: unat_and_mask)
qed

section \<open>The reader at an offset\<close>

text \<open>
  \<open>reader m w pr i\<close>: the reader \<open>pr\<close> reads the package \<open>m\<close> from its byte \<open>w\<close> on, and stands at offset \<open>i\<close> from
  there. The package lies within the address space.
\<close>

definition fits :: "mem \<Rightarrow> nat \<Rightarrow> bool" where
  "fits m w \<longleftrightarrow> unat (fst m) + length (snd m) < 2 ^ 64 \<and> w \<le> length (snd m) \<and> length (snd m) - w < 2 ^ 32"

definition at_offset :: "mem \<Rightarrow> nat \<Rightarrow> nat \<Rightarrow> uint64" where
  "at_offset m w i = fst m + of_nat (w + i)"

definition reader :: "mem \<Rightarrow> nat \<Rightarrow> nat \<Rightarrow> PackReader" where
  "reader m w i = \<lparr> pr_cur = at_offset m w i, pr_head = at_offset m w 0, pr_total = of_nat (length (snd m) - w) \<rparr>"

definition window :: "mem \<Rightarrow> nat \<Rightarrow> byte list" where
  "window m w = drop w (snd m)"

lemma unat_at_offset: "fits m w \<Longrightarrow> i \<le> length (window m w) \<Longrightarrow> unat (at_offset m w i) = unat (fst m) + w + i"
  using unat_addr [of "fst m" "w + i"] by (auto simp: at_offset_def fits_def window_def simp del: of_nat_add)

lemma pr_end_reader: "fits m w \<Longrightarrow> pr_end (reader m w i) = at_offset m w (length (window m w))"
proof -
  assume "fits m w"
  then have "ucast (of_nat (length (snd m) - w) :: uint32) = (of_nat (length (snd m) - w) :: uint64)"
    by (simp add: fits_def unsigned_ucast_eq unsigned_of_nat take_bit_nat_eq_self del: of_nat_diff)
  moreover have "w + (length (snd m) - w) = length (snd m)" using \<open>fits m w\<close> by (simp add: fits_def)
  ultimately show ?thesis
    by (simp add: reader_def pr_end_def at_offset_def window_def del: of_nat_diff) (metis of_nat_add)
qed

lemma reader_update: "(reader m w i)\<lparr>pr_cur := at_offset m w j\<rparr> = reader m w j"
  by (simp add: reader_def)

lemma reader_cur [simp]: "pr_cur (reader m w i) = at_offset m w i" "pr_head (reader m w i) = at_offset m w 0"
  by (simp_all add: reader_def)

lemma at_offset_add: "at_offset m w i + of_nat n = at_offset m w (i + n)"
  by (simp add: at_offset_def algebra_simps)

lemma at_offset_plus: "at_offset m w i + n = at_offset m w (i + unat n)"
  using at_offset_add [of m w i "unat n"] by simp

lemma unat_window: "fits m w \<Longrightarrow> unat (fst m) + w + length (window m w) < 2 ^ 64"
  by (simp add: fits_def window_def)

lemma safe_to_read:
  assumes "fits m w" "i \<le> length (window m w)"
  shows "pr_is_safe_to_read (reader m w i) n = BH_SUCCESS \<longleftrightarrow> i + unat n \<le> length (window m w)"
proof (cases "2 ^ 64 \<le> unat (at_offset m w i) + unat n")
  case True
  then show ?thesis using unat_at_offset [OF assms] unat_window [OF assms(1)]
    by (simp add: pr_is_safe_to_read_def room)
next
  case False
  then have "unat (at_offset m w i + n) = unat (at_offset m w i) + unat n" by (simp add: unat_word_ariths)
  then have "at_offset m w i + n > pr_end (reader m w i) \<longleftrightarrow> i + unat n > length (window m w)"
    using unat_at_offset [OF assms] unat_at_offset [OF assms(1) order_refl]
    by (simp add: pr_end_reader [OF assms(1)] word_less_nat_alt)
  then show ?thesis using False by (simp add: pr_is_safe_to_read_def room)
qed

lemma aligned_move:
  assumes "fits m w" "i \<le> length (window m w)" "i + unat n \<le> length (window m w)"
    and k: "\<And>x. unat ((k - (x AND (k - 1))) AND (k - 1)) = (kn - unat x mod kn) mod kn" "0 < kn" "kn \<le> 8"
  shows "aligned_move k (reader m w i) n =
    (if round_up kn (i + unat n) \<le> length (window m w) then (BH_SUCCESS, reader m w (round_up kn (i + unat n)))
     else (BHE_INVALID_BPK_FILE, reader m w i))"
proof -
  let ?new = "at_offset m w (i + unat n)" and ?L = "length (window m w)"
  let ?len = "?new - at_offset m w 0"
  let ?off = "(k - (?len AND (k - 1))) AND (k - 1)"
  note u = unat_at_offset [OF assms(1)] and w = unat_window [OF assms(1)]
  have "?len = of_nat (i + unat n)" by (simp add: at_offset_def)
  then have "unat ?len = i + unat n" using assms(3) w by (simp only: unat_of_nat) simp
  then have off: "i + unat n + unat ?off = round_up kn (i + unat n)" using k(1) [of ?len] by (simp add: round_up_def)
  have "\<not> at_offset m w i > UINTPTR_MAX - n" using u [OF assms(2)] assms(3) w by (simp add: room)
  moreover have "\<not> ?new < at_offset m w 0" using u [OF assms(3)] u [of 0] by (simp add: word_less_nat_alt)
  ultimately have new: "\<not> at_offset m w i > UINTPTR_MAX - n" "\<not> ?new < at_offset m w 0" by blast+
  show ?thesis
  proof (cases "?new > UINTPTR_MAX - ?off")
    case True
    then have "round_up kn (i + unat n) > ?L" using u [OF assms(3)] w off by (simp add: room)
    then show ?thesis using True new by (simp add: aligned_move_def at_offset_plus Let_def)
  next
    case False
    then have s: "unat (?new + ?off) = unat ?new + unat ?off" by (simp add: room unat_word_ariths)
    have "?new + ?off > at_offset m w ?L \<longleftrightarrow> \<not> round_up kn (i + unat n) \<le> ?L"
      using u [OF assms(3)] u [OF order_refl] off by (auto simp: word_less_nat_alt s)
    moreover have "?new + ?off = at_offset m w (round_up kn (i + unat n))" by (simp only: at_offset_plus off)
    ultimately show ?thesis using False new
      by (auto simp: aligned_move_def at_offset_plus Let_def pr_end_reader [OF assms(1)] reader_update)
  qed
qed

lemma pr_align_move_reader:
  assumes "fits m w" "i \<le> length (window m w)" "i + unat n \<le> length (window m w)"
  shows "pr_align_move (reader m w i) n =
    (if round_up 4 (i + unat n) \<le> length (window m w) then (BH_SUCCESS, reader m w (round_up 4 (i + unat n)))
     else (BHE_INVALID_BPK_FILE, reader m w i))"
  unfolding pr_align_move_def using assms by (rule aligned_move) (simp_all add: unat_pad)

lemma pr_8b_align_move_reader:
  assumes "fits m w" "i \<le> length (window m w)"
  shows "pr_8b_align_move (reader m w i) 0 =
    (if round_up 8 i \<le> length (window m w) then (BH_SUCCESS, reader m w (round_up 8 i)) else (BHE_INVALID_BPK_FILE, reader m w i))"
  using aligned_move [of m w i 0 8 8] assms by (simp add: pr_8b_align_move_def unat_pad)

lemma mem32_reader:
  assumes "fits m w" "i + unat k + 4 \<le> length (window m w)"
  shows "mem32 m (at_offset m w i + k) = u32_at (i + unat k) (window m w)"
proof -
  have "w + (i + unat k) < 2 ^ 64" using assms by (auto simp: fits_def window_def)
  then have "unat (at_offset m w (i + unat k) - fst m) = w + (i + unat k)"
    unfolding at_offset_def by (simp add: unat_of_nat del: of_nat_add)
  moreover have "read_at (w + (i + unat k)) 4 (snd m) = read_at (i + unat k) 4 (window m w)"
    using assms by (auto simp: fits_def window_def read_at_def add.commute)
  ultimately show ?thesis by (simp add: mem32_def at_offset_plus u32_at_def)
qed

section \<open>Sections\<close>

text \<open>A loader reads a section: it fails, or stores the section's address and moves to its end.\<close>

definition reads :: "loader \<Rightarrow> ac_section \<Rightarrow> bool" where
  "reads L s \<longleftrightarrow> (\<forall>m w i. fits m w \<longrightarrow> i \<le> length (window m w) \<longrightarrow>
     (case section_end (window m w) i s of
        None \<Rightarrow> \<exists>v pr. L m (reader m w i) = Some (BHE_INVALID_BPK_FILE, v, pr)
      | Some j \<Rightarrow> L m (reader m w i) = Some (BH_SUCCESS, Some (at_offset m w i), reader m w j)))"

lemma reads_fixed: "reads (load_fixed n) (Fixed (unat n))"
  by (auto simp: reads_def load_fixed_def section_end_def safe_to_read pr_align_move_reader split: option.splits)

lemma reads_counted:
  assumes "unat k + 4 \<le> unat h" "unat mx * unat e < 2 ^ 32" "unat h < 2 ^ 32"
  shows "reads (load_counted h k mx e) (Counted (unat h) (unat k) (unat mx) (unat e))"
  unfolding reads_def
proof (intro allI impI)
  fix m w i
  assume m: "fits m w" "i \<le> length (window m w)"
  let ?L = "length (window m w)"
  show "case section_end (window m w) i (Counted (unat h) (unat k) (unat mx) (unat e)) of
      None \<Rightarrow> \<exists>v pr. load_counted h k mx e m (reader m w i) = Some (BHE_INVALID_BPK_FILE, v, pr)
    | Some j \<Rightarrow> load_counted h k mx e m (reader m w i) = Some (BH_SUCCESS, Some (at_offset m w i), reader m w j)"
  proof (cases "i + unat h \<le> ?L")
    case False
    then show ?thesis using m by (simp add: section_end_def load_counted_def safe_to_read)
  next
    case True
    then have r: "mem32 m (at_offset m w i + k) = u32_at (i + unat k) (window m w)"
      using m assms(1) by (intro mem32_reader) auto
    obtain c where c: "u32_at (i + unat k) (window m w) = Some c"
      using True assms(1) by (cases "u32_at (i + unat k) (window m w)") auto
    show ?thesis
    proof (cases "unat c \<le> unat mx")
      case False
      then show ?thesis using True m by (simp add: section_end_def load_counted_def safe_to_read r c word_less_nat_alt)
    next
      case le: True
      have "unat c * unat e < 2 ^ 32" using le assms(2) by (meson le_less_trans mult_le_mono1)
      then have u: "unat (h + ucast c * e) = unat h + unat c * unat e"
        using assms(3) unat_less [of c] by (simp add: unat_word_ariths unsigned_ucast_eq take_bit_nat_eq_self)
      show ?thesis using True le m
        by (simp add: section_end_def load_counted_def safe_to_read r c word_less_nat_alt u Let_def pr_align_move_reader)
    qed
  qed
qed

lemma reads_sections:
  "reads ACP_load_pack_head (Fixed 32)" "reads ACP_load_ins_sd_head (Fixed 72)" "reads ACP_load_ins_sd_sig (Fixed 264)"
  "reads ACP_load_sdid (Fixed 16)" "reads ACP_load_taid (Fixed 16)" "reads ACP_load_ins_jta_prop_head (Fixed 20)"
  "reads ACP_load_ins_jta_head (Fixed 56)" "reads ACP_load_ins_nta_head (Fixed 56)"
  "reads ACP_load_metadata (Counted 4 0 5120 1)" "reads ACP_load_reasons (Counted 4 0 1024 4)"
  "reads ACP_load_taid_list (Counted 4 0 20 16)" "reads ACP_load_svl (Counted 4 0 40 20)"
  "reads ACP_load_prop (Counted 8 4 2048 1)"
  unfolding ACP_load_pack_head_def ACP_load_ins_sd_head_def ACP_load_ins_sd_sig_def ACP_load_sdid_def ACP_load_taid_def
    ACP_load_ins_jta_prop_head_def ACP_load_ins_jta_head_def ACP_load_ins_nta_head_def
    ACP_load_metadata_def ACP_load_reasons_def ACP_load_taid_list_def ACP_load_svl_def ACP_load_prop_def
  using reads_fixed [of 32] reads_fixed [of 72] reads_fixed [of 264] reads_fixed [of 16] reads_fixed [of 20]
    reads_fixed [of 56] reads_counted [of 0 4 5120 1] reads_counted [of 0 4 1024 4] reads_counted [of 0 4 20 16]
    reads_counted [of 0 4 40 20] reads_counted [of 4 8 2048 1]
  by simp_all

lemma ACP_load_ta_pack_reader:
  assumes "fits m w" "i \<le> length (window m w)"
  shows "ACP_load_ta_pack m (reader m w i) = Some
    (if round_up 8 i \<le> length (window m w)
     then (BH_SUCCESS, Some (at_offset m w (round_up 8 i)), reader m w (length (window m w)))
     else (BHE_INVALID_BPK_FILE, None, reader m w i))"
proof (cases "round_up 8 i \<le> length (window m w)")
  case True
  let ?j = "round_up 8 i" and ?L = "length (window m w)"
  note u = unat_at_offset [OF assms(1) True] unat_at_offset [OF assms(1) order_refl] and w = unat_window [OF assms(1)]
  have len: "at_offset m w ?L - at_offset m w ?j = of_nat (?L - ?j)"
    using True by (simp add: at_offset_def)
  have ul: "unat (of_nat (?L - ?j) :: uint64) = ?L - ?j" using w by (simp add: unat_of_nat del: of_nat_diff)
  have "pr_is_safe_to_read (reader m w ?j) (of_nat (?L - ?j)) = BH_SUCCESS"
    using True by (simp only: safe_to_read [OF assms(1) True] ul)
  moreover have "pr_move (reader m w ?j) (of_nat (?L - ?j)) = (BH_SUCCESS, reader m w ?L)"
    using True u w unfolding pr_move_def Let_def room ul reader_cur at_offset_plus
    by (simp add: pr_end_reader [OF assms(1)] reader_update)
  moreover have "\<not> at_offset m w ?j > at_offset m w ?L" using u True by (simp add: word_less_nat_alt)
  ultimately show ?thesis using True
    by (simp add: ACP_load_ta_pack_def pr_8b_align_move_reader [OF assms] pr_end_reader [OF assms(1)] len del: of_nat_diff)
qed (simp add: ACP_load_ta_pack_def pr_8b_align_move_reader [OF assms])

section \<open>Commands\<close>

text \<open>The pointers that a command's sections are stored in, and the structure with the addresses stored.\<close>

type_synonym slot = "uint64 \<Rightarrow> ACPack \<Rightarrow> ACPack"

definition fill :: "slot list \<Rightarrow> uint64 list \<Rightarrow> ACPack \<Rightarrow> ACPack" where
  "fill fs as p = fold (\<lambda>(f, a). f a) (zip fs as) p"

definition follows :: "pack_loader \<Rightarrow> ac_section list \<Rightarrow> slot list \<Rightarrow> bool" where
  "follows F ss fs \<longleftrightarrow> length fs = length ss \<and> (\<forall>m w i p. fits m w \<longrightarrow> i \<le> length (window m w) \<longrightarrow>
     (case scan_sections (window m w) i ss of
        None \<Rightarrow> \<exists>pr p'. F m (reader m w i) p = Some (BHE_INVALID_BPK_FILE, pr, p') \<and> ac_ta_pack p' = ac_ta_pack p
      | Some (is, e) \<Rightarrow> F m (reader m w i) p = Some (BH_SUCCESS, reader m w e, fill fs (map (at_offset m w) is) p)
          \<and> ac_ta_pack (fill fs (map (at_offset m w) is) p) = ac_ta_pack p))"

lemma scan_end: "scan_sections d i ss = Some (is, e) \<Longrightarrow> i \<le> length d \<Longrightarrow> e \<le> length d \<and> length is = length ss"
  by (induction ss arbitrary: i "is") (auto simp: section_end_def split: option.splits if_splits)

lemma scan_append:
  "scan_sections d i (ss @ ts) = (case scan_sections d i ss of None \<Rightarrow> None | Some (is, e) \<Rightarrow> map_option (\<lambda>(js, e'). (is @ js, e')) (scan_sections d e ts))"
  by (induction ss arbitrary: i) (auto simp: option.map_comp comp_def option.map_ident option.map_id split: option.splits prod.splits
      intro!: option.map_cong)

lemma followsD:
  assumes "follows F ss fs" "fits m w" "i \<le> length (window m w)"
  shows follows_None: "scan_sections (window m w) i ss = None \<Longrightarrow>
      \<exists>pr p'. F m (reader m w i) p = Some (BHE_INVALID_BPK_FILE, pr, p') \<and> ac_ta_pack p' = ac_ta_pack p"
    and follows_Some: "scan_sections (window m w) i ss = Some (is, e) \<Longrightarrow>
      F m (reader m w i) p = Some (BH_SUCCESS, reader m w e, fill fs (map (at_offset m w) is) p)
      \<and> ac_ta_pack (fill fs (map (at_offset m w) is) p) = ac_ta_pack p"
proof -
  have *: "case scan_sections (window m w) i ss of
      None \<Rightarrow> \<exists>pr p'. F m (reader m w i) p = Some (BHE_INVALID_BPK_FILE, pr, p') \<and> ac_ta_pack p' = ac_ta_pack p
    | Some (is, e) \<Rightarrow> F m (reader m w i) p = Some (BH_SUCCESS, reader m w e, fill fs (map (at_offset m w) is) p)
        \<and> ac_ta_pack (fill fs (map (at_offset m w) is) p) = ac_ta_pack p"
    using assms unfolding follows_def by blast
  show "scan_sections (window m w) i ss = None \<Longrightarrow>
      \<exists>pr p'. F m (reader m w i) p = Some (BHE_INVALID_BPK_FILE, pr, p') \<and> ac_ta_pack p' = ac_ta_pack p"
    using * by simp
  show "scan_sections (window m w) i ss = Some (is, e) \<Longrightarrow>
      F m (reader m w i) p = Some (BH_SUCCESS, reader m w e, fill fs (map (at_offset m w) is) p)
      \<and> ac_ta_pack (fill fs (map (at_offset m w) is) p) = ac_ta_pack p"
    using * by simp
qed

lemma follows_into:
  assumes "reads L s" "\<And>a p. ac_ta_pack (f a p) = ac_ta_pack p"
  shows "follows (into f L) [s] [f]"
  unfolding follows_def
proof (intro conjI allI impI)
  fix m w i p
  assume "fits m w" "i \<le> length (window m w)"
  then have L: "case section_end (window m w) i s of
        None \<Rightarrow> \<exists>v pr. L m (reader m w i) = Some (BHE_INVALID_BPK_FILE, v, pr)
      | Some j \<Rightarrow> L m (reader m w i) = Some (BH_SUCCESS, Some (at_offset m w i), reader m w j)"
    using assms(1) unfolding reads_def by blast
  have keep: "ac_ta_pack (case v of None \<Rightarrow> p | Some a \<Rightarrow> f a p) = ac_ta_pack p" for v
    by (cases v) (simp_all add: assms(2))
  show "case scan_sections (window m w) i [s] of
      None \<Rightarrow> \<exists>pr p'. into f L m (reader m w i) p = Some (BHE_INVALID_BPK_FILE, pr, p') \<and> ac_ta_pack p' = ac_ta_pack p
    | Some (is, e) \<Rightarrow> into f L m (reader m w i) p = Some (BH_SUCCESS, reader m w e, fill [f] (map (at_offset m w) is) p)
        \<and> ac_ta_pack (fill [f] (map (at_offset m w) is) p) = ac_ta_pack p"
    using L by (cases "section_end (window m w) i s") (auto simp: into_def fill_def keep assms(2))
qed simp

lemma follows_then:
  assumes "follows F ss fs" "follows G ts gs"
  shows "follows (then_load F G) (ss @ ts) (fs @ gs)"
  unfolding follows_def
proof (intro conjI allI impI)
  show "length (fs @ gs) = length (ss @ ts)" using assms by (simp add: follows_def)
  fix m w i p
  assume m: "fits m w" "i \<le> length (window m w)"
  let ?d = "window m w"
  show "case scan_sections ?d i (ss @ ts) of
      None \<Rightarrow> \<exists>pr p'. then_load F G m (reader m w i) p = Some (BHE_INVALID_BPK_FILE, pr, p') \<and> ac_ta_pack p' = ac_ta_pack p
    | Some (is, e) \<Rightarrow> then_load F G m (reader m w i) p = Some (BH_SUCCESS, reader m w e, fill (fs @ gs) (map (at_offset m w) is) p)
        \<and> ac_ta_pack (fill (fs @ gs) (map (at_offset m w) is) p) = ac_ta_pack p"
  proof (cases "scan_sections ?d i ss")
    case None
    then have "\<exists>pr p'. F m (reader m w i) p = Some (BHE_INVALID_BPK_FILE, pr, p') \<and> ac_ta_pack p' = ac_ta_pack p"
      by (rule follows_None [OF assms(1) m])
    then show ?thesis using None by (auto simp: scan_append then_load_def)
  next
    case (Some x)
    obtain js e where x: "scan_sections ?d i ss = Some (js, e)" using Some by (cases x) auto
    note e = scan_end [OF x m(2)]
    let ?p = "fill fs (map (at_offset m w) js) p"
    have F: "F m (reader m w i) p = Some (BH_SUCCESS, reader m w e, ?p)" "ac_ta_pack ?p = ac_ta_pack p"
      using follows_Some [OF assms(1) m x] by blast+
    have fill: "fill (fs @ gs) (map (at_offset m w) (js @ ks)) p = fill gs (map (at_offset m w) ks) ?p" for ks
      using e assms(1) by (simp add: fill_def follows_def)
    show ?thesis
    proof (cases "scan_sections ?d e ts")
      case None
      then show ?thesis using F follows_None [OF assms(2) m(1) conjunct1 [OF e] None, of ?p]
        by (auto simp: scan_append x then_load_def)
    next
      case (Some y)
      obtain ks e' where y: "scan_sections ?d e ts = Some (ks, e')" using Some by (cases y) auto
      show ?thesis using F follows_Some [OF assms(2) m(1) conjunct1 [OF e] y]
        by (simp add: scan_append x y then_load_def fill del: map_append)
    qed
  qed
qed

text \<open>The sections of every command after the header, and whether the rest of the package is the applet.\<close>

fun ac_format :: "AC_CMD_ID \<Rightarrow> (ac_section list \<times> bool) option" where
  "ac_format AC_INSTALL_SD = Some ([Counted 8 4 2048 1, Fixed 72, Fixed 264], False)"
| "ac_format AC_UNINSTALL_SD = Some ([Fixed 16], False)"
| "ac_format AC_INSTALL_JTA = Some ([Counted 8 4 2048 1, Fixed 56], True)"
| "ac_format AC_INSTALL_NTA = Some ([Counted 8 4 2048 1, Fixed 56, Counted 4 0 5120 1], True)"
| "ac_format AC_UNINSTALL_JTA = Some ([Fixed 16], False)"
| "ac_format AC_UNINSTALL_NTA = Some ([Fixed 16], False)"
| "ac_format AC_INSTALL_JTA_PROP =
     Some ([Fixed 20, Counted 4 0 1024 4, Counted 4 0 1024 4, Counted 8 4 2048 1, Counted 4 0 20 16], True)"
| "ac_format AC_UPDATE_SVL = Some ([Counted 8 4 2048 1, Counted 4 0 40 20], False)"
| "ac_format _ = None"

fun ac_slots :: "AC_CMD_ID \<Rightarrow> slot list" where
  "ac_slots AC_INSTALL_SD = [\<lambda>a p. p\<lparr>ac_ins_cond := Some a\<rparr>, \<lambda>a p. p\<lparr>ac_cmd_head := Some a\<rparr>, \<lambda>a p. p\<lparr>ac_sig_key := Some a\<rparr>]"
| "ac_slots AC_UNINSTALL_SD = [\<lambda>a p. p\<lparr>ac_sdid := Some a\<rparr>]"
| "ac_slots AC_INSTALL_JTA = [\<lambda>a p. p\<lparr>ac_ins_cond := Some a\<rparr>, \<lambda>a p. p\<lparr>ac_cmd_head := Some a\<rparr>]"
| "ac_slots AC_INSTALL_NTA = [\<lambda>a p. p\<lparr>ac_ins_cond := Some a\<rparr>, \<lambda>a p. p\<lparr>ac_cmd_head := Some a\<rparr>, \<lambda>a p. p\<lparr>ac_mdata := Some a\<rparr>]"
| "ac_slots AC_UNINSTALL_JTA = [\<lambda>a p. p\<lparr>ac_taid := Some a\<rparr>]"
| "ac_slots AC_UNINSTALL_NTA = [\<lambda>a p. p\<lparr>ac_taid := Some a\<rparr>]"
| "ac_slots AC_INSTALL_JTA_PROP =
     [\<lambda>a p. p\<lparr>ac_cmd_head := Some a\<rparr>, \<lambda>a p. p\<lparr>ac_post_reasons := Some a\<rparr>, \<lambda>a p. p\<lparr>ac_reg_reasons := Some a\<rparr>,
      \<lambda>a p. p\<lparr>ac_props := Some a\<rparr>, \<lambda>a p. p\<lparr>ac_used_services := Some a\<rparr>]"
| "ac_slots AC_UPDATE_SVL = [\<lambda>a p. p\<lparr>ac_ins_cond := Some a\<rparr>, \<lambda>a p. p\<lparr>ac_sv_list := Some a\<rparr>]"
| "ac_slots _ = []"

definition body_spec :: "AC_CMD_ID \<Rightarrow> byte list \<Rightarrow> nat \<Rightarrow> (nat list \<times> nat option) option" where
  "body_spec cmd d i =
     (case ac_format cmd of
        None \<Rightarrow> None
      | Some (ss, tail) \<Rightarrow>
          (case scan_sections d i ss of
             None \<Rightarrow> None
           | Some (is, e) \<Rightarrow>
               if tail then if round_up 8 e \<le> length d then Some (is, Some (round_up 8 e)) else None
               else if e = length d then Some (is, None) else None))"

lemma follows_commands:
  "follows ACP_load_ins_sd [Counted 8 4 2048 1, Fixed 72, Fixed 264] (ac_slots AC_INSTALL_SD)"
  "follows ACP_load_uns_sd [Fixed 16] (ac_slots AC_UNINSTALL_SD)"
  "follows ACP_load_ins_jta [Counted 8 4 2048 1, Fixed 56] (ac_slots AC_INSTALL_JTA)"
  "follows ACP_load_ins_nta [Counted 8 4 2048 1, Fixed 56, Counted 4 0 5120 1] (ac_slots AC_INSTALL_NTA)"
  "follows ACP_load_uns_ta [Fixed 16] (ac_slots AC_UNINSTALL_JTA)"
  "follows ACP_load_ins_jta_prop
     [Fixed 20, Counted 4 0 1024 4, Counted 4 0 1024 4, Counted 8 4 2048 1, Counted 4 0 20 16] (ac_slots AC_INSTALL_JTA_PROP)"
  "follows ACP_load_update_svl [Counted 8 4 2048 1, Counted 4 0 40 20] (ac_slots AC_UPDATE_SVL)"
  unfolding ACP_load_ins_sd_def ACP_load_uns_sd_def ACP_load_ins_jta_def ACP_load_ins_nta_def ACP_load_uns_ta_def
    ACP_load_ins_jta_prop_def ACP_load_update_svl_def ac_slots.simps
  by (rule follows_into follows_then [where ss = "[_]" and fs = "[_]", simplified] reads_sections | simp)+

text \<open>
  The reference definition of a package: where its parts are, or none if it is not a package of the command. The
  package of \<^verbatim>\<open>AC_INSTALL_JTA_PROP\<close> has no header; the others have one with the command's code.
\<close>

definition pack_spec :: "AC_CMD_ID \<Rightarrow> byte list \<Rightarrow> (nat option \<times> nat list \<times> nat option) option" where
  "pack_spec cmd d =
     (if cmd = AC_INSTALL_JTA_PROP then map_option (\<lambda>(is, t). (None, is, t)) (body_spec cmd d 0)
      else if length d < 32 \<or> u32_at 12 d \<noteq> Some (ac_cmd_code cmd) then None
      else map_option (\<lambda>(is, t). (Some 0, is, t)) (body_spec cmd d 32))"

definition pack_of :: "AC_CMD_ID \<Rightarrow> (nat \<Rightarrow> uint64) \<Rightarrow> nat option \<times> nat list \<times> nat option \<Rightarrow> ACPack" where
  "pack_of cmd addr = (\<lambda>(h, is, t).
     fill (ac_slots cmd) (map addr is) (ACPack_empty\<lparr>ac_head := map_option addr h, ac_ta_pack := map_option addr t\<rparr>))"

lemma at_offset_inj:
  "fits m w \<Longrightarrow> i \<le> length (window m w) \<Longrightarrow> j \<le> length (window m w) \<Longrightarrow> at_offset m w i = at_offset m w j \<longleftrightarrow> i = j"
  by (metis add_left_cancel unat_at_offset)

lemma pr_is_end_reader:
  "fits m w \<Longrightarrow> i \<le> length (window m w) \<Longrightarrow> pr_is_end (reader m w i) = BH_SUCCESS \<longleftrightarrow> i = length (window m w)"
  by (simp add: pr_is_end_def pr_end_reader at_offset_inj)

text \<open>A command without a tail.\<close>

lemma run_plain:
  assumes "fits m w" "i \<le> length (window m w)" "load_command cmd = Some F" "follows F ss fs"
  shows "case scan_sections (window m w) i ss of
      None \<Rightarrow> \<exists>p'. run_body cmd m (reader m w i) p = Some (BHE_INVALID_BPK_FILE, p') \<and> ac_ta_pack p' = ac_ta_pack p
    | Some (is, e) \<Rightarrow>
        if e = length (window m w) then run_body cmd m (reader m w i) p = Some (BH_SUCCESS, fill fs (map (at_offset m w) is) p)
        else \<exists>p'. run_body cmd m (reader m w i) p = Some (BHE_INVALID_BPK_FILE, p') \<and> ac_ta_pack p' = ac_ta_pack p"
proof (cases "scan_sections (window m w) i ss")
  case None
  obtain pr p' where "F m (reader m w i) p = Some (BHE_INVALID_BPK_FILE, pr, p')" "ac_ta_pack p' = ac_ta_pack p"
    using follows_None [OF assms(4,1,2) None, of p] by blast
  then show ?thesis using assms(3) None by (simp add: run_body_def)
next
  case (Some x)
  obtain js e where x: "scan_sections (window m w) i ss = Some (js, e)" using Some by (cases x) auto
  have "e \<le> length (window m w)" using scan_end [OF x assms(2)] by blast
  then show ?thesis using follows_Some [OF assms(4,1,2) x, of p] assms(3)
    by (auto simp: run_body_def x pr_is_end_reader [OF assms(1)])
qed

text \<open>A command with a tail.\<close>

lemma run_tail:
  assumes "fits m w" "i \<le> length (window m w)" "load_command cmd = Some (then_load F load_tail)" "follows F ss fs"
  shows "case scan_sections (window m w) i ss of
      None \<Rightarrow> \<exists>p'. run_body cmd m (reader m w i) p = Some (BHE_INVALID_BPK_FILE, p') \<and> ac_ta_pack p' = ac_ta_pack p
    | Some (is, e) \<Rightarrow>
        if round_up 8 e \<le> length (window m w)
        then run_body cmd m (reader m w i) p =
          Some (BH_SUCCESS, (fill fs (map (at_offset m w) is) p)\<lparr>ac_ta_pack := Some (at_offset m w (round_up 8 e))\<rparr>)
        else \<exists>p'. run_body cmd m (reader m w i) p = Some (BHE_INVALID_BPK_FILE, p') \<and> ac_ta_pack p' = ac_ta_pack p"
proof (cases "scan_sections (window m w) i ss")
  case None
  obtain pr p' where "F m (reader m w i) p = Some (BHE_INVALID_BPK_FILE, pr, p')" "ac_ta_pack p' = ac_ta_pack p"
    using follows_None [OF assms(4,1,2) None, of p] by blast
  then show ?thesis using assms(3) None by (simp add: run_body_def then_load_def)
next
  case (Some x)
  obtain js e where x: "scan_sections (window m w) i ss = Some (js, e)" using Some by (cases x) auto
  have "e \<le> length (window m w)" using scan_end [OF x assms(2)] by blast
  then show ?thesis using follows_Some [OF assms(4,1,2) x, of p] assms(3)
    by (auto simp: run_body_def then_load_def into_def x ACP_load_ta_pack_reader [OF assms(1)] pr_is_end_reader [OF assms(1)])
qed

definition acp_refusal :: "AC_CMD_ID \<Rightarrow> byte list \<Rightarrow> BH_RET" where
  "acp_refusal cmd d =
     (if cmd \<noteq> AC_INSTALL_JTA_PROP \<and> 32 \<le> length d \<and> (u32_at 12 d \<noteq> Some (ac_cmd_code cmd) \<or> ac_format cmd = None)
      then BHE_BAD_PARAMETER else BHE_INVALID_BPK_FILE)"

lemma command_follows:
  "ac_format cmd = Some (ss, tail) \<Longrightarrow>
   \<exists>F. load_command cmd = Some (if tail then then_load F load_tail else F) \<and> follows F ss (ac_slots cmd)"
  using follows_commands by (cases cmd) auto

lemma no_format: "ac_format cmd = None \<Longrightarrow> load_command cmd = None"
  by (cases cmd) auto

lemma fill_tail: "fill (ac_slots cmd) as (p\<lparr>ac_ta_pack := t\<rparr>) = (fill (ac_slots cmd) as p)\<lparr>ac_ta_pack := t\<rparr>"
proof -
  have "(\<And>f a p. f \<in> set fs \<Longrightarrow> f a (p\<lparr>ac_ta_pack := t\<rparr>) = (f a p)\<lparr>ac_ta_pack := t\<rparr>) \<Longrightarrow>
    fill fs as (p\<lparr>ac_ta_pack := t\<rparr>) = (fill fs as p)\<lparr>ac_ta_pack := t\<rparr>" for fs
  proof (induction fs arbitrary: as p)
    case (Cons f fs)
    have "f a (p\<lparr>ac_ta_pack := t\<rparr>) = (f a p)\<lparr>ac_ta_pack := t\<rparr>" for a p using Cons.prems by simp
    moreover have "fill fs as (p\<lparr>ac_ta_pack := t\<rparr>) = (fill fs as p)\<lparr>ac_ta_pack := t\<rparr>" for as p
      using Cons by simp
    ultimately show ?case by (cases as) (simp_all add: fill_def)
  qed (simp add: fill_def)
  moreover have "f \<in> set (ac_slots cmd) \<Longrightarrow> f a (p\<lparr>ac_ta_pack := t\<rparr>) = (f a p)\<lparr>ac_ta_pack := t\<rparr>" for f a p
    by (cases cmd) auto
  ultimately show ?thesis by blast
qed

lemma run_body_spec:
  assumes "fits m w" "i \<le> length (window m w)" "ac_ta_pack p = None"
  shows "case body_spec cmd (window m w) i of
      None \<Rightarrow> \<exists>p'. run_body cmd m (reader m w i) p =
        Some (if ac_format cmd = None then BHE_BAD_PARAMETER else BHE_INVALID_BPK_FILE, p') \<and> ac_ta_pack p' = None
    | Some (is, t) \<Rightarrow> run_body cmd m (reader m w i) p =
        Some (BH_SUCCESS, fill (ac_slots cmd) (map (at_offset m w) is) (p\<lparr>ac_ta_pack := map_option (at_offset m w) t\<rparr>))"
proof (cases "ac_format cmd")
  case None
  then show ?thesis using no_format [OF None] assms(3) by (simp add: body_spec_def run_body_def)
next
  case (Some x)
  obtain ss tail where f: "ac_format cmd = Some (ss, tail)" using Some by (cases x) auto
  obtain F where F: "load_command cmd = Some (if tail then then_load F load_tail else F)" "follows F ss (ac_slots cmd)"
    using command_follows [OF f] by blast
  have upd: "p\<lparr>ac_ta_pack := None\<rparr> = p" using assms(3) by simp
  show ?thesis
  proof (cases tail)
    case True
    then have "load_command cmd = Some (then_load F load_tail)" using F(1) by simp
    from run_tail [OF assms(1,2) this F(2), of p] show ?thesis
      using True by (auto simp: body_spec_def f assms(3) fill_tail split: option.splits if_splits)
  next
    case False
    then have "load_command cmd = Some F" using F(1) by simp
    from run_plain [OF assms(1,2) this F(2), of p] show ?thesis
      using False by (auto simp: body_spec_def f assms(3) upd split: option.splits if_splits)
  qed
qed

lemma pr_init_reader: "fits m w \<Longrightarrow> pr_init (at_offset m w 0) (of_nat (length (window m w))) = Some (reader m w 0)"
proof -
  assume m: "fits m w"
  then have "unat (ucast (of_nat (length (window m w)) :: uint32) :: uint64) = length (window m w)"
    by (auto simp: fits_def window_def unsigned_ucast_eq unsigned_of_nat take_bit_nat_eq_self simp del: of_nat_diff)
  then show ?thesis using unat_at_offset [OF m, of 0] unat_window [OF m]
    by (simp add: pr_init_def room reader_def window_def)
qed

theorem load_pack_spec:
  assumes "fits m w"
  shows "case pack_spec cmd (window m w) of
      None \<Rightarrow> \<exists>p. ACP_load_pack m (at_offset m w 0) (of_nat (length (window m w))) cmd ACPack_empty =
        Some (acp_refusal cmd (window m w), p) \<and> ac_ta_pack p = None
    | Some x \<Rightarrow> ACP_load_pack m (at_offset m w 0) (of_nat (length (window m w))) cmd ACPack_empty =
        Some (BH_SUCCESS, pack_of cmd (at_offset m w) x)"
proof -
  let ?d = "window m w" and ?hd = "\<lambda>a. ac_head_update (\<lambda>_. Some a)"
  let ?call = "ACP_load_pack m (at_offset m w 0) (of_nat (length ?d)) cmd ACPack_empty"
  have run: "?call = (if cmd = AC_INSTALL_JTA_PROP then run_body cmd m (reader m w 0) ACPack_empty
      else case into ?hd ACP_load_pack_head m (reader m w 0) ACPack_empty of
              None \<Rightarrow> None
            | Some (r, pr', p') \<Rightarrow>
                if r \<noteq> BH_SUCCESS then Some (r, p')
                else (case mem32 m (the (ac_head p') + 12) of
                    None \<Rightarrow> None
                  | Some c \<Rightarrow> if ac_cmd_code cmd \<noteq> c then Some (BHE_BAD_PARAMETER, p') else run_body cmd m pr' p'))"
    by (simp add: ACP_load_pack_def pr_init_reader [OF assms])
  have e: "ac_ta_pack ACPack_empty = None" "ACPack_empty\<lparr>ac_head := None\<rparr> = ACPack_empty" by (simp_all add: ACPack_empty_def)
  have h: "follows (into ?hd ACP_load_pack_head) [Fixed 32] [?hd]" by (rule follows_into) (simp_all add: reads_sections)
  show ?thesis
  proof (cases "cmd = AC_INSTALL_JTA_PROP")
    case True
    then show ?thesis using run_body_spec [OF assms, of 0 ACPack_empty cmd] run e
      by (auto simp: pack_spec_def pack_of_def acp_refusal_def split: option.splits)
  next
    case no: False
    show ?thesis
    proof (cases "length ?d < 32")
      case True
      then have "scan_sections ?d 0 [Fixed 32] = None" by (simp add: section_end_def)
      from follows_None [OF h assms _ this, of ACPack_empty] show ?thesis
        using True no run e by (auto simp: pack_spec_def acp_refusal_def)
    next
      case False
      then have "scan_sections ?d 0 [Fixed 32] = Some ([0], 32)" by (simp add: section_end_def round_up_def)
      from follows_Some [OF h assms _ this, of ACPack_empty]
      have "into ?hd ACP_load_pack_head m (reader m w 0) ACPack_empty =
          Some (BH_SUCCESS, reader m w 32, ACPack_empty\<lparr>ac_head := Some (at_offset m w 0)\<rparr>)" by (simp add: fill_def)
      moreover have "mem32 m (at_offset m w 0 + 12) = u32_at 12 ?d" using mem32_reader [OF assms, of 0 12] False by simp
      moreover obtain c where "u32_at 12 ?d = Some c" using False by (cases "u32_at 12 ?d") auto
      ultimately show ?thesis
        using no False run e run_body_spec [OF assms, of 32 "ACPack_empty\<lparr>ac_head := Some (at_offset m w 0)\<rparr>" cmd]
        by (auto simp: pack_spec_def pack_of_def acp_refusal_def split: option.splits)
    qed
  qed
qed

end
