(* ===== verification/Acp_Properties.thy ===== *)
theory Acp_Properties
  imports Acp_Format Beihai_Properties
begin

text \<open>
  What the package parser guarantees at its interface, the parser as the library of the plugin of
  the second Beihai machine, and what follows for the packages the plugin builds and takes apart.
\<close>

section \<open>The parser at its interface\<close>

text \<open>A package as a program can hold it: at an address that is not null, within the address space and 32 bits long.\<close>

definition in_memory :: "mem \<Rightarrow> bool" where
  "in_memory m \<longleftrightarrow> fst m \<noteq> 0 \<and> unat (fst m) + length (snd m) < 2 ^ 64 \<and> length (snd m) < 2 ^ 32"

lemma in_memory_fits: "in_memory m \<Longrightarrow> w \<le> length (snd m) \<Longrightarrow> fits m w"
  by (auto simp: in_memory_def fits_def)

lemma ACP_pload_long:
  assumes "in_memory m" "CSS_HEADER < length (snd m)"
  shows "ACP_pload cmd m ACPack_empty =
    ACP_load_pack m (at_offset m CSS_HEADER 0) (of_nat (length (window m CSS_HEADER))) cmd ACPack_empty"
  using assms by (simp add: ACP_pload_def in_memory_def at_offset_def window_def Let_def)

text \<open>The sections a package has lie one after the other within it.\<close>

lemma section_end_fits:
  "section_end d i s = Some j \<Longrightarrow> \<exists>n. section_size d i s = Some n \<and> i + n \<le> j \<and> j \<le> length d"
  using up_ge by (auto simp: section_end_def split: option.splits if_splits)

lemma scan_fits: "scan_sections d i ss = Some (is, e) \<Longrightarrow> list_all (\<lambda>j. i \<le> j \<and> j \<le> length d) is"
proof (induction ss arbitrary: i "is")
  case (Cons s ss)
  then obtain j js where j: "section_end d i s = Some j" "scan_sections d j ss = Some (js, e)" "is = i # js"
    by (auto split: option.splits)
  obtain n where "i + n \<le> j" "j \<le> length d" using section_end_fits [OF j(1)] by blast
  then show ?case using Cons.IH [OF j(2)] j(3) by (auto simp: list_all_iff)
qed simp

lemma pack_spec_fits:
  assumes "pack_spec cmd d = Some (h, is, t)"
  shows "list_all (\<lambda>j. j \<le> length d) (is @ (case t of None \<Rightarrow> [] | Some j \<Rightarrow> [j]))"
proof -
  obtain i where b: "body_spec cmd d i = Some (is, t)" using assms by (auto simp: pack_spec_def split: if_splits)
  then obtain ss tail js e where f: "ac_format cmd = Some (ss, tail)" "scan_sections d i ss = Some (js, e)"
    "is = js" "t = (if tail then Some (round_up 8 e) else None)" "tail \<longrightarrow> round_up 8 e \<le> length d"
    by (auto simp: body_spec_def split: option.splits if_splits)
  then show ?thesis using scan_fits [OF f(2)] by (auto simp: list_all_iff)
qed

section \<open>The parser as a library of the plugin\<close>

text \<open>
  The identifiers that the plugin reads through the pointers the parser stored: \<open>get\<close> selects the pointer. A structure begins with its identifier.
  For the command that uninstalls a domain the plugin passes the address of the pointer itself: the bytes
  are the pointer's and the \<open>stack\<close> after it.
\<close>

definition id_through :: "(ACPack \<Rightarrow> uint64 option) \<Rightarrow> mem \<Rightarrow> ACPack \<Rightarrow> byte list" where
  "id_through get m p = (case get p of None \<Rightarrow> [] | Some a \<Rightarrow> case mem_bytes 16 m a of None \<Rightarrow> [] | Some i \<Rightarrow> i)"

definition acp_result :: "(BH_RET \<times> ACPack) option \<Rightarrow> BH_RET \<times> ACPack" where
  "acp_result r = (case r of None \<Rightarrow> (BHE_FAILED, ACPack_empty) | Some x \<Rightarrow> x)"

definition acp_library :: "uint64 \<Rightarrow> byte list \<Rightarrow> 'f BHP \<Rightarrow> 'f BHP" where
  "acp_library base stack b = b\<lparr>
     ACP_get_cmd_id := (\<lambda>d. case acp_cmd_id (base, d) of
         None \<Rightarrow> (BHE_FAILED, 0) | Some (r, c) \<Rightarrow> (r, case c of None \<Rightarrow> 0 | Some x \<Rightarrow> x)),
     ACP_pload_ins_sd := (\<lambda>d. case acp_result (ACP_pload AC_INSTALL_SD (base, d) ACPack_empty) of
         (r, p) \<Rightarrow> (r, id_through ac_cmd_head (base, d) p)),
     ACP_pload_uns_sd := (\<lambda>d. case acp_result (ACP_pload AC_UNINSTALL_SD (base, d) ACPack_empty) of
         (r, p) \<Rightarrow> (r, put64 (case ac_sdid p of None \<Rightarrow> 0 | Some a \<Rightarrow> a) @ stack)),
     ACP_pload_ins_jta := (\<lambda>d. case acp_result (ACP_pload AC_INSTALL_JTA (base, d) ACPack_empty) of
         (r, p) \<Rightarrow> (r, id_through ac_cmd_head (base, d) p, map_option (\<lambda>a. unat (a - base)) (ac_ta_pack p))),
     ACP_pload_uns_jta := (\<lambda>d. case acp_result (ACP_pload AC_UNINSTALL_JTA (base, d) ACPack_empty) of
         (r, p) \<Rightarrow> (r, id_through ac_taid (base, d) p))\<rparr>"

text \<open>The parser's result is never the one of a read outside the package.\<close>

lemma ACP_pload_total:
  assumes "in_memory m"
  shows "ACP_pload cmd m ACPack_empty \<noteq> None"
proof (cases "CSS_HEADER < length (snd m)")
  case True
  then show ?thesis
    using load_pack_spec [OF in_memory_fits [OF assms], of CSS_HEADER cmd] ACP_pload_long [OF assms True, of cmd]
    by (cases "pack_spec cmd (window m CSS_HEADER)") auto
next
  case False
  then show ?thesis by (simp add: ACP_pload_def)
qed

lemma acp_cmd_id_header:
  assumes "in_memory m" "CSS_HEADER + 32 \<le> length (snd m)" "u32_at 12 (window m CSS_HEADER) = Some c"
  shows "acp_cmd_id m = Some (BH_SUCCESS, Some (sint c))"
proof -
  note f = in_memory_fits [OF assms(1), of CSS_HEADER]
  have f': "fits m CSS_HEADER" and l: "32 \<le> length (window m CSS_HEADER)" using f assms(2) by (simp_all add: window_def)
  have "section_end (window m CSS_HEADER) 0 (Fixed 32) = Some 32" using l by (simp add: section_end_def round_up_def)
  then have "ACP_load_pack_head m (reader m CSS_HEADER 0) = Some (BH_SUCCESS, Some (at_offset m CSS_HEADER 0), reader m CSS_HEADER 32)"
    using reads_sections(1) f' unfolding reads_def by (metis (mono_tags, lifting) option.simps(5) zero_le)
  moreover have "mem32 m (at_offset m CSS_HEADER 0 + 12) = Some c" using mem32_reader [OF f', of 0 12] assms(3) l by simp
  moreover have "pr_init (fst m + of_nat CSS_HEADER) (of_nat (length (snd m) - CSS_HEADER)) = Some (reader m CSS_HEADER 0)"
    using pr_init_reader [OF f'] by (simp add: at_offset_def window_def)
  ultimately show ?thesis using assms(1,2) by (simp add: acp_cmd_id_def in_memory_def Let_def)
qed

lemma mem_bytes_at:
  assumes "fits m w" "i + n \<le> length (window m w)"
  shows "mem_bytes n m (at_offset m w i) = Some (take n (drop i (window m w)))"
proof -
  have "w + i < 2 ^ 64" using assms by (auto simp: fits_def window_def)
  then have "unat (at_offset m w i - fst m) = w + i" unfolding at_offset_def by (simp add: unat_of_nat del: of_nat_add)
  then show ?thesis using assms by (auto simp: mem_bytes_def read_at_def window_def fits_def add.commute)
qed

text \<open>A package that uninstalls an applet: anything for the CSS header, a header with the command's code, the identifier.\<close>

lemma uninstall_package_parses:
  assumes "in_memory (base, css @ h @ put32 4 @ h' @ i)" "length css = 648" "length h = 12" "length h' = 16" "length i = 16"
  shows "ACP_get_cmd_id (acp_library base stack b) (css @ h @ put32 4 @ h' @ i) = (BH_SUCCESS, 4)"
    and "ACP_pload_uns_jta (acp_library base stack b) (css @ h @ put32 4 @ h' @ i) = (BH_SUCCESS, i)"
proof -
  let ?d = "css @ h @ put32 4 @ h' @ i"
  let ?m = "(base, ?d)"
  note f = in_memory_fits [OF assms(1), of CSS_HEADER]
  have f': "fits ?m CSS_HEADER" using f assms(2) by simp
  have w: "window ?m CSS_HEADER = h @ put32 4 @ h' @ i" using assms(2) by (simp add: window_def)
  have u: "u32_at 12 (h @ put32 4 @ h' @ i) = Some 4" using assms(3) by simp
  have "acp_cmd_id ?m = Some (BH_SUCCESS, Some (sint (4 :: uint32)))"
    by (rule acp_cmd_id_header [OF assms(1)]) (use assms w u in simp_all)
  then show "ACP_get_cmd_id (acp_library base stack b) ?d = (BH_SUCCESS, 4)" by (simp add: acp_library_def)
  have "pack_spec AC_UNINSTALL_JTA (h @ put32 4 @ h' @ i) = Some (Some 0, [32], None)"
    using assms(3-5) u by (simp add: pack_spec_def body_spec_def section_end_def round_up_def)
  then have "ACP_pload AC_UNINSTALL_JTA ?m ACPack_empty = Some (BH_SUCCESS, pack_of AC_UNINSTALL_JTA (at_offset ?m 648) (Some 0, [32], None))"
    using load_pack_spec [OF f', of AC_UNINSTALL_JTA] ACP_pload_long [OF assms(1), of AC_UNINSTALL_JTA] assms(2-5) w by simp
  moreover have "mem_bytes 16 ?m (at_offset ?m 648 32) = Some i"
    using mem_bytes_at [OF f', of 32 16] assms(3-5) w by simp
  ultimately show "ACP_pload_uns_jta (acp_library base stack b) ?d = (BH_SUCCESS, i)"
    by (simp add: acp_library_def acp_result_def id_through_def pack_of_def fill_def)
qed

text \<open>
  A package that installs an applet: the install condition of \<open>cond\<close> bytes and the applet's header are
  filled up to four bytes, and the applet begins at a multiple of eight bytes after the CSS header.
\<close>

definition jta_package :: "byte list \<Rightarrow> byte list \<Rightarrow> uint32 \<Rightarrow> byte list \<Rightarrow> byte list \<Rightarrow> byte list \<Rightarrow> byte list" where
  "jta_package h h' n cond ta_head applet =
     (let a = round_up 4 (40 + length cond); t = round_up 8 (a + 56) in
      h @ put32 3 @ h' @ put32 n @ put32 (of_nat (length cond)) @ cond @ replicate (a - (40 + length cond)) 0 @ ta_head
        @ replicate (t - (a + 56)) 0 @ applet)"

lemma up_dvd: "0 < k \<Longrightarrow> k dvd round_up k n"
proof (cases "n mod k = 0")
  case False
  assume "0 < k"
  then have "round_up k n = k * (n div k) + n mod k + (k - n mod k)" using False by (simp add: round_up_def)
  also have "\<dots> = k * (n div k) + (n mod k + (k - n mod k))" by simp
  also have "n mod k + (k - n mod k) = k" using \<open>0 < k\<close> by (simp add: less_imp_le)
  finally show ?thesis by simp
qed (simp add: round_up_def dvd_eq_mod_eq_0)

lemma up_id: "k dvd n \<Longrightarrow> round_up k n = n"
  by (simp add: round_up_def dvd_eq_mod_eq_0)

lemma jta_package_spec:
  fixes n applet
  assumes "length h = 12" "length h' = 16" "length cond \<le> 2048" "length ta_head = 56"
  defines "d \<equiv> jta_package h h' n cond ta_head applet" and "a \<equiv> round_up 4 (40 + length cond)"
  shows "pack_spec AC_INSTALL_JTA d = Some (Some 0, [32, a], Some (round_up 8 (a + 56)))"
    and "drop (round_up 8 (a + 56)) d = applet" and "take 56 (drop a d) = ta_head" and "round_up 8 (a + 56) \<le> length d" and "32 \<le> length d"
    and "u32_at 12 d = Some 3"
proof -
  let ?t = "round_up 8 (a + 56)"
  have le: "40 + length cond \<le> a" "a + 56 \<le> ?t" unfolding a_def by (rule up_ge)+
  have d: "d = h @ put32 3 @ h' @ put32 n @ put32 (of_nat (length cond)) @ cond @ replicate (a - (40 + length cond)) 0 @ ta_head
        @ replicate (?t - (a + 56)) 0 @ applet"
    by (simp add: d_def jta_package_def Let_def a_def)
  have len: "length d = ?t + length applet" using assms(1-4) le by (simp add: d)
  then show "?t \<le> length d" "32 \<le> length d" using le by simp_all
  show u: "u32_at 12 d = Some 3" using assms(1) by (simp add: d)
  show "drop ?t d = applet" and "take 56 (drop a d) = ta_head" using assms(1-4) le by (simp_all add: d)
  have c: "u32_at 36 d = Some (of_nat (length cond))" using assms(1,2) by (simp add: d)
  have uc: "unat (of_nat (length cond) :: uint32) = length cond" using assms(3) by (simp add: unat_of_nat)
  have "round_up 4 (a + 56) = a + 56" using up_dvd [of 4 "40 + length cond"] by (intro up_id) (simp add: a_def)
  then show "pack_spec AC_INSTALL_JTA d = Some (Some 0, [32, a], Some ?t)"
    using u c uc assms(3) le len
    by (simp add: pack_spec_def body_spec_def section_end_def a_def [symmetric])
qed

lemma install_package_parses:
  assumes "in_memory (base, css @ jta_package h h' n cond ta_head applet)" "length css = 648"
    and "length h = 12" "length h' = 16" "length cond \<le> 2048" "length ta_head = 56"
  shows "ACP_get_cmd_id (acp_library base stack b) (css @ jta_package h h' n cond ta_head applet) = (BH_SUCCESS, 3)"
    and "\<exists>t. ACP_pload_ins_jta (acp_library base stack b) (css @ jta_package h h' n cond ta_head applet) =
        (BH_SUCCESS, take 16 ta_head, Some t) \<and> drop t (css @ jta_package h h' n cond ta_head applet) = applet"
proof -
  let ?d = "css @ jta_package h h' n cond ta_head applet"
  let ?m = "(base, ?d)" and ?a = "round_up 4 (40 + length cond)"
  let ?t = "round_up 8 (?a + 56)"
  have f: "fits ?m CSS_HEADER" using in_memory_fits [OF assms(1), of CSS_HEADER] assms(2) by simp
  have w: "window ?m CSS_HEADER = jta_package h h' n cond ta_head applet" using assms(2) by (simp add: window_def)
  note p = jta_package_spec [OF assms(3-6), of n applet]
  have "acp_cmd_id ?m = Some (BH_SUCCESS, Some (sint (3 :: uint32)))"
    by (rule acp_cmd_id_header [OF assms(1)]) (use assms(2) w p in simp_all)
  then show "ACP_get_cmd_id (acp_library base stack b) ?d = (BH_SUCCESS, 3)" by (simp add: acp_library_def)
  have r: "ACP_pload AC_INSTALL_JTA ?m ACPack_empty = Some (BH_SUCCESS, pack_of AC_INSTALL_JTA (at_offset ?m 648) (Some 0, [32, ?a], Some ?t))"
    using load_pack_spec [OF f, of AC_INSTALL_JTA] ACP_pload_long [OF assms(1), of AC_INSTALL_JTA] assms(2) w p(1,5)
    by (cases "jta_package h h' n cond ta_head applet") simp_all
  have "?a + 56 \<le> ?t" by (rule up_ge)
  then have "mem_bytes 16 ?m (at_offset ?m 648 ?a) = Some (take 16 (take 56 (drop ?a (window ?m 648))))"
    using mem_bytes_at [OF f, of ?a 16] p(4) w by simp
  moreover have "unat (at_offset ?m 648 ?t - base) = 648 + ?t"
    using f p(4) w unfolding at_offset_def fits_def window_def by (auto simp: unat_of_nat simp del: of_nat_add)
  ultimately show "\<exists>t. ACP_pload_ins_jta (acp_library base stack b) ?d = (BH_SUCCESS, take 16 ta_head, Some t) \<and> drop t ?d = applet"
    using r p(2,3) w assms(2) by (simp add: acp_library_def acp_result_def id_through_def pack_of_def fill_def)
qed

section \<open>Properties\<close>


definition sample_package :: mem where
  "sample_package = (65536, UNINSTALL_PACK)"


text \<open>
  C27: the package with which the plugin unloads an applet is one that the library's parser takes apart
  again: for every valid identifier, wherever the package lies in memory, the plugin's own
  parsing finds the command that uninstalls an applet and the identifier, in upper or lower case.
\<close>

theorem uninstall_pack_round_trip:
  assumes "UUID_wf i" "plugin_mem s = []" "base \<noteq> 0" "unat base + 696 < 2 ^ 64"
  shows "\<exists>p. run_state (setUninstallPack i) s = (Some p, s) \<and> take 680 p = take 680 UNINSTALL_PACK
    \<and> (\<exists>u. BeihaiPlugin_ParsePackage (acp_library base stack b) p = (TEE_STATUS_SUCCESS, \<lparr> packageType = 4, pkg_uuid = u \<rparr>)
         \<and> strToUppercase u = strToUppercase i)"
proof -
  have i: "length i = 32" "list_all uuid_char i" using assms(1) by (simp_all add: UUID_wf_def)
  let ?i = "hex_bytes (map toupper_c i)"
  let ?p = "take 680 UNINSTALL_PACK @ ?i"
  let ?css = "take 648 UNINSTALL_PACK" and ?h = "take 12 (drop 648 UNINSTALL_PACK)" and ?h' = "take 16 (drop 664 UNINSTALL_PACK)"
  have run: "run_state (setUninstallPack i) s = (Some ?p, s)"
    using i(1) assms(2) by (simp add: setUninstallPack_def Let_def run_allocate hex_bytes_def)
  have li: "length ?i = 16" using i(1) by (simp add: hex_bytes_def)
  have s: "strToUppercase (uuid_to_string ?i) = strToUppercase i"
    using hex_bytes_round [OF i(2)] i(1) by (simp add: strToUppercase_def)
  have "take 680 UNINSTALL_PACK = ?css @ ?h @ put32 4 @ ?h'" by code_simp
  then have p: "?p = ?css @ ?h @ put32 4 @ ?h' @ ?i" by simp
  have l: "length ?css = 648" "length ?h = 12" "length ?h' = 16" "length (take 680 UNINSTALL_PACK) = 680"
    by (simp_all add: UNINSTALL_PACK_def)
  have m: "in_memory (base, ?css @ ?h @ put32 4 @ ?h' @ ?i)" using assms(3,4) l li by (simp add: in_memory_def)
  note u = uninstall_package_parses [OF m l(1-3) li, of stack b, folded p]
  have "BeihaiPlugin_ParsePackage (acp_library base stack b) ?p =
      (TEE_STATUS_SUCCESS, \<lparr> packageType = 4, pkg_uuid = uuid_to_string ?i \<rparr>)"
    using u li l(4) by (auto simp: BeihaiPlugin_ParsePackage_def Let_def ac_cmd_def)
  then show ?thesis using run s l(4) by auto
qed

theorem uninstall_pack_round_trip_witness:
  "\<exists>p u. run_state (setUninstallPack sample_app) (BeihaiPlugin_new 0) = (Some p, BeihaiPlugin_new (0 :: nat))
     \<and> BeihaiPlugin_ParsePackage (acp_library 65536 [] sample_bhp) p = (TEE_STATUS_SUCCESS, \<lparr> packageType = 4, pkg_uuid = u \<rparr>)
     \<and> strToUppercase u = sample_app"
proof -
  have "UUID_wf sample_app" "strToUppercase sample_app = sample_app" by code_simp+
  then show ?thesis
    using uninstall_pack_round_trip [of sample_app "BeihaiPlugin_new 0" 65536 "[]" sample_bhp]
    by (auto simp: BeihaiPlugin_new_def)
qed

text \<open>
  C28: an applet's package as the tools build it is taken apart as it was put together: for every CSS
  header, install condition of at most 2048 bytes, applet header and applet, wherever the package lies in memory, the plugin
  reports the command that installs an applet and the identifier of the applet's header, and what it hands to the
  firmware when it opens a session is the applet, byte for byte, without the filling.
\<close>

theorem install_package_round_trip:
  assumes "in_memory (base, css @ jta_package h h' n cond ta_head applet)" "length css = 648"
    and "length h = 12" "length h' = 16" "length cond \<le> 2048" "length ta_head = 56"
    and "BHP_OpenTASession b a (Some applet) d (fw s) = ((BH_SUCCESS, handle), f1)"
    and "BHP_SendAndRecvInternal b handle 1 0 (uuid_bytes sid) f1 = ((BH_SUCCESS, Some 0), f2)"
  shows "BeihaiPlugin_ParsePackage (acp_library base stack b) (css @ jta_package h h' n cond ta_head applet) =
      (TEE_STATUS_SUCCESS, \<lparr> packageType = 3, pkg_uuid = uuid_to_string (take 16 ta_head) \<rparr>)
    \<and> run_state (BeihaiPlugin_CreateSession (acp_library base stack b) a (Some (css @ jta_package h h' n cond ta_head applet)) sid d) s =
      ((JHI_SUCCESS, handle), s\<lparr>fw := f2\<rparr>)"
proof -
  let ?p = "css @ jta_package h h' n cond ta_head applet"
  note i = install_package_parses [OF assms(1-6), of stack b]
  obtain t where t: "ACP_pload_ins_jta (acp_library base stack b) ?p = (BH_SUCCESS, take 16 ta_head, Some t)" "drop t ?p = applet"
    using i(2) by blast
  have "?p \<noteq> []" using assms(2) by auto
  then have "BeihaiPlugin_ParsePackage (acp_library base stack b) ?p =
      (TEE_STATUS_SUCCESS, \<lparr> packageType = 3, pkg_uuid = uuid_to_string (take 16 ta_head) \<rparr>)"
    using i(1) t(1) by (simp add: BeihaiPlugin_ParsePackage_def Let_def ac_cmd_def numeral_3_eq_3)
  moreover have "BHP_OpenTASession (acp_library base stack b) = BHP_OpenTASession b"
    "BHP_SendAndRecvInternal (acp_library base stack b) = BHP_SendAndRecvInternal b" by (simp_all add: acp_library_def)
  ultimately show ?thesis using t assms(7,8)
    by (simp add: BeihaiPlugin_CreateSession_def sendSessionIDtoApplet_def run_on_fw Let_def)
qed

theorem install_package_round_trip_witness:
  "run_state (BeihaiPlugin_CreateSession
       (acp_library 65536 [] (sample_bhp\<lparr>BHP_OpenTASession := (\<lambda>a t d f. ((BH_SUCCESS, of_nat (length (the t))), f)),
          BHP_SendAndRecvInternal := (\<lambda>h w c d f. ((BH_SUCCESS, Some 0), f))\<rparr>))
       sample_app (Some (replicate 648 0 @ jta_package (replicate 12 0) (replicate 16 0) 1 [1, 2, 3] (replicate 56 7) [5, 6])) (sample_id 1) None)
     (BeihaiPlugin_new 4) = ((JHI_SUCCESS, 2), BeihaiPlugin_new 4)"
proof -
  have "in_memory (65536, replicate 648 0 @ jta_package (replicate 12 0) (replicate 16 0) 1 [1, 2, 3] (replicate 56 7) [5, 6])"
    by (simp add: in_memory_def jta_package_def round_up_def Let_def)
  then show ?thesis
    by (intro conjunct2 [OF install_package_round_trip, THEN trans]) (simp_all add: BeihaiPlugin_new_def)
qed

text \<open>
  The identifier that the plugin reports for a package that uninstalls a domain is not the one in the package: it is
  where the package lies in memory, and what the stack holds after the pointer.
\<close>

lemma domain_identifier_is_pointer:
  assumes "in_memory (base, css @ h @ put32 2 @ h' @ i)" "length css = 648" "length h = 12" "length h' = 16" "length i = 16"
  shows "BeihaiPlugin_ParsePackage (acp_library base stack b) (css @ h @ put32 2 @ h' @ i) =
    (TEE_STATUS_SUCCESS, \<lparr> packageType = 2, pkg_uuid = uuid_to_string (put64 (base + 680) @ take 8 stack) \<rparr>)"
proof -
  let ?d = "css @ h @ put32 2 @ h' @ i"
  let ?m = "(base, ?d)"
  have f': "fits ?m CSS_HEADER" using in_memory_fits [OF assms(1), of CSS_HEADER] assms(2) by simp
  have w: "window ?m CSS_HEADER = h @ put32 2 @ h' @ i" using assms(2) by (simp add: window_def)
  have u: "u32_at 12 (h @ put32 2 @ h' @ i) = Some 2" using assms(3) by simp
  have "acp_cmd_id ?m = Some (BH_SUCCESS, Some (sint (2 :: uint32)))"
    by (rule acp_cmd_id_header [OF assms(1)]) (use assms w u in simp_all)
  then have "ACP_get_cmd_id (acp_library base stack b) ?d = (BH_SUCCESS, 2)" by (simp add: acp_library_def)
  moreover have "pack_spec AC_UNINSTALL_SD (h @ put32 2 @ h' @ i) = Some (Some 0, [32], None)"
    using assms(3-5) u by (simp add: pack_spec_def body_spec_def section_end_def round_up_def)
  then have "ACP_pload AC_UNINSTALL_SD ?m ACPack_empty = Some (BH_SUCCESS, pack_of AC_UNINSTALL_SD (at_offset ?m 648) (Some 0, [32], None))"
    using load_pack_spec [OF f', of AC_UNINSTALL_SD] ACP_pload_long [OF assms(1), of AC_UNINSTALL_SD] assms(2-5) w by simp
  then have "ACP_pload_uns_sd (acp_library base stack b) ?d = (BH_SUCCESS, put64 (base + 680) @ stack)"
    by (simp add: acp_library_def acp_result_def pack_of_def fill_def at_offset_def)
  moreover have "?d \<noteq> []" using assms(2) by auto
  ultimately show ?thesis by (simp add: BeihaiPlugin_ParsePackage_def Let_def ac_cmd_def numeral_2_eq_2)
qed

end
