(* ===== verification/Bhp_Core.thy ===== *)
theory Bhp_Core
  imports Acp_Package
begin

text \<open>
  The core of the second Beihai library, \<^verbatim>\<open>bhp/impl/bhp_impl.cpp\<close>: connections to the processes of the
  firmware, each with a thread that receives, the records of the commands that wait for an answer
  and of the open sessions, and starting, stopping and resetting. Build of the source: no \<^verbatim>\<open>BEIHAI_ENABLE_SVM\<close>, with
  \<^verbatim>\<open>BEIHAI_ENABLE_OEM_SIGNING_IOTG\<close>, Linux.

  A call runs by itself; while it waits, the receiving thread of its connection runs. What other threads
  may do between the critical sections is the subject of \<open>Bhp_Sessions\<close>.
\<close>

section \<open>State\<close>

abbreviation BPE_SERVICE_UNAVAILABLE :: BH_RET where "BPE_SERVICE_UNAVAILABLE \<equiv> 0x2"
abbreviation BPE_OUT_OF_MEMORY :: BH_RET where "BPE_OUT_OF_MEMORY \<equiv> 0x5"
abbreviation BPE_MESSAGE_TOO_SHORT :: BH_RET where "BPE_MESSAGE_TOO_SHORT \<equiv> 0x7"
abbreviation BPE_MESSAGE_ILLEGAL :: BH_RET where "BPE_MESSAGE_ILLEGAL \<equiv> 0x8"
abbreviation BPE_NOT_IMPLEMENT :: BH_RET where "BPE_NOT_IMPLEMENT \<equiv> 0xA"
abbreviation BPE_OUT_OF_RESOURCE :: BH_RET where "BPE_OUT_OF_RESOURCE \<equiv> 0xB"
abbreviation BPE_INITIALIZED_ALREADY :: BH_RET where "BPE_INITIALIZED_ALREADY \<equiv> 0xC"
abbreviation BPE_CONNECT_FAILED :: BH_RET where "BPE_CONNECT_FAILED \<equiv> 0xD"
abbreviation BHE_PACKAGE_EXIST :: BH_RET where "BHE_PACKAGE_EXIST \<equiv> 0x309"

abbreviation (input) CONN_IDX_LAUNCHER :: nat where "CONN_IDX_LAUNCHER \<equiv> 1"
abbreviation (input) CONN_IDX_SDM :: nat where "CONN_IDX_SDM \<equiv> 2"
abbreviation (input) CONN_IDX_IVM :: nat where "CONN_IDX_IVM \<equiv> 3"
abbreviation (input) CONN_IDX_SVM :: nat where "CONN_IDX_SVM \<equiv> 4"

text \<open>
  A record, by its address; the locks are left out. An event is known by its address too.
\<close>

record bh_response_record =
  wait_event :: "nat option"
  rr_code :: BH_RET
  rr_length :: uint32
  rr_buffer :: "byte list option"
  rr_addr :: uint64
  is_session :: bool
  rr_killed :: bool
  rr_count :: uint32

definition rr_zero :: bh_response_record where
  "rr_zero = \<lparr> wait_event = None, rr_code = 0, rr_length = 0, rr_buffer = None, rr_addr = 0, is_session = False,
     rr_killed = False, rr_count = 0 \<rparr>"

text \<open>\<^verbatim>\<open>sdid\<close> is only ever set to zeros in this build. \<open>recv_thread\<close>: the receiving thread runs.\<close>

record bh_connection_item =
  c_handle :: uint64
  rrmap :: "(uint64, nat) smap"
  recv_thread :: bool
  conn_count :: uint32

text \<open>
  The functions of the transport (\<^verbatim>\<open>BHP_TRANSPORT\<close>): \<open>tx_recv h n\<close> receives at most \<open>n\<close> bytes, or fails. \<open>fuel\<close> bounds
  the turns of the loops that may wait for ever; when it runs out, the flag \<open>hung\<close> says that
  the call has not returned, and what the model does afterwards did not happen.
\<close>

record 'e BHP_TRANSPORT =
  tx_connect :: "int \<Rightarrow> 'e \<Rightarrow> (bool \<times> uint64) \<times> 'e"
  tx_close :: "uint64 \<Rightarrow> 'e \<Rightarrow> unit \<times> 'e"
  tx_send :: "uint64 \<Rightarrow> byte list \<Rightarrow> 'e \<Rightarrow> bool \<times> 'e"
  tx_recv :: "uint64 \<Rightarrow> nat \<Rightarrow> 'e \<Rightarrow> byte list option \<times> 'e"
  fuel :: nat

text \<open>
  The state of the library over a transport in the state \<open>fw\<close>. \<open>rrs\<close> and \<open>evts\<close> are the records and events that
  exist, an event with whether it is triggered; a use of another record sets \<open>plugin_fault\<close>, of another event \<open>evt_fault\<close>.
  \<open>short_read\<close> is set by a read beyond the end of an answer.
\<close>

record 'e bhp_state = "'e plugin_env" +
  inited :: bool
  gInit_made :: bool
  g_seqno :: uint32
  connections :: "nat \<Rightarrow> bh_connection_item"
  rrs :: "nat \<Rightarrow> bh_response_record option"
  rr_next :: nat
  evts :: "nat \<Rightarrow> bool option"
  evt_next :: nat
  g_isd_uuid :: "byte list"
  hung :: bool
  short_read :: bool
  evt_fault :: bool

type_synonym ('e, 'a) bhp = "('e bhp_state, 'a) state"

definition no_connection :: bh_connection_item where
  "no_connection = \<lparr> c_handle = 0, rrmap = [], recv_thread = False, conn_count = 0 \<rparr>"

definition bhp_new :: "'e \<Rightarrow> 'e bhp_state" where
  "bhp_new e = \<lparr> plugin_mem = [], plugin_fault = False, fw = e, inited = False, gInit_made = False, g_seqno = 0,
     connections = (\<lambda>_. no_connection), rrs = (\<lambda>_. None), rr_next = 0, evts = (\<lambda>_. None), evt_next = 0,
     g_isd_uuid = replicate 16 0, hung = False, short_read = False, evt_fault = False \<rparr>"

definition hang :: "('e, unit) bhp" where
  "hang = modify (\<lambda>s. s\<lparr>hung := True\<rparr>)"

section \<open>Records, events, connections\<close>

definition rr_new :: "bh_response_record \<Rightarrow> ('e, nat) bhp" where
  "rr_new x = action (\<lambda>s. (rr_next s, s\<lparr>rrs := (rrs s)(rr_next s \<mapsto> x), rr_next := Suc (rr_next s)\<rparr>))"

definition rr_get :: "nat \<Rightarrow> ('e, bh_response_record) bhp" where
  "rr_get r = action (\<lambda>s. case rrs s r of None \<Rightarrow> (rr_zero, s\<lparr>plugin_fault := True\<rparr>) | Some x \<Rightarrow> (x, s))"

definition rr_upd :: "nat \<Rightarrow> (bh_response_record \<Rightarrow> bh_response_record) \<Rightarrow> ('e, unit) bhp" where
  "rr_upd r f = modify (\<lambda>s. case rrs s r of None \<Rightarrow> s\<lparr>plugin_fault := True\<rparr> | Some x \<Rightarrow> s\<lparr>rrs := (rrs s)(r \<mapsto> f x)\<rparr>)"

definition rr_free :: "nat \<Rightarrow> ('e, unit) bhp" where
  "rr_free r = modify (\<lambda>s. case rrs s r of None \<Rightarrow> s\<lparr>plugin_fault := True\<rparr> | Some x \<Rightarrow> s\<lparr>rrs := (rrs s)(r := None)\<rparr>)"

definition conn :: "nat \<Rightarrow> ('e, bh_connection_item) bhp" where
  "conn i = gets (\<lambda>s. connections s i)"

definition conn_upd :: "nat \<Rightarrow> (bh_connection_item \<Rightarrow> bh_connection_item) \<Rightarrow> ('e, unit) bhp" where
  "conn_upd i f = modify (\<lambda>s. s\<lparr>connections := (connections s)(i := f (connections s i))\<rparr>)"

text \<open>The events of \<^verbatim>\<open>bhp_platform_linux.cpp\<close>\<close>

definition bh_create_event :: "('e, nat option) bhp" where
  "bh_create_event = do {
     a \<leftarrow> allocateMemory;
     if \<not> a then ret None
     else action (\<lambda>s. (Some (evt_next s), s\<lparr>evts := (evts s)(evt_next s \<mapsto> False), evt_next := Suc (evt_next s)\<rparr>)) }"

definition bh_close_event :: "nat \<Rightarrow> ('e, unit) bhp" where
  "bh_close_event e = modify (\<lambda>s. if evts s e = None then s\<lparr>evt_fault := True\<rparr> else s\<lparr>evts := (evts s)(e := None)\<rparr>)"

definition bh_signal_event :: "nat \<Rightarrow> ('e, unit) bhp" where
  "bh_signal_event e = modify (\<lambda>s. if evts s e = None then s\<lparr>evt_fault := True\<rparr> else s\<lparr>evts := (evts s)(e \<mapsto> True)\<rparr>)"

definition addr2record :: "nat \<Rightarrow> uint64 \<Rightarrow> ('e, nat option) bhp" where
  "addr2record i seq = do { c \<leftarrow> conn i; ret (smap_find (rrmap c) seq) }"

definition rrmap_erase :: "nat \<Rightarrow> uint64 \<Rightarrow> ('e, unit) bhp" where
  "rrmap_erase i seq = conn_upd i (\<lambda>c. c\<lparr>rrmap := smap_erase seq (rrmap c)\<rparr>)"

text \<open>\<^verbatim>\<open>bh_do_closeVM\<close> is empty in this build, and \<^verbatim>\<open>bh_do_openVM\<close> always names the same connection.\<close>

definition bh_do_closeVM :: "nat \<Rightarrow> ('e, BH_RET) bhp" where
  "bh_do_closeVM i = ret BH_SUCCESS"

definition bh_do_openVM :: "byte list \<Rightarrow> ('e, BH_RET \<times> nat) bhp" where
  "bh_do_openVM sdid = ret (BH_SUCCESS, CONN_IDX_IVM)"

section \<open>Sessions\<close>

definition destroy_session :: "nat \<Rightarrow> ('e, unit) bhp" where
  "destroy_session r = rr_free r"

definition drop_session :: "nat \<Rightarrow> nat \<Rightarrow> uint64 \<Rightarrow> ('e, unit) bhp" where
  "drop_session i r seq = do { rrmap_erase i seq; destroy_session r }"

definition session_exit :: "nat \<Rightarrow> nat \<Rightarrow> uint64 \<Rightarrow> ('e, unit) bhp" where
  "session_exit i r seq = do {
     rr_upd r (\<lambda>x. x\<lparr>rr_count := rr_count x - 1\<rparr>);
     x \<leftarrow> rr_get r;
     if rr_count x = 0 \<and> rr_killed x
     then do { drop_session i r seq; if i > CONN_IDX_IVM then do { _ \<leftarrow> bh_do_closeVM i; ret () } else ret () }
     else ret () }"

definition session_close :: "nat \<Rightarrow> nat \<Rightarrow> uint64 \<Rightarrow> ('e, unit) bhp" where
  "session_close i r seq = do {
     rr_upd r (\<lambda>x. x\<lparr>rr_count := rr_count x - 1\<rparr>);
     x \<leftarrow> rr_get r;
     if rr_count x = 0
     then do { drop_session i r seq; if i > CONN_IDX_IVM then do { _ \<leftarrow> bh_do_closeVM i; ret () } else ret () }
     else rr_upd r (\<lambda>x. x\<lparr>rr_killed := True\<rparr>) }"

text \<open>The thread that \<^verbatim>\<open>session_kill\<close> starts for the last connection does nothing in this build.\<close>

definition session_kill :: "nat \<Rightarrow> nat \<Rightarrow> uint64 \<Rightarrow> ('e, unit) bhp" where
  "session_kill i r seq = do {
     rr_upd r (\<lambda>x. x\<lparr>rr_killed := True\<rparr>);
     x \<leftarrow> rr_get r;
     if rr_count x = 0
     then do {
       drop_session i r seq;
       if i > CONN_IDX_IVM then conn_upd i (\<lambda>c. if conn_count c = 1 then c else c\<lparr>conn_count := conn_count c - 1\<rparr>) else ret () }
     else ret () }"

definition session_take :: "nat \<Rightarrow> uint64 \<Rightarrow> ('e, nat option) bhp" where
  "session_take i seq = do {
     m \<leftarrow> addr2record i seq;
     case m of
       None \<Rightarrow> ret None
     | Some r \<Rightarrow> do {
         x \<leftarrow> rr_get r;
         if is_session x \<and> \<not> rr_killed x \<and> rr_count x < 20
         then do { rr_upd r (\<lambda>x. x\<lparr>rr_count := rr_count x + 1\<rparr>); ret (Some r) }
         else ret None } }"

text \<open>\<^verbatim>\<open>session_enter\<close>: the first critical section is \<open>session_take\<close>; the second one, after the session's lock was taken.\<close>

definition session_enter :: "nat \<Rightarrow> uint64 \<Rightarrow> bool \<Rightarrow> ('e, nat option) bhp" where
  "session_enter i seq lock_session = do {
     m \<leftarrow> session_take i seq;
     case m of
       None \<Rightarrow> ret None
     | Some r \<Rightarrow>
         if \<not> lock_session then ret (Some r)
         else do {
           x \<leftarrow> rr_get r;
           if rr_killed x then do { session_exit i r seq; ret None } else ret (Some r) } }"

definition inc_seqno :: "('e, uint64) bhp" where
  "inc_seqno = action (\<lambda>s. let n = (if g_seqno s + 1 = 0 then 1 else g_seqno s + 1) in (ucast n, s\<lparr>g_seqno := n\<rparr>))"

definition rrmap_add :: "nat \<Rightarrow> nat \<Rightarrow> ('e, uint64) bhp" where
  "rrmap_add i r = do {
     seq \<leftarrow> inc_seqno;
     conn_upd i (\<lambda>c. c\<lparr>rrmap := smap_put seq r (rrmap c)\<rparr>);
     ret seq }"

definition rrmap_remove :: "nat \<Rightarrow> uint64 \<Rightarrow> ('e, nat option) bhp" where
  "rrmap_remove i seq = do {
     m \<leftarrow> addr2record i seq;
     case m of
       None \<Rightarrow> ret None
     | Some r \<Rightarrow> do {
         x \<leftarrow> rr_get r;
         (if \<not> is_session x then rrmap_erase i seq else ret ());
         ret (Some r) } }"

section \<open>Receiving\<close>

text \<open>The loop of \<^verbatim>\<open>bh_transport_recv\<close>, with or without a buffer; a transport that stores more than it was asked for writes behind the buffer.\<close>

fun recv_pieces :: "'e BHP_TRANSPORT \<Rightarrow> nat \<Rightarrow> uint64 \<Rightarrow> nat \<Rightarrow> byte list \<Rightarrow> ('e, byte list option) bhp" where
  "recv_pieces t 0 h k acc = (if k = 0 then ret (Some acc) else do { hang; ret None })"
| "recv_pieces t (Suc n) h k acc =
     (if k = 0 then ret (Some acc)
      else do {
        p \<leftarrow> on_fw (tx_recv t h (min k 4096));
        (case p of
           None \<Rightarrow> ret None
         | Some bs \<Rightarrow>
             if length bs > min k 4096 then do { plugin_crash; ret None }
             else recv_pieces t n h (k - length bs) (acc @ bs)) })"

definition bh_transport_recv :: "'e BHP_TRANSPORT \<Rightarrow> uint64 \<Rightarrow> nat \<Rightarrow> ('e, byte list option) bhp" where
  "bh_transport_recv t h k = (if h = 0 then ret None else recv_pieces t (fuel t) h k [])"

definition BHP_MSG_RESPONSE_MAGIC :: "byte list" where "BHP_MSG_RESPONSE_MAGIC = [0xFF, 0xA5, 0xAA, 0x55]"
definition BHP_MSG_CMD_MAGIC :: "byte list" where "BHP_MSG_CMD_MAGIC = [0xFF, 0xA3, 0xAA, 0x55]"

text \<open>The fields of \<^verbatim>\<open>bhp_response_header\<close>\<close>

definition head_length :: "byte list \<Rightarrow> uint32" where "head_length b = get32 (take 4 (drop 4 b))"
definition head_seq :: "byte list \<Rightarrow> uint64" where "head_seq b = get64 (take 8 (drop 8 b))"
definition head_addr :: "byte list \<Rightarrow> uint64" where "head_addr b = get64 (take 8 (drop 16 b))"
definition head_code :: "byte list \<Rightarrow> uint32" where "head_code b = get32 (take 4 (drop 24 b))"

definition fatal_code :: "BH_RET \<Rightarrow> bool" where
  "fatal_code c = (c = BHE_WD_TIMEOUT \<or> c = BHE_UNCAUGHT_EXCEPTION \<or> c = BHE_APPLET_CRASHED)"

text \<open>
  The body of a message: the code, the block and its length. A block that was not filled because the
  connection broke has no defined content; nothing reads it, as the code is not success.
\<close>

definition recv_body :: "'e BHP_TRANSPORT \<Rightarrow> nat \<Rightarrow> uint32 \<Rightarrow> ('e, BH_RET \<times> byte list option \<times> uint32) bhp" where
  "recv_body t i len =
     (if len > 32 then do {
        let dlen = len - 32;
        a \<leftarrow> allocateMemory;
        c \<leftarrow> conn i;
        d \<leftarrow> bh_transport_recv t (c_handle c) (unat dlen);
        ret (case d of
            None \<Rightarrow> (BPE_COMMS_ERROR, if a then Some (replicate (unat dlen) 0) else None, dlen)
          | Some bs \<Rightarrow> if a then (BH_SUCCESS, Some bs, dlen) else (BPE_OUT_OF_MEMORY, None, dlen)) }
      else ret (BH_SUCCESS, None, 0))"

text \<open>The record gets the answer, its session may die of it, and the thread that waits is woken.\<close>

definition deliver :: "nat \<Rightarrow> nat \<Rightarrow> uint64 \<Rightarrow> uint64 \<Rightarrow> BH_RET \<Rightarrow> byte list option \<Rightarrow> uint32 \<Rightarrow> ('e, unit) bhp" where
  "deliver i r seq addr code data dlen = do {
     rr_upd r (\<lambda>x. x\<lparr>rr_buffer := data, rr_length := dlen, rr_code := code,
       rr_addr := if addr \<noteq> 0 then addr else rr_addr x\<rparr>);
     x \<leftarrow> rr_get r;
     let sessionKilled = (is_session x \<and> fatal_code code);
     (if sessionKilled then rr_upd r (\<lambda>x. x\<lparr>rr_killed := True\<rparr>) else ret ());
     (case wait_event x of
        Some e \<Rightarrow> bh_signal_event e
      | None \<Rightarrow> if sessionKilled then session_kill i r seq else ret ()) }"

definition bh_recv_message :: "'e BHP_TRANSPORT \<Rightarrow> nat \<Rightarrow> ('e, BH_RET) bhp" where
  "bh_recv_message t i = do {
     c \<leftarrow> conn i;
     m \<leftarrow> bh_transport_recv t (c_handle c) 32;
     (case m of
        None \<Rightarrow> ret BPE_COMMS_ERROR
      | Some b \<Rightarrow>
          if take 4 b \<noteq> BHP_MSG_RESPONSE_MAGIC then ret BPE_MESSAGE_ILLEGAL
          else do {
            rr \<leftarrow> rrmap_remove i (head_seq b);
            d \<leftarrow> recv_body t i (head_length b);
            (case rr of
               None \<Rightarrow> ret ()
             | Some r \<Rightarrow> deliver i r (head_seq b) (head_addr b) (if fst d = BH_SUCCESS then head_code b else fst d)
                 (fst (snd d)) (snd (snd d)));
            ret (fst d) }) }"

definition unblock_one :: "nat \<Rightarrow> BH_RET \<Rightarrow> uint64 \<times> nat \<Rightarrow> ('e, unit) bhp" where
  "unblock_one i code = (\<lambda>(seq, r). do {
     rr_upd r (\<lambda>x. x\<lparr>rr_code := code\<rparr>);
     x \<leftarrow> rr_get r;
     (case wait_event x of
        Some e \<Rightarrow> do {
          (if is_session x then rr_upd r (\<lambda>x. x\<lparr>rr_killed := True\<rparr>) else ret ());
          bh_signal_event e;
          (if \<not> is_session x then rrmap_erase i seq else ret ()) }
      | None \<Rightarrow> if is_session x \<and> rr_count x = 0 then do { destroy_session r; rrmap_erase i seq } else ret ()) })"

definition unblock_threads :: "nat \<Rightarrow> BH_RET \<Rightarrow> ('e, unit) bhp" where
  "unblock_threads i code = do {
     c \<leftarrow> conn i;
     for_each (unblock_one i code) (rrmap c);
     conn_upd i (\<lambda>c. c\<lparr>rrmap := []\<rparr>) }"

definition close_if_open :: "'e BHP_TRANSPORT \<Rightarrow> nat \<Rightarrow> ('e, unit) bhp" where
  "close_if_open t i = do { c \<leftarrow> conn i; if c_handle c \<noteq> 0 then on_fw (tx_close t (c_handle c)) else ret () }"

text \<open>One turn of \<^verbatim>\<open>bh_recv_thread_func\<close>; after a message that failed the thread cleans up and ends.\<close>

definition recv_turn :: "'e BHP_TRANSPORT \<Rightarrow> nat \<Rightarrow> ('e, unit) bhp" where
  "recv_turn t i = do {
     r \<leftarrow> bh_recv_message t i;
     if r = BH_SUCCESS then ret ()
     else do {
       c \<leftarrow> conn i;
       on_fw (tx_close t (c_handle c));
       conn_upd i (\<lambda>c. c\<lparr>c_handle := 0\<rparr>);
       (if i < CONN_IDX_SVM
        then if i = CONN_IDX_LAUNCHER then for_each (close_if_open t) [2, 3, 4] else close_if_open t CONN_IDX_LAUNCHER
        else ret ());
       unblock_threads i BPE_COMMS_ERROR;
       conn_upd i (\<lambda>c. c\<lparr>recv_thread := False\<rparr>) } }"

text \<open>\<^verbatim>\<open>bh_wait_event\<close> and \<^verbatim>\<open>bh_thread_join\<close>: the receiving thread runs until the event is triggered, or until it ends.\<close>

fun bh_wait_event :: "'e BHP_TRANSPORT \<Rightarrow> nat \<Rightarrow> nat \<Rightarrow> nat \<Rightarrow> ('e, unit) bhp" where
  "bh_wait_event t 0 i e = do { v \<leftarrow> gets (\<lambda>s. evts s e); if v = Some True then ret () else hang }"
| "bh_wait_event t (Suc n) i e = do {
     v \<leftarrow> gets (\<lambda>s. evts s e);
     if v = Some True then ret ()
     else do {
       c \<leftarrow> conn i;
       if \<not> recv_thread c then hang else do { recv_turn t i; bh_wait_event t n i e } } }"

fun bh_thread_join :: "'e BHP_TRANSPORT \<Rightarrow> nat \<Rightarrow> nat \<Rightarrow> ('e, unit) bhp" where
  "bh_thread_join t 0 i = do { c \<leftarrow> conn i; if recv_thread c then hang else ret () }"
| "bh_thread_join t (Suc n) i = do {
     c \<leftarrow> conn i; if recv_thread c then do { recv_turn t i; bh_thread_join t n i } else ret () }"

section \<open>Sending\<close>

definition bh_transport_send :: "'e BHP_TRANSPORT \<Rightarrow> uint64 \<Rightarrow> byte list \<Rightarrow> ('e, BH_RET) bhp" where
  "bh_transport_send t h d =
     (if h = 0 then ret BPE_COMMS_ERROR
      else do { ok \<leftarrow> on_fw (tx_send t h d); ret (if ok then BH_SUCCESS else BPE_COMMS_ERROR) })"

text \<open>A command: its number, its own fields and the data that follows, which are sent apart.\<close>

definition command_bytes :: "uint32 \<Rightarrow> byte list \<Rightarrow> byte list \<Rightarrow> uint64 \<Rightarrow> byte list" where
  "command_bytes cmd body data seq =
     BHP_MSG_CMD_MAGIC @ put32 (of_nat (24 + length body + length data)) @ put64 seq @ put32 cmd @ replicate 4 0 @ body"

definition send_message :: "'e BHP_TRANSPORT \<Rightarrow> nat \<Rightarrow> uint32 \<Rightarrow> byte list \<Rightarrow> byte list \<Rightarrow> nat \<Rightarrow> uint64 \<Rightarrow> ('e, BH_RET) bhp" where
  "send_message t i cmd body data r seq = do {
     rr_upd r (\<lambda>x. x\<lparr>rr_buffer := None, rr_length := 0\<rparr>);
     ev \<leftarrow> bh_create_event;
     rr_upd r (\<lambda>x. x\<lparr>wait_event := ev\<rparr>);
     (case ev of
        None \<Rightarrow> do { rrmap_remove i seq; ret BPE_OUT_OF_RESOURCE }
      | Some e \<Rightarrow> do {
          c \<leftarrow> conn i;
          r1 \<leftarrow> bh_transport_send t (c_handle c) (command_bytes cmd body data seq);
          r2 \<leftarrow> (if r1 = BH_SUCCESS \<and> data \<noteq> [] then bh_transport_send t (c_handle c) data else ret r1);
          if r2 \<noteq> BH_SUCCESS then do { bh_close_event e; rrmap_remove i seq; ret r2 } else ret BH_SUCCESS }) }"

definition bh_send_message :: "'e BHP_TRANSPORT \<Rightarrow> nat \<Rightarrow> uint32 \<Rightarrow> byte list \<Rightarrow> byte list \<Rightarrow> uint64 \<Rightarrow> ('e, BH_RET) bhp" where
  "bh_send_message t i cmd body data seq = do {
     m \<leftarrow> addr2record i seq;
     (case m of
        None \<Rightarrow> ret BPE_INTERNAL_ERROR
      | Some r \<Rightarrow> do {
          code \<leftarrow> send_message t i cmd body data r seq;
          if code = BH_SUCCESS then do {
            x \<leftarrow> rr_get r;
            (case wait_event x of
               None \<Rightarrow> ret ()
             | Some e \<Rightarrow> do {
                 bh_wait_event t (fuel t) i e;
                 bh_close_event e;
                 rr_upd r (\<lambda>x. x\<lparr>wait_event := None\<rparr>) });
            ret code }
          else ret code }) }"

end
