(* ===== verification/Bhp_Connections.thy ===== *)
theory Bhp_Connections
  imports Bhp_Core
begin

text \<open>
  The rest of \<^verbatim>\<open>bhp_impl.cpp\<close>: opening and closing the connections, the commands the library sends by itself
  when it starts, stops or resets the machine, and the metadata of the machine.
\<close>

section \<open>Commands with a record of their own\<close>

text \<open>The numbers of \<^verbatim>\<open>bhp_command_id\<close>\<close>

abbreviation (input) BHP_CMD_VERIFY_JAVATA :: uint32 where "BHP_CMD_VERIFY_JAVATA \<equiv> 2"
abbreviation (input) BHP_CMD_DOWNLOAD_JAVATA :: uint32 where "BHP_CMD_DOWNLOAD_JAVATA \<equiv> 3"
abbreviation (input) BHP_CMD_OPEN_JTASESSION :: uint32 where "BHP_CMD_OPEN_JTASESSION \<equiv> 4"
abbreviation (input) BHP_CMD_CLOSE_JTASESSION :: uint32 where "BHP_CMD_CLOSE_JTASESSION \<equiv> 5"
abbreviation (input) BHP_CMD_FORCECLOSE_JTASESSION :: uint32 where "BHP_CMD_FORCECLOSE_JTASESSION \<equiv> 6"
abbreviation (input) BHP_CMD_SENDANDRECV :: uint32 where "BHP_CMD_SENDANDRECV \<equiv> 7"
abbreviation (input) BHP_CMD_SENDANDRECV_INTERNAL :: uint32 where "BHP_CMD_SENDANDRECV_INTERNAL \<equiv> 8"
abbreviation (input) BHP_CMD_OPEN_SDSESSION :: uint32 where "BHP_CMD_OPEN_SDSESSION \<equiv> 11"
abbreviation (input) BHP_CMD_CLOSE_SDSESSION :: uint32 where "BHP_CMD_CLOSE_SDSESSION \<equiv> 12"
abbreviation (input) BHP_CMD_INSTALL_SD :: uint32 where "BHP_CMD_INSTALL_SD \<equiv> 13"
abbreviation (input) BHP_CMD_UNINSTALL_SD :: uint32 where "BHP_CMD_UNINSTALL_SD \<equiv> 14"
abbreviation (input) BHP_CMD_INSTALL_JAVATA :: uint32 where "BHP_CMD_INSTALL_JAVATA \<equiv> 15"
abbreviation (input) BHP_CMD_UNINSTALL_JAVATA :: uint32 where "BHP_CMD_UNINSTALL_JAVATA \<equiv> 16"
abbreviation (input) BHP_CMD_LIST_SD :: uint32 where "BHP_CMD_LIST_SD \<equiv> 19"
abbreviation (input) BHP_CMD_LIST_TA :: uint32 where "BHP_CMD_LIST_TA \<equiv> 20"
abbreviation (input) BHP_CMD_RESET :: uint32 where "BHP_CMD_RESET \<equiv> 21"
abbreviation (input) BHP_CMD_LIST_TA_PROPERTIES :: uint32 where "BHP_CMD_LIST_TA_PROPERTIES \<equiv> 22"
abbreviation (input) BHP_CMD_QUERY_TA_PROPERTY :: uint32 where "BHP_CMD_QUERY_TA_PROPERTY \<equiv> 23"
abbreviation (input) BHP_CMD_LIST_JTA_SESSIONS :: uint32 where "BHP_CMD_LIST_JTA_SESSIONS \<equiv> 24"
abbreviation (input) BHP_CMD_LIST_TA_PACKAGES :: uint32 where "BHP_CMD_LIST_TA_PACKAGES \<equiv> 25"
abbreviation (input) BHP_CMD_GET_ISD :: uint32 where "BHP_CMD_GET_ISD \<equiv> 26"
abbreviation (input) BHP_CMD_GET_SD_BY_TA :: uint32 where "BHP_CMD_GET_SD_BY_TA \<equiv> 27"
abbreviation (input) BHP_CMD_CLOSE_VM :: uint32 where "BHP_CMD_CLOSE_VM \<equiv> 29"
abbreviation (input) BHP_CMD_UPDATE_SVL :: uint32 where "BHP_CMD_UPDATE_SVL \<equiv> 33"
abbreviation (input) BHP_CMD_CHECK_SVL_TA_BLOCKED_STATE :: uint32 where "BHP_CMD_CHECK_SVL_TA_BLOCKED_STATE \<equiv> 34"
abbreviation (input) BHP_CMD_QUERY_TEE_METADATA :: uint32 where "BHP_CMD_QUERY_TEE_METADATA \<equiv> 35"
abbreviation (input) BHP_CMD_PROVISION_OMK :: uint32 where "BHP_CMD_PROVISION_OMK \<equiv> 36"
abbreviation (input) BHP_CMD_SET_DEK :: uint32 where "BHP_CMD_SET_DEK \<equiv> 37"

text \<open>
  What all functions with a record on their stack do: the record is registered under a new sequence number, the
  command is sent, and the code is the one of the exchange or the firmware's. The record ceases to exist when the function
  returns.
\<close>

definition proxy_call :: "'e BHP_TRANSPORT \<Rightarrow> nat \<Rightarrow> uint32 \<Rightarrow> byte list \<Rightarrow> byte list \<Rightarrow>
    ('e, BH_RET \<times> bh_response_record) bhp" where
  "proxy_call t i cmd body data = do {
     r \<leftarrow> rr_new rr_zero;
     seq \<leftarrow> rrmap_add i r;
     code \<leftarrow> bh_send_message t i cmd body data seq;
     x \<leftarrow> rr_get r;
     rr_free r;
     ret (if code = BH_SUCCESS then rr_code x else code, x) }"

text \<open>A field of an answer that is read whether the answer is long enough or not.\<close>

definition answer32 :: "nat \<Rightarrow> byte list \<Rightarrow> ('e, uint32) bhp" where
  "answer32 k b = (case u32_at k b of None \<Rightarrow> do { modify (\<lambda>s. s\<lparr>short_read := True\<rparr>); ret 0 } | Some v \<Rightarrow> ret v)"

section \<open>Connections\<close>

definition bh_do_connect :: "'e BHP_TRANSPORT \<Rightarrow> nat \<Rightarrow> int \<Rightarrow> ('e, BH_RET) bhp" where
  "bh_do_connect t i heci_port = do {
     conn_upd i (\<lambda>_. no_connection);
     r \<leftarrow> on_fw (tx_connect t heci_port);
     if \<not> fst r then ret BPE_CONNECT_FAILED
     else do {
       conn_upd i (\<lambda>c. c\<lparr>c_handle := snd r\<rparr>);
       a \<leftarrow> allocateMemory;
       if a then do { conn_upd i (\<lambda>c. c\<lparr>recv_thread := True\<rparr>); ret BH_SUCCESS }
       else do { close_if_open t i; conn_upd i (\<lambda>c. c\<lparr>c_handle := 0\<rparr>); ret BPE_OUT_OF_RESOURCE } } }"

text \<open>The thread is cancelled: it does not clean up, and the sessions in the map are forgotten.\<close>

definition bh_do_disconnect :: "'e BHP_TRANSPORT \<Rightarrow> nat \<Rightarrow> ('e, unit) bhp" where
  "bh_do_disconnect t i = do { close_if_open t i; conn_upd i (\<lambda>_. no_connection) }"

definition connection_locks :: "nat \<Rightarrow> ('e, bool) bhp" where
  "connection_locks i = do {
     conn_upd i (\<lambda>_. no_connection);
     a \<leftarrow> allocateMemory;
     if \<not> a then ret False
     else do { b \<leftarrow> allocateMemory; if \<not> b then ret False else allocateMemory } }"

definition heci_port_list :: "nat \<Rightarrow> int" where
  "heci_port_list i = 9999 + int i"

definition connection_undo :: "'e BHP_TRANSPORT \<Rightarrow> nat \<Rightarrow> ('e, unit) bhp" where
  "connection_undo t i = do {
     c \<leftarrow> conn i;
     if c_handle c \<noteq> 0 then do {
       on_fw (tx_close t (c_handle c));
       bh_thread_join t (fuel t) i;
       conn_upd i (\<lambda>c. c\<lparr>recv_thread := False\<rparr>) }
     else ret () }"

definition bh_connections_init :: "'e BHP_TRANSPORT \<Rightarrow> ('e, BH_RET) bhp" where
  "bh_connections_init t = do {
     r1 \<leftarrow> for_until (\<lambda>_ i. do { a \<leftarrow> connection_locks i; ret (if a then (BH_SUCCESS, False) else (BPE_OUT_OF_RESOURCE, True)) })
       BH_SUCCESS [1, 2, 3, 4];
     r2 \<leftarrow> (if r1 \<noteq> BH_SUCCESS then ret r1
       else for_until (\<lambda>_ i. do { r \<leftarrow> bh_do_connect t i (heci_port_list i); ret (r, r \<noteq> BH_SUCCESS) }) BH_SUCCESS [1, 2, 3]);
     (if r2 \<noteq> BH_SUCCESS then for_each (connection_undo t) [1, 2, 3] else ret ());
     ret r2 }"

definition bh_connections_deinit :: "'e BHP_TRANSPORT \<Rightarrow> ('e, unit) bhp" where
  "bh_connections_deinit t = for_each (bh_do_disconnect t) [1, 2, 3, 4]"

section \<open>Commands of the library itself\<close>

definition bh_proxy_reset :: "'e BHP_TRANSPORT \<Rightarrow> nat \<Rightarrow> ('e, BH_RET) bhp" where
  "bh_proxy_reset t i = do { r \<leftarrow> proxy_call t i BHP_CMD_RESET [] []; ret (fst r) }"

text \<open>The entries of an array of \<open>k\<close> bytes each, after the count.\<close>

definition array_entries :: "nat \<Rightarrow> nat \<Rightarrow> byte list \<Rightarrow> byte list list" where
  "array_entries k n b = map (\<lambda>j. take k (drop (4 + k * j) b)) [0 ..< n]"

definition bh_proxy_reset_launcher :: "'e BHP_TRANSPORT \<Rightarrow> ('e, BH_RET \<times> int list) bhp" where
  "bh_proxy_reset_launcher t = do {
     r \<leftarrow> proxy_call t CONN_IDX_LAUNCHER BHP_CMD_RESET [] [];
     (case r of (code, x) \<Rightarrow>
        if code \<noteq> BH_SUCCESS then ret (code, [])
        else case rr_buffer x of
            None \<Rightarrow> ret (BPE_MESSAGE_ILLEGAL, [])
          | Some b \<Rightarrow>
              if rr_length x < 4 then ret (BPE_MESSAGE_ILLEGAL, [])
              else do {
                n \<leftarrow> answer32 0 b;
                if n = 0 then ret (BH_SUCCESS, [])
                else if unat (rr_length x) \<noteq> 4 * unat n + 4 then ret (BPE_MESSAGE_ILLEGAL, [])
                else do {
                  a \<leftarrow> allocateMemory;
                  if \<not> a then ret (BPE_OUT_OF_MEMORY, [])
                  else ret (BH_SUCCESS, map (\<lambda>e. sint (get32 e)) (array_entries 4 (unat n) b)) } }) }"

definition bh_proxy_close_vm :: "'e BHP_TRANSPORT \<Rightarrow> byte list \<Rightarrow> ('e, BH_RET) bhp" where
  "bh_proxy_close_vm t sdid = do { r \<leftarrow> proxy_call t CONN_IDX_LAUNCHER BHP_CMD_CLOSE_VM sdid []; ret (fst r) }"

definition bh_proxy_reset_svm :: "'e BHP_TRANSPORT \<Rightarrow> nat \<Rightarrow> ('e, BH_RET) bhp" where
  "bh_proxy_reset_svm t i = do {
     c \<leftarrow> conn i;
     if i \<le> CONN_IDX_IVM \<or> c_handle c = 0 then ret BPE_INVALID_PARAMS
     else do {
       r \<leftarrow> bh_proxy_reset t i;
       if r = BH_SUCCESS then do {
         bh_thread_join t (fuel t) i;
         conn_upd i (\<lambda>c. c\<lparr>recv_thread := False\<rparr>);
         bh_proxy_close_vm t (replicate 16 0) }
       else ret r } }"

definition bh_proxy_get_isd :: "'e BHP_TRANSPORT \<Rightarrow> ('e, BH_RET) bhp" where
  "bh_proxy_get_isd t = do {
     r \<leftarrow> proxy_call t CONN_IDX_SDM BHP_CMD_GET_ISD [] [];
     (case r of (code, x) \<Rightarrow>
        if code \<noteq> BH_SUCCESS then ret code
        else case rr_buffer x of
            None \<Rightarrow> ret BPE_MESSAGE_ILLEGAL
          | Some b \<Rightarrow>
              if rr_length x = 16 then do { modify (\<lambda>s. s\<lparr>g_isd_uuid := take 16 b\<rparr>); ret BH_SUCCESS }
              else ret BPE_MESSAGE_ILLEGAL) }"

section \<open>Start, stop, reset\<close>

text \<open>The second machine is only connected to be reset; its first port is taken.\<close>

definition reset_svm :: "'e BHP_TRANSPORT \<Rightarrow> ('e, BH_RET) bhp" where
  "reset_svm t = do {
     q \<leftarrow> bh_proxy_reset_launcher t;
     (case q of (code, ports) \<Rightarrow>
        if code = BH_SUCCESS \<and> ports \<noteq> [] then do {
          r \<leftarrow> bh_do_connect t CONN_IDX_SVM (hd ports);
          if r = BH_SUCCESS then bh_proxy_reset_svm t CONN_IDX_SVM else ret r }
        else ret code) }"

definition init_reset :: "'e BHP_TRANSPORT \<Rightarrow> ('e, BH_RET) bhp" where
  "init_reset t = do {
     r \<leftarrow> bh_proxy_reset t CONN_IDX_SDM;
     r2 \<leftarrow> (if r = BH_SUCCESS then reset_svm t else ret r);
     if r2 = BH_SUCCESS then bh_proxy_reset t CONN_IDX_IVM else ret r2 }"

text \<open>The two locks of \<^verbatim>\<open>BHP_Init\<close>: the first is made once, the second in every call.\<close>

definition init_locks :: "('e, bool) bhp" where
  "init_locks = do {
     m \<leftarrow> gets gInit_made;
     a \<leftarrow> (if m then ret True else allocateMemory);
     if \<not> a then ret False
     else do { modify (\<lambda>s. s\<lparr>gInit_made := True\<rparr>); allocateMemory } }"

definition bhp_init :: "'e BHP_TRANSPORT \<Rightarrow> bool \<Rightarrow> ('e, BH_RET) bhp" where
  "bhp_init t do_reset = do {
     l \<leftarrow> init_locks;
     i \<leftarrow> gets inited;
     if \<not> l then ret BPE_OUT_OF_RESOURCE
     else if i then ret BPE_INITIALIZED_ALREADY
     else do {
       r \<leftarrow> bh_connections_init t;
       if r \<noteq> BH_SUCCESS then ret r
       else do {
         r2 \<leftarrow> (if do_reset then init_reset t else ret BH_SUCCESS);
         r3 \<leftarrow> (if r2 = BH_SUCCESS then bh_proxy_get_isd t else ret r2);
         (if r3 \<noteq> BH_SUCCESS then bh_connections_deinit t else modify (\<lambda>s. s\<lparr>inited := True\<rparr>));
         ret r3 } } }"

text \<open>The code of \<^verbatim>\<open>BHP_Reset\<close> is the one of the last step that failed.\<close>

definition BHP_Reset :: "'e BHP_TRANSPORT \<Rightarrow> ('e, BH_RET) bhp" where
  "BHP_Reset t = do {
     i \<leftarrow> gets inited;
     if \<not> i then ret BPE_NOT_INIT
     else do {
       bh_do_disconnect t CONN_IDX_SVM;
       r1 \<leftarrow> bh_proxy_reset t CONN_IDX_SDM;
       r2 \<leftarrow> reset_svm t;
       r3 \<leftarrow> bh_proxy_reset t CONN_IDX_IVM;
       ret (if r3 \<noteq> BH_SUCCESS then r3 else if r2 \<noteq> BH_SUCCESS then r2 else r1) } }"

definition bhp_deinit :: "'e BHP_TRANSPORT \<Rightarrow> bool \<Rightarrow> ('e, BH_RET) bhp" where
  "bhp_deinit t do_reset = do {
     i \<leftarrow> gets inited;
     if \<not> i then ret BPE_NOT_INIT
     else do {
       (if do_reset then do { _ \<leftarrow> BHP_Reset t; ret () } else ret ());
       bh_connections_deinit t;
       modify (\<lambda>s. s\<lparr>inited := False\<rparr>);
       ret BH_SUCCESS } }"

definition query_tee_metadata :: "'e BHP_TRANSPORT \<Rightarrow> ('e, BH_RET \<times> byte list) bhp" where
  "query_tee_metadata t = do {
     i \<leftarrow> gets inited;
     if \<not> i then ret (BPE_NOT_INIT, [])
     else do {
       r \<leftarrow> proxy_call t CONN_IDX_IVM BHP_CMD_QUERY_TEE_METADATA [] [];
       (case r of (code, x) \<Rightarrow>
          if code \<noteq> BH_SUCCESS then ret (code, [])
          else case rr_buffer x of
              None \<Rightarrow> ret (BPE_MESSAGE_ILLEGAL, [])
            | Some b \<Rightarrow> do { a \<leftarrow> allocateMemory; ret (if a then (BH_SUCCESS, b) else (BPE_OUT_OF_MEMORY, [])) }) } }"

end
