(* ===== verification/Bhp_Applets.thy ===== *)
theory Bhp_Applets
  imports Bhp_Connections
begin

text \<open>
  The functions of the second Beihai library for applets, \<^verbatim>\<open>bhp/impl/bhp_impl_ta.cpp\<close>, and the
  identifiers they are given (\<^verbatim>\<open>bh_acp_util.c\<close>). Native applets are not part of the build.
\<close>

section \<open>Identifiers\<close>

definition hex_char :: "char \<Rightarrow> bool" where
  "hex_char c = (let v = chr_val c in 48 \<le> v \<and> v \<le> 57 \<or> 97 \<le> v \<and> v \<le> 102 \<or> 65 \<le> v \<and> v \<le> 70)"

definition char2hex :: "char \<Rightarrow> byte" where
  "char2hex c = (let v = chr_val c in
     of_nat (if 48 \<le> v \<and> v \<le> 57 then v - 48 else if 97 \<le> v \<and> v \<le> 102 then v - 87 else v - 55))"

definition string_check1_uuid :: "string \<Rightarrow> bool" where
  "string_check1_uuid s = (length s = 32 \<and> list_all hex_char s)"

text \<open>A dash may stand before the digits 8, 12, 16 and 20. The first argument counts the digits that are left.\<close>

fun string_check2_uuid :: "nat \<Rightarrow> string \<Rightarrow> bool" where
  "string_check2_uuid 0 s = (s = [])"
| "string_check2_uuid (Suc n) [] = False"
| "string_check2_uuid (Suc n) (c # s) =
     (if c = CHR ''-'' \<and> 31 - n \<in> {8, 12, 16, 20}
      then (case s of [] \<Rightarrow> False | d # s' \<Rightarrow> hex_char d \<and> string_check2_uuid n s')
      else hex_char c \<and> string_check2_uuid n s)"

fun uuid_digits :: "nat \<Rightarrow> string \<Rightarrow> byte list" where
  "uuid_digits 0 s = []"
| "uuid_digits (Suc n) s =
     (case (case s of [] \<Rightarrow> [] | c # s' \<Rightarrow> if c = CHR ''-'' then s' else s) of
        a # b # s' \<Rightarrow> (16 * char2hex a + char2hex b) # uuid_digits n s'
      | _ \<Rightarrow> [])"

definition string_to_uuid :: "string \<Rightarrow> byte list option" where
  "string_to_uuid s = (if string_check1_uuid s \<or> string_check2_uuid 32 s then Some (uuid_digits 16 s) else None)"

section \<open>What is asked of the firmware before a session\<close>

definition session_enter_vm :: "uint64 \<Rightarrow> bool \<Rightarrow> ('e, nat option) bhp" where
  "session_enter_vm seq lock_session = session_enter CONN_IDX_IVM seq lock_session"

definition bh_proxy_get_sd_by_ta :: "'e BHP_TRANSPORT \<Rightarrow> byte list \<Rightarrow> ('e, BH_RET \<times> byte list) bhp" where
  "bh_proxy_get_sd_by_ta t taid = do {
     r \<leftarrow> proxy_call t CONN_IDX_SDM BHP_CMD_GET_SD_BY_TA taid [];
     (case r of (code, x) \<Rightarrow>
        if code \<noteq> BH_SUCCESS then ret (code, [])
        else case rr_buffer x of
            None \<Rightarrow> ret (BPE_MESSAGE_ILLEGAL, [])
          | Some b \<Rightarrow> ret (if rr_length x = 16 then (BH_SUCCESS, take 16 b) else (BPE_MESSAGE_ILLEGAL, []))) }"

definition bh_proxy_check_svl_ta_blocked_state :: "'e BHP_TRANSPORT \<Rightarrow> byte list \<Rightarrow> ('e, BH_RET) bhp" where
  "bh_proxy_check_svl_ta_blocked_state t taid = do {
     r \<leftarrow> proxy_call t CONN_IDX_SDM BHP_CMD_CHECK_SVL_TA_BLOCKED_STATE taid [];
     ret (fst r) }"

definition bh_proxy_listJTAPackages :: "'e BHP_TRANSPORT \<Rightarrow> nat \<Rightarrow> ('e, BH_RET \<times> byte list list) bhp" where
  "bh_proxy_listJTAPackages t i = do {
     n \<leftarrow> gets inited;
     if \<not> n then ret (BPE_NOT_INIT, [])
     else do {
       r \<leftarrow> proxy_call t i BHP_CMD_LIST_TA_PACKAGES [] [];
       (case r of (code, x) \<Rightarrow>
          if code \<noteq> BH_SUCCESS then ret (code, [])
          else case rr_buffer x of
              None \<Rightarrow> ret (BPE_MESSAGE_ILLEGAL, [])
            | Some b \<Rightarrow> do {
                cnt \<leftarrow> answer32 0 b;
                if cnt = 0 then ret (BH_SUCCESS, [])
                else if unat (rr_length x) \<noteq> 16 * unat cnt + 4 then ret (BPE_MESSAGE_ILLEGAL, [])
                else do {
                  a \<leftarrow> allocateMemory;
                  ret (if a then (BH_SUCCESS, array_entries 16 (unat cnt) b) else (BPE_OUT_OF_MEMORY, [])) } }) } }"

definition bh_proxy_download_javata :: "'e BHP_TRANSPORT \<Rightarrow> nat \<Rightarrow> byte list \<Rightarrow> byte list option \<Rightarrow> ('e, BH_RET) bhp" where
  "bh_proxy_download_javata t i ta_id ta_pkg =
     (case ta_pkg of
        None \<Rightarrow> ret BPE_INVALID_PARAMS
      | Some p \<Rightarrow>
          if p = [] then ret BPE_INVALID_PARAMS
          else do { r \<leftarrow> proxy_call t i BHP_CMD_DOWNLOAD_JAVATA ta_id p; ret (fst r) })"

section \<open>Opening a session\<close>

text \<open>A new record for a session, in use by the caller; none without memory for it or its lock.\<close>

definition new_session :: "nat \<Rightarrow> ('e, BH_RET + nat \<times> uint64) bhp" where
  "new_session i = do {
     a \<leftarrow> allocateMemory;
     if \<not> a then ret (Inl BPE_OUT_OF_MEMORY)
     else do {
       l \<leftarrow> allocateMemory;
       if \<not> l then ret (Inl BPE_OUT_OF_RESOURCE)
       else do {
         r \<leftarrow> rr_new (rr_zero\<lparr>rr_count := 1, is_session := True\<rparr>);
         seq \<leftarrow> rrmap_add i r;
         ret (Inr (r, seq)) } } }"

definition open_request :: "'e BHP_TRANSPORT \<Rightarrow> nat \<Rightarrow> uint32 \<Rightarrow> byte list \<Rightarrow> byte list \<Rightarrow> nat \<Rightarrow> uint64 \<Rightarrow> ('e, BH_RET) bhp" where
  "open_request t i cmd body data r seq = do {
     code \<leftarrow> bh_send_message t i cmd body data seq;
     x \<leftarrow> rr_get r;
     rr_upd r (\<lambda>x. x\<lparr>rr_buffer := None\<rparr>);
     ret (if code = BH_SUCCESS then rr_code x else code) }"

definition open_done :: "nat \<Rightarrow> nat \<Rightarrow> uint64 \<Rightarrow> BH_RET \<Rightarrow> ('e, BH_RET \<times> uint64) bhp" where
  "open_done i r seq code =
     (if code = BH_SUCCESS then do { session_exit i r seq; ret (code, seq) }
      else do { session_close i r seq; ret (code, 0) })"

definition bh_proxy_openjtasession :: "'e BHP_TRANSPORT \<Rightarrow> nat \<Rightarrow> byte list \<Rightarrow> byte list \<Rightarrow> byte list option \<Rightarrow>
    ('e, BH_RET \<times> uint64) bhp" where
  "bh_proxy_openjtasession t i ta_id init_buffer TA_pkg = do {
     n \<leftarrow> new_session i;
     (case n of
        Inl e \<Rightarrow> ret (e, 0)
      | Inr (r, seq) \<Rightarrow> do {
          c1 \<leftarrow> open_request t i BHP_CMD_OPEN_JTASESSION ta_id init_buffer r seq;
          c2 \<leftarrow> (if c1 = BHE_PACKAGE_NOT_FOUND then do {
              d \<leftarrow> bh_proxy_download_javata t i ta_id TA_pkg;
              if d = BH_SUCCESS then open_request t i BHP_CMD_OPEN_JTASESSION ta_id init_buffer r seq else ret d }
            else ret c1);
          open_done i r seq c2 }) }"

text \<open>\<^verbatim>\<open>BHP_OpenTASession\<close>: the package is sent unless the machine lists it; that it is there by then is no error.\<close>

definition open_ta_session :: "'e BHP_TRANSPORT \<Rightarrow> string \<Rightarrow> byte list option \<Rightarrow> byte list option \<Rightarrow> ('e, BH_RET \<times> uint64) bhp" where
  "open_ta_session t pAppId TA_pkg init_buffer = do {
     i \<leftarrow> gets inited;
     if \<not> i then ret (BPE_NOT_INIT, 0)
     else if TA_pkg = None \<or> TA_pkg = Some [] then ret (BPE_INVALID_PARAMS, 0)
     else case string_to_uuid pAppId of
         None \<Rightarrow> ret (BPE_INVALID_PARAMS, 0)
       | Some ta_id \<Rightarrow> do {
           sd \<leftarrow> bh_proxy_get_sd_by_ta t ta_id;
           if fst sd \<noteq> BH_SUCCESS then ret (fst sd, 0)
           else do {
             bl \<leftarrow> bh_proxy_check_svl_ta_blocked_state t ta_id;
             if bl \<noteq> BH_SUCCESS then ret (bl, 0)
             else do {
               vm \<leftarrow> bh_do_openVM (snd sd);
               ps \<leftarrow> bh_proxy_listJTAPackages t (snd vm);
               d \<leftarrow> (if fst ps = BH_SUCCESS \<and> ta_id \<in> set (snd ps) then ret BH_SUCCESS
                 else bh_proxy_download_javata t (snd vm) ta_id TA_pkg);
               if d \<noteq> BH_SUCCESS \<and> d \<noteq> BHE_PACKAGE_EXIST then do { _ \<leftarrow> bh_do_closeVM (snd vm); ret (d, 0) }
               else bh_proxy_openjtasession t (snd vm) ta_id (case init_buffer of None \<Rightarrow> [] | Some b \<Rightarrow> b) TA_pkg } } } }"

section \<open>Commands on a session\<close>

text \<open>
  What the functions on a session do: the session is entered and its lock taken, the command sent with the fields that
  \<open>body\<close> makes of the firmware's address of the session, and the record's answer taken.
\<close>

definition session_request :: "'e BHP_TRANSPORT \<Rightarrow> nat \<Rightarrow> uint32 \<Rightarrow> (uint64 \<Rightarrow> byte list) \<Rightarrow> byte list \<Rightarrow> nat \<Rightarrow> uint64 \<Rightarrow>
    ('e, BH_RET \<times> bh_response_record) bhp" where
  "session_request t i cmd body data r seq = do {
     rr_upd r (\<lambda>x. x\<lparr>rr_buffer := None\<rparr>);
     x \<leftarrow> rr_get r;
     code \<leftarrow> bh_send_message t i cmd (body (rr_addr x)) data seq;
     y \<leftarrow> rr_get r;
     ret (if code = BH_SUCCESS then rr_code y else code, y) }"

definition byte_order_swapi :: "byte list \<Rightarrow> uint32" where
  "byte_order_swapi b = get32 (rev b)"

text \<open>
  The answer of an applet: the code, the block for the caller, its length and the applet's response, if they are assigned.
\<close>

definition snr_answer :: "BH_RET \<Rightarrow> bh_response_record \<Rightarrow> uint32 \<Rightarrow> ('e, BH_RET \<times> byte list option \<times> uint32 \<times> uint32 option) bhp" where
  "snr_answer code x output_length =
     (let b = (case rr_buffer x of None \<Rightarrow> [] | Some b \<Rightarrow> b) in
      if code = BH_SUCCESS then
        if rr_buffer x \<noteq> None \<and> rr_length x \<ge> 4 then
          let response = Some (byte_order_swapi (take 4 b)); len = rr_length x - 4 in
          if len = 0 then ret (BH_SUCCESS, None, len, response)
          else if output_length \<ge> len then do {
            a \<leftarrow> allocateMemory;
            ret (if a then (BH_SUCCESS, Some (take (unat len) (drop 4 b)), len, response)
                 else (BPE_OUT_OF_MEMORY, None, len, response)) }
          else ret (BHE_APPLET_SMALL_BUFFER, None, len, response)
        else ret (BPE_MESSAGE_TOO_SHORT, None, output_length, None)
      else if code = BHE_APPLET_SMALL_BUFFER \<and> rr_buffer x \<noteq> None \<and> rr_length x = 8 then
        ret (code, None, byte_order_swapi (take 4 (drop 4 b)), Some (byte_order_swapi (take 4 b)))
      else ret (code, None, output_length, None))"

text \<open>\<^verbatim>\<open>BHP_SendAndRecv\<close> and \<^verbatim>\<open>BHP_SendAndRecvInternal\<close>, which differ in the command and its fields.\<close>

definition snr_call :: "'e BHP_TRANSPORT \<Rightarrow> uint32 \<Rightarrow> (uint64 \<Rightarrow> byte list) \<Rightarrow> uint64 \<Rightarrow> byte list \<Rightarrow> uint32 \<Rightarrow>
    ('e, BH_RET \<times> byte list option \<times> uint32 \<times> uint32 option) bhp" where
  "snr_call t cmd body seq input output_length = do {
     i \<leftarrow> gets inited;
     if \<not> i then ret (BPE_NOT_INIT, None, output_length, None)
     else do {
       m \<leftarrow> session_enter_vm seq True;
       (case m of
          None \<Rightarrow> ret (BPE_INVALID_SESSION_HANDLE, None, output_length, None)
        | Some r \<Rightarrow> do {
            q \<leftarrow> session_request t CONN_IDX_IVM cmd body input r seq;
            (case q of (c, x) \<Rightarrow> do {
               let code = (if rr_killed x \<and> rr_code x \<noteq> BHE_WD_TIMEOUT then BHE_UNCAUGHT_EXCEPTION else c);
               res \<leftarrow> snr_answer code x output_length;
               rr_upd r (\<lambda>x. x\<lparr>rr_buffer := None\<rparr>);
               session_exit CONN_IDX_IVM r seq;
               ret res }) }) } }"

definition send_and_recv :: "'e BHP_TRANSPORT \<Rightarrow> uint64 \<Rightarrow> uint32 \<Rightarrow> byte list \<Rightarrow> uint32 \<Rightarrow>
    ('e, BH_RET \<times> byte list option \<times> uint32 \<times> uint32 option) bhp" where
  "send_and_recv t seq nCommandId input output_length =
     snr_call t BHP_CMD_SENDANDRECV (\<lambda>a. put64 a @ put32 nCommandId @ put32 output_length) seq input output_length"

definition send_and_recv_internal :: "'e BHP_TRANSPORT \<Rightarrow> uint64 \<Rightarrow> uint32 \<Rightarrow> uint32 \<Rightarrow> byte list \<Rightarrow> uint32 \<Rightarrow>
    ('e, BH_RET \<times> byte list option \<times> uint32 \<times> uint32 option) bhp" where
  "send_and_recv_internal t seq what nCommandId input output_length =
     snr_call t BHP_CMD_SENDANDRECV_INTERNAL (\<lambda>a. put64 a @ put32 what @ put32 nCommandId @ put32 output_length) seq input output_length"

text \<open>\<^verbatim>\<open>BHP_CloseTASession\<close> does not clear the record's buffer before it sends; sending does.\<close>

definition close_ta_session :: "'e BHP_TRANSPORT \<Rightarrow> uint64 \<Rightarrow> ('e, BH_RET) bhp" where
  "close_ta_session t seq = do {
     i \<leftarrow> gets inited;
     if \<not> i then ret BPE_NOT_INIT
     else do {
       m \<leftarrow> session_enter_vm seq True;
       (case m of
          None \<Rightarrow> ret BPE_INVALID_SESSION_HANDLE
        | Some r \<Rightarrow> do {
            q \<leftarrow> session_request t CONN_IDX_IVM BHP_CMD_CLOSE_JTASESSION put64 [] r seq;
            (case q of (c, x) \<Rightarrow> do {
               let code = (if rr_killed x \<and> rr_code x \<noteq> BHE_WD_TIMEOUT then BHE_UNCAUGHT_EXCEPTION else c);
               (if code = BHE_IAC_EXIST_INTERNAL_SESSION then session_exit CONN_IDX_IVM r seq else session_close CONN_IDX_IVM r seq);
               ret code }) }) } }"

definition force_close_ta_session :: "'e BHP_TRANSPORT \<Rightarrow> uint64 \<Rightarrow> ('e, BH_RET) bhp" where
  "force_close_ta_session t seq = do {
     i \<leftarrow> gets inited;
     if \<not> i then ret BPE_NOT_INIT
     else do {
       m \<leftarrow> session_enter_vm seq False;
       (case m of
          None \<Rightarrow> ret BPE_INVALID_SESSION_HANDLE
        | Some r \<Rightarrow> do {
            x \<leftarrow> rr_get r;
            q \<leftarrow> proxy_call t CONN_IDX_IVM BHP_CMD_FORCECLOSE_JTASESSION (put64 (rr_addr x)) [];
            session_close CONN_IDX_IVM r seq;
            ret (fst q) }) } }"

section \<open>Queries\<close>

text \<open>
  The functions that first ask for the domain of an applet. \<open>unasked\<close> is what they return otherwise.
\<close>

definition applet_query :: "'e BHP_TRANSPORT \<Rightarrow> string \<Rightarrow> uint32 \<Rightarrow> byte list \<Rightarrow> (BH_RET \<Rightarrow> 'a) \<Rightarrow>
    (BH_RET \<Rightarrow> bh_response_record \<Rightarrow> ('e, 'a) bhp) \<Rightarrow> ('e, 'a) bhp" where
  "applet_query t aid cmd data unasked answered = do {
     i \<leftarrow> gets inited;
     if \<not> i then ret (unasked BPE_NOT_INIT)
     else case string_to_uuid aid of
         None \<Rightarrow> ret (unasked BPE_INVALID_PARAMS)
       | Some ta_id \<Rightarrow> do {
           sd \<leftarrow> bh_proxy_get_sd_by_ta t ta_id;
           if fst sd \<noteq> BH_SUCCESS then ret (unasked (fst sd))
           else do {
             vm \<leftarrow> bh_do_openVM (snd sd);
             r \<leftarrow> proxy_call t (snd vm) cmd ta_id data;
             a \<leftarrow> answered (fst r) (snd r);
             _ \<leftarrow> bh_do_closeVM (snd vm);
             ret a } } }"

text \<open>\<^verbatim>\<open>BHP_ListTASessions\<close>: the code, the count and the handles. The count is assigned before the answer's length is checked.\<close>

definition list_ta_sessions :: "'e BHP_TRANSPORT \<Rightarrow> string \<Rightarrow> ('e, BH_RET \<times> uint32 \<times> uint64 list) bhp" where
  "list_ta_sessions t aid = applet_query t aid BHP_CMD_LIST_JTA_SESSIONS [] (\<lambda>c. (c, 0, []))
     (\<lambda>code x.
        if code \<noteq> BH_SUCCESS then ret (code, 0, [])
        else case rr_buffer x of
            None \<Rightarrow> ret (BPE_MESSAGE_ILLEGAL, 0, [])
          | Some b \<Rightarrow> do {
              n \<leftarrow> answer32 0 b;
              if n = 0 then ret (BH_SUCCESS, 0, [])
              else if unat (rr_length x) \<noteq> 8 * unat n + 4 then ret (BPE_MESSAGE_ILLEGAL, n, [])
              else do {
                a \<leftarrow> allocateMemory;
                ret (if a then (BH_SUCCESS, n, map get64 (array_entries 8 (unat n) b)) else (BPE_OUT_OF_MEMORY, n, [])) } })"

text \<open>Memory for each entry of a result; what was allocated is freed when it does not suffice.\<close>

fun allocate_all :: "nat \<Rightarrow> ('e, bool) bhp" where
  "allocate_all 0 = ret True"
| "allocate_all (Suc n) = do { a \<leftarrow> allocateMemory; if a then allocate_all n else ret False }"

fun split_strings :: "byte list \<Rightarrow> byte list \<Rightarrow> byte list list" where
  "split_strings acc [] = []"
| "split_strings acc (b # bs) = (if b = 0 then acc # split_strings [] bs else split_strings (acc @ [b]) bs)"

definition BHP_ListTAProperties :: "'e BHP_TRANSPORT \<Rightarrow> string \<Rightarrow> ('e, BH_RET \<times> string list) bhp" where
  "BHP_ListTAProperties t aid = applet_query t aid BHP_CMD_LIST_TA_PROPERTIES [] (\<lambda>c. (c, []))
     (\<lambda>code x.
        if code \<noteq> BH_SUCCESS then ret (code, [])
        else case rr_buffer x of
            None \<Rightarrow> ret (BPE_MESSAGE_ILLEGAL, [])
          | Some b \<Rightarrow>
              if b = [] then do { modify (\<lambda>s. s\<lparr>short_read := True\<rparr>); ret (BPE_MESSAGE_ILLEGAL, []) }
              else if last b \<noteq> 0 then ret (BPE_MESSAGE_ILLEGAL, [])
              else do {
                let ps = split_strings [] b;
                a \<leftarrow> allocateMemory;
                m \<leftarrow> (if a then allocate_all (length ps) else ret False);
                ret (if m then (BH_SUCCESS, map chars ps) else (BPE_OUT_OF_MEMORY, [])) })"

text \<open>\<^verbatim>\<open>BHP_QueryTAProperty\<close>: the value as the C string the caller gets.\<close>

definition query_ta_property :: "'e BHP_TRANSPORT \<Rightarrow> string \<Rightarrow> byte list \<Rightarrow> ('e, BH_RET \<times> string option) bhp" where
  "query_ta_property t aid prp = do {
     i \<leftarrow> gets inited;
     if \<not> i then ret (BPE_NOT_INIT, None)
     else if prp = [] then ret (BPE_INVALID_PARAMS, None)
     else applet_query t aid BHP_CMD_QUERY_TA_PROPERTY prp (\<lambda>c. (c, None))
     (\<lambda>code x.
        if code \<noteq> BH_SUCCESS then ret (code, None)
        else if rr_length x = 0 then ret (BH_SUCCESS, None)
        else case rr_buffer x of
            None \<Rightarrow> ret (BPE_MESSAGE_TOO_SHORT, None)
          | Some b \<Rightarrow> do { a \<leftarrow> allocateMemory; ret (if a then (BH_SUCCESS, Some (c_string (chars b))) else (BPE_OUT_OF_MEMORY, None)) }) }"

end
