(* ===== verification/Bhp_Admin.thy ===== *)
theory Bhp_Admin
  imports Bhp_Applets
begin

text \<open>
  The functions of the second Beihai library for security domains and command packages,
  \<^verbatim>\<open>bhp/impl/bhp_impl_admin.cpp\<close>, over the package parser of \<open>Acp_Package\<close>, and the whole library as the plugin uses it. \<open>base\<close> is the
  address at which a package that is passed to the library lies.
\<close>

section \<open>Sessions of a security domain\<close>

definition open_sd_session :: "'e BHP_TRANSPORT \<Rightarrow> string \<Rightarrow> ('e, BH_RET \<times> uint64) bhp" where
  "open_sd_session t SD_ID = do {
     i \<leftarrow> gets inited;
     if \<not> i then ret (BPE_NOT_INIT, 0)
     else case string_to_uuid SD_ID of
         None \<Rightarrow> ret (BPE_INVALID_PARAMS, 0)
       | Some sdid \<Rightarrow> do {
           n \<leftarrow> new_session CONN_IDX_SDM;
           (case n of
              Inl e \<Rightarrow> ret (e, 0)
            | Inr (r, seq) \<Rightarrow> do {
                code \<leftarrow> open_request t CONN_IDX_SDM BHP_CMD_OPEN_SDSESSION sdid [] r seq;
                open_done CONN_IDX_SDM r seq code }) } }"

text \<open>
  A command on a session with a security domain, which the functions below share: \<open>body\<close> makes the fields of the
  firmware's address of the session, \<open>k\<close> goes on with the code and the record, and \<open>out\<close> leaves the session.
\<close>

definition sd_command :: "'e BHP_TRANSPORT \<Rightarrow> uint32 \<Rightarrow> (uint64 \<Rightarrow> byte list) \<Rightarrow> byte list \<Rightarrow> uint64 \<Rightarrow> (BH_RET \<Rightarrow> 'a) \<Rightarrow>
    (nat \<Rightarrow> BH_RET \<Rightarrow> bh_response_record \<Rightarrow> ('e, 'a) bhp) \<Rightarrow> (nat \<Rightarrow> uint64 \<Rightarrow> ('e, unit) bhp) \<Rightarrow> ('e, 'a) bhp" where
  "sd_command t cmd body data seq failed k out = do {
     m \<leftarrow> session_enter CONN_IDX_SDM seq True;
     (case m of
        None \<Rightarrow> ret (failed BPE_INVALID_PARAMS)
      | Some r \<Rightarrow> do {
          q \<leftarrow> session_request t CONN_IDX_SDM cmd body data r seq;
          (case q of (code, x) \<Rightarrow> do {
             a \<leftarrow> k r code x;
             out r seq;
             ret a }) }) }"

definition close_sd_session :: "'e BHP_TRANSPORT \<Rightarrow> uint64 \<Rightarrow> ('e, BH_RET) bhp" where
  "close_sd_session t seq = do {
     i \<leftarrow> gets inited;
     if \<not> i then ret BPE_NOT_INIT
     else sd_command t BHP_CMD_CLOSE_SDSESSION put64 [] seq (\<lambda>c. c)
       (\<lambda>r code x. ret (if rr_killed x then BHE_UNCAUGHT_EXCEPTION else code)) (session_close CONN_IDX_SDM) }"

section \<open>Command packages\<close>

definition bh_get_tainfo_by_cmd_pkg_installjta :: "mem \<Rightarrow> BH_RET \<times> byte list \<times> nat" where
  "bh_get_tainfo_by_cmd_pkg_installjta m =
     (case ACP_pload AC_INSTALL_JTA m ACPack_empty of
        None \<Rightarrow> (BHE_FAILED, [], 0)
      | Some (r, p) \<Rightarrow>
          if r \<noteq> BH_SUCCESS then (r, [], 0)
          else (r, the (mem_bytes 16 m (the (ac_cmd_head p))), unat (the (ac_ta_pack p) - fst m)))"

definition bh_get_tainfo_by_cmd_pkg_uninstalljta :: "mem \<Rightarrow> BH_RET \<times> byte list" where
  "bh_get_tainfo_by_cmd_pkg_uninstalljta m =
     (case ACP_pload AC_UNINSTALL_JTA m ACPack_empty of
        None \<Rightarrow> (BHE_FAILED, [])
      | Some (r, p) \<Rightarrow> if r \<noteq> BH_SUCCESS then (r, []) else (r, the (mem_bytes 16 m (the (ac_taid p)))))"

definition bh_get_sdinfo_by_cmd_pkg_uninstallsd :: "mem \<Rightarrow> BH_RET" where
  "bh_get_sdinfo_by_cmd_pkg_uninstallsd m =
     (case ACP_pload AC_UNINSTALL_SD m ACPack_empty of None \<Rightarrow> BHE_FAILED | Some (r, p) \<Rightarrow> r)"

text \<open>The end that most commands share: the record's block is freed and the session left.\<close>

definition sd_finish :: "bool \<Rightarrow> nat \<Rightarrow> BH_RET \<Rightarrow> bh_response_record \<Rightarrow> ('e, BH_RET) bhp" where
  "sd_finish heed_killed r code x = do {
     rr_upd r (\<lambda>x. x\<lparr>rr_buffer := None\<rparr>);
     ret (if heed_killed \<and> rr_killed x then BHE_UNCAUGHT_EXCEPTION else code) }"

definition bh_do_uninstall_jta :: "'e BHP_TRANSPORT \<Rightarrow> uint64 \<Rightarrow> mem \<Rightarrow> ('e, BH_RET) bhp" where
  "bh_do_uninstall_jta t seq m =
     (case bh_get_tainfo_by_cmd_pkg_uninstalljta m of (r, ta_id) \<Rightarrow>
        if r \<noteq> BH_SUCCESS then ret BPE_INVALID_BPK_FILE
        else do {
          l \<leftarrow> list_ta_sessions t (uuid_to_string ta_id);
          if fst l = BH_SUCCESS \<and> fst (snd l) > 0 then ret BHE_EXIST_LIVE_SESSION
          else sd_command t BHP_CMD_UNINSTALL_JAVATA put64 (snd m) seq (\<lambda>c. c) (sd_finish True) (session_exit CONN_IDX_SDM) })"

definition bh_proxy_verifyjavata :: "'e BHP_TRANSPORT \<Rightarrow> nat \<Rightarrow> byte list \<Rightarrow> byte list \<Rightarrow> ('e, BH_RET) bhp" where
  "bh_proxy_verifyjavata t i ta_id ta_pkg =
     (if ta_pkg = [] then ret BPE_INVALID_PARAMS
      else do { r \<leftarrow> proxy_call t i BHP_CMD_VERIFY_JAVATA ta_id ta_pkg; ret (fst r) })"

text \<open>
  \<^verbatim>\<open>bh_proxy_installjavata\<close> and what follows: the domain manager gets the package up to the applet, which is not empty when the
  parser has found its head, and the machine gets the applet.
\<close>

definition bh_do_install_jta :: "'e BHP_TRANSPORT \<Rightarrow> uint64 \<Rightarrow> mem \<Rightarrow> ('e, BH_RET) bhp" where
  "bh_do_install_jta t seq m =
     (case bh_get_tainfo_by_cmd_pkg_installjta m of (r, ta_id, ta_pkg_offset) \<Rightarrow>
        if r \<noteq> BH_SUCCESS then ret BPE_INVALID_BPK_FILE
        else sd_command t BHP_CMD_INSTALL_JAVATA put64 (take ta_pkg_offset (snd m)) seq (\<lambda>c. c)
          (\<lambda>r code x. do {
             c \<leftarrow> sd_finish True r code x;
             if c \<noteq> BH_SUCCESS then ret c
             else bh_proxy_verifyjavata t CONN_IDX_IVM ta_id (drop ta_pkg_offset (snd m)) })
          (session_exit CONN_IDX_SDM))"

text \<open>These commands send the host's number of the session, \<open>seq\<close>, where the others send the firmware's.\<close>

definition bh_do_install_sd :: "'e BHP_TRANSPORT \<Rightarrow> uint64 \<Rightarrow> mem \<Rightarrow> ('e, BH_RET) bhp" where
  "bh_do_install_sd t seq m =
     sd_command t BHP_CMD_INSTALL_SD (\<lambda>_. put64 seq) (snd m) seq (\<lambda>c. c) (sd_finish False) (session_exit CONN_IDX_SDM)"

definition bh_do_uninstall_sd :: "'e BHP_TRANSPORT \<Rightarrow> uint64 \<Rightarrow> mem \<Rightarrow> ('e, BH_RET) bhp" where
  "bh_do_uninstall_sd t seq m =
     (if bh_get_sdinfo_by_cmd_pkg_uninstallsd m \<noteq> BH_SUCCESS then ret BPE_INVALID_BPK_FILE
      else sd_command t BHP_CMD_UNINSTALL_SD (\<lambda>_. put64 seq) (snd m) seq (\<lambda>c. c) (sd_finish False) (session_exit CONN_IDX_SDM))"

definition bh_do_update_svl :: "'e BHP_TRANSPORT \<Rightarrow> uint64 \<Rightarrow> mem \<Rightarrow> ('e, BH_RET) bhp" where
  "bh_do_update_svl t seq m =
     sd_command t BHP_CMD_UPDATE_SVL (\<lambda>_. put64 seq) (snd m) seq (\<lambda>c. c) (sd_finish False) (session_exit CONN_IDX_SDM)"

definition bh_get_cmdtype_by_cmd_pkg :: "mem \<Rightarrow> BH_RET \<times> int" where
  "bh_get_cmdtype_by_cmd_pkg m =
     (case acp_cmd_id m of None \<Rightarrow> (BHE_FAILED, 0) | Some (r, c) \<Rightarrow> (r, case c of None \<Rightarrow> 0 | Some x \<Rightarrow> x))"

definition send_admin_cmd_pkg :: "'e BHP_TRANSPORT \<Rightarrow> uint64 \<Rightarrow> mem \<Rightarrow> ('e, BH_RET) bhp" where
  "send_admin_cmd_pkg t seq m = do {
     i \<leftarrow> gets inited;
     if \<not> i then ret BPE_NOT_INIT
     else if snd m = [] then ret BPE_INVALID_PARAMS
     else if fst (bh_get_cmdtype_by_cmd_pkg m) \<noteq> BH_SUCCESS then ret BPE_INVALID_BPK_FILE
     else case ac_cmd (snd (bh_get_cmdtype_by_cmd_pkg m)) of
         AC_INSTALL_SD \<Rightarrow> bh_do_install_sd t seq m
       | AC_UNINSTALL_SD \<Rightarrow> bh_do_uninstall_sd t seq m
       | AC_INSTALL_JTA \<Rightarrow> bh_do_install_jta t seq m
       | AC_UNINSTALL_JTA \<Rightarrow> bh_do_uninstall_jta t seq m
       | AC_UPDATE_SVL \<Rightarrow> bh_do_update_svl t seq m
       | _ \<Rightarrow> ret BPE_INVALID_BPK_FILE }"

section \<open>Lists\<close>

text \<open>The identifiers in an answer, as \<^verbatim>\<open>BHP_ListInstalledSDs\<close> and \<^verbatim>\<open>BHP_ListInstalledTAs\<close> take them from it.\<close>

definition id_list :: "nat \<Rightarrow> BH_RET \<Rightarrow> bh_response_record \<Rightarrow> ('e, BH_RET \<times> id_array) bhp" where
  "id_list r code x = do {
     a \<leftarrow> (if code \<noteq> BH_SUCCESS then ret (code, 0, None)
       else case rr_buffer x of
           None \<Rightarrow> ret (BPE_MESSAGE_ILLEGAL, 0, None)
         | Some b \<Rightarrow> do {
             n \<leftarrow> answer32 0 b;
             if n = 0 then ret (BH_SUCCESS, 0, None)
             else if unat (rr_length x) \<noteq> 16 * unat n + 4 then ret (BPE_MESSAGE_ILLEGAL, 0, None)
             else do {
               o1 \<leftarrow> allocateMemory;
               m \<leftarrow> (if o1 then allocate_all (unat n) else ret False);
               ret (if m then (BH_SUCCESS, n, Some (map (\<lambda>e. Some (uuid_to_string e)) (array_entries 16 (unat n) b)))
                    else (BPE_OUT_OF_MEMORY, 0, None)) } });
     rr_upd r (\<lambda>x. x\<lparr>rr_buffer := None\<rparr>);
     ret a }"

definition list_installed_sds :: "'e BHP_TRANSPORT \<Rightarrow> uint64 \<Rightarrow> ('e, BH_RET \<times> id_array) bhp" where
  "list_installed_sds t seq = do {
     i \<leftarrow> gets inited;
     if \<not> i then ret (BPE_NOT_INIT, 0, None)
     else sd_command t BHP_CMD_LIST_SD (\<lambda>_. put64 seq) [] seq (\<lambda>c. (c, 0, None)) id_list (session_exit CONN_IDX_SDM) }"

definition list_installed_tas :: "'e BHP_TRANSPORT \<Rightarrow> uint64 \<Rightarrow> string \<Rightarrow> ('e, BH_RET \<times> id_array) bhp" where
  "list_installed_tas t seq SD_ID = do {
     i \<leftarrow> gets inited;
     if \<not> i then ret (BPE_NOT_INIT, 0, None)
     else case string_to_uuid SD_ID of
         None \<Rightarrow> ret (BPE_INVALID_PARAMS, 0, None)
       | Some sdid \<Rightarrow> sd_command t BHP_CMD_LIST_TA (\<lambda>_. put64 seq @ sdid) [] seq (\<lambda>c. (c, 0, None)) id_list
           (session_exit CONN_IDX_SDM) }"

section \<open>Keys\<close>

text \<open>The answer's block is not freed here; the next command on the session forgets it.\<close>

definition provision_oem_master_key :: "'e BHP_TRANSPORT \<Rightarrow> uint64 \<Rightarrow> byte list \<Rightarrow> ('e, BH_RET) bhp" where
  "provision_oem_master_key t seq omk_blob = do {
     i \<leftarrow> gets inited;
     if \<not> i then ret BPE_NOT_INIT
     else if omk_blob = [] then ret BPE_INVALID_PARAMS
     else sd_command t BHP_CMD_PROVISION_OMK (\<lambda>_. []) omk_blob seq (\<lambda>c. c)
       (\<lambda>r code x. ret (if rr_killed x then BHE_UNCAUGHT_EXCEPTION else code)) (session_exit CONN_IDX_SDM) }"

definition set_ta_encryption_key :: "'e BHP_TRANSPORT \<Rightarrow> uint64 \<Rightarrow> byte list \<Rightarrow> ('e, BH_RET) bhp" where
  "set_ta_encryption_key t seq dek_blob = do {
     i \<leftarrow> gets inited;
     if \<not> i then ret BPE_NOT_INIT
     else if dek_blob = [] then ret BPE_INVALID_PARAMS
     else sd_command t BHP_CMD_SET_DEK (\<lambda>_. []) dek_blob seq (\<lambda>c. c)
       (\<lambda>r code x. ret (if rr_killed x then BHE_UNCAUGHT_EXCEPTION else code)) (session_exit CONN_IDX_SDM) }"

section \<open>Applets in the machine\<close>

text \<open>\<^verbatim>\<open>BHP_ListDownloadedTAs\<close>. The list is of the applets whose domain the firmware confirms to be the one asked for.\<close>

fun keep_of_domain :: "'e BHP_TRANSPORT \<Rightarrow> byte list \<Rightarrow> BH_RET \<Rightarrow> byte list list \<Rightarrow> ('e, BH_RET \<times> byte list list) bhp" where
  "keep_of_domain t sdid code [] = ret (code, [])"
| "keep_of_domain t sdid code (a # as) = do {
     q \<leftarrow> bh_proxy_get_sd_by_ta t a;
     rest \<leftarrow> keep_of_domain t sdid (fst q) as;
     ret (fst rest, if fst q = BH_SUCCESS \<and> snd q = sdid then a # snd rest else snd rest) }"

definition domain_installed :: "'e BHP_TRANSPORT \<Rightarrow> string \<Rightarrow> byte list \<Rightarrow> ('e, BH_RET) bhp" where
  "domain_installed t SD_ID sdid = do {
     o1 \<leftarrow> open_sd_session t SD_ID;
     c \<leftarrow> (if fst o1 \<noteq> BH_SUCCESS then ret (fst o1)
       else do {
         l \<leftarrow> list_installed_sds t (snd o1);
         ret (if fst l \<noteq> BH_SUCCESS then fst l
              else case snd (snd l) of
                  None \<Rightarrow> BHE_SDM_NOT_FOUND
                | Some ids \<Rightarrow> if Some (uuid_to_string sdid) \<in> set ids then BH_SUCCESS else BHE_SDM_NOT_FOUND) });
     (if snd o1 \<noteq> 0 then do { _ \<leftarrow> close_sd_session t (snd o1); ret () } else ret ());
     ret c }"

definition BHP_ListDownloadedTAs :: "'e BHP_TRANSPORT \<Rightarrow> string \<Rightarrow> ('e, BH_RET \<times> id_array) bhp" where
  "BHP_ListDownloadedTAs t SD_ID = do {
     i \<leftarrow> gets inited;
     if \<not> i then ret (BPE_NOT_INIT, 0, None)
     else case string_to_uuid SD_ID of
         None \<Rightarrow> ret (BPE_INVALID_PARAMS, 0, None)
       | Some sdid \<Rightarrow> do {
           c \<leftarrow> domain_installed t SD_ID sdid;
           if c \<noteq> BH_SUCCESS then ret (c, 0, None)
           else do {
             vm \<leftarrow> bh_do_openVM sdid;
             js \<leftarrow> bh_proxy_listJTAPackages t (snd vm);
             _ \<leftarrow> bh_do_closeVM (snd vm);
             if fst js \<noteq> BH_SUCCESS then ret (fst js, 0, None)
             else do {
               k \<leftarrow> keep_of_domain t sdid (fst js) (snd js);
               (case k of (code, ids) \<Rightarrow>
                  if ids = [] then ret (code, 0, None)
                  else do {
                    a \<leftarrow> allocateMemory;
                    m \<leftarrow> (if a then allocate_all (length ids) else ret False);
                    ret (if \<not> m then (BPE_OUT_OF_MEMORY, 0, None)
                         else if code \<noteq> BH_SUCCESS then (code, 0, None)
                         else (code, of_nat (length ids), Some (map (\<lambda>e. Some (uuid_to_string e)) ids))) }) } } } }"

section \<open>The library\<close>

text \<open>
  The library as the plugin of \<open>Beihai_Plugin\<close> sees it, over a transport; the parser and the creation of the transport come from \<open>b\<close>.
\<close>

definition bhp_library :: "'e BHP_TRANSPORT \<Rightarrow> uint64 \<Rightarrow> 'e bhp_state BHP \<Rightarrow> 'e bhp_state BHP" where
  "bhp_library t base b = b\<lparr>
     BHP_Init := (\<lambda>r. run_state (bhp_init t r)),
     BHP_Deinit := (\<lambda>r. run_state (bhp_deinit t r)),
     BHP_OpenSDSession := (\<lambda>i. run_state (open_sd_session t i)),
     BHP_CloseSDSession := (\<lambda>h. run_state (close_sd_session t h)),
     BHP_SendAdminCmdPkg := (\<lambda>h d. run_state (send_admin_cmd_pkg t h (base, d))),
     BHP_ListInstalledTAs := (\<lambda>h i. run_state (list_installed_tas t h i)),
     BHP_ListInstalledSDs := (\<lambda>h. run_state (list_installed_sds t h)),
     BHP_ListTASessions := (\<lambda>a. run_state (do { r \<leftarrow> list_ta_sessions t a; ret (fst r, fst (snd r)) })),
     BHP_QueryTAProperty := (\<lambda>a q. run_state (query_ta_property t a (bytes_of q))),
     BHP_QueryTEEMetadata := run_state (query_tee_metadata t),
     BHP_OpenTASession := (\<lambda>a p d. run_state (open_ta_session t a p d)),
     BHP_CloseTASession := (\<lambda>h. run_state (close_ta_session t h)),
     BHP_ForceCloseTASession := (\<lambda>h. run_state (force_close_ta_session t h)),
     BHP_SendAndRecv := (\<lambda>h c d n. run_state (send_and_recv t h c d n)),
     BHP_SendAndRecvInternal := (\<lambda>h w c d. run_state (do { r \<leftarrow> send_and_recv_internal t h w c d 0; ret (fst r, snd (snd (snd r))) })),
     BHP_ProvisionOemMasterKey := (\<lambda>h k. run_state (provision_oem_master_key t h k)),
     BHP_SetTAEncryptionKey := (\<lambda>h k. run_state (set_ta_encryption_key t h k))\<rparr>"

end
