(* ===== verification/Bhp_Exchange.thy ===== *)
theory Bhp_Exchange
  imports Bhp_Admin
begin

text \<open>
  An exchange of the second Beihai library with the firmware: a command goes out, the receiving thread gets the
  answer in pieces, finds the record that waits for it and wakes the caller. The transport is a stream of bytes
  (locale \<open>byte_stream\<close>); the answer that was sent is what the caller gets.
\<close>

section \<open>Steps on the state\<close>

lemma run_rr_new [simp]:
  "run_state (rr_new x) s = (rr_next s, s\<lparr>rrs := (rrs s)(rr_next s \<mapsto> x), rr_next := Suc (rr_next s)\<rparr>)"
  by (simp add: rr_new_def)

lemma run_rr_get [simp]: "rrs s r = Some x \<Longrightarrow> run_state (rr_get r) s = (x, s)"
  by (simp add: rr_get_def)

lemma run_rr_upd [simp]: "rrs s r = Some x \<Longrightarrow> run_state (rr_upd r f) s = ((), s\<lparr>rrs := (rrs s)(r \<mapsto> f x)\<rparr>)"
  by (simp add: rr_upd_def)

lemma run_rr_free [simp]: "rrs s r = Some x \<Longrightarrow> run_state (rr_free r) s = ((), s\<lparr>rrs := (rrs s)(r := None)\<rparr>)"
  by (simp add: rr_free_def)

lemma run_conn [simp]: "run_state (conn i) s = (connections s i, s)"
  by (simp add: conn_def)

lemma run_conn_upd [simp]:
  "run_state (conn_upd i f) s = ((), s\<lparr>connections := (connections s)(i := f (connections s i))\<rparr>)"
  by (simp add: conn_upd_def)

lemma run_addr2record [simp]: "run_state (addr2record i seq) s = (smap_find (rrmap (connections s i)) seq, s)"
  by (simp add: addr2record_def)

lemma run_create_event [simp]:
  "plugin_mem s = [] \<Longrightarrow> run_state bh_create_event s =
     (Some (evt_next s), s\<lparr>evts := (evts s)(evt_next s \<mapsto> False), evt_next := Suc (evt_next s)\<rparr>)"
  by (simp add: bh_create_event_def run_allocate)

lemma run_signal_event [simp]: "evts s e = Some b \<Longrightarrow> run_state (bh_signal_event e) s = ((), s\<lparr>evts := (evts s)(e \<mapsto> True)\<rparr>)"
  by (simp add: bh_signal_event_def)

lemma run_close_event [simp]: "evts s e = Some b \<Longrightarrow> run_state (bh_close_event e) s = ((), s\<lparr>evts := (evts s)(e := None)\<rparr>)"
  by (simp add: bh_close_event_def)

lemma run_rrmap_remove:
  "smap_find (rrmap (connections s i)) seq = Some r \<Longrightarrow> rrs s r = Some x \<Longrightarrow>
   run_state (rrmap_remove i seq) s = (Some r, if is_session x then s
     else s\<lparr>connections := (connections s)(i := (connections s i)\<lparr>rrmap := smap_erase seq (rrmap (connections s i))\<rparr>)\<rparr>)"
  by (simp add: rrmap_remove_def rrmap_erase_def)

section \<open>The transport as a stream\<close>

text \<open>
  \<open>ready\<close> are the states in which the stream of the handle works and \<open>pending\<close> are the bytes that have not been received
  yet: a read gets some of them.
\<close>

locale byte_stream =
  fixes t :: "'e BHP_TRANSPORT" and h :: uint64 and pending :: "'e \<Rightarrow> byte list" and ready :: "'e \<Rightarrow> bool"
  assumes handle_valid: "ready e \<Longrightarrow> h \<noteq> 0"
    and read_some: "ready e \<Longrightarrow> pending e \<noteq> [] \<Longrightarrow> 0 < n \<Longrightarrow>
      \<exists>k e'. tx_recv t h n e = (Some (take k (pending e)), e') \<and> 0 < k \<and> k \<le> n \<and> ready e' \<and> pending e' = drop k (pending e)"
begin

lemma recv_pieces_stream:
  assumes "ready (fw s)" "k \<le> length (pending (fw s))" "k \<le> n"
  shows "\<exists>e. run_state (recv_pieces t n h k acc) s = (Some (acc @ take k (pending (fw s))), s\<lparr>fw := e\<rparr>)
    \<and> ready e \<and> pending e = drop k (pending (fw s))"
  using assms
proof (induction n arbitrary: k acc s)
  case 0
  then show ?case by (intro exI [of _ "fw s"]) simp
next
  case (Suc n)
  show ?case
  proof (cases "k = 0")
    case True
    then show ?thesis using Suc.prems by (intro exI [of _ "fw s"]) simp
  next
    case False
    let ?p = "pending (fw s)"
    have "?p \<noteq> []" "0 < min k 4096" using False Suc.prems(2) by auto
    then obtain j e where j: "tx_recv t h (min k 4096) (fw s) = (Some (take j ?p), e)" "0 < j" "j \<le> min k 4096" "ready e"
        "pending e = drop j ?p"
      using read_some [OF Suc.prems(1)] by blast
    let ?s = "s\<lparr>fw := e\<rparr>"
    have "j \<le> length ?p" using j(3) Suc.prems(2) by simp
    then have run: "run_state (recv_pieces t (Suc n) h k acc) s = run_state (recv_pieces t n h (k - j) (acc @ take j ?p)) ?s"
      using False j(1,3) by (simp add: run_on_fw min_def)
    have "ready (fw ?s)" "k - j \<le> length (pending (fw ?s))" "k - j \<le> n"
      using j Suc.prems(2,3) by auto
    from Suc.IH [OF this, of "acc @ take j ?p"] obtain e' where
      e': "run_state (recv_pieces t n h (k - j) (acc @ take j ?p)) ?s =
        (Some ((acc @ take j ?p) @ take (k - j) (drop j ?p)), ?s\<lparr>fw := e'\<rparr>)" "ready e'" "pending e' = drop (k - j) (drop j ?p)"
      using j(5) by auto
    have "take j ?p @ take (k - j) (drop j ?p) = take k ?p" "j + (k - j) = k"
      using j(3) by (simp_all add: take_add [symmetric])
    then show ?thesis using run e' by (intro exI [of _ e']) simp
  qed
qed

lemma transport_recv_stream:
  assumes "ready (fw s)" "k \<le> length (pending (fw s))" "k \<le> fuel t"
  shows "\<exists>e. run_state (bh_transport_recv t h k) s = (Some (take k (pending (fw s))), s\<lparr>fw := e\<rparr>)
    \<and> ready e \<and> pending e = drop k (pending (fw s))"
  using recv_pieces_stream [OF assms, of "[]"] handle_valid [OF assms(1)] by (simp add: bh_transport_recv_def)

end

section \<open>Messages of the firmware\<close>

text \<open>A message as \<^verbatim>\<open>bhp_response_header\<close> lays it out; the padding is arbitrary.\<close>

definition response_bytes :: "uint64 \<Rightarrow> uint64 \<Rightarrow> BH_RET \<Rightarrow> byte list \<Rightarrow> byte list \<Rightarrow> byte list" where
  "response_bytes seq addr code pad data =
     BHP_MSG_RESPONSE_MAGIC @ put32 (of_nat (32 + length data)) @ put64 seq @ put64 addr @ put32 code @ pad @ data"

lemma response_fields:
  assumes "length pad = 4"
  shows "take 4 (take 32 (response_bytes seq addr code pad data @ rest)) = BHP_MSG_RESPONSE_MAGIC"
    and "head_length (take 32 (response_bytes seq addr code pad data @ rest)) = of_nat (32 + length data)"
    and "head_seq (take 32 (response_bytes seq addr code pad data @ rest)) = seq"
    and "head_addr (take 32 (response_bytes seq addr code pad data @ rest)) = addr"
    and "head_code (take 32 (response_bytes seq addr code pad data @ rest)) = code"
    and "drop 32 (response_bytes seq addr code pad data @ rest) = data @ rest"
  using assms
  by (simp_all add: response_bytes_def BHP_MSG_RESPONSE_MAGIC_def head_length_def head_seq_def head_addr_def head_code_def
      take_Cons' drop_Cons')

text \<open>A record that has got an answer\<close>

definition answered :: "uint64 \<Rightarrow> BH_RET \<Rightarrow> byte list \<Rightarrow> bh_response_record \<Rightarrow> bh_response_record" where
  "answered addr code data x = x\<lparr>rr_buffer := if data = [] then None else Some data, rr_length := of_nat (length data), rr_code := code,
     rr_addr := if addr \<noteq> 0 then addr else rr_addr x, rr_killed := rr_killed x \<or> is_session x \<and> fatal_code code\<rparr>"

lemma run_deliver:
  assumes "rrs s r = Some x" "wait_event x = Some e" "evts s e = Some b"
  shows "run_state (deliver i r seq addr code (if data = [] then None else Some data) (of_nat (length data))) s =
    ((), s\<lparr>rrs := (rrs s)(r \<mapsto> answered addr code data x), evts := (evts s)(e \<mapsto> True)\<rparr>)"
  using assms by (cases "is_session x \<and> fatal_code code") (auto simp: deliver_def answered_def Let_def)

context byte_stream
begin

lemma recv_body_stream:
  assumes "c_handle (connections s i) = h" "ready (fw s)" "pending (fw s) = data @ rest" "plugin_mem s = []"
    and "32 + length data < 2 ^ 32" "length data \<le> fuel t"
  shows "\<exists>f. run_state (recv_body t i (of_nat (32 + length data))) s =
    ((BH_SUCCESS, if data = [] then None else Some data, of_nat (length data)), s\<lparr>fw := f\<rparr>) \<and> ready f \<and> pending f = rest"
proof (cases "data = []")
  case True
  then show ?thesis using assms(2,3) by (intro exI [of _ "fw s"]) (simp add: recv_body_def)
next
  case False
  have u: "unat (of_nat (32 + length data) :: uint32) = 32 + length data" using assms(5) by (simp only: unat_of_nat) simp
  then have gt: "(of_nat (32 + length data) :: uint32) > 32" using False by (simp add: word_less_nat_alt del: of_nat_add)
  have "unat (of_nat (length data) :: uint32) = length data" using assms(5) by (simp add: unat_of_nat)
  moreover obtain f where "run_state (bh_transport_recv t h (length data)) s = (Some data, s\<lparr>fw := f\<rparr>)" "ready f" "pending f = rest"
    using transport_recv_stream [OF assms(2), of "length data"] assms(3,6) by auto
  ultimately show ?thesis using False gt assms(1,4)
    by (intro exI [of _ f]) (simp add: recv_body_def Let_def run_allocate)
qed

lemma recv_message_stream:
  assumes "c_handle (connections s i) = h" "ready (fw s)" "pending (fw s) = response_bytes seq addr code pad data @ rest"
    and "length pad = 4" "32 + length data < 2 ^ 32" "32 + length data \<le> fuel t" "plugin_mem s = []"
    and "smap_find (rrmap (connections s i)) seq = Some r" "rrs s r = Some x" "wait_event x = Some e" "evts s e = Some b"
  shows "\<exists>f. run_state (bh_recv_message t i) s = (BH_SUCCESS, s\<lparr>fw := f,
      connections := (if is_session x then connections s
        else (connections s)(i := (connections s i)\<lparr>rrmap := smap_erase seq (rrmap (connections s i))\<rparr>)),
      rrs := (rrs s)(r \<mapsto> answered addr code data x), evts := (evts s)(e \<mapsto> True)\<rparr>) \<and> ready f \<and> pending f = rest"
proof -
  let ?p = "response_bytes seq addr code pad data @ rest"
  have "length ?p = 32 + length data + length rest" using assms(4) by (simp add: response_bytes_def BHP_MSG_RESPONSE_MAGIC_def)
  then have "32 \<le> length (pending (fw s))" "32 \<le> fuel t" using assms(3,6) by simp_all
  from transport_recv_stream [OF assms(2) this]
  obtain f where f: "run_state (bh_transport_recv t h 32) s = (Some (take 32 ?p), s\<lparr>fw := f\<rparr>)" "ready f" "pending f = data @ rest"
    unfolding assms(3) response_fields(6) [OF assms(4)] by blast
  let ?c = "if is_session x then connections s
        else (connections s)(i := (connections s i)\<lparr>rrmap := smap_erase seq (rrmap (connections s i))\<rparr>)"
  obtain b s1 where b: "b = take 32 ?p" and s1: "s1 = s\<lparr>fw := f, connections := ?c\<rparr>" by blast
  have rm: "run_state (rrmap_remove i seq) (s\<lparr>fw := f\<rparr>) = (Some r, s1)"
    using run_rrmap_remove [of "s\<lparr>fw := f\<rparr>" i seq r x] assms(8,9) by (simp add: s1)
  have s: "c_handle (connections s1 i) = h" "fw s1 = f" "plugin_mem s1 = []" "rrs s1 = rrs s" "evts s1 = evts s"
    using assms(1,7) by (simp_all add: s1)
  obtain g where g: "run_state (recv_body t i (of_nat (32 + length data))) s1 =
      ((BH_SUCCESS, if data = [] then None else Some data, of_nat (length data)), s1\<lparr>fw := g\<rparr>)" "ready g" "pending g = rest"
    using recv_body_stream [OF s(1), of data rest] s(2,3) f(2,3) assms(5,6) by auto
  have d: "run_state (deliver i r seq addr code (if data = [] then None else Some data) (of_nat (length data))) (s1\<lparr>fw := g\<rparr>) =
      ((), s1\<lparr>fw := g, rrs := (rrs s)(r \<mapsto> answered addr code data x), evts := (evts s)(e \<mapsto> True)\<rparr>)"
    using run_deliver [of "s1\<lparr>fw := g\<rparr>" r x e _ i seq addr code data] s(4,5) assms(9-11) by simp
  have "run_state (bh_recv_message t i) s = (BH_SUCCESS, s1\<lparr>fw := g, rrs := (rrs s)(r \<mapsto> answered addr code data x), evts := (evts s)(e \<mapsto> True)\<rparr>)"
    using f(1) [folded b] rm g(1) d assms(1) response_fields [OF assms(4), of seq addr code data rest, folded b]
    by (simp add: bh_recv_message_def)
  then show ?thesis using g(2,3) by (intro exI [of _ g]) (simp add: s1)
qed

text \<open>A command and its answer: the sender waits for one turn of the receiving thread.\<close>

lemma exchange_stream:
  assumes "c_handle (connections s i) = h" "recv_thread (connections s i)" "plugin_mem s = []" "evts s (evt_next s) = None"
    and "smap_find (rrmap (connections s i)) seq = Some r" "rrs s r = Some x"
    and send: "tx_send t h (command_bytes cmd body input seq) (fw s) = (True, e1)"
      "if input = [] then e2 = e1 else tx_send t h input e1 = (True, e2)"
    and reply: "ready e2" "pending e2 = response_bytes seq addr code pad data @ rest" "length pad = 4"
    and sizes: "32 + length data < 2 ^ 32" "32 + length data \<le> fuel t"
  shows "\<exists>f. run_state (bh_send_message t i cmd body input seq) s = (BH_SUCCESS, s\<lparr>fw := f,
      connections := (if is_session x then connections s
        else (connections s)(i := (connections s i)\<lparr>rrmap := smap_erase seq (rrmap (connections s i))\<rparr>)),
      rrs := (rrs s)(r \<mapsto> (answered addr code data x)\<lparr>wait_event := None\<rparr>), evt_next := Suc (evt_next s)\<rparr>)
    \<and> ready f \<and> pending f = rest"
proof -
  let ?e = "evt_next s"
  let ?x = "x\<lparr>rr_buffer := None, rr_length := 0, wait_event := Some ?e\<rparr>"
  let ?c = "if is_session x then connections s
        else (connections s)(i := (connections s i)\<lparr>rrmap := smap_erase seq (rrmap (connections s i))\<rparr>)"
  obtain s1 where s1: "s1 = s\<lparr>fw := e2, rrs := (rrs s)(r \<mapsto> ?x), evts := (evts s)(?e \<mapsto> False), evt_next := Suc ?e\<rparr>" by blast
  have a: "run_state (send_message t i cmd body input r seq) s = (BH_SUCCESS, s1)"
    using assms(1,3,6) send handle_valid [OF reply(1)]
    by (cases "input = []") (simp_all add: send_message_def bh_transport_send_def run_on_fw s1)
  have c: "connections s1 = connections s" "fw s1 = e2" "plugin_mem s1 = []" "rrs s1 r = Some ?x" "evts s1 ?e = Some False"
    "is_session ?x = is_session x" "(rrs s1)(r \<mapsto> y) = (rrs s)(r \<mapsto> y)" "(evts s1)(?e \<mapsto> True) = (evts s)(?e \<mapsto> True)" for y
    using assms(3) by (simp_all add: s1)
  have ax: "answered addr code data ?x = (answered addr code data x)\<lparr>wait_event := Some ?e\<rparr>" by (simp add: answered_def)
  have w: "wait_event ?x = Some ?e" by simp
  obtain f s2 where f: "run_state (bh_recv_message t i) s1 = (BH_SUCCESS, s2)" "ready f" "pending f = rest"
    and s2: "s2 = s1\<lparr>fw := f, connections := ?c, rrs := (rrs s)(r \<mapsto> (answered addr code data x)\<lparr>wait_event := Some ?e\<rparr>),
      evts := (evts s)(?e \<mapsto> True)\<rparr>"
    using recv_message_stream [of s1 i seq addr code pad data rest r ?x ?e False, unfolded c, OF assms(1) reply sizes refl assms(5) refl w refl]
    unfolding ax by blast
  obtain n where n: "fuel t = Suc n" using sizes(2) by (cases "fuel t") auto
  have turn: "run_state (recv_turn t i) s1 = ((), s2)" using f(1) by (simp add: recv_turn_def)
  have "run_state (bh_wait_event t n i ?e) s2 = ((), s2)" by (cases n) (simp_all add: s2)
  then have wait: "run_state (bh_wait_event t (fuel t) i ?e) s1 = ((), s2)"
    using n c(5) turn assms(2) by (simp add: c(1))
  have ev: "(evts s)(?e := None) = evts s" using assms(4) by (simp add: fun_upd_idem)
  have "run_state (bh_send_message t i cmd body input seq) s =
      (BH_SUCCESS, s2\<lparr>evts := evts s, rrs := (rrs s)(r \<mapsto> (answered addr code data x)\<lparr>wait_event := None\<rparr>)\<rparr>)"
    using a assms(5) wait c(4) by (simp add: bh_send_message_def) (simp add: s2 ev)
  then show ?thesis using f(2,3) by (intro exI [of _ f]) (simp add: s2 s1)
qed

end

section \<open>Send and receive\<close>

lemma run_session_enter:
  assumes "smap_find (rrmap (connections s i)) seq = Some r" "rrs s r = Some x" "is_session x" "\<not> rr_killed x" "rr_count x < 20"
  shows "run_state (session_enter i seq l) s = (Some r, s\<lparr>rrs := (rrs s)(r \<mapsto> x\<lparr>rr_count := rr_count x + 1\<rparr>)\<rparr>)"
  using assms by (cases l) (simp_all add: session_enter_def session_take_def)

lemma run_session_exit:
  assumes "rrs s r = Some x" "\<not> rr_killed x"
  shows "run_state (session_exit i r seq) s = ((), s\<lparr>rrs := (rrs s)(r \<mapsto> x\<lparr>rr_count := rr_count x - 1\<rparr>)\<rparr>)"
  using assms by (simp add: session_exit_def)

lemma run_session_close_last:
  assumes "rrs s r = Some x" "rr_count x = 1" "i \<le> CONN_IDX_IVM"
  shows "run_state (session_close i r seq) s = ((), s\<lparr>rrs := (rrs s)(r := None),
    connections := (connections s)(i := (connections s i)\<lparr>rrmap := smap_erase seq (rrmap (connections s i))\<rparr>)\<rparr>)"
  using assms by (simp add: session_close_def drop_session_def rrmap_erase_def destroy_session_def)

context byte_stream
begin

text \<open>A command on a session, whatever the code of the answer.\<close>

lemma session_request_stream:
  assumes "c_handle (connections s i) = h" "recv_thread (connections s i)" "plugin_mem s = []" "evts s (evt_next s) = None"
    and "smap_find (rrmap (connections s i)) seq = Some r" "rrs s r = Some x" "is_session x"
    and send: "tx_send t h (command_bytes cmd (body (rr_addr x)) input seq) (fw s) = (True, e1)"
      "if input = [] then e2 = e1 else tx_send t h input e1 = (True, e2)"
    and reply: "ready e2" "pending e2 = response_bytes seq addr code pad data @ rest" "length pad = 4"
    and sizes: "32 + length data < 2 ^ 32" "32 + length data \<le> fuel t"
  shows "\<exists>f. run_state (session_request t i cmd body input r seq) s =
      ((code, (answered addr code data x)\<lparr>wait_event := None\<rparr>),
       s\<lparr>fw := f, rrs := (rrs s)(r \<mapsto> (answered addr code data x)\<lparr>wait_event := None\<rparr>), evt_next := Suc (evt_next s)\<rparr>)
    \<and> ready f \<and> pending f = rest"
proof -
  obtain s1 where s1: "s1 = s\<lparr>rrs := (rrs s)(r \<mapsto> x\<lparr>rr_buffer := None\<rparr>)\<rparr>" by blast
  let ?x = "x\<lparr>rr_buffer := None\<rparr>"
  have c: "connections s1 = connections s" "fw s1 = fw s" "plugin_mem s1 = []" "rrs s1 r = Some ?x" "evts s1 = evts s"
    "evt_next s1 = evt_next s" "is_session ?x" "answered addr code data ?x = answered addr code data x"
    using assms(3,7) by (simp_all add: s1 answered_def)
  obtain f s2 where f: "run_state (bh_send_message t i cmd (body (rr_addr x)) input seq) s1 = (BH_SUCCESS, s2)" "ready f" "pending f = rest"
    and s2: "s2 = s1\<lparr>fw := f, connections := connections s, rrs := (rrs s1)(r \<mapsto> (answered addr code data x)\<lparr>wait_event := None\<rparr>),
      evt_next := Suc (evt_next s)\<rparr>"
    using exchange_stream [of s1 i seq r ?x cmd "body (rr_addr x)" input e1 e2 addr code pad data rest, unfolded c(1-6,8),
      OF assms(1,2) refl assms(4,5) refl send reply sizes] c(7) by auto
  have "rrs s2 r = Some ((answered addr code data x)\<lparr>wait_event := None\<rparr>)" by (simp add: s2)
  moreover have "rr_code ((answered addr code data x)\<lparr>wait_event := None\<rparr>) = code" by (simp add: answered_def)
  moreover have "run_state (rr_upd r (rr_buffer_update (\<lambda>_. None))) s = ((), s1)" using assms(6) by (simp add: s1)
  moreover have "s2 = s\<lparr>fw := f, rrs := (rrs s)(r \<mapsto> (answered addr code data x)\<lparr>wait_event := None\<rparr>), evt_next := Suc (evt_next s)\<rparr>"
    by (simp add: s2 s1)
  ultimately show ?thesis using f c(4) by (intro exI [of _ f]) (simp add: session_request_def)
qed

end

text \<open>What the caller of \<^verbatim>\<open>BHP_SendAndRecv\<close> gets of an applet's response and answer, with room for \<open>n\<close> bytes.\<close>

definition snr_result :: "uint32 \<Rightarrow> byte list \<Rightarrow> uint32 \<Rightarrow> BH_RET \<times> byte list option \<times> uint32 \<times> uint32 option" where
  "snr_result response answer n =
     (if answer = [] then (BH_SUCCESS, None, 0, Some response)
      else if length answer \<le> unat n then (BH_SUCCESS, Some answer, of_nat (length answer), Some response)
      else (BHE_APPLET_SMALL_BUFFER, None, of_nat (length answer), Some response))"

lemma put32_ne: "put32 w \<noteq> []"
  using length_put(2) [of w] by force

lemma run_snr_answer:
  assumes "rr_buffer x = Some (rev (put32 response) @ answer)" "rr_length x = of_nat (4 + length answer)" "4 + length answer < 2 ^ 32"
    "plugin_mem s = []"
  shows "run_state (snr_answer BH_SUCCESS x n) s = (snr_result response answer n, s)"
proof -
  have u: "unat (of_nat (4 + length answer) :: uint32) = 4 + length answer" using assms(3) by (simp only: unat_of_nat) simp
  then have ge: "(4 :: uint32) \<le> of_nat (4 + length answer)" by (simp add: word_le_nat_alt del: of_nat_add)
  have l: "(of_nat (length answer) :: uint32) = 0 \<longleftrightarrow> answer = []" "unat (of_nat (length answer) :: uint32) = length answer"
    using assms(3) by (auto simp: unat_of_nat unsigned_of_nat dest: arg_cong [where f = unat])
  then have le: "(of_nat (length answer) :: uint32) \<le> n \<longleftrightarrow> length answer \<le> unat n" by (simp add: word_le_nat_alt)
  show ?thesis using assms(1,2,4) ge l le
    by (auto simp: snr_answer_def snr_result_def Let_def byte_order_swapi_def run_allocate)
qed

context byte_stream
begin

lemma snr_call_stream:
  assumes "inited s" "c_handle (connections s CONN_IDX_IVM) = h" "recv_thread (connections s CONN_IDX_IVM)" "plugin_mem s = []"
    and "evts s (evt_next s) = None" "smap_find (rrmap (connections s CONN_IDX_IVM)) seq = Some r" "rrs s r = Some x" "is_session x"
    and "\<not> rr_killed x" "rr_count x < 20"
    and send: "tx_send t h (command_bytes cmd (body (rr_addr x)) input seq) (fw s) = (True, e1)"
      "if input = [] then e2 = e1 else tx_send t h input e1 = (True, e2)"
    and reply: "ready e2" "pending e2 = response_bytes seq addr BH_SUCCESS pad (rev (put32 response) @ answer) @ rest" "length pad = 4"
    and sizes: "36 + length answer < 2 ^ 32" "36 + length answer \<le> fuel t"
  shows "\<exists>f y. run_state (snr_call t cmd body seq input n) s =
      (snr_result response answer n, s\<lparr>fw := f, rrs := (rrs s)(r \<mapsto> y), evt_next := Suc (evt_next s)\<rparr>)
    \<and> ready f \<and> pending f = rest \<and> wait_event y = None \<and> is_session y \<and> \<not> rr_killed y \<and> rr_count y = rr_count x
    \<and> rr_addr y = (if addr \<noteq> 0 then addr else rr_addr x)"
proof -
  let ?data = "rev (put32 response) @ answer"
  obtain s1 x1 where s1: "s1 = s\<lparr>rrs := (rrs s)(r \<mapsto> x1)\<rparr>" and x1: "x1 = x\<lparr>rr_count := rr_count x + 1\<rparr>" by blast
  have enter: "run_state (session_enter_vm seq True) s = (Some r, s1)"
    using run_session_enter [OF assms(6-10)] by (simp add: session_enter_vm_def s1 x1)
  have c: "connections s1 = connections s" "fw s1 = fw s" "plugin_mem s1 = []" "rrs s1 r = Some x1" "evts s1 = evts s"
    "evt_next s1 = evt_next s" "is_session x1" "rr_addr x1 = rr_addr x" "(rrs s1)(r \<mapsto> y) = (rrs s)(r \<mapsto> y)" for y
    using assms(4,8) by (simp_all add: s1 x1)
  let ?y = "(answered addr BH_SUCCESS ?data x1)\<lparr>wait_event := None\<rparr>"
  have l: "32 + length ?data < 2 ^ 32" "32 + length ?data \<le> fuel t" using sizes by simp_all
  obtain f s2 where f: "run_state (session_request t CONN_IDX_IVM cmd body input r seq) s1 = ((BH_SUCCESS, ?y), s2)" "ready f" "pending f = rest"
    and s2: "s2 = s1\<lparr>fw := f, rrs := (rrs s)(r \<mapsto> ?y), evt_next := Suc (evt_next s)\<rparr>"
    using session_request_stream [of s1 CONN_IDX_IVM seq r x1 cmd body input e1 e2 addr BH_SUCCESS pad ?data rest, unfolded c(1-6,8-9),
      OF assms(2,3) refl assms(5,6) refl c(7) send reply l] by blast
  have y: "rr_buffer ?y = Some ?data" "rr_length ?y = of_nat (4 + length answer)" "rr_killed ?y = False" "rr_count ?y = rr_count x + 1"
    "is_session ?y" "rr_addr ?y = (if addr \<noteq> 0 then addr else rr_addr x)"
    using assms(8,9) put32_ne by (simp_all add: answered_def x1 fatal_code_def)
  have ans: "run_state (snr_answer BH_SUCCESS ?y n) s2 = (snr_result response answer n, s2)"
    by (rule run_snr_answer) (use y sizes c(3) in \<open>simp_all add: s2\<close>)
  have r2: "rrs s2 r = Some ?y" by (simp add: s2)
  let ?z = "?y\<lparr>rr_buffer := None, rr_count := rr_count x\<rparr>"
  have "run_state (snr_call t cmd body seq input n) s = (snr_result response answer n, s2\<lparr>rrs := (rrs s2)(r \<mapsto> ?z)\<rparr>)"
    using assms(1) enter f(1) ans r2 y(3,4) by (simp add: snr_call_def Let_def run_session_exit)
  moreover have "s2\<lparr>rrs := (rrs s2)(r \<mapsto> ?z)\<rparr> = s\<lparr>fw := f, rrs := (rrs s)(r \<mapsto> ?z), evt_next := Suc (evt_next s)\<rparr>"
    by (simp add: s2 s1)
  ultimately show ?thesis using f(2,3) y by (intro exI [of _ f] exI [of _ ?z]) simp
qed

end

end
