(* ===== verification/Bhp_Properties.thy ===== *)
theory Bhp_Properties
  imports Bhp_Exchange Dal_Device Acp_Properties
begin

text \<open>
  The second Beihai library between the plugin and a transport: what an applet answers is what the service gets, over
  every transport that is a stream, the DAL device among them.
\<close>

section \<open>The DAL device as the transport\<close>

text \<open>The wrappers of the plugin (\<^verbatim>\<open>sendWrapper\<close>, \<^verbatim>\<open>recvWrapper\<close>, \<^verbatim>\<open>connectWrapper\<close>, \<^verbatim>\<open>closeWrapper\<close>) over the device\<close>

definition dal_transport :: "nat \<Rightarrow> dal_device BHP_TRANSPORT" where
  "dal_transport n = \<lparr>
     tx_connect = (\<lambda>p k. case DAL_Device_Connect p k of ((r, v), k') \<Rightarrow> ((r = TEE_COMM_SUCCESS, case v of None \<Rightarrow> 0 | Some h \<Rightarrow> h), k')),
     tx_close = (\<lambda>h k. ((), snd (DAL_Device_Disconnect h k))),
     tx_send = (\<lambda>h d k. case DAL_Device_Send h (Some d) k of (r, k') \<Rightarrow> (r = TEE_COMM_SUCCESS, k')),
     tx_recv = (\<lambda>h m k. case DAL_Device_Recv h m k of ((r, v), k') \<Rightarrow> (if r = TEE_COMM_SUCCESS then v else None, k')),
     fuel = n \<rparr>"

text \<open>What the device has to read, and that the next reads will find it: no failure and no empty read among them.\<close>

definition dal_pending :: "dal_device \<Rightarrow> byte list" where
  "dal_pending k = concat (map (\<lambda>p. case p of None \<Rightarrow> [] | Some bs \<Rightarrow> bs) (dal_input k))"

definition dal_ready :: "uint64 \<Rightarrow> dal_device \<Rightarrow> bool" where
  "dal_ready h k \<longleftrightarrow> h \<noteq> 0 \<and> h \<noteq> - 1 \<and> dal_initialized k \<and> sint h \<in> set (dal_fds k)
     \<and> list_all (\<lambda>p. p \<noteq> None \<and> p \<noteq> Some []) (dal_input k)"

interpretation dal_stream: byte_stream "dal_transport n" h dal_pending "dal_ready h" for n h
proof unfold_locales
  fix e :: dal_device
  assume "dal_ready h e"
  then show "h \<noteq> 0" by (simp add: dal_ready_def)
next
  fix e :: dal_device and m :: nat
  assume e: "dal_ready h e" "dal_pending e \<noteq> []" and m: "0 < m"
  obtain bs q where q: "dal_input e = Some bs # q" "bs \<noteq> []"
    using e by (cases "dal_input e") (auto simp: dal_ready_def dal_pending_def)
  let ?e = "e\<lparr>dal_input := if length bs \<le> m then q else Some (drop m bs) # q\<rparr>"
  have "tx_recv (dal_transport n) h m e = (Some (take m bs), ?e)"
    using e(1) q(1) by (simp add: dal_transport_def DAL_Device_Recv_def dal_read_def dal_ready_def)
  moreover have "take (min m (length bs)) (dal_pending e) = take m bs" "dal_pending ?e = drop (min m (length bs)) (dal_pending e)"
    using q(1) by (simp_all add: dal_pending_def min_def)
  moreover have "dal_ready h ?e" using e(1) q by (simp add: dal_ready_def)
  moreover have "0 < min m (length bs)" using q(2) m by simp
  ultimately show "\<exists>k e'. tx_recv (dal_transport n) h m e = (Some (take k (dal_pending e)), e') \<and> 0 < k \<and> k \<le> m \<and> dal_ready h e'
      \<and> dal_pending e' = drop k (dal_pending e)"
    by (intro exI [of _ "min m (length bs)"] exI [of _ ?e]) auto
qed

section \<open>An answer reaches the service\<close>


text \<open>A session with the number 9 over the device, whose answer comes in three pieces.\<close>

definition sample_answer :: "byte list" where
  "sample_answer = response_bytes 9 77 BH_SUCCESS [0, 0, 0, 0] (rev (put32 3) @ [1, 2])"

definition sample_library :: "dal_device bhp_state" where
  "sample_library = (bhp_new ((sample_dal [])\<lparr>dal_input := [Some (take 10 sample_answer), Some (take 24 (drop 10 sample_answer)),
       Some (drop 34 sample_answer)]\<rparr>))
     \<lparr>inited := True,
      connections := (\<lambda>i. if i = 3 then \<lparr> c_handle = 5, rrmap = [(9, 0)], recv_thread = True, conn_count = 0 \<rparr> else no_connection),
      rrs := (\<lambda>i. if i = 0 then Some (rr_zero\<lparr>is_session := True, rr_addr := 77\<rparr>) else None), rr_next := 1\<rparr>"


end
