(* ===== verification/Bh1_Library.thy ===== *)
theory Bh1_Library
  imports Bhp_Applets Beihai_V1
begin

text \<open>
  The first Beihai library, \<^verbatim>\<open>jhi_lib/BeihaiPlugin.cpp\<close>, Linux build. It has one connection, which the plugin opens, one
  map of records and one receiving thread. Its records, events and sessions are those of \<open>Bhp_Core\<close>, on the connection 0: the functions
  on them are the same in both libraries, statement for statement, unless they are defined again here.
\<close>

section \<open>State\<close>

abbreviation BPE1_NOT_INIT :: BH_RET where "BPE1_NOT_INIT \<equiv> 0xF0001000"
abbreviation BPE1_SERVICE_UNAVAILABLE :: BH_RET where "BPE1_SERVICE_UNAVAILABLE \<equiv> 0xF0001001"
abbreviation BPE1_INTERNAL_ERROR :: BH_RET where "BPE1_INTERNAL_ERROR \<equiv> 0xF0001002"
abbreviation BPE1_COMMS_ERROR :: BH_RET where "BPE1_COMMS_ERROR \<equiv> 0xF0001003"
abbreviation BPE1_OUT_OF_MEMORY :: BH_RET where "BPE1_OUT_OF_MEMORY \<equiv> 0xF0001004"
abbreviation BPE1_INVALID_PARAMS :: BH_RET where "BPE1_INVALID_PARAMS \<equiv> 0xF0001005"
abbreviation BPE1_MESSAGE_TOO_SHORT :: BH_RET where "BPE1_MESSAGE_TOO_SHORT \<equiv> 0xF0001006"
abbreviation BPE1_MESSAGE_ILLEGAL :: BH_RET where "BPE1_MESSAGE_ILLEGAL \<equiv> 0xF0001007"
abbreviation BPE1_OUT_OF_RESOURCE :: BH_RET where "BPE1_OUT_OF_RESOURCE \<equiv> 0xF000100A"
abbreviation BPE1_INITIALIZED_ALREADY :: BH_RET where "BPE1_INITIALIZED_ALREADY \<equiv> 0xF000100B"

datatype init_state_t = DEINITED | INITED | OUT_OF_SERVICE

text \<open>The pointer \<^verbatim>\<open>recv_thread\<close> is null before the first thread is made; it stays when the thread has been joined.\<close>

datatype thread_state = No_thread | Running | Ended | Joined

text \<open>
  \<open>garbage\<close> and \<open>garbage_record\<close> are what memory holds that the source does not initialize: the padding of a command on the stack, and
  a record of a session as \<^verbatim>\<open>malloc\<close> returns it. \<^verbatim>\<open>start_event\<close> is left out, as nothing waits for it.
\<close>

record 'e bh1_state =
  core :: "'e bhp_state"
  init_state1 :: init_state_t
  recv_thread1 :: thread_state
  tdesc :: uint32
  handle1 :: uint32
  seqno :: uint64
  garbage :: "byte list"
  garbage_record :: bh_response_record

type_synonym ('e, 'a) bh1 = "('e bh1_state, 'a) state"

definition bh1_new :: "byte list \<Rightarrow> bh_response_record \<Rightarrow> 'e \<Rightarrow> 'e bh1_state" where
  "bh1_new pad x e = \<lparr> core = bhp_new e, init_state1 = DEINITED, recv_thread1 = No_thread, tdesc = 0, handle1 = 0, seqno = 1000,
     garbage = pad, garbage_record = x \<rparr>"

definition on_core :: "('e, 'a) bhp \<Rightarrow> ('e, 'a) bh1" where
  "on_core m = zoom core (\<lambda>c s. s\<lparr>core := c\<rparr>) m"

section \<open>Records\<close>

definition session_enter_nolock :: "uint64 \<Rightarrow> ('e, nat option) bh1" where
  "session_enter_nolock seq = on_core (session_take 0 seq)"

definition session_enter1 :: "uint64 \<Rightarrow> ('e, nat option) bh1" where
  "session_enter1 seq = on_core (session_enter 0 seq True)"

definition session_exit1 :: "nat \<Rightarrow> uint64 \<Rightarrow> ('e, unit) bh1" where
  "session_exit1 r seq = on_core (session_exit 0 r seq)"

text \<open>\<^verbatim>\<open>session_close\<close>, and \<^verbatim>\<open>session_close_nolock\<close>, which leaves the lock alone\<close>

definition session_close1 :: "nat \<Rightarrow> uint64 \<Rightarrow> ('e, unit) bh1" where
  "session_close1 r seq = on_core (session_close 0 r seq)"

definition rrmap_add1 :: "nat \<Rightarrow> ('e, uint64) bh1" where
  "rrmap_add1 r = do {
     seq \<leftarrow> gets seqno;
     modify (\<lambda>s. s\<lparr>seqno := seq + 1\<rparr>);
     on_core (conn_upd 0 (\<lambda>c. c\<lparr>rrmap := smap_put seq r (rrmap c)\<rparr>));
     ret seq }"

text \<open>A new record is entered into the map.\<close>

definition register1 :: "bh_response_record \<Rightarrow> ('e, nat \<times> uint64) bh1" where
  "register1 x = do { r \<leftarrow> on_core (rr_new x); seq \<leftarrow> rrmap_add1 r; ret (r, seq) }"

section \<open>Identifiers\<close>

text \<open>With dashes a string must have 36 characters; whether the dashes are there, and what follows 32 digits, is not checked.\<close>

fun leading_digits :: "nat \<Rightarrow> string \<Rightarrow> bool" where
  "leading_digits 0 s = True"
| "leading_digits (Suc n) [] = False"
| "leading_digits (Suc n) (c # s) =
     (if c = CHR ''-'' \<and> 31 - n \<in> {8, 12, 16, 20}
      then (case s of [] \<Rightarrow> False | d # s' \<Rightarrow> hex_char d \<and> leading_digits n s')
      else hex_char c \<and> leading_digits n s)"

definition string_to_uuid1 :: "string \<Rightarrow> byte list option" where
  "string_to_uuid1 s = (if string_check1_uuid s \<or> length s = 36 \<and> leading_digits 32 s then Some (uuid_digits 16 s) else None)"

section \<open>Transport\<close>

definition bh_transport_recv1 :: "'e BHP_TRANSPORT \<Rightarrow> nat \<Rightarrow> ('e, byte list option) bh1" where
  "bh_transport_recv1 t k = do { d \<leftarrow> gets tdesc; if d = 0 then ret None else on_core (recv_pieces t (fuel t) (ucast d) k []) }"

definition bh_transport_send1 :: "'e BHP_TRANSPORT \<Rightarrow> byte list \<Rightarrow> ('e, BH_RET) bh1" where
  "bh_transport_send1 t b = do {
     d \<leftarrow> gets tdesc;
     if d = 0 then ret BPE1_COMMS_ERROR
     else do { ok \<leftarrow> on_core (on_fw (tx_send t (ucast d) b)); ret (if ok then BH_SUCCESS else BPE1_COMMS_ERROR) } }"

text \<open>A length below the one of the head wraps around.\<close>

definition recv_body1 :: "'e BHP_TRANSPORT \<Rightarrow> uint32 \<Rightarrow> ('e, BH_RET \<times> byte list option) bh1" where
  "recv_body1 t len =
     (if len \<noteq> 32 then do {
        let dlen = len - 32;
        a \<leftarrow> on_core allocateMemory;
        d \<leftarrow> bh_transport_recv1 t (unat dlen);
        ret (case d of
            None \<Rightarrow> (BPE1_COMMS_ERROR, if a then Some (replicate (unat dlen) 0) else None)
          | Some bs \<Rightarrow> if a then (BH_SUCCESS, Some bs) else (BPE1_OUT_OF_MEMORY, None)) }
      else ret (BH_SUCCESS, None))"

definition deliver1 :: "nat \<Rightarrow> uint64 \<Rightarrow> BH_RET \<Rightarrow> byte list option \<Rightarrow> uint32 \<Rightarrow> ('e, unit) bhp" where
  "deliver1 r addr code data dlen = do {
     rr_upd r (\<lambda>x. x\<lparr>rr_buffer := data, rr_length := dlen, rr_code := code,
       rr_addr := if addr \<noteq> 0 then addr else rr_addr x\<rparr>);
     x \<leftarrow> rr_get r;
     (case wait_event x of None \<Rightarrow> ret () | Some e \<Rightarrow> bh_signal_event e) }"

definition bh_recv_message1 :: "'e BHP_TRANSPORT \<Rightarrow> ('e, BH_RET) bh1" where
  "bh_recv_message1 t = do {
     m \<leftarrow> bh_transport_recv1 t 32;
     (case m of
        None \<Rightarrow> ret BPE1_COMMS_ERROR
      | Some b \<Rightarrow>
          if take 4 b \<noteq> BHP_MSG_RESPONSE_MAGIC then ret BPE1_COMMS_ERROR
          else do {
            rr \<leftarrow> on_core (rrmap_remove 0 (head_seq b));
            d \<leftarrow> recv_body1 t (head_length b);
            (case rr of
               None \<Rightarrow> ret ()
             | Some r \<Rightarrow> on_core (deliver1 r (head_addr b) (if fst d = BH_SUCCESS then head_code b else fst d) (snd d) (head_length b - 32)));
            ret (fst d) }) }"

text \<open>Every session is killed; those that nobody uses are destroyed, and all entries go.\<close>

definition unblock_one1 :: "BH_RET \<Rightarrow> uint64 \<times> nat \<Rightarrow> ('e, unit) bhp" where
  "unblock_one1 code = (\<lambda>(seq, r). do {
     rr_upd r (\<lambda>x. x\<lparr>rr_code := code, rr_killed := rr_killed x \<or> is_session x\<rparr>);
     x \<leftarrow> rr_get r;
     (case wait_event x of None \<Rightarrow> ret () | Some e \<Rightarrow> bh_signal_event e);
     (if is_session x \<and> rr_count x = 0 then destroy_session r else ret ()) })"

definition unblock_threads1 :: "BH_RET \<Rightarrow> ('e, unit) bhp" where
  "unblock_threads1 code = do {
     c \<leftarrow> conn 0;
     for_each (unblock_one1 code) (rrmap c);
     conn_upd 0 (\<lambda>c. c\<lparr>rrmap := []\<rparr>) }"

text \<open>One turn of \<^verbatim>\<open>recv_thread_main\<close>: when it ends before the library is initialized, nobody is woken.\<close>

definition recv_thread_turn :: "'e BHP_TRANSPORT \<Rightarrow> ('e, unit) bh1" where
  "recv_thread_turn t = do {
     r \<leftarrow> bh_recv_message1 t;
     if r = BH_SUCCESS then ret ()
     else do {
       i \<leftarrow> gets init_state1;
       (if i = INITED then do { modify (\<lambda>s. s\<lparr>init_state1 := OUT_OF_SERVICE\<rparr>); on_core (unblock_threads1 r) } else ret ());
       modify (\<lambda>s. s\<lparr>recv_thread1 := Ended\<rparr>) } }"

fun bh_event_wait :: "'e BHP_TRANSPORT \<Rightarrow> nat \<Rightarrow> nat \<Rightarrow> ('e, unit) bh1" where
  "bh_event_wait t 0 e = do { v \<leftarrow> gets (\<lambda>s. evts (core s) e); if v = Some True then ret () else on_core hang }"
| "bh_event_wait t (Suc n) e = do {
     v \<leftarrow> gets (\<lambda>s. evts (core s) e);
     if v = Some True then ret ()
     else do {
       th \<leftarrow> gets recv_thread1;
       if th \<noteq> Running then on_core hang else do { recv_thread_turn t; bh_event_wait t n e } } }"

definition command_bytes1 :: "byte list \<Rightarrow> uint32 \<Rightarrow> byte list \<Rightarrow> byte list \<Rightarrow> uint64 \<Rightarrow> byte list" where
  "command_bytes1 pad cmd body data seq =
     BHP_MSG_CMD_MAGIC @ put32 (of_nat (24 + length body + length data)) @ put64 seq @ put32 cmd @ pad @ body"

definition send_message1 :: "'e BHP_TRANSPORT \<Rightarrow> uint32 \<Rightarrow> byte list \<Rightarrow> byte list \<Rightarrow> nat \<Rightarrow> uint64 \<Rightarrow> ('e, BH_RET) bh1" where
  "send_message1 t cmd body data r seq = do {
     on_core (rr_upd r (\<lambda>x. x\<lparr>rr_buffer := None, rr_length := 0\<rparr>));
     ev \<leftarrow> on_core bh_create_event;
     on_core (rr_upd r (\<lambda>x. x\<lparr>wait_event := ev\<rparr>));
     (case ev of
        None \<Rightarrow> do { on_core (rrmap_remove 0 seq); ret BPE1_OUT_OF_RESOURCE }
      | Some e \<Rightarrow> do {
          pad \<leftarrow> gets garbage;
          r1 \<leftarrow> bh_transport_send1 t (command_bytes1 pad cmd body data seq);
          r2 \<leftarrow> (if r1 = BH_SUCCESS \<and> data \<noteq> [] then bh_transport_send1 t data else ret r1);
          if r2 \<noteq> BH_SUCCESS then do { on_core (bh_close_event e); on_core (rrmap_remove 0 seq); ret r2 } else ret BH_SUCCESS }) }"

text \<open>A number without a record ends the process (\<^verbatim>\<open>abort\<close>).\<close>

definition bh_send_message1 :: "'e BHP_TRANSPORT \<Rightarrow> uint32 \<Rightarrow> byte list \<Rightarrow> byte list \<Rightarrow> uint64 \<Rightarrow> ('e, BH_RET) bh1" where
  "bh_send_message1 t cmd body data seq = do {
     m \<leftarrow> on_core (addr2record 0 seq);
     (case m of
        None \<Rightarrow> do { on_core plugin_crash; ret BPE1_INTERNAL_ERROR }
      | Some r \<Rightarrow> do {
          code \<leftarrow> send_message1 t cmd body data r seq;
          if code = BH_SUCCESS then do {
            x \<leftarrow> on_core (rr_get r);
            (case wait_event x of
               None \<Rightarrow> ret ()
             | Some e \<Rightarrow> do {
                 bh_event_wait t (fuel t) e;
                 on_core (bh_close_event e);
                 on_core (rr_upd r (\<lambda>x. x\<lparr>wait_event := None\<rparr>)) });
            ret code }
          else ret code }) }"

text \<open>A command with a record on the stack of its function\<close>

definition proxy_call1 :: "'e BHP_TRANSPORT \<Rightarrow> uint32 \<Rightarrow> byte list \<Rightarrow> byte list \<Rightarrow> ('e, BH_RET \<times> bh_response_record) bh1" where
  "proxy_call1 t cmd body data = do {
     n \<leftarrow> register1 rr_zero;
     (case n of (r, seq) \<Rightarrow> do {
        code \<leftarrow> bh_send_message1 t cmd body data seq;
        x \<leftarrow> on_core (rr_get r);
        on_core (rr_free r);
        ret (if code = BH_SUCCESS then rr_code x else code, x) }) }"

section \<open>Start, stop, reset\<close>

text \<open>The numbers of \<^verbatim>\<open>host_command_id\<close>\<close>

abbreviation (input) HOST_CMD_SENDANDRECV :: uint32 where "HOST_CMD_SENDANDRECV \<equiv> 2"
abbreviation (input) HOST_CMD_DELETE :: uint32 where "HOST_CMD_DELETE \<equiv> 3"
abbreviation (input) HOST_CMD_DOWNLOAD :: uint32 where "HOST_CMD_DOWNLOAD \<equiv> 4"
abbreviation (input) HOST_CMD_QUERYAPI :: uint32 where "HOST_CMD_QUERYAPI \<equiv> 5"
abbreviation (input) HOST_CMD_CREATE_SESSION :: uint32 where "HOST_CMD_CREATE_SESSION \<equiv> 6"
abbreviation (input) HOST_CMD_CLOSE_SESSION :: uint32 where "HOST_CMD_CLOSE_SESSION \<equiv> 7"
abbreviation (input) HOST_CMD_RESET :: uint32 where "HOST_CMD_RESET \<equiv> 8"
abbreviation (input) HOST_CMD_LIST_PACKAGES :: uint32 where "HOST_CMD_LIST_PACKAGES \<equiv> 9"
abbreviation (input) HOST_CMD_LIST_SESSIONS :: uint32 where "HOST_CMD_LIST_SESSIONS \<equiv> 10"
abbreviation (input) HOST_CMD_LIST_PROPERTIES :: uint32 where "HOST_CMD_LIST_PROPERTIES \<equiv> 11"
abbreviation (input) HOST_CMD_FORCE_CLOSE_SESSION :: uint32 where "HOST_CMD_FORCE_CLOSE_SESSION \<equiv> 12"
abbreviation (input) HOST_CMD_SENDANDRECV_INTERNAL :: uint32 where "HOST_CMD_SENDANDRECV_INTERNAL \<equiv> 13"

definition teardown :: "('e, unit) bh1" where
  "teardown = do { modify (\<lambda>s. s\<lparr>tdesc := 0\<rparr>); on_core (unblock_threads1 BPE1_SERVICE_UNAVAILABLE) }"

definition bh_transport_init :: "uint32 \<Rightarrow> ('e, unit) bh1" where
  "bh_transport_init h = modify (\<lambda>s. s\<lparr>tdesc := h, handle1 := h\<rparr>)"

text \<open>A thread that cannot be made is not reported, and a thread that was joined is not replaced.\<close>

definition init1 :: "uint32 \<Rightarrow> ('e, BH_RET) bh1" where
  "init1 h = do {
     on_core (conn_upd 0 (\<lambda>c. c\<lparr>rrmap := []\<rparr>));
     bh_transport_init h;
     th \<leftarrow> gets recv_thread1;
     (if th = No_thread then do {
        a \<leftarrow> on_core allocateMemory;
        if a then modify (\<lambda>s. s\<lparr>recv_thread1 := Running\<rparr>) else ret () }
      else ret ());
     ret BH_SUCCESS }"

definition reset1 :: "'e BHP_TRANSPORT \<Rightarrow> ('e, BH_RET) bh1" where
  "reset1 t = do { r \<leftarrow> proxy_call1 t HOST_CMD_RESET [] []; ret (fst r) }"

definition plugin_init :: "'e BHP_TRANSPORT \<Rightarrow> uint32 \<Rightarrow> bool \<Rightarrow> ('e, BH_RET) bh1" where
  "plugin_init t h rst = do {
     i \<leftarrow> gets init_state1;
     (case i of
        INITED \<Rightarrow> ret BPE1_INITIALIZED_ALREADY
      | OUT_OF_SERVICE \<Rightarrow> ret BPE1_SERVICE_UNAVAILABLE
      | DEINITED \<Rightarrow> do {
          r \<leftarrow> init1 h;
          if r = BH_SUCCESS then do {
            r2 \<leftarrow> (if rst then reset1 t else ret r);
            (if r2 = BH_SUCCESS then modify (\<lambda>s. s\<lparr>init_state1 := INITED\<rparr>)
             else do { teardown; modify (\<lambda>s. s\<lparr>init_state1 := DEINITED\<rparr>) });
            ret r2 }
          else do { teardown; ret r } }) }"

text \<open>The thread is cancelled and joined, through a null pointer when there is none; joining it again is undefined.\<close>

definition bh_unblock_recv_thread :: "'e BHP_TRANSPORT \<Rightarrow> ('e, unit) bh1" where
  "bh_unblock_recv_thread t = do {
     h \<leftarrow> gets handle1;
     on_core (on_fw (tx_close t (ucast h)));
     th \<leftarrow> gets recv_thread1;
     (if th = No_thread \<or> th = Joined then on_core plugin_crash else modify (\<lambda>s. s\<lparr>recv_thread1 := Joined\<rparr>)) }"

definition plugin_deinit :: "'e BHP_TRANSPORT \<Rightarrow> ('e, BH_RET) bh1" where
  "plugin_deinit t = do {
     i \<leftarrow> gets init_state1;
     (if i \<noteq> DEINITED then do { teardown; bh_unblock_recv_thread t; modify (\<lambda>s. s\<lparr>init_state1 := DEINITED\<rparr>) } else ret ());
     ret BH_SUCCESS }"

definition is_init :: "('e, bool) bh1" where
  "is_init = gets (\<lambda>s. init_state1 s = INITED)"

definition BH_PluginReset :: "'e BHP_TRANSPORT \<Rightarrow> ('e, BH_RET) bh1" where
  "BH_PluginReset t = do { i \<leftarrow> is_init; if \<not> i then ret BPE1_NOT_INIT else reset1 t }"

section \<open>Sessions\<close>

definition snr_answer1 :: "BH_RET \<Rightarrow> bh_response_record \<Rightarrow> uint32 \<Rightarrow> ('e, BH_RET \<times> byte list option \<times> uint32 \<times> uint32 option) bhp" where
  "snr_answer1 code x output_length =
     (let b = (case rr_buffer x of None \<Rightarrow> [] | Some b \<Rightarrow> b) in
      if code = BH_SUCCESS then
        if rr_buffer x \<noteq> None \<and> rr_length x \<ge> 4 then
          let response = Some (byte_order_swapi (take 4 b)); len = rr_length x - 4 in
          if len = 0 then ret (BH_SUCCESS, None, len, response)
          else if output_length \<ge> len then do {
            a \<leftarrow> allocateMemory;
            ret (if a then (BH_SUCCESS, Some (take (unat len) (drop 4 b)), len, response)
                 else (BPE1_OUT_OF_MEMORY, None, len, response)) }
          else ret (BHE_APPLET_SMALL_BUFFER, None, len, response)
        else ret (BPE1_MESSAGE_TOO_SHORT, None, output_length, None)
      else if code = BHE_APPLET_SMALL_BUFFER \<and> rr_buffer x \<noteq> None \<and> rr_length x = 8 then
        ret (code, None, byte_order_swapi (take 4 (drop 4 b)), Some (byte_order_swapi (take 4 b)))
      else ret (code, None, output_length, None))"

text \<open>\<^verbatim>\<open>BH_PluginSendAndRecv\<close> and \<^verbatim>\<open>BH_PluginSendAndRecvInternal\<close>: a fatal answer kills the session.\<close>

definition snr_call1 :: "'e BHP_TRANSPORT \<Rightarrow> uint32 \<Rightarrow> (uint64 \<Rightarrow> byte list) \<Rightarrow> uint64 \<Rightarrow> byte list \<Rightarrow> uint32 \<Rightarrow>
    ('e, BH_RET \<times> byte list option \<times> uint32 \<times> uint32 option) bh1" where
  "snr_call1 t cmd body seq input output_length = do {
     i \<leftarrow> is_init;
     if \<not> i then ret (BPE1_NOT_INIT, None, output_length, None)
     else if seq = 0 then ret (BPE1_INVALID_PARAMS, None, output_length, None)
     else do {
       m \<leftarrow> session_enter1 seq;
       (case m of
          None \<Rightarrow> ret (BPE1_INVALID_SESSION_HANDLE, None, output_length, None)
        | Some r \<Rightarrow> do {
            on_core (rr_upd r (\<lambda>x. x\<lparr>rr_buffer := None\<rparr>));
            x \<leftarrow> on_core (rr_get r);
            c \<leftarrow> bh_send_message1 t cmd (body (rr_addr x)) input seq;
            y \<leftarrow> on_core (rr_get r);
            let code = (if c = BH_SUCCESS then rr_code y else c);
            res \<leftarrow> on_core (snr_answer1 code y output_length);
            (if fatal_code code then on_core (rr_upd r (\<lambda>x. x\<lparr>rr_killed := True\<rparr>)) else ret ());
            on_core (rr_upd r (\<lambda>x. x\<lparr>rr_buffer := None\<rparr>));
            session_exit1 r seq;
            ret res }) } }"

definition send_and_recv1 :: "'e BHP_TRANSPORT \<Rightarrow> uint64 \<Rightarrow> uint32 \<Rightarrow> byte list \<Rightarrow> uint32 \<Rightarrow>
    ('e, BH_RET \<times> byte list option \<times> uint32 \<times> uint32 option) bh1" where
  "send_and_recv1 t seq nCommandId input output_length =
     snr_call1 t HOST_CMD_SENDANDRECV (\<lambda>a. put64 a @ put32 nCommandId @ put32 output_length) seq input output_length"

definition send_and_recv_internal1 :: "'e BHP_TRANSPORT \<Rightarrow> uint64 \<Rightarrow> uint32 \<Rightarrow> uint32 \<Rightarrow> byte list \<Rightarrow> uint32 \<Rightarrow>
    ('e, BH_RET \<times> byte list option \<times> uint32 \<times> uint32 option) bh1" where
  "send_and_recv_internal1 t seq what nCommandId input output_length =
     snr_call1 t HOST_CMD_SENDANDRECV_INTERNAL (\<lambda>a. put64 a @ put32 what @ put32 nCommandId @ put32 output_length) seq input output_length"

text \<open>
  \<^verbatim>\<open>BH_PluginCreateSession\<close>. On both ends the session's lock is released although it was not taken.
\<close>

definition create_session1 :: "'e BHP_TRANSPORT \<Rightarrow> string \<Rightarrow> byte list option \<Rightarrow> ('e, BH_RET \<times> uint64) bh1" where
  "create_session1 t pAppId init_buffer = do {
     i \<leftarrow> is_init;
     if \<not> i then ret (BPE1_NOT_INIT, 0)
     else case string_to_uuid1 pAppId of
         None \<Rightarrow> ret (BPE1_INVALID_PARAMS, 0)
       | Some appid \<Rightarrow> do {
           a \<leftarrow> on_core allocateMemory;
           if \<not> a then ret (BPE1_OUT_OF_MEMORY, 0)
           else do {
             l \<leftarrow> on_core allocateMemory;
             if \<not> l then ret (BPE1_OUT_OF_RESOURCE, 0)
             else do {
               g \<leftarrow> gets garbage_record;
               n \<leftarrow> register1 (g\<lparr>rr_count := 1, is_session := True, rr_killed := False\<rparr>);
               (case n of (r, seq) \<Rightarrow> do {
                  c \<leftarrow> bh_send_message1 t HOST_CMD_CREATE_SESSION appid (case init_buffer of None \<Rightarrow> [] | Some b \<Rightarrow> b) seq;
                  x \<leftarrow> on_core (rr_get r);
                  on_core (rr_upd r (\<lambda>x. x\<lparr>rr_buffer := None\<rparr>));
                  let code = (if c = BH_SUCCESS then rr_code x else c);
                  if code = BH_SUCCESS then do { session_exit1 r seq; ret (code, seq) }
                  else do { session_close1 r seq; ret (code, 0) } }) } } } }"

definition close_session1 :: "'e BHP_TRANSPORT \<Rightarrow> uint64 \<Rightarrow> ('e, BH_RET) bh1" where
  "close_session1 t seq = do {
     i \<leftarrow> is_init;
     if \<not> i then ret BPE1_NOT_INIT
     else if seq = 0 then ret BPE1_INVALID_PARAMS
     else do {
       m \<leftarrow> session_enter1 seq;
       (case m of
          None \<Rightarrow> ret BPE1_INVALID_SESSION_HANDLE
        | Some r \<Rightarrow> do {
            x \<leftarrow> on_core (rr_get r);
            c \<leftarrow> bh_send_message1 t HOST_CMD_CLOSE_SESSION (put64 (rr_addr x)) [] seq;
            y \<leftarrow> on_core (rr_get r);
            session_close1 r seq;
            ret (if c = BH_SUCCESS then rr_code y else c) }) } }"

definition force_close_session1 :: "'e BHP_TRANSPORT \<Rightarrow> uint64 \<Rightarrow> ('e, BH_RET) bh1" where
  "force_close_session1 t seq = do {
     i \<leftarrow> is_init;
     if \<not> i then ret BPE1_NOT_INIT
     else if seq = 0 then ret BPE1_INVALID_PARAMS
     else do {
       m \<leftarrow> session_enter_nolock seq;
       (case m of
          None \<Rightarrow> ret BPE1_INVALID_SESSION_HANDLE
        | Some r \<Rightarrow> do {
            x \<leftarrow> on_core (rr_get r);
            q \<leftarrow> proxy_call1 t HOST_CMD_FORCE_CLOSE_SESSION (put64 (rr_addr x)) [];
            session_close1 r seq;
            ret (fst q) }) } }"

section \<open>Applets\<close>

text \<open>A command about an applet\<close>

definition applet_call1 :: "'e BHP_TRANSPORT \<Rightarrow> string \<Rightarrow> uint32 \<Rightarrow> byte list \<Rightarrow> (BH_RET \<Rightarrow> 'a) \<Rightarrow>
    (BH_RET \<Rightarrow> bh_response_record \<Rightarrow> ('e, 'a) bhp) \<Rightarrow> ('e, 'a) bh1" where
  "applet_call1 t aid cmd data unasked answered = do {
     i \<leftarrow> is_init;
     if \<not> i then ret (unasked BPE1_NOT_INIT)
     else case string_to_uuid1 aid of
         None \<Rightarrow> ret (unasked BPE1_INVALID_PARAMS)
       | Some appid \<Rightarrow> do { r \<leftarrow> proxy_call1 t cmd appid data; on_core (answered (fst r) (snd r)) } }"

definition unload1 :: "'e BHP_TRANSPORT \<Rightarrow> string \<Rightarrow> ('e, BH_RET) bh1" where
  "unload1 t aid = applet_call1 t aid HOST_CMD_DELETE [] (\<lambda>c. c) (\<lambda>c _. ret c)"

definition download1 :: "'e BHP_TRANSPORT \<Rightarrow> string \<Rightarrow> byte list \<Rightarrow> ('e, BH_RET) bh1" where
  "download1 t aid pAppBlob = applet_call1 t aid HOST_CMD_DOWNLOAD pAppBlob (\<lambda>c. c) (\<lambda>c _. ret c)"

definition query_api1 :: "'e BHP_TRANSPORT \<Rightarrow> string \<Rightarrow> byte list \<Rightarrow> ('e, BH_RET \<times> string option) bh1" where
  "query_api1 t aid input = do {
     i \<leftarrow> is_init;
     if i \<and> input = [] then ret (BPE1_INVALID_PARAMS, None)
     else applet_call1 t aid HOST_CMD_QUERYAPI input (\<lambda>c. (c, None))
     (\<lambda>code x.
        if code \<noteq> BH_SUCCESS then ret (code, None)
        else if rr_length x = 0 then ret (BH_SUCCESS, None)
        else case rr_buffer x of
            None \<Rightarrow> ret (BPE1_MESSAGE_TOO_SHORT, None)
          | Some b \<Rightarrow> do { a \<leftarrow> allocateMemory; ret (if a then (BH_SUCCESS, Some (c_string (chars b))) else (BPE1_OUT_OF_MEMORY, None)) }) }"

definition BH_PluginListProperties :: "'e BHP_TRANSPORT \<Rightarrow> string \<Rightarrow> ('e, BH_RET \<times> string list) bh1" where
  "BH_PluginListProperties t aid = applet_call1 t aid HOST_CMD_LIST_PROPERTIES [] (\<lambda>c. (c, []))
     (\<lambda>code x.
        if code \<noteq> BH_SUCCESS then ret (code, [])
        else case rr_buffer x of
            None \<Rightarrow> ret (BPE1_MESSAGE_ILLEGAL, [])
          | Some b \<Rightarrow>
              if b = [] then do { modify (\<lambda>s. s\<lparr>short_read := True\<rparr>); ret (BPE1_MESSAGE_ILLEGAL, []) }
              else if last b \<noteq> 0 then ret (BPE1_MESSAGE_ILLEGAL, [])
              else do {
                let ps = split_strings [] b;
                a \<leftarrow> allocateMemory;
                m \<leftarrow> (if a then allocate_all (length ps) else ret False);
                ret (if m then (BH_SUCCESS, map chars ps) else (BPE1_OUT_OF_MEMORY, [])) })"

definition BH_PluginListSessions :: "'e BHP_TRANSPORT \<Rightarrow> string \<Rightarrow> ('e, BH_RET \<times> uint64 list) bh1" where
  "BH_PluginListSessions t aid = applet_call1 t aid HOST_CMD_LIST_SESSIONS [] (\<lambda>c. (c, []))
     (\<lambda>code x.
        if code \<noteq> BH_SUCCESS then ret (code, [])
        else case rr_buffer x of
            None \<Rightarrow> ret (BPE1_MESSAGE_ILLEGAL, [])
          | Some b \<Rightarrow> do {
              n \<leftarrow> answer32 0 b;
              if n = 0 then ret (BH_SUCCESS, [])
              else if unat (rr_length x) \<noteq> 8 * unat n + 4 then ret (BPE1_MESSAGE_ILLEGAL, [])
              else do {
                a \<leftarrow> allocateMemory;
                ret (if a then (BH_SUCCESS, map get64 (array_entries 8 (unat n) b)) else (BPE1_OUT_OF_MEMORY, [])) } })"

text \<open>
  \<^verbatim>\<open>BH_PluginListPackages\<close>: the block of pointers is not initialized, and after a failed allocation all of them are freed, also those
  behind the one that failed.
\<close>

fun allocated :: "nat \<Rightarrow> ('e, nat) bhp" where
  "allocated 0 = ret 0"
| "allocated (Suc n) = do { a \<leftarrow> allocateMemory; if a then do { k \<leftarrow> allocated n; ret (Suc k) } else ret 0 }"

definition BH_PluginListPackages :: "'e BHP_TRANSPORT \<Rightarrow> ('e, BH_RET \<times> string list) bh1" where
  "BH_PluginListPackages t = do {
     i \<leftarrow> is_init;
     if \<not> i then ret (BPE1_NOT_INIT, [])
     else do {
       r \<leftarrow> proxy_call1 t HOST_CMD_LIST_PACKAGES [] [];
       (case r of (code, x) \<Rightarrow>
          if code \<noteq> BH_SUCCESS then ret (code, [])
          else case rr_buffer x of
              None \<Rightarrow> ret (BPE1_MESSAGE_ILLEGAL, [])
            | Some b \<Rightarrow> on_core (do {
                n \<leftarrow> answer32 0 b;
                if n = 0 then ret (BH_SUCCESS, [])
                else if unat (rr_length x) \<noteq> 16 * unat n + 4 then ret (BPE1_MESSAGE_ILLEGAL, [])
                else do {
                  a \<leftarrow> allocateMemory;
                  if \<not> a then ret (BPE1_OUT_OF_MEMORY, [])
                  else do {
                    k \<leftarrow> allocated (unat n);
                    (if k + 1 < unat n then plugin_crash else ret ());
                    ret (if k = unat n then (BH_SUCCESS, map uuid_to_string (array_entries 16 (unat n) b)) else (BPE1_OUT_OF_MEMORY, [])) } } })) } }"

section \<open>The library\<close>

text \<open>The library as the plugin of \<open>Beihai_V1\<close> sees it; the functions of the transport come from \<open>b\<close>.\<close>

definition bh1_library :: "'e BHP_TRANSPORT \<Rightarrow> 'e bh1_state BH1 \<Rightarrow> 'e bh1_state BH1" where
  "bh1_library t b = b\<lparr>
     BH_PluginInit := (\<lambda>h r. run_state (plugin_init t h r)),
     BH_PluginDeinit := run_state (plugin_deinit t),
     BH_PluginDownload := (\<lambda>a d. run_state (download1 t a d)),
     BH_PluginUnload := (\<lambda>a. run_state (unload1 t a)),
     BH_PluginCreateSession := (\<lambda>a d. run_state (create_session1 t a d)),
     BH_PluginCloseSession := (\<lambda>h. run_state (close_session1 t h)),
     BH_PluginForceCloseSession := (\<lambda>h. run_state (force_close_session1 t h)),
     BH_PluginSendAndRecv := (\<lambda>h c d n. run_state (send_and_recv1 t h c d n)),
     BH_PluginSendAndRecvInternal := (\<lambda>h w c d. run_state (do { r \<leftarrow> send_and_recv_internal1 t h w c d 0; ret (fst r, snd (snd (snd r))) })),
     BH_PluginQueryAPI := (\<lambda>a q. run_state (query_api1 t a (bytes_of q)))\<rparr>"

end
