(* ===== verification/Bhp_Sessions.thy ===== *)
theory Bhp_Sessions
  imports Bhp_Exchange
begin

text \<open>
  The records of the second Beihai library under any number of threads. A thread that uses a session is counted
  in its record; the receiving threads, which are not counted, write to records they find in the maps, mark sessions
  as dead, and destroy those that nobody uses. A step of the relation is one critical section of the source, or an access
  to a record of the thread's own; the threads of all connections interleave freely. No record is used after it was
  freed, and none is freed twice.

  Two things are one step here that the source does not protect by the lock: finding the record a message is for and
  storing the message in it, and reading \<^verbatim>\<open>wait_event\<close> and acting on it. New numbers are not in use, which
  holds until the counter of 32 bits comes round.
\<close>

section \<open>Steps\<close>

text \<open>
  A use is a connection, a record and its number. \<open>users\<close>: one for every use of a session by a thread that has entered and
  not left it. \<open>waiting\<close>: the records on the stacks of the threads whose command is on its way; \<open>finished\<close>: those whose
  command is over and that the thread still reads.
\<close>

type_synonym use = "nat \<times> nat \<times> uint64"

record 'e bhp_world =
  lib :: "'e bhp_state"
  users :: "use list"
  waiting :: "use list"
  finished :: "use list"

definition rec_of :: "use \<Rightarrow> nat" where "rec_of u = fst (snd u)"
definition num_of :: "use \<Rightarrow> uint64" where "num_of u = snd (snd u)"

definition held :: "'e bhp_world \<Rightarrow> use set" where
  "held w = set (users w) \<union> set (waiting w) \<union> set (finished w)"

definition unused :: "'e bhp_world \<Rightarrow> uint64 \<Rightarrow> bool" where
  "unused w seq \<longleftrightarrow> seq \<notin> num_of ` held w \<and> (\<forall>i. smap_find (rrmap (connections (lib w) i)) seq = None)"

text \<open>What a thread may write to a record it uses, and what it may change elsewhere.\<close>

definition own_change :: "(bh_response_record \<Rightarrow> bh_response_record) \<Rightarrow> bool" where
  "own_change f \<longleftrightarrow> (\<forall>x. is_session (f x) = is_session x \<and> rr_count (f x) = rr_count x \<and> wait_event (f x) = wait_event x)"

definition elsewhere :: "'e bhp_state \<Rightarrow> 'e bhp_state \<Rightarrow> bool" where
  "elsewhere s s' \<longleftrightarrow> rrs s' = rrs s \<and> rr_next s' = rr_next s \<and> plugin_fault s' = plugin_fault s
     \<and> evts s' = evts s \<and> evt_next s' = evt_next s \<and> (\<forall>i. rrmap (connections s' i) = rrmap (connections s i))"

text \<open>The parts of \<^verbatim>\<open>bh_recv_message\<close>, \<^verbatim>\<open>unblock_threads\<close>, \<^verbatim>\<open>_send_message\<close> and \<^verbatim>\<open>bh_send_message\<close> that are steps\<close>

definition message :: "nat \<Rightarrow> uint64 \<Rightarrow> uint64 \<Rightarrow> BH_RET \<Rightarrow> byte list option \<Rightarrow> uint32 \<Rightarrow> ('e, unit) bhp" where
  "message i seq addr code data dlen = do {
     rr \<leftarrow> rrmap_remove i seq;
     (case rr of None \<Rightarrow> ret () | Some r \<Rightarrow> deliver i r seq addr code data dlen) }"

definition unblock_all :: "nat \<Rightarrow> BH_RET \<Rightarrow> ('e, unit) bhp" where
  "unblock_all i code = do { c \<leftarrow> conn i; for_each (unblock_one i code) (rrmap c) }"

definition frame_begin :: "nat \<Rightarrow> ('e, nat \<times> uint64) bhp" where
  "frame_begin i = do { r \<leftarrow> rr_new rr_zero; seq \<leftarrow> rrmap_add i r; ret (r, seq) }"

definition wait_begin :: "nat \<Rightarrow> ('e, unit) bhp" where
  "wait_begin r = do { ev \<leftarrow> bh_create_event; rr_upd r (\<lambda>x. x\<lparr>wait_event := ev\<rparr>) }"

definition wait_end :: "nat \<Rightarrow> nat \<Rightarrow> ('e, unit) bhp" where
  "wait_end r e = do { bh_close_event e; rr_upd r (\<lambda>x. x\<lparr>wait_event := None\<rparr>) }"

definition woken :: "'e bhp_state \<Rightarrow> nat \<Rightarrow> nat \<Rightarrow> bool" where
  "woken s r e \<longleftrightarrow> (case rrs s r of None \<Rightarrow> False | Some x \<Rightarrow> wait_event x = Some e \<and> evts s e = Some True)"

text \<open>The steps that both Beihai libraries have\<close>

inductive record_step :: "'e bhp_world \<Rightarrow> 'e bhp_world \<Rightarrow> bool" where
  st_enter: "run_state (session_take i seq) (lib w) = (Some r, s') \<Longrightarrow> record_step w (w\<lparr>lib := s', users := (i, r, seq) # users w\<rparr>)"
| st_refused: "run_state (session_take i seq) (lib w) = (None, s') \<Longrightarrow> record_step w (w\<lparr>lib := s'\<rparr>)"
| st_exit: "(i, r, seq) \<in> set (users w) \<Longrightarrow> run_state (session_exit i r seq) (lib w) = (u, s') \<Longrightarrow>
    record_step w (w\<lparr>lib := s', users := remove1 (i, r, seq) (users w)\<rparr>)"
| st_close: "(i, r, seq) \<in> set (users w) \<Longrightarrow> run_state (session_close i r seq) (lib w) = (u, s') \<Longrightarrow>
    record_step w (w\<lparr>lib := s', users := remove1 (i, r, seq) (users w)\<rparr>)"
| st_read: "h \<in> held w \<Longrightarrow> run_state (rr_get (rec_of h)) (lib w) = (x, s') \<Longrightarrow> record_step w (w\<lparr>lib := s'\<rparr>)"
| st_write: "h \<in> held w \<Longrightarrow> own_change f \<Longrightarrow> run_state (rr_upd (rec_of h) f) (lib w) = (u, s') \<Longrightarrow> record_step w (w\<lparr>lib := s'\<rparr>)"
| st_wait: "h \<in> set (users w) \<union> set (waiting w) \<Longrightarrow> run_state (wait_begin (rec_of h)) (lib w) = (u, s') \<Longrightarrow>
    record_step w (w\<lparr>lib := s'\<rparr>)"
| st_unsent: "run_state (rrmap_remove i seq) (lib w) = (x, s') \<Longrightarrow> record_step w (w\<lparr>lib := s'\<rparr>)"
| st_answered: "(i, r, seq) \<in> set (users w) \<Longrightarrow> woken (lib w) r e \<Longrightarrow> run_state (wait_end r e) (lib w) = (u, s') \<Longrightarrow>
    record_step w (w\<lparr>lib := s'\<rparr>)"
| st_frame_answered: "(i, r, seq) \<in> set (waiting w) \<Longrightarrow> woken (lib w) r e \<Longrightarrow> run_state (wait_end r e) (lib w) = (u, s') \<Longrightarrow>
    record_step w (w\<lparr>lib := s', waiting := remove1 (i, r, seq) (waiting w), finished := (i, r, seq) # finished w\<rparr>)"
| st_frame_unsent: "(i, r, seq) \<in> set (waiting w) \<Longrightarrow> run_state (rrmap_remove i seq) (lib w) = (x, s') \<Longrightarrow>
    record_step w (w\<lparr>lib := s', waiting := remove1 (i, r, seq) (waiting w), finished := (i, r, seq) # finished w\<rparr>)"
| st_frame_unknown: "(i, r, seq) \<in> set (waiting w) \<Longrightarrow> run_state (addr2record i seq) (lib w) = (None, s') \<Longrightarrow>
    record_step w (w\<lparr>lib := s', waiting := remove1 (i, r, seq) (waiting w), finished := (i, r, seq) # finished w\<rparr>)"
| st_return: "(i, r, seq) \<in> set (finished w) \<Longrightarrow> run_state (rr_free r) (lib w) = (u, s') \<Longrightarrow>
    record_step w (w\<lparr>lib := s', finished := remove1 (i, r, seq) (finished w)\<rparr>)"
| st_clear: "run_state (conn_upd i (\<lambda>c. c\<lparr>rrmap := []\<rparr>)) (lib w) = (u, s') \<Longrightarrow> record_step w (w\<lparr>lib := s'\<rparr>)"
| st_disconnect: "run_state (conn_upd i (\<lambda>_. no_connection)) (lib w) = (u, s') \<Longrightarrow> record_step w (w\<lparr>lib := s'\<rparr>)"
| st_elsewhere: "elsewhere (lib w) s' \<Longrightarrow> record_step w (w\<lparr>lib := s'\<rparr>)"

inductive bhp_step :: "'e bhp_world \<Rightarrow> 'e bhp_world \<Rightarrow> bool" where
  st_shared: "record_step w w' \<Longrightarrow> bhp_step w w'"
| st_open: "run_state (new_session i) (lib w) = (Inr (r, seq), s') \<Longrightarrow> unused w seq \<Longrightarrow>
    bhp_step w (w\<lparr>lib := s', users := (i, r, seq) # users w\<rparr>)"
| st_not_opened: "run_state (new_session i) (lib w) = (Inl c, s') \<Longrightarrow> bhp_step w (w\<lparr>lib := s'\<rparr>)"
| st_frame: "run_state (frame_begin i) (lib w) = ((r, seq), s') \<Longrightarrow> unused w seq \<Longrightarrow>
    bhp_step w (w\<lparr>lib := s', waiting := (i, r, seq) # waiting w\<rparr>)"
| st_message: "run_state (message i seq addr code data dlen) (lib w) = (u, s') \<Longrightarrow> bhp_step w (w\<lparr>lib := s'\<rparr>)"
| st_lost: "run_state (unblock_all i code) (lib w) = (u, s') \<Longrightarrow> bhp_step w (w\<lparr>lib := s'\<rparr>)"

definition world_new :: "'e \<Rightarrow> 'e bhp_world" where
  "world_new e = \<lparr> lib = bhp_new e, users = [], waiting = [], finished = [] \<rparr>"

inductive bhp_run :: "'e \<Rightarrow> 'e bhp_world \<Rightarrow> bool" for e where
  run_start: "bhp_run e (world_new e)"
| run_step: "bhp_run e w \<Longrightarrow> bhp_step w w' \<Longrightarrow> bhp_run e w'"

section \<open>The invariant\<close>

definition uses :: "use list \<Rightarrow> nat \<Rightarrow> nat" where
  "uses us r = count_list (map rec_of us) r"

abbreviation entry :: "'e bhp_state \<Rightarrow> nat \<Rightarrow> uint64 \<Rightarrow> nat option" where
  "entry s i q \<equiv> smap_find (rrmap (connections s i)) q"

definition of_kind :: "'e bhp_state \<Rightarrow> bool \<Rightarrow> nat \<Rightarrow> bool" where
  "of_kind s k r \<longleftrightarrow> (\<exists>x. rrs s r = Some x \<and> is_session x = k)"

text \<open>
  \<open>home\<close> is where a record was registered: entries of the maps and uses agree with it.
\<close>

definition maps_ok :: "(nat \<Rightarrow> nat \<times> uint64) \<Rightarrow> 'e bhp_state \<Rightarrow> use list \<Rightarrow> bool" where
  "maps_ok home s ds \<longleftrightarrow> (\<forall>i. smap_inv (rrmap (connections s i)))
     \<and> (\<forall>i q r. entry s i q = Some r \<longrightarrow> home r = (i, q) \<and> rrs s r \<noteq> None \<and> r \<notin> set (map rec_of ds))"

definition held_ok :: "(nat \<Rightarrow> nat \<times> uint64) \<Rightarrow> 'e bhp_state \<Rightarrow> use list \<Rightarrow> use list \<Rightarrow> bool" where
  "held_ok home s us fs \<longleftrightarrow> distinct (map rec_of fs)
     \<and> (\<forall>h \<in> set us. home (rec_of h) = (fst h, num_of h) \<and> of_kind s True (rec_of h))
     \<and> (\<forall>h \<in> set fs. home (rec_of h) = (fst h, num_of h) \<and> of_kind s False (rec_of h))"

definition counts_ok :: "'e bhp_state \<Rightarrow> use list \<Rightarrow> bool" where
  "counts_ok s us \<longleftrightarrow> (\<forall>r x. rrs s r = Some x \<longrightarrow> r < rr_next s
     \<and> (is_session x \<longrightarrow> unat (rr_count x) = uses us r \<and> uses us r \<le> 20))"

text \<open>\<open>owner\<close>: every event belongs to one record; it is not triggered before the record of a command has left the map.\<close>

definition events_ok :: "(nat \<Rightarrow> nat) \<Rightarrow> 'e bhp_state \<Rightarrow> bool" where
  "events_ok owner s \<longleftrightarrow>
     (\<forall>r x e. rrs s r = Some x \<longrightarrow> wait_event x = Some e \<longrightarrow> e < evt_next s \<and> owner e = r)
   \<and> (\<forall>i q r x e. entry s i q = Some r \<longrightarrow> rrs s r = Some x \<longrightarrow> \<not> is_session x \<longrightarrow> wait_event x = Some e \<longrightarrow>
        evts s e \<noteq> Some True)"

definition records_ok :: "(nat \<Rightarrow> nat \<times> uint64) \<Rightarrow> (nat \<Rightarrow> nat) \<Rightarrow> 'e bhp_state \<Rightarrow> use list \<Rightarrow> use list \<Rightarrow> use list \<Rightarrow> bool" where
  "records_ok home owner s us ws ds \<longleftrightarrow>
     \<not> plugin_fault s \<and> maps_ok home s ds \<and> held_ok home s us (ws @ ds) \<and> counts_ok s us \<and> events_ok owner s"

lemmas records_ok_defs = records_ok_def maps_ok_def held_ok_def counts_ok_def events_ok_def of_kind_def

lemma smap_laws [simp]:
  "smap_find (smap_put k v m) k' = (if k' = k then Some v else smap_find m k')"
  "smap_find (smap_erase k m) k' = (if k' = k then None else smap_find m k')"
  "smap_inv m \<Longrightarrow> smap_inv (smap_put k v m)" "smap_inv m \<Longrightarrow> smap_inv (smap_erase k m)"
  by (simp_all add: tab.find_put tab.find_erase tab.inv_put tab.inv_erase)

lemma use_fields [simp]: "rec_of (i, r, q) = r" "num_of (i, r, q) = q"
  by (simp_all add: rec_of_def num_of_def)

section \<open>Changes that keep it\<close>

lemma ok_users: "records_ok home owner s us ws ds \<Longrightarrow> h \<in> set us \<Longrightarrow>
    \<exists>x. rrs s (rec_of h) = Some x \<and> is_session x \<and> home (rec_of h) = (fst h, num_of h)"
  by (simp add: records_ok_def held_ok_def of_kind_def)

lemma ok_frames: "records_ok home owner s us ws ds \<Longrightarrow> h \<in> set (ws @ ds) \<Longrightarrow>
    \<exists>x. rrs s (rec_of h) = Some x \<and> \<not> is_session x \<and> home (rec_of h) = (fst h, num_of h)"
  by (simp add: records_ok_def held_ok_def of_kind_def)

lemma ok_entry: "records_ok home owner s us ws ds \<Longrightarrow> entry s i q = Some r \<Longrightarrow>
    home r = (i, q) \<and> (\<exists>x. rrs s r = Some x) \<and> r \<notin> rec_of ` set ds"
  by (simp add: records_ok_def maps_ok_def)

lemma ok_inv: "records_ok home owner s us ws ds \<Longrightarrow> smap_inv (rrmap (connections s i))"
  by (simp add: records_ok_def maps_ok_def)

lemma ok_elsewhere:
  assumes "records_ok home owner s us ws ds" "elsewhere s s'"
  shows "records_ok home owner s' us ws ds"
  using assms by (simp add: records_ok_defs elsewhere_def)

text \<open>A record changes, but not whether it is a session, how often it is used or what it waits for.\<close>

lemma ok_write:
  assumes ok: "records_ok home owner s us ws ds" and x: "rrs s r = Some x"
    and y: "is_session y = is_session x" "rr_count y = rr_count x" "wait_event y = wait_event x \<or> wait_event y = None"
  shows "records_ok home owner (s\<lparr>rrs := (rrs s)(r \<mapsto> y)\<rparr>) us ws ds"
proof -
  let ?s = "s\<lparr>rrs := (rrs s)(r \<mapsto> y)\<rparr>"
  have "of_kind ?s = of_kind s" using x y by (auto simp: of_kind_def fun_eq_iff)
  moreover have "counts_ok ?s us" using ok x y by (auto simp: records_ok_def counts_ok_def)
  moreover have "events_ok owner ?s" using ok x y by (auto simp: records_ok_def events_ok_def)
  ultimately show ?thesis using ok by (auto simp: records_ok_def maps_ok_def held_ok_def)
qed

text \<open>Entries leave the maps.\<close>

lemma ok_unmap:
  assumes ok: "records_ok home owner s us ws ds" and same: "rrs s' = rrs s" "rr_next s' = rr_next s"
      "plugin_fault s' = plugin_fault s" "evts s' = evts s" "evt_next s' = evt_next s"
    and sub: "\<And>i. smap_inv (rrmap (connections s' i))" "\<And>i q r. entry s' i q = Some r \<Longrightarrow> entry s i q = Some r"
  shows "records_ok home owner s' us ws ds"
proof -
  have "maps_ok home s' ds" using ok same(1) sub unfolding records_ok_def maps_ok_def by metis
  moreover have "events_ok owner s'" using ok same sub(2) by (simp add: records_ok_def events_ok_def) blast
  moreover have "of_kind s' = of_kind s" by (simp add: of_kind_def fun_eq_iff same)
  ultimately show ?thesis using ok same by (simp add: records_ok_def held_ok_def counts_ok_def)
qed

text \<open>A record that no map and no thread knows is freed.\<close>

lemma ok_free:
  assumes ok: "records_ok home owner s us ws ds" and alone: "\<And>i q. entry s i q \<noteq> Some r"
      "r \<notin> rec_of ` set us" "r \<notin> rec_of ` set (ws @ ds)"
  shows "records_ok home owner (s\<lparr>rrs := (rrs s)(r := None)\<rparr>) us ws ds"
proof -
  let ?s = "s\<lparr>rrs := (rrs s)(r := None)\<rparr>"
  have "maps_ok home ?s ds" using ok alone(1) by (simp add: records_ok_def maps_ok_def)
  moreover have "of_kind ?s k r' \<longleftrightarrow> r' \<noteq> r \<and> of_kind s k r'" for k r' by (simp add: of_kind_def)
  then have "held_ok home ?s us (ws @ ds)"
    using ok alone(2,3) unfolding records_ok_def held_ok_def by (metis imageI)
  moreover have "counts_ok ?s us" "events_ok owner ?s" using ok by (simp_all add: records_ok_def counts_ok_def events_ok_def)
  ultimately show ?thesis using ok by (simp add: records_ok_def)
qed

lemma uses_zero: "r \<notin> rec_of ` set us \<Longrightarrow> uses us r = 0"
  by (simp add: uses_def count_list_0_iff)

lemma uses_Cons [simp]: "uses (h # us) r = uses us r + (if rec_of h = r then 1 else 0)"
  by (simp add: uses_def)

lemma uses_remove1: "h \<in> set us \<Longrightarrow> uses (remove1 h us) r = uses us r - (if rec_of h = r then 1 else 0)"
proof (induction us)
  case (Cons a us)
  then have "a \<noteq> h \<Longrightarrow> rec_of h = r \<Longrightarrow> 0 < uses us r"
    by (metis uses_def count_list_0_iff gr0I imageI list.set_map set_ConsD)
  then show ?case using Cons by auto
qed simp

text \<open>A session is entered or left.\<close>

lemma ok_recount:
  assumes ok: "records_ok home owner s us ws ds" and x: "rrs s r = Some x" "is_session x"
    and y: "is_session y" "wait_event y = wait_event x" "unat (rr_count y) = uses us' r" "uses us' r \<le> 20"
    and us': "\<And>r'. r' \<noteq> r \<Longrightarrow> uses us' r' = uses us r'"
      "\<And>h. h \<in> set us' \<Longrightarrow> h \<in> set us \<or> rec_of h = r \<and> home r = (fst h, num_of h)"
  shows "records_ok home owner (s\<lparr>rrs := (rrs s)(r \<mapsto> y)\<rparr>) us' ws ds"
proof -
  let ?s = "s\<lparr>rrs := (rrs s)(r \<mapsto> y)\<rparr>"
  have "of_kind ?s = of_kind s" using x y by (auto simp: of_kind_def fun_eq_iff)
  moreover have "of_kind s True r" using x by (simp add: of_kind_def)
  ultimately have "held_ok home ?s us' (ws @ ds)" using ok us'(2) unfolding records_ok_def held_ok_def by metis
  moreover have "counts_ok ?s us'" using ok x y us'(1) by (auto simp: records_ok_def counts_ok_def)
  moreover have "events_ok owner ?s" using ok x y by (auto simp: records_ok_def events_ok_def)
  ultimately show ?thesis using ok by (auto simp: records_ok_def maps_ok_def)
qed

text \<open>A record is made and entered into a map.\<close>

definition with_record :: "nat \<Rightarrow> uint64 \<Rightarrow> bh_response_record \<Rightarrow> 'e bhp_state \<Rightarrow> 'e bhp_state" where
  "with_record i q y s = s\<lparr>rrs := (rrs s)(rr_next s \<mapsto> y), rr_next := Suc (rr_next s),
     connections := (connections s)(i := (connections s i)\<lparr>rrmap := smap_put q (rr_next s) (rrmap (connections s i))\<rparr>)\<rparr>"

lemma ok_add:
  assumes ok: "records_ok home owner s us ws ds" and y: "wait_event y = None" "is_session y \<Longrightarrow> rr_count y = 1"
  shows "records_ok (home(rr_next s := (i, q))) owner (with_record i q y s)
    (if is_session y then (i, rr_next s, q) # us else us) (if is_session y then ws else (i, rr_next s, q) # ws) ds"
    (is "records_ok ?home owner ?s ?us ?ws ds")
proof -
  let ?r = "rr_next s"
  have none: "rrs s ?r = None" using ok by (cases "rrs s ?r") (auto simp: records_ok_def counts_ok_def)
  then have new: "?r \<notin> rec_of ` set us" "?r \<notin> rec_of ` set (ws @ ds)"
    using ok_users [OF ok] ok_frames [OF ok] by (metis imageE option.distinct(1))+
  have "entry s j p \<noteq> Some ?r" for j p using ok_entry [OF ok, of j p ?r] none by auto
  then have "maps_ok ?home ?s ds" using ok none new by (auto simp: records_ok_def maps_ok_def with_record_def)
  moreover have kind: "of_kind ?s k r \<longleftrightarrow> (if r = ?r then is_session y = k else of_kind s k r)" for k r
    by (simp add: of_kind_def with_record_def)
  have "\<forall>h \<in> set us. rec_of h \<noteq> ?r" "\<forall>h \<in> set (ws @ ds). rec_of h \<noteq> ?r" using new by (metis imageI)+
  then have "held_ok ?home ?s ?us (?ws @ ds)"
    using ok new(2) by (cases "is_session y") (simp_all add: records_ok_def held_ok_def kind image_Un)
  moreover have "counts_ok ?s ?us"
    using ok y uses_zero [OF new(1)] by (auto simp: records_ok_def counts_ok_def with_record_def less_Suc_eq)
  moreover have "events_ok owner ?s" using ok y none by (auto simp: records_ok_def events_ok_def with_record_def maps_ok_def split: if_splits)
  ultimately show ?thesis using ok by (simp add: records_ok_def with_record_def)
qed

text \<open>Events\<close>

lemma ok_new_event:
  assumes ok: "records_ok home owner s us ws ds" and x: "rrs s r = Some x"
  shows "records_ok home (owner(evt_next s := r)) (s\<lparr>evts := (evts s)(evt_next s \<mapsto> False), evt_next := Suc (evt_next s),
    rrs := (rrs s)(r \<mapsto> x\<lparr>wait_event := Some (evt_next s)\<rparr>)\<rparr>) us ws ds" (is "records_ok home ?owner ?s us ws ds")
proof -
  have "of_kind ?s = of_kind s" using x by (auto simp: of_kind_def fun_eq_iff)
  moreover have "counts_ok ?s us" using ok x by (auto simp: records_ok_def counts_ok_def)
  moreover have "events_ok ?owner ?s"
    using ok x by (auto simp: records_ok_def events_ok_def less_Suc_eq split: if_splits)
  ultimately show ?thesis using ok by (auto simp: records_ok_def maps_ok_def held_ok_def)
qed

lemma ok_signal:
  assumes ok: "records_ok home owner s us ws ds"
    and e: "\<And>i q r x. entry s i q = Some r \<Longrightarrow> rrs s r = Some x \<Longrightarrow> wait_event x = Some e \<Longrightarrow> is_session x"
  shows "records_ok home owner (snd (run_state (bh_signal_event e) s)) us ws ds"
  using ok e by (auto simp: records_ok_defs bh_signal_event_def)

lemma ok_close_event:
  assumes "records_ok home owner s us ws ds"
  shows "records_ok home owner (snd (run_state (bh_close_event e) s)) us ws ds"
  using assms by (simp add: records_ok_defs bh_close_event_def)

section \<open>Every step keeps it\<close>

lemma elsewhere_fields:
  "elsewhere s s" "elsewhere s (s\<lparr>plugin_mem := m\<rparr>)" "elsewhere s (s\<lparr>plugin_mem := m, g_seqno := n\<rparr>)" "elsewhere s (s\<lparr>g_seqno := n\<rparr>)"
  by (simp_all add: elsewhere_def)

lemma run_rrmap_add:
  "\<exists>n. run_state (rrmap_add i r) s = (ucast n, s\<lparr>g_seqno := n,
     connections := (connections s)(i := (connections s i)\<lparr>rrmap := smap_put (ucast n) r (rrmap (connections s i))\<rparr>)\<rparr>)"
proof -
  define n where "n = (if g_seqno s + 1 = 0 then 1 else g_seqno s + 1)"
  have "run_state inc_seqno s = (ucast n, s\<lparr>g_seqno := n\<rparr>)" by (simp add: inc_seqno_def Let_def n_def)
  then show ?thesis by (intro exI [of _ n]) (simp add: rrmap_add_def)
qed

lemma run_register:
  "\<exists>n. run_state (do { r \<leftarrow> rr_new y; seq \<leftarrow> rrmap_add i r; ret (r, seq) }) s =
     ((rr_next s, ucast n), with_record i (ucast n) y (s\<lparr>g_seqno := n\<rparr>))"
proof -
  let ?s = "s\<lparr>rrs := (rrs s)(rr_next s \<mapsto> y), rr_next := Suc (rr_next s)\<rparr>"
  obtain n where "run_state (rrmap_add i (rr_next s)) ?s = (ucast n, ?s\<lparr>g_seqno := n,
      connections := (connections ?s)(i := (connections ?s i)\<lparr>rrmap := smap_put (ucast n) (rr_next s) (rrmap (connections ?s i))\<rparr>)\<rparr>)"
    using run_rrmap_add by blast
  then show ?thesis by (intro exI [of _ n]) (simp add: with_record_def)
qed

lemma run_mem: "\<exists>b m. run_state allocateMemory s = (b, s\<lparr>plugin_mem := m\<rparr>)"
proof (cases "plugin_mem s")
  case Nil
  then have "run_state allocateMemory s = (True, s\<lparr>plugin_mem := []\<rparr>)" by (simp add: run_allocate)
  then show ?thesis by blast
next
  case (Cons b m)
  then have "run_state allocateMemory s = (b, s\<lparr>plugin_mem := m\<rparr>)" by (simp add: allocateMemory_def)
  then show ?thesis by blast
qed

lemma ok_register:
  assumes "records_ok home owner s us ws ds" "elsewhere s s1" "wait_event y = None" "is_session y \<Longrightarrow> rr_count y = 1"
    and "run_state (do { r \<leftarrow> rr_new y; seq \<leftarrow> rrmap_add i r; ret (r, seq) }) s1 = ((r, seq), s')"
  shows "\<exists>home. records_ok home owner s' (if is_session y then (i, r, seq) # us else us) (if is_session y then ws else (i, r, seq) # ws) ds"
proof -
  obtain n where n: "run_state (do { r \<leftarrow> rr_new y; seq \<leftarrow> rrmap_add i r; ret (r, seq) }) s1 =
      ((rr_next s1, ucast n), with_record i (ucast n) y (s1\<lparr>g_seqno := n\<rparr>))"
    using run_register by blast
  have "records_ok home owner (s1\<lparr>g_seqno := n\<rparr>) us ws ds" using ok_elsewhere assms(1,2) elsewhere_fields(4) by blast
  from ok_add [OF this assms(3,4), where i = i and q = "ucast n"] show ?thesis using assms(5) n by auto
qed

lemma ok_open:
  assumes ok: "records_ok home owner s us ws ds" and run: "run_state (new_session i) s = (res, s')"
  shows "case res of Inl c \<Rightarrow> records_ok home owner s' us ws ds
    | Inr (r, seq) \<Rightarrow> \<exists>home. records_ok home owner s' ((i, r, seq) # us) ws ds"
proof -
  obtain b m where a: "run_state allocateMemory s = (b, s\<lparr>plugin_mem := m\<rparr>)" using run_mem by blast
  obtain b' m' where l: "run_state allocateMemory (s\<lparr>plugin_mem := m\<rparr>) = (b', s\<lparr>plugin_mem := m'\<rparr>)"
    using run_mem [of "s\<lparr>plugin_mem := m\<rparr>"] by auto
  have mem: "records_ok home owner (s\<lparr>plugin_mem := m\<rparr>) us ws ds" "records_ok home owner (s\<lparr>plugin_mem := m'\<rparr>) us ws ds"
    using ok ok_elsewhere elsewhere_fields(2) by blast+
  show ?thesis
  proof (cases "b \<and> b'")
    case True
    let ?y = "rr_zero\<lparr>rr_count := 1, is_session := True\<rparr>"
    let ?s = "s\<lparr>plugin_mem := m'\<rparr>"
    let ?s1 = "?s\<lparr>rrs := (rrs s)(rr_next s \<mapsto> ?y), rr_next := Suc (rr_next s)\<rparr>"
    obtain n where n: "run_state (rrmap_add i (rr_next s)) ?s1 = (ucast n, ?s1\<lparr>g_seqno := n,
        connections := (connections ?s1)(i := (connections ?s1 i)\<lparr>rrmap := smap_put (ucast n) (rr_next s) (rrmap (connections ?s1 i))\<rparr>)\<rparr>)"
      using run_rrmap_add by blast
    have "run_state (new_session i) s = (Inr (rr_next s, ucast n), with_record i (ucast n) ?y (s\<lparr>plugin_mem := m', g_seqno := n\<rparr>))"
      using True a l n by (simp add: new_session_def with_record_def)
    moreover have "records_ok home owner (s\<lparr>plugin_mem := m', g_seqno := n\<rparr>) us ws ds"
      using ok ok_elsewhere elsewhere_fields(3) by blast
    from ok_add [OF this, of ?y i "ucast n"] have "\<exists>home. records_ok home owner
        (with_record i (ucast n) ?y (s\<lparr>plugin_mem := m', g_seqno := n\<rparr>)) ((i, rr_next s, ucast n) # us) ws ds"
      by (auto simp: rr_zero_def)
    ultimately show ?thesis using run by simp
  next
    case False
    then show ?thesis using run a l mem by (auto simp: new_session_def split: if_splits)
  qed
qed

lemma ok_count:
  assumes "records_ok home owner s us ws ds" "rrs s r = Some x" "is_session x"
  shows "unat (rr_count x) = uses us r" "uses us r \<le> 20"
  using assms by (auto simp: records_ok_def counts_ok_def)

lemma uses_pos: "h \<in> set us \<Longrightarrow> 0 < uses us (rec_of h)"
  by (metis uses_def count_list_0_iff gr0I imageI list.set_map)

lemma ok_unused:
  assumes ok: "records_ok home owner s us ws ds" and x: "rrs s r = Some x" "is_session x" "rr_count x = 0"
  shows "r \<notin> rec_of ` set us" "r \<notin> rec_of ` set (ws @ ds)"
proof -
  have "uses us r = 0" using ok_count(1) [OF ok x(1,2)] x(3) by simp
  then show "r \<notin> rec_of ` set us" using uses_pos by fastforce
  show "r \<notin> rec_of ` set (ws @ ds)" using ok_frames [OF ok] x(1,2) by fastforce
qed

text \<open>A session that nobody uses is taken out of its map and destroyed.\<close>

lemma ok_drop:
  assumes ok: "records_ok home owner s us ws ds" and x: "rrs s r = Some x" "is_session x" "rr_count x = 0" and home: "home r = (i, q)"
  shows "records_ok home owner (snd (run_state (drop_session i r q) s)) us ws ds"
proof -
  let ?s = "s\<lparr>connections := (connections s)(i := (connections s i)\<lparr>rrmap := smap_erase q (rrmap (connections s i))\<rparr>)\<rparr>"
  have ok': "records_ok home owner ?s us ws ds"
    by (rule ok_unmap [OF ok]) (use ok in \<open>auto simp: records_ok_def maps_ok_def split: if_splits\<close>)
  note ok_unused [OF ok x]
  moreover have "entry ?s j p \<noteq> Some r" for j p using ok_entry [OF ok, of j p r] home by auto
  ultimately have "records_ok home owner (?s\<lparr>rrs := (rrs ?s)(r := None)\<rparr>) us ws ds" by (intro ok_free [OF ok'])
  then show ?thesis using x(1) by (simp add: drop_session_def rrmap_erase_def destroy_session_def)
qed

lemma ok_leave:
  assumes ok: "records_ok home owner s us ws ds" and h: "(i, r, q) \<in> set us" and x: "rrs s r = Some x"
  shows "is_session x" "home r = (i, q)"
    "records_ok home owner (s\<lparr>rrs := (rrs s)(r \<mapsto> x\<lparr>rr_count := rr_count x - 1\<rparr>)\<rparr>) (remove1 (i, r, q) us) ws ds"
proof -
  show sess: "is_session x" and "home r = (i, q)" using ok_users [OF ok h] x by (auto simp: rec_of_def num_of_def)
  have n: "unat (rr_count x) = uses us r" "uses us r \<le> 20" "0 < uses us r"
    using ok_count [OF ok x sess] uses_pos [OF h] by (auto simp: rec_of_def)
  then have "rr_count x \<noteq> 0" by auto
  then have "unat (rr_count x - 1) = uses us r - 1" using n by (simp add: unat_minus_one)
  then show "records_ok home owner (s\<lparr>rrs := (rrs s)(r \<mapsto> x\<lparr>rr_count := rr_count x - 1\<rparr>)\<rparr>) (remove1 (i, r, q) us) ws ds"
    using n sess by (intro ok_recount [OF ok x sess]) (auto simp: uses_remove1 [OF h] rec_of_def dest: notin_set_remove1 [rotated] set_mp [OF set_remove1_subset])
qed

lemma ok_exit:
  assumes ok: "records_ok home owner s us ws ds" and h: "(i, r, q) \<in> set us"
  shows "records_ok home owner (snd (run_state (session_exit i r q) s)) (remove1 (i, r, q) us) ws ds"
    "records_ok home owner (snd (run_state (session_close i r q) s)) (remove1 (i, r, q) us) ws ds"
proof -
  obtain x where x: "rrs s r = Some x" using ok_users [OF ok h] by (auto simp: rec_of_def)
  let ?x = "x\<lparr>rr_count := rr_count x - 1\<rparr>"
  let ?s = "s\<lparr>rrs := (rrs s)(r \<mapsto> ?x)\<rparr>"
  note left = ok_leave [OF ok h x]
  have drop: "rr_count x - 1 = 0 \<Longrightarrow> records_ok home owner (snd (run_state (drop_session i r q) ?s)) (remove1 (i, r, q) us) ws ds"
    using ok_drop [OF left(3), of r ?x i q] left(1,2) by simp
  have kill: "records_ok home owner (?s\<lparr>rrs := (rrs ?s)(r \<mapsto> ?x\<lparr>rr_killed := True\<rparr>)\<rparr>) (remove1 (i, r, q) us) ws ds"
    by (rule ok_write [OF left(3), of r ?x]) simp_all
  show "records_ok home owner (snd (run_state (session_exit i r q) s)) (remove1 (i, r, q) us) ws ds"
    using x left drop by (simp add: session_exit_def bh_do_closeVM_def split_beta)
  show "records_ok home owner (snd (run_state (session_close i r q) s)) (remove1 (i, r, q) us) ws ds"
    using x left drop kill by (simp add: session_close_def bh_do_closeVM_def split_beta)
qed

lemma ok_take:
  assumes ok: "records_ok home owner s us ws ds" and run: "run_state (session_take i q) s = (res, s')"
  shows "records_ok home owner s' (case res of None \<Rightarrow> us | Some r \<Rightarrow> (i, r, q) # us) ws ds"
proof (cases "entry s i q")
  case None
  then show ?thesis using run ok by (auto simp: session_take_def)
next
  case (Some r)
  then obtain x where x: "home r = (i, q)" "rrs s r = Some x" using ok_entry [OF ok Some] by auto
  show ?thesis
  proof (cases "is_session x \<and> \<not> rr_killed x \<and> rr_count x < 20")
    case True
    note c = ok_count [OF ok x(2)]
    have "unat (rr_count x) < 20" using True by (simp add: word_less_nat_alt)
    moreover from this have "unat (rr_count x + 1) = unat (rr_count x) + 1" by (simp add: unat_word_ariths)
    ultimately have "records_ok home owner (s\<lparr>rrs := (rrs s)(r \<mapsto> x\<lparr>rr_count := rr_count x + 1\<rparr>)\<rparr>) ((i, r, q) # us) ws ds"
      using True c x(1) by (intro ok_recount [OF ok x(2)]) (auto simp: rec_of_def num_of_def)
    moreover have "run_state (session_take i q) s = (Some r, s\<lparr>rrs := (rrs s)(r \<mapsto> x\<lparr>rr_count := rr_count x + 1\<rparr>)\<rparr>)"
      using True Some x(2) by (simp add: session_take_def)
    ultimately show ?thesis using run by simp
  next
    case False
    then show ?thesis using run ok Some x(2) by (auto simp: session_take_def)
  qed
qed

section \<open>The receiving thread\<close>

lemma ok_erase:
  assumes ok: "records_ok home owner s us ws ds"
  shows "records_ok home owner
    (s\<lparr>connections := (connections s)(i := (connections s i)\<lparr>rrmap := smap_erase q (rrmap (connections s i))\<rparr>)\<rparr>) us ws ds"
  by (rule ok_unmap [OF ok]) (use ok in \<open>auto simp: records_ok_def maps_ok_def split: if_splits\<close>)

lemma ok_signal_own:
  assumes ok: "records_ok home owner s us ws ds" and x: "rrs s r = Some x" "wait_event x = Some e"
    and r: "is_session x \<or> (\<forall>j p. entry s j p \<noteq> Some r)"
  shows "records_ok home owner (snd (run_state (bh_signal_event e) s)) us ws ds"
proof (rule ok_signal [OF ok])
  fix j p r' x'
  assume a: "entry s j p = Some r'" "rrs s r' = Some x'" "wait_event x' = Some e"
  have "owner e = r" "owner e = r'" using ok x a(2,3) unfolding records_ok_def events_ok_def by metis+
  then show "is_session x'" using r x(1) a(1,2) by auto
qed

lemma ok_kill:
  assumes ok: "records_ok home owner s us ws ds" and x: "rrs s r = Some x" "is_session x" "home r = (i, q)"
  shows "records_ok home owner (snd (run_state (session_kill i r q) s)) us ws ds"
proof -
  let ?x = "x\<lparr>rr_killed := True\<rparr>"
  let ?s = "s\<lparr>rrs := (rrs s)(r \<mapsto> ?x)\<rparr>"
  have ok': "records_ok home owner ?s us ws ds" by (rule ok_write [OF ok x(1)]) simp_all
  have "records_ok home owner (snd (run_state (drop_session i r q) ?s)) us ws ds" if "rr_count x = 0"
    using ok_drop [OF ok', of r ?x i q] x that by simp
  moreover have "elsewhere s' (s'\<lparr>connections := (connections s')(i := if conn_count (connections s' i) = 1 then connections s' i
      else (connections s' i)\<lparr>conn_count := conn_count (connections s' i) - 1\<rparr>)\<rparr>)" for s' :: "'a bhp_state"
    by (simp add: elsewhere_def)
  ultimately show ?thesis using ok' x(1) ok_elsewhere by (fastforce simp: session_kill_def split_beta)
qed

lemma ok_deliver:
  assumes ok: "records_ok home owner s us ws ds" and x: "rrs s r = Some x" "home r = (i, q)"
    and r: "is_session x \<or> (\<forall>j p. entry s j p \<noteq> Some r)"
  shows "records_ok home owner (snd (run_state (deliver i r q addr code data dlen) s)) us ws ds"
proof -
  let ?x = "x\<lparr>rr_buffer := data, rr_length := dlen, rr_code := code, rr_addr := if addr \<noteq> 0 then addr else rr_addr x\<rparr>"
  let ?k = "is_session x \<and> fatal_code code"
  define y where "y = (if ?k then ?x\<lparr>rr_killed := True\<rparr> else ?x)"
  let ?s = "s\<lparr>rrs := (rrs s)(r \<mapsto> y)\<rparr>"
  have y: "is_session y = is_session x" "rr_count y = rr_count x" "wait_event y = wait_event x" by (simp_all add: y_def)
  have ok': "records_ok home owner ?s us ws ds" using y by (intro ok_write [OF ok x(1)]) simp_all
  have "run_state (deliver i r q addr code data dlen) s = run_state (case wait_event x of Some e \<Rightarrow> bh_signal_event e
      | None \<Rightarrow> if ?k then session_kill i r q else ret ()) ?s"
    using x(1) by (cases ?k) (auto simp: deliver_def y_def Let_def)
  moreover have "records_ok home owner (snd (run_state (bh_signal_event e) ?s)) us ws ds" if "wait_event x = Some e" for e
    using that r y by (intro ok_signal_own [OF ok', of r y]) simp_all
  moreover have "records_ok home owner (snd (run_state (session_kill i r q) ?s)) us ws ds" if "is_session x"
    using that x(2) y by (intro ok_kill [OF ok', of r y]) simp_all
  ultimately show ?thesis using ok' by (simp split: option.split)
qed

lemma ok_remove:
  assumes ok: "records_ok home owner s us ws ds" and run: "run_state (rrmap_remove i q) s = (res, s')"
  shows "records_ok home owner s' us ws ds" "res = entry s i q" "rrs s' = rrs s" "entry s' j p = Some r \<Longrightarrow> entry s j p = Some r"
    "entry s i q = Some r \<Longrightarrow> rrs s r = Some x \<Longrightarrow> \<not> is_session x \<Longrightarrow> entry s' j p \<noteq> Some r"
proof -
  let ?s = "s\<lparr>connections := (connections s)(i := (connections s i)\<lparr>rrmap := smap_erase q (rrmap (connections s i))\<rparr>)\<rparr>"
  have "res = entry s i q \<and> (s' = s \<or> s' = ?s)
    \<and> (\<forall>r x. entry s i q = Some r \<longrightarrow> rrs s r = Some x \<longrightarrow> \<not> is_session x \<longrightarrow> s' = ?s)"
  proof (cases "entry s i q")
    case None
    then show ?thesis using run by (simp add: rrmap_remove_def)
  next
    case (Some r)
    then obtain x where "rrs s r = Some x" using ok_entry [OF ok] by blast
    then show ?thesis using run run_rrmap_remove [OF Some, of x] Some by (cases "is_session x") auto
  qed
  then have s': "res = entry s i q" "s' = s \<or> s' = ?s"
    "entry s i q = Some r \<Longrightarrow> rrs s r = Some x \<Longrightarrow> \<not> is_session x \<Longrightarrow> s' = ?s" for r x by blast+
  from s'(1,2) show "res = entry s i q" "records_ok home owner s' us ws ds" "rrs s' = rrs s" "entry s' j p = Some r \<Longrightarrow> entry s j p = Some r"
    using ok ok_erase [OF ok, of i q] by (auto split: if_splits)
  show "entry s' j p \<noteq> Some r" if "entry s i q = Some r" "rrs s r = Some x" "\<not> is_session x"
    using s'(3) [OF that] ok_entry [OF ok that(1)] ok_entry [OF ok, of j p r] by auto
qed

lemma ok_message:
  assumes ok: "records_ok home owner s us ws ds"
  shows "records_ok home owner (snd (run_state (message i q addr code data dlen) s)) us ws ds"
proof -
  obtain res s' where run: "run_state (rrmap_remove i q) s = (res, s')" by fastforce
  note removed = ok_remove [OF ok run]
  have "records_ok home owner (snd (run_state (deliver i r q addr code data dlen) s')) us ws ds" if r: "res = Some r" for r
  proof -
    have "entry s i q = Some r" using r removed(2) by simp
    moreover from this obtain x where "home r = (i, q)" "rrs s r = Some x" using ok_entry [OF ok] by blast
    ultimately show ?thesis using removed(1,3,5) by (intro ok_deliver [where x = x]) auto
  qed
  then show ?thesis using run removed(1) by (simp add: message_def split: option.split)
qed

lemma run_signal_connections:
  "snd (run_state (bh_signal_event e) (s\<lparr>connections := c\<rparr>)) = (snd (run_state (bh_signal_event e) s))\<lparr>connections := c\<rparr>"
  "connections (snd (run_state (bh_signal_event e) s)) = connections s"
  by (simp_all add: bh_signal_event_def)

lemma ok_unblock_one:
  assumes ok: "records_ok home owner s us ws ds" and q: "entry s i q = Some r" and s': "s' = snd (run_state (unblock_one i code (q, r)) s)"
  shows "records_ok home owner s' us ws ds \<and> (\<forall>p. p \<noteq> q \<longrightarrow> entry s' i p = entry s i p)"
proof -
  obtain x where x: "home r = (i, q)" "rrs s r = Some x" using ok_entry [OF ok q] by blast
  let ?s = "\<lambda>y. s\<lparr>rrs := (rrs s)(r \<mapsto> y)\<rparr>"
  let ?x = "x\<lparr>rr_code := code\<rparr>" and ?y = "x\<lparr>rr_code := code, rr_killed := True\<rparr>"
  let ?c = "(connections s)(i := (connections s i)\<lparr>rrmap := smap_erase q (rrmap (connections s i))\<rparr>)"
  have okx: "records_ok home owner (?s ?x) us ws ds" and oky: "records_ok home owner (?s ?y) us ws ds"
    by (rule ok_write [OF ok x(2)]; simp)+
  have "entry (?s ?x\<lparr>connections := ?c\<rparr>) j p \<noteq> Some r" for j p using ok_entry [OF ok, of j p r] x(1) by auto
  then have frame: "records_ok home owner ((snd (run_state (bh_signal_event e) (?s ?x)))\<lparr>connections := ?c\<rparr>) us ws ds"
    if "wait_event x = Some e" for e
    using ok_signal_own [OF ok_erase [OF okx, of i q], of r ?x e] that by (simp add: run_signal_connections(1))
  have sess: "records_ok home owner (snd (run_state (bh_signal_event e) (?s ?y))) us ws ds"
    if "wait_event x = Some e" "is_session x" for e
    using ok_signal_own [OF oky, of r ?y e] that by simp
  have drop: "records_ok home owner (?s ?x\<lparr>connections := ?c, rrs := (rrs s)(r := None)\<rparr>) us ws ds"
    if "is_session x" "rr_count x = 0"
    using ok_drop [OF okx, of r ?x i q] that x by (simp add: drop_session_def rrmap_erase_def destroy_session_def)
  have order: "s\<lparr>rrs := m, connections := c\<rparr> = s\<lparr>connections := c, rrs := m\<rparr>" for m c by simp
  show ?thesis
  proof (cases "wait_event x")
    case None
    then show ?thesis using x(2) okx drop unfolding s'
      by (auto simp: unblock_one_def destroy_session_def rrmap_erase_def order)
  next
    case (Some e)
    then show ?thesis using x(2) frame sess unfolding s'
      by (cases "is_session x") (simp_all add: unblock_one_def rrmap_erase_def split_beta run_signal_connections(2))
  qed
qed

lemma ok_unblock:
  assumes "records_ok home owner s us ws ds" "\<forall>(q, r) \<in> set es. entry s i q = Some r" "distinct (map fst es)"
  shows "records_ok home owner (snd (run_state (for_each (unblock_one i code) es) s)) us ws ds"
  using assms
proof (induction es arbitrary: s)
  case (Cons a es)
  obtain q r where a: "a = (q, r)" by fastforce
  let ?s = "snd (run_state (unblock_one i code (q, r)) s)"
  have "entry s i q = Some r" using Cons.prems(2) a by simp
  note one = ok_unblock_one [OF Cons.prems(1) this refl, of code]
  have "\<forall>(p, r') \<in> set es. entry ?s i p = Some r'" using one Cons.prems(2,3) a by (force simp: image_iff)
  then show ?case using Cons.IH [of ?s] one Cons.prems(3) a by (simp add: split_beta)
qed simp

lemma ok_lost:
  assumes ok: "records_ok home owner s us ws ds"
  shows "records_ok home owner (snd (run_state (unblock_all i code) s)) us ws ds"
proof -
  have inv: "smap_inv (rrmap (connections s i))" by (rule ok_inv [OF ok])
  have "\<forall>(q, r) \<in> set (rrmap (connections s i)). entry s i q = Some r" using tab.entries_find [OF inv] by auto
  then show ?thesis using ok_unblock [OF ok _ smap_inv_distinct [OF inv]] by (simp add: unblock_all_def)
qed

lemma ok_forget:
  assumes ok: "records_ok home owner s us ws ds"
  shows "records_ok home owner (s\<lparr>connections := (connections s)(i := (connections s i)\<lparr>rrmap := []\<rparr>)\<rparr>) us ws ds"
    "records_ok home owner (s\<lparr>connections := (connections s)(i := no_connection)\<rparr>) us ws ds"
  by (rule ok_unmap [OF ok]; use ok in \<open>auto simp: records_ok_def maps_ok_def no_connection_def split: if_splits\<close>)+

section \<open>The threads that wait\<close>

lemma ok_wait_begin:
  assumes ok: "records_ok home owner s us ws ds" and x: "rrs s r = Some x"
  shows "\<exists>owner. records_ok home owner (snd (run_state (wait_begin r) s)) us ws ds"
proof -
  obtain b m where a: "run_state allocateMemory s = (b, s\<lparr>plugin_mem := m\<rparr>)" using run_mem by blast
  have ok': "records_ok home owner (s\<lparr>plugin_mem := m\<rparr>) us ws ds" using ok ok_elsewhere elsewhere_fields(2) by blast
  show ?thesis
  proof (cases b)
    case True
    then show ?thesis using a x ok_new_event [OF ok', of r x] by (auto simp: wait_begin_def bh_create_event_def)
  next
    case False
    have "records_ok home owner (s\<lparr>plugin_mem := m, rrs := (rrs s)(r \<mapsto> x\<lparr>wait_event := None\<rparr>)\<rparr>) us ws ds"
      using ok_write [OF ok', of r x "x\<lparr>wait_event := None\<rparr>"] x by simp
    then show ?thesis using False a x by (auto simp: wait_begin_def bh_create_event_def)
  qed
qed

lemma ok_wait_end:
  assumes ok: "records_ok home owner s us ws ds" and x: "rrs s r = Some x"
  shows "records_ok home owner (snd (run_state (wait_end r e) s)) us ws ds" "connections (snd (run_state (wait_end r e) s)) = connections s"
proof -
  let ?s = "snd (run_state (bh_close_event e) s)"
  have s: "rrs ?s = rrs s" "connections ?s = connections s" by (simp_all add: bh_close_event_def)
  have "records_ok home owner (?s\<lparr>rrs := (rrs ?s)(r \<mapsto> x\<lparr>wait_event := None\<rparr>)\<rparr>) us ws ds"
    using x s by (intro ok_write [OF ok_close_event [OF ok], where x = x]) simp_all
  moreover have "run_state (wait_end r e) s = ((), ?s\<lparr>rrs := (rrs ?s)(r \<mapsto> x\<lparr>wait_event := None\<rparr>)\<rparr>)"
    using x s by (simp add: wait_end_def split_beta)
  ultimately show "records_ok home owner (snd (run_state (wait_end r e) s)) us ws ds"
    "connections (snd (run_state (wait_end r e) s)) = connections s" using s by simp_all
qed

text \<open>A record that has left the maps moves from the commands on their way to those that are over, and is freed when its function returns.\<close>

lemma ok_finish:
  assumes ok: "records_ok home owner s us ws ds" and h: "h \<in> set ws" "\<And>j p. entry s j p \<noteq> Some (rec_of h)"
  shows "records_ok home owner s us (remove1 h ws) (h # ds)"
proof -
  obtain as bs where ws: "ws = as @ h # bs" "h \<notin> set as" using split_list_first [OF h(1)] by blast
  have "maps_ok home s (h # ds)" using ok h(2) by (auto simp: records_ok_def maps_ok_def)
  moreover have "held_ok home s us (remove1 h ws @ h # ds)" using ok ws by (auto simp: records_ok_def held_ok_def remove1_append)
  ultimately show ?thesis using ok by (simp add: records_ok_def)
qed

lemma ok_return:
  assumes ok: "records_ok home owner s us ws ds" and h: "h \<in> set ds"
  shows "records_ok home owner (snd (run_state (rr_free (rec_of h)) s)) us ws (remove1 h ds)"
proof -
  obtain x where x: "rrs s (rec_of h) = Some x" "\<not> is_session x" using ok_frames [OF ok, of h] h by auto
  obtain as bs where ds: "ds = as @ h # bs" "h \<notin> set as" using split_list_first [OF h] by blast
  have "maps_ok home s (remove1 h ds)" using ok ds by (auto simp: records_ok_def maps_ok_def remove1_append)
  moreover have "held_ok home s us (ws @ remove1 h ds)" using ok ds by (auto simp: records_ok_def held_ok_def remove1_append)
  ultimately have "records_ok home owner s us ws (remove1 h ds)" using ok by (simp add: records_ok_def)
  moreover have "entry s j p \<noteq> Some (rec_of h)" for j p using ok_entry [OF ok, of j p "rec_of h"] h by auto
  moreover have "rec_of h \<notin> rec_of ` set us" using ok_users [OF ok] x by fastforce
  moreover have "rec_of h \<notin> rec_of ` set (ws @ remove1 h ds)"
    using ok ds by (auto simp: records_ok_def held_ok_def remove1_append)
  ultimately have "records_ok home owner (s\<lparr>rrs := (rrs s)(rec_of h := None)\<rparr>) us ws (remove1 h ds)" by (intro ok_free)
  then show ?thesis using x(1) by simp
qed

section \<open>Every run\<close>

lemma held_live:
  "records_ok home owner (lib w) (users w) (waiting w) (finished w) \<Longrightarrow> h \<in> held w \<Longrightarrow> \<exists>x. rrs (lib w) (rec_of h) = Some x"
  using ok_users [of home owner "lib w" "users w" "waiting w" "finished w" h] ok_frames [of home owner "lib w" "users w" "waiting w" "finished w" h]
  by (auto simp: held_def)

lemma unmapped_frame:
  assumes ok: "records_ok home owner s us ws ds" and h: "(i, r, q) \<in> set ws" and none: "entry s i q \<noteq> Some r"
  shows "records_ok home owner s us (remove1 (i, r, q) ws) ((i, r, q) # ds)"
proof (rule ok_finish [OF ok h])
  have "home r = (i, q)" using ok_frames [OF ok, of "(i, r, q)"] h by auto
  then show "entry s j p \<noteq> Some (rec_of (i, r, q))" for j p using ok_entry [OF ok, of j p r] none by auto
qed

lemma woken_unmapped:
  assumes ok: "records_ok home owner s us ws ds" and h: "(i, r, q) \<in> set ws" and e: "woken s r e"
  shows "entry s i q \<noteq> Some r" "\<exists>x. rrs s r = Some x"
  using ok_frames [OF ok, of "(i, r, q)"] ok h e by (auto simp: woken_def records_ok_def events_ok_def)

lemma record_step_records:
  assumes "record_step w w'" "records_ok home owner (lib w) (users w) (waiting w) (finished w)"
  shows "\<exists>home owner. records_ok home owner (lib w') (users w') (waiting w') (finished w')"
  using assms
proof (induction rule: record_step.induct)
  case (st_enter i seq w r s')
  then show ?case using ok_take [OF st_enter(2,1)] by auto
next
  case (st_refused i seq w s')
  then show ?case using ok_take [OF st_refused(2,1)] by auto
next
  case (st_exit i r seq w u s')
  then show ?case using ok_exit(1) [OF st_exit(3,1)] by auto
next
  case (st_close i r seq w u s')
  then show ?case using ok_exit(2) [OF st_close(3,1)] by auto
next
  case (st_read h w x s')
  obtain y where "rrs (lib w) (rec_of h) = Some y" using held_live [OF st_read(3,1)] by blast
  then show ?case using st_read(2,3) by auto
next
  case (st_write h w f u s')
  then obtain x where x: "rrs (lib w) (rec_of h) = Some x" using held_live by blast
  then show ?case using ok_write [OF st_write(4) x, of "f x"] st_write(2,3) by (auto simp: own_change_def)
next
  case (st_wait h w u s')
  then obtain x where "rrs (lib w) (rec_of h) = Some x" using held_live [OF st_wait(3), of h] by (auto simp: held_def)
  then show ?case using ok_wait_begin [OF st_wait(3), of "rec_of h" x] st_wait(2) by auto
next
  case (st_unsent i seq w x s')
  then show ?case using ok_remove(1) [OF st_unsent(2,1)] by auto
next
  case (st_answered i r seq w e u s')
  then obtain x where "rrs (lib w) r = Some x" by (auto simp: woken_def split: option.splits)
  then show ?case using ok_wait_end(1) [OF st_answered(4), of r x e] st_answered(3) by auto
next
  case (st_frame_answered i r seq w e u s')
  note un = woken_unmapped [OF st_frame_answered(4,1,2)]
  then obtain x where x: "rrs (lib w) r = Some x" by blast
  note ok = ok_wait_end [OF st_frame_answered(4) x, of e]
  have "entry s' i seq \<noteq> Some r" using un(1) ok(2) st_frame_answered(3) by simp
  then show ?case using unmapped_frame [OF ok(1) st_frame_answered(1)] st_frame_answered(3) by auto
next
  case (st_frame_unsent i r seq w x s')
  obtain y where y: "rrs (lib w) r = Some y" "\<not> is_session y" using ok_frames [OF st_frame_unsent(3), of "(i, r, seq)"] st_frame_unsent(1) by auto
  note ok = ok_remove [OF st_frame_unsent(3,2)]
  have "entry s' i seq \<noteq> Some r" using ok(4) [of i seq r] ok(5) [OF _ y, of i seq] by blast
  then show ?case using unmapped_frame [OF ok(1) st_frame_unsent(1)] by auto
next
  case (st_frame_unknown i r seq w s')
  then have "entry (lib w) i seq \<noteq> Some r" "s' = lib w" by auto
  then show ?case using unmapped_frame [OF st_frame_unknown(3,1)] by (simp; blast)
next
  case (st_return i r seq w u s')
  then show ?case using ok_return [OF st_return(3,1)] by auto
next
  case (st_clear i w u s')
  then show ?case using ok_forget(1) [OF st_clear(2), of i] by auto
next
  case (st_disconnect i w u s')
  then show ?case using ok_forget(2) [OF st_disconnect(2), of i] by auto
next
  case (st_elsewhere w s')
  then show ?case using ok_elsewhere [OF st_elsewhere(2,1)] by auto
qed

lemma step_records:
  assumes "bhp_step w w'" "records_ok home owner (lib w) (users w) (waiting w) (finished w)"
  shows "\<exists>home owner. records_ok home owner (lib w') (users w') (waiting w') (finished w')"
  using assms
proof (induction rule: bhp_step.induct)
  case (st_shared w w')
  then show ?case using record_step_records by blast
next
  case (st_open i w r seq s')
  then show ?case using ok_open [OF st_open(3,1)] by auto
next
  case (st_not_opened i w c s')
  then show ?case using ok_open [OF st_not_opened(2,1)] by auto
next
  case (st_frame i w r seq s')
  then show ?case using ok_register [OF st_frame(3) elsewhere_fields(1) _ _ st_frame(1) [unfolded frame_begin_def]]
    by (auto simp: rr_zero_def)
next
  case (st_message i seq addr code data dlen w u s')
  then show ?case using ok_message [OF st_message(2), of i seq addr code data dlen] by auto
next
  case (st_lost i code w u s')
  then show ?case using ok_lost [OF st_lost(2), of i code] by auto
qed

lemma run_records: "bhp_run e w \<Longrightarrow> \<exists>home owner. records_ok home owner (lib w) (users w) (waiting w) (finished w)"
proof (induction rule: bhp_run.induct)
  case run_start
  have "records_ok (\<lambda>_. (0, 0)) (\<lambda>_. 0) (bhp_new e) [] [] []"
    by (simp add: records_ok_defs bhp_new_def no_connection_def)
  then show ?case by (auto simp: world_new_def)
next
  case (run_step w w')
  then show ?case using step_records by blast
qed

lemma unblock_threads_steps: "unblock_threads i code = do { unblock_all i code; conn_upd i (\<lambda>c. c\<lparr>rrmap := []\<rparr>) }"
  by (simp add: unblock_threads_def unblock_all_def)


text \<open>A session is opened, its user leaves, the applet crashes and the receiving thread destroys the record.\<close>

definition opened :: "unit bhp_state" where "opened = snd (run_state (new_session 3) (bhp_new ()))"
definition left_open :: "unit bhp_state" where "left_open = snd (run_state (session_exit 3 0 1) opened)"
definition crashed :: "unit bhp_state" where "crashed = snd (run_state (message 3 1 0 BHE_APPLET_CRASHED None 0) left_open)"

lemma opened_run: "bhp_run () \<lparr> lib = opened, users = [(3, 0, 1)], waiting = [], finished = [] \<rparr>"
proof -
  have "run_state (new_session 3) (lib (world_new ())) = (Inr (0, 1), opened)"
    by (simp add: opened_def world_new_def bhp_new_def new_session_def run_allocate rrmap_add_def inc_seqno_def)
  then show ?thesis using run_step [OF run_start st_open] by (fastforce simp: world_new_def unused_def held_def bhp_new_def no_connection_def)
qed

lemma left_run: "bhp_run () \<lparr> lib = left_open, users = [], waiting = [], finished = [] \<rparr>"
  using run_step [OF opened_run st_shared, OF st_exit, of 3 0 1 "()" left_open] by (simp add: left_open_def prod_eq_iff)

lemma crashed_run: "bhp_run () \<lparr> lib = crashed, users = [], waiting = [], finished = [] \<rparr>"
  using run_step [OF left_run st_message, of 3 1 0 BHE_APPLET_CRASHED None 0 "()" crashed] by (simp add: crashed_def prod_eq_iff)

lemma crashed_freed: "rr_next crashed = 1" "rrs crashed 0 = None"
  by (simp_all add: crashed_def left_open_def opened_def bhp_new_def new_session_def run_allocate rrmap_add_def inc_seqno_def
    rr_zero_def session_exit_def message_def rrmap_remove_def deliver_def session_kill_def drop_session_def destroy_session_def
    rrmap_erase_def fatal_code_def no_connection_def smap_find_def Let_def)


end
