(* ===== verification/Bh1_Sessions.thy ===== *)
theory Bh1_Sessions
  imports Bh1_Library Bhp_Sessions Bhp_Properties
begin

text \<open>
  The records of the first Beihai library under any number of threads: the steps that both libraries have, on the
  records of \<open>core\<close>, and the ones that differ. No record is used after it was freed. And what the library does when the connection breaks
  while it starts.
\<close>

section \<open>Steps\<close>

record 'e bh1_world =
  bh1 :: "'e bh1_state"
  users1 :: "use list"
  waiting1 :: "use list"
  finished1 :: "use list"

definition core_world :: "'e bh1_world \<Rightarrow> 'e bhp_world" where
  "core_world w = \<lparr> lib = core (bh1 w), users = users1 w, waiting = waiting1 w, finished = finished1 w \<rparr>"

definition with_world :: "'e bhp_world \<Rightarrow> 'e bh1_world \<Rightarrow> 'e bh1_world" where
  "with_world v w = w\<lparr>bh1 := (bh1 w)\<lparr>core := lib v\<rparr>, users1 := users v, waiting1 := waiting v, finished1 := finished v\<rparr>"

definition message1 :: "uint64 \<Rightarrow> uint64 \<Rightarrow> BH_RET \<Rightarrow> byte list option \<Rightarrow> uint32 \<Rightarrow> ('e, unit) bhp" where
  "message1 seq addr code data dlen = do {
     rr \<leftarrow> rrmap_remove 0 seq;
     (case rr of None \<Rightarrow> ret () | Some r \<Rightarrow> deliver1 r addr code data dlen) }"

text \<open>A block from \<^verbatim>\<open>malloc\<close> for a session is taken to hold no event, until a command is sent.\<close>

definition session_record1 :: "'e bh1_state \<Rightarrow> bh_response_record" where
  "session_record1 s = (garbage_record s)\<lparr>rr_count := 1, is_session := True, rr_killed := False\<rparr>"

inductive bh1_step :: "'e bh1_world \<Rightarrow> 'e bh1_world \<Rightarrow> bool" where
  s1_shared: "record_step (core_world w) v \<Longrightarrow> bh1_step w (with_world v w)"
| s1_open: "wait_event (garbage_record (bh1 w)) = None \<Longrightarrow>
    run_state (register1 (session_record1 (bh1 w))) (bh1 w) = ((r, seq), s') \<Longrightarrow> unused (core_world w) seq \<Longrightarrow>
    bh1_step w (w\<lparr>bh1 := s', users1 := (0, r, seq) # users1 w\<rparr>)"
| s1_frame: "run_state (register1 rr_zero) (bh1 w) = ((r, seq), s') \<Longrightarrow> unused (core_world w) seq \<Longrightarrow>
    bh1_step w (w\<lparr>bh1 := s', waiting1 := (0, r, seq) # waiting1 w\<rparr>)"
| s1_message: "run_state (on_core (message1 seq addr code data dlen)) (bh1 w) = (u, s') \<Longrightarrow> bh1_step w (w\<lparr>bh1 := s'\<rparr>)"
| s1_lost: "run_state (on_core (unblock_threads1 code)) (bh1 w) = (u, s') \<Longrightarrow> bh1_step w (w\<lparr>bh1 := s'\<rparr>)"
| s1_elsewhere: "elsewhere (core (bh1 w)) (core s') \<Longrightarrow> bh1_step w (w\<lparr>bh1 := s'\<rparr>)"

definition world1_new :: "byte list \<Rightarrow> bh_response_record \<Rightarrow> 'e \<Rightarrow> 'e bh1_world" where
  "world1_new pad x e = \<lparr> bh1 = bh1_new pad x e, users1 = [], waiting1 = [], finished1 = [] \<rparr>"

inductive bh1_run :: "byte list \<Rightarrow> bh_response_record \<Rightarrow> 'e \<Rightarrow> 'e bh1_world \<Rightarrow> bool" for pad x e where
  run1_start: "bh1_run pad x e (world1_new pad x e)"
| run1_step: "bh1_run pad x e w \<Longrightarrow> bh1_step w w' \<Longrightarrow> bh1_run pad x e w'"

section \<open>Every step keeps the records\<close>

lemma run_on_core [simp]: "run_state (on_core m) s = (fst (run_state m (core s)), s\<lparr>core := snd (run_state m (core s))\<rparr>)"
  by (simp add: on_core_def zoom_def split_beta)

lemma run_register1:
  "run_state (register1 y) s = ((rr_next (core s), seqno s), s\<lparr>seqno := seqno s + 1, core := with_record 0 (seqno s) y (core s)\<rparr>)"
  by (simp add: register1_def rrmap_add1_def with_record_def)

lemma ok_deliver1:
  assumes ok: "records_ok home owner s us ws ds" and x: "rrs s r = Some x"
    and r: "is_session x \<or> (\<forall>j p. entry s j p \<noteq> Some r)"
  shows "records_ok home owner (snd (run_state (deliver1 r addr code data dlen) s)) us ws ds"
proof -
  define y where "y = x\<lparr>rr_buffer := data, rr_length := dlen, rr_code := code, rr_addr := if addr \<noteq> 0 then addr else rr_addr x\<rparr>"
  let ?s = "s\<lparr>rrs := (rrs s)(r \<mapsto> y)\<rparr>"
  have y: "is_session y = is_session x" "rr_count y = rr_count x" "wait_event y = wait_event x" by (simp_all add: y_def)
  have ok': "records_ok home owner ?s us ws ds" using y by (intro ok_write [OF ok x]) simp_all
  have "records_ok home owner (snd (run_state (bh_signal_event e) ?s)) us ws ds" if "wait_event x = Some e" for e
    using that r y by (intro ok_signal_own [OF ok', of r y]) simp_all
  moreover have "run_state (deliver1 r addr code data dlen) s =
      run_state (case wait_event x of None \<Rightarrow> ret () | Some e \<Rightarrow> bh_signal_event e) ?s"
    using x by (simp add: deliver1_def y_def)
  ultimately show ?thesis using ok' by (simp split: option.split)
qed

lemma ok_message1:
  assumes ok: "records_ok home owner s us ws ds"
  shows "records_ok home owner (snd (run_state (message1 q addr code data dlen) s)) us ws ds"
proof -
  obtain res s' where run: "run_state (rrmap_remove 0 q) s = (res, s')" by fastforce
  note removed = ok_remove [OF ok run]
  have "records_ok home owner (snd (run_state (deliver1 r addr code data dlen) s')) us ws ds" if r: "res = Some r" for r
  proof -
    have e: "entry s 0 q = Some r" using r removed(2) by simp
    then obtain x where "rrs s r = Some x" using ok_entry [OF ok] by blast
    then show ?thesis using removed(1,3,5) e by (intro ok_deliver1 [where x = x]) auto
  qed
  then show ?thesis using run removed(1) by (simp add: message1_def split: option.split)
qed

text \<open>
  The loop of \<^verbatim>\<open>unblock_threads\<close> leaves entries of destroyed records behind until it clears the map. It does not look at the
  map, so that the records may be looked at with the entries that are left.
\<close>

definition keep_map :: "(uint64, nat) smap \<Rightarrow> 'e bhp_state \<Rightarrow> 'e bhp_state" where
  "keep_map m s = s\<lparr>connections := (connections s)(0 := (connections s 0)\<lparr>rrmap := m\<rparr>)\<rparr>"

lemma keep_map_fields [simp]:
  "rrs (keep_map m s) = rrs s" "rr_next (keep_map m s) = rr_next s" "plugin_fault (keep_map m s) = plugin_fault s"
  "evts (keep_map m s) = evts s" "evt_next (keep_map m s) = evt_next s"
  "rrmap (connections (keep_map m s) i) = (if i = 0 then m else rrmap (connections s i))"
  by (simp_all add: keep_map_def)

lemma keep_map_same: "keep_map (rrmap (connections s 0)) s = s"
  by (simp add: keep_map_def)

lemma keep_map_rrs: "keep_map m (s\<lparr>rrs := f\<rparr>) = (keep_map m s)\<lparr>rrs := f\<rparr>"
  by (simp add: keep_map_def)

lemma keep_map_signal: "snd (run_state (bh_signal_event e) (keep_map m s)) = keep_map m (snd (run_state (bh_signal_event e) s))"
  by (simp add: keep_map_def bh_signal_event_def)

definition after_wake :: "BH_RET \<Rightarrow> nat \<Rightarrow> bh_response_record \<Rightarrow> 'e bhp_state \<Rightarrow> 'e bhp_state" where
  "after_wake code r x s = (let s1 = s\<lparr>rrs := (rrs s)(r \<mapsto> x\<lparr>rr_code := code, rr_killed := rr_killed x \<or> is_session x\<rparr>)\<rparr> in
     case wait_event x of None \<Rightarrow> s1 | Some e \<Rightarrow> snd (run_state (bh_signal_event e) s1))"

lemma after_wake_fields [simp]:
  "rrs (after_wake code r x s) = (rrs s)(r \<mapsto> x\<lparr>rr_code := code, rr_killed := rr_killed x \<or> is_session x\<rparr>)"
  "connections (after_wake code r x s) = connections s"
  by (simp_all add: after_wake_def bh_signal_event_def Let_def split: option.split)

lemma run_unblock_one1:
  assumes x: "rrs s r = Some x"
  shows "snd (run_state (unblock_one1 code (q, r)) s) = (let s' = after_wake code r x s in
     if is_session x \<and> rr_count x = 0 then s'\<lparr>rrs := (rrs s')(r := None)\<rparr> else s')"
proof -
  let ?y = "x\<lparr>rr_code := code, rr_killed := rr_killed x \<or> is_session x\<rparr>"
  define s1 where "s1 = s\<lparr>rrs := (rrs s)(r \<mapsto> ?y)\<rparr>"
  have up: "run_state (rr_upd r (\<lambda>x. x\<lparr>rr_code := code, rr_killed := rr_killed x \<or> is_session x\<rparr>)) s = ((), s1)"
    using x by (simp add: s1_def)
  have wake: "run_state (case wait_event x of None \<Rightarrow> ret () | Some e \<Rightarrow> bh_signal_event e) s1 = ((), after_wake code r x s)"
    by (auto simp: after_wake_def s1_def prod_eq_iff split: option.split)
  have "rrs s1 r = Some ?y" by (simp add: s1_def)
  then show ?thesis by (simp add: unblock_one1_def destroy_session_def up wake Let_def)
qed

lemma keep_map_unblock:
  assumes "rrs s r = Some x"
  shows "snd (run_state (unblock_one1 code (q, r)) (keep_map m s)) = keep_map m (snd (run_state (unblock_one1 code (q, r)) s))"
proof -
  have "after_wake code r x (keep_map m s) = keep_map m (after_wake code r x s)"
    by (simp add: after_wake_def Let_def keep_map_rrs [symmetric] keep_map_signal split: option.split)
  then show ?thesis using assms by (simp add: run_unblock_one1 Let_def keep_map_rrs)
qed

lemma ok_unblock_one1:
  assumes ok: "records_ok home owner s us ws ds" and x: "rrs s r = Some x" and un: "\<And>j p. entry s j p \<noteq> Some r"
  shows "records_ok home owner (snd (run_state (unblock_one1 code (q, r)) s)) us ws ds"
proof -
  let ?y = "x\<lparr>rr_code := code, rr_killed := rr_killed x \<or> is_session x\<rparr>"
  let ?s = "s\<lparr>rrs := (rrs s)(r \<mapsto> ?y)\<rparr>"
  have ok1: "records_ok home owner ?s us ws ds" by (rule ok_write [OF ok x]) simp_all
  have ok2: "records_ok home owner (after_wake code r x s) us ws ds"
    using ok1 ok_signal_own [OF ok1, of r ?y] un by (auto simp: after_wake_def Let_def split: option.split)
  have "records_ok home owner ((after_wake code r x s)\<lparr>rrs := (rrs (after_wake code r x s))(r := None)\<rparr>) us ws ds"
    if "is_session x" "rr_count x = 0"
    using that un ok_unused [OF ok2, of r ?y] by (intro ok_free [OF ok2]) simp_all
  then show ?thesis using ok2 x by (simp add: run_unblock_one1 Let_def)
qed

lemma ok_unblock1:
  assumes "records_ok home owner (keep_map es s) us ws ds"
  shows "records_ok home owner (keep_map [] (snd (run_state (for_each (unblock_one1 code) es) s))) us ws ds"
  using assms
proof (induction es arbitrary: s)
  case Nil
  then show ?case by simp
next
  case (Cons a es)
  obtain q r where a: "a = (q, r)" by fastforce
  have inv: "smap_inv (a # es)" using ok_inv [OF Cons.prems, of 0] by simp
  then have keys: "q \<notin> fst ` set es" "smap_inv es" using smap_inv_distinct [OF inv] a by (auto simp: smap_inv_def)
  then have none: "map_of es q = None" by (simp add: map_of_eq_None_iff)
  have ok: "records_ok home owner (keep_map es s) us ws ds"
  proof (rule ok_unmap [OF Cons.prems])
    show "smap_inv (rrmap (connections (keep_map es s) i))" for i
      using ok_inv [OF Cons.prems, of i] keys(2) by (cases "i = 0") simp_all
    show "entry (keep_map es s) i p = Some r' \<Longrightarrow> entry (keep_map (a # es) s) i p = Some r'" for i p r'
      using none a by (auto simp: smap_find_def split: if_splits)
  qed simp_all
  have q: "entry (keep_map (a # es) s) 0 q = Some r" using a by (simp add: smap_find_def)
  obtain x where x: "home r = (0, q)" "rrs s r = Some x" using ok_entry [OF Cons.prems q] by auto
  have "entry (keep_map es s) j p \<noteq> Some r" for j p
  proof
    assume e: "entry (keep_map es s) j p = Some r"
    then have "j = 0" "p = q" using ok_entry [OF ok e] x(1) by simp_all
    then show False using e none by (simp add: smap_find_def)
  qed
  then have "records_ok home owner (keep_map es (snd (run_state (unblock_one1 code (q, r)) s))) us ws ds"
    using ok_unblock_one1 [OF ok, of r x code q] x(2) keep_map_unblock [OF x(2)] by simp
  then show ?case using Cons.IH a by (simp add: split_beta)
qed

lemma ok_lost1:
  assumes ok: "records_ok home owner s us ws ds"
  shows "records_ok home owner (snd (run_state (unblock_threads1 code) s)) us ws ds"
proof -
  have "snd (run_state (unblock_threads1 code) s) =
      keep_map [] (snd (run_state (for_each (unblock_one1 code) (rrmap (connections s 0))) s))"
    by (simp add: unblock_threads1_def keep_map_def split_beta)
  then show ?thesis using ok_unblock1 [of home owner "rrmap (connections s 0)" s] ok by (simp add: keep_map_same)
qed

section \<open>Every run\<close>

lemma step1_records:
  assumes "bh1_step w w'" "records_ok home owner (core (bh1 w)) (users1 w) (waiting1 w) (finished1 w)"
  shows "\<exists>home owner. records_ok home owner (core (bh1 w')) (users1 w') (waiting1 w') (finished1 w')"
  using assms
proof (induction rule: bh1_step.induct)
  case (s1_shared w v)
  then show ?case using record_step_records [OF s1_shared(1), of home owner] by (simp add: core_world_def with_world_def)
next
  case (s1_open w r seq s')
  have "r = rr_next (core (bh1 w))" "core s' = with_record 0 seq (session_record1 (bh1 w)) (core (bh1 w))"
    using s1_open(2) by (auto simp: run_register1)
  then show ?case using ok_add [OF s1_open(4), of "session_record1 (bh1 w)" 0 seq] s1_open(1)
    by (simp add: session_record1_def) blast
next
  case (s1_frame w r seq s')
  have "r = rr_next (core (bh1 w))" "core s' = with_record 0 seq rr_zero (core (bh1 w))"
    using s1_frame(1) by (auto simp: run_register1)
  then show ?case using ok_add [OF s1_frame(3), of rr_zero 0 seq] by (simp add: rr_zero_def) blast
next
  case (s1_message seq addr code data dlen w u s')
  then have "s' = (bh1 w)\<lparr>core := snd (run_state (message1 seq addr code data dlen) (core (bh1 w)))\<rparr>" by simp
  then show ?case using ok_message1 [OF s1_message(2), of seq addr code data dlen] by (simp; blast)
next
  case (s1_lost code w u s')
  then have "s' = (bh1 w)\<lparr>core := snd (run_state (unblock_threads1 code) (core (bh1 w)))\<rparr>" by simp
  then show ?case using ok_lost1 [OF s1_lost(2), of code] by (simp; blast)
next
  case (s1_elsewhere w s')
  then show ?case using ok_elsewhere [OF s1_elsewhere(2,1)] by auto
qed

lemma run1_records:
  "bh1_run pad x e w \<Longrightarrow> \<exists>home owner. records_ok home owner (core (bh1 w)) (users1 w) (waiting1 w) (finished1 w)"
proof (induction rule: bh1_run.induct)
  case run1_start
  then show ?case using run_records [OF run_start, of e] by (simp add: world1_new_def bh1_new_def world_new_def)
next
  case (run1_step w w')
  then show ?case using step1_records by blast
qed


text \<open>A session is opened, the connection breaks while it is in use, and its last user destroys it.\<close>

definition opened1 :: "unit bh1_state" where
  "opened1 = snd (run_state (register1 (session_record1 (bh1_new [] rr_zero ()))) (bh1_new [] rr_zero ()))"
definition lost1 :: "unit bh1_state" where "lost1 = snd (run_state (on_core (unblock_threads1 BPE1_COMMS_ERROR)) opened1)"
definition left1 :: "unit bh1_state" where "left1 = lost1\<lparr>core := snd (run_state (session_exit 0 0 1000) (core lost1))\<rparr>"

lemma opened1_run: "bh1_run [] rr_zero () \<lparr> bh1 = opened1, users1 = [(0, 0, 1000)], waiting1 = [], finished1 = [] \<rparr>"
proof -
  have "run_state (register1 (session_record1 (bh1 (world1_new [] rr_zero ())))) (bh1 (world1_new [] rr_zero ())) = ((0, 1000), opened1)"
    by (simp add: opened1_def world1_new_def bh1_new_def bhp_new_def run_register1)
  from run1_step [OF run1_start s1_open [OF _ this]] show ?thesis
    by (simp add: world1_new_def bh1_new_def bhp_new_def rr_zero_def unused_def held_def core_world_def no_connection_def)
qed

lemma lost1_run: "bh1_run [] rr_zero () \<lparr> bh1 = lost1, users1 = [(0, 0, 1000)], waiting1 = [], finished1 = [] \<rparr>"
  using run1_step [OF opened1_run s1_lost, of BPE1_COMMS_ERROR "()" lost1] by (simp add: lost1_def)

lemma left1_run: "bh1_run [] rr_zero () \<lparr> bh1 = left1, users1 = [], waiting1 = [], finished1 = [] \<rparr>"
proof -
  let ?w = "\<lparr> bh1 = lost1, users1 = [(0, 0, 1000)], waiting1 = [], finished1 = [] \<rparr>"
  have "record_step (core_world ?w) ((core_world ?w)\<lparr>lib := core left1, users := remove1 (0, 0, 1000) (users (core_world ?w))\<rparr>)"
    by (rule st_exit [where u = "()"]) (simp_all add: core_world_def left1_def prod_eq_iff)
  from run1_step [OF lost1_run s1_shared [OF this]] show ?thesis by (simp add: with_world_def core_world_def left1_def)
qed

lemma left1_freed: "rr_next (core left1) = 1" "rrs (core left1) 0 = None"
  by (simp_all add: left1_def lost1_def opened1_def bh1_new_def bhp_new_def run_register1 with_record_def session_record1_def rr_zero_def
    unblock_threads1_def unblock_one1_def session_exit_def drop_session_def destroy_session_def rrmap_erase_def no_connection_def)


section \<open>A connection lost at the start\<close>

lemma wait_in_vain:
  assumes "evts (core u) e = Some False" "recv_thread1 u = Running" "init_state1 u = DEINITED" "tdesc u = h" "h \<noteq> 0"
    and "tx_recv t (ucast h) 32 (fw (core u)) = (None, e2)"
  shows "\<exists>f th. run_state (bh_event_wait t n e) u = ((), u\<lparr>core := (core u)\<lparr>fw := f, hung := True\<rparr>, recv_thread1 := th\<rparr>)"
proof (cases n)
  case 0
  then show ?thesis using assms by (intro exI [of _ "fw (core u)"] exI [of _ Running]) (simp add: hang_def)
next
  case (Suc m)
  define f where "f = (if fuel t = 0 then fw (core u) else e2)"
  have "\<exists>hg. run_state (bh_transport_recv1 t 32) u = (None, u\<lparr>core := (core u)\<lparr>fw := f, hung := hg\<rparr>\<rparr>)"
  proof (cases "fuel t")
    case 0
    then show ?thesis using assms(4,5) by (intro exI [of _ True]) (simp add: bh_transport_recv1_def hang_def f_def)
  next
    case (Suc k)
    then show ?thesis using assms(4-6) by (intro exI [of _ "hung (core u)"]) (simp add: bh_transport_recv1_def f_def run_on_fw)
  qed
  then obtain hg where "run_state (bh_transport_recv1 t 32) u = (None, u\<lparr>core := (core u)\<lparr>fw := f, hung := hg\<rparr>\<rparr>)" by blast
  then have turn: "run_state (recv_thread_turn t) u = ((), u\<lparr>core := (core u)\<lparr>fw := f, hung := hg\<rparr>, recv_thread1 := Ended\<rparr>)"
    using assms(3) by (simp add: recv_thread_turn_def bh_recv_message1_def)
  have "run_state (bh_event_wait t k e) (u\<lparr>core := (core u)\<lparr>fw := f, hung := hg\<rparr>, recv_thread1 := Ended\<rparr>) =
      ((), u\<lparr>core := (core u)\<lparr>fw := f, hung := True\<rparr>, recv_thread1 := Ended\<rparr>)" for k
    using assms(1) by (cases k) (simp_all add: hang_def)
  then show ?thesis using Suc turn assms(1,2) by (intro exI [of _ f] exI [of _ Ended]) simp
qed

text \<open>
  C16: When the connection breaks while \<^verbatim>\<open>BH_PluginInit\<close> waits for the answer to the reset, the receiving thread ends without waking
  anybody, since the library is not marked as initialized yet: the call does not return, and the service does not start.
\<close>

theorem start_hangs_on_lost_connection:
  assumes "init_state1 s = DEINITED" "recv_thread1 s = No_thread" "plugin_mem (core s) = []" "h \<noteq> 0"
    and "tx_send t (ucast h) (command_bytes1 (garbage s) 8 [] [] (seqno s)) (fw (core s)) = (True, e1)"
    and "tx_recv t (ucast h) 32 e1 = (None, e2)"
  shows "hung (core (snd (run_state (plugin_init t h True) s)))"
proof -
  let ?r = "rr_next (core s)" and ?e = "evt_next (core s)"
  define u where "u = s\<lparr>tdesc := h, handle1 := h, recv_thread1 := Running, seqno := seqno s + 1,
    core := (core s)\<lparr>rr_next := Suc ?r, connections := (connections (core s))(0 := (connections (core s) 0)\<lparr>rrmap := [(seqno s, ?r)]\<rparr>),
      evts := (evts (core s))(?e \<mapsto> False), evt_next := Suc ?e,
      rrs := (rrs (core s))(?r \<mapsto> rr_zero\<lparr>rr_buffer := None, rr_length := 0, wait_event := Some ?e\<rparr>), fw := e1\<rparr>\<rparr>"
  obtain f th where w: "run_state (bh_event_wait t (fuel t) ?e) u = ((), u\<lparr>core := (core u)\<lparr>fw := f, hung := True\<rparr>, recv_thread1 := th\<rparr>)"
    using wait_in_vain [of u ?e h t e2 "fuel t"] assms by (auto simp: u_def)
  have "rr_code rr_zero = 0" by (simp add: rr_zero_def)
  then show ?thesis using assms w
    by (simp add: plugin_init_def init1_def bh_transport_init_def reset1_def proxy_call1_def run_register1 bh_send_message1_def
      send_message1_def with_record_def smap_find_def bh_transport_send1_def run_on_fw run_allocate u_def bh_close_event_def)
qed

theorem start_hangs_on_lost_connection_witness:
  "hung (core (snd (run_state (plugin_init (dal_transport 100) 5 True) (bh1_new [0, 0, 0, 0] rr_zero ((sample_dal [])\<lparr>dal_input := [None]\<rparr>)))))"
proof -
  let ?s = "bh1_new [0, 0, 0, 0] rr_zero ((sample_dal [])\<lparr>dal_input := [None]\<rparr>)"
  let ?d = "command_bytes1 [0, 0, 0, 0] 8 [] [] 1000"
  have "tx_send (dal_transport 100) 5 ?d (fw (core ?s)) = (True, snd (tx_send (dal_transport 100) 5 ?d (fw (core ?s))))" by code_simp
  moreover have "tx_recv (dal_transport 100) 5 32 (snd (tx_send (dal_transport 100) 5 ?d (fw (core ?s)))) =
      (None, snd (tx_recv (dal_transport 100) 5 32 (snd (tx_send (dal_transport 100) 5 ?d (fw (core ?s))))))" by code_simp
  ultimately show ?thesis by (intro start_hangs_on_lost_connection) (simp_all add: bh1_new_def bhp_new_def)
qed

end
