(* ===== verification/Spec2Isabelle.thy ===== *)
theory Spec2Isabelle
  imports Session_Properties Client_Events Read_Write_Lock Tee_Management Command_Server Beihai_Properties Dal_Device
    Fw_Info Acp_Properties Bhp_Properties Bh1_Sessions
begin

text \<open>
  A verification development of the host interface of the Dynamic Application Loader (JHI), Linux build.

  \<^bold>\<open>The program.\<close> Applets run on a virtual machine in the firmware. A service (\<^verbatim>\<open>src/service\<close>) keeps the
  applets installed on the host, opens sessions with them for the applications and passes messages to and
  fro. An application links the client library (\<^verbatim>\<open>src/libjhi\<close>, and \<^verbatim>\<open>src/teemanagement\<close> for the security domains), which
  sends each call as a command over a local socket; a thread of the service reads the command, the
  dispatcher decodes it, a handler \<^verbatim>\<open>jhis_...\<close> carries it out on the tables of sessions and applets and on the
  repository of files, through a plugin (\<^verbatim>\<open>src/plugins\<close>) that talks to the firmware, and the answer goes back
  the same way. Events of an applet come through a spooler session: a listener thread of the service puts them
  in the queue of their session and wakes the application, whose listener thread fetches them.

  \<^bold>\<open>Foundations.\<close> \<open>Jhi_Prelude\<close>: state monad, specifications and frames (\<open>spec\<close>, \<open>preserves\<close>, \<open>frames\<close>) with their rule
  collections \<open>spec_intros\<close>, \<open>pres_intros\<close>, \<open>run_simps\<close>. \<open>Std_Map\<close>: \<^verbatim>\<open>std::map\<close> as a sorted association list, with a
  locale of map laws and its interpretation. \<open>Jhi_Types\<close>: codes, identifiers and their order, records of
  \<^verbatim>\<open>common/include\<close>. \<open>Byte_Layout\<close>: little-endian fields, bounded reads (\<open>Overread\<close>), C strings. \<open>File_System\<close>: files and
  outcomes of the environment (an exhausted list of outcomes means success).

  \<^bold>\<open>The service.\<close>
  \<^item> \<open>Misc_Util\<close>: \<^verbatim>\<open>common/misc.cpp\<close> (identifiers, trimming, process start times, file copies, status translation).
  \<^item> \<open>Sessions_Manager\<close>: the class \<^verbatim>\<open>SessionsManager\<close>: one definition per method, the invariant of the table, the event
    queue as a refinement of a bounded queue (locale and interpretation), owners, locks, least recent use.
  \<^item> \<open>Globals_Manager\<close>, \<open>Package_Reader\<close>, \<open>Config_File\<close>, \<open>Jhi_Event\<close>: \<^verbatim>\<open>GlobalsManager.cpp\<close> with \<^verbatim>\<open>jhi_plugin_loader.cpp\<close>,
    \<^verbatim>\<open>AppletsPackageReader.cpp\<close>, \<^verbatim>\<open>reg-linux.cpp\<close>, \<^verbatim>\<open>jhi_event_linux.cpp\<close>.
  \<^item> \<open>Service_State\<close>: the state of the service and the plugin interface; \<open>Session_Service\<close>, \<open>Applets_Manager\<close>, \<open>Applet_Service\<close>: the
    handlers of \<^verbatim>\<open>closeSession.cpp\<close>, \<^verbatim>\<open>getSessionStat.cpp\<close>, \<^verbatim>\<open>AppletsManager.cpp\<close>, \<^verbatim>\<open>install.cpp\<close>, \<^verbatim>\<open>uninstall.cpp\<close>,
    \<^verbatim>\<open>SendCmdPkg.cpp\<close>, \<^verbatim>\<open>createSession.cpp\<close>, \<^verbatim>\<open>appProp.cpp\<close>, \<^verbatim>\<open>getSCount.cpp\<close>, \<^verbatim>\<open>sar.cpp\<close>, each whole, its gotos as branches.
    \<open>Service_Properties\<close>, \<open>Session_Properties\<close>: what they do on each branch. \<open>Handler_Invariants\<close>: what every handler keeps.
  \<^item> \<open>Event_Manager\<close>, \<open>Service_Init\<close>, \<open>Life_Cycle\<close>: \<^verbatim>\<open>EventManager.cpp\<close>, \<^verbatim>\<open>init.cpp\<close>, \<^verbatim>\<open>JHIMain.cpp\<close>: start-up in stages, reset,
    the listener thread and delivery of events. \<open>Fw_Info\<close>: \<^verbatim>\<open>FWInfoLinux.cpp\<close>, which start-up asks for the version of the firmware.
  \<^item> \<open>Command_Dispatcher\<close>: \<^verbatim>\<open>CommandDispatcher.cpp\<close>: decoders, handlers' answers, the dispatch. \<open>Command_Properties\<close>: no
    decoder reads outside of a command (with the one exception), and decoding undoes the client's encoding.
  \<^item> \<open>Service_Run\<close>: all of this as a step relation; the invariant of every reachable state.
  \<^item> \<open>Command_Server\<close>: \<^verbatim>\<open>CommandsServerSocketsLinux.cpp\<close>, the semaphore and \<^verbatim>\<open>jhi_main\<close>: the accepting thread and the
    connection threads in every interleaving. \<open>Read_Write_Lock\<close>: \<^verbatim>\<open>ReadWriteLockPThread.cpp\<close> statement by statement on
    any number of threads: exclusion and progress.

  \<^bold>\<open>The client.\<close> \<open>Command_Invoker\<close>: \<^verbatim>\<open>CommandInvoker.cpp\<close>. \<open>Command_Sockets\<close>: both ends of the transport over streams that
    deliver in pieces. \<open>Client_Calls\<close>: a locale for a channel that serves commands, its interpretation on the socket
    transport with the service at the other end, and calls that refine the service's handlers.
    \<open>Client_Library\<close>: \<^verbatim>\<open>jhi.cpp\<close> with its heap of session handles, event objects and flags and its listener threads;
    \<open>Client_Invariant\<close> and \<open>Client_Safety\<close>: the invariant of the heap, and that no freed object is used; \<open>Client_Events\<close>: a woken
    listener delivers its queue. \<open>Tee_Management\<close>: \<^verbatim>\<open>teemanagement.cpp\<close>.

  \<^bold>\<open>The plugins.\<close> \<open>Beihai_Status\<close>, \<open>Beihai_Common\<close>, \<open>Beihai_Plugin\<close>: \<^verbatim>\<open>bhplugin2/jhi_plugin.cpp\<close> as an instance of the interface of
    \<open>Service_State\<close>, over the functions of the Beihai library as a parameter. \<open>Beihai_Properties\<close>: what the service needs of
    a plugin holds for this one, so that the invariant of the service holds over it without a hypothesis.
    \<open>Beihai_V1\<close>, \<open>Beihai_V1_Properties\<close>: the same for \<^verbatim>\<open>bhplugin1/jhi_plugin.cpp\<close>. \<open>Dal_Device\<close>: the transport over the kernel's
    DAL device (\<^verbatim>\<open>src/teetransport\<close>), a message sent completely or not reported as sent, and the first plugin over it.

  \<^bold>\<open>The second Beihai library\<close> (\<^verbatim>\<open>src/thirdparty/bhplugin2\<close>), between the plugin and the transport.
  \<^item> \<open>Acp_Package\<close>: the parser of command packages (\<^verbatim>\<open>admin_pack_int.c\<close>, \<^verbatim>\<open>admin_pack_ext.c\<close>) with its pointers on 64-bit addresses.
    \<open>Acp_Format\<close>: the format as a grammar of sections, and the parser's equality with it. \<open>Acp_Properties\<close>: no read outside
    of a package, and round trips with the package the plugin builds and with packages that install an applet.
  \<^item> \<open>Bhp_Core\<close>, \<open>Bhp_Connections\<close>: \<^verbatim>\<open>bhp_impl.cpp\<close>: response records, sessions, sending, the receiving thread, connections, start and
    reset. \<open>Bhp_Applets\<close>: \<^verbatim>\<open>bhp_impl_ta.cpp\<close>. \<open>Bhp_Admin\<close>: \<^verbatim>\<open>bhp_impl_admin.cpp\<close>, and the library as an instance of what \<open>Beihai_Plugin\<close> calls.
    A call of these definitions runs by itself, with the receiving thread of its connection while it waits.
  \<^item> \<open>Bhp_Exchange\<close>: a command and its answer over a transport that is a stream of bytes (locale \<open>byte_stream\<close>). \<open>Bhp_Properties\<close>: the
    DAL device is such a stream, and the applet's answer reaches the service.
  \<^item> \<open>Bhp_Sessions\<close>: the critical sections of the library as the steps of any number of threads; no record is used after it was freed.

  \<^bold>\<open>The first Beihai library\<close> (\<^verbatim>\<open>src/thirdparty/bhplugin1\<close>). \<open>Bh1_Library\<close>: \<^verbatim>\<open>BeihaiPlugin.cpp\<close>, on the records of \<open>Bhp_Core\<close>, as an instance of what
    \<open>Beihai_V1\<close> calls. \<open>Bh1_Sessions\<close>: its records under any number of threads, with the steps that both libraries share, and a start that does not end.

  \<^bold>\<open>State and atomicity.\<close> A C++ object is a record, passed through the state monad; a fallible call returns its
  code; undefined behaviour (reads outside of a block, through a null or a freed pointer) is a value of its
  own (\<open>Overread\<close>, \<open>Undefined\<close>, \<open>fault\<close>, \<open>plugin_fault\<close>). A handler of the service is one step of the relations of runs: the
  interleavings inside of handlers are not modelled, those of the lock, of the command server, of the Beihai
  library's records and of the client's listeners between calls are. Integers have the width of the source.

  \<^bold>\<open>Loops and fuel.\<close> Most loops are total functions. \<^verbatim>\<open>blockedRecv\<close> and \<open>dal_send_loop\<close> end by their measures; a wait for events that may
  not end is a relation or has fuel: the service's listener loop (\<open>listener_loop\<close>, an iteration at a time in the
  runs), the client's \<open>retriveEventData\<close> and \<open>listener_turns\<close>. Fuel larger than the queue is enough for \<open>retriveEventData\<close>, and that is
  proved; the queue has at most 100 events. In the Beihai library receiving, waiting for an answer and joining a thread have
  the field \<open>fuel\<close> of the transport, and a call that runs out of it sets \<open>hung\<close>; a turn takes a byte at least, so that as much fuel as the answer has bytes is
  enough, and that is proved with the delivery of answers. The firmware version is asked for three times, as in the source. A call of
  the lock runs at most seven statements, which bounds its progress.

  \<^bold>\<open>Not modelled.\<close> The Windows and Android builds and the emulation build (\<^verbatim>\<open>SCHANNEL_OVER_SOCKET\<close>); tracing; destructors run at
  process exit; native applets and the second virtual machine of the second Beihai library, which its build leaves out; the transports over libtee and over
  sockets; the XML reader (a layer over libxml2, a parameter); tests and bindings.
\<close>

end
